(* ===== verification/GoPrelude.thy ===== *)
theory GoPrelude
  imports Main "HOL-Library.Word" "HOL-Library.Char_ord" "HOL-Library.List_Lexorder"
    "HOL-Library.Sublist"
begin

text \<open>
  What the components share: Go's 64-bit integers (as integers with the wrap-around written out)
  and the parts of the packages \<open>strconv\<close> and \<open>strings\<close> that the modelled code calls, with the
  lemmas about them. A Go string is the list of its bytes.
\<close>

named_theorems go_arith \<open>facts that remove a wrap-around from in-range arithmetic\<close>

section \<open>Integers\<close>

type_synonym int64 = int
type_synonym time = int  \<comment> \<open>nanoseconds since the Unix epoch\<close>
type_synonym uuid = string  \<comment> \<open>the canonical text form\<close>

abbreviation MaxInt64 :: int where "MaxInt64 \<equiv> 9223372036854775807"
abbreviation MinInt64 :: int where "MinInt64 \<equiv> -9223372036854775808"

definition in_int64 :: "int \<Rightarrow> bool" where
  "in_int64 x \<longleftrightarrow> MinInt64 \<le> x \<and> x \<le> MaxInt64"

definition wrap64 :: "int \<Rightarrow> int64" where
  "wrap64 x = (x + 9223372036854775808) mod 18446744073709551616 - 9223372036854775808"

text \<open>\<open>wrap64\<close> is two's complement arithmetic on 64 bits.\<close>

lemma wrap64_word: "wrap64 x = sint (word_of_int x :: 64 word)"
  by (simp add: wrap64_def signed_of_int signed_take_bit_eq_take_bit_shift take_bit_eq_mod)

lemma wrap64_in_range [simp]: "in_int64 (wrap64 x)"
proof -
  have "0 \<le> (x + 9223372036854775808) mod 18446744073709551616"
    and "(x + 9223372036854775808) mod 18446744073709551616 < 18446744073709551616"
    by simp_all
  then show ?thesis by (simp add: in_int64_def wrap64_def)
qed

lemma wrap64_id [simp, go_arith]: "in_int64 x \<Longrightarrow> wrap64 x = x"
  by (simp add: in_int64_def wrap64_def mod_pos_pos_trivial)

abbreviation add64 :: "int64 \<Rightarrow> int64 \<Rightarrow> int64" where "add64 a b \<equiv> wrap64 (a + b)"
abbreviation sub64 :: "int64 \<Rightarrow> int64 \<Rightarrow> int64" where "sub64 a b \<equiv> wrap64 (a - b)"
abbreviation mul64 :: "int64 \<Rightarrow> int64 \<Rightarrow> int64" where "mul64 a b \<equiv> wrap64 (a * b)"
abbreviation neg64 :: "int64 \<Rightarrow> int64" where "neg64 a \<equiv> wrap64 (- a)"

text \<open>Go's \<open>/\<close> truncates towards zero.\<close>

definition go_div :: "int64 \<Rightarrow> int64 \<Rightarrow> int64" where
  "go_div a b = wrap64 (sgn a * sgn b * (\<bar>a\<bar> div \<bar>b\<bar>))"

lemma go_div_pos: "0 \<le> a \<Longrightarrow> 0 < b \<Longrightarrow> in_int64 a \<Longrightarrow> go_div a b = a div b"
proof -
  assume a: "0 \<le> a" and b: "0 < b" and r: "in_int64 a"
  have "0 \<le> a div b" and "a div b \<le> a"
    using a b zdiv_mono2 [of a 1 b] by (simp_all add: pos_imp_zdiv_nonneg_iff)
  then have "in_int64 (a div b)" using r by (simp add: in_int64_def)
  moreover have "sgn a * sgn b * (\<bar>a\<bar> div \<bar>b\<bar>) = a div b"
    using a b by (cases "a = 0") (simp_all add: sgn_if)
  ultimately show ?thesis by (simp add: go_div_def)
qed

section \<open>Numbers as text: \<open>strconv\<close>\<close>

definition digit_char :: "nat \<Rightarrow> char" where
  "digit_char d = (if d < 10 then char_of (48 + d) else char_of (87 + d))"

definition char_digit :: "char \<Rightarrow> nat option" where
  "char_digit c =
     (let n = of_char c :: nat
      in if 48 \<le> n \<and> n \<le> 57 then Some (n - 48)
         else if 97 \<le> n \<and> n \<le> 122 then Some (n - 87) else None)"

lemma char_digit_digit_char: "d < 36 \<Longrightarrow> char_digit (digit_char d) = Some d"
  by (auto simp: char_digit_def digit_char_def Let_def)

text \<open>The digits of a natural number, most significant first, and their value.\<close>

fun format_nat :: "nat \<Rightarrow> nat \<Rightarrow> string" where
  "format_nat b n =
     (if n < b \<or> b < 2 then [digit_char n] else format_nat b (n div b) @ [digit_char (n mod b)])"

declare format_nat.simps [simp del]

definition digits_value :: "nat \<Rightarrow> string \<Rightarrow> nat" where
  "digits_value b s = foldl (\<lambda>v c. v * b + (case char_digit c of None \<Rightarrow> 0 | Some d \<Rightarrow> d)) 0 s"

lemma digits_value_snoc:
  "digits_value b (s @ [c]) = digits_value b s * b + (case char_digit c of None \<Rightarrow> 0 | Some d \<Rightarrow> d)"
  by (simp add: digits_value_def)

lemma format_nat_value: "2 \<le> b \<Longrightarrow> b \<le> 36 \<Longrightarrow> digits_value b (format_nat b n) = n"
proof (induction b n rule: format_nat.induct)
  case (1 b n)
  show ?case
  proof (cases "n < b")
    case True
    with "1.prems" show ?thesis
      by (subst format_nat.simps) (simp add: digits_value_def char_digit_digit_char)
  next
    case False
    with "1.prems" have small: "n mod b < 36"
      by (metis Suc_1 Suc_le_lessD less_le_trans mod_less_divisor less_trans zero_less_Suc)
    with False "1.prems" "1.IH" have "digits_value b (format_nat b (n div b)) = n div b" by simp
    with False "1.prems" small show ?thesis
      by (subst format_nat.simps) (simp add: digits_value_snoc char_digit_digit_char)
  qed
qed

text \<open>\<open>strconv.FormatInt\<close>, and \<open>%d\<close> as its base-10 case.\<close>

definition FormatInt :: "int64 \<Rightarrow> nat \<Rightarrow> string" where
  "FormatInt i b = (if i < 0 then CHR ''-'' # format_nat b (nat (- i)) else format_nat b (nat i))"

abbreviation fmt_d :: "int64 \<Rightarrow> string" where "fmt_d i \<equiv> FormatInt i 10"

text \<open>The same over \<open>int\<close>, for evaluation.\<close>

function format_int :: "int \<Rightarrow> int \<Rightarrow> string" where
  "format_int b i =
     (if i < b \<or> b < 2 then [digit_char (nat i)] else format_int b (i div b) @ [digit_char (nat (i mod b))])"
  by pat_completeness auto
termination
proof (relation "measure (\<lambda>(_, i). nat i)", goal_cases)
  case (2 b i)
  then have "0 < i" "i div b < i" by (auto simp: int_div_less_self)
  then show ?case by simp
qed simp

declare format_int.simps [simp del]

lemma format_int_nat: "format_int (int b) (int n) = format_nat b n"
proof (induction b n rule: format_nat.induct)
  case (1 b n)
  show ?case
  proof (cases "n < b \<or> b < 2")
    case True
    then show ?thesis by (subst format_int.simps, subst format_nat.simps) auto
  next
    case False
    with 1 have "format_int (int b) (int n div int b) = format_nat b (n div b)"
      by (simp add: zdiv_int [symmetric])
    with False show ?thesis
      by (subst format_int.simps, subst format_nat.simps) (simp add: nat_mod_distrib)
  qed
qed

lemma FormatInt_code [code]:
  "FormatInt i b = (if i < 0 then CHR ''-'' # format_int (int b) (- i) else format_int (int b) i)"
  using format_int_nat [of b "nat (- i)"] format_int_nat [of b "nat i"] by (auto simp: FormatInt_def)

lemma format_nat_chars:
  "2 \<le> b \<Longrightarrow> b \<le> 36 \<Longrightarrow> set (format_nat b n) \<subseteq> digit_char ` {..<b}"
proof (induction b n rule: format_nat.induct)
  case (1 b n)
  show ?case
  proof (cases "n < b")
    case True
    then show ?thesis by (subst format_nat.simps) auto
  next
    case False
    with 1 show ?thesis by (subst format_nat.simps) auto
  qed
qed

lemma format_nat_not_Nil [simp]: "format_nat b n \<noteq> []"
  by (subst format_nat.simps) simp

lemma digit_char_neq: "d < 36 \<Longrightarrow> of_char c < (48::nat) \<or> (57::nat) < of_char c \<and> of_char c < (97::nat) \<or> (122::nat) < of_char c \<Longrightarrow> digit_char d \<noteq> c"
  by (auto simp: digit_char_def split: if_splits)

lemma format_nat_no_char:
  assumes "2 \<le> b" "b \<le> 36"
    and "of_char c < (48::nat) \<or> (57::nat) < of_char c \<and> of_char c < (97::nat) \<or> (122::nat) < of_char c"
  shows "c \<notin> set (format_nat b n)"
proof
  assume "c \<in> set (format_nat b n)"
  with format_nat_chars [OF assms(1,2), of n] obtain d where "d < b" "c = digit_char d" by auto
  with digit_char_neq [of d c] assms show False by auto
qed

lemma format_nat_hd: "2 \<le> b \<Longrightarrow> b \<le> 36 \<Longrightarrow> format_nat b n \<noteq> CHR ''-'' # s"
proof
  assume b: "2 \<le> b" "b \<le> 36" and "format_nat b n = CHR ''-'' # s"
  then have "CHR ''-'' \<in> set (format_nat b n)" by simp
  moreover have "CHR ''-'' \<notin> set (format_nat b n)" using b by (rule format_nat_no_char) simp
  ultimately show False by blast
qed

lemma format_nat_inj: "2 \<le> b \<Longrightarrow> b \<le> 36 \<Longrightarrow> format_nat b m = format_nat b n \<Longrightarrow> m = n"
  by (metis format_nat_value)

lemma FormatInt_inj:
  assumes b: "2 \<le> b" "b \<le> 36" and eq: "FormatInt i b = FormatInt j b"
  shows "i = j"
proof (cases "i < 0"; cases "j < 0")
  assume "i < 0" "j < 0"
  with eq have "format_nat b (nat (- i)) = format_nat b (nat (- j))" by (simp add: FormatInt_def)
  then have "nat (- i) = nat (- j)" by (rule format_nat_inj [OF b])
  with \<open>i < 0\<close> \<open>j < 0\<close> show ?thesis by simp
next
  assume "i < 0" "\<not> j < 0"
  with eq show ?thesis using format_nat_hd [OF b, of "nat j"] by (simp add: FormatInt_def) metis
next
  assume "\<not> i < 0" "j < 0"
  with eq show ?thesis using format_nat_hd [OF b, of "nat i"] by (simp add: FormatInt_def)
next
  assume "\<not> i < 0" "\<not> j < 0"
  with eq have "format_nat b (nat i) = format_nat b (nat j)" by (simp add: FormatInt_def)
  then have "nat i = nat j" by (rule format_nat_inj [OF b])
  with \<open>\<not> i < 0\<close> \<open>\<not> j < 0\<close> show ?thesis by simp
qed

text \<open>
  \<open>strconv.ParseInt(s, 10, 64)\<close>: an optional sign, at least one digit and nothing else, in the
  range of \<open>int64\<close>; \<open>None\<close> is any error.
\<close>

definition is_dec_digit :: "char \<Rightarrow> bool" where
  "is_dec_digit c \<longleftrightarrow> 48 \<le> (of_char c :: nat) \<and> (of_char c :: nat) \<le> 57"

definition parse_dec :: "string \<Rightarrow> int option" where
  "parse_dec s = (if s \<noteq> [] \<and> list_all is_dec_digit s then Some (int (digits_value 10 s)) else None)"

definition ParseInt :: "string \<Rightarrow> int64 option" where
  "ParseInt s =
     (case s of
        [] \<Rightarrow> None
      | c # cs \<Rightarrow>
          (let neg = (c = CHR ''-'');
               body = (if c = CHR ''+'' \<or> c = CHR ''-'' then cs else s)
           in case parse_dec body of
                None \<Rightarrow> None
              | Some v \<Rightarrow> let i = (if neg then - v else v) in if in_int64 i then Some i else None))"

lemma format_nat_dec: "list_all is_dec_digit (format_nat 10 n)"
proof -
  have "is_dec_digit (digit_char d)" if "d < 10" for d
    using that by (simp add: is_dec_digit_def digit_char_def)
  with format_nat_chars [of 10 n] show ?thesis by (auto simp: list_all_iff)
qed

lemma parse_dec_format: "parse_dec (format_nat 10 n) = Some (int n)"
  by (simp add: parse_dec_def format_nat_dec format_nat_value)

text \<open>Reading back what \<open>%d\<close> printed.\<close>

lemma ParseInt_fmt_d: "in_int64 i \<Longrightarrow> ParseInt (fmt_d i) = Some i"
proof (cases "i < 0")
  case True
  assume "in_int64 i"
  with True show ?thesis by (simp add: ParseInt_def FormatInt_def parse_dec_format Let_def)
next
  case False
  assume "in_int64 i"
  moreover obtain c cs where c: "format_nat 10 (nat i) = c # cs"
    by (meson format_nat_not_Nil list.exhaust)
  moreover have "c \<noteq> CHR ''-''" "c \<noteq> CHR ''+''"
    using format_nat_no_char [of 10 "CHR ''-''" "nat i"] format_nat_no_char [of 10 "CHR ''+''" "nat i"] c
    by auto
  ultimately show ?thesis
    using False parse_dec_format [of "nat i"] by (simp add: ParseInt_def FormatInt_def Let_def)
qed

lemma ParseInt_range: "ParseInt s = Some i \<Longrightarrow> in_int64 i"
  by (auto simp: ParseInt_def Let_def split: list.splits option.splits if_splits)

section \<open>Text: the package \<open>strings\<close>\<close>

definition HasPrefix :: "string \<Rightarrow> string \<Rightarrow> bool" where
  "HasPrefix s p \<longleftrightarrow> prefix p s"

definition TrimPrefix :: "string \<Rightarrow> string \<Rightarrow> string" where
  "TrimPrefix s p = (if prefix p s then drop (length p) s else s)"

lemma HasPrefix_append [simp]: "HasPrefix (p @ s) p"
  by (simp add: HasPrefix_def)

lemma TrimPrefix_append [simp]: "TrimPrefix (p @ s) p = s"
  by (simp add: TrimPrefix_def)

text \<open>
  \<open>strings.TrimSpace\<close> removes Unicode white space at both ends. A Go string is its UTF-8 bytes,
  so the white space characters are given by their encodings.
\<close>

definition space_codes :: "nat list list" where
  "space_codes =
     [[9], [10], [11], [12], [13], [32], [194, 133], [194, 160], [225, 154, 128], [226, 128, 128],
      [226, 128, 129], [226, 128, 130], [226, 128, 131], [226, 128, 132], [226, 128, 133],
      [226, 128, 134], [226, 128, 135], [226, 128, 136], [226, 128, 137], [226, 128, 138],
      [226, 128, 168], [226, 128, 169], [226, 128, 175], [226, 129, 159], [227, 128, 128]]"

definition spaces :: "string list" where
  "spaces = map (map char_of) space_codes"

fun trim_front :: "string list \<Rightarrow> nat \<Rightarrow> string \<Rightarrow> string" where
  "trim_front ws 0 s = s"
| "trim_front ws (Suc n) s =
     (case find (\<lambda>w. prefix w s) ws of None \<Rightarrow> s | Some w \<Rightarrow> trim_front ws n (drop (length w) s))"

definition TrimSpace :: "string \<Rightarrow> string" where
  "TrimSpace s =
     (let t = trim_front spaces (length s) s
      in rev (trim_front (map rev spaces) (length t) (rev t)))"

text \<open>A text that begins and ends with a visible ASCII character stays as it is.\<close>

definition visible :: "char \<Rightarrow> bool" where
  "visible c \<longleftrightarrow> (33::nat) \<le> of_char c \<and> of_char c \<le> (126::nat)"

lemma trim_front_id:
  assumes "\<forall>w \<in> set ws. w \<noteq> [] \<and> \<not> visible (hd w)" "s \<noteq> []" "visible (hd s)"
  shows "trim_front ws n s = s"
proof -
  have "find (\<lambda>w. prefix w s) ws = None"
    unfolding find_None_iff using assms by (auto simp: prefix_def neq_Nil_conv)
  then show ?thesis by (cases n) simp_all
qed

lemma spaces_invisible:
  "\<forall>w \<in> set spaces. w \<noteq> [] \<and> \<not> visible (hd w)" "\<forall>w \<in> set (map rev spaces). w \<noteq> [] \<and> \<not> visible (hd w)"
  by (simp_all add: spaces_def space_codes_def visible_def)

lemma TrimSpace_id:
  assumes "s \<noteq> []" "visible (hd s)" "visible (last s)"
  shows "TrimSpace s = s"
  using assms trim_front_id [OF spaces_invisible(1), of s] trim_front_id [OF spaces_invisible(2), of "rev s"]
  by (simp add: TrimSpace_def Let_def hd_rev)

text \<open>\<open>strings.Split(s, sep)\<close> for a one-byte separator, \<open>strings.Cut\<close> and \<open>strings.Join\<close>.\<close>

fun Split :: "string \<Rightarrow> char \<Rightarrow> string list" where
  "Split [] sep = [[]]"
| "Split (c # cs) sep =
     (if c = sep then [] # Split cs sep
      else case Split cs sep of [] \<Rightarrow> [[c]] | w # ws \<Rightarrow> (c # w) # ws)"

definition Cut :: "string \<Rightarrow> char \<Rightarrow> string \<times> string \<times> bool" where
  "Cut s sep =
     (if sep \<in> set s then (takeWhile (\<lambda>c. c \<noteq> sep) s, tl (dropWhile (\<lambda>c. c \<noteq> sep) s), True)
      else (s, [], False))"

fun Join :: "string list \<Rightarrow> string \<Rightarrow> string" where
  "Join [] sep = []"
| "Join [w] sep = w"
| "Join (w # ws) sep = w @ sep @ Join ws sep"

lemma Split_not_Nil [simp]: "Split s sep \<noteq> []"
  by (induction s sep rule: Split.induct) (auto split: list.splits)

lemma Join_Cons: "ws \<noteq> [] \<Longrightarrow> Join (w # ws) sep = w @ sep @ Join ws sep"
  by (cases ws) simp_all

lemma Join_Split: "Join (Split s sep) [sep] = s"
proof (induction s sep rule: Split.induct)
  case (2 c cs sep)
  obtain w ws where w: "Split cs sep = w # ws" by (meson Split_not_Nil list.exhaust)
  with 2 show ?case by (cases ws) (auto simp: Join_Cons)
qed simp

lemma split_at_unique:
  assumes "a @ c # s = b @ c # t" "c \<notin> set a" "c \<notin> set b"
  shows "a = b \<and> s = t"
  using assms
proof (induction a arbitrary: b)
  case Nil
  then show ?case by (cases b) auto
next
  case (Cons x a)
  then show ?case by (cases b) auto
qed

text \<open>A string given by its UTF-8 bytes.\<close>

definition utf8 :: "nat list \<Rightarrow> string" where "utf8 bs = map char_of bs"

end
