(* ===== verification/GoFloat.thy ===== *)
theory GoFloat
  imports Complex_Main GoPrelude
begin

text \<open>
  Go's \<open>float64\<close>: IEEE 754 binary64 with round-to-nearest, ties to even. A finite value is the
  rational number it stands for, so every operation computes the exact result and rounds it once.
  The two zeros are one value here (no modelled code divides by a zero or prints its sign).
  The rounding is executable; the lemmas bound its error and show that small integers are exact.
\<close>

lemma powi_less_iff: "(2::rat) powi m < 2 powi n \<longleftrightarrow> m < n"
  by (meson linorder_not_le one_le_numeral power_int_increasing power_int_strict_increasing
      one_less_numeral_iff semiring_norm(76))

lemma powi_le_iff: "(2::rat) powi m \<le> 2 powi n \<longleftrightarrow> m \<le> n"
  by (meson linorder_not_le powi_less_iff)

section \<open>Rounding to 53 significant bits\<close>

datatype f64 = NaN | PInf | NInf | Fin rat

fun ilog2 :: "nat \<Rightarrow> nat" where
  "ilog2 n = (if n < 2 then 0 else Suc (ilog2 (n div 2)))"

declare ilog2.simps [simp del]

lemma ilog2_bounds: "0 < n \<Longrightarrow> 2 ^ ilog2 n \<le> n \<and> n < 2 ^ Suc (ilog2 n)"
proof (induction n rule: ilog2.induct)
  case (1 n)
  show ?case
  proof (cases "n < 2")
    case True
    with "1.prems" show ?thesis by (simp add: ilog2.simps [of n])
  next
    case False
    with "1.IH" have "2 ^ ilog2 (n div 2) \<le> n div 2 \<and> n div 2 < 2 ^ Suc (ilog2 (n div 2))" by simp
    with False show ?thesis by (auto simp: ilog2.simps [of n])
  qed
qed

definition floor_log2 :: "rat \<Rightarrow> int" where
  "floor_log2 q =
     (let (n, d) = quotient_of \<bar>q\<bar>;
          k = int (ilog2 (nat n)) - int (ilog2 (nat d))
      in if 2 powi k \<le> \<bar>q\<bar> then k else k - 1)"

definition round_even :: "rat \<Rightarrow> int" where
  "round_even q =
     (let f = \<lfloor>q\<rfloor>; r = q - of_int f
      in if r < 1/2 then f else if 1/2 < r then f + 1 else if even f then f else f + 1)"

definition ulp_exp :: "rat \<Rightarrow> int" where
  "ulp_exp q = max (floor_log2 q - 52) (-1074)"

definition rnd_val :: "rat \<Rightarrow> rat" where
  "rnd_val q = (if q = 0 then 0 else of_int (round_even (q / 2 powi ulp_exp q)) * 2 powi ulp_exp q)"

definition rnd :: "rat \<Rightarrow> f64" where
  "rnd q =
     (let v = rnd_val q
      in if 2 ^ 1024 \<le> v then PInf else if v \<le> - (2 ^ 1024) then NInf else Fin v)"

lemma round_even_error: "\<bar>of_int (round_even q) - q\<bar> \<le> 1/2"
proof -
  have "of_int \<lfloor>q\<rfloor> \<le> q" "q < of_int \<lfloor>q\<rfloor> + 1" by linarith+
  then show ?thesis
    by (auto simp: round_even_def Let_def abs_if split: if_splits; linarith)
qed

lemma round_even_int [simp]: "round_even (of_int n) = n"
  by (simp add: round_even_def)

lemma floor_log2_bounds:
  assumes "q \<noteq> 0"
  shows "2 powi floor_log2 q \<le> \<bar>q\<bar>" and "\<bar>q\<bar> < 2 powi (floor_log2 q + 1)"
proof -
  obtain n d where nd: "quotient_of \<bar>q\<bar> = (n, d)" by fastforce
  then have d: "0 < d" and q: "\<bar>q\<bar> = of_int n / of_int d"
    using quotient_of_denom_pos quotient_of_div by blast+
  with assms have n: "0 < n" by (metis abs_ge_zero abs_eq_0 divide_eq_0_iff less_le of_int_0_eq_iff
        of_int_0_le_iff zero_le_divide_iff of_int_0_less_iff linorder_not_le zero_less_abs_iff)
  define a b where "a = ilog2 (nat n)" and "b = ilog2 (nat d)"
  have "2 ^ a \<le> nat n" "nat n < 2 ^ Suc a" "2 ^ b \<le> nat d" "nat d < 2 ^ Suc b"
    using ilog2_bounds [of "nat n"] ilog2_bounds [of "nat d"] n d by (simp_all add: a_def b_def)
  then have A: "2 ^ a \<le> (of_int n :: rat)" "(of_int n :: rat) < 2 ^ Suc a"
    and B: "2 ^ b \<le> (of_int d :: rat)" "(of_int d :: rat) < 2 ^ Suc b"
    using n d by (metis (no_types, lifting) of_int_le_iff of_int_less_iff of_int_numeral of_int_power
        nat_le_iff nat_less_iff le_nat_iff of_nat_numeral of_nat_power le_nat_iff zle_int
        int_nat_eq less_imp_le not_le)+
  define k where "k = int a - int b"
  have k: "(2::rat) powi k = 2 ^ a / 2 ^ b" by (simp add: k_def power_int_diff)
  have "\<bar>q\<bar> < 2 ^ Suc a / 2 ^ b" unfolding q using A B n d by (intro frac_less) (auto simp: field_simps)
  then have up: "\<bar>q\<bar> < 2 powi (k + 1)" by (simp add: power_int_add k mult.commute)
  have "2 ^ a / 2 ^ Suc b \<le> \<bar>q\<bar>" unfolding q using A B n d by (intro frac_le) auto
  then have lo: "2 powi (k - 1) \<le> \<bar>q\<bar>" by (simp add: power_int_diff k)
  have fl: "floor_log2 q = (if 2 powi k \<le> \<bar>q\<bar> then k else k - 1)"
    by (simp add: floor_log2_def nd k_def a_def b_def)
  show "2 powi floor_log2 q \<le> \<bar>q\<bar>" using lo by (simp add: fl)
  show "\<bar>q\<bar> < 2 powi (floor_log2 q + 1)" using up by (simp add: fl)
qed

text \<open>The error of one rounding: half a unit in the last place, and \<open>2\<^sup>-\<^sup>5\<^sup>3\<close> relative to a normal value.\<close>

lemma rnd_val_ulp: "q \<noteq> 0 \<Longrightarrow> \<bar>rnd_val q - q\<bar> \<le> 2 powi (ulp_exp q - 1)"
proof -
  assume q: "q \<noteq> 0"
  let ?u = "(2::rat) powi ulp_exp q"
  have u: "0 < ?u" by simp
  have "rnd_val q - q = (of_int (round_even (q / ?u)) - q / ?u) * ?u"
    using q u by (simp add: rnd_val_def left_diff_distrib)
  then have "\<bar>rnd_val q - q\<bar> = \<bar>of_int (round_even (q / ?u)) - q / ?u\<bar> * ?u"
    using u by (simp add: abs_mult)
  also have "\<dots> \<le> 1/2 * ?u"
    using round_even_error [of "q / ?u"] u by (intro mult_right_mono) auto
  also have "\<dots> = 2 powi (ulp_exp q - 1)" by (simp add: power_int_diff)
  finally show ?thesis .
qed

lemma rnd_val_error:
  assumes "2 powi (-1022) \<le> \<bar>q\<bar>"
  shows "\<bar>rnd_val q - q\<bar> \<le> \<bar>q\<bar> / 2 ^ 53"
proof -
  have q: "q \<noteq> 0"
  proof
    assume "q = 0"
    moreover have "(0::rat) < 2 powi (-1022)" by (rule zero_less_power_int) simp
    ultimately show False using assms by simp
  qed
  have "(2::rat) powi (-1022) < 2 powi (floor_log2 q + 1)"
    using floor_log2_bounds(2) [OF q] assms by simp
  then have "-1022 < floor_log2 q + 1" by (simp only: powi_less_iff)
  then have u: "ulp_exp q = floor_log2 q - 52" by (simp add: ulp_exp_def)
  have "\<bar>rnd_val q - q\<bar> \<le> 2 powi (floor_log2 q - 53)" using rnd_val_ulp [OF q] by (simp add: u)
  also have "\<dots> = 2 powi floor_log2 q / 2 ^ 53" by (simp add: power_int_diff)
  also have "\<dots> \<le> \<bar>q\<bar> / 2 ^ 53"
    using floor_log2_bounds(1) [OF q] by (intro divide_right_mono) auto
  finally show ?thesis .
qed

lemma rnd_val_0 [simp]: "rnd_val 0 = 0"
  by (simp add: rnd_val_def)

lemma round_even_nonneg: "0 \<le> q \<Longrightarrow> 0 \<le> round_even q"
  by (auto simp: round_even_def Let_def)

lemma rnd_val_nonneg: "0 \<le> q \<Longrightarrow> 0 \<le> rnd_val q"
  by (simp add: rnd_val_def round_even_nonneg)

text \<open>Below \<open>2\<^sup>5\<^sup>0\<close> the error is at most a sixteenth.\<close>

lemma rnd_val_small:
  assumes "\<bar>q\<bar> < 2 ^ 50"
  shows "\<bar>rnd_val q - q\<bar> \<le> 1 / 16"
proof (cases "q = 0")
  case False
  have "(2::rat) powi floor_log2 q < 2 powi 50"
    using floor_log2_bounds(1) [OF False] assms by simp
  then have "floor_log2 q < 50" by (simp only: powi_less_iff)
  then have "ulp_exp q - 1 \<le> -4" by (simp add: ulp_exp_def)
  then have "(2::rat) powi (ulp_exp q - 1) \<le> 2 powi (-4)" by (simp only: powi_le_iff)
  with rnd_val_ulp [OF False] show ?thesis by (simp add: power_int_minus)
qed simp

lemma rnd_small: "\<bar>q\<bar> < 2 ^ 50 \<Longrightarrow> rnd q = Fin (rnd_val q)"
proof -
  assume q: "\<bar>q\<bar> < 2 ^ 50"
  have "\<bar>rnd_val q\<bar> \<le> 2 ^ 50 + 1" using rnd_val_small [OF q] q by linarith
  also have "\<dots> < 2 ^ 1024" by simp
  finally show ?thesis by (auto simp: rnd_def Let_def)
qed

lemma rnd_val_exact:
  assumes "q / 2 powi ulp_exp q = of_int m"
  shows "rnd_val q = q"
proof -
  have "q = of_int m * 2 powi ulp_exp q" using assms by (simp add: field_simps)
  then show ?thesis by (simp add: rnd_val_def assms)
qed

lemma rnd_val_of_int: "\<bar>n\<bar> \<le> 2 ^ 53 \<Longrightarrow> rnd_val (of_int n) = of_int n"
proof (cases "n = 0")
  case False
  assume n: "\<bar>n\<bar> \<le> 2 ^ 53"
  let ?q = "of_int n :: rat"
  have "\<bar>?q\<bar> \<le> 2 ^ 53" using n by (metis of_int_abs of_int_le_iff of_int_numeral of_int_power)
  then have "(2::rat) powi floor_log2 ?q \<le> 2 powi 53"
    using floor_log2_bounds(1) [of ?q] False by simp
  then have hi: "floor_log2 ?q \<le> 53" by (simp only: powi_le_iff)
  have "(1::rat) \<le> \<bar>?q\<bar>" using False by simp
  then have "(2::rat) powi 0 < 2 powi (floor_log2 ?q + 1)"
    using floor_log2_bounds(2) [of ?q] False by simp
  then have lo: "0 \<le> floor_log2 ?q" by (simp only: powi_less_iff)
  show ?thesis
  proof (cases "floor_log2 ?q = 53")
    case True
    then have "2 ^ 53 \<le> \<bar>?q\<bar>" using floor_log2_bounds(1) [of ?q] False by simp
    with \<open>\<bar>?q\<bar> \<le> 2 ^ 53\<close> have "\<bar>?q\<bar> = 2 ^ 53" by simp
    then have "\<bar>n\<bar> = 2 ^ 53" by (metis of_int_abs of_int_eq_iff of_int_numeral of_int_power)
    then have "n = 2 ^ 53 \<or> n = - (2 ^ 53)" by linarith
    then show ?thesis
      by (intro rnd_val_exact [where m = "n div 2"]) (auto simp: ulp_exp_def True)
  next
    case False
    with hi have u: "ulp_exp ?q = floor_log2 ?q - 52" "floor_log2 ?q \<le> 52"
      using lo by (auto simp: ulp_exp_def)
    then obtain j where j: "floor_log2 ?q - 52 = - int j"
      by (metis diff_le_0_iff_le int_nat_eq minus_minus neg_0_le_iff_le)
    show ?thesis
      by (rule rnd_val_exact [where m = "n * 2 ^ j"]) (simp add: u j power_int_minus field_simps)
  qed
qed simp

lemma rnd_Fin: "\<bar>rnd_val q\<bar> < 2 ^ 1024 \<Longrightarrow> rnd q = Fin (rnd_val q)"
  by (auto simp: rnd_def Let_def)

section \<open>Conversions and arithmetic\<close>

definition f64_of_int :: "int64 \<Rightarrow> f64" where
  "f64_of_int n = rnd (of_int n)"

text \<open>
  \<open>int64(x)\<close> truncates towards zero. For a value that does not fit, Go leaves the result to the
  implementation; the instruction amd64 compiles it to returns the smallest \<open>int64\<close>.
\<close>

definition rat_trunc :: "rat \<Rightarrow> int" where
  "rat_trunc q = (if 0 \<le> q then \<lfloor>q\<rfloor> else \<lceil>q\<rceil>)"

fun f64_to_int :: "f64 \<Rightarrow> int64" where
  "f64_to_int (Fin q) = (if in_int64 (rat_trunc q) then rat_trunc q else MinInt64)"
| "f64_to_int _ = MinInt64"

fun f64_mul :: "f64 \<Rightarrow> f64 \<Rightarrow> f64" where
  "f64_mul NaN y = NaN"
| "f64_mul x NaN = NaN"
| "f64_mul (Fin p) (Fin q) = rnd (p * q)"
| "f64_mul (Fin p) PInf = (if p = 0 then NaN else if 0 < p then PInf else NInf)"
| "f64_mul (Fin p) NInf = (if p = 0 then NaN else if 0 < p then NInf else PInf)"
| "f64_mul PInf (Fin q) = (if q = 0 then NaN else if 0 < q then PInf else NInf)"
| "f64_mul NInf (Fin q) = (if q = 0 then NaN else if 0 < q then NInf else PInf)"
| "f64_mul PInf PInf = PInf"
| "f64_mul PInf NInf = NInf"
| "f64_mul NInf PInf = NInf"
| "f64_mul NInf NInf = PInf"

text \<open>Division, with a divisor that is a non-zero constant in all modelled code.\<close>

fun f64_div :: "f64 \<Rightarrow> rat \<Rightarrow> f64" where
  "f64_div NaN q = NaN"
| "f64_div (Fin p) q = rnd (p / q)"
| "f64_div PInf q = (if 0 < q then PInf else NInf)"
| "f64_div NInf q = (if 0 < q then NInf else PInf)"

fun f64_add :: "f64 \<Rightarrow> f64 \<Rightarrow> f64" where
  "f64_add NaN y = NaN"
| "f64_add x NaN = NaN"
| "f64_add (Fin p) (Fin q) = rnd (p + q)"
| "f64_add PInf NInf = NaN"
| "f64_add NInf PInf = NaN"
| "f64_add PInf _ = PInf"
| "f64_add NInf _ = NInf"
| "f64_add _ PInf = PInf"
| "f64_add _ NInf = NInf"

fun f64_neg :: "f64 \<Rightarrow> f64" where
  "f64_neg NaN = NaN"
| "f64_neg PInf = NInf"
| "f64_neg NInf = PInf"
| "f64_neg (Fin q) = Fin (- q)"

definition f64_sub :: "f64 \<Rightarrow> f64 \<Rightarrow> f64" where
  "f64_sub x y = f64_add x (f64_neg y)"

text \<open>Comparisons are false as soon as one side is not a number.\<close>

fun f64_le :: "f64 \<Rightarrow> f64 \<Rightarrow> bool" where
  "f64_le NaN y = False"
| "f64_le x NaN = False"
| "f64_le NInf y = True"
| "f64_le x PInf = True"
| "f64_le (Fin p) (Fin q) = (p \<le> q)"
| "f64_le (Fin p) NInf = False"
| "f64_le PInf y = False"

fun f64_lt :: "f64 \<Rightarrow> f64 \<Rightarrow> bool" where
  "f64_lt NaN y = False"
| "f64_lt x NaN = False"
| "f64_lt PInf y = False"
| "f64_lt x NInf = False"
| "f64_lt NInf y = True"
| "f64_lt (Fin p) (Fin q) = (p < q)"
| "f64_lt (Fin p) PInf = True"

definition IsNaN :: "f64 \<Rightarrow> bool" where
  "IsNaN x \<longleftrightarrow> x = NaN"

definition IsInf :: "f64 \<Rightarrow> bool" where  \<comment> \<open>\<open>math.IsInf(x, 0)\<close>\<close>
  "IsInf x \<longleftrightarrow> x = PInf \<or> x = NInf"

lemma f64_of_int_exact: "\<bar>n\<bar> \<le> 2 ^ 53 \<Longrightarrow> f64_of_int n = Fin (of_int n)"
proof -
  assume n: "\<bar>n\<bar> \<le> 2 ^ 53"
  then have "\<bar>of_int n :: rat\<bar> \<le> 2 ^ 53"
    by (metis of_int_abs of_int_le_iff of_int_numeral of_int_power)
  also have "(2::rat) ^ 53 < 2 ^ 1024" by (rule power_strict_increasing) auto
  finally show ?thesis using n by (simp add: f64_of_int_def rnd_val_of_int rnd_Fin)
qed

lemma rat_trunc_of_int [simp]: "rat_trunc (of_int n) = n"
  by (simp add: rat_trunc_def)

end
