(* ===== verification/GoRuntime.thy ===== *)
theory GoRuntime
  imports GoFloat
begin

text \<open>
  Errors as values, and database accesses as the source writes them through gorm: a call sees the
  tables and an \<open>io\<close> record with what the outside world answers during the call (the error the
  driver reports for its \<open>i\<close>-th statement, its \<open>i\<close>-th clock reading, its \<open>i\<close>-th generated UUID).
\<close>

section \<open>Errors\<close>

text \<open>
  A formatted message keeps its format string and its arguments, so that no rendering of floats is
  needed; \<open>Wrapf\<close> is \<open>fmt.Errorf\<close> with \<open>%w\<close>, and \<open>Textf\<close> a message with the text of an error in it, which
  wraps nothing.
\<close>

datatype fmt_arg = ArgInt int | ArgStr string | ArgF64 f64

datatype go_error =
    Sentinel string
  | Errorf string "fmt_arg list"
  | Wrapf string "fmt_arg list" go_error
  | Textf string go_error
  | DBErr string

abbreviation ErrRecordNotFound :: go_error where
  "ErrRecordNotFound \<equiv> Sentinel ''gorm.ErrRecordNotFound''"

fun errors_Is :: "go_error \<Rightarrow> go_error \<Rightarrow> bool" where
  "errors_Is (Wrapf f args e) t = (Wrapf f args e = t \<or> errors_Is e t)"
| "errors_Is e t = (e = t)"

section \<open>The outside world of one call\<close>

record io =
  io_flt :: "nat \<Rightarrow> string option"
  io_now :: "nat \<Rightarrow> time"
  io_uuid :: "nat \<Rightarrow> uuid"

definition io_shift :: "nat \<Rightarrow> io \<Rightarrow> io" where
  "io_shift k w = \<lparr>io_flt = (\<lambda>i. io_flt w (i + k)), io_now = (\<lambda>i. io_now w (i + k)),
                  io_uuid = (\<lambda>i. io_uuid w (i + k))\<rparr>"

definition io_ok :: "io \<Rightarrow> bool" where
  "io_ok w \<longleftrightarrow> (\<forall>i. io_flt w i = None)"

lemma io_ok_flt [simp]: "io_ok w \<Longrightarrow> io_flt w i = None"
  by (simp add: io_ok_def)

lemma io_shift_sel [simp]:
  "io_flt (io_shift k w) i = io_flt w (i + k)"
  "io_now (io_shift k w) i = io_now w (i + k)"
  "io_uuid (io_shift k w) i = io_uuid w (i + k)"
  by (simp_all add: io_shift_def)

lemma io_ok_shift [simp]: "io_ok w \<Longrightarrow> io_ok (io_shift k w)"
  by (simp add: io_ok_def)

section \<open>Statements\<close>

definition stmt :: "string option \<Rightarrow> go_error + 'a \<Rightarrow> go_error + 'a" where
  "stmt f r = (case f of Some m \<Rightarrow> Inl (DBErr m) | None \<Rightarrow> r)"

lemma stmt_simps [simp]: "stmt None r = r" "stmt (Some m) r = Inl (DBErr m)"
  by (simp_all add: stmt_def)

lemma stmt_Inr: "stmt f r = Inr x \<longleftrightarrow> f = None \<and> r = Inr x"
  by (simp add: stmt_def split: option.splits)

text \<open>\<open>if err != nil { return err }\<close>: the rest runs on the value.\<close>

lemma case_err_Inr: "(case r of Inl e \<Rightarrow> Inl e | Inr x \<Rightarrow> f x) = Inr y \<longleftrightarrow> (\<exists>x. r = Inr x \<and> f x = Inr y)"
  by (cases r) auto

text \<open>\<open>First\<close> selects the matching row with the least primary key.\<close>

definition least_by :: "('r \<Rightarrow> uuid) \<Rightarrow> 'r \<Rightarrow> 'r list \<Rightarrow> 'r" where
  "least_by key r rs = fold (\<lambda>x m. if key x < key m then x else m) rs r"

definition First_row :: "('r \<Rightarrow> uuid) \<Rightarrow> ('r \<Rightarrow> bool) \<Rightarrow> 'r list \<Rightarrow> 'r option" where
  "First_row key P rows =
     (case filter P rows of [] \<Rightarrow> None | r # rs \<Rightarrow> Some (least_by key r rs))"

definition First :: "string option \<Rightarrow> ('r \<Rightarrow> uuid) \<Rightarrow> ('r \<Rightarrow> bool) \<Rightarrow> 'r list \<Rightarrow> go_error + 'r" where
  "First f key P rows =
     stmt f (case First_row key P rows of None \<Rightarrow> Inl ErrRecordNotFound | Some r \<Rightarrow> Inr r)"

lemma least_by_in: "least_by key r rs \<in> set (r # rs)"
proof (induction rs arbitrary: r)
  case (Cons x rs)
  from Cons.IH [of "if key x < key r then x else r"] show ?case by (auto simp: least_by_def)
qed (simp add: least_by_def)

lemma First_row_None: "First_row key P rows = None \<longleftrightarrow> (\<forall>r \<in> set rows. \<not> P r)"
  by (cases "filter P rows") (auto simp: First_row_def filter_empty_conv filter_eq_Cons_iff)

lemma First_row_Some: "First_row key P rows = Some r \<Longrightarrow> r \<in> set rows \<and> P r"
proof -
  assume "First_row key P rows = Some r"
  then obtain x xs where "filter P rows = x # xs" "r = least_by key x xs"
    by (auto simp: First_row_def split: list.splits)
  with least_by_in [of key x xs] have "r \<in> set (filter P rows)" by simp
  then show ?thesis by simp
qed

text \<open>With at most one matching row, the key does not matter.\<close>

lemma First_row_unique:
  assumes "r \<in> set rows" "P r" "\<And>x. x \<in> set rows \<Longrightarrow> P x \<Longrightarrow> x = r"
  shows "First_row key P rows = Some r"
proof (cases "First_row key P rows")
  case None
  with assms(1,2) show ?thesis by (auto simp: First_row_None)
next
  case (Some x)
  with First_row_Some [of key P rows x] assms(3) show ?thesis by auto
qed

lemma First_Inr: "First f key P rows = Inr r \<Longrightarrow> f = None \<and> First_row key P rows = Some r"
  by (auto simp: First_def stmt_Inr split: option.splits)

lemma First_Inr_row: "First f key P rows = Inr r \<Longrightarrow> r \<in> set rows \<and> P r"
  by (auto dest!: First_Inr dest: First_row_Some)

text \<open>
  \<open>UPDATE ... SET ... WHERE\<close>: the assignment may fail (a \<open>bigint\<close> column that overflows), and then
  the whole statement fails.
\<close>

fun update_rows :: "('r \<Rightarrow> bool) \<Rightarrow> ('r \<Rightarrow> go_error + 'r) \<Rightarrow> 'r list \<Rightarrow> go_error + 'r list" where
  "update_rows P f [] = Inr []"
| "update_rows P f (r # rs) =
     (case (if P r then f r else Inr r) of
        Inl e \<Rightarrow> Inl e
      | Inr r' \<Rightarrow> (case update_rows P f rs of Inl e \<Rightarrow> Inl e | Inr rs' \<Rightarrow> Inr (r' # rs')))"

definition bigint :: "int \<Rightarrow> go_error + int64" where
  "bigint x = (if in_int64 x then Inr x else Inl (DBErr ''bigint out of range''))"

lemma bigint_Inr [simp]: "bigint x = Inr y \<longleftrightarrow> in_int64 x \<and> y = x"
  by (auto simp: bigint_def)

lemma update_rows_InrD:
  "update_rows P f rows = Inr rows' \<Longrightarrow>
     rows' = map (\<lambda>r. if P r then projr (f r) else r) rows \<and>
     (\<forall>r \<in> set rows. P r \<longrightarrow> f r = Inr (projr (f r)))"
proof (induction rows arbitrary: rows')
  case (Cons r rs)
  then obtain r' rs' where "update_rows P f rs = Inr rs'" "rows' = r' # rs'"
    "(if P r then f r else Inr r) = Inr r'"
    by (auto split: sum.splits)
  with Cons.IH [of rs'] show ?case by (auto split: if_splits)
qed simp

lemma update_rows_map:
  "(\<And>r. r \<in> set rows \<Longrightarrow> P r \<Longrightarrow> f r = Inr (g r)) \<Longrightarrow>
     update_rows P f rows = Inr (map (\<lambda>r. if P r then g r else r) rows)"
  by (induction rows) auto

lemma update_rows_total: "update_rows P (\<lambda>r. Inr (g r)) rows = Inr (map (\<lambda>r. if P r then g r else r) rows)"
  by (rule update_rows_map) simp

lemma update_rows_none: "(\<And>r. r \<in> set rows \<Longrightarrow> \<not> P r) \<Longrightarrow> update_rows P f rows = Inr rows"
  by (induction rows) auto

text \<open>\<open>db.Transaction(func(tx) ...)\<close>: an error of the function or of the commit rolls back.\<close>

definition gorm_Transaction ::
  "string option \<Rightarrow> ('d \<Rightarrow> go_error + 'a \<times> 'd) \<Rightarrow> 'd \<Rightarrow> (go_error + 'a) \<times> 'd" where
  "gorm_Transaction commit body db =
     (case body db of
        Inl e \<Rightarrow> (Inl e, db)
      | Inr (x, db') \<Rightarrow> (case commit of Some m \<Rightarrow> (Inl (DBErr m), db) | None \<Rightarrow> (Inr x, db')))"

lemma gorm_Transaction_error: "gorm_Transaction c body db = (Inl e, db') \<Longrightarrow> db' = db"
  by (auto simp: gorm_Transaction_def split: sum.splits prod.splits option.splits)

lemma gorm_Transaction_Inr:
  "gorm_Transaction c body db = (Inr x, db') \<longleftrightarrow> c = None \<and> body db = Inr (x, db')"
  by (auto simp: gorm_Transaction_def split: sum.splits prod.splits option.splits)

lemma gorm_Transaction_inv:
  "(\<And>x db'. body db = Inr (x, db') \<Longrightarrow> Q db') \<Longrightarrow> Q db \<Longrightarrow> Q (snd (gorm_Transaction c body db))"
  by (auto simp: gorm_Transaction_def split: sum.splits prod.splits option.splits)

lemmas stmt_splits = stmt_Inr sum.splits option.splits prod.splits if_splits

section \<open>Sums over a table\<close>

lemma sum_list_map_update:
  fixes h :: "'r \<Rightarrow> int"
  assumes "\<And>r. r \<in> set rows \<Longrightarrow> P r \<Longrightarrow> h (g r) = h r + d" "length (filter P rows) = n"
  shows "sum_list (map h (map (\<lambda>r. if P r then g r else r) rows)) = sum_list (map h rows) + int n * d"
  using assms by (induction rows arbitrary: n) (auto simp: algebra_simps)

lemma distinct_filter_length:
  assumes "distinct (map key rows)" "r \<in> set rows"
  shows "length (filter (\<lambda>x. key x = key r) rows) = 1"
  using assms by (induction rows) (auto simp: filter_empty_conv image_iff)

lemma distinct_key_eq:
  "distinct (map key rows) \<Longrightarrow> x \<in> set rows \<Longrightarrow> y \<in> set rows \<Longrightarrow> key x = key y \<Longrightarrow> x = y"
  by (metis distinct_map inj_onD)

section \<open>Invariants of step relations\<close>

text \<open>The contract of an inductive invariant: every step keeps it; then every run does.\<close>

locale step_invariant =
  fixes step :: "'s \<Rightarrow> 's \<Rightarrow> bool" and inv :: "'s \<Rightarrow> bool"
  assumes step_keeps: "step s s' \<Longrightarrow> inv s \<Longrightarrow> inv s'"
begin

lemma run_keeps:
  assumes "step\<^sup>*\<^sup>* s s'" "inv s"
  shows "inv s'"
  using assms by (induction rule: rtranclp_induct) (auto intro: step_keeps)

end

end
