(* ===== verification/PayStore.thy ===== *)
theory PayStore
  imports GoRuntime
begin

text \<open>
  The repository layer of botpay (\<open>botpay/internal/store\<close>): the rows of its tables and the
  operations on wallets, transactions, invoices and withdrawals. The columns that gorm maintains
  and no modelled query reads (\<open>updated_at\<close>, and \<open>created_at\<close> of wallets) are left out.
\<close>

section \<open>Rows\<close>

record Wallet =
  W_ID :: uuid
  W_TelegramID :: int64
  W_PayHandle :: string
  W_TONBalance :: int64
  W_Credit :: int64
  W_TONAddress :: string
  W_Frozen :: int64
  W_IsActive :: bool
  W_Lang :: string

datatype TxType = TxDeposit | TxWithdraw | TxCreditAdd | TxPayment | TxRefund
datatype TxStatus = TxPending | TxConfirmed | TxFailed

record Transaction =
  T_ID :: uuid
  T_CreatedAt :: time
  T_WalletID :: uuid
  T_Type :: TxType
  T_Status :: TxStatus
  T_Amount :: int64
  T_Fee :: int64
  T_TxHash :: string
  T_FromAddress :: string
  T_ToAddress :: string
  T_ServiceID :: string
  T_Ref :: string
  T_Description :: string
  T_Metadata :: string
  T_ConfirmedAt :: "time option"

datatype InvoiceStatus = InvoicePending | InvoicePaid | InvoiceExpired | InvoiceCancelled

record Invoice =
  I_ID :: uuid
  I_CreatedAt :: time
  I_WalletID :: uuid
  I_Code :: string
  I_Amount :: int64
  I_ReceivedNano :: int64
  I_Status :: InvoiceStatus
  I_ServiceID :: string
  I_Ref :: string
  I_Metadata :: string
  I_ExpiresAt :: time
  I_PaidAt :: "time option"
  I_TxHash :: string

datatype WithdrawStatus =
  WithdrawPending | WithdrawApproved | WithdrawProcessing | WithdrawDone | WithdrawRejected

record WithdrawRequest =
  R_ID :: uuid
  R_CreatedAt :: time
  R_WalletID :: uuid
  R_ToAddress :: string
  R_Amount :: int64
  R_Fee :: int64
  R_Status :: WithdrawStatus
  R_TxHash :: string
  R_Note :: string
  R_AdminNote :: string
  R_ProcessedAt :: "time option"

datatype EntryType = EntryDebit | EntryCredit

record LedgerEntry =
  L_ID :: uuid
  L_CreatedAt :: time
  L_TransactionID :: uuid
  L_WalletID :: uuid
  L_Type :: EntryType
  L_AmountNano :: int64
  L_BalanceAfter :: int64
  L_Seq :: int64
  L_PrevHash :: string
  L_Hash :: string
  L_Ref :: string
  L_Note :: string

text \<open>
  The database of botpay. \<open>bot_instances\<close> is the table of the platform that
  \<open>ValidateBotInstance\<close> reads: bot id and status of each row.
\<close>

record pay_db =
  wallets :: "Wallet list"
  transactions :: "Transaction list"
  ledger_entries :: "LedgerEntry list"
  invoices :: "Invoice list"
  withdraw_requests :: "WithdrawRequest list"
  bot_instances :: "(int64 \<times> string) list"

section \<open>Wallet arithmetic (\<open>models.go\<close>)\<close>

definition HasEnough :: "Wallet \<Rightarrow> int64 \<Rightarrow> bool" where
  "HasEnough w amountNano \<longleftrightarrow> amountNano \<le> sub64 (add64 (W_TONBalance w) (W_Credit w)) (W_Frozen w)"

definition BalanceTON :: "Wallet \<Rightarrow> f64" where
  "BalanceTON w = f64_div (f64_of_int (W_TONBalance w)) (10 ^ 9)"

definition CreditTON :: "Wallet \<Rightarrow> f64" where
  "CreditTON w = f64_div (f64_of_int (W_Credit w)) (10 ^ 9)"

definition TotalTON :: "Wallet \<Rightarrow> f64" where
  "TotalTON w = f64_add (BalanceTON w) (CreditTON w)"

definition Invoice_IsExpired :: "time \<Rightarrow> Invoice \<Rightarrow> bool" where
  "Invoice_IsExpired now v \<longleftrightarrow> I_ExpiresAt v < now"

section \<open>Wallets and transactions (\<open>wallet_repo.go\<close>)\<close>

definition PayHandle :: "int64 \<Rightarrow> string" where
  "PayHandle telegramID = ''u_'' @ FormatInt telegramID 36"

text \<open>An \<open>INSERT\<close> fails on the primary key and on the unique indexes of the table.\<close>

definition insert_wallet :: "Wallet \<Rightarrow> Wallet list \<Rightarrow> go_error + Wallet list" where
  "insert_wallet w rows =
     (if \<exists>r \<in> set rows. W_ID r = W_ID w \<or> W_TelegramID r = W_TelegramID w \<or> W_PayHandle r = W_PayHandle w
      then Inl (DBErr ''duplicate key value violates unique constraint'') else Inr (rows @ [w]))"

definition insert_transaction :: "Transaction \<Rightarrow> Transaction list \<Rightarrow> go_error + Transaction list" where
  "insert_transaction t rows =
     (if T_ID t \<in> T_ID ` set rows
      then Inl (DBErr ''duplicate key value violates unique constraint'') else Inr (rows @ [t]))"

definition insert_invoice :: "Invoice \<Rightarrow> Invoice list \<Rightarrow> go_error + Invoice list" where
  "insert_invoice v rows =
     (if \<exists>r \<in> set rows. I_ID r = I_ID v \<or> I_Code r = I_Code v
      then Inl (DBErr ''duplicate key value violates unique constraint'') else Inr (rows @ [v]))"

definition insert_withdraw :: "WithdrawRequest \<Rightarrow> WithdrawRequest list \<Rightarrow> go_error + WithdrawRequest list" where
  "insert_withdraw q rows =
     (if R_ID q \<in> R_ID ` set rows
      then Inl (DBErr ''duplicate key value violates unique constraint'') else Inr (rows @ [q]))"

text \<open>
  \<open>Where(Wallet{TelegramID: id})\<close> is a struct condition: gorm leaves a field with the zero value out
  of the query, so the id 0 matches every wallet.
\<close>

definition wallet_struct_cond :: "int64 \<Rightarrow> Wallet \<Rightarrow> bool" where
  "wallet_struct_cond telegramID w \<longleftrightarrow> (telegramID \<noteq> 0 \<longrightarrow> W_TelegramID w = telegramID)"

definition GetOrCreateWallet :: "io \<Rightarrow> int64 \<Rightarrow> string \<Rightarrow> pay_db \<Rightarrow> (go_error + Wallet) \<times> pay_db" where
  "GetOrCreateWallet io telegramID tonAddress db =
     (let handle = PayHandle telegramID;
          found = First (io_flt io 0) W_ID (wallet_struct_cond telegramID) (wallets db);
          created =
            (case found of
               Inr w \<Rightarrow> Inr (w, db)
             | Inl e \<Rightarrow>
                 if e = ErrRecordNotFound then
                   (let w = \<lparr>W_ID = io_uuid io 0, W_TelegramID = telegramID, W_PayHandle = handle,
                             W_TONBalance = 0, W_Credit = 0, W_TONAddress = tonAddress, W_Frozen = 0,
                             W_IsActive = True, W_Lang = []\<rparr>
                    in case stmt (io_flt io 1) (insert_wallet w (wallets db)) of
                         Inl e \<Rightarrow> Inl e
                       | Inr rows \<Rightarrow> Inr (w, db\<lparr>wallets := rows\<rparr>))
                 else Inl e)
      in case created of
           Inl e \<Rightarrow> (Inl e, db)
         | Inr (w, db1) \<Rightarrow>
             if W_PayHandle w = [] then
               (if io_flt io 2 = None \<and> (\<forall>r \<in> set (wallets db1). W_PayHandle r \<noteq> handle) then
                  (Inr (w\<lparr>W_PayHandle := handle\<rparr>),
                   db1\<lparr>wallets := map (\<lambda>r. if W_ID r = W_ID w then r\<lparr>W_PayHandle := handle\<rparr> else r)
                          (wallets db1)\<rparr>)
                else (Inr w, db1))
             else (Inr w, db1))"

text \<open>The getters return \<open>(nil, nil)\<close> when no row matches.\<close>

definition nil_if_not_found :: "go_error + 'r \<Rightarrow> go_error + 'r option" where
  "nil_if_not_found r =
     (case r of Inr x \<Rightarrow> Inr (Some x) | Inl e \<Rightarrow> if errors_Is e ErrRecordNotFound then Inr None else Inl e)"

definition GetWalletByPayHandle :: "io \<Rightarrow> string \<Rightarrow> pay_db \<Rightarrow> go_error + Wallet option" where
  "GetWalletByPayHandle io handle db =
     nil_if_not_found (First (io_flt io 0) W_ID (\<lambda>w. W_PayHandle w = handle) (wallets db))"

definition GetWallet :: "io \<Rightarrow> int64 \<Rightarrow> pay_db \<Rightarrow> go_error + Wallet option" where
  "GetWallet io telegramID db =
     nil_if_not_found (First (io_flt io 0) W_ID (\<lambda>w. W_TelegramID w = telegramID) (wallets db))"

definition GetWalletByID :: "io \<Rightarrow> uuid \<Rightarrow> pay_db \<Rightarrow> go_error + Wallet option" where
  "GetWalletByID io i db = nil_if_not_found (First (io_flt io 0) W_ID (\<lambda>w. W_ID w = i) (wallets db))"

definition GetWalletByAddress :: "io \<Rightarrow> string \<Rightarrow> pay_db \<Rightarrow> go_error + Wallet option" where
  "GetWalletByAddress io address db =
     nil_if_not_found (First (io_flt io 0) W_ID (\<lambda>w. W_TONAddress w = address) (wallets db))"

definition SetWalletLang :: "io \<Rightarrow> int64 \<Rightarrow> string \<Rightarrow> pay_db \<Rightarrow> (go_error + unit) \<times> pay_db" where
  "SetWalletLang io telegramID lang db =
     (case io_flt io 0 of
        Some m \<Rightarrow> (Inl (DBErr m), db)
      | None \<Rightarrow>
          if 8 < length lang \<and> (\<exists>r \<in> set (wallets db). W_TelegramID r = telegramID)
          then (Inl (DBErr ''value too long for type character varying(8)''), db)
          else (Inr (), db\<lparr>wallets := map (\<lambda>r. if W_TelegramID r = telegramID then r\<lparr>W_Lang := lang\<rparr> else r)
                                   (wallets db)\<rparr>))"

definition add_ton :: "int \<Rightarrow> Wallet \<Rightarrow> go_error + Wallet" where
  "add_ton d w = (case bigint (W_TONBalance w + d) of Inl e \<Rightarrow> Inl e | Inr v \<Rightarrow> Inr (w\<lparr>W_TONBalance := v\<rparr>))"

definition add_credit :: "int \<Rightarrow> Wallet \<Rightarrow> go_error + Wallet" where
  "add_credit d w = (case bigint (W_Credit w + d) of Inl e \<Rightarrow> Inl e | Inr v \<Rightarrow> Inr (w\<lparr>W_Credit := v\<rparr>))"

definition add_frozen :: "int \<Rightarrow> Wallet \<Rightarrow> go_error + Wallet" where
  "add_frozen d w = (case bigint (W_Frozen w + d) of Inl e \<Rightarrow> Inl e | Inr v \<Rightarrow> Inr (w\<lparr>W_Frozen := v\<rparr>))"

definition update_wallet :: "uuid \<Rightarrow> (Wallet \<Rightarrow> go_error + Wallet) \<Rightarrow> pay_db \<Rightarrow> go_error + pay_db" where
  "update_wallet i f db =
     (case update_rows (\<lambda>w. W_ID w = i) f (wallets db) of
        Inl e \<Rightarrow> Inl e | Inr rows \<Rightarrow> Inr (db\<lparr>wallets := rows\<rparr>))"

definition create_transaction :: "Transaction \<Rightarrow> pay_db \<Rightarrow> go_error + Transaction \<times> pay_db" where
  "create_transaction t db =
     (case insert_transaction t (transactions db) of
        Inl e \<Rightarrow> Inl e | Inr rows \<Rightarrow> Inr (t, db\<lparr>transactions := rows\<rparr>))"

definition Deposit ::
  "io \<Rightarrow> uuid \<Rightarrow> int64 \<Rightarrow> string \<Rightarrow> string \<Rightarrow> string \<Rightarrow> pay_db \<Rightarrow> (go_error + Transaction) \<times> pay_db" where
  "Deposit io walletID amountNano txHash fromAddr desc =
     gorm_Transaction (io_flt io 3) (\<lambda>db.
       case First (io_flt io 0) T_ID (\<lambda>t. T_TxHash t = txHash) (transactions db) of
         Inr existing \<Rightarrow> Inr (existing, db)
       | Inl _ \<Rightarrow>
           (case stmt (io_flt io 1) (update_wallet walletID (add_ton amountNano) db) of
              Inl e \<Rightarrow> Inl e
            | Inr db1 \<Rightarrow>
                stmt (io_flt io 2) (create_transaction
                  \<lparr>T_ID = io_uuid io 0, T_CreatedAt = io_now io 1, T_WalletID = walletID,
                   T_Type = TxDeposit, T_Status = TxConfirmed, T_Amount = amountNano, T_Fee = 0,
                   T_TxHash = txHash, T_FromAddress = fromAddr, T_ToAddress = [], T_ServiceID = [],
                   T_Ref = [], T_Description = desc, T_Metadata = [],
                   T_ConfirmedAt = Some (io_now io 0)\<rparr> db1)))"

text \<open>Credit is used first, the TON balance pays the rest.\<close>

definition split_charge :: "Wallet \<Rightarrow> int64 \<Rightarrow> int64 \<times> int64" where
  "split_charge w amountNano =
     (if amountNano \<le> W_Credit w then (amountNano, 0)
      else (W_Credit w, sub64 amountNano (W_Credit w)))"

definition charge :: "int64 \<Rightarrow> int64 \<Rightarrow> Wallet \<Rightarrow> go_error + Wallet" where
  "charge creditUsed tonUsed w =
     (case (if 0 < creditUsed then add_credit (- creditUsed) w else Inr w) of
        Inl e \<Rightarrow> Inl e
      | Inr w1 \<Rightarrow> if 0 < tonUsed then add_ton (- tonUsed) w1 else Inr w1)"

definition gain :: "int64 \<Rightarrow> int64 \<Rightarrow> Wallet \<Rightarrow> go_error + Wallet" where
  "gain creditUsed tonUsed w =
     (case (if 0 < creditUsed then add_credit creditUsed w else Inr w) of
        Inl e \<Rightarrow> Inl e
      | Inr w1 \<Rightarrow> if 0 < tonUsed then add_ton tonUsed w1 else Inr w1)"

definition deduct_key :: "uuid \<Rightarrow> string \<Rightarrow> string \<Rightarrow> Transaction \<Rightarrow> bool" where
  "deduct_key walletID serviceID ref t \<longleftrightarrow>
     T_WalletID t = walletID \<and> T_ServiceID t = serviceID \<and> T_Ref t = ref \<and> T_Type t = TxPayment"

definition Deduct ::
  "io \<Rightarrow> uuid \<Rightarrow> int64 \<Rightarrow> string \<Rightarrow> string \<Rightarrow> string \<Rightarrow> pay_db \<Rightarrow> (go_error + Transaction) \<times> pay_db" where
  "Deduct io walletID amountNano serviceID ref desc db =
     (if amountNano \<le> 0 then (Inl (Errorf ''invalid amount: must be positive'' []), db)
      else gorm_Transaction (io_flt io 4) (\<lambda>db.
        case (if ref = [] then Inl ErrRecordNotFound
              else First (io_flt io 0) T_ID (deduct_key walletID serviceID ref) (transactions db)) of
          Inr existing \<Rightarrow> Inr (existing, db)
        | Inl e0 \<Rightarrow>
            if \<not> errors_Is e0 ErrRecordNotFound then Inl e0
            else case First (io_flt io 1) W_ID (\<lambda>w. W_ID w = walletID) (wallets db) of
              Inl e \<Rightarrow> Inl e
            | Inr w \<Rightarrow>
                if \<not> HasEnough w amountNano then Inl (Errorf ''insufficient balance'' [])
                else let (creditUsed, tonUsed) = split_charge w amountNano
                  in case stmt (io_flt io 2) (update_wallet walletID (charge creditUsed tonUsed) db) of
                       Inl e \<Rightarrow> Inl e
                     | Inr db1 \<Rightarrow>
                         stmt (io_flt io 3) (create_transaction
                           \<lparr>T_ID = io_uuid io 1, T_CreatedAt = io_now io 1, T_WalletID = walletID,
                            T_Type = TxPayment, T_Status = TxConfirmed, T_Amount = neg64 amountNano,
                            T_Fee = 0, T_TxHash = ''int-'' @ io_uuid io 0, T_FromAddress = [],
                            T_ToAddress = [], T_ServiceID = serviceID, T_Ref = ref,
                            T_Description = desc, T_Metadata = [],
                            T_ConfirmedAt = Some (io_now io 0)\<rparr> db1)) db)"

definition AddCredit :: "io \<Rightarrow> uuid \<Rightarrow> int64 \<Rightarrow> string \<Rightarrow> pay_db \<Rightarrow> (go_error + unit) \<times> pay_db" where
  "AddCredit io walletID amountNano desc db =
     (if amountNano \<le> 0 then (Inl (Errorf ''invalid amount: must be positive'' []), db)
      else gorm_Transaction (io_flt io 2) (\<lambda>db.
        case stmt (io_flt io 0) (update_wallet walletID (add_credit amountNano) db) of
          Inl e \<Rightarrow> Inl e
        | Inr db1 \<Rightarrow>
            (case stmt (io_flt io 1) (create_transaction
               \<lparr>T_ID = io_uuid io 1, T_CreatedAt = io_now io 1, T_WalletID = walletID,
                T_Type = TxCreditAdd, T_Status = TxConfirmed, T_Amount = amountNano, T_Fee = 0,
                T_TxHash = ''int-'' @ io_uuid io 0, T_FromAddress = [], T_ToAddress = [],
                T_ServiceID = [], T_Ref = [], T_Description = desc, T_Metadata = [],
                T_ConfirmedAt = Some (io_now io 0)\<rparr> db1) of
               Inl e \<Rightarrow> Inl e | Inr (_, db2) \<Rightarrow> Inr ((), db2))) db)"

text \<open>
  \<open>ORDER BY created_at DESC LIMIT n\<close>: the most recent rows first (gorm drops a negative limit; the
  order of rows with the same time, which SQL leaves open, is newest insertion first).
\<close>

definition ListTransactions :: "io \<Rightarrow> uuid \<Rightarrow> int \<Rightarrow> pay_db \<Rightarrow> go_error + Transaction list" where
  "ListTransactions io walletID limit db =
     (let rows = rev (sort_key T_CreatedAt (filter (\<lambda>t. T_WalletID t = walletID) (transactions db)))
      in stmt (io_flt io 0) (Inr (if limit < 0 then rows else take (nat limit) rows)))"

section \<open>Transfers and statistics (\<open>transfer.go\<close>)\<close>

record Stats =
  TotalWallets :: int64
  TotalDeposits :: f64
  TotalPayments :: f64
  PendingWithdraw :: int64

text \<open>
  The queries of \<open>GetStats\<close> ignore their errors: a failed one leaves a zero. The sums of \<open>bigint\<close>
  columns are \<open>numeric\<close> in SQL; scanning one that does not fit \<open>int64\<close> is an error, too.
\<close>

definition scan_sum :: "string option \<Rightarrow> int list \<Rightarrow> int64" where
  "scan_sum f xs = (if f = None \<and> in_int64 (sum_list xs) then sum_list xs else 0)"

definition GetStats :: "io \<Rightarrow> pay_db \<Rightarrow> Stats" where
  "GetStats io db =
     (let deposits = scan_sum (io_flt io 1) (map T_Amount (filter (\<lambda>t. T_Type t = TxDeposit \<and>
                       T_Status t = TxConfirmed) (transactions db)));
          payments = scan_sum (io_flt io 2) (map (\<lambda>t. \<bar>T_Amount t\<bar>) (filter (\<lambda>t. T_Type t = TxPayment \<and>
                       T_Status t = TxConfirmed) (transactions db)))
      in \<lparr>TotalWallets = (if io_flt io 0 = None then int (length (wallets db)) else 0),
          TotalDeposits = f64_div (f64_of_int deposits) (10 ^ 9),
          TotalPayments = f64_div (f64_of_int payments) (10 ^ 9),
          PendingWithdraw = (if io_flt io 3 = None
             then int (length (filter (\<lambda>q. R_Status q = WithdrawPending) (withdraw_requests db))) else 0)\<rparr>)"

definition Transfer ::
  "io \<Rightarrow> uuid \<Rightarrow> uuid \<Rightarrow> int64 \<Rightarrow> string \<Rightarrow> pay_db \<Rightarrow>
     (go_error + Transaction \<times> Transaction) \<times> pay_db" where
  "Transfer io fromID toID amountNano desc db =
     (if amountNano \<le> 0 then (Inl (Errorf ''invalid amount: must be positive'' []), db)
      else gorm_Transaction (io_flt io 6) (\<lambda>db.
        case First (io_flt io 0) W_ID (\<lambda>w. W_ID w = fromID) (wallets db) of
          Inl e \<Rightarrow> Inl (Wrapf ''from wallet: %w'' [] e)
        | Inr src \<Rightarrow>
            (case First (io_flt io 1) W_ID (\<lambda>w. W_ID w = toID) (wallets db) of
               Inl e \<Rightarrow> Inl (Wrapf ''to wallet: %w'' [] e)
             | Inr dst \<Rightarrow>
                 if \<not> HasEnough src amountNano then Inl (Errorf ''insufficient balance'' [])
                 else let (creditUsed, tonUsed) = split_charge src amountNano
                   in case stmt (io_flt io 2) (update_wallet fromID (charge creditUsed tonUsed) db) of
                        Inl e \<Rightarrow> Inl e
                      | Inr db1 \<Rightarrow>
                   (case stmt (io_flt io 3) (update_wallet toID (gain creditUsed tonUsed) db1) of
                        Inl e \<Rightarrow> Inl e
                      | Inr db2 \<Rightarrow>
                   (let internalID = ''int-'' @ io_uuid io 0;
                        fromTx =
                          \<lparr>T_ID = io_uuid io 1, T_CreatedAt = io_now io 1, T_WalletID = fromID,
                           T_Type = TxPayment, T_Status = TxConfirmed, T_Amount = neg64 amountNano,
                           T_Fee = 0, T_TxHash = internalID @ ''-from'', T_FromAddress = [],
                           T_ToAddress = [], T_ServiceID = [], T_Ref = [], T_Description = desc,
                           T_Metadata = [], T_ConfirmedAt = Some (io_now io 0)\<rparr>;
                        toTx =
                          \<lparr>T_ID = io_uuid io 2, T_CreatedAt = io_now io 2, T_WalletID = toID,
                           T_Type = TxDeposit, T_Status = TxConfirmed, T_Amount = amountNano,
                           T_Fee = 0, T_TxHash = internalID @ ''-to'', T_FromAddress = [],
                           T_ToAddress = [], T_ServiceID = [], T_Ref = [], T_Description = desc,
                           T_Metadata = [], T_ConfirmedAt = Some (io_now io 0)\<rparr>
                    in case stmt (io_flt io 4) (create_transaction fromTx db2) of
                         Inl e \<Rightarrow> Inl e
                       | Inr (_, db3) \<Rightarrow>
                    (case stmt (io_flt io 5) (create_transaction toTx db3) of
                         Inl e \<Rightarrow> Inl e
                       | Inr (_, db4) \<Rightarrow> Inr ((fromTx, toTx), db4)))))) db)"

section \<open>Invoices (\<open>invoice_repo.go\<close>)\<close>

definition CreateInvoice :: "io \<Rightarrow> Invoice \<Rightarrow> pay_db \<Rightarrow> (go_error + unit) \<times> pay_db" where
  "CreateInvoice io v db =
     (case stmt (io_flt io 0) (insert_invoice v (invoices db)) of
        Inl e \<Rightarrow> (Inl e, db) | Inr rows \<Rightarrow> (Inr (), db\<lparr>invoices := rows\<rparr>))"

definition FindInvoiceByCode :: "io \<Rightarrow> string \<Rightarrow> pay_db \<Rightarrow> go_error + Invoice option" where
  "FindInvoiceByCode io code db =
     nil_if_not_found (First (io_flt io 0) I_ID (\<lambda>v. I_Code v = code) (invoices db))"

definition FindPendingInvoiceByCode :: "io \<Rightarrow> string \<Rightarrow> pay_db \<Rightarrow> go_error + Invoice option" where
  "FindPendingInvoiceByCode io code db =
     nil_if_not_found (First (io_flt io 0) I_ID (\<lambda>v. I_Code v = code \<and> I_Status v = InvoicePending) (invoices db))"

definition AddInvoiceReceipt ::
  "io \<Rightarrow> uuid \<Rightarrow> int64 \<Rightarrow> string \<Rightarrow> pay_db \<Rightarrow> (go_error + bool) \<times> pay_db" where
  "AddInvoiceReceipt io invoiceID amountNano txHash =
     gorm_Transaction (io_flt io 2) (\<lambda>db.
       case First (io_flt io 0) I_ID (\<lambda>v. I_ID v = invoiceID) (invoices db) of
         Inl e \<Rightarrow> Inl e
       | Inr v \<Rightarrow>
           (let newReceived = add64 (I_ReceivedNano v) amountNano;
                paid = (I_Status v = InvoicePending \<and> (I_Amount v = 0 \<or> I_Amount v \<le> newReceived));
                upd = (\<lambda>r. if paid then r\<lparr>I_ReceivedNano := newReceived, I_Status := InvoicePaid,
                                       I_TxHash := txHash, I_PaidAt := Some (io_now io 0)\<rparr>
                           else r\<lparr>I_ReceivedNano := newReceived\<rparr>)
            in stmt (io_flt io 1) (Inr (paid,
                 db\<lparr>invoices := map (\<lambda>r. if I_ID r = invoiceID then upd r else r) (invoices db)\<rparr>))))"

definition ConfirmInvoice :: "io \<Rightarrow> uuid \<Rightarrow> string \<Rightarrow> pay_db \<Rightarrow> (go_error + unit) \<times> pay_db" where
  "ConfirmInvoice io invoiceID txHash db =
     (case io_flt io 0 of
        Some m \<Rightarrow> (Inl (DBErr m), db)
      | None \<Rightarrow> (Inr (), db\<lparr>invoices := map (\<lambda>r. if I_ID r = invoiceID
           then r\<lparr>I_Status := InvoicePaid, I_TxHash := txHash, I_PaidAt := Some (io_now io 0)\<rparr> else r)
           (invoices db)\<rparr>))"

definition ExpireOldInvoices :: "io \<Rightarrow> pay_db \<Rightarrow> (go_error + unit) \<times> pay_db" where
  "ExpireOldInvoices io db =
     (case io_flt io 0 of
        Some m \<Rightarrow> (Inl (DBErr m), db)
      | None \<Rightarrow> (Inr (), db\<lparr>invoices := map (\<lambda>r. if I_Status r = InvoicePending \<and> I_ExpiresAt r < io_now io 0
           then r\<lparr>I_Status := InvoiceExpired\<rparr> else r) (invoices db)\<rparr>))"

section \<open>Withdrawals (\<open>withdraw_repo.go\<close>)\<close>

abbreviation store_ErrInsufficientBalance :: go_error where
  "store_ErrInsufficientBalance \<equiv> Sentinel ''store.ErrInsufficientBalance''"

text \<open>A new request: the id and the status \<open>pending\<close> are column defaults.\<close>

definition CreateWithdraw ::
  "io \<Rightarrow> WithdrawRequest \<Rightarrow> pay_db \<Rightarrow> (go_error + WithdrawRequest) \<times> pay_db" where
  "CreateWithdraw io req =
     (let total = add64 (R_Amount req) (R_Fee req)
      in gorm_Transaction (io_flt io 3) (\<lambda>db.
        case First (io_flt io 0) W_ID (\<lambda>w. W_ID w = R_WalletID req) (wallets db) of
          Inl e \<Rightarrow> Inl e
        | Inr w \<Rightarrow>
            if \<not> HasEnough w total then Inl store_ErrInsufficientBalance
            else (case stmt (io_flt io 1) (update_wallet (R_WalletID req) (add_frozen total) db) of
                    Inl e \<Rightarrow> Inl e
                  | Inr db1 \<Rightarrow>
                      (let req' = req\<lparr>R_ID := io_uuid io 0, R_CreatedAt := io_now io 0,
                                      R_Status := WithdrawPending\<rparr>
                       in case stmt (io_flt io 2) (insert_withdraw req' (withdraw_requests db1)) of
                            Inl e \<Rightarrow> Inl e
                          | Inr rows \<Rightarrow> Inr (req', db1\<lparr>withdraw_requests := rows\<rparr>)))))"

definition ListPendingWithdrawals :: "io \<Rightarrow> pay_db \<Rightarrow> go_error + WithdrawRequest list" where
  "ListPendingWithdrawals io db =
     stmt (io_flt io 0) (Inr (sort_key R_CreatedAt
       (filter (\<lambda>q. R_Status q = WithdrawPending) (withdraw_requests db))))"

definition withdraw_out :: "int64 \<Rightarrow> Wallet \<Rightarrow> go_error + Wallet" where
  "withdraw_out amt w = (case add_ton (- amt) w of Inl e \<Rightarrow> Inl e | Inr w1 \<Rightarrow> add_frozen (- amt) w1)"

definition CompleteWithdraw :: "io \<Rightarrow> uuid \<Rightarrow> string \<Rightarrow> pay_db \<Rightarrow> (go_error + unit) \<times> pay_db" where
  "CompleteWithdraw io i txHash =
     gorm_Transaction (io_flt io 3) (\<lambda>db.
       case First (io_flt io 0) R_ID (\<lambda>q. R_ID q = i) (withdraw_requests db) of
         Inl e \<Rightarrow> Inl e
       | Inr req \<Rightarrow>
           (case stmt (io_flt io 1) (update_wallet (R_WalletID req)
                   (withdraw_out (add64 (R_Amount req) (R_Fee req))) db) of
              Inl e \<Rightarrow> Inl e
            | Inr db1 \<Rightarrow>
                stmt (io_flt io 2) (Inr ((), db1\<lparr>withdraw_requests := map (\<lambda>q. if R_ID q = i
                  then q\<lparr>R_Status := WithdrawDone, R_TxHash := txHash, R_ProcessedAt := Some (io_now io 0)\<rparr>
                  else q) (withdraw_requests db1)\<rparr>))))"

definition RejectWithdraw :: "io \<Rightarrow> uuid \<Rightarrow> string \<Rightarrow> pay_db \<Rightarrow> (go_error + unit) \<times> pay_db" where
  "RejectWithdraw io i reason =
     gorm_Transaction (io_flt io 3) (\<lambda>db.
       case First (io_flt io 0) R_ID (\<lambda>q. R_ID q = i) (withdraw_requests db) of
         Inl e \<Rightarrow> Inl e
       | Inr req \<Rightarrow>
           (case stmt (io_flt io 1) (update_wallet (R_WalletID req)
                   (add_frozen (- add64 (R_Amount req) (R_Fee req))) db) of
              Inl e \<Rightarrow> Inl e
            | Inr db1 \<Rightarrow>
                stmt (io_flt io 2) (Inr ((), db1\<lparr>withdraw_requests := map (\<lambda>q. if R_ID q = i
                  then q\<lparr>R_Status := WithdrawRejected, R_AdminNote := reason,
                         R_ProcessedAt := Some (io_now io 0)\<rparr>
                  else q) (withdraw_requests db1)\<rparr>))))"

section \<open>Service identities (\<open>store.go\<close>)\<close>

definition ValidateBotInstance :: "io \<Rightarrow> string \<Rightarrow> pay_db \<Rightarrow> bool" where
  "ValidateBotInstance io serviceID db =
     (if \<not> HasPrefix serviceID ''bot_'' then False
      else case ParseInt (TrimPrefix serviceID ''bot_'') of
        None \<Rightarrow> False
      | Some botID \<Rightarrow>
          io_flt io 0 = None \<and>
          0 < length (filter (\<lambda>(b, status). b = botID \<and> status \<noteq> ''deleted'') (bot_instances db)))"

end
