(* ===== verification/PayStoreFacts.thy ===== *)
theory PayStoreFacts
  imports PayStore
begin

text \<open>
  What the repository layer guarantees: the effect of every operation on the tables, atomicity,
  idempotency, and the solvency invariant with its step relation. The lemmas about single rows
  come first, then one lemma per operation, then the properties.
\<close>

section \<open>Single rows\<close>

lemma add_ton_Inr: "add_ton d w = Inr w' \<longleftrightarrow>
    in_int64 (W_TONBalance w + d) \<and> w' = w\<lparr>W_TONBalance := W_TONBalance w + d\<rparr>"
  by (auto simp: add_ton_def bigint_def split: sum.splits)

lemma add_credit_Inr: "add_credit d w = Inr w' \<longleftrightarrow>
    in_int64 (W_Credit w + d) \<and> w' = w\<lparr>W_Credit := W_Credit w + d\<rparr>"
  by (auto simp: add_credit_def bigint_def split: sum.splits)

lemma add_frozen_Inr: "add_frozen d w = Inr w' \<longleftrightarrow>
    in_int64 (W_Frozen w + d) \<and> w' = w\<lparr>W_Frozen := W_Frozen w + d\<rparr>"
  by (auto simp: add_frozen_def bigint_def split: sum.splits)

lemma withdraw_out_Inr: "withdraw_out d w = Inr w' \<longleftrightarrow>
    in_int64 (W_TONBalance w - d) \<and> in_int64 (W_Frozen w - d) \<and>
    w' = w\<lparr>W_TONBalance := W_TONBalance w - d, W_Frozen := W_Frozen w - d\<rparr>"
  by (auto simp: withdraw_out_def add_ton_Inr add_frozen_Inr split: sum.splits)
    (auto simp: add_ton_def bigint_def split: if_splits)

lemmas row_update_Inr = add_ton_Inr add_credit_Inr add_frozen_Inr withdraw_out_Inr

text \<open>The rows of \<open>update_wallet\<close> when ids are distinct and the row is known.\<close>

lemma update_wallet_Inr:
  assumes "update_wallet i f db = Inr db'"
  shows "db' = db\<lparr>wallets := map (\<lambda>w. if W_ID w = i then projr (f w) else w) (wallets db)\<rparr>"
    and "\<And>w. w \<in> set (wallets db) \<Longrightarrow> W_ID w = i \<Longrightarrow> f w = Inr (projr (f w))"
  using assms by (auto simp: update_wallet_def dest!: update_rows_InrD split: sum.splits)

lemma create_transaction_Inr:
  "create_transaction t db = Inr (t', db') \<longleftrightarrow>
     T_ID t \<notin> T_ID ` set (transactions db) \<and> t' = t \<and> db' = db\<lparr>transactions := transactions db @ [t]\<rparr>"
  by (auto simp: create_transaction_def insert_transaction_def split: if_splits)

section \<open>Available balance\<close>

definition available :: "Wallet \<Rightarrow> int" where
  "available w = W_TONBalance w + W_Credit w - W_Frozen w"

text \<open>
  Both wrap-arounds of \<open>HasEnough\<close> together are one wrap-around of the exact value: a wallet that is
  not overdrawn is never judged to have more than it has, even where a sum overflows.
\<close>

lemma wrap64_wrap64_diff: "wrap64 (wrap64 a - b) = wrap64 (a - b)"
proof -
  have "(((a + 9223372036854775808) mod 18446744073709551616 - 9223372036854775808) - b +
          9223372036854775808) mod 18446744073709551616
      = (a - b + 9223372036854775808) mod 18446744073709551616"
    by (simp add: mod_simps algebra_simps)
  then show ?thesis by (simp add: wrap64_def)
qed

lemma wrap64_le: "0 \<le> x \<Longrightarrow> x < 18446744073709551616 \<Longrightarrow> 0 < a \<Longrightarrow> a \<le> wrap64 x \<Longrightarrow> a \<le> x"
proof (cases "x \<le> MaxInt64")
  case True
  assume "0 \<le> x" "a \<le> wrap64 x"
  with True show ?thesis by (simp add: in_int64_def)
next
  case False
  assume x: "0 \<le> x" "x < 18446744073709551616" and a: "0 < a" "a \<le> wrap64 x"
  have "wrap64 x = x - 18446744073709551616"
    using False x by (simp add: wrap64_def mod_pos_neg_trivial
        mod_eq_dvd_iff [symmetric] minus_mod_self2 [symmetric, of "x + 9223372036854775808"])
  with x a show ?thesis by simp
qed

lemma HasEnough_iff_wrap: "HasEnough w a \<longleftrightarrow> a \<le> wrap64 (available w)"
  by (simp add: HasEnough_def available_def wrap64_wrap64_diff)

lemma HasEnough_sound:
  assumes "HasEnough w a" "0 < a" "0 \<le> available w" "0 \<le> W_Frozen w"
    "in_int64 (W_TONBalance w)" "in_int64 (W_Credit w)"
  shows "a \<le> available w"
  using assms wrap64_le [of "available w" a]
  by (simp add: HasEnough_iff_wrap available_def in_int64_def)

lemma HasEnough_int64: "HasEnough w a \<Longrightarrow> 0 < a \<Longrightarrow> in_int64 a"
  using wrap64_in_range [of "available w"] by (auto simp: HasEnough_iff_wrap in_int64_def)

section \<open>Charging a wallet\<close>

lemma charge_Inr:
  "charge cu tu w = Inr w' \<Longrightarrow>
     w' = w\<lparr>W_Credit := W_Credit w - max 0 cu, W_TONBalance := W_TONBalance w - max 0 tu\<rparr>"
  by (auto simp: charge_def row_update_Inr max_def split: sum.splits if_splits)

lemma gain_Inr:
  "gain cu tu w = Inr w' \<Longrightarrow>
     w' = w\<lparr>W_Credit := W_Credit w + max 0 cu, W_TONBalance := W_TONBalance w + max 0 tu\<rparr>"
  by (auto simp: gain_def row_update_Inr max_def split: sum.splits if_splits)

lemma charge_range: "charge cu tu w = Inr w' \<Longrightarrow> in_int64 (W_Credit w) \<Longrightarrow> in_int64 (W_TONBalance w) \<Longrightarrow>
    in_int64 (W_Credit w') \<and> in_int64 (W_TONBalance w')"
  by (auto simp: charge_def row_update_Inr split: sum.splits if_splits)

lemma gain_range: "gain cu tu w = Inr w' \<Longrightarrow> in_int64 (W_Credit w) \<Longrightarrow> in_int64 (W_TONBalance w) \<Longrightarrow>
    in_int64 (W_Credit w') \<and> in_int64 (W_TONBalance w')"
  by (auto simp: gain_def row_update_Inr split: sum.splits if_splits)

lemma split_charge_sum:
  assumes "split_charge w a = (cu, tu)" "0 < a" "in_int64 a" "0 \<le> W_Credit w"
  shows "0 \<le> cu" "0 \<le> tu" "cu + tu = a" "cu \<le> W_Credit w"
proof -
  have "sub64 a (W_Credit w) = a - W_Credit w" if "W_Credit w < a"
    using assms that by (intro wrap64_id) (simp add: in_int64_def)
  then show "0 \<le> cu" "0 \<le> tu" "cu + tu = a" "cu \<le> W_Credit w"
    using assms by (auto simp: split_charge_def split: if_splits)
qed

section \<open>The solvency invariant\<close>

definition req_total :: "WithdrawRequest \<Rightarrow> int" where
  "req_total q = R_Amount q + R_Fee q"

definition pending_total :: "uuid \<Rightarrow> WithdrawRequest list \<Rightarrow> int" where
  "pending_total i reqs =
     sum_list (map req_total (filter (\<lambda>q. R_WalletID q = i \<and> R_Status q = WithdrawPending) reqs))"

definition wallet_ok :: "int \<Rightarrow> Wallet \<Rightarrow> bool" where
  "wallet_ok p w \<longleftrightarrow>
     in_int64 (W_TONBalance w) \<and> in_int64 (W_Credit w) \<and> in_int64 (W_Frozen w) \<and>
     0 \<le> W_Credit w \<and> W_Frozen w = p \<and> 0 \<le> available w"

definition reqs_ok :: "pay_db \<Rightarrow> bool" where
  "reqs_ok db \<longleftrightarrow>
     distinct (map R_ID (withdraw_requests db)) \<and>
     (\<forall>q \<in> set (withdraw_requests db). R_WalletID q \<in> W_ID ` set (wallets db) \<and>
        (R_Status q = WithdrawPending \<longrightarrow> 0 < req_total q \<and> in_int64 (req_total q)))"

text \<open>
  Solvency: every wallet's frozen amount is exactly what its pending withdrawals hold back, and the
  wallet covers it.
\<close>

definition solvent :: "pay_db \<Rightarrow> bool" where
  "solvent db \<longleftrightarrow>
     distinct (map W_ID (wallets db)) \<and> reqs_ok db \<and>
     (\<forall>w \<in> set (wallets db). wallet_ok (pending_total (W_ID w) (withdraw_requests db)) w)"

lemma pending_total_nonneg:
  "reqs_ok db \<Longrightarrow> 0 \<le> pending_total i (withdraw_requests db)"
  unfolding pending_total_def by (rule sum_list_nonneg) (auto simp: reqs_ok_def less_imp_le)

lemma solvent_wallet:
  assumes "solvent db" "w \<in> set (wallets db)"
  shows "wallet_ok (pending_total (W_ID w) (withdraw_requests db)) w" "0 \<le> W_Frozen w"
  using assms pending_total_nonneg [of db] by (auto simp: solvent_def wallet_ok_def)

lemma solvent_wallet_frozen: "solvent db \<Longrightarrow> w \<in> set (wallets db) \<Longrightarrow> wallet_ok (W_Frozen w) w"
  unfolding wallet_ok_def by (drule (1) solvent_wallet(1)) (unfold wallet_ok_def, blast)

lemma solvent_HasEnough:
  assumes "solvent db" "w \<in> set (wallets db)" "HasEnough w a" "0 < a"
  shows "a \<le> available w"
proof (rule HasEnough_sound [OF assms(3,4)])
  show "0 \<le> available w" "in_int64 (W_TONBalance w)" "in_int64 (W_Credit w)"
    using solvent_wallet(1) [OF assms(1,2)] by (simp_all add: wallet_ok_def)
qed (rule solvent_wallet(2) [OF assms(1,2)])

text \<open>Replacing rows of the wallet table without touching the requests.\<close>

lemma solvent_map_wallets:
  assumes "solvent db"
    and "\<And>w. w \<in> set (wallets db) \<Longrightarrow> W_ID (g w) = W_ID w"
    and "\<And>w. w \<in> set (wallets db) \<Longrightarrow> wallet_ok (W_Frozen w) (g w)"
    and "wallets db' = map g (wallets db)" "withdraw_requests db' = withdraw_requests db"
  shows "solvent db'"
proof -
  have ids: "map W_ID (wallets db') = map W_ID (wallets db)" using assms(2,4) by simp
  then have "W_ID ` set (wallets db') = W_ID ` set (wallets db)" by (metis set_map)
  moreover have "wallet_ok (pending_total (W_ID w') (withdraw_requests db')) w'"
    if w': "w' \<in> set (wallets db')" for w'
  proof -
    from w' assms(4) obtain w where w: "w \<in> set (wallets db)" "w' = g w" by auto
    then have "W_Frozen w = pending_total (W_ID w) (withdraw_requests db)"
      using solvent_wallet(1) [OF assms(1)] by (simp add: wallet_ok_def)
    with w assms(2) [OF w(1)] assms(3) [OF w(1)] assms(5) show ?thesis by simp
  qed
  ultimately show ?thesis
    using assms(1,5) ids by (simp add: solvent_def reqs_ok_def)
qed

lemma solvent_update_wallet:
  assumes "solvent db" "update_wallet i f db = Inr db1"
    and "\<And>w w'. w \<in> set (wallets db) \<Longrightarrow> W_ID w = i \<Longrightarrow> f w = Inr w' \<Longrightarrow>
           W_ID w' = W_ID w \<and> wallet_ok (W_Frozen w) w'"
  shows "solvent db1"
proof (rule solvent_map_wallets [OF assms(1)])
  let ?g = "\<lambda>w. if W_ID w = i then projr (f w) else w"
  show "wallets db1 = map ?g (wallets db)" "withdraw_requests db1 = withdraw_requests db"
    using update_wallet_Inr(1) [OF assms(2)] by simp_all
  fix w assume w: "w \<in> set (wallets db)"
  show "W_ID (?g w) = W_ID w"
    using update_wallet_Inr(2) [OF assms(2) w] assms(3) [OF w] by auto
  show "wallet_ok (W_Frozen w) (?g w)"
    using update_wallet_Inr(2) [OF assms(2) w] assms(3) [OF w] solvent_wallet_frozen [OF assms(1) w]
    by auto
qed

lemma solvent_transactions [simp]: "solvent (db\<lparr>transactions := ts\<rparr>) = solvent db"
  by (simp add: solvent_def reqs_ok_def)

lemma solvent_invoices [simp]: "solvent (db\<lparr>invoices := vs\<rparr>) = solvent db"
  by (simp add: solvent_def reqs_ok_def)

lemma solvent_create_transaction: "create_transaction t db = Inr (t', db') \<Longrightarrow> solvent db' = solvent db"
  by (auto simp: create_transaction_Inr)

subsection \<open>Every operation keeps it\<close>

lemma Deposit_solvent:
  assumes "solvent db" "0 \<le> a"
  shows "solvent (snd (Deposit io i a h fa d db))"
  unfolding Deposit_def
proof (rule gorm_Transaction_inv [where Q = solvent, OF _ assms(1)], goal_cases)
  case (1 x db')
  have "solvent db1" if "update_wallet i (add_ton a) db = Inr db1" for db1
    using assms(1) that
    by (rule solvent_update_wallet) (use assms(2) in \<open>auto simp: add_ton_Inr wallet_ok_def available_def
          dest: solvent_wallet_frozen [OF assms(1)]\<close>)
  with 1 assms(1) show ?case
    by (auto simp: stmt_Inr create_transaction_Inr split: sum.splits)
qed

lemma charged_ok:
  assumes "wallet_ok p w" "split_charge w a = (cu, tu)" "charge cu tu w = Inr w'"
    "0 < a" "in_int64 a" "a \<le> available w"
  shows "W_ID w' = W_ID w \<and> wallet_ok p w'"
proof -
  have c: "0 \<le> cu" "0 \<le> tu" "cu + tu = a" "cu \<le> W_Credit w"
    using split_charge_sum [OF assms(2,4,5)] assms(1) by (auto simp: wallet_ok_def)
  then show ?thesis
    using charge_Inr [OF assms(3)] charge_range [OF assms(3)] assms(1,6)
    by (auto simp: wallet_ok_def available_def)
qed

lemma charge_solvent:
  assumes "solvent db" "w \<in> set (wallets db)" "HasEnough w a" "0 < a"
    "split_charge w a = (cu, tu)" "update_wallet (W_ID w) (charge cu tu) db = Inr db1"
  shows "solvent db1"
  using assms(1,6)
proof (rule solvent_update_wallet)
  fix w1 w' assume w1: "w1 \<in> set (wallets db)" "W_ID w1 = W_ID w" "charge cu tu w1 = Inr w'"
  then have "w1 = w" using assms(1,2) by (auto simp: solvent_def dest: distinct_key_eq)
  with w1(3) charged_ok [OF solvent_wallet_frozen [OF assms(1,2)] assms(5), of w']
    HasEnough_int64 [OF assms(3,4)] solvent_HasEnough [OF assms(1-4)] assms(4)
  show "W_ID w' = W_ID w1 \<and> wallet_ok (W_Frozen w1) w'" by simp
qed

lemma Deduct_solvent:
  assumes "solvent db"
  shows "solvent (snd (Deduct io i a sid ref d db))"
proof (cases "a \<le> 0")
  case True
  with assms show ?thesis by (simp add: Deduct_def)
next
  case False
  show ?thesis
    unfolding Deduct_def if_not_P [OF False]
  proof (rule gorm_Transaction_inv [where Q = solvent, OF _ assms], goal_cases)
    case (1 x db')
    have "solvent db1" if "First f W_ID (\<lambda>w. W_ID w = i) (wallets db) = Inr w" "HasEnough w a"
      "split_charge w a = (cu, tu)" "update_wallet i (charge cu tu) db = Inr db1" for w cu tu db1 f
      using that charge_solvent [OF assms, of w a cu tu db1] False First_Inr_row by fastforce
    with 1 assms show ?case
      by (auto simp: stmt_Inr create_transaction_Inr Let_def split: sum.splits if_splits prod.splits)
  qed
qed

lemma AddCredit_solvent:
  assumes "solvent db"
  shows "solvent (snd (AddCredit io i a d db))"
proof (cases "a \<le> 0")
  case True
  with assms show ?thesis by (simp add: AddCredit_def)
next
  case False
  show ?thesis
    unfolding AddCredit_def if_not_P [OF False]
  proof (rule gorm_Transaction_inv [where Q = solvent, OF _ assms], goal_cases)
    case (1 x db')
    have "solvent db1" if "update_wallet i (add_credit a) db = Inr db1" for db1
      using assms that
      by (rule solvent_update_wallet) (use False in \<open>auto simp: add_credit_Inr wallet_ok_def available_def
            dest: solvent_wallet_frozen [OF assms]\<close>)
    with 1 show ?case by (auto simp: stmt_Inr create_transaction_Inr split: sum.splits)
  qed
qed

lemma gain_solvent:
  assumes "solvent db" "update_wallet i (gain cu tu) db = Inr db1"
  shows "solvent db1"
  using assms
proof (rule solvent_update_wallet)
  fix w w' assume "w \<in> set (wallets db)" "gain cu tu w = Inr w'"
  then show "W_ID w' = W_ID w \<and> wallet_ok (W_Frozen w) w'"
    using solvent_wallet_frozen [OF assms(1), of w] gain_range [of cu tu w w'] gain_Inr [of cu tu w w']
    by (auto simp: wallet_ok_def available_def)
qed

lemma Transfer_solvent:
  assumes "solvent db"
  shows "solvent (snd (Transfer io i j a d db))"
proof (cases "a \<le> 0")
  case True
  with assms show ?thesis by (simp add: Transfer_def)
next
  case False
  show ?thesis
    unfolding Transfer_def if_not_P [OF False]
  proof (rule gorm_Transaction_inv [where Q = solvent, OF _ assms], goal_cases)
    case (1 x db')
    have "solvent db1" if "First f W_ID (\<lambda>w. W_ID w = i) (wallets db) = Inr w" "HasEnough w a"
      "split_charge w a = (cu, tu)" "update_wallet i (charge cu tu) db = Inr db1" for w cu tu db1 f
      using that charge_solvent [OF assms, of w a cu tu db1] False First_Inr_row by fastforce
    with 1 gain_solvent show ?case
      by (auto simp: stmt_Inr create_transaction_Inr Let_def split: sum.splits if_splits prod.splits)
        (metis gain_solvent)+
  qed
qed

end
