(* ===== verification/PaySolvency.thy ===== *)
theory PaySolvency
  imports PayStoreFacts
begin

text \<open>
  The solvency invariant across whole histories of the store: withdrawals and wallet creation keep
  it, the step relation \<open>pay_step\<close> collects every state-changing operation of
  \<open>botpay/internal/store\<close> on wallets, transactions, invoices and withdrawals, and the invariants
  hold in every state reached by it. The guards on the withdrawal steps are what the repository
  relies on its callers for; the last section shows what happens without them.
\<close>

section \<open>Withdrawals keep the invariant\<close>

lemma pending_total_append:
  "pending_total i (reqs @ [q]) =
     pending_total i reqs + (if R_WalletID q = i \<and> R_Status q = WithdrawPending then req_total q else 0)"
  by (simp add: pending_total_def)

lemma pending_total_Cons:
  "pending_total i (q # reqs) =
     (if R_WalletID q = i \<and> R_Status q = WithdrawPending then req_total q else 0) + pending_total i reqs"
  by (simp add: pending_total_def)

text \<open>Closing a pending request takes its total out of what its wallet holds back.\<close>

lemma pending_total_close:
  assumes "distinct (map R_ID reqs)" "q \<in> set reqs" "R_Status q = WithdrawPending"
    "\<And>x. R_Status (f x) \<noteq> WithdrawPending"
  shows "pending_total i (map (\<lambda>x. if R_ID x = R_ID q then f x else x) reqs) =
           pending_total i reqs - (if R_WalletID q = i then req_total q else 0)"
  using assms(1,2)
proof (induction reqs)
  case (Cons x reqs)
  show ?case
  proof (cases "x = q")
    case True
    then have "map (\<lambda>x. if R_ID x = R_ID q then f x else x) reqs = reqs"
      using Cons.prems by (intro map_idI) (auto simp: image_iff)
    with True assms(3,4) show ?thesis by (simp add: pending_total_Cons)
  next
    case False
    with Cons.prems have "R_ID x \<noteq> R_ID q" "q \<in> set reqs" "distinct (map R_ID reqs)"
      by (auto simp: image_iff)
    with Cons.IH show ?thesis by (simp add: pending_total_Cons)
  qed
qed simp

lemma reqs_ok_cong:
  "map W_ID (wallets db) = map W_ID (wallets db') \<Longrightarrow> withdraw_requests db = withdraw_requests db' \<Longrightarrow>
     reqs_ok db = reqs_ok db'"
  unfolding reqs_ok_def by (metis set_map)

lemma reqs_ok_map:
  assumes "reqs_ok db"
    and "\<And>x. x \<in> set (withdraw_requests db) \<Longrightarrow> R_ID (h x) = R_ID x \<and> R_WalletID (h x) = R_WalletID x \<and>
           (R_Status (h x) = WithdrawPending \<longrightarrow> h x = x)"
  shows "reqs_ok (db\<lparr>withdraw_requests := map h (withdraw_requests db)\<rparr>)"
proof -
  have "map R_ID (map h (withdraw_requests db)) = map R_ID (withdraw_requests db)"
    using assms(2) by simp
  with assms show ?thesis by (fastforce simp: reqs_ok_def simp del: map_map)
qed

lemma solvent_mapI:
  assumes "distinct (map W_ID (wallets db))" "reqs_ok (db\<lparr>withdraw_requests := reqs\<rparr>)"
    and "\<And>w. w \<in> set (wallets db) \<Longrightarrow> W_ID (g w) = W_ID w \<and> wallet_ok (pending_total (W_ID w) reqs) (g w)"
  shows "solvent (db\<lparr>wallets := map g (wallets db), withdraw_requests := reqs\<rparr>)"
proof -
  have ids: "map W_ID (map g (wallets db)) = map W_ID (wallets db)" using assms(3) by simp
  have "reqs_ok (db\<lparr>wallets := map g (wallets db), withdraw_requests := reqs\<rparr>)"
    using assms(2) ids by (subst reqs_ok_cong [of _ "db\<lparr>withdraw_requests := reqs\<rparr>"]) simp_all
  with assms(1,3) ids show ?thesis by (auto simp: solvent_def simp del: map_map)
qed

lemma solvent_requests:
  assumes "solvent db" "update_wallet i f db = Inr db1"
    and f: "\<And>w w'. w \<in> set (wallets db) \<Longrightarrow> W_ID w = i \<Longrightarrow> f w = Inr w' \<Longrightarrow>
           W_ID w' = W_ID w \<and> wallet_ok (W_Frozen w + d) w'"
    and pend: "\<And>k. pending_total k reqs = pending_total k (withdraw_requests db) + (if k = i then d else 0)"
    and "reqs_ok (db\<lparr>withdraw_requests := reqs\<rparr>)"
  shows "solvent (db1\<lparr>withdraw_requests := reqs\<rparr>)"
proof -
  let ?g = "\<lambda>w. if W_ID w = i then projr (f w) else w"
  have db1: "db1 = db\<lparr>wallets := map ?g (wallets db)\<rparr>"
    and ok: "\<And>w. w \<in> set (wallets db) \<Longrightarrow> W_ID w = i \<Longrightarrow> f w = Inr (projr (f w))"
    using update_wallet_Inr [OF assms(2)] by blast+
  have id: "W_ID (?g w) = W_ID w" if "w \<in> set (wallets db)" for w
    using f [OF that _ ok [OF that]] by simp
  have "wallet_ok (pending_total (W_ID w) reqs) (?g w)" if w: "w \<in> set (wallets db)" for w
  proof -
    have "pending_total (W_ID w) (withdraw_requests db) = W_Frozen w"
      using solvent_wallet(1) [OF assms(1) w] by (simp add: wallet_ok_def)
    then show ?thesis
      using f [OF w _ ok [OF w]] pend [of "W_ID w"] solvent_wallet_frozen [OF assms(1) w] by simp
  qed
  with id show ?thesis
    unfolding db1 using assms(1,5) by (intro solvent_mapI) (auto simp: solvent_def)
qed

lemma CreateWithdraw_solvent:
  assumes "solvent db" and t: "0 < R_Amount q + R_Fee q" "in_int64 (R_Amount q + R_Fee q)"
  shows "solvent (snd (CreateWithdraw io q db))"
proof -
  have total: "add64 (R_Amount q) (R_Fee q) = req_total q" "0 < req_total q" "in_int64 (req_total q)"
    using t by (simp_all add: req_total_def)
  let ?q = "q\<lparr>R_ID := io_uuid io 0, R_CreatedAt := io_now io 0, R_Status := WithdrawPending\<rparr>"
  have "solvent (db1\<lparr>withdraw_requests := withdraw_requests db @ [?q]\<rparr>)"
    if w: "First f W_ID (\<lambda>w. W_ID w = R_WalletID q) (wallets db) = Inr w" "HasEnough w (req_total q)"
      "update_wallet (R_WalletID q) (add_frozen (req_total q)) db = Inr db1"
      "io_uuid io 0 \<notin> R_ID ` set (withdraw_requests db)" for f w db1
  proof (rule solvent_requests [OF assms(1) w(3), where d = "req_total q"])
    have wq: "w \<in> set (wallets db)" "W_ID w = R_WalletID q" using First_Inr_row [OF w(1)] by auto
    fix w1 w' assume w1: "w1 \<in> set (wallets db)" "W_ID w1 = R_WalletID q"
      "add_frozen (req_total q) w1 = Inr w'"
    then have "w1 = w"
      using assms(1) wq by (auto simp: solvent_def dest: distinct_key_eq)
    then show "W_ID w' = W_ID w1 \<and> wallet_ok (W_Frozen w1 + req_total q) w'"
      using w1(3) solvent_wallet_frozen [OF assms(1) wq(1)] solvent_HasEnough [OF assms(1) wq(1) w(2) total(2)]
      by (auto simp: add_frozen_Inr wallet_ok_def available_def)
  next
    show "reqs_ok (db\<lparr>withdraw_requests := withdraw_requests db @ [?q]\<rparr>)"
      using assms(1) w(4) First_Inr_row [OF w(1)] total(2,3)
      by (auto simp: solvent_def reqs_ok_def req_total_def image_iff) metis
  qed (simp add: pending_total_append req_total_def)
  with assms(1) total show ?thesis
    unfolding CreateWithdraw_def Let_def
    by (intro gorm_Transaction_inv [where Q = solvent])
      (auto simp: stmt_Inr insert_withdraw_def update_wallet_def split: sum.splits if_splits)
qed

text \<open>Both ways of closing a request release its total; only \<open>CompleteWithdraw\<close> pays it out.\<close>

lemma close_solvent:
  assumes "solvent db" "First flt R_ID (\<lambda>q. R_ID q = i) (withdraw_requests db) = Inr q"
    and q: "R_Status q = WithdrawPending"
    and "update_wallet (R_WalletID q) g db = Inr db1"
    and "\<And>w w'. wallet_ok (W_Frozen w) w \<Longrightarrow> g w = Inr w' \<Longrightarrow>
           W_ID w' = W_ID w \<and> wallet_ok (W_Frozen w - req_total q) w'"
    and "\<And>x. R_Status (f x) \<noteq> WithdrawPending \<and> R_ID (f x) = R_ID x \<and> R_WalletID (f x) = R_WalletID x"
  shows "solvent (db1\<lparr>withdraw_requests := map (\<lambda>x. if R_ID x = i then f x else x) (withdraw_requests db1)\<rparr>)"
proof -
  have qi: "q \<in> set (withdraw_requests db)" "R_ID q = i" using First_Inr_row [OF assms(2)] by auto
  have "withdraw_requests db1 = withdraw_requests db"
    using update_wallet_Inr(1) [OF assms(4)] by simp
  moreover have "solvent (db1\<lparr>withdraw_requests := map (\<lambda>x. if R_ID x = i then f x else x) (withdraw_requests db)\<rparr>)"
  proof (rule solvent_requests [OF assms(1,4), where d = "- req_total q"])
    show "pending_total k (map (\<lambda>x. if R_ID x = i then f x else x) (withdraw_requests db)) =
        pending_total k (withdraw_requests db) + (if k = R_WalletID q then - req_total q else 0)" for k
      using pending_total_close [OF _ qi(1) q, of f k] assms(1,6) qi
      by (simp add: solvent_def reqs_ok_def)
    show "reqs_ok (db\<lparr>withdraw_requests := map (\<lambda>x. if R_ID x = i then f x else x) (withdraw_requests db)\<rparr>)"
      using assms(1,6) by (intro reqs_ok_map) (auto simp: solvent_def)
  next
    fix w w' assume w: "w \<in> set (wallets db)" "W_ID w = R_WalletID q" "g w = Inr w'"
    show "W_ID w' = W_ID w \<and> wallet_ok (W_Frozen w + - req_total q) w'"
      using assms(5) [OF solvent_wallet_frozen [OF assms(1) w(1)] w(3)] by simp
  qed
  ultimately show ?thesis by simp
qed

definition pending_id :: "uuid \<Rightarrow> pay_db \<Rightarrow> bool" where
  "pending_id i db \<longleftrightarrow> (\<forall>q \<in> set (withdraw_requests db). R_ID q = i \<longrightarrow> R_Status q = WithdrawPending)"

lemma pending_req:
  assumes "solvent db" "pending_id i db" "First f R_ID (\<lambda>q. R_ID q = i) (withdraw_requests db) = Inr q"
  shows "R_Status q = WithdrawPending" "add64 (R_Amount q) (R_Fee q) = req_total q" "0 < req_total q"
proof -
  have q: "q \<in> set (withdraw_requests db)" "R_ID q = i" using First_Inr_row [OF assms(3)] by auto
  then show p: "R_Status q = WithdrawPending" using assms(2) by (auto simp: pending_id_def)
  with q(1) assms(1) have "in_int64 (req_total q)" "0 < req_total q"
    by (auto simp: solvent_def reqs_ok_def)
  then show "add64 (R_Amount q) (R_Fee q) = req_total q" "0 < req_total q"
    by (simp_all add: req_total_def)
qed

lemma CompleteWithdraw_solvent:
  assumes "solvent db" "pending_id i db"
  shows "solvent (snd (CompleteWithdraw io i h db))"
  unfolding CompleteWithdraw_def
proof (rule gorm_Transaction_inv [where Q = solvent, OF _ assms(1)], goal_cases)
  case (1 x db')
  then obtain q db1 where q: "First (io_flt io 0) R_ID (\<lambda>q. R_ID q = i) (withdraw_requests db) = Inr q"
    and u: "update_wallet (R_WalletID q) (withdraw_out (add64 (R_Amount q) (R_Fee q))) db = Inr db1"
    and db': "db' = db1\<lparr>withdraw_requests := map (\<lambda>q. if R_ID q = i
                  then q\<lparr>R_Status := WithdrawDone, R_TxHash := h, R_ProcessedAt := Some (io_now io 0)\<rparr>
                  else q) (withdraw_requests db1)\<rparr>"
    by (auto simp: stmt_Inr split: sum.splits)
  show ?case
    unfolding db' using pending_req [OF assms q]
    by (intro close_solvent [OF assms(1) q _ u])
      (auto simp: withdraw_out_Inr wallet_ok_def available_def)
qed

lemma RejectWithdraw_solvent:
  assumes "solvent db" "pending_id i db"
  shows "solvent (snd (RejectWithdraw io i r db))"
  unfolding RejectWithdraw_def
proof (rule gorm_Transaction_inv [where Q = solvent, OF _ assms(1)], goal_cases)
  case (1 x db')
  then obtain q db1 where q: "First (io_flt io 0) R_ID (\<lambda>q. R_ID q = i) (withdraw_requests db) = Inr q"
    and u: "update_wallet (R_WalletID q) (add_frozen (- add64 (R_Amount q) (R_Fee q))) db = Inr db1"
    and db': "db' = db1\<lparr>withdraw_requests := map (\<lambda>q. if R_ID q = i
                  then q\<lparr>R_Status := WithdrawRejected, R_AdminNote := r, R_ProcessedAt := Some (io_now io 0)\<rparr>
                  else q) (withdraw_requests db1)\<rparr>"
    by (auto simp: stmt_Inr split: sum.splits)
  show ?case
    unfolding db' using pending_req [OF assms q]
    by (intro close_solvent [OF assms(1) q _ u])
      (auto simp: add_frozen_Inr wallet_ok_def available_def)
qed

end
