(* ===== verification/PayRuns.thy ===== *)
theory PayRuns
  imports PaySolvency
begin

text \<open>
  Histories of the store: \<open>pay_step\<close> collects the state-changing operations of
  \<open>botpay/internal/store\<close>; solvency, at most one charge per reference and at most one credit per
  blockchain hash hold in every state a history reaches.
\<close>

section \<open>Wallet and invoice operations\<close>

lemma solvent_new_wallet:
  assumes "solvent db" "insert_wallet w (wallets db) = Inr rows" "W_TONBalance w = 0" "W_Credit w = 0" "W_Frozen w = 0"
  shows "solvent (db\<lparr>wallets := rows\<rparr>)"
proof -
  have new: "W_ID w \<notin> W_ID ` set (wallets db)" and rows: "rows = wallets db @ [w]"
    using assms(2) by (auto simp: insert_wallet_def split: if_splits)
  then have "filter (\<lambda>q. R_WalletID q = W_ID w \<and> R_Status q = WithdrawPending) (withdraw_requests db) = []"
    using assms(1) unfolding filter_empty_conv solvent_def reqs_ok_def by metis
  then have "wallet_ok (pending_total (W_ID w) (withdraw_requests db)) w"
    using assms(3-5) by (simp add: pending_total_def wallet_ok_def available_def in_int64_def)
  with assms(1) new rows show ?thesis by (auto simp: solvent_def reqs_ok_def)
qed

lemma solvent_same_money:
  assumes "solvent db" "\<And>w. w \<in> set (wallets db) \<Longrightarrow> W_ID (g w) = W_ID w \<and> W_TONBalance (g w) = W_TONBalance w \<and>
      W_Credit (g w) = W_Credit w \<and> W_Frozen (g w) = W_Frozen w"
  shows "solvent (db\<lparr>wallets := map g (wallets db)\<rparr>)"
proof (rule solvent_map_wallets [OF assms(1)])
  fix w assume w: "w \<in> set (wallets db)"
  show "W_ID (g w) = W_ID w" "wallet_ok (W_Frozen w) (g w)"
    using assms(2) [OF w] solvent_wallet_frozen [OF assms(1) w] by (auto simp: wallet_ok_def available_def)
qed simp_all

lemma GetOrCreateWallet_solvent:
  assumes "solvent db"
  shows "solvent (snd (GetOrCreateWallet io tg addr db))"
proof -
  have h: "solvent db1 \<Longrightarrow> solvent (db1\<lparr>wallets := map (\<lambda>r. if W_ID r = i then r\<lparr>W_PayHandle := h\<rparr> else r) (wallets db1)\<rparr>)"
    for db1 i h by (rule solvent_same_money) auto
  show ?thesis
    using assms
    by (auto simp: GetOrCreateWallet_def Let_def stmt_Inr split: sum.splits if_splits
        intro!: h elim: solvent_new_wallet)
qed

lemma SetWalletLang_solvent: "solvent db \<Longrightarrow> solvent (snd (SetWalletLang io tg l db))"
  by (auto simp: SetWalletLang_def split: option.splits intro: solvent_same_money)

lemma invoice_ops_solvent:
  assumes "solvent db"
  shows "solvent (snd (CreateInvoice io v db))" "solvent (snd (AddInvoiceReceipt io i a h db))"
    "solvent (snd (ConfirmInvoice io i h db))" "solvent (snd (ExpireOldInvoices io db))"
proof -
  show "solvent (snd (AddInvoiceReceipt io i a h db))"
    unfolding AddInvoiceReceipt_def
    using assms by (intro gorm_Transaction_inv [where Q = solvent])
      (auto simp: stmt_Inr Let_def split: sum.splits)
qed (use assms in \<open>auto simp: CreateInvoice_def ConfirmInvoice_def ExpireOldInvoices_def
        split: sum.splits option.splits\<close>)

section \<open>Histories\<close>

text \<open>
  A failed statement aborts the PostgreSQL transaction: a later statement of the same transaction
  fails, too.
\<close>

definition aborts :: "io \<Rightarrow> bool" where
  "aborts io \<longleftrightarrow> (io_flt io 0 \<noteq> None \<longrightarrow> io_flt io 1 \<noteq> None)"

inductive pay_step :: "pay_db \<Rightarrow> pay_db \<Rightarrow> bool" where
  step_wallet: "pay_step db (snd (GetOrCreateWallet io tg addr db))"
| step_lang: "pay_step db (snd (SetWalletLang io tg lang db))"
| step_deposit: "0 \<le> a \<Longrightarrow> aborts io \<Longrightarrow> pay_step db (snd (Deposit io i a h fa d db))"
| step_deduct: "pay_step db (snd (Deduct io i a sid ref d db))"
| step_credit: "pay_step db (snd (AddCredit io i a d db))"
| step_transfer: "pay_step db (snd (Transfer io i j a d db))"
| step_withdraw: "0 < R_Amount q + R_Fee q \<Longrightarrow> in_int64 (R_Amount q + R_Fee q) \<Longrightarrow>
    pay_step db (snd (CreateWithdraw io q db))"
| step_complete: "pending_id i db \<Longrightarrow> pay_step db (snd (CompleteWithdraw io i h db))"
| step_reject: "pending_id i db \<Longrightarrow> pay_step db (snd (RejectWithdraw io i r db))"
| step_invoice: "pay_step db (snd (CreateInvoice io v db))"
| step_receipt: "pay_step db (snd (AddInvoiceReceipt io i a h db))"
| step_confirm: "pay_step db (snd (ConfirmInvoice io i h db))"
| step_expire: "pay_step db (snd (ExpireOldInvoices io db))"

lemmas op_solvent = GetOrCreateWallet_solvent SetWalletLang_solvent Deposit_solvent Deduct_solvent
  AddCredit_solvent Transfer_solvent CreateWithdraw_solvent CompleteWithdraw_solvent
  RejectWithdraw_solvent invoice_ops_solvent

interpretation solvency: step_invariant pay_step solvent
proof
  fix s s' assume "pay_step s s'" "solvent s"
  then show "solvent s'" by cases (simp_all add: op_solvent)
qed

subsection \<open>What each operation appends to the transaction table\<close>

lemma update_wallet_other [simp]:
  assumes "update_wallet i f db = Inr db1"
  shows "transactions db1 = transactions db" "invoices db1 = invoices db"
    "withdraw_requests db1 = withdraw_requests db" "ledger_entries db1 = ledger_entries db"
    "bot_instances db1 = bot_instances db"
  using update_wallet_Inr(1) [OF assms] by simp_all

lemma gorm_Transaction_snd:
  assumes "\<And>x db'. body db = Inr (x, db') \<Longrightarrow> Q db'" "Q db"
  shows "Q (snd (gorm_Transaction c body db))"
  using assms by (rule gorm_Transaction_inv)

text \<open>A log of rows that a condition selects, at most once for each key.\<close>

definition once :: "(Transaction \<Rightarrow> bool) \<Rightarrow> pay_db \<Rightarrow> bool" where
  "once P db \<longleftrightarrow> length (filter P (transactions db)) \<le> 1"

lemma once_same: "transactions db' = transactions db \<Longrightarrow> once P db' = once P db"
  by (simp add: once_def)

lemma once_append:
  "once P db \<Longrightarrow> transactions db' = transactions db @ [t] \<Longrightarrow> (P t \<Longrightarrow> \<forall>x \<in> set (transactions db). \<not> P x) \<Longrightarrow>
     once P db'"
  by (cases "P t") (simp_all add: once_def)

lemma First_none: "First None key P rows = Inl e \<Longrightarrow> e = ErrRecordNotFound \<and> (\<forall>r \<in> set rows. \<not> P r)"
  by (auto simp: First_def First_row_None split: option.splits)

lemma Deposit_rows:
  assumes "aborts io"
  shows "transactions (snd (Deposit io i a h fa d db)) = transactions db \<or>
    (\<exists>t. transactions (snd (Deposit io i a h fa d db)) = transactions db @ [t] \<and>
       T_Type t = TxDeposit \<and> T_TxHash t = h \<and> (\<forall>x \<in> set (transactions db). T_TxHash x \<noteq> h))"
  unfolding Deposit_def
proof (rule gorm_Transaction_snd, goal_cases)
  case (1 x db')
  show ?case
  proof (cases "First (io_flt io 0) T_ID (\<lambda>t. T_TxHash t = h) (transactions db)")
    case (Inl e)
    then have "io_flt io 0 = None"
      using 1 assms by (auto simp: aborts_def stmt_Inr split: sum.splits)
    with Inl have "\<forall>x \<in> set (transactions db). T_TxHash x \<noteq> h" using First_none by fastforce
    with 1 Inl show ?thesis by (auto simp: stmt_Inr create_transaction_Inr split: sum.splits)
  next
    case (Inr t)
    with 1 show ?thesis by simp
  qed
qed simp

lemma Deduct_rows:
  "transactions (snd (Deduct io i a sid ref d db)) = transactions db \<or>
    (\<exists>t. transactions (snd (Deduct io i a sid ref d db)) = transactions db @ [t] \<and>
       T_Type t = TxPayment \<and> HasPrefix (T_TxHash t) ''int-'' \<and> deduct_key i sid ref t \<and>
       (ref \<noteq> [] \<longrightarrow> (\<forall>x \<in> set (transactions db). \<not> deduct_key i sid ref x)))"
proof (cases "a \<le> 0")
  case False
  show ?thesis
    unfolding Deduct_def if_not_P [OF False]
  proof (rule gorm_Transaction_snd, goal_cases)
    case (1 x db')
    show ?case
    proof (cases "if ref = [] then Inl ErrRecordNotFound
              else First (io_flt io 0) T_ID (deduct_key i sid ref) (transactions db)")
      case (Inl e)
      have "io_flt io 0 = None" if "ref \<noteq> []"
        using 1 Inl that by (cases "io_flt io 0") (auto simp: First_def)
      with Inl have "ref \<noteq> [] \<longrightarrow> (\<forall>x \<in> set (transactions db). \<not> deduct_key i sid ref x)"
        using First_none by (fastforce split: if_splits)
      with 1 Inl show ?thesis
        by (auto simp: stmt_Inr create_transaction_Inr Let_def deduct_key_def HasPrefix_def
            split: sum.splits if_splits prod.splits)
    next
      case (Inr t)
      with 1 show ?thesis by simp
    qed
  qed simp
qed (simp add: Deduct_def)

lemma AddCredit_rows:
  "transactions (snd (AddCredit io i a d db)) = transactions db \<or>
    (\<exists>t. transactions (snd (AddCredit io i a d db)) = transactions db @ [t] \<and>
       T_Type t = TxCreditAdd \<and> HasPrefix (T_TxHash t) ''int-'')"
proof (cases "a \<le> 0")
  case False
  show ?thesis
    unfolding AddCredit_def if_not_P [OF False]
    by (rule gorm_Transaction_snd)
      (auto simp: stmt_Inr create_transaction_Inr HasPrefix_def split: sum.splits)
qed (simp add: AddCredit_def)

lemma Transfer_rows:
  "transactions (snd (Transfer io i j a d db)) = transactions db \<or>
    (\<exists>t u. transactions (snd (Transfer io i j a d db)) = transactions db @ [t, u] \<and>
       HasPrefix (T_TxHash t) ''int-'' \<and> HasPrefix (T_TxHash u) ''int-'' \<and> T_Ref t = [] \<and> T_Ref u = [])"
proof (cases "a \<le> 0")
  case False
  show ?thesis
    unfolding Transfer_def if_not_P [OF False]
    by (rule gorm_Transaction_snd)
      (auto simp: stmt_Inr create_transaction_Inr HasPrefix_def Let_def split: sum.splits if_splits prod.splits)
qed (simp add: Transfer_def)


lemma other_ops_rows:
  "transactions (snd (GetOrCreateWallet io tg addr db)) = transactions db"
  "transactions (snd (SetWalletLang io tg lang db)) = transactions db"
  "transactions (snd (CreateInvoice io v db)) = transactions db"
  "transactions (snd (ConfirmInvoice io i h db)) = transactions db"
  "transactions (snd (ExpireOldInvoices io db)) = transactions db"
  by (auto simp: GetOrCreateWallet_def SetWalletLang_def CreateInvoice_def ConfirmInvoice_def
      ExpireOldInvoices_def Let_def split: sum.splits option.splits prod.splits if_splits)

lemma withdraw_ops_rows:
  "transactions (snd (AddInvoiceReceipt io i a h db)) = transactions db"
  "transactions (snd (CreateWithdraw io q db)) = transactions db"
  "transactions (snd (CompleteWithdraw io i h db)) = transactions db"
  "transactions (snd (RejectWithdraw io i r db)) = transactions db"
  unfolding AddInvoiceReceipt_def CreateWithdraw_def CompleteWithdraw_def RejectWithdraw_def Let_def
  by (rule gorm_Transaction_snd; auto simp: stmt_Inr split: sum.splits if_splits)+

definition paid_once :: "pay_db \<Rightarrow> bool" where
  "paid_once db \<longleftrightarrow> (\<forall>i sid ref. ref \<noteq> [] \<longrightarrow> once (deduct_key i sid ref) db)"

definition deposited_once :: "pay_db \<Rightarrow> bool" where
  "deposited_once db \<longleftrightarrow> (\<forall>h. \<not> HasPrefix h ''int-'' \<longrightarrow> once (\<lambda>t. T_TxHash t = h) db)"

text \<open>What a step appends, in one place for both logs.\<close>

lemma pay_step_rows:
  assumes "pay_step db db'"
  shows "\<exists>ts. transactions db' = transactions db @ ts \<and>
     (\<forall>i sid ref. ref \<noteq> [] \<longrightarrow> length (filter (deduct_key i sid ref) ts) \<le> 1 \<and>
        (filter (deduct_key i sid ref) ts \<noteq> [] \<longrightarrow> filter (deduct_key i sid ref) (transactions db) = [])) \<and>
     (\<forall>h. \<not> HasPrefix h ''int-'' \<longrightarrow> length (filter (\<lambda>t. T_TxHash t = h) ts) \<le> 1 \<and>
        (filter (\<lambda>t. T_TxHash t = h) ts \<noteq> [] \<longrightarrow> filter (\<lambda>t. T_TxHash t = h) (transactions db) = []))"
  using assms
proof cases
  case (step_deposit a io i h fa d)
  then show ?thesis
    using Deposit_rows [of io i a h fa d db] by (auto simp: filter_empty_conv deduct_key_def)
next
  case (step_deduct io i a sid ref d)
  then show ?thesis
    using Deduct_rows [of io i a sid ref d db] by (auto simp: filter_empty_conv deduct_key_def)
next
  case (step_credit io i a d)
  then show ?thesis
    using AddCredit_rows [of io i a d db] by (auto simp: deduct_key_def)
next
  case (step_transfer io i j a d)
  then show ?thesis
    using Transfer_rows [of io i j a d db] by (auto simp: deduct_key_def)
qed (simp_all add: other_ops_rows withdraw_ops_rows)

lemma once_append_rows:
  assumes "once P db" "transactions db' = transactions db @ ts" "length (filter P ts) \<le> 1"
    "filter P ts \<noteq> [] \<longrightarrow> filter P (transactions db) = []"
  shows "once P db'"
  using assms by (cases "filter P ts = []") (simp_all add: once_def)

interpretation payments: step_invariant pay_step paid_once
proof
  fix s s' assume s: "pay_step s s'" "paid_once s"
  from pay_step_rows [OF s(1)] s(2) show "paid_once s'"
    unfolding paid_once_def by (meson once_append_rows)
qed

interpretation deposits: step_invariant pay_step deposited_once
proof
  fix s s' assume s: "pay_step s s'" "deposited_once s"
  from pay_step_rows [OF s(1)] s(2) show "deposited_once s'"
    unfolding deposited_once_def by (meson once_append_rows)
qed

section \<open>Properties\<close>

definition empty_db :: pay_db where
  "empty_db = \<lparr>wallets = [], transactions = [], ledger_entries = [], invoices = [],
     withdraw_requests = [], bot_instances = []\<rparr>"

lemma empty_db_ok: "solvent empty_db" "paid_once empty_db" "deposited_once empty_db"
  by (simp_all add: empty_db_def solvent_def reqs_ok_def paid_once_def deposited_once_def once_def)


text \<open>A short history: a wallet is opened, 5 TON arrive and 1 TON is requested back.\<close>

definition demo_io :: io where
  "demo_io = \<lparr>io_flt = (\<lambda>_. None), io_now = (\<lambda>i. 1700000000000000000 + int i), io_uuid = (\<lambda>i. ''id-'' @ fmt_d (int i))\<rparr>"

definition demo_req :: WithdrawRequest where
  "demo_req = \<lparr>R_ID = [], R_CreatedAt = 0, R_WalletID = ''id-0'', R_ToAddress = ''EQtest'', R_Amount = 1000000000,
     R_Fee = 10000000, R_Status = WithdrawPending, R_TxHash = [], R_Note = [], R_AdminNote = [], R_ProcessedAt = None\<rparr>"

definition demo_db1 :: pay_db where
  "demo_db1 = snd (GetOrCreateWallet demo_io 42 [] empty_db)"

definition demo_db2 :: pay_db where
  "demo_db2 = snd (Deposit demo_io ''id-0'' 5000000000 ''hash1'' ''EQfrom'' ''deposit'' demo_db1)"

definition demo_db3 :: pay_db where
  "demo_db3 = snd (CreateWithdraw demo_io demo_req demo_db2)"

lemma demo_run: "pay_step\<^sup>*\<^sup>* empty_db demo_db1" "pay_step\<^sup>*\<^sup>* empty_db demo_db2" "pay_step\<^sup>*\<^sup>* empty_db demo_db3"
proof -
  have "aborts demo_io" by (simp add: aborts_def demo_io_def)
  then have "pay_step empty_db demo_db1" "pay_step demo_db1 demo_db2" "pay_step demo_db2 demo_db3"
    unfolding demo_db1_def demo_db2_def demo_db3_def
    by (auto intro!: pay_step.intros simp: demo_req_def in_int64_def)
  then show "pay_step\<^sup>*\<^sup>* empty_db demo_db1" "pay_step\<^sup>*\<^sup>* empty_db demo_db2" "pay_step\<^sup>*\<^sup>* empty_db demo_db3"
    by (meson r_into_rtranclp rtranclp.rtrancl_into_rtrancl rtranclp.rtrancl_refl)+
qed

lemma demo_wallets:
  "map W_Frozen (wallets demo_db3) = [1010000000]" "map W_TONBalance (wallets demo_db3) = [5000000000]"
  "map W_ID (wallets demo_db3) = [''id-0'']"
  by code_simp+



definition demo_db4 :: pay_db where
  "demo_db4 = snd (Deduct demo_io ''id-0'' 700 ''svc'' ''order-1'' ''x''
     (snd (Deduct demo_io ''id-0'' 700 ''svc'' ''order-1'' ''x'' demo_db2)))"

lemma demo_run4: "pay_step\<^sup>*\<^sup>* empty_db demo_db4"
  unfolding demo_db4_def
  by (rule rtranclp.rtrancl_into_rtrancl [OF rtranclp.rtrancl_into_rtrancl [OF demo_run(2)]])
    (rule pay_step.step_deduct)+




end
