(* ===== verification/PayProps.thy ===== *)
theory PayProps
  imports PayRuns
begin

text \<open>
  The behaviour of single operations of the store: the exact effect of a charge, conservation of
  money by transfers, atomicity, idempotency, invoices, and the two places where the withdrawal
  operations do not protect the invariant themselves.
\<close>

section \<open>Rows found by their id\<close>

lemma First_by_id:
  assumes "distinct (map key rows)" "r \<in> set rows"
  shows "First None key (\<lambda>x. key x = key r) rows = Inr r"
proof -
  have "First_row key (\<lambda>x. key x = key r) rows = Some r"
    by (rule First_row_unique) (use assms in \<open>auto dest: distinct_key_eq\<close>)
  then show ?thesis by (simp add: First_def)
qed

lemma First_absent: "(\<And>x. x \<in> set rows \<Longrightarrow> \<not> P x) \<Longrightarrow> First None key P rows = Inl ErrRecordNotFound"
  using First_row_None [of key P rows] by (simp add: First_def)

lemma update_wallet_by_id:
  assumes "distinct (map W_ID (wallets db))" "w \<in> set (wallets db)" "f w = Inr w'"
  shows "update_wallet (W_ID w) f db = Inr (db\<lparr>wallets := map (\<lambda>x. if W_ID x = W_ID w then w' else x) (wallets db)\<rparr>)"
proof -
  have "update_rows (\<lambda>x. W_ID x = W_ID w) f (wallets db) =
      Inr (map (\<lambda>x. if W_ID x = W_ID w then w' else x) (wallets db))"
    using assms by (intro update_rows_map) (auto dest: distinct_key_eq)
  then show ?thesis by (simp add: update_wallet_def)
qed

section \<open>Charges\<close>

definition paid_wallet :: "int \<Rightarrow> Wallet \<Rightarrow> Wallet" where
  "paid_wallet a w = w\<lparr>W_Credit := W_Credit w - min a (W_Credit w),
     W_TONBalance := W_TONBalance w - (a - min a (W_Credit w))\<rparr>"

lemma charge_paid:
  assumes "wallet_ok p w" "0 \<le> p" "0 < a" "in_int64 a" "a \<le> available w"
  shows "\<exists>cu tu. split_charge w a = (cu, tu) \<and> charge cu tu w = Inr (paid_wallet a w)"
proof -
  have w: "in_int64 (W_TONBalance w)" "in_int64 (W_Credit w)" "0 \<le> W_Credit w" "W_Frozen w = p"
    using assms(1) by (auto simp: wallet_ok_def)
  show ?thesis
  proof (cases "a \<le> W_Credit w")
    case True
    then show ?thesis
      using assms w by (auto simp: split_charge_def charge_def add_credit_def bigint_def paid_wallet_def
          in_int64_def min_def)
  next
    case False
    then have "sub64 a (W_Credit w) = a - W_Credit w"
      using assms w by (intro wrap64_id) (simp add: in_int64_def)
    moreover have "in_int64 (W_TONBalance w - (a - W_Credit w))"
      using False assms w by (auto simp: in_int64_def available_def)
    ultimately show ?thesis
      using False w assms(3)
      by (auto simp: split_charge_def charge_def add_credit_def add_ton_def bigint_def paid_wallet_def
          min_def in_int64_def)
  qed
qed

text \<open>
  A charge that has not been made before takes exactly the amount from the wallet, credit
  first, and records one payment with the negated amount; it does so whenever the available balance
  covers the amount, and otherwise reports the insufficient balance and changes nothing.
\<close>

theorem Deduct_correct:
  assumes "solvent db" "io_ok io" "w \<in> set (wallets db)" "0 < a" "in_int64 a" "in_int64 (available w)"
    and "ref = [] \<or> (\<forall>t \<in> set (transactions db). \<not> deduct_key (W_ID w) sid ref t)"
    and "io_uuid io 1 \<notin> T_ID ` set (transactions db)"
  shows "if a \<le> available w
     then \<exists>t. Deduct io (W_ID w) a sid ref d db =
            (Inr t, db\<lparr>wallets := map (\<lambda>x. if W_ID x = W_ID w then paid_wallet a w else x) (wallets db),
                       transactions := transactions db @ [t]\<rparr>) \<and>
          T_Amount t = - a \<and> deduct_key (W_ID w) sid ref t \<and> T_Status t = TxConfirmed
     else Deduct io (W_ID w) a sid ref d db = (Inl (Errorf ''insufficient balance'' []), db)"
proof -
  have ids: "distinct (map W_ID (wallets db))" using assms(1) by (simp add: solvent_def)
  have enough: "HasEnough w a \<longleftrightarrow> a \<le> available w"
    using assms(6) by (simp add: HasEnough_iff_wrap)
  have noref: "(if ref = [] then Inl ErrRecordNotFound
      else First (io_flt io 0) T_ID (deduct_key (W_ID w) sid ref) (transactions db)) = Inl ErrRecordNotFound"
    using assms(2,7) by (auto intro: First_absent)
  have found: "First (io_flt io 1) W_ID (\<lambda>x. W_ID x = W_ID w) (wallets db) = Inr w"
    using First_by_id [OF ids assms(3)] assms(2) by simp
  show ?thesis
  proof (cases "a \<le> available w")
    case True
    obtain cu tu where c: "split_charge w a = (cu, tu)" "charge cu tu w = Inr (paid_wallet a w)"
      using charge_paid [OF solvent_wallet_frozen [OF assms(1,3)] solvent_wallet(2) [OF assms(1,3)]
          assms(4,5) True] by auto
    have "neg64 a = - a" using assms(4,5) by (intro wrap64_id) (auto simp: in_int64_def)
    with True c noref found enough assms(2,4,8) show ?thesis
      by (simp add: Deduct_def gorm_Transaction_def update_wallet_by_id [OF ids assms(3)]
          create_transaction_def insert_transaction_def deduct_key_def)
  next
    case False
    with noref found enough assms(4) show ?thesis
      by (simp add: Deduct_def gorm_Transaction_def)
  qed
qed

definition demo_db5 :: pay_db where
  "demo_db5 = snd (AddCredit demo_io ''id-0'' 300 ''bonus'' demo_db1)"

definition demo_wallet :: Wallet where
  "demo_wallet = \<lparr>W_ID = ''id-0'', W_TelegramID = 42, W_PayHandle = ''u_16'', W_TONBalance = 5000000000, W_Credit = 0,
     W_TONAddress = [], W_Frozen = 0, W_IsActive = True, W_Lang = []\<rparr>"

lemma demo_db2_solvent: "solvent demo_db2"
  by (rule solvency.run_keeps [OF demo_run(2) empty_db_ok(1)])

lemma demo_db2_wallet: "demo_wallet \<in> set (wallets demo_db2)"
  by code_simp

definition late_io :: io where
  "late_io = demo_io\<lparr>io_uuid := (\<lambda>i. ''late-'' @ fmt_d (int i))\<rparr>"

theorem Deduct_correct_witness:
  "\<exists>t. fst (Deduct late_io ''id-0'' 700 ''svc'' ''order-7'' ''x'' demo_db2) = Inr t \<and> T_Amount t = - 700"
proof -
  have 1: "io_ok late_io" by (simp add: late_io_def demo_io_def io_ok_def)
  have 2: "\<forall>t \<in> set (transactions demo_db2). \<not> deduct_key (W_ID demo_wallet) ''svc'' ''order-7'' t" by code_simp
  have 3: "io_uuid late_io 1 \<notin> T_ID ` set (transactions demo_db2)" by code_simp
  have 4: "in_int64 700" "in_int64 (available demo_wallet)" "700 \<le> available demo_wallet"
    "W_ID demo_wallet = ''id-0''"
    by (simp_all add: in_int64_def demo_wallet_def available_def)
  from Deduct_correct [OF demo_db2_solvent 1 demo_db2_wallet _ 4(1,2) disjI2 [OF 2] 3, of "''x''"] 4
  show ?thesis by auto
qed

section \<open>Transfers\<close>

definition total_ton :: "pay_db \<Rightarrow> int" where
  "total_ton db = sum_list (map W_TONBalance (wallets db))"

definition total_credit :: "pay_db \<Rightarrow> int" where
  "total_credit db = sum_list (map W_Credit (wallets db))"

text \<open>An update of one wallet moves the totals by what it does to that wallet.\<close>

lemma total_update:
  fixes h :: "Wallet \<Rightarrow> int"
  assumes "distinct (map W_ID (wallets db))" "w \<in> set (wallets db)" "update_wallet (W_ID w) f db = Inr db1"
    and "\<And>x x'. f x = Inr x' \<Longrightarrow> h x' = h x + d"
  shows "sum_list (map h (wallets db1)) = sum_list (map h (wallets db)) + d"
proof -
  let ?P = "\<lambda>x. W_ID x = W_ID w"
  have "wallets db1 = map (\<lambda>x. if ?P x then projr (f x) else x) (wallets db)"
    using update_wallet_Inr(1) [OF assms(3)] by simp
  moreover have "sum_list (map h (map (\<lambda>x. if ?P x then projr (f x) else x) (wallets db))) =
      sum_list (map h (wallets db)) + int 1 * d"
    using update_wallet_Inr(2) [OF assms(3)] assms(4) distinct_filter_length [OF assms(1,2)]
    by (intro sum_list_map_update) metis+
  ultimately show ?thesis by simp
qed

lemma update_wallet_ids:
  assumes "update_wallet i f db = Inr db1" "\<And>x x'. f x = Inr x' \<Longrightarrow> W_ID x' = W_ID x"
  shows "map W_ID (wallets db1) = map W_ID (wallets db)"
proof -
  have "W_ID (projr (f x)) = W_ID x" if "x \<in> set (wallets db)" "W_ID x = i" for x
    using update_wallet_Inr(2) [OF assms(1) that] assms(2) by metis
  with update_wallet_Inr(1) [OF assms(1)] show ?thesis by simp
qed

lemma charge_gain_money:
  "charge cu tu w = Inr w' \<Longrightarrow> W_ID w' = W_ID w \<and> W_Credit w' = W_Credit w - max 0 cu \<and>
     W_TONBalance w' = W_TONBalance w - max 0 tu"
  "gain cu tu w = Inr w' \<Longrightarrow> W_ID w' = W_ID w \<and> W_Credit w' = W_Credit w + max 0 cu \<and>
     W_TONBalance w' = W_TONBalance w + max 0 tu"
  by (auto dest: charge_Inr gain_Inr)

lemma move_conserves:
  assumes ids: "distinct (map W_ID (wallets db))" and w: "w \<in> set (wallets db)" "v \<in> set (wallets db)"
    and u: "update_wallet (W_ID w) (charge cu tu) db = Inr db1" "update_wallet (W_ID v) (gain cu tu) db1 = Inr db2"
  shows "total_ton db2 = total_ton db \<and> total_credit db2 = total_credit db"
proof -
  have ids1: "map W_ID (wallets db1) = map W_ID (wallets db)"
    using u(1) by (rule update_wallet_ids) (auto dest: charge_gain_money)
  then have "W_ID v \<in> set (map W_ID (wallets db1))" using w(2) by simp
  then obtain v1 where v1: "v1 \<in> set (wallets db1)" "W_ID v1 = W_ID v" by auto
  have ids1': "distinct (map W_ID (wallets db1))" unfolding ids1 by (rule ids)
  have u2: "update_wallet (W_ID v1) (gain cu tu) db1 = Inr db2" using u(2) v1(2) by simp
  have "total_ton db1 = total_ton db + - max 0 tu" "total_credit db1 = total_credit db + - max 0 cu"
    unfolding total_ton_def total_credit_def
    by (rule total_update [OF ids w(1) u(1)]; auto dest: charge_gain_money)+
  moreover have "total_ton db2 = total_ton db1 + max 0 tu" "total_credit db2 = total_credit db1 + max 0 cu"
    unfolding total_ton_def total_credit_def
    by (rule total_update [OF ids1' v1(1) u2]; auto dest: charge_gain_money)+
  ultimately show ?thesis by simp
qed

text \<open>
  A transfer, also one from a wallet to itself, never creates or destroys money: the sum of
  the TON balances and the sum of the credits over all wallets are unchanged, whatever statement
  fails. Credit stays credit and TON stays TON.
\<close>

theorem Transfer_conserves:
  assumes "distinct (map W_ID (wallets db))"
  shows "total_ton (snd (Transfer io i j a d db)) = total_ton db \<and>
    total_credit (snd (Transfer io i j a d db)) = total_credit db"
proof (cases "a \<le> 0")
  case False
  let ?Q = "\<lambda>db'. total_ton db' = total_ton db \<and> total_credit db' = total_credit db"
  have move: "total_ton db2 = total_ton db \<and> total_credit db2 = total_credit db"
    if "First f W_ID (\<lambda>w. W_ID w = i) (wallets db) = Inr w" "First g W_ID (\<lambda>w. W_ID w = j) (wallets db) = Inr v"
      "update_wallet i (charge cu tu) db = Inr db1" "update_wallet j (gain cu tu) db1 = Inr db2"
    for f g w v cu tu db1 db2
    using move_conserves [OF assms, of w v cu tu db1 db2] First_Inr_row [OF that(1)] First_Inr_row [OF that(2)]
      that(3,4) by simp
  show ?thesis
    unfolding Transfer_def if_not_P [OF False]
  proof (rule gorm_Transaction_inv [where Q = ?Q], goal_cases)
    case (1 x db')
    then show ?case
      by (auto simp: stmt_Inr create_transaction_Inr Let_def total_ton_def total_credit_def
          split: sum.splits if_splits prod.splits
          dest!: move [unfolded total_ton_def total_credit_def, rotated 2])
  qed simp
qed (simp add: Transfer_def)

theorem Transfer_conserves_witness:
  "total_ton (snd (Transfer late_io ''id-0'' ''id-0'' 700 ''x'' demo_db2)) = 5000000000"
proof -
  have 1: "distinct (map W_ID (wallets demo_db2))" by code_simp
  have 2: "total_ton demo_db2 = 5000000000" by code_simp
  show ?thesis using Transfer_conserves [OF 1, of late_io "''id-0''" "''id-0''" 700 "''x''"] 2 by simp
qed

section \<open>Atomicity\<close>

text \<open>
  Every operation that writes in a transaction is all or nothing: when it reports an error, for
  whatever reason, no table has changed.
\<close>

lemma failed_operation_changes_nothing:
  "(\<exists>e. fst (Deposit io i a h fa d db) = Inl e) \<Longrightarrow> snd (Deposit io i a h fa d db) = db"
  "(\<exists>e. fst (Deduct io i a sid ref d db) = Inl e) \<Longrightarrow> snd (Deduct io i a sid ref d db) = db"
  "(\<exists>e. fst (AddCredit io i a d db) = Inl e) \<Longrightarrow> snd (AddCredit io i a d db) = db"
  "(\<exists>e. fst (Transfer io i j a d db) = Inl e) \<Longrightarrow> snd (Transfer io i j a d db) = db"
  "(\<exists>e. fst (CreateWithdraw io q db) = Inl e) \<Longrightarrow> snd (CreateWithdraw io q db) = db"
  "(\<exists>e. fst (CompleteWithdraw io i h db) = Inl e) \<Longrightarrow> snd (CompleteWithdraw io i h db) = db"
  "(\<exists>e. fst (RejectWithdraw io i h db) = Inl e) \<Longrightarrow> snd (RejectWithdraw io i h db) = db"
  "(\<exists>e. fst (AddInvoiceReceipt io i a h db) = Inl e) \<Longrightarrow> snd (AddInvoiceReceipt io i a h db) = db"
  unfolding Deposit_def Deduct_def AddCredit_def Transfer_def CreateWithdraw_def CompleteWithdraw_def
    RejectWithdraw_def AddInvoiceReceipt_def Let_def
  by (auto simp: gorm_Transaction_def split: sum.splits prod.splits option.splits if_splits)

section \<open>Repeated requests\<close>

lemma pay_step_grows: "pay_step db db' \<Longrightarrow> set (transactions db) \<subseteq> set (transactions db')"
  by (drule pay_step_rows) (elim exE conjE, simp)

text \<open>
  Repeating a charge is harmless: once a charge with a non-empty reference has succeeded, in any
  later state of the same history a request with the same wallet, service and reference, whatever its
  amount, returns that very payment and changes no table.
\<close>

theorem Deduct_idempotent:
  assumes run: "pay_step\<^sup>*\<^sup>* empty_db db" "pay_step\<^sup>*\<^sup>* (snd (Deduct io i a sid ref d db)) db'"
    and ok: "fst (Deduct io i a sid ref d db) = Inr t" "ref \<noteq> []"
    and io': "io_flt io' 0 = None" "io_flt io' 4 = None" "0 < a'"
  shows "Deduct io' i a' sid ref d' db' = (Inr t, db')"
proof -
  let ?db1 = "snd (Deduct io i a sid ref d db)"
  let ?P = "deduct_key i sid ref"
  have "Deduct io i a sid ref d db = (Inr t, ?db1)" using ok(1) by (metis prod.collapse)
  then have t: "t \<in> set (transactions ?db1) \<and> ?P t"
    using ok(2) by (auto simp: Deduct_def gorm_Transaction_Inr stmt_Inr create_transaction_Inr Let_def
        deduct_key_def split: if_splits sum.splits prod.splits dest: First_Inr_row)
  have "pay_step\<^sup>*\<^sup>* empty_db db'"
    by (rule rtranclp_trans [OF rtranclp.rtrancl_into_rtrancl [OF run(1) pay_step.step_deduct] run(2)])
  then have one: "length (filter ?P (transactions db')) \<le> 1"
    using payments.run_keeps [OF _ empty_db_ok(2)] ok(2) by (simp add: paid_once_def once_def)
  have "set (transactions ?db1) \<subseteq> set (transactions db')"
    using run(2) by (induction rule: rtranclp_induct) (auto dest: pay_step_grows)
  with t have t': "t \<in> set (filter ?P (transactions db'))" by auto
  with one have "filter ?P (transactions db') = [t]"
    by (cases "filter ?P (transactions db')") auto
  then have "First None T_ID ?P (transactions db') = Inr t"
    by (simp add: First_def First_row_def least_by_def)
  with ok(2) io' show ?thesis by (simp add: Deduct_def gorm_Transaction_def)
qed

theorem Deduct_idempotent_witness:
  "Deduct demo_io ''id-0'' 9 ''svc'' ''order-1'' ''again'' demo_db4 =
     (fst (Deduct demo_io ''id-0'' 700 ''svc'' ''order-1'' ''x'' demo_db2), demo_db4)"
proof -
  obtain t where t: "fst (Deduct demo_io ''id-0'' 700 ''svc'' ''order-1'' ''x'' demo_db2) = Inr t"
  proof (cases "fst (Deduct demo_io ''id-0'' 700 ''svc'' ''order-1'' ''x'' demo_db2)")
    case (Inl e)
    have "\<not> isl (fst (Deduct demo_io ''id-0'' 700 ''svc'' ''order-1'' ''x'' demo_db2))" by code_simp
    with Inl show ?thesis by simp
  qed (use that in blast)
  have "pay_step\<^sup>*\<^sup>* (snd (Deduct demo_io ''id-0'' 700 ''svc'' ''order-1'' ''x'' demo_db2)) demo_db4"
    unfolding demo_db4_def by (rule r_into_rtranclp) (rule pay_step.step_deduct)
  from Deduct_idempotent [OF demo_run(2) this t, of demo_io 9 "''again''"] t
  show ?thesis by (simp add: demo_io_def)
qed

section \<open>Invoices\<close>

text \<open>
  Partial payments of an invoice: a receipt adds to what the invoice has received; the receipt
  that reaches the expected amount of a pending invoice, and no other, marks it paid with its hash
  and reports that; every other invoice is untouched.
\<close>

theorem AddInvoiceReceipt_correct:
  assumes "io_ok io" "distinct (map I_ID (invoices db))" "v \<in> set (invoices db)"
    and "in_int64 (I_ReceivedNano v + a)"
  shows "AddInvoiceReceipt io (I_ID v) a h db =
    (let paid = (I_Status v = InvoicePending \<and> (I_Amount v = 0 \<or> I_Amount v \<le> I_ReceivedNano v + a));
         v' = (if paid then v\<lparr>I_ReceivedNano := I_ReceivedNano v + a, I_Status := InvoicePaid, I_TxHash := h,
                              I_PaidAt := Some (io_now io 0)\<rparr>
               else v\<lparr>I_ReceivedNano := I_ReceivedNano v + a\<rparr>)
     in (Inr paid, db\<lparr>invoices := map (\<lambda>x. if I_ID x = I_ID v then v' else x) (invoices db)\<rparr>))"
proof -
  have "First (io_flt io 0) I_ID (\<lambda>x. I_ID x = I_ID v) (invoices db) = Inr v"
    using First_by_id [OF assms(2,3)] assms(1) by simp
  then show ?thesis
    using assms(1,4) by (auto simp: AddInvoiceReceipt_def gorm_Transaction_def Let_def
        intro!: arg_cong [where f = "\<lambda>rows. db\<lparr>invoices := rows\<rparr>"] dest: distinct_key_eq [OF assms(2) _ assms(3)])
qed

definition demo_invoice :: Invoice where
  "demo_invoice = \<lparr>I_ID = ''inv-1'', I_CreatedAt = 0, I_WalletID = ''id-0'', I_Code = ''PAY-1'', I_Amount = 1000,
     I_ReceivedNano = 400, I_Status = InvoicePending, I_ServiceID = [], I_Ref = [], I_Metadata = [],
     I_ExpiresAt = 0, I_PaidAt = None, I_TxHash = []\<rparr>"

theorem AddInvoiceReceipt_correct_witness:
  "fst (AddInvoiceReceipt demo_io ''inv-1'' 600 ''h2'' (demo_db1\<lparr>invoices := [demo_invoice]\<rparr>)) = Inr True"
proof -
  have 1: "io_ok demo_io" by (simp add: demo_io_def io_ok_def)
  have 2: "I_ID demo_invoice = ''inv-1''" "in_int64 (I_ReceivedNano demo_invoice + 600)"
    by (simp_all add: demo_invoice_def in_int64_def)
  show ?thesis
    using AddInvoiceReceipt_correct [OF 1, of "demo_db1\<lparr>invoices := [demo_invoice]\<rparr>" demo_invoice 600 "''h2''"] 2
    by (simp add: demo_invoice_def Let_def)
qed

section \<open>Handles\<close>

text \<open>Deposit handles identify users: two Telegram ids with the same pay handle are equal.\<close>

theorem PayHandle_inj: "PayHandle a = PayHandle b \<longleftrightarrow> a = b"
  using FormatInt_inj [of 36 a b] by (auto simp: PayHandle_def)

lemma PayHandle_nonempty [simp]: "PayHandle tg \<noteq> []"
  by (simp add: PayHandle_def)

lemma GetOrCreateWallet_Inr:
  assumes "tg \<noteq> 0" "GetOrCreateWallet io tg addr db = (Inr w, db')"
    "distinct (map W_TelegramID (wallets db))"
  shows "w \<in> set (wallets db') \<and> W_TelegramID w = tg \<and> distinct (map W_TelegramID (wallets db'))"
proof (cases "First (io_flt io 0) W_ID (wallet_struct_cond tg) (wallets db)")
  case (Inl e)
  let ?w = "\<lparr>W_ID = io_uuid io 0, W_TelegramID = tg, W_PayHandle = PayHandle tg, W_TONBalance = 0,
     W_Credit = 0, W_TONAddress = addr, W_Frozen = 0, W_IsActive = True, W_Lang = []\<rparr>"
  have "w = ?w" "db' = db\<lparr>wallets := wallets db @ [?w]\<rparr>" "tg \<notin> W_TelegramID ` set (wallets db)"
    using assms(2) Inl
    by (auto simp: GetOrCreateWallet_def Let_def stmt_Inr insert_wallet_def split: sum.splits if_splits)
  with assms(3) show ?thesis by simp
next
  case (Inr w0)
  then have "w0 \<in> set (wallets db)" "W_TelegramID w0 = tg"
    using First_Inr_row [OF Inr] assms(1) by (auto simp: wallet_struct_cond_def)
  moreover have "(w = w0 \<and> db' = db) \<or> (w = w0\<lparr>W_PayHandle := PayHandle tg\<rparr> \<and>
      db' = db\<lparr>wallets := map (\<lambda>r. if W_ID r = W_ID w0 then r\<lparr>W_PayHandle := PayHandle tg\<rparr> else r) (wallets db)\<rparr>)"
    using assms(2) Inr by (auto simp: GetOrCreateWallet_def Let_def split: if_splits)
  moreover have "map W_TelegramID (map (\<lambda>r. if W_ID r = W_ID w0 then r\<lparr>W_PayHandle := PayHandle tg\<rparr> else r) (wallets db)) =
      map W_TelegramID (wallets db)" by simp
  ultimately show ?thesis using assms(3) by (auto simp del: map_map)
qed

text \<open>
  Opening a wallet and looking it up agree: for a non-zero Telegram id, when \<open>GetOrCreateWallet\<close>
  succeeds, \<open>GetWallet\<close> afterwards finds the wallet it returned.
\<close>

theorem GetWallet_GetOrCreateWallet:
  assumes "tg \<noteq> 0" "GetOrCreateWallet io tg addr db = (Inr w, db')" "io_ok io'"
    "distinct (map W_TelegramID (wallets db))"
  shows "GetWallet io' tg db' = Inr (Some w)"
proof -
  note w = GetOrCreateWallet_Inr [OF assms(1,2,4)]
  have "First None W_ID (\<lambda>x. W_TelegramID x = tg) (wallets db') = Inr w"
  proof -
    have "First_row W_ID (\<lambda>x. W_TelegramID x = tg) (wallets db') = Some w"
      by (rule First_row_unique) (use w in \<open>auto dest: distinct_key_eq\<close>)
    then show ?thesis by (simp add: First_def)
  qed
  with assms(3) show ?thesis by (simp add: GetWallet_def nil_if_not_found_def)
qed

theorem GetWallet_GetOrCreateWallet_witness:
  "\<exists>w. GetWallet demo_io 42 demo_db1 = Inr (Some w) \<and> fst (GetOrCreateWallet demo_io 42 [] empty_db) = Inr w"
proof -
  have "\<not> isl (fst (GetOrCreateWallet demo_io 42 [] empty_db))" by code_simp
  then obtain w where w: "GetOrCreateWallet demo_io 42 [] empty_db = (Inr w, demo_db1)"
    by (metis demo_db1_def prod.collapse isl_def sum.collapse(2))
  have "GetWallet demo_io 42 demo_db1 = Inr (Some w)"
    by (rule GetWallet_GetOrCreateWallet [OF _ w]) (simp_all add: empty_db_def demo_io_def io_ok_def)
  with w show ?thesis by simp
qed

section \<open>What the withdrawal operations leave to their callers\<close>

text \<open>
  \<open>CompleteWithdraw\<close> does not look at the status of the request: completing the same request a
  second time debits the wallet a second time. From a solvent state with one pending request, the
  second completion succeeds and leaves the frozen amount negative.
\<close>

theorem CompleteWithdraw_twice:
  "solvent demo_db3 \<and>
   (let db1 = snd (CompleteWithdraw demo_io ''id-0'' ''tx'' demo_db3);
        (r, db2) = CompleteWithdraw demo_io ''id-0'' ''tx'' db1
    in r = Inr () \<and> map W_TONBalance (wallets db1) = [3990000000] \<and>
       map W_TONBalance (wallets db2) = [2980000000] \<and> map W_Frozen (wallets db2) = [- 1010000000] \<and>
       \<not> solvent db2)"
proof -
  have "solvent demo_db3" by (rule solvency.run_keeps [OF demo_run(3) empty_db_ok(1)])
  moreover have "solvent db \<Longrightarrow> wallets db = [w] \<Longrightarrow> W_Frozen w \<noteq> - 1010000000" for db w
    using solvent_wallet(2) [of db w] by force
  moreover have "let db1 = snd (CompleteWithdraw demo_io ''id-0'' ''tx'' demo_db3);
        (r, db2) = CompleteWithdraw demo_io ''id-0'' ''tx'' db1
    in r = Inr () \<and> map W_TONBalance (wallets db1) = [3990000000] \<and>
       map W_TONBalance (wallets db2) = [2980000000] \<and> map W_Frozen (wallets db2) = [- 1010000000]"
    by code_simp
  ultimately show ?thesis by (auto simp: Let_def split: prod.splits)
qed

definition credit_req :: WithdrawRequest where
  "credit_req = demo_req\<lparr>R_Amount := 100, R_Fee := 50\<rparr>"

text \<open>
  Credit can leave the system as TON: a wallet that holds credit only may request a withdrawal,
  and completing it makes its TON balance negative, the credit untouched.
\<close>

theorem credit_withdrawn_as_ton:
  "let db1 = snd (CreateWithdraw demo_io credit_req demo_db5);
       (r, db2) = CompleteWithdraw demo_io ''id-0'' ''tx'' db1
   in r = Inr () \<and> map W_TONBalance (wallets demo_db5) = [0] \<and>
      map W_TONBalance (wallets db2) = [- 150] \<and> map W_Credit (wallets db2) = [300]"
  by code_simp

end
