(* ===== verification/PayLedger.thy ===== *)
theory PayLedger
  imports PayProps
begin

text \<open>
  The double-entry ledger and its hash chain (\<open>botpay/internal/store/ledger.go\<close>, \<open>chain.go\<close>) and
  the monitor that verifies it (\<open>botpay/internal/chainguard\<close>). The hash is a parameter \<open>sha\<close>: the
  hexadecimal SHA-256 of a text.
\<close>

section \<open>Entries\<close>

record TransferPair =
  P_Debit :: LedgerEntry
  P_Credit :: LedgerEntry

definition GenesisHash :: string where
  "GenesisHash = replicate 64 (CHR ''0'')"

fun EntryType_string :: "EntryType \<Rightarrow> string" where
  "EntryType_string EntryDebit = ''debit''"
| "EntryType_string EntryCredit = ''credit''"

definition hash_payload :: "LedgerEntry \<Rightarrow> string" where
  "hash_payload e = fmt_d (L_Seq e) @ ''|'' @ L_TransactionID e @ ''|'' @ L_WalletID e @ ''|'' @
     EntryType_string (L_Type e) @ ''|'' @ fmt_d (L_AmountNano e) @ ''|'' @ fmt_d (L_BalanceAfter e) @
     ''|'' @ L_PrevHash e"

definition ComputeHash :: "(string \<Rightarrow> string) \<Rightarrow> LedgerEntry \<Rightarrow> string" where
  "ComputeHash sha e = sha (hash_payload e)"

text \<open>\<open>ORDER BY seq DESC LIMIT 1\<close>; any error of the query counts as an empty chain.\<close>

definition chain_tip :: "string option \<Rightarrow> LedgerEntry list \<Rightarrow> int64 \<times> string" where
  "chain_tip f rows =
     (case (f, rev (sort_key L_Seq rows)) of
        (None, e # _) \<Rightarrow> (L_Seq e, L_Hash e)
      | _ \<Rightarrow> (0, GenesisHash))"

definition lastChainEntryTx :: "string option \<Rightarrow> pay_db \<Rightarrow> int64 \<times> string" where
  "lastChainEntryTx f db = chain_tip f (ledger_entries db)"

definition lastChainEntry :: "io \<Rightarrow> pay_db \<Rightarrow> int64 \<times> string" where
  "lastChainEntry io db = chain_tip (io_flt io 0) (ledger_entries db)"

definition linkEntry :: "(string \<Rightarrow> string) \<Rightarrow> LedgerEntry \<Rightarrow> int64 \<Rightarrow> string \<Rightarrow> LedgerEntry" where
  "linkEntry sha e prevSeq prevHash =
     (let e1 = e\<lparr>L_Seq := add64 prevSeq 1, L_PrevHash := prevHash\<rparr> in e1\<lparr>L_Hash := ComputeHash sha e1\<rparr>)"

text \<open>The table has a primary key and a unique index on \<open>seq\<close>.\<close>

definition insert_entry :: "LedgerEntry \<Rightarrow> pay_db \<Rightarrow> go_error + pay_db" where
  "insert_entry e db =
     (if L_ID e \<in> L_ID ` set (ledger_entries db) \<or> L_Seq e \<in> L_Seq ` set (ledger_entries db)
      then Inl (DBErr ''duplicate key value violates unique constraint'')
      else Inr (db\<lparr>ledger_entries := ledger_entries db @ [e]\<rparr>))"

definition set_ton :: "int64 \<Rightarrow> Wallet \<Rightarrow> go_error + Wallet" where
  "set_ton v w = Inr (w\<lparr>W_TONBalance := v\<rparr>)"

definition wrap_err :: "string \<Rightarrow> go_error + 'a \<Rightarrow> go_error + 'a" where
  "wrap_err msg r = (case r of Inl e \<Rightarrow> Inl (Wrapf msg [] e) | Inr x \<Rightarrow> Inr x)"

definition new_entry ::
  "uuid \<Rightarrow> time \<Rightarrow> uuid \<Rightarrow> uuid \<Rightarrow> EntryType \<Rightarrow> int64 \<Rightarrow> int64 \<Rightarrow> string \<Rightarrow> string \<Rightarrow> LedgerEntry" where
  "new_entry i now txID walletID ty amt after ref note =
     \<lparr>L_ID = i, L_CreatedAt = now, L_TransactionID = txID, L_WalletID = walletID, L_Type = ty,
      L_AmountNano = amt, L_BalanceAfter = after, L_Seq = 0, L_PrevHash = [], L_Hash = [],
      L_Ref = ref, L_Note = note\<rparr>"

text \<open>The pair of entries of a transfer: the debit follows the chain, the credit follows the debit.\<close>

definition transfer_entries ::
  "(string \<Rightarrow> string) \<Rightarrow> io \<Rightarrow> Wallet \<Rightarrow> Wallet \<Rightarrow> int64 \<Rightarrow> uuid \<Rightarrow> string \<Rightarrow> string \<Rightarrow> int64 \<times> string \<Rightarrow> TransferPair" where
  "transfer_entries sha io src dst amountNano txID ref note tip =
     (let now = io_now io 0;
          debit = linkEntry sha (new_entry (io_uuid io 0) now txID (W_ID src) EntryDebit amountNano
                    (sub64 (W_TONBalance src) amountNano) ref note) (fst tip) (snd tip);
          credit = linkEntry sha (new_entry (io_uuid io 1) now txID (W_ID dst) EntryCredit amountNano
                    (add64 (W_TONBalance dst) amountNano) ref note) (L_Seq debit) (L_Hash debit)
      in \<lparr>P_Debit = debit, P_Credit = credit\<rparr>)"

definition RecordTransfer ::
  "(string \<Rightarrow> string) \<Rightarrow> io \<Rightarrow> uuid \<Rightarrow> uuid \<Rightarrow> int64 \<Rightarrow> uuid \<Rightarrow> string \<Rightarrow> string \<Rightarrow> pay_db \<Rightarrow>
     (go_error + TransferPair) \<times> pay_db" where
  "RecordTransfer sha io fromID toID amountNano txID ref note db =
     (if amountNano \<le> 0 then (Inl (Errorf ''amount must be positive, got %d'' [ArgInt amountNano]), db)
      else if fromID = toID then (Inl (Errorf ''cannot transfer to same wallet'' []), db)
      else gorm_Transaction (io_flt io 7) (\<lambda>db.
        case wrap_err ''from wallet: %w'' (First (io_flt io 0) W_ID (\<lambda>w. W_ID w = fromID) (wallets db)) of
          Inl e \<Rightarrow> Inl e
        | Inr src \<Rightarrow>
       (case wrap_err ''to wallet: %w'' (First (io_flt io 1) W_ID (\<lambda>w. W_ID w = toID) (wallets db)) of
          Inl e \<Rightarrow> Inl e
        | Inr dst \<Rightarrow>
        if W_TONBalance src < amountNano
        then Inl (Errorf ''insufficient balance: have %d, need %d'' [ArgInt (W_TONBalance src), ArgInt amountNano])
        else
         let pair = transfer_entries sha io src dst amountNano txID ref note (lastChainEntryTx (io_flt io 2) db)
         in case wrap_err ''create debit: %w'' (stmt (io_flt io 3) (insert_entry (P_Debit pair) db)) of
              Inl e \<Rightarrow> Inl e
            | Inr db1 \<Rightarrow>
        (case wrap_err ''create credit: %w'' (stmt (io_flt io 4) (insert_entry (P_Credit pair) db1)) of
              Inl e \<Rightarrow> Inl e
            | Inr db2 \<Rightarrow>
        (case wrap_err ''update from balance: %w'' (stmt (io_flt io 5)
                 (update_wallet fromID (set_ton (sub64 (W_TONBalance src) amountNano)) db2)) of
              Inl e \<Rightarrow> Inl e
            | Inr db3 \<Rightarrow>
        (case wrap_err ''update to balance: %w'' (stmt (io_flt io 6)
                 (update_wallet toID (set_ton (add64 (W_TONBalance dst) amountNano)) db3)) of
              Inl e \<Rightarrow> Inl e
            | Inr db4 \<Rightarrow> Inr (pair, db4)))))) db)"

definition RecordDeposit ::
  "(string \<Rightarrow> string) \<Rightarrow> io \<Rightarrow> uuid \<Rightarrow> int64 \<Rightarrow> uuid \<Rightarrow> string \<Rightarrow> string \<Rightarrow> pay_db \<Rightarrow>
     (go_error + LedgerEntry) \<times> pay_db" where
  "RecordDeposit sha io walletID amountNano txID txHash fromAddr =
     gorm_Transaction (io_flt io 4) (\<lambda>db.
       case First (io_flt io 0) W_ID (\<lambda>w. W_ID w = walletID) (wallets db) of
         Inl e \<Rightarrow> Inl e
       | Inr w \<Rightarrow>
          let after = add64 (W_TONBalance w) amountNano;
              tip = lastChainEntryTx (io_flt io 1) db;
              entry = linkEntry sha (new_entry (io_uuid io 0) (io_now io 0) txID walletID EntryCredit amountNano
                        after txHash (''deposit from '' @ fromAddr)) (fst tip) (snd tip)
          in case stmt (io_flt io 2) (insert_entry entry db) of
               Inl e \<Rightarrow> Inl e
             | Inr db1 \<Rightarrow>
                 (case stmt (io_flt io 3) (update_wallet walletID (set_ton after) db1) of
                    Inl e \<Rightarrow> Inl e | Inr db2 \<Rightarrow> Inr (entry, db2)))"

definition GetLedgerEntries :: "io \<Rightarrow> uuid \<Rightarrow> int \<Rightarrow> pay_db \<Rightarrow> go_error + LedgerEntry list" where
  "GetLedgerEntries io walletID limit db =
     (let rows = rev (sort_key L_CreatedAt (filter (\<lambda>e. L_WalletID e = walletID) (ledger_entries db)))
      in stmt (io_flt io 0) (Inr (if limit < 0 then rows else take (nat limit) rows)))"

definition entry_amounts :: "uuid \<Rightarrow> EntryType \<Rightarrow> LedgerEntry list \<Rightarrow> int64 list" where
  "entry_amounts walletID ty rows = map L_AmountNano (filter (\<lambda>e. L_WalletID e = walletID \<and> L_Type e = ty) rows)"

definition VerifyLedgerBalance :: "io \<Rightarrow> uuid \<Rightarrow> pay_db \<Rightarrow> go_error + bool" where
  "VerifyLedgerBalance io walletID db =
     (case First (io_flt io 0) W_ID (\<lambda>w. W_ID w = walletID) (wallets db) of
        Inl e \<Rightarrow> Inl e
      | Inr w \<Rightarrow>
          (let creditSum = scan_sum (io_flt io 1) (entry_amounts walletID EntryCredit (ledger_entries db));
               debitSum = scan_sum (io_flt io 2) (entry_amounts walletID EntryDebit (ledger_entries db))
           in Inr (sub64 creditSum debitSum = W_TONBalance w)))"

section \<open>Verification of the chain\<close>

record ChainVerifyResult =
  V_Valid :: bool
  V_TotalBlocks :: int64
  V_BrokenAtSeq :: int64
  V_Reason :: go_error

abbreviation reason_ok :: go_error where "reason_ok \<equiv> Errorf [] []"
abbreviation reason_prev :: go_error where "reason_prev \<equiv> Errorf (''prev_hash mismatch '' @ [CHR 0xE2, CHR 0x80, CHR 0x94] @ '' chain broken'') []"
abbreviation reason_hash :: go_error where "reason_hash \<equiv> Errorf (''hash mismatch '' @ [CHR 0xE2, CHR 0x80, CHR 0x94] @ '' entry was tampered'') []"
abbreviation reason_gap :: "int64 \<Rightarrow> int64 \<Rightarrow> go_error" where
  "reason_gap want got \<equiv> Errorf ''seq gap: expected %d, got %d'' [ArgInt want, ArgInt got]"

record chain_pos =
  C_prevSeq :: int64
  C_prevHash :: string
  C_total :: int64

text \<open>The inner loop over one batch: the first broken block ends the verification.\<close>

fun verify_entries :: "(string \<Rightarrow> string) \<Rightarrow> chain_pos \<Rightarrow> LedgerEntry list \<Rightarrow> ChainVerifyResult + chain_pos" where
  "verify_entries sha p [] = Inr p"
| "verify_entries sha p (e # es) =
     (let total = add64 (C_total p) 1;
          broken = (\<lambda>why. Inl \<lparr>V_Valid = False, V_TotalBlocks = total, V_BrokenAtSeq = L_Seq e, V_Reason = why\<rparr>)
      in if L_Seq e \<noteq> add64 (C_prevSeq p) 1 then broken (reason_gap (add64 (C_prevSeq p) 1) (L_Seq e))
         else if L_PrevHash e \<noteq> C_prevHash p then broken reason_prev
         else if ComputeHash sha e \<noteq> L_Hash e then broken reason_hash
         else verify_entries sha \<lparr>C_prevSeq = L_Seq e, C_prevHash = L_Hash e, C_total = total\<rparr> es)"

text \<open>The outer loop reads \<open>batchSize\<close> rows at an offset, until a batch is empty.\<close>

function verify_batches ::
  "(string \<Rightarrow> string) \<Rightarrow> io \<Rightarrow> nat \<Rightarrow> LedgerEntry list \<Rightarrow> nat \<Rightarrow> nat \<Rightarrow> chain_pos \<Rightarrow> go_error + ChainVerifyResult" where
  "verify_batches sha io batchSize rows k offset p =
     (case io_flt io k of
        Some m \<Rightarrow> Inl (Wrapf ''verify chain: %w'' [] (DBErr m))
      | None \<Rightarrow>
          (let batch = take batchSize (drop offset rows)
           in if batch = []
              then Inr \<lparr>V_Valid = True, V_TotalBlocks = C_total p, V_BrokenAtSeq = 0, V_Reason = reason_ok\<rparr>
              else case verify_entries sha p batch of
                     Inl r \<Rightarrow> Inr r
                   | Inr p' \<Rightarrow> verify_batches sha io batchSize rows (k + 1) (offset + length batch) p'))"
  by pat_completeness auto
termination by (relation "measure (\<lambda>(_, _, _, rows, _, offset, _). length rows - offset)") auto

declare verify_batches.simps [simp del]

definition VerifyChain :: "(string \<Rightarrow> string) \<Rightarrow> io \<Rightarrow> pay_db \<Rightarrow> go_error + ChainVerifyResult" where
  "VerifyChain sha io db =
     verify_batches sha io 1000 (sort_key L_Seq (ledger_entries db)) 0 0
       \<lparr>C_prevSeq = 0, C_prevHash = GenesisHash, C_total = 0\<rparr>"

section \<open>The monitor (\<open>chainguard\<close>)\<close>

definition itoa_digit :: "int64 \<Rightarrow> char" where
  "itoa_digit n = char_of (nat ((48 + n mod 10) mod 256))"

function itoa_loop :: "int64 \<Rightarrow> string \<Rightarrow> string" where
  "itoa_loop n buf = (if 0 < n then itoa_loop (n div 10) (itoa_digit n # buf) else buf)"
  by pat_completeness auto
termination by (relation "measure (\<lambda>(n, _). nat n)") auto

declare itoa_loop.simps [simp del]

definition itoa :: "int64 \<Rightarrow> string" where
  "itoa n =
     (if n = 0 then ''0''
      else let neg = n < 0; m = (if neg then neg64 n else n); digits = itoa_loop m []
           in if neg then CHR ''-'' # digits else digits)"

record TamperAlert =
  A_BrokenAtSeq :: int64
  A_Reason :: go_error
  A_TotalBlocks :: int64
  A_DetectedAt :: time

datatype guard_event =
    Published string TamperAlert
  | Notified int64 string go_error

record chain_guard =
  G_ownerID :: int64
  G_hasNATS :: bool
  G_hasNotify :: bool
  G_healthy :: bool

abbreviation SubjChainTampered :: string where "SubjChainTampered \<equiv> ''pay.chain.tampered''"

text \<open>One check: the new state of the monitor and what it sends (the alert, the owner's message).\<close>

definition checkOnce ::
  "(string \<Rightarrow> string) \<Rightarrow> io \<Rightarrow> pay_db \<Rightarrow> chain_guard \<Rightarrow> chain_guard \<times> guard_event list" where
  "checkOnce sha io db g =
     (case VerifyChain sha io db of
        Inl _ \<Rightarrow> (g, [])
      | Inr res \<Rightarrow>
          if V_Valid res then (g\<lparr>G_healthy := True\<rparr>, [])
          else (g\<lparr>G_healthy := False\<rparr>,
                (if G_hasNATS g then [Published SubjChainTampered
                   \<lparr>A_BrokenAtSeq = V_BrokenAtSeq res, A_Reason = V_Reason res,
                    A_TotalBlocks = V_TotalBlocks res, A_DetectedAt = io_now io 0\<rparr>] else []) @
                (if G_hasNotify g \<and> G_ownerID g \<noteq> 0
                 then [Notified (G_ownerID g) (itoa (V_BrokenAtSeq res)) (V_Reason res)] else [])))"

section \<open>What a valid chain is\<close>

text \<open>Declaratively: numbers count up from the start, every block carries its predecessor's hash and its own.\<close>

fun linked :: "(string \<Rightarrow> string) \<Rightarrow> int64 \<Rightarrow> string \<Rightarrow> LedgerEntry list \<Rightarrow> bool" where
  "linked sha s h [] \<longleftrightarrow> True"
| "linked sha s h (e # es) \<longleftrightarrow>
     L_Seq e = add64 s 1 \<and> L_PrevHash e = h \<and> L_Hash e = ComputeHash sha e \<and> linked sha (L_Seq e) (L_Hash e) es"

definition chain_ok :: "(string \<Rightarrow> string) \<Rightarrow> LedgerEntry list \<Rightarrow> bool" where
  "chain_ok sha rows \<longleftrightarrow> linked sha 0 GenesisHash (sort_key L_Seq rows)"

lemma verify_entries_append:
  "verify_entries sha p (es @ fs) =
     (case verify_entries sha p es of Inl r \<Rightarrow> Inl r | Inr p' \<Rightarrow> verify_entries sha p' fs)"
  by (induction sha p es rule: verify_entries.induct) (simp_all add: Let_def)

lemma verify_entries_linked:
  "\<not> isl (verify_entries sha p es) \<longleftrightarrow> linked sha (C_prevSeq p) (C_prevHash p) es"
  by (induction sha p es rule: verify_entries.induct) (auto simp: Let_def)

lemma verify_entries_Inl: "verify_entries sha p es = Inl r \<Longrightarrow> \<not> V_Valid r"
  by (induction sha p es rule: verify_entries.induct) (auto simp: Let_def split: if_splits)

lemma verify_entries_total:
  "verify_entries sha p es = Inr p' \<Longrightarrow> C_total p' = (if es = [] then C_total p else wrap64 (C_total p + int (length es)))"
proof (induction es arbitrary: p)
  case (Cons e es)
  let ?p = "\<lparr>C_prevSeq = L_Seq e, C_prevHash = L_Hash e, C_total = add64 (C_total p) 1\<rparr>"
  have "verify_entries sha ?p es = Inr p'"
    using Cons.prems by (simp add: Let_def split: if_split_asm)
  from Cons.IH [OF this] wrap64_wrap64_diff [of "C_total p + 1" "- int (length es)"] show ?case
    by (simp add: add.assoc)
qed simp

text \<open>The batched loop computes what one pass over all rows computes.\<close>

definition finish :: "ChainVerifyResult + chain_pos \<Rightarrow> go_error + ChainVerifyResult" where
  "finish r = (case r of Inl res \<Rightarrow> Inr res
     | Inr p \<Rightarrow> Inr \<lparr>V_Valid = True, V_TotalBlocks = C_total p, V_BrokenAtSeq = 0, V_Reason = reason_ok\<rparr>)"

lemma verify_batches_unbatched:
  assumes "io_ok io" "0 < b"
  shows "verify_batches sha io b rows k off p = finish (verify_entries sha p (drop off rows))"
  using assms
proof (induction sha io b rows k off p rule: verify_batches.induct)
  case (1 sha io b rows k off p)
  show ?case
  proof (cases "drop off rows = []")
    case True
    with "1.prems" show ?thesis by (subst verify_batches.simps) (simp add: finish_def)
  next
    case False
    let ?batch = "take b (drop off rows)"
    have "drop (off + length ?batch) rows = drop b (drop off rows)"
      by (simp add: add.commute min_def)
    then have split: "drop off rows = ?batch @ drop (off + length ?batch) rows"
      by (simp only: append_take_drop_id)
    have ne: "?batch \<noteq> []" using False "1.prems" by simp
    show ?thesis
    proof (cases "verify_entries sha p ?batch")
      case (Inl r)
      then have "verify_entries sha p (drop off rows) = Inl r"
        by (subst split) (simp only: verify_entries_append, simp)
      with Inl ne "1.prems" show ?thesis
        by (subst verify_batches.simps) (simp add: finish_def Let_def)
    next
      case (Inr p')
      then have "verify_entries sha p (drop off rows) = verify_entries sha p' (drop (off + length ?batch) rows)"
        by (subst split) (simp only: verify_entries_append, simp)
      with Inr ne "1.prems" "1.IH" [OF _ refl _ Inr] show ?thesis
        by (subst verify_batches.simps) (simp add: Let_def)
    qed
  qed
qed

section \<open>Appending to a valid chain\<close>

definition end_of :: "int64 \<Rightarrow> string \<Rightarrow> LedgerEntry list \<Rightarrow> int64 \<times> string" where
  "end_of s h es = (if es = [] then (s, h) else (L_Seq (last es), L_Hash (last es)))"

lemma end_of_simps [simp]:
  "end_of s h [] = (s, h)" "end_of s h (e # es) = end_of (L_Seq e) (L_Hash e) es"
  "end_of s h (es @ [e]) = (L_Seq e, L_Hash e)"
  by (simp_all add: end_of_def)

lemma linked_append:
  "linked sha s h (es @ fs) \<longleftrightarrow> linked sha s h es \<and> linked sha (fst (end_of s h es)) (snd (end_of s h es)) fs"
  by (induction es arbitrary: s h) auto

lemma linked_seqs:
  assumes "linked sha s h es" "0 \<le> s" "s + int (length es) \<le> MaxInt64"
  shows "map L_Seq es = map (\<lambda>k. s + 1 + int k) [0..<length es] \<and> fst (end_of s h es) = s + int (length es)"
  using assms
proof (induction es arbitrary: s h)
  case (Cons e es)
  then have e: "L_Seq e = s + 1" by (simp add: in_int64_def)
  with Cons.IH [of "s + 1" "L_Hash e"] Cons.prems
  have "map L_Seq es = map (\<lambda>k. s + 1 + 1 + int k) [0..<length es]"
    "fst (end_of (s + 1) (L_Hash e) es) = s + 1 + int (length es)" by auto
  with e show ?case
    by (simp add: upt_conv_Cons map_Suc_upt [symmetric] algebra_simps del: upt_Suc)
qed simp

lemma insort_key_last: "f x \<le> f e \<Longrightarrow> insort_key f x (zs @ [e]) = insort_key f x zs @ [e]"
  by (induction zs) auto

lemma sort_key_snoc:
  fixes f :: "'r \<Rightarrow> int"
  assumes "\<And>x. x \<in> set rows \<Longrightarrow> f x \<le> f e"
  shows "sort_key f (rows @ [e]) = sort_key f rows @ [e]"
  using assms by (induction rows) (simp_all add: insort_key_last)

lemma chain_tip_end: "chain_tip None rows = end_of 0 GenesisHash (sort_key L_Seq rows)"
  by (cases "sort_key L_Seq rows" rule: rev_cases) (auto simp: chain_tip_def end_of_def split: list.splits)

lemma chain_ok_seqs:
  assumes "chain_ok sha rows" "int (length rows) \<le> MaxInt64"
  shows "L_Seq ` set rows = {1 .. int (length rows)}" "fst (chain_tip None rows) = int (length rows)"
proof -
  have l: "linked sha 0 GenesisHash (sort_key L_Seq rows)" using assms(1) by (simp add: chain_ok_def)
  from linked_seqs [OF l] assms(2)
  have m: "map L_Seq (sort_key L_Seq rows) = map (\<lambda>k. 1 + int k) [0..<length rows]"
    and t: "fst (end_of 0 GenesisHash (sort_key L_Seq rows)) = int (length rows)" by simp_all
  have "L_Seq ` set rows = set (map L_Seq (sort_key L_Seq rows))" by simp
  also have "\<dots> = (\<lambda>k. 1 + int k) ` {0..<length rows}" unfolding m by simp
  also have "\<dots> = {1 .. int (length rows)}"
  proof (intro set_eqI iffI)
    fix x assume "x \<in> {1 .. int (length rows)}"
    then show "x \<in> (\<lambda>k. 1 + int k) ` {0..<length rows}" by (intro image_eqI [where x = "nat (x - 1)"]) auto
  qed auto
  finally show "L_Seq ` set rows = {1 .. int (length rows)}" .
  show "fst (chain_tip None rows) = int (length rows)" using t by (simp add: chain_tip_end)
qed

lemma link_keeps_chain:
  assumes "chain_ok sha rows" "int (length rows) < MaxInt64"
    and "(s, h) = chain_tip f rows" "e = linkEntry sha e0 s h" "L_Seq e \<notin> L_Seq ` set rows"
  shows "chain_ok sha (rows @ [e])" "chain_tip None (rows @ [e]) = (L_Seq e, L_Hash e)"
proof -
  have le: "int (length rows) \<le> MaxInt64" using assms(2) by simp
  note seqs = chain_ok_seqs [OF assms(1) le]
  have tip: "(s, h) = chain_tip None rows"
  proof (cases "f = None \<or> rows = []")
    case False
    then have "(s, h) = (0, GenesisHash)" using assms(3) by (auto simp: chain_tip_def)
    with assms(4) have "L_Seq e = 1" by (simp add: linkEntry_def Let_def in_int64_def)
    moreover have "0 < length rows" using False by simp
    ultimately have "L_Seq e \<in> L_Seq ` set rows" unfolding seqs(1) by (simp add: Suc_le_eq)
    with assms(5) show ?thesis by simp
  qed (use assms(3) in \<open>auto simp: chain_tip_def split: option.splits\<close>)
  then have s: "s = int (length rows)" using seqs(2) by (metis fst_conv)
  have e: "L_Seq e = int (length rows) + 1" "L_PrevHash e = h" "L_Hash e = ComputeHash sha e"
    using assms(2,4) s by (simp_all add: linkEntry_def Let_def ComputeHash_def hash_payload_def in_int64_def)
  have "L_Seq x \<le> L_Seq e" if "x \<in> set rows" for x
  proof -
    have "L_Seq x \<in> {1 .. int (length rows)}" using that seqs(1) by blast
    with e(1) show ?thesis by simp
  qed
  then have sorted: "sort_key L_Seq (rows @ [e]) = sort_key L_Seq rows @ [e]" by (rule sort_key_snoc)
  show "chain_ok sha (rows @ [e])"
    unfolding chain_ok_def sorted linked_append
    using assms(1,2) tip [unfolded chain_tip_end] e s
    by (simp add: chain_ok_def in_int64_def flip: tip [unfolded chain_tip_end])
  show "chain_tip None (rows @ [e]) = (L_Seq e, L_Hash e)"
    by (simp add: chain_tip_end sorted)
qed

lemma insert_entry_Inr:
  "insert_entry e db = Inr db' \<longleftrightarrow> L_ID e \<notin> L_ID ` set (ledger_entries db) \<and>
     L_Seq e \<notin> L_Seq ` set (ledger_entries db) \<and> db' = db\<lparr>ledger_entries := ledger_entries db @ [e]\<rparr>"
  unfolding insert_entry_def by auto

lemma wrap_err_Inr [simp]: "wrap_err m r = Inr x \<longleftrightarrow> r = Inr x"
  by (simp add: wrap_err_def split: sum.splits)

lemma linkEntry_sel [simp]:
  "L_ID (linkEntry sha e s h) = L_ID e" "L_WalletID (linkEntry sha e s h) = L_WalletID e"
  "L_Type (linkEntry sha e s h) = L_Type e" "L_AmountNano (linkEntry sha e s h) = L_AmountNano e"
  by (simp_all add: linkEntry_def Let_def)

lemma new_entry_sel [simp]:
  "L_ID (new_entry i now t w ty a b r n) = i" "L_WalletID (new_entry i now t w ty a b r n) = w"
  "L_Type (new_entry i now t w ty a b r n) = ty" "L_AmountNano (new_entry i now t w ty a b r n) = a"
  by (simp_all add: new_entry_def)

lemma gorm_Transaction_Inl: "fst (gorm_Transaction c body db) = Inl e \<Longrightarrow> snd (gorm_Transaction c body db) = db"
  using gorm_Transaction_error [of c body db e] by (metis prod.collapse)

text \<open>What a successful transfer does to the tables.\<close>

lemma RecordTransfer_Inr:
  assumes "RecordTransfer sha io i j a txID ref note db = (Inr p, db')"
  obtains src dst db2 db3 where "0 < a" "i \<noteq> j" "a \<le> W_TONBalance src"
     "src \<in> set (wallets db)" "W_ID src = i" "dst \<in> set (wallets db)" "W_ID dst = j"
     "p = transfer_entries sha io src dst a txID ref note (chain_tip (io_flt io 2) (ledger_entries db))"
     "L_Seq (P_Debit p) \<notin> L_Seq ` set (ledger_entries db)"
     "L_Seq (P_Credit p) \<notin> L_Seq ` set (ledger_entries db @ [P_Debit p])"
     "db2 = db\<lparr>ledger_entries := (ledger_entries db @ [P_Debit p]) @ [P_Credit p]\<rparr>"
     "update_wallet i (set_ton (sub64 (W_TONBalance src) a)) db2 = Inr db3"
     "update_wallet j (set_ton (add64 (W_TONBalance dst) a)) db3 = Inr db'"
proof -
  from assms have a: "\<not> a \<le> 0" "i \<noteq> j" by (auto simp: RecordTransfer_def split: if_splits)
  from assms obtain src dst where
    w: "First (io_flt io 0) W_ID (\<lambda>w. W_ID w = i) (wallets db) = Inr src"
       "First (io_flt io 1) W_ID (\<lambda>w. W_ID w = j) (wallets db) = Inr dst" "\<not> W_TONBalance src < a"
    by (auto simp: RecordTransfer_def gorm_Transaction_Inr Let_def split: if_splits sum.splits)
  define q where "q = transfer_entries sha io src dst a txID ref note (chain_tip (io_flt io 2) (ledger_entries db))"
  obtain db1 db2 db3 where d: "insert_entry (P_Debit q) db = Inr db1" "insert_entry (P_Credit q) db1 = Inr db2"
    "update_wallet i (set_ton (sub64 (W_TONBalance src) a)) db2 = Inr db3"
    "update_wallet j (set_ton (add64 (W_TONBalance dst) a)) db3 = Inr db'" "p = q"
    using assms a w unfolding q_def
    by (auto simp: RecordTransfer_def gorm_Transaction_Inr stmt_Inr Let_def lastChainEntryTx_def case_err_Inr)
  have "db2 = db\<lparr>ledger_entries := (ledger_entries db @ [P_Debit q]) @ [P_Credit q]\<rparr>"
    "L_Seq (P_Debit q) \<notin> L_Seq ` set (ledger_entries db)"
    "L_Seq (P_Credit q) \<notin> L_Seq ` set (ledger_entries db @ [P_Debit q])"
    using d(1,2) by (auto simp: insert_entry_Inr)
  then show thesis
    using that [of src dst db2 db3] a w(3) First_Inr_row [OF w(1)] First_Inr_row [OF w(2)] d q_def by simp
qed

lemma RecordDeposit_Inr:
  assumes "RecordDeposit sha io i a txID h fa db = (Inr e, db')"
  obtains w db1 where "w \<in> set (wallets db)" "W_ID w = i"
     "e = linkEntry sha (new_entry (io_uuid io 0) (io_now io 0) txID i EntryCredit a (add64 (W_TONBalance w) a) h
        (''deposit from '' @ fa)) (fst (chain_tip (io_flt io 1) (ledger_entries db))) (snd (chain_tip (io_flt io 1) (ledger_entries db)))"
     "L_Seq e \<notin> L_Seq ` set (ledger_entries db)" "db1 = db\<lparr>ledger_entries := ledger_entries db @ [e]\<rparr>"
     "update_wallet i (set_ton (add64 (W_TONBalance w) a)) db1 = Inr db'"
proof -
  from assms obtain w where w: "First (io_flt io 0) W_ID (\<lambda>w. W_ID w = i) (wallets db) = Inr w"
    by (auto simp: RecordDeposit_def gorm_Transaction_Inr case_err_Inr)
  define q where "q = linkEntry sha (new_entry (io_uuid io 0) (io_now io 0) txID i EntryCredit a (add64 (W_TONBalance w) a) h
        (''deposit from '' @ fa)) (fst (chain_tip (io_flt io 1) (ledger_entries db))) (snd (chain_tip (io_flt io 1) (ledger_entries db)))"
  obtain db1 where d: "insert_entry q db = Inr db1" "e = q"
    "update_wallet i (set_ton (add64 (W_TONBalance w) a)) db1 = Inr db'"
    using assms w unfolding q_def
    by (auto simp: RecordDeposit_def gorm_Transaction_Inr stmt_Inr Let_def lastChainEntryTx_def case_err_Inr)
  have "db1 = db\<lparr>ledger_entries := ledger_entries db @ [q]\<rparr>" "L_Seq q \<notin> L_Seq ` set (ledger_entries db)"
    using d(1) by (auto simp: insert_entry_Inr)
  then show thesis
    using that [of w db1] First_Inr_row [OF w] d q_def by simp
qed

lemma transfer_entries_links:
  "P_Debit (transfer_entries sha io src dst a txID ref note tip) =
     linkEntry sha (new_entry (io_uuid io 0) (io_now io 0) txID (W_ID src) EntryDebit a (sub64 (W_TONBalance src) a) ref note)
       (fst tip) (snd tip)"
  "P_Credit (transfer_entries sha io src dst a txID ref note tip) =
     linkEntry sha (new_entry (io_uuid io 1) (io_now io 0) txID (W_ID dst) EntryCredit a (add64 (W_TONBalance dst) a) ref note)
       (L_Seq (P_Debit (transfer_entries sha io src dst a txID ref note tip)))
       (L_Hash (P_Debit (transfer_entries sha io src dst a txID ref note tip)))"
  by (simp_all add: transfer_entries_def Let_def)

section \<open>Properties of the ledger\<close>

text \<open>
  The ledger operations keep the hash chain intact: whatever statement fails, a chain that
  verifies before \<open>RecordTransfer\<close> or \<open>RecordDeposit\<close> verifies after it (as long as the number of
  blocks fits 64 bits).
\<close>

theorem ledger_keeps_chain:
  assumes "chain_ok sha (ledger_entries db)" "int (length (ledger_entries db)) + 1 < MaxInt64"
  shows "chain_ok sha (ledger_entries (snd (RecordTransfer sha io i j a txID ref note db))) \<and>
    chain_ok sha (ledger_entries (snd (RecordDeposit sha io' i' a' txID' h fa db)))"
proof
  let ?T = "RecordTransfer sha io i j a txID ref note db"
  show "chain_ok sha (ledger_entries (snd ?T))"
  proof (cases "fst ?T")
    case (Inl e)
    then have "snd ?T = db"
      unfolding RecordTransfer_def by (auto split: if_splits dest: gorm_Transaction_Inl)
    with assms(1) show ?thesis by simp
  next
    case (Inr p)
    then have "?T = (Inr p, snd ?T)" by (metis prod.collapse)
    then obtain src dst db2 db3 where
      p: "p = transfer_entries sha io src dst a txID ref note (chain_tip (io_flt io 2) (ledger_entries db))"
      and seq: "L_Seq (P_Debit p) \<notin> L_Seq ` set (ledger_entries db)"
        "L_Seq (P_Credit p) \<notin> L_Seq ` set (ledger_entries db @ [P_Debit p])"
      and db2: "db2 = db\<lparr>ledger_entries := (ledger_entries db @ [P_Debit p]) @ [P_Credit p]\<rparr>"
      and u: "update_wallet i (set_ton (sub64 (W_TONBalance src) a)) db2 = Inr db3"
        "update_wallet j (set_ton (add64 (W_TONBalance dst) a)) db3 = Inr (snd ?T)"
      by (rule RecordTransfer_Inr) blast
    have n: "int (length (ledger_entries db)) < MaxInt64" "int (length (ledger_entries db @ [P_Debit p])) < MaxInt64"
      using assms(2) by simp_all
    note d = link_keeps_chain [OF assms(1) n(1) prod.collapse _ seq(1), unfolded p, OF transfer_entries_links(1), folded p]
    have "chain_ok sha ((ledger_entries db @ [P_Debit p]) @ [P_Credit p])"
      by (rule link_keeps_chain(1) [OF d(1) n(2) d(2) [symmetric] _ seq(2)])
        (simp only: p transfer_entries_links(2))
    with update_wallet_other(4) [OF u(1)] update_wallet_other(4) [OF u(2)] db2 show ?thesis by simp
  qed
  let ?D = "RecordDeposit sha io' i' a' txID' h fa db"
  show "chain_ok sha (ledger_entries (snd ?D))"
  proof (cases "fst ?D")
    case (Inl e)
    then have "snd ?D = db" unfolding RecordDeposit_def by (rule gorm_Transaction_Inl)
    with assms(1) show ?thesis by simp
  next
    case (Inr e)
    then have "?D = (Inr e, snd ?D)" by (metis prod.collapse)
    then obtain w :: Wallet and db1 where
      e: "e = linkEntry sha (new_entry (io_uuid io' 0) (io_now io' 0) txID' i' EntryCredit a' (add64 (W_TONBalance w) a') h
        (''deposit from '' @ fa)) (fst (chain_tip (io_flt io' 1) (ledger_entries db))) (snd (chain_tip (io_flt io' 1) (ledger_entries db)))"
      and seq: "L_Seq e \<notin> L_Seq ` set (ledger_entries db)"
      and db1: "db1 = db\<lparr>ledger_entries := ledger_entries db @ [e]\<rparr>"
      and u: "update_wallet i' (set_ton (add64 (W_TONBalance w) a')) db1 = Inr (snd ?D)"
      by (rule RecordDeposit_Inr) blast
    have "chain_ok sha (ledger_entries db @ [e])"
      by (rule link_keeps_chain(1) [OF assms(1) _ prod.collapse e seq]) (use assms(2) in simp)
    with update_wallet_other(4) [OF u] db1 show ?thesis by simp
  qed
qed

definition toy_sha :: "string \<Rightarrow> string" where "toy_sha s = rev s"

theorem ledger_keeps_chain_witness:
  "chain_ok toy_sha (ledger_entries (snd (RecordDeposit toy_sha demo_io ''id-0'' 5 ''t1'' ''h'' ''EQ'' demo_db2))) \<and>
   length (ledger_entries (snd (RecordDeposit toy_sha demo_io ''id-0'' 5 ''t1'' ''h'' ''EQ'' demo_db2))) = 1"
proof -
  have 1: "ledger_entries demo_db2 = []" by code_simp
  have 2: "length (ledger_entries (snd (RecordDeposit toy_sha demo_io ''id-0'' 5 ''t1'' ''h'' ''EQ'' demo_db2))) = 1"
    by code_simp
  show ?thesis
    using ledger_keeps_chain [of toy_sha demo_db2 demo_io "[]" "[]" 0 "[]" "[]" "[]" demo_io "''id-0''" 5 "''t1''" "''h''" "''EQ''"]
      1 2 by (simp add: chain_ok_def)
qed

lemma verify_entries_broken:
  "verify_entries sha p es = Inl r \<Longrightarrow> \<exists>xs e ys. es = xs @ e # ys \<and>
     linked sha (C_prevSeq p) (C_prevHash p) xs \<and> \<not> linked sha (C_prevSeq p) (C_prevHash p) (xs @ [e]) \<and>
     V_BrokenAtSeq r = L_Seq e"
proof (induction es arbitrary: p)
  case (Cons e es)
  let ?p = "\<lparr>C_prevSeq = L_Seq e, C_prevHash = L_Hash e, C_total = add64 (C_total p) 1\<rparr>"
  show ?case
  proof (cases "linked sha (C_prevSeq p) (C_prevHash p) [e]")
    case True
    then have "verify_entries sha ?p es = Inl r"
      using Cons.prems by (simp add: Let_def)
    from Cons.IH [OF this] obtain xs f ys where x: "es = xs @ f # ys" "linked sha (L_Seq e) (L_Hash e) xs"
      "\<not> linked sha (L_Seq e) (L_Hash e) (xs @ [f])" "V_BrokenAtSeq r = L_Seq f" by auto
    with True show ?thesis by (intro exI [of _ "e # xs"] exI [of _ f] exI [of _ ys]) simp
  next
    case False
    then have "V_BrokenAtSeq r = L_Seq e"
      using Cons.prems by (auto simp: Let_def split: if_split_asm)
    with False show ?thesis by (intro exI [of _ "[]"] exI [of _ e] exI [of _ es]) simp
  qed
qed simp

text \<open>
  (C39) \<open>VerifyChain\<close> decides the integrity of the chain: without driver errors it returns, whatever
  the number of batches; it reports a valid chain exactly when the blocks in order of their numbers
  count up from 1, carry their predecessor's hash and their own, with the number of blocks; otherwise
  it reports the first block at which the chain breaks.
\<close>

theorem VerifyChain_correct:
  assumes "io_ok io" "int (length (ledger_entries db)) \<le> MaxInt64"
  shows "\<exists>r. VerifyChain sha io db = Inr r \<and>
    (V_Valid r \<longleftrightarrow> chain_ok sha (ledger_entries db)) \<and>
    (if V_Valid r then V_TotalBlocks r = int (length (ledger_entries db))
     else \<exists>xs e ys. sort_key L_Seq (ledger_entries db) = xs @ e # ys \<and> linked sha 0 GenesisHash xs \<and>
            \<not> linked sha 0 GenesisHash (xs @ [e]) \<and> V_BrokenAtSeq r = L_Seq e)"
proof -
  let ?rows = "sort_key L_Seq (ledger_entries db)"
  let ?p = "\<lparr>C_prevSeq = 0, C_prevHash = GenesisHash, C_total = 0\<rparr>"
  have v: "VerifyChain sha io db = finish (verify_entries sha ?p ?rows)"
    by (simp add: VerifyChain_def verify_batches_unbatched [OF assms(1)])
  have ok: "chain_ok sha (ledger_entries db) \<longleftrightarrow> \<not> isl (verify_entries sha ?p ?rows)"
    by (simp add: chain_ok_def verify_entries_linked)
  show ?thesis
  proof (cases "verify_entries sha ?p ?rows")
    case (Inl r)
    with verify_entries_Inl [OF Inl] verify_entries_broken [OF Inl] ok v show ?thesis
      by (simp add: finish_def)
  next
    case (Inr p')
    have "?rows = [] \<longleftrightarrow> ledger_entries db = []" by (metis length_0_conv length_sort)
    then have "C_total p' = int (length (ledger_entries db))"
      using verify_entries_total [OF Inr] assms(2) by (simp add: in_int64_def split: if_splits)
    with Inr ok v show ?thesis by (simp add: finish_def)
  qed
qed

definition demo_ledger :: pay_db where
  "demo_ledger = snd (RecordDeposit toy_sha demo_io ''id-0'' 5 ''t1'' ''h'' ''EQ'' demo_db2)"

definition tampered_ledger :: pay_db where
  "tampered_ledger = demo_ledger\<lparr>ledger_entries := map (\<lambda>e. e\<lparr>L_AmountNano := 500\<rparr>) (ledger_entries demo_ledger)\<rparr>"

theorem VerifyChain_correct_witness:
  "\<exists>r. VerifyChain toy_sha demo_io tampered_ledger = Inr r \<and> \<not> V_Valid r"
proof -
  have 1: "io_ok demo_io" by (simp add: demo_io_def io_ok_def)
  have 2: "length (ledger_entries tampered_ledger) = 1" "\<not> chain_ok toy_sha (ledger_entries tampered_ledger)"
    by code_simp+
  show ?thesis using VerifyChain_correct [OF 1, of tampered_ledger toy_sha] 2 by auto
qed

subsection \<open>Tampering\<close>

lemma fmt_d_no_bar [simp]: "CHR ''|'' \<notin> set (fmt_d i)"
  using format_nat_no_char [of 10 "CHR ''|''"] by (simp add: FormatInt_def)

lemma EntryType_string_no_bar [simp]: "CHR ''|'' \<notin> set (EntryType_string t)"
  by (cases t) simp_all

lemma EntryType_string_inj: "EntryType_string t = EntryType_string u \<longleftrightarrow> t = u"
  by (cases t; cases u) simp_all

text \<open>The canonical text of a UUID has hexadecimal digits and dashes only; no bar is what matters here.\<close>

definition ids_plain :: "LedgerEntry \<Rightarrow> bool" where
  "ids_plain e \<longleftrightarrow> CHR ''|'' \<notin> set (L_TransactionID e) \<and> CHR ''|'' \<notin> set (L_WalletID e)"

definition content :: "LedgerEntry \<Rightarrow> int64 \<times> uuid \<times> uuid \<times> EntryType \<times> int64 \<times> int64 \<times> string" where
  "content e = (L_Seq e, L_TransactionID e, L_WalletID e, L_Type e, L_AmountNano e, L_BalanceAfter e, L_PrevHash e)"

lemma hash_payload_inj:
  assumes "hash_payload e = hash_payload f" "ids_plain e" "ids_plain f"
  shows "content e = content f"
proof -
  have eq: "a @ CHR ''|'' # s = b @ CHR ''|'' # t \<Longrightarrow> CHR ''|'' \<notin> set a \<Longrightarrow> CHR ''|'' \<notin> set b \<Longrightarrow> a = b \<and> s = t"
    for a b s t by (rule split_at_unique)
  note e = assms(1) [unfolded hash_payload_def append.simps]
  from eq [OF e] have 1: "L_Seq e = L_Seq f"
    and e1: "L_TransactionID e @ CHR ''|'' # L_WalletID e @ CHR ''|'' # EntryType_string (L_Type e) @ CHR ''|'' #
        fmt_d (L_AmountNano e) @ CHR ''|'' # fmt_d (L_BalanceAfter e) @ CHR ''|'' # L_PrevHash e =
      L_TransactionID f @ CHR ''|'' # L_WalletID f @ CHR ''|'' # EntryType_string (L_Type f) @ CHR ''|'' #
        fmt_d (L_AmountNano f) @ CHR ''|'' # fmt_d (L_BalanceAfter f) @ CHR ''|'' # L_PrevHash f"
    using FormatInt_inj [of 10 "L_Seq e" "L_Seq f"] by simp_all
  have b: "CHR ''|'' \<notin> set (L_TransactionID e)" "CHR ''|'' \<notin> set (L_TransactionID f)"
    "CHR ''|'' \<notin> set (L_WalletID e)" "CHR ''|'' \<notin> set (L_WalletID f)"
    using assms(2,3) by (simp_all add: ids_plain_def)
  note e2 = eq [OF e1 b(1,2)]
  note e3 = eq [OF conjunct2 [OF e2] b(3,4)]
  note e4 = eq [OF conjunct2 [OF e3] EntryType_string_no_bar EntryType_string_no_bar]
  note e5 = eq [OF conjunct2 [OF e4] fmt_d_no_bar fmt_d_no_bar]
  note e6 = eq [OF conjunct2 [OF e5] fmt_d_no_bar fmt_d_no_bar]
  show ?thesis
    using 1 e2 e3 e4 e5 e6 FormatInt_inj [of 10 "L_AmountNano e" "L_AmountNano f"]
      FormatInt_inj [of 10 "L_BalanceAfter e" "L_BalanceAfter f"]
    by (simp add: content_def EntryType_string_inj)
qed

definition collision :: "(string \<Rightarrow> string) \<Rightarrow> LedgerEntry list \<Rightarrow> LedgerEntry list \<Rightarrow> bool" where
  "collision sha rows rows' \<longleftrightarrow>
     (\<exists>e \<in> set rows. \<exists>f \<in> set rows'. hash_payload e \<noteq> hash_payload f \<and> sha (hash_payload e) = sha (hash_payload f))"

lemma linked_same_end:
  assumes "linked sha s h es" "linked sha s h fs" "length es = length fs"
    "snd (end_of s h es) = snd (end_of s h fs)" "\<forall>e \<in> set es \<union> set fs. ids_plain e" "\<not> collision sha es fs"
  shows "map content es = map content fs"
  using assms
proof (induction es arbitrary: fs rule: rev_induct)
  case (snoc e es)
  then obtain f fs' where fs: "fs = fs' @ [f]" by (cases fs rule: rev_cases) auto
  have h: "L_Hash e = sha (hash_payload e)" "L_Hash f = sha (hash_payload f)"
    "L_PrevHash e = snd (end_of s h es)" "L_PrevHash f = snd (end_of s h fs')"
    using snoc.prems(1,2) by (auto simp: fs linked_append ComputeHash_def)
  have "hash_payload e = hash_payload f"
    using snoc.prems(4,6) h(1,2) by (auto simp: fs collision_def)
  then have c: "content e = content f" by (rule hash_payload_inj) (use snoc.prems(5) fs in auto)
  then have "snd (end_of s h es) = snd (end_of s h fs')" using h(3,4) by (simp add: content_def)
  then have "map content es = map content fs'"
    using snoc.prems by (intro snoc.IH) (auto simp: fs linked_append collision_def)
  with c show ?case by (simp add: fs)
qed simp

text \<open>
  (C38) Tampering shows: suppose a verified chain of the same length ends in a known hash. Then any
  other table that passes verification and ends in the same hash holds the same blocks (number,
  transaction, wallet, type, amount, balance, previous hash), unless the two tables exhibit a
  collision of SHA-256.
\<close>

theorem tamper_evident:
  assumes "chain_ok sha rows" "chain_ok sha rows'" "length rows = length rows'"
    and "snd (chain_tip None rows) = snd (chain_tip None rows')"
    and "\<forall>e \<in> set rows \<union> set rows'. ids_plain e"
  shows "map content (sort_key L_Seq rows) = map content (sort_key L_Seq rows') \<or>
    (\<exists>e \<in> set rows. \<exists>f \<in> set rows'. hash_payload e \<noteq> hash_payload f \<and>
       ComputeHash sha e = ComputeHash sha f)"
proof (rule disjCI)
  assume "\<not> (\<exists>e \<in> set rows. \<exists>f \<in> set rows'. hash_payload e \<noteq> hash_payload f \<and> ComputeHash sha e = ComputeHash sha f)"
  then have "\<not> collision sha (sort_key L_Seq rows) (sort_key L_Seq rows')"
    by (auto simp: collision_def ComputeHash_def)
  with assms show "map content (sort_key L_Seq rows) = map content (sort_key L_Seq rows')"
    by (intro linked_same_end [of sha 0 GenesisHash]) (simp_all add: chain_ok_def chain_tip_end)
qed

theorem tamper_evident_witness:
  "\<not> chain_ok toy_sha [(ledger_entries demo_ledger ! 0)\<lparr>L_AmountNano := 500\<rparr>]"
proof
  let ?e = "ledger_entries demo_ledger ! 0"
  let ?f = "?e\<lparr>L_AmountNano := 500\<rparr>"
  assume f: "chain_ok toy_sha [?f]"
  have e: "chain_ok toy_sha [?e]" "content ?e \<noteq> content ?f" "ids_plain ?e" "ids_plain ?f" by code_simp+
  have "ComputeHash toy_sha ?e \<noteq> ComputeHash toy_sha ?f \<or> hash_payload ?e = hash_payload ?f"
    by (auto simp: ComputeHash_def toy_sha_def)
  moreover have "snd (chain_tip None [?e]) = snd (chain_tip None [?f])"
    by (simp add: chain_tip_end end_of_def)
  ultimately show False
    using tamper_evident [OF e(1) f] e(2-4) by simp
qed

text \<open>
  What the chain does not show: the newest blocks can be removed. Cutting a valid chain after
  any number of blocks leaves a table that verifies.
\<close>

theorem truncation_undetected:
  assumes "chain_ok sha rows"
  shows "chain_ok sha (take k (sort_key L_Seq rows))"
proof -
  have "sorted (map L_Seq (take k (sort_key L_Seq rows)))"
    by (metis sorted_sort_key sorted_wrt_take take_map)
  then have "sort_key L_Seq (take k (sort_key L_Seq rows)) = take k (sort_key L_Seq rows)"
    by (rule sort_key_id_if_sorted)
  moreover have "linked sha 0 GenesisHash (take k (sort_key L_Seq rows) @ drop k (sort_key L_Seq rows))"
    using assms by (simp add: chain_ok_def)
  ultimately show ?thesis unfolding linked_append by (simp add: chain_ok_def)
qed

theorem truncation_undetected_witness: "chain_ok toy_sha (ledger_entries demo_ledger) \<and> chain_ok toy_sha []"
proof -
  have 1: "chain_ok toy_sha (ledger_entries demo_ledger)" by code_simp
  from truncation_undetected [OF 1, of 0] 1 show ?thesis by simp
qed

subsection \<open>The monitor\<close>

lemma itoa_digit_char: "0 < n \<Longrightarrow> itoa_digit n = digit_char (nat n mod 10)"
proof -
  assume "0 < n"
  then have "nat ((48 + n mod 10) mod 256) = 48 + nat n mod 10"
    by (simp add: nat_mod_distrib nat_add_distrib)
  then show ?thesis by (simp add: itoa_digit_def digit_char_def)
qed

lemma itoa_loop_format: "0 < n \<Longrightarrow> itoa_loop n buf = format_nat 10 (nat n) @ buf"
proof (induction n buf rule: itoa_loop.induct)
  case (1 n buf)
  show ?case
  proof (cases "n < 10")
    case True
    with 1 show ?thesis
      by (subst itoa_loop.simps, subst itoa_loop.simps, subst format_nat.simps)
        (simp add: itoa_digit_char nat_less_iff)
  next
    case False
    with 1 have "itoa_loop (n div 10) (itoa_digit n # buf) = format_nat 10 (nat (n div 10)) @ itoa_digit n # buf"
      by simp
    with 1 False show ?thesis
      by (subst itoa_loop.simps, subst format_nat.simps) (simp add: itoa_digit_char nat_div_distrib)
  qed
qed

text \<open>
  The monitor's own \<open>itoa\<close> prints every 64-bit number like \<open>strconv\<close> does, with one exception:
  the least number, whose negation overflows, is printed as a lone minus sign.
\<close>

theorem itoa_correct:
  assumes "in_int64 n"
  shows "itoa n = (if n = MinInt64 then ''-'' else fmt_d n)"
proof (cases "n = MinInt64")
  case True
  have "neg64 MinInt64 = MinInt64" by (simp add: wrap64_def)
  with True show ?thesis by (simp add: itoa_def itoa_loop.simps)
next
  case False
  with assms have "n < 0 \<Longrightarrow> neg64 n = - n" by (intro wrap64_id) (auto simp: in_int64_def)
  moreover have "format_nat 10 0 = ''0''" by code_simp
  ultimately show ?thesis
    using False by (auto simp: itoa_def FormatInt_def itoa_loop_format)
qed

theorem itoa_correct_witness: "itoa (- 1050) = ''-1050''"
proof -
  have "in_int64 (- 1050)" by (simp add: in_int64_def)
  moreover have "fmt_d (- 1050) = ''-1050''" by code_simp
  ultimately show ?thesis using itoa_correct [of "- 1050"] by simp
qed

subsection \<open>Ledger against balances\<close>

definition booked :: "uuid \<Rightarrow> LedgerEntry list \<Rightarrow> int" where
  "booked i rows = sum_list (entry_amounts i EntryCredit rows) - sum_list (entry_amounts i EntryDebit rows)"

definition balanced :: "pay_db \<Rightarrow> bool" where
  "balanced db \<longleftrightarrow> distinct (map W_ID (wallets db)) \<and>
     (\<forall>w \<in> set (wallets db). W_TONBalance w = booked (W_ID w) (ledger_entries db))"

lemma booked_snoc:
  "booked i (rows @ [e]) = booked i rows +
     (if L_WalletID e = i then (if L_Type e = EntryCredit then L_AmountNano e else - L_AmountNano e) else 0)"
  by (cases "L_Type e") (simp_all add: booked_def entry_amounts_def)

lemma update_set_ton:
  assumes "update_wallet i (set_ton v) db = Inr db'"
  shows "wallets db' = map (\<lambda>w. if W_ID w = i then w\<lparr>W_TONBalance := v\<rparr> else w) (wallets db)"
  using update_wallet_Inr(1) [OF assms] by (simp add: set_ton_def cong: if_cong)

lemma balanced_set:
  assumes "distinct (map W_ID (wallets db))" "wallets db' = map (\<lambda>w. w\<lparr>W_TONBalance := b w\<rparr>) (wallets db)"
    "\<And>w. w \<in> set (wallets db) \<Longrightarrow> b w = booked (W_ID w) (ledger_entries db')"
  shows "balanced db'"
proof -
  have "map W_ID (wallets db') = map W_ID (wallets db)" by (simp add: assms(2))
  with assms show ?thesis by (auto simp: balanced_def simp del: map_map)
qed

text \<open>
  The double-entry rule: if every TON balance is what the wallet's ledger entries sum up to,
  then this still holds after a successful \<open>RecordTransfer\<close>, and the transfer books as much to the
  receiver as it takes from the sender.
\<close>

theorem RecordTransfer_balanced:
  assumes "balanced db" "RecordTransfer sha io i j a txID ref note db = (Inr p, db')"
    and "\<forall>w \<in> set (wallets db). in_int64 (W_TONBalance w) \<and> in_int64 (W_TONBalance w + a)"
  shows "balanced db' \<and> L_AmountNano (P_Debit p) = a \<and> L_AmountNano (P_Credit p) = a \<and>
    booked i (ledger_entries db') = booked i (ledger_entries db) - a \<and>
    booked j (ledger_entries db') = booked j (ledger_entries db) + a"
proof -
  from assms(2) obtain src dst db2 db3 where a: "0 < a" "i \<noteq> j" "a \<le> W_TONBalance src"
    and w: "src \<in> set (wallets db)" "W_ID src = i" "dst \<in> set (wallets db)" "W_ID dst = j"
    and p: "p = transfer_entries sha io src dst a txID ref note (chain_tip (io_flt io 2) (ledger_entries db))"
    and db2: "db2 = db\<lparr>ledger_entries := (ledger_entries db @ [P_Debit p]) @ [P_Credit p]\<rparr>"
    and u: "update_wallet i (set_ton (sub64 (W_TONBalance src) a)) db2 = Inr db3"
      "update_wallet j (set_ton (add64 (W_TONBalance dst) a)) db3 = Inr db'"
    by (rule RecordTransfer_Inr) blast
  have r: "sub64 (W_TONBalance src) a = W_TONBalance src - a" "add64 (W_TONBalance dst) a = W_TONBalance dst + a"
    using assms(3) w(1,3) a(1,3) by (auto simp: in_int64_def intro!: wrap64_id)
  have ids: "distinct (map W_ID (wallets db))" using assms(1) by (simp add: balanced_def)
  have entries: "L_WalletID (P_Debit p) = i" "L_Type (P_Debit p) = EntryDebit" "L_AmountNano (P_Debit p) = a"
    "L_WalletID (P_Credit p) = j" "L_Type (P_Credit p) = EntryCredit" "L_AmountNano (P_Credit p) = a"
    using w by (simp_all add: p transfer_entries_links)
  have led: "ledger_entries db' = (ledger_entries db @ [P_Debit p]) @ [P_Credit p]"
    using update_wallet_other(4) [OF u(1)] update_wallet_other(4) [OF u(2)] db2 by simp
  have bk: "booked k (ledger_entries db') = booked k (ledger_entries db) + (if k = j then a else 0) - (if k = i then a else 0)" for k
    unfolding led booked_snoc by (simp add: entries)
  have "wallets db' = map (\<lambda>x. x\<lparr>W_TONBalance := W_TONBalance x + (if W_ID x = j then a else 0) - (if W_ID x = i then a else 0)\<rparr>) (wallets db)"
    unfolding update_set_ton [OF u(2)] update_set_ton [OF u(1)] db2
    using w a(2) r by (auto dest: distinct_key_eq [OF ids])
  then have "balanced db'"
    using assms(1) by (intro balanced_set [OF ids]) (auto simp: bk balanced_def)
  with entries bk [of i] bk [of j] a(2) show ?thesis by simp
qed

definition demo_pair :: pay_db where
  "demo_pair = snd (RecordDeposit toy_sha demo_io ''id-0'' 5 ''t1'' ''h'' ''EQ''
     (snd (GetOrCreateWallet late_io 43 [] demo_db1)))"

theorem RecordTransfer_balanced_witness:
  "balanced (snd (RecordTransfer toy_sha late_io ''id-0'' ''late-0'' 3 ''t2'' [] [] demo_pair))"
proof -
  let ?T = "RecordTransfer toy_sha late_io ''id-0'' ''late-0'' 3 ''t2'' [] [] demo_pair"
  have "\<not> isl (fst ?T)" by code_simp
  then obtain p where p: "?T = (Inr p, snd ?T)" by (metis prod.collapse sum.collapse(2))
  have 1: "balanced demo_pair" by code_simp
  have 2: "\<forall>w \<in> set (wallets demo_pair). in_int64 (W_TONBalance w) \<and> in_int64 (W_TONBalance w + 3)" by code_simp
  from RecordTransfer_balanced [OF 1 p 2] show ?thesis by simp
qed

text \<open>
  But the operations that move money never use the ledger: after a deposit through \<open>Deposit\<close>
  the wallet's balance disagrees with the ledger, and \<open>VerifyLedgerBalance\<close> says so.
\<close>

theorem deposits_bypass_ledger:
  "VerifyLedgerBalance demo_io ''id-0'' demo_db1 = Inr True \<and>
   VerifyLedgerBalance demo_io ''id-0'' demo_db2 = Inr False \<and> ledger_entries demo_db2 = []"
  by code_simp

end
