(* ===== verification/Consensus.thy ===== *)
theory Consensus
  imports GoRuntime
begin

text \<open>
  The consensus layer of botpay (\<open>botpay/internal/consensus\<close>): four workers with their own SQLite
  records vote on a transaction, the engine counts the votes, the guard turns the count into a
  decision. The cryptographic primitives are a parameter of the model, the record \<open>crypto\<close>; so is
  which votes arrive before the timeout, and in which order.
\<close>

section \<open>Hexadecimal text\<close>

definition hex_digit :: "nat \<Rightarrow> char" where
  "hex_digit d = digit_char (d mod 16)"

definition hexEncode :: "string \<Rightarrow> string" where
  "hexEncode bs = concat (map (\<lambda>c. [hex_digit (of_char c div 16), hex_digit (of_char c mod 16)]) bs)"

definition hex_value :: "char \<Rightarrow> nat option" where
  "hex_value c =
     (let n = of_char c :: nat
      in if 48 \<le> n \<and> n \<le> 57 then Some (n - 48)
         else if 97 \<le> n \<and> n \<le> 102 then Some (n - 87)
         else if 65 \<le> n \<and> n \<le> 70 then Some (n - 55) else None)"

fun hexDecode :: "string \<Rightarrow> string option" where
  "hexDecode [] = Some []"
| "hexDecode [c] = None"
| "hexDecode (c # d # s) =
     (case (hex_value c, hex_value d, hexDecode s) of
        (Some x, Some y, Some bs) \<Rightarrow> Some (char_of (16 * x + y) # bs)
      | _ \<Rightarrow> None)"

lemma hex_value_digit: "d < 16 \<Longrightarrow> hex_value (hex_digit d) = Some d"
  by (simp add: hex_digit_def digit_char_def hex_value_def Let_def)

lemma hexDecode_hexEncode [simp]: "hexDecode (hexEncode bs) = Some bs"
proof (induction bs)
  case (Cons c bs)
  have "of_char c < (256 :: nat)" by simp
  then have "of_char c div 16 < (16 :: nat)" by (simp add: less_mult_imp_div_less)
  then have "hex_value (hex_digit (of_char c div 16)) = Some (of_char c div 16)"
    "hex_value (hex_digit (of_char c mod 16)) = Some (of_char c mod 16)" by (simp_all add: hex_value_digit)
  moreover have "16 * (of_char c div 16) + of_char c mod 16 = (of_char c :: nat)" by simp
  ultimately show ?case using Cons by (simp add: hexEncode_def)
qed (simp add: hexEncode_def)

section \<open>Transactions and votes (\<open>worker.go\<close>)\<close>

record Tx =
  X_ID :: string
  X_FromWallet :: string
  X_ToService :: string
  X_AmountNano :: int64
  X_Description :: string
  X_Timestamp :: time
  X_Metadata :: "(string \<times> string) list"

record VoteResult =
  O_WorkerID :: string
  O_Algorithm :: string
  O_Approved :: bool
  O_Signature :: string
  O_Reason :: go_error
  O_Timestamp :: time

record ConsensusResult =
  K_TxID :: string
  K_Approved :: bool
  K_Votes :: "VoteResult list"
  K_YesCount :: int64
  K_NoCount :: int64
  K_Threshold :: int64

abbreviation no_reason :: go_error where "no_reason \<equiv> Errorf [] []"

abbreviation zero_time :: time where "zero_time \<equiv> - 62135596800000000000"

definition TxPayload :: "Tx \<Rightarrow> string" where
  "TxPayload tx = X_ID tx @ ''|'' @ X_FromWallet tx @ ''|'' @ X_ToService tx @ ''|'' @
     fmt_d (X_AmountNano tx) @ ''|'' @ fmt_d (wrap64 (X_Timestamp tx))"

section \<open>A worker's records (\<open>local_db.go\<close>)\<close>

record TxRecord =
  B_ID :: string
  B_TxID :: string
  B_WorkerID :: string
  B_Algorithm :: string
  B_Approved :: bool
  B_Signature :: string
  B_Payload :: string
  B_Reason :: go_error
  B_CreatedAt :: time

record LocalDB =
  D_workerID :: string
  D_records :: "TxRecord list"
  D_keys :: "(string \<times> string) list"

text \<open>\<open>INSERT OR IGNORE\<close>: a row with the same primary key stays as it is. Errors are dropped by the callers.\<close>

definition SaveTxRecord :: "string option \<Rightarrow> string \<Rightarrow> VoteResult \<Rightarrow> string \<Rightarrow> LocalDB \<Rightarrow> LocalDB" where
  "SaveTxRecord f txID vote payload l =
     (let i = O_WorkerID vote @ ''-'' @ txID
      in if f \<noteq> None \<or> i \<in> B_ID ` set (D_records l) then l
         else l\<lparr>D_records := D_records l @ [\<lparr>B_ID = i, B_TxID = txID, B_WorkerID = O_WorkerID vote,
                B_Algorithm = O_Algorithm vote, B_Approved = O_Approved vote, B_Signature = O_Signature vote,
                B_Payload = payload, B_Reason = O_Reason vote, B_CreatedAt = O_Timestamp vote\<rparr>]\<rparr>)"

definition strings_before_dash :: "string \<Rightarrow> string" where
  "strings_before_dash s = (if 16 < length s then take 16 s else s)"

definition SaveRecord :: "io \<Rightarrow> VoteResult \<Rightarrow> string \<Rightarrow> LocalDB \<Rightarrow> LocalDB" where
  "SaveRecord io vote payload l =
     (let i = O_WorkerID vote @ ''-'' @ take 4 (O_WorkerID vote) @ fmt_d (wrap64 (io_now io 0))
      in if io_flt io 0 \<noteq> None \<or> i \<in> B_ID ` set (D_records l) then l
         else l\<lparr>D_records := D_records l @ [\<lparr>B_ID = i, B_TxID = strings_before_dash (O_Signature vote),
                B_WorkerID = O_WorkerID vote, B_Algorithm = O_Algorithm vote, B_Approved = O_Approved vote,
                B_Signature = O_Signature vote, B_Payload = payload, B_Reason = O_Reason vote,
                B_CreatedAt = O_Timestamp vote\<rparr>]\<rparr>)"

definition FindByTxID :: "io \<Rightarrow> string \<Rightarrow> LocalDB \<Rightarrow> go_error + TxRecord list" where
  "FindByTxID io txID l = stmt (io_flt io 0) (Inr (filter (\<lambda>r. B_TxID r = txID) (D_records l)))"

text \<open>A failed query counts nothing.\<close>

definition HasSeen :: "string option \<Rightarrow> string \<Rightarrow> LocalDB \<Rightarrow> bool" where
  "HasSeen f txID l \<longleftrightarrow>
     txID \<noteq> [] \<and> f = None \<and>
     0 < length (filter (\<lambda>r. B_TxID r = txID \<and> B_WorkerID r = D_workerID l) (D_records l))"

definition SavePublicKey :: "string option \<Rightarrow> string \<Rightarrow> string \<Rightarrow> LocalDB \<Rightarrow> LocalDB" where
  "SavePublicKey f algo pubKey l = (if f \<noteq> None then l else l\<lparr>D_keys := [(algo, pubKey)]\<rparr>)"

text \<open>Over no rows the sums are \<open>NULL\<close>, which does not scan into an integer.\<close>

definition LocalDB_Stats :: "io \<Rightarrow> LocalDB \<Rightarrow> go_error + int64 \<times> int64 \<times> int64" where
  "LocalDB_Stats io l =
     (let rows = filter (\<lambda>r. B_WorkerID r = D_workerID l) (D_records l)
      in stmt (io_flt io 0)
           (if rows = [] then Inl (DBErr ''converting NULL to int64 is unsupported'')
            else Inr (int (length rows), int (length (filter B_Approved rows)),
                      int (length (filter (\<lambda>r. \<not> B_Approved r) rows)))))"

section \<open>Primitives\<close>

text \<open>
  Keyed hash, hashes, Ed25519, AES-GCM and base64, on byte strings; \<open>c_nonce\<close> is what the random
  source delivers.
\<close>

record crypto =
  c_hmac :: "string \<Rightarrow> string \<Rightarrow> string"
  c_sha256 :: "string \<Rightarrow> string"
  c_sha512 :: "string \<Rightarrow> string"
  c_ed_sign :: "string \<Rightarrow> string \<Rightarrow> string"
  c_ed_verify :: "string \<Rightarrow> string \<Rightarrow> string \<Rightarrow> bool"
  c_nonce :: "string option"
  c_gcm_seal :: "string \<Rightarrow> string \<Rightarrow> string \<Rightarrow> string"
  c_gcm_open :: "string \<Rightarrow> string \<Rightarrow> string \<Rightarrow> string option"
  c_b64_enc :: "string \<Rightarrow> string"
  c_b64_dec :: "string \<Rightarrow> string"

section \<open>The workers (\<open>workers.go\<close>)\<close>

text \<open>A key file: created with fresh random bytes the first time, decoded and checked afterwards.\<close>

definition loadOrGenKey ::
  "io \<Rightarrow> string option \<Rightarrow> nat \<Rightarrow> string option \<Rightarrow> (go_error + string) \<times> string option" where
  "loadOrGenKey io rand_bytes keySize file =
     (case file of
        None \<Rightarrow> (case rand_bytes of
            None \<Rightarrow> (Inl (Wrapf ''generate key: %w'' [] (DBErr ''rand'')), None)
          | Some key \<Rightarrow>
              (case io_flt io 0 of
                 Some m \<Rightarrow> (Inl (Wrapf ''save key: %w'' [] (DBErr m)), None)
               | None \<Rightarrow> (Inr key, Some (hexEncode key))))
      | Some data \<Rightarrow>
          (case io_flt io 0 of
             Some m \<Rightarrow> (Inl (Wrapf ''read key: %w'' [] (DBErr m)), file)
           | None \<Rightarrow>
              (case hexDecode data of
                 None \<Rightarrow> (Inl (Wrapf ''decode key: %w'' [] (DBErr ''hex'')), file)
               | Some key \<Rightarrow>
                   if length key \<noteq> keySize
                   then (Inl (Errorf ''key size mismatch: got %d want %d''
                           [ArgInt (int (length key)), ArgInt (int keySize)]), file)
                   else (Inr key, file))))"

text \<open>
  A vote is recorded before it is returned. \<open>vote_out\<close> is the end of every branch of the four
  \<open>Verify\<close> methods and of their \<open>reject\<close> helpers.
\<close>

definition vote_out ::
  "io \<Rightarrow> Tx \<Rightarrow> string \<Rightarrow> bool \<Rightarrow> string \<Rightarrow> go_error \<Rightarrow> LocalDB \<Rightarrow> VoteResult \<times> LocalDB" where
  "vote_out io tx algo ok sig reason l =
     (let vote = \<lparr>O_WorkerID = D_workerID l, O_Algorithm = algo, O_Approved = ok, O_Signature = sig,
                  O_Reason = reason, O_Timestamp = io_now io 1\<rparr>
      in (vote, SaveTxRecord (io_flt io 1) (X_ID tx) vote (TxPayload tx) l))"

definition reject :: "io \<Rightarrow> Tx \<Rightarrow> string \<Rightarrow> go_error \<Rightarrow> LocalDB \<Rightarrow> VoteResult \<times> LocalDB" where
  "reject io tx algo reason = vote_out io tx algo False ''rejected'' reason"

record HMACWorker =
  H_key :: string
  H_db :: LocalDB

definition HMAC_Verify :: "crypto \<Rightarrow> io \<Rightarrow> Tx \<Rightarrow> HMACWorker \<Rightarrow> VoteResult \<times> HMACWorker" where
  "HMAC_Verify cr io tx w =
     (let l = H_db w; algo = ''HMAC-SHA256'';
          age = io_now io 0 - X_Timestamp tx;
          (vote, l') =
            (if HasSeen (io_flt io 0) (X_ID tx) l then reject io tx algo (Errorf ''replay attack detected'' []) l
             else if X_AmountNano tx \<le> 0 then reject io tx algo (Errorf ''invalid amount'' []) l
             else if X_AmountNano tx > 100000 * 10 ^ 9
                  then reject io tx algo (Errorf ''amount exceeds maximum limit'' []) l
             else if age > 5 * 60 * 10 ^ 9 \<or> age < - 30 * 10 ^ 9
                  then reject io tx algo (Errorf ''timestamp out of range: %v'' [ArgInt age]) l
             else vote_out io tx algo True (hexEncode (c_hmac cr (H_key w) (TxPayload tx))) no_reason l)
      in (vote, w\<lparr>H_db := l'\<rparr>))"

record Ed25519Worker =
  E_privKey :: string
  E_pubKey :: string
  E_db :: LocalDB

definition Ed25519_Verify :: "crypto \<Rightarrow> io \<Rightarrow> Tx \<Rightarrow> Ed25519Worker \<Rightarrow> VoteResult \<times> Ed25519Worker" where
  "Ed25519_Verify cr io tx w =
     (let l = E_db w; algo = ''Ed25519'';
          h = c_sha256 cr (TxPayload tx);
          sig = c_ed_sign cr (E_privKey w) h;
          (vote, l') =
            (if HasSeen (io_flt io 0) (X_ID tx) l then reject io tx algo (Errorf ''replay attack'' []) l
             else if length (X_FromWallet tx) < 10
                  then reject io tx algo (Errorf ''invalid wallet address'' []) l
             else if X_AmountNano tx \<le> 0 then reject io tx algo (Errorf ''non-positive amount'' []) l
             else if \<not> c_ed_verify cr (E_pubKey w) h sig
                  then reject io tx algo (Errorf ''self-verification failed'' []) l
             else vote_out io tx algo True (hexEncode sig) no_reason l)
      in (vote, w\<lparr>E_db := l'\<rparr>))"

record AESWorker =
  A_key :: string
  A_db :: LocalDB

abbreviation gcm_nonce_size :: nat where "gcm_nonce_size \<equiv> 12"

definition AES_Verify :: "crypto \<Rightarrow> io \<Rightarrow> Tx \<Rightarrow> AESWorker \<Rightarrow> VoteResult \<times> AESWorker" where
  "AES_Verify cr io tx w =
     (let l = A_db w; algo = ''AES-256-GCM'';
          (vote, l') =
            (if HasSeen (io_flt io 0) (X_ID tx) l then reject io tx algo (Errorf ''replay attack'' []) l
             else if X_ToService tx = [] then reject io tx algo (Errorf ''missing service target'' []) l
             else if length (A_key w) \<notin> {16, 24, 32}
                  then reject io tx algo (Errorf ''cipher init failed'' []) l
             else (case c_nonce cr of
                     None \<Rightarrow> reject io tx algo (Errorf ''nonce generation failed'' []) l
                   | Some nonce \<Rightarrow>
                       (let encrypted = nonce @ c_gcm_seal cr (A_key w) nonce (TxPayload tx);
                            decoded = c_b64_dec cr (c_b64_enc cr encrypted)
                        in if length decoded < gcm_nonce_size
                           then reject io tx algo (Errorf ''integrity check failed'' []) l
                           else if c_gcm_open cr (A_key w) (take gcm_nonce_size decoded) (drop gcm_nonce_size decoded)
                                     \<noteq> Some (TxPayload tx)
                           then reject io tx algo (Errorf ''integrity check failed'' []) l
                           else vote_out io tx algo True (hexEncode (take 16 (c_sha256 cr encrypted))) no_reason l)))
      in (vote, w\<lparr>A_db := l'\<rparr>))"

record MerkleWorker =
  M_lastHash :: string
  M_db :: LocalDB

definition maxSafeAmount :: int64 where
  "maxSafeAmount =
     (let max = 1000000 * 1000000000 in if in_int64 max then max else 1000000000000000000)"

definition Merkle_Verify :: "crypto \<Rightarrow> io \<Rightarrow> Tx \<Rightarrow> MerkleWorker \<Rightarrow> VoteResult \<times> MerkleWorker" where
  "Merkle_Verify cr io tx w =
     (let l = M_db w; algo = ''SHA512-Merkle''
      in if HasSeen (io_flt io 0) (X_ID tx) l
         then (let (v, l') = reject io tx algo (Errorf ''replay attack'' []) l in (v, w\<lparr>M_db := l'\<rparr>))
         else if X_AmountNano tx \<le> 0 \<or> X_AmountNano tx > maxSafeAmount
         then (let (v, l') = reject io tx algo (Errorf ''amount out of safe range'' []) l in (v, w\<lparr>M_db := l'\<rparr>))
         else (let hash512 = c_sha512 cr (TxPayload tx);
                   chainHash = c_sha512 cr (M_lastHash w @ hash512);
                   merkleLeaf = c_sha256 cr (X_ID tx @ chainHash);
                   (v, l') = vote_out io tx algo True (hexEncode merkleLeaf) no_reason l
               in (v, w\<lparr>M_lastHash := chainHash, M_db := l'\<rparr>)))"

text \<open>The \<open>Worker\<close> interface: a value of one of the four types, with dynamic dispatch.\<close>

datatype Worker =
    WHMAC HMACWorker
  | WEd25519 Ed25519Worker
  | WAES AESWorker
  | WMerkle MerkleWorker

fun Worker_db :: "Worker \<Rightarrow> LocalDB" where
  "Worker_db (WHMAC w) = H_db w"
| "Worker_db (WEd25519 w) = E_db w"
| "Worker_db (WAES w) = A_db w"
| "Worker_db (WMerkle w) = M_db w"

definition Worker_ID :: "Worker \<Rightarrow> string" where
  "Worker_ID w = D_workerID (Worker_db w)"

fun Worker_Algorithm :: "Worker \<Rightarrow> string" where
  "Worker_Algorithm (WHMAC w) = ''HMAC-SHA256''"
| "Worker_Algorithm (WEd25519 w) = ''Ed25519''"
| "Worker_Algorithm (WAES w) = ''AES-256-GCM''"
| "Worker_Algorithm (WMerkle w) = ''SHA512-Merkle''"

fun Worker_Verify :: "crypto \<Rightarrow> io \<Rightarrow> Tx \<Rightarrow> Worker \<Rightarrow> VoteResult \<times> Worker" where
  "Worker_Verify cr io tx (WHMAC w) = map_prod id WHMAC (HMAC_Verify cr io tx w)"
| "Worker_Verify cr io tx (WEd25519 w) = map_prod id WEd25519 (Ed25519_Verify cr io tx w)"
| "Worker_Verify cr io tx (WAES w) = map_prod id WAES (AES_Verify cr io tx w)"
| "Worker_Verify cr io tx (WMerkle w) = map_prod id WMerkle (Merkle_Verify cr io tx w)"

section \<open>Making the workers\<close>

text \<open>
  The constructors: open the records, load or create the key, record the public part. The record of
  the HMAC worker holds the first half of its secret key in hexadecimal.
\<close>

definition new_db :: "string \<Rightarrow> LocalDB" where
  "new_db i = \<lparr>D_workerID = i, D_records = [], D_keys = []\<rparr>"

record worker_files =
  F_open :: "go_error + LocalDB"
  F_rand :: "string option"
  F_key :: "string option"
  F_io :: io

definition NewHMACWorker :: "worker_files \<Rightarrow> go_error + HMACWorker" where
  "NewHMACWorker fs =
     (case F_open fs of
        Inl e \<Rightarrow> Inl e
      | Inr l \<Rightarrow>
          (case fst (loadOrGenKey (F_io fs) (F_rand fs) 32 (F_key fs)) of
             Inl e \<Rightarrow> Inl e
           | Inr key \<Rightarrow>
               Inr \<lparr>H_key = key,
                    H_db = SavePublicKey (io_flt (F_io fs) 1) ''HMAC-SHA256'' (hexEncode (take 16 key) @ ''...'') l\<rparr>))"

text \<open>An Ed25519 private key is the seed followed by the public key: \<open>Public()\<close> returns its last 32 bytes.\<close>

definition NewEd25519Worker :: "worker_files \<Rightarrow> go_error + Ed25519Worker" where
  "NewEd25519Worker fs =
     (case F_open fs of
        Inl e \<Rightarrow> Inl e
      | Inr l \<Rightarrow>
          (case fst (loadOrGenKey (F_io fs) (F_rand fs) 64 (F_key fs)) of
             Inl e \<Rightarrow> Inl e
           | Inr key \<Rightarrow>
               Inr \<lparr>E_privKey = key, E_pubKey = drop 32 key,
                    E_db = SavePublicKey (io_flt (F_io fs) 1) ''Ed25519'' (hexEncode (drop 32 key)) l\<rparr>))"

definition NewAESWorker :: "worker_files \<Rightarrow> go_error + AESWorker" where
  "NewAESWorker fs =
     (case F_open fs of
        Inl e \<Rightarrow> Inl e
      | Inr l \<Rightarrow>
          (case fst (loadOrGenKey (F_io fs) (F_rand fs) 32 (F_key fs)) of
             Inl e \<Rightarrow> Inl e
           | Inr key \<Rightarrow>
               Inr \<lparr>A_key = key, A_db = SavePublicKey (io_flt (F_io fs) 1) ''AES-256-GCM'' ''symmetric-key-hidden'' l\<rparr>))"

definition NewMerkleWorker :: "worker_files \<Rightarrow> go_error + MerkleWorker" where
  "NewMerkleWorker fs =
     (case F_open fs of
        Inl e \<Rightarrow> Inl e
      | Inr l \<Rightarrow>
          Inr \<lparr>M_lastHash = replicate 64 (char_of (0 :: nat)),
               M_db = SavePublicKey (io_flt (F_io fs) 1) ''SHA512-Merkle'' ''chain-integrity'' l\<rparr>)"

section \<open>The engine (\<open>worker.go\<close>)\<close>

record WorkerStats =
  S_TotalVerified :: int64
  S_TotalApproved :: int64
  S_TotalRejected :: int64
  S_LastVerifiedAt :: time

record Engine =
  N_Threshold :: int64
  N_Timeout :: int64
  N_workers :: "Worker list"
  N_stats :: "string \<rightharpoonup> WorkerStats"

definition NewEngine :: "int64 \<Rightarrow> int64 \<Rightarrow> Engine" where
  "NewEngine threshold timeout =
     \<lparr>N_Threshold = (if threshold = 0 then 3 else threshold),
      N_Timeout = (if timeout = 0 then 5 * 10 ^ 9 else timeout), N_workers = [], N_stats = Map.empty\<rparr>"

definition AddWorker :: "Worker \<Rightarrow> Engine \<Rightarrow> Engine" where
  "AddWorker w e =
     e\<lparr>N_workers := N_workers e @ [w],
       N_stats := (N_stats e)(Worker_ID w \<mapsto> \<lparr>S_TotalVerified = 0, S_TotalApproved = 0, S_TotalRejected = 0,
                                            S_LastVerifiedAt = zero_time\<rparr>)\<rparr>"

text \<open>\<open>SetupWorkers\<close> adds the four workers in this order; the first that cannot be made ends it.\<close>

definition SetupWorkers ::
  "string option \<Rightarrow> (string \<Rightarrow> worker_files) \<Rightarrow> Engine \<Rightarrow> (go_error + unit) \<times> Engine" where
  "SetupWorkers mkdir files e =
     (case mkdir of
        Some m \<Rightarrow> (Inl (Wrapf ''create db dir: %w'' [] (DBErr m)), e)
      | None \<Rightarrow>
       (case NewHMACWorker (files ''worker-hmac'') of
          Inl err \<Rightarrow> (Inl (Wrapf ''init worker %s: %w'' [ArgStr ''HMAC-SHA256''] err), e)
        | Inr w1 \<Rightarrow> let e1 = AddWorker (WHMAC w1) e in
       (case NewEd25519Worker (files ''worker-ed25519'') of
          Inl err \<Rightarrow> (Inl (Wrapf ''init worker %s: %w'' [ArgStr ''Ed25519''] err), e1)
        | Inr w2 \<Rightarrow> let e2 = AddWorker (WEd25519 w2) e1 in
       (case NewAESWorker (files ''worker-aes256'') of
          Inl err \<Rightarrow> (Inl (Wrapf ''init worker %s: %w'' [ArgStr ''AES-256-GCM''] err), e2)
        | Inr w3 \<Rightarrow> let e3 = AddWorker (WAES w3) e2 in
       (case NewMerkleWorker (files ''worker-merkle'') of
          Inl err \<Rightarrow> (Inl (Wrapf ''init worker %s: %w'' [ArgStr ''SHA512-Merkle''] err), e3)
        | Inr w4 \<Rightarrow> (Inr (), AddWorker (WMerkle w4) e3))))))"

definition note_vote :: "time \<Rightarrow> VoteResult \<Rightarrow> (string \<rightharpoonup> WorkerStats) \<Rightarrow> (string \<rightharpoonup> WorkerStats)" where
  "note_vote now v st =
     (case st (O_WorkerID v) of
        None \<Rightarrow> st
      | Some s \<Rightarrow> st(O_WorkerID v \<mapsto>
          s\<lparr>S_TotalVerified := add64 (S_TotalVerified s) 1,
            S_TotalApproved := (if O_Approved v then add64 (S_TotalApproved s) 1 else S_TotalApproved s),
            S_TotalRejected := (if O_Approved v then S_TotalRejected s else add64 (S_TotalRejected s) 1),
            S_LastVerifiedAt := now\<rparr>))"

text \<open>
  All workers vote concurrently; \<open>arrived\<close> lists the positions of the workers whose vote is received
  before the timeout, in the order of arrival. A vote that is not received counts as a no; the worker
  has voted, and recorded it, all the same.
\<close>

definition Engine_Verify ::
  "crypto \<Rightarrow> io \<Rightarrow> (nat \<Rightarrow> io) \<Rightarrow> nat list \<Rightarrow> Tx \<Rightarrow> Engine \<Rightarrow> ConsensusResult \<times> Engine" where
  "Engine_Verify cr io wio arrived tx0 e =
     (let tx1 = (if X_ID tx0 = [] then tx0\<lparr>X_ID := ''TX-'' @ io_uuid io 0\<rparr> else tx0);
          tx = (if X_Timestamp tx1 = zero_time then tx1\<lparr>X_Timestamp := io_now io 0\<rparr> else tx1)
      in if N_workers e = []
         then (\<lparr>K_TxID = X_ID tx, K_Approved = False, K_Votes = [], K_YesCount = 0, K_NoCount = 0,
                K_Threshold = 0\<rparr>, e)
         else (let outs = map (\<lambda>(i, w). Worker_Verify cr (wio i) tx w) (enumerate 0 (N_workers e));
                   votes = map (\<lambda>i. fst (outs ! i)) arrived;
                   yes = int (length (filter O_Approved votes));
                   no = int (length (filter (\<lambda>v. \<not> O_Approved v) votes)) +
                        int (length (N_workers e) - length arrived)
               in (\<lparr>K_TxID = X_ID tx, K_Approved = (yes \<ge> N_Threshold e), K_Votes = votes, K_YesCount = yes,
                    K_NoCount = no, K_Threshold = N_Threshold e\<rparr>,
                   e\<lparr>N_workers := map snd outs, N_stats := fold (note_vote (io_now io 1)) votes (N_stats e)\<rparr>)))"

definition WorkerCount :: "Engine \<Rightarrow> int64" where
  "WorkerCount e = int (length (N_workers e))"

section \<open>The guard (\<open>guard.go\<close>)\<close>

text \<open>The reasons of the votes against, each with its worker; none stands for \<open>unknown\<close>.\<close>

definition collectReasons :: "ConsensusResult \<Rightarrow> (string \<times> go_error) list" where
  "collectReasons r =
     map (\<lambda>v. (O_WorkerID v, O_Reason v)) (filter (\<lambda>v. \<not> O_Approved v \<and> O_Reason v \<noteq> no_reason) (K_Votes r))"

fun joinStrs_from :: "string \<Rightarrow> nat \<Rightarrow> string \<Rightarrow> string list \<Rightarrow> string" where
  "joinStrs_from result i sep [] = result"
| "joinStrs_from result i sep (s # ss) =
     joinStrs_from ((if 0 < i then result @ sep else result) @ s) (i + 1) sep ss"

definition joinStrs :: "string list \<Rightarrow> string \<Rightarrow> string" where
  "joinStrs ss sep = joinStrs_from [] 0 sep ss"

definition safePrefix :: "string \<Rightarrow> nat \<Rightarrow> string" where
  "safePrefix s n = (if length s \<le> n then s else take n s)"

datatype guard_error =
    RejectedDeduct int64 int64 "(string \<times> go_error) list"
  | RejectedDeposit "(string \<times> go_error) list"
  | RejectedWithdraw int64 int64
  | NotUnanimous int64

record verify_env =
  V_crypto :: crypto
  V_io :: io
  V_wio :: "nat \<Rightarrow> io"
  V_arrived :: "nat list"

definition CheckDeduct ::
  "verify_env \<Rightarrow> string \<Rightarrow> int64 \<Rightarrow> int64 \<Rightarrow> string \<Rightarrow> string \<Rightarrow> Engine \<Rightarrow> guard_error option \<times> Engine" where
  "CheckDeduct env fromWallet telegramID amountNano serviceID ref e =
     (let tx = \<lparr>X_ID = [], X_FromWallet = ''tg-'' @ fmt_d telegramID, X_ToService = serviceID,
                X_AmountNano = amountNano, X_Description = ref, X_Timestamp = io_now (V_io env) 2,
                X_Metadata = [(''wallet'', fromWallet), (''service_id'', serviceID), (''ref'', ref)]\<rparr>;
          (result, e') = Engine_Verify (V_crypto env) (V_io env) (V_wio env) (V_arrived env) tx e
      in if \<not> K_Approved result
         then (Some (RejectedDeduct (K_YesCount result) (K_Threshold result) (collectReasons result)), e')
         else (None, e'))"

definition CheckDeposit ::
  "verify_env \<Rightarrow> string \<Rightarrow> int64 \<Rightarrow> int64 \<Rightarrow> string \<Rightarrow> Engine \<Rightarrow> guard_error option \<times> Engine" where
  "CheckDeposit env toWallet telegramID amountNano txHash e =
     (if txHash = [] then (None, e)
      else let tx = \<lparr>X_ID = ''deposit-'' @ txHash, X_FromWallet = txHash,
                     X_ToService = ''wallet-tg-'' @ fmt_d telegramID, X_AmountNano = amountNano,
                     X_Description = ''blockchain_deposit'', X_Timestamp = io_now (V_io env) 2,
                     X_Metadata = [(''tx_hash'', txHash), (''to_wallet'', toWallet)]\<rparr>;
               (result, e') = Engine_Verify (V_crypto env) (V_io env) (V_wio env) (V_arrived env) tx e
           in if \<not> K_Approved result then (Some (RejectedDeposit (collectReasons result)), e') else (None, e'))"

definition CheckWithdraw ::
  "verify_env \<Rightarrow> string \<Rightarrow> int64 \<Rightarrow> int64 \<Rightarrow> string \<Rightarrow> Engine \<Rightarrow> guard_error option \<times> Engine" where
  "CheckWithdraw env fromWallet telegramID amountNano toAddress e =
     (let tx = \<lparr>X_ID = [], X_FromWallet = ''tg-'' @ fmt_d telegramID @ ''-withdraw'', X_ToService = toAddress,
                X_AmountNano = amountNano, X_Description = ''withdrawal'', X_Timestamp = io_now (V_io env) 2,
                X_Metadata = [(''to_address'', toAddress), (''type'', ''withdrawal'')]\<rparr>;
          (result, e') = Engine_Verify (V_crypto env) (V_io env) (V_wio env) (V_arrived env) tx e
      in if \<not> K_Approved result then (Some (RejectedWithdraw (K_YesCount result) (K_Threshold result)), e')
         else if 0 < K_NoCount result then (Some (NotUnanimous (K_NoCount result)), e')
         else (None, e'))"

end
