(* ===== verification/ConsensusProps.thy ===== *)
theory ConsensusProps
  imports Consensus "HOL-Library.Multiset"
begin

text \<open>
  What the consensus layer guarantees. The contract of a worker, that it logs every vote and approves
  nothing it has logged, is a locale, interpreted for each of the four workers and for the dispatch
  through the interface; replay protection is proved from it. The rest is about counting votes.
\<close>

section \<open>The contract of a worker\<close>

definition db_ok :: "LocalDB \<Rightarrow> bool" where
  "db_ok l \<longleftrightarrow> (\<forall>r \<in> set (D_records l). B_WorkerID r = D_workerID l \<and> B_ID r = D_workerID l @ ''-'' @ B_TxID r)"

lemma HasSeen_iff: "HasSeen f i l \<longleftrightarrow> i \<noteq> [] \<and> f = None \<and>
    (\<exists>r \<in> set (D_records l). B_TxID r = i \<and> B_WorkerID r = D_workerID l)"
  by (auto simp: HasSeen_def filter_empty_conv)

lemma SaveTxRecord_worker [simp]: "D_workerID (SaveTxRecord f i v p l) = D_workerID l"
  by (simp add: SaveTxRecord_def Let_def)

lemma SaveTxRecord_ok: "db_ok l \<Longrightarrow> O_WorkerID v = D_workerID l \<Longrightarrow> db_ok (SaveTxRecord f i v p l)"
  by (auto simp: db_ok_def SaveTxRecord_def Let_def)

lemma SaveTxRecord_seen:
  assumes "db_ok l" "O_WorkerID v = D_workerID l" "i \<noteq> []"
  shows "HasSeen None i (SaveTxRecord None i v p l)"
proof (cases "O_WorkerID v @ ''-'' @ i \<in> B_ID ` set (D_records l)")
  case True
  then obtain r where "r \<in> set (D_records l)" "O_WorkerID v @ ''-'' @ i = B_ID r" by auto
  then have "r \<in> set (D_records l)" "B_TxID r = i" "B_WorkerID r = D_workerID l"
    using assms(1,2) by (auto simp: db_ok_def)
  with True assms show ?thesis by (auto simp: HasSeen_iff SaveTxRecord_def Let_def)
next
  case False
  with assms show ?thesis by (simp add: HasSeen_iff SaveTxRecord_def Let_def)
qed

lemma SaveTxRecord_mono: "HasSeen None j l \<Longrightarrow> HasSeen None j (SaveTxRecord f i v p l)"
  by (auto simp: HasSeen_iff SaveTxRecord_def Let_def)

text \<open>A sequence of votes of one worker.\<close>

fun run_votes :: "(io \<Rightarrow> Tx \<Rightarrow> 'w \<Rightarrow> VoteResult \<times> 'w) \<Rightarrow> (io \<times> Tx) list \<Rightarrow> 'w \<Rightarrow> (Tx \<times> VoteResult) list \<times> 'w" where
  "run_votes verify [] w = ([], w)"
| "run_votes verify ((io, tx) # rs) w =
     (let (v, w1) = verify io tx w; (vs, w2) = run_votes verify rs w1 in ((tx, v) # vs, w2))"

definition yes_for :: "string \<Rightarrow> (Tx \<times> VoteResult) list \<Rightarrow> nat" where
  "yes_for i vs = length (filter (\<lambda>(tx, v). X_ID tx = i \<and> O_Approved v) vs)"

locale voting_worker =
  fixes verify :: "io \<Rightarrow> Tx \<Rightarrow> 'w \<Rightarrow> VoteResult \<times> 'w" and log_of :: "'w \<Rightarrow> LocalDB"
  assumes vote_logged: "log_of (snd (verify io tx w)) =
      SaveTxRecord (io_flt io 1) (X_ID tx) (fst (verify io tx w)) (TxPayload tx) (log_of w)"
    and vote_signed: "O_WorkerID (fst (verify io tx w)) = D_workerID (log_of w)"
    and no_second_yes: "HasSeen (io_flt io 0) (X_ID tx) (log_of w) \<Longrightarrow> \<not> O_Approved (fst (verify io tx w))"
begin

lemma log_stays_ok: "db_ok (log_of w) \<Longrightarrow> db_ok (log_of (snd (verify io tx w)))"
  by (simp add: vote_logged vote_signed SaveTxRecord_ok)

lemma seen_after_vote:
  "db_ok (log_of w) \<Longrightarrow> io_flt io 1 = None \<Longrightarrow> X_ID tx \<noteq> [] \<Longrightarrow> HasSeen None (X_ID tx) (log_of (snd (verify io tx w)))"
  by (simp add: vote_logged vote_signed SaveTxRecord_seen)

lemma seen_stays: "HasSeen None i (log_of w) \<Longrightarrow> HasSeen None i (log_of (snd (verify io tx w)))"
  by (simp add: vote_logged SaveTxRecord_mono)

lemma seen_no_yes:
  assumes "HasSeen None i (log_of w)" "\<forall>(io, tx) \<in> set rs. io_ok io"
  shows "yes_for i (fst (run_votes verify rs w)) = 0"
  using assms
proof (induction rs arbitrary: w)
  case (Cons r rs)
  obtain io tx where r: "r = (io, tx)" by (cases r)
  have "\<not> (X_ID tx = i \<and> O_Approved (fst (verify io tx w)))"
    using no_second_yes [of io tx w] Cons.prems r by auto
  moreover have "yes_for i (fst (run_votes verify rs (snd (verify io tx w)))) = 0"
    using Cons.prems r by (intro Cons.IH seen_stays) auto
  ultimately show ?case by (simp add: r yes_for_def case_prod_beta Let_def)
qed (simp add: yes_for_def)

lemma at_most_one_yes:
  assumes "db_ok (log_of w)" "i \<noteq> []" "\<forall>(io, tx) \<in> set rs. io_ok io"
  shows "yes_for i (fst (run_votes verify rs w)) \<le> 1"
  using assms
proof (induction rs arbitrary: w)
  case (Cons r rs)
  obtain io tx where r: "r = (io, tx)" by (cases r)
  let ?w = "snd (verify io tx w)"
  have step: "yes_for i (fst (run_votes verify (r # rs) w)) =
      (if X_ID tx = i \<and> O_Approved (fst (verify io tx w)) then 1 else 0) + yes_for i (fst (run_votes verify rs ?w))"
    by (simp add: r yes_for_def case_prod_beta Let_def)
  show ?case
  proof (cases "X_ID tx = i")
    case True
    then have "HasSeen None i (log_of ?w)"
      using seen_after_vote [of w io tx] Cons.prems r by auto
    with Cons.prems r show ?thesis unfolding step using seen_no_yes [of i ?w rs] by simp
  next
    case False
    with Cons.prems r show ?thesis unfolding step using Cons.IH [of ?w] log_stays_ok [of w io tx] by simp
  qed
qed (simp add: yes_for_def)

end

subsection \<open>The four workers keep it\<close>

lemma vote_out_sel:
  "snd (vote_out io tx algo ok sig reason l) =
     SaveTxRecord (io_flt io 1) (X_ID tx) (fst (vote_out io tx algo ok sig reason l)) (TxPayload tx) l"
  "O_WorkerID (fst (vote_out io tx algo ok sig reason l)) = D_workerID l"
  "O_Approved (fst (vote_out io tx algo ok sig reason l)) = ok"
  by (simp_all add: vote_out_def Let_def)

lemmas worker_simps = reject_def vote_out_sel Let_def case_prod_beta

interpretation hmac: voting_worker "HMAC_Verify cr" H_db
  by unfold_locales (simp_all add: HMAC_Verify_def worker_simps)

interpretation ed25519: voting_worker "Ed25519_Verify cr" E_db
  by unfold_locales (simp_all add: Ed25519_Verify_def worker_simps)

interpretation aes: voting_worker "AES_Verify cr" A_db
  by unfold_locales (simp_all add: AES_Verify_def worker_simps split: option.splits)

interpretation merkle: voting_worker "Merkle_Verify cr" M_db
  by unfold_locales (simp_all add: Merkle_Verify_def worker_simps)

interpretation iface: voting_worker "Worker_Verify cr" Worker_db
proof
  fix io tx w
  show "Worker_db (snd (Worker_Verify cr io tx w)) =
      SaveTxRecord (io_flt io 1) (X_ID tx) (fst (Worker_Verify cr io tx w)) (TxPayload tx) (Worker_db w)"
    by (cases w) (simp_all add: hmac.vote_logged ed25519.vote_logged aes.vote_logged merkle.vote_logged)
  show "O_WorkerID (fst (Worker_Verify cr io tx w)) = D_workerID (Worker_db w)"
    by (cases w) (simp_all add: hmac.vote_signed ed25519.vote_signed aes.vote_signed merkle.vote_signed)
  show "HasSeen (io_flt io 0) (X_ID tx) (Worker_db w) \<Longrightarrow> \<not> O_Approved (fst (Worker_Verify cr io tx w))"
    by (cases w) (simp_all add: hmac.no_second_yes ed25519.no_second_yes aes.no_second_yes merkle.no_second_yes)
qed

section \<open>Counting\<close>

text \<open>The transaction the workers see: id and timestamp are filled in.\<close>

definition filled :: "io \<Rightarrow> Tx \<Rightarrow> Tx" where
  "filled io tx0 =
     (let tx1 = (if X_ID tx0 = [] then tx0\<lparr>X_ID := ''TX-'' @ io_uuid io 0\<rparr> else tx0)
      in if X_Timestamp tx1 = zero_time then tx1\<lparr>X_Timestamp := io_now io 0\<rparr> else tx1)"

lemma filled_sel [simp]:
  "X_AmountNano (filled io tx) = X_AmountNano tx" "X_FromWallet (filled io tx) = X_FromWallet tx"
  "X_ToService (filled io tx) = X_ToService tx" "X_ID tx \<noteq> [] \<Longrightarrow> X_ID (filled io tx) = X_ID tx"
  by (simp_all add: filled_def Let_def)

definition ballot :: "crypto \<Rightarrow> io \<Rightarrow> (nat \<Rightarrow> io) \<Rightarrow> Tx \<Rightarrow> Engine \<Rightarrow> nat \<Rightarrow> VoteResult" where
  "ballot cr io wio tx e i = fst (Worker_Verify cr (wio i) (filled io tx) (N_workers e ! i))"

definition arrives :: "Engine \<Rightarrow> nat list \<Rightarrow> bool" where
  "arrives e arrived \<longleftrightarrow> distinct arrived \<and> set arrived \<subseteq> {0..<length (N_workers e)}"

lemma Engine_Verify_state:
  "N_workers (snd (Engine_Verify cr io wio arrived tx e)) =
     map (\<lambda>i. snd (Worker_Verify cr (wio i) (filled io tx) (N_workers e ! i))) [0..<length (N_workers e)]"
  "N_Threshold (snd (Engine_Verify cr io wio arrived tx e)) = N_Threshold e"
proof -
  note V = Engine_Verify_def [of cr io wio arrived tx e, unfolded Let_def, folded filled_def [of io tx, unfolded Let_def]]
  show "N_workers (snd (Engine_Verify cr io wio arrived tx e)) =
     map (\<lambda>i. snd (Worker_Verify cr (wio i) (filled io tx) (N_workers e ! i))) [0..<length (N_workers e)]"
  proof (cases "N_workers e = []")
    case False
    then show ?thesis by (intro nth_equalityI) (simp_all add: V nth_enumerate_eq)
  qed (simp add: V)
  show "N_Threshold (snd (Engine_Verify cr io wio arrived tx e)) = N_Threshold e" by (simp add: V)
qed

lemma Engine_Verify_eq:
  assumes "N_workers e \<noteq> []" "arrives e arrived"
  shows "K_Votes (fst (Engine_Verify cr io wio arrived tx e)) = map (ballot cr io wio tx e) arrived"
    and "K_YesCount (fst (Engine_Verify cr io wio arrived tx e)) =
           int (card {i \<in> set arrived. O_Approved (ballot cr io wio tx e i)})"
    and "K_NoCount (fst (Engine_Verify cr io wio arrived tx e)) =
           int (length (N_workers e)) - K_YesCount (fst (Engine_Verify cr io wio arrived tx e))"
    and "K_Approved (fst (Engine_Verify cr io wio arrived tx e)) \<longleftrightarrow>
           N_Threshold e \<le> K_YesCount (fst (Engine_Verify cr io wio arrived tx e))"
proof -
  let ?outs = "map (\<lambda>(i, w). Worker_Verify cr (wio i) (filled io tx) w) (enumerate 0 (N_workers e))"
  let ?votes = "map (\<lambda>i. fst (?outs ! i)) arrived"
  note V = Engine_Verify_def [of cr io wio arrived tx e, unfolded Let_def, folded filled_def [of io tx, unfolded Let_def]]
  have nth: "fst (?outs ! i) = ballot cr io wio tx e i" if "i < length (N_workers e)" for i
    using that by (simp add: ballot_def nth_enumerate_eq)
  then have votes: "?votes = map (ballot cr io wio tx e) arrived"
    using assms(2) by (auto simp: arrives_def)
  show v: "K_Votes (fst (Engine_Verify cr io wio arrived tx e)) = map (ballot cr io wio tx e) arrived"
    using assms(1) votes by (simp add: V)
  have len: "length arrived \<le> length (N_workers e)"
    using assms(2) card_mono [of "{0..<length (N_workers e)}" "set arrived"]
    by (simp add: arrives_def distinct_card)
  have cnt: "length (filter P arrived) = card {i \<in> set arrived. P i}" for P
    using assms(2) distinct_card [of "filter P arrived"] by (simp add: arrives_def)
  have yc: "K_YesCount (fst (Engine_Verify cr io wio arrived tx e)) =
      int (length (filter O_Approved (K_Votes (fst (Engine_Verify cr io wio arrived tx e)))))"
    using assms(1) by (simp add: V)
  show y: "K_YesCount (fst (Engine_Verify cr io wio arrived tx e)) =
           int (card {i \<in> set arrived. O_Approved (ballot cr io wio tx e i)})"
    unfolding yc v by (simp add: filter_map comp_def cnt)
  have "length (filter (\<lambda>v. \<not> O_Approved v) ?votes) + length (filter O_Approved ?votes) = length arrived"
    using sum_length_filter_compl [of O_Approved ?votes] by simp
  with len show "K_NoCount (fst (Engine_Verify cr io wio arrived tx e)) =
           int (length (N_workers e)) - K_YesCount (fst (Engine_Verify cr io wio arrived tx e))"
    using assms(1) by (simp add: V)
  show "K_Approved (fst (Engine_Verify cr io wio arrived tx e)) \<longleftrightarrow>
           N_Threshold e \<le> K_YesCount (fst (Engine_Verify cr io wio arrived tx e))"
    using assms(1) by (simp add: V)
qed


section \<open>Replay\<close>

definition engine_ok :: "Engine \<Rightarrow> bool" where
  "engine_ok e \<longleftrightarrow> (\<forall>w \<in> set (N_workers e). db_ok (Worker_db w))"

definition all_seen :: "string \<Rightarrow> Engine \<Rightarrow> bool" where
  "all_seen i e \<longleftrightarrow> (\<forall>w \<in> set (N_workers e). HasSeen None i (Worker_db w))"

lemma Engine_Verify_len [simp]: "length (N_workers (snd (Engine_Verify cr io wio arrived tx e))) = length (N_workers e)"
  by (simp add: Engine_Verify_state)

lemma all_seen_after:
  assumes "engine_ok e" "X_ID tx \<noteq> []" "\<And>i. io_ok (wio i)"
  shows "all_seen (X_ID tx) (snd (Engine_Verify cr io wio arrived tx e))"
proof -
  have "HasSeen None (X_ID tx) (Worker_db (snd (Worker_Verify cr (wio i) (filled io tx) (N_workers e ! i))))"
    if "i < length (N_workers e)" for i
    using iface.seen_after_vote [of "N_workers e ! i" "wio i" "filled io tx" cr] assms that
    by (simp add: engine_ok_def)
  then show ?thesis by (auto simp: all_seen_def Engine_Verify_state)
qed

lemma all_seen_stays: "all_seen i e \<Longrightarrow> all_seen i (snd (Engine_Verify cr io wio arrived tx e))"
  by (auto simp: all_seen_def Engine_Verify_state intro: iface.seen_stays)

type_synonym vote_request = "io \<times> (nat \<Rightarrow> io) \<times> nat list \<times> Tx"

fun engine_run :: "crypto \<Rightarrow> vote_request list \<Rightarrow> Engine \<Rightarrow> Engine" where
  "engine_run cr [] e = e"
| "engine_run cr ((io, wio, arrived, tx) # rs) e = engine_run cr rs (snd (Engine_Verify cr io wio arrived tx e))"

lemma engine_run_keeps:
  "length (N_workers (engine_run cr rs e)) = length (N_workers e)"
  "N_Threshold (engine_run cr rs e) = N_Threshold e"
  "all_seen i e \<Longrightarrow> all_seen i (engine_run cr rs e)"
  by (induction cr rs e rule: engine_run.induct) (simp_all add: Engine_Verify_state(2) all_seen_stays)

lemma seen_refused:
  assumes "all_seen (X_ID tx) e" "X_ID tx \<noteq> []" "N_workers e \<noteq> []" "0 < N_Threshold e"
    "arrives e arrived" "\<And>i. io_ok (wio i)"
  shows "K_YesCount (fst (Engine_Verify cr io wio arrived tx e)) = 0 \<and>
    \<not> K_Approved (fst (Engine_Verify cr io wio arrived tx e))"
proof -
  have "\<not> O_Approved (ballot cr io wio tx e i)" if "i \<in> set arrived" for i
  proof -
    have "i < length (N_workers e)" using assms(5) that by (auto simp: arrives_def)
    then have "HasSeen None (X_ID tx) (Worker_db (N_workers e ! i))" using assms(1) by (simp add: all_seen_def)
    then show ?thesis unfolding ballot_def using assms(2,6) by (intro iface.no_second_yes) simp
  qed
  then have "{i \<in> set arrived. O_Approved (ballot cr io wio tx e i)} = {}" by auto
  with Engine_Verify_eq(2,4) [OF assms(3,5), of cr io wio tx] assms(4) show ?thesis by simp
qed


section \<open>Quorums\<close>

text \<open>The engine as \<open>main\<close> sets it up: the four workers in order, threshold three.\<close>

definition four_workers :: "Engine \<Rightarrow> bool" where
  "four_workers e \<longleftrightarrow> N_Threshold e = 3 \<and>
     (\<exists>h d a m. N_workers e = [WHMAC h, WEd25519 d, WAES a, WMerkle m])"

lemma four_workers_setup:
  assumes "SetupWorkers mkdir files (NewEngine 3 t) = (Inr (), e)"
  shows "four_workers e"
  using assms
  by (auto simp: SetupWorkers_def NewEngine_def AddWorker_def four_workers_def Let_def
      split: option.splits sum.splits)

lemma quorum_pair:
  assumes "four_workers e" "arrives e arrived" "K_Approved (fst (Engine_Verify cr io wio arrived tx e))"
    and "i < 4" "j < 4" "i \<noteq> j"
  shows "O_Approved (ballot cr io wio tx e i) \<or> O_Approved (ballot cr io wio tx e j)"
proof (rule ccontr)
  assume no: "\<not> ?thesis"
  have len: "length (N_workers e) = 4" "N_Threshold e = 3" using assms(1) by (auto simp: four_workers_def)
  then have ne: "N_workers e \<noteq> []" by auto
  let ?Y = "{k \<in> set arrived. O_Approved (ballot cr io wio tx e k)}"
  have "?Y \<subseteq> {0..<4} - {i, j}" using assms(2) no len by (auto simp: arrives_def)
  then have "card ?Y \<le> card ({0..<4::nat} - {i, j})" by (intro card_mono) auto
  also have "\<dots> = 2" using assms(4-6) by (simp add: card_Diff_subset)
  finally show False
    using assms(3) Engine_Verify_eq(2,4) [OF ne assms(2), of cr io wio tx] len by simp
qed

lemma hmac_yes: "O_Approved (fst (HMAC_Verify cr io tx w)) \<Longrightarrow>
    0 < X_AmountNano tx \<and> X_AmountNano tx \<le> 100000000000000 \<and>
    io_now io 0 - X_Timestamp tx \<in> {- 30000000000 .. 300000000000}"
  by (auto simp: HMAC_Verify_def worker_simps split: if_splits)

lemma ed25519_yes: "O_Approved (fst (Ed25519_Verify cr io tx w)) \<Longrightarrow>
    0 < X_AmountNano tx \<and> 10 \<le> length (X_FromWallet tx) \<and>
    c_ed_verify cr (E_pubKey w) (c_sha256 cr (TxPayload tx)) (c_ed_sign cr (E_privKey w) (c_sha256 cr (TxPayload tx)))"
  by (auto simp: Ed25519_Verify_def worker_simps split: if_splits)

lemma aes_yes: "O_Approved (fst (AES_Verify cr io tx w)) \<Longrightarrow> X_ToService tx \<noteq> []"
  by (auto simp: AES_Verify_def worker_simps split: if_splits)

lemma merkle_yes: "O_Approved (fst (Merkle_Verify cr io tx w)) \<Longrightarrow>
    0 < X_AmountNano tx \<and> X_AmountNano tx \<le> 1000000000000000"
  by (auto simp: Merkle_Verify_def worker_simps maxSafeAmount_def in_int64_def split: if_splits)

text \<open>
  What an approval means. When three of the four workers approve, at least one of any two did:
  the amount is positive and at most a million TON, and the transaction names a target service or
  comes from a wallet text of at least ten characters; above a hundred thousand TON, the limit of
  the HMAC worker, it does both.
\<close>

theorem quorum_bounds:
  assumes "four_workers e" "arrives e arrived" "K_Approved (fst (Engine_Verify cr io wio arrived tx e))"
  shows "0 < X_AmountNano tx \<and> X_AmountNano tx \<le> 1000000000000000 \<and>
    (X_ToService tx \<noteq> [] \<or> 10 \<le> length (X_FromWallet tx)) \<and>
    (X_AmountNano tx \<le> 100000000000000 \<or> (X_ToService tx \<noteq> [] \<and> 10 \<le> length (X_FromWallet tx)))"
proof -
  from assms(1) obtain h d a m where w: "N_workers e = [WHMAC h, WEd25519 d, WAES a, WMerkle m]"
    by (auto simp: four_workers_def)
  have b: "ballot cr io wio tx e 0 = fst (HMAC_Verify cr (wio 0) (filled io tx) h)"
    "ballot cr io wio tx e 1 = fst (Ed25519_Verify cr (wio 1) (filled io tx) d)"
    "ballot cr io wio tx e 2 = fst (AES_Verify cr (wio 2) (filled io tx) a)"
    "ballot cr io wio tx e 3 = fst (Merkle_Verify cr (wio 3) (filled io tx) m)"
    by (simp_all add: ballot_def w)
  have pair: "O_Approved (ballot cr io wio tx e 0) \<or> O_Approved (ballot cr io wio tx e 3)"
    "O_Approved (ballot cr io wio tx e 2) \<or> O_Approved (ballot cr io wio tx e 1)"
    "O_Approved (ballot cr io wio tx e 0) \<or> O_Approved (ballot cr io wio tx e 1)"
    "O_Approved (ballot cr io wio tx e 0) \<or> O_Approved (ballot cr io wio tx e 2)"
    by (rule quorum_pair [OF assms]; simp)+
  note yes = hmac_yes [of cr "wio 0" "filled io tx" h, unfolded filled_sel]
    ed25519_yes [of cr "wio 1" "filled io tx" d, unfolded filled_sel]
    aes_yes [of cr "wio 2" "filled io tx" a, unfolded filled_sel]
    merkle_yes [of cr "wio 3" "filled io tx" m, unfolded filled_sel]
  have "X_AmountNano tx \<le> 100000000000000 \<Longrightarrow> X_AmountNano tx \<le> 1000000000000000" by simp
  with pair [unfolded b] yes show ?thesis by blast
qed

text \<open>An example engine with small keys and primitives.\<close>

definition toy_crypto :: crypto where
  "toy_crypto = \<lparr>c_hmac = (\<lambda>k s. []), c_sha256 = (\<lambda>s. []), c_sha512 = (\<lambda>s. []),
     c_ed_sign = (\<lambda>k h. k @ h), c_ed_verify = (\<lambda>pub h sig. sig = pub @ h),
     c_nonce = Some (replicate 12 (CHR ''n'')), c_gcm_seal = (\<lambda>k n p. p), c_gcm_open = (\<lambda>k n c. Some c),
     c_b64_enc = id, c_b64_dec = id\<rparr>"

definition quiet_io :: io where
  "quiet_io = \<lparr>io_flt = (\<lambda>_. None), io_now = (\<lambda>_. 1000), io_uuid = (\<lambda>_. ''00'')\<rparr>"

definition toy_ed :: "string \<Rightarrow> Ed25519Worker" where
  "toy_ed pub = \<lparr>E_privKey = ''a'', E_pubKey = pub, E_db = new_db ''worker-ed25519''\<rparr>"

definition toy_engine :: "string \<Rightarrow> Engine" where
  "toy_engine pub =
     AddWorker (WMerkle \<lparr>M_lastHash = [], M_db = new_db ''worker-merkle''\<rparr>)
      (AddWorker (WAES \<lparr>A_key = replicate 32 (CHR ''k''), A_db = new_db ''worker-aes256''\<rparr>)
       (AddWorker (WEd25519 (toy_ed pub))
        (AddWorker (WHMAC \<lparr>H_key = ''k'', H_db = new_db ''worker-hmac''\<rparr>) (NewEngine 3 0))))"

definition toy_tx :: Tx where
  "toy_tx = \<lparr>X_ID = ''deposit-h1'', X_FromWallet = ''0123456789'', X_ToService = ''svc'', X_AmountNano = 5,
     X_Description = [], X_Timestamp = 900, X_Metadata = []\<rparr>"

lemma toy_engine_four: "four_workers (toy_engine pub)"
  by (simp add: four_workers_def toy_engine_def AddWorker_def NewEngine_def)

lemma toy_engine_facts:
  "engine_ok (toy_engine ''a'')" "N_workers (toy_engine ''a'') \<noteq> []" "N_Threshold (toy_engine ''a'') = 3"
  "arrives (toy_engine ''a'') [2, 0, 3, 1]"
  "K_Approved (fst (Engine_Verify toy_crypto quiet_io (\<lambda>_. quiet_io) [2, 0, 3, 1] toy_tx (toy_engine ''a'')))"
  by code_simp+

theorem quorum_bounds_witness: "0 < X_AmountNano toy_tx \<and> X_AmountNano toy_tx \<le> 1000000000000000"
  using quorum_bounds [OF toy_engine_four toy_engine_facts(4,5)] by simp


text \<open>
  The outcome does not depend on the order in which the votes come in: the same votes in another
  order give the same counts, the same decision and the same state of the workers.
\<close>

theorem arrival_order_irrelevant:
  assumes "arrives e arrived" "mset arrived' = mset arrived"
  shows "K_Approved (fst (Engine_Verify cr io wio arrived' tx e)) = K_Approved (fst (Engine_Verify cr io wio arrived tx e)) \<and>
    K_YesCount (fst (Engine_Verify cr io wio arrived' tx e)) = K_YesCount (fst (Engine_Verify cr io wio arrived tx e)) \<and>
    K_NoCount (fst (Engine_Verify cr io wio arrived' tx e)) = K_NoCount (fst (Engine_Verify cr io wio arrived tx e)) \<and>
    mset (K_Votes (fst (Engine_Verify cr io wio arrived' tx e))) = mset (K_Votes (fst (Engine_Verify cr io wio arrived tx e))) \<and>
    N_workers (snd (Engine_Verify cr io wio arrived' tx e)) = N_workers (snd (Engine_Verify cr io wio arrived tx e))"
proof (cases "N_workers e = []")
  case False
  have s: "set arrived' = set arrived" using assms(2) by (metis set_mset_mset)
  have a: "arrives e arrived'" using assms s by (auto simp: arrives_def dest: mset_eq_imp_distinct_iff)
  show ?thesis
    using Engine_Verify_eq [OF False assms(1), of cr io wio tx] Engine_Verify_eq [OF False a, of cr io wio tx] s
    by (simp add: Engine_Verify_state assms(2))
qed (simp add: Engine_Verify_def Let_def)

theorem arrival_order_irrelevant_witness:
  "K_Approved (fst (Engine_Verify toy_crypto quiet_io (\<lambda>_. quiet_io) [0, 1, 2, 3] toy_tx (toy_engine ''a'')))"
proof -
  have "mset [0, 1, 2, 3] = mset [2, 0, 3, 1 :: nat]" by simp
  from arrival_order_irrelevant [OF toy_engine_facts(4) this, of toy_crypto quiet_io "\<lambda>_. quiet_io" toy_tx]
    toy_engine_facts(5) show ?thesis by simp
qed

section \<open>The Ed25519 key\<close>

text \<open>
  The constructor fills the whole 64-byte private key with random bytes, so that its second
  half, which \<open>Public()\<close> returns, is not the public key of its seed. A signature made with such a key
  does not verify against that half. The Ed25519 worker then refuses every transaction: a
  transaction is approved exactly when all three others approve it, the quorum tolerates no failure,
  and \<open>CheckWithdraw\<close>, which asks for unanimity, refuses everything.
\<close>

theorem mismatched_key_blocks:
  assumes "four_workers e" "N_workers e ! 1 = WEd25519 d" "arrives e (V_arrived env)"
    and "\<forall>h. \<not> c_ed_verify (V_crypto env) (E_pubKey d) h (c_ed_sign (V_crypto env) (E_privKey d) h)"
  shows "(K_Approved (fst (Engine_Verify (V_crypto env) (V_io env) (V_wio env) (V_arrived env) tx e)) \<longleftrightarrow>
      (\<forall>i \<in> {0, 2, 3}. i \<in> set (V_arrived env) \<and> O_Approved (ballot (V_crypto env) (V_io env) (V_wio env) tx e i))) \<and>
    fst (CheckWithdraw env fw tg amt addr e) \<noteq> None"
proof -
  have len: "length (N_workers e) = 4" "N_Threshold e = 3" using assms(1) by (auto simp: four_workers_def)
  then have ne: "N_workers e \<noteq> []" by auto
  let ?B = "\<lambda>tx i. O_Approved (ballot (V_crypto env) (V_io env) (V_wio env) tx e i)"
  let ?Y = "\<lambda>tx. {i \<in> set (V_arrived env). ?B tx i}"
  have no1: "\<not> ?B tx 1" for tx
  proof -
    have "\<not> O_Approved (fst (Ed25519_Verify (V_crypto env) (V_wio env 1) (filled (V_io env) tx) d))"
      using ed25519_yes [of "V_crypto env" "V_wio env 1" "filled (V_io env) tx" d] assms(4) by blast
    then show ?thesis unfolding ballot_def assms(2) by simp
  qed
  have sub: "?Y tx \<subseteq> {0, 2, 3}" for tx
  proof
    fix i assume i: "i \<in> ?Y tx"
    then have "i < 4" "i \<noteq> 1" using assms(3) len(1) no1 [of tx] by (auto simp: arrives_def)
    then show "i \<in> {0, 2, 3}" by auto
  qed
  have three: "card (?Y tx) \<le> 3" for tx
    using card_mono [OF _ sub, of tx] by simp
  have eq: "3 \<le> card (?Y tx) \<longleftrightarrow> ?Y tx = {0, 2, 3}" for tx
  proof
    assume "3 \<le> card (?Y tx)"
    then show "?Y tx = {0, 2, 3}" by (intro card_seteq [OF _ sub]) simp_all
  next
    assume "?Y tx = {0, 2, 3}"
    then have "card (?Y tx) = card {0, 2, 3 :: nat}" by (rule arg_cong)
    then show "3 \<le> card (?Y tx)" by simp
  qed
  have "0 < K_NoCount (fst (Engine_Verify (V_crypto env) (V_io env) (V_wio env) (V_arrived env) tx e))" for tx
    using Engine_Verify_eq(2,3) [OF ne assms(3), of "V_crypto env" "V_io env" "V_wio env" tx] three [of tx] len(1)
    by linarith
  then have "\<exists>r e'. CheckWithdraw env fw tg amt addr e = (Some r, e')"
    by (simp add: CheckWithdraw_def Let_def case_prod_beta)
  moreover have "K_Approved (fst (Engine_Verify (V_crypto env) (V_io env) (V_wio env) (V_arrived env) tx e)) \<longleftrightarrow> ?Y tx = {0, 2, 3}"
    using Engine_Verify_eq(2,4) [OF ne assms(3), of "V_crypto env" "V_io env" "V_wio env" tx] len(2) eq [of tx] by simp
  moreover have "?Y tx = {0, 2, 3} \<longleftrightarrow> (\<forall>i \<in> {0, 2, 3}. i \<in> set (V_arrived env) \<and> ?B tx i)"
    using sub [of tx] by blast
  ultimately show ?thesis by auto
qed

theorem mismatched_key_blocks_witness:
  "fst (CheckWithdraw \<lparr>V_crypto = toy_crypto, V_io = quiet_io, V_wio = (\<lambda>_. quiet_io), V_arrived = [0, 1, 2, 3]\<rparr>
     [] 42 5000000000 ''EQ'' (toy_engine ''b'')) \<noteq> None"
proof -
  let ?env = "\<lparr>V_crypto = toy_crypto, V_io = quiet_io, V_wio = (\<lambda>_. quiet_io), V_arrived = [0, 1, 2, 3]\<rparr>"
  have 1: "N_workers (toy_engine ''b'') ! 1 = WEd25519 (toy_ed ''b'')"
    by (simp add: toy_engine_def AddWorker_def NewEngine_def)
  have 2: "arrives (toy_engine ''b'') (V_arrived ?env)"
    by (auto simp: arrives_def toy_engine_def AddWorker_def NewEngine_def)
  have 3: "\<forall>h. \<not> c_ed_verify (V_crypto ?env) (E_pubKey (toy_ed ''b'')) h
      (c_ed_sign (V_crypto ?env) (E_privKey (toy_ed ''b'')) h)"
    by (simp add: toy_crypto_def toy_ed_def)
  from mismatched_key_blocks [OF toy_engine_four 1 2 3] show ?thesis by blast
qed

text \<open>
  Key files round-trip: the key that is generated and saved at the first start is the key that
  every later start loads.
\<close>

theorem loadOrGenKey_roundtrip:
  assumes "loadOrGenKey io (Some key) n None = (Inr k, file)" "length key = n" "io_flt io' 0 = None"
  shows "k = key \<and> loadOrGenKey io' r n file = (Inr key, file)"
proof -
  have "k = key" "file = Some (hexEncode key)"
    using assms(1) by (auto simp: loadOrGenKey_def split: option.splits)
  with assms(2,3) show ?thesis by (simp add: loadOrGenKey_def)
qed

theorem loadOrGenKey_roundtrip_witness:
  "fst (loadOrGenKey quiet_io None 3 (snd (loadOrGenKey quiet_io (Some ''key'') 3 None))) = Inr ''key''"
proof -
  have "fst (loadOrGenKey quiet_io (Some ''key'') 3 None) = Inr ''key''"
    by (simp add: loadOrGenKey_def quiet_io_def)
  then have 1: "loadOrGenKey quiet_io (Some ''key'') 3 None = (Inr ''key'', snd (loadOrGenKey quiet_io (Some ''key'') 3 None))"
    by (metis prod.collapse)
  show ?thesis using loadOrGenKey_roundtrip [OF 1, of quiet_io None] by (simp add: quiet_io_def)
qed

end
