(* ===== verification/WalletService.thy ===== *)
theory WalletService
  imports PayLedger ConsensusProps
begin

text \<open>
  The wallet service of botpay (\<open>botpay/internal/wallet\<close>), with the language codes it needs
  (\<open>botpay/internal/i18n\<close>): deposits, payments, withdrawals and transfers on top of the store and the
  consensus guard. Events on NATS and Telegram notifications are recorded in the order in which they
  are sent; a message is its key and its arguments.
\<close>

section \<open>Languages (\<open>i18n.go\<close>)\<close>

datatype Lang = FA | EN

fun Lang_code :: "Lang \<Rightarrow> string" where
  "Lang_code FA = ''fa''"
| "Lang_code EN = ''en''"

definition supported :: "Lang list" where "supported = [FA, EN]"

definition lower_char :: "char \<Rightarrow> char" where
  "lower_char c = (let n = of_char c :: nat in if 65 \<le> n \<and> n \<le> 90 then char_of (n + 32) else c)"

definition upper_char :: "char \<Rightarrow> char" where
  "upper_char c = (let n = of_char c :: nat in if 97 \<le> n \<and> n \<le> 122 then char_of (n - 32) else c)"

definition Parse :: "string \<Rightarrow> Lang option" where
  "Parse code =
     (let code = map lower_char (TrimSpace code)
      in find (\<lambda>l. code = Lang_code l \<or> HasPrefix code (Lang_code l @ ''-'')) supported)"

definition Normalize :: "Lang \<Rightarrow> string \<Rightarrow> Lang" where
  "Normalize defaultLang code = (case Parse code of Some l \<Rightarrow> l | None \<Rightarrow> defaultLang)"

section \<open>The service\<close>

record DepositEvent =
  V_WalletID :: uuid
  V_AmountNano :: int64
  V_AmountTON :: f64
  V_TxHash :: string
  V_FromAddr :: string
  V_InvoiceCode :: string

datatype pay_event =
    PubInvoice string uuid string string int64 uuid string
      \<comment> \<open>code, invoice id, ref, service, amount, wallet, hash\<close>
  | PubDeposit DepositEvent
  | PubWalletDeposit int64 uuid int64 f64 string string
  | PubPaid uuid string string f64 uuid
  | PubWalletUpdated int64 string
  | PubPayCompleted string int64 f64 string string string string
  | CacheBalance int64 f64 f64 f64 f64 string
  | SendHTML int64 Lang string "fmt_arg list"

text \<open>What the service holds: its database, the consensus engine, and what it has sent so far.\<close>

record service =
  sv_db :: pay_db
  sv_engine :: Engine
  sv_out :: "pay_event list"

record service_cfg =
  cfg_masterAddr :: string
  cfg_guard :: bool
  cfg_nats :: bool
  cfg_notify :: bool
  cfg_lang :: Lang

text \<open>The outside of one call: the database driver, the consensus round, four random bytes.\<close>

record call_env =
  ce_io :: io
  ce_verify :: verify_env
  ce_rand :: string

type_synonym 'a op = "service \<Rightarrow> (go_error + 'a) \<times> service"

abbreviation ErrInsufficientBalance :: go_error where
  "ErrInsufficientBalance \<equiv> Sentinel ''insufficient balance''"

abbreviation MinWithdrawNano :: int64 where "MinWithdrawNano \<equiv> 100000000"
abbreviation NetworkFeeNano :: int64 where "NetworkFeeNano \<equiv> 10000000"

definition NanoToTON :: "int64 \<Rightarrow> f64" where
  "NanoToTON nano = f64_div (f64_of_int nano) (10 ^ 9)"

definition TONToNano :: "f64 \<Rightarrow> int64" where
  "TONToNano ton = f64_to_int (f64_mul ton (Fin (10 ^ 9)))"

definition IsValidTONAddress :: "string \<Rightarrow> bool" where
  "IsValidTONAddress addr =
     (let a = TrimSpace addr in length a = 48 \<and> (HasPrefix a ''UQ'' \<or> HasPrefix a ''EQ''))"

definition genInvoiceCode :: "string \<Rightarrow> string" where
  "genInvoiceCode b = ''PAY-'' @ map upper_char (hexEncode b)"

text \<open>\<open>publish\<close> drops the event without a NATS client.\<close>

definition publish :: "service_cfg \<Rightarrow> pay_event \<Rightarrow> service \<Rightarrow> service" where
  "publish cfg ev s = (if cfg_nats cfg then s\<lparr>sv_out := sv_out s @ [ev]\<rparr> else s)"

definition send_html :: "service_cfg \<Rightarrow> int64 \<Rightarrow> Lang \<Rightarrow> string \<Rightarrow> fmt_arg list \<Rightarrow> service \<Rightarrow> service" where
  "send_html cfg tg lang key args s =
     (if cfg_notify cfg then s\<lparr>sv_out := sv_out s @ [SendHTML tg lang key args]\<rparr> else s)"

definition on_db :: "(pay_db \<Rightarrow> (go_error + 'a) \<times> pay_db) \<Rightarrow> 'a op" where
  "on_db f s = (let (r, db) = f (sv_db s) in (r, s\<lparr>sv_db := db\<rparr>))"

definition GetOrCreate :: "service_cfg \<Rightarrow> io \<Rightarrow> int64 \<Rightarrow> Wallet op" where
  "GetOrCreate cfg io telegramID = on_db (GetOrCreateWallet io telegramID (cfg_masterAddr cfg))"

definition CreateDepositInvoice ::
  "service_cfg \<Rightarrow> call_env \<Rightarrow> int64 \<Rightarrow> int64 \<Rightarrow> string \<Rightarrow> string \<Rightarrow> Invoice op" where
  "CreateDepositInvoice cfg env telegramID amountNano serviceID ref s =
     (case GetOrCreate cfg (ce_io env) telegramID s of
        (Inl e, s1) \<Rightarrow> (Inl e, s1)
      | (Inr w, s1) \<Rightarrow>
          (let io = io_shift 3 (ce_io env);
               invo = \<lparr>I_ID = io_uuid io 0, I_CreatedAt = io_now io 1, I_WalletID = W_ID w,
                      I_Code = genInvoiceCode (ce_rand env), I_Amount = amountNano, I_ReceivedNano = 0,
                      I_Status = InvoicePending, I_ServiceID = serviceID, I_Ref = ref, I_Metadata = [],
                      I_ExpiresAt = io_now io 0 + 30 * 60 * 10 ^ 9, I_PaidAt = None, I_TxHash = []\<rparr>
           in case on_db (CreateInvoice io invo) s1 of
                (Inl e, s2) \<Rightarrow> (Inl e, s2)
              | (Inr _, s2) \<Rightarrow> (Inr invo, s2)))"

definition DepositInstructions ::
  "service_cfg \<Rightarrow> call_env \<Rightarrow> int64 \<Rightarrow> int64 \<Rightarrow> string \<Rightarrow> string \<Rightarrow> (string \<times> string) op" where
  "DepositInstructions cfg env telegramID amountNano serviceID ref s =
     (case CreateDepositInvoice cfg env telegramID amountNano serviceID ref s of
        (Inl e, s1) \<Rightarrow> (Inl e, s1)
      | (Inr invo, s1) \<Rightarrow>
          (Inr (I_Code invo, ''ton://transfer/'' @ cfg_masterAddr cfg @ ''?amount='' @ fmt_d amountNano @
                ''&text='' @ I_Code invo), s1))"

text \<open>
  Whose deposit it is: a pending invoice with the comment as its code, else the wallet with the
  comment as its handle, else nobody.
\<close>

definition deposit_target :: "io \<Rightarrow> string \<Rightarrow> pay_db \<Rightarrow> go_error + (Wallet \<times> Invoice option) option" where
  "deposit_target io code db =
     (if code = [] then Inr None
      else case FindPendingInvoiceByCode io code db of
             Inl e \<Rightarrow> Inl e
           | Inr (Some invo) \<Rightarrow>
               (case GetWalletByID (io_shift 1 io) (I_WalletID invo) db of
                  Inr (Some w) \<Rightarrow> Inr (Some (w, Some invo))
                | _ \<Rightarrow> Inl (Errorf ''wallet not found for invoice'' []))
           | Inr None \<Rightarrow>
               (case GetWalletByPayHandle (io_shift 1 io) code db of
                  Inl e \<Rightarrow> Inl e
                | Inr None \<Rightarrow> Inr None
                | Inr (Some w) \<Rightarrow> Inr (Some (w, None))))"

definition guard_deposit :: "service_cfg \<Rightarrow> call_env \<Rightarrow> Wallet \<Rightarrow> int64 \<Rightarrow> string \<Rightarrow> service \<Rightarrow> guard_error option \<times> service" where
  "guard_deposit cfg env w amountNano txHash s =
     (if cfg_guard cfg
      then (let (r, e) = CheckDeposit (ce_verify env) (W_TONAddress w) (W_TelegramID w) amountNano txHash (sv_engine s)
            in (r, s\<lparr>sv_engine := e\<rparr>))
      else (None, s))"

definition guard_deduct ::
  "service_cfg \<Rightarrow> call_env \<Rightarrow> Wallet \<Rightarrow> int64 \<Rightarrow> int64 \<Rightarrow> string \<Rightarrow> string \<Rightarrow> service \<Rightarrow> guard_error option \<times> service" where
  "guard_deduct cfg env w telegramID amountNano serviceID ref s =
     (if cfg_guard cfg
      then (let (r, e) = CheckDeduct (ce_verify env) (W_TONAddress w) telegramID amountNano serviceID ref (sv_engine s)
            in (r, s\<lparr>sv_engine := e\<rparr>))
      else (None, s))"

text \<open>The error a rejected guard check becomes; its reasons are not rendered.\<close>

definition guard_err :: "guard_error \<Rightarrow> go_error" where
  "guard_err g =
     (case g of
        RejectedDeduct yes thr _ \<Rightarrow> Errorf ''transaction rejected by consensus (%d/%d votes): %s'' [ArgInt yes, ArgInt thr]
      | RejectedDeposit _ \<Rightarrow> Errorf ''deposit rejected by consensus: %s'' []
      | RejectedWithdraw yes thr \<Rightarrow> Errorf ''withdrawal rejected by consensus (%d/%d)'' [ArgInt yes, ArgInt thr]
      | NotUnanimous no \<Rightarrow> Errorf ''withdrawal requires unanimous consensus, %d votes against'' [ArgInt no])"

text \<open>The end of \<open>HandleDeposit\<close>: everything after the wallet has been credited.\<close>

definition deposit_done ::
  "service_cfg \<Rightarrow> io \<Rightarrow> DepositEvent \<Rightarrow> Wallet \<Rightarrow> Invoice option \<Rightarrow> service \<Rightarrow> service" where
  "deposit_done cfg io ev w invo s =
     (let s1 = (case invo of
                  None \<Rightarrow> s
                | Some v \<Rightarrow>
                    (case on_db (AddInvoiceReceipt io (I_ID v) (V_AmountNano ev) (V_TxHash ev)) s of
                       (Inr True, s') \<Rightarrow>
                         publish cfg (PubInvoice (I_Code v) (I_ID v) (I_Ref v) (I_ServiceID v) (V_AmountNano ev)
                           (W_ID w) (V_TxHash ev)) s'
                     | (_, s') \<Rightarrow> s'));
          s2 = publish cfg (PubDeposit (ev\<lparr>V_WalletID := W_ID w, V_FromAddr := []\<rparr>)) s1;
          s3 = publish cfg (PubWalletDeposit (W_TelegramID w) (W_ID w) (V_AmountNano ev) (V_AmountTON ev)
                 (V_TxHash ev) (V_InvoiceCode ev)) s2;
          newBalance = (case GetWalletByID (io_shift 3 io) (W_ID w) (sv_db s3) of
                          Inr (Some u) \<Rightarrow> TotalTON u | _ \<Rightarrow> V_AmountTON ev)
      in send_html cfg (W_TelegramID w) (Normalize (cfg_lang cfg) (W_Lang w)) ''deposit.confirmed''
           [ArgF64 (V_AmountTON ev), ArgF64 newBalance] s3)"

definition HandleDeposit :: "service_cfg \<Rightarrow> call_env \<Rightarrow> DepositEvent \<Rightarrow> unit op" where
  "HandleDeposit cfg env ev s =
     (case deposit_target (ce_io env) (V_InvoiceCode ev) (sv_db s) of
        Inl e \<Rightarrow> (Inl e, s)
      | Inr None \<Rightarrow> (Inr (), s)
      | Inr (Some (w, invo)) \<Rightarrow>
          (case guard_deposit cfg env w (V_AmountNano ev) (V_TxHash ev) s of
             (Some g, s1) \<Rightarrow> (Inl (guard_err g), s1)
           | (None, s1) \<Rightarrow>
               (case on_db (Deposit (io_shift 2 (ce_io env)) (W_ID w) (V_AmountNano ev) (V_TxHash ev)
                       (V_FromAddr ev) []) s1 of
                  (Inl e, s2) \<Rightarrow> (Inl (Wrapf ''deposit to wallet: %w'' [] e), s2)
                | (Inr _, s2) \<Rightarrow> (Inr (), deposit_done cfg (io_shift 6 (ce_io env)) ev w invo s2))))"

definition Pay ::
  "service_cfg \<Rightarrow> call_env \<Rightarrow> int64 \<Rightarrow> int64 \<Rightarrow> string \<Rightarrow> string \<Rightarrow> string \<Rightarrow> Transaction op" where
  "Pay cfg env telegramID amountNano serviceID ref desc s =
     (case GetWallet (ce_io env) telegramID (sv_db s) of
        Inl e \<Rightarrow> (Inl e, s)
      | Inr None \<Rightarrow> (Inl (Errorf ''wallet not found'' []), s)
      | Inr (Some w) \<Rightarrow>
          if \<not> HasEnough w amountNano
          then (Inl (Wrapf ''%w: have %.4f TON, need %.4f TON'' [ArgF64 (TotalTON w), ArgF64 (NanoToTON amountNano)]
                  ErrInsufficientBalance), s)
          else (case guard_deduct cfg env w telegramID amountNano serviceID ref s of
                  (Some g, s1) \<Rightarrow> (Inl (Wrapf ''consensus: %w'' [] (guard_err g)), s1)
                | (None, s1) \<Rightarrow>
                    (case on_db (Deduct (io_shift 1 (ce_io env)) (W_ID w) amountNano serviceID ref desc) s1 of
                       (Inl e, s2) \<Rightarrow> (Inl e, s2)
                     | (Inr tx, s2) \<Rightarrow>
                         (Inr tx, publish cfg (PubPaid (W_ID w) serviceID ref (NanoToTON amountNano) (T_ID tx)) s2))))"

definition RequestWithdraw ::
  "call_env \<Rightarrow> int64 \<Rightarrow> string \<Rightarrow> int64 \<Rightarrow> string \<Rightarrow> WithdrawRequest op" where
  "RequestWithdraw env telegramID toAddress amountNano note s =
     (if \<not> IsValidTONAddress toAddress then (Inl (Errorf ''invalid TON address'' []), s)
      else if amountNano < MinWithdrawNano
      then (Inl (Errorf ''minimum withdrawal is %.1f TON'' [ArgF64 (NanoToTON MinWithdrawNano)]), s)
      else
       (let totalNeeded = add64 amountNano NetworkFeeNano
        in case GetWallet (ce_io env) telegramID (sv_db s) of
             Inr (Some w) \<Rightarrow>
               if \<not> HasEnough w totalNeeded
               then (Inl (Wrapf ''%w (including %.4f TON fee)'' [ArgF64 (NanoToTON NetworkFeeNano)]
                       ErrInsufficientBalance), s)
               else (let req = \<lparr>R_ID = [], R_CreatedAt = zero_time, R_WalletID = W_ID w, R_ToAddress = toAddress,
                                R_Amount = amountNano, R_Fee = NetworkFeeNano, R_Status = WithdrawPending,
                                R_TxHash = [], R_Note = note, R_AdminNote = [], R_ProcessedAt = None\<rparr>
                     in case on_db (CreateWithdraw (io_shift 1 (ce_io env)) req) s of
                          (Inl e, s1) \<Rightarrow>
                            (if errors_Is e store_ErrInsufficientBalance
                             then (Inl (Wrapf ''%w (race condition: insufficient balance at write time)'' []
                                     ErrInsufficientBalance), s1)
                             else (Inl e, s1))
                        | (Inr req', s1) \<Rightarrow> (Inr req', s1))
           | _ \<Rightarrow> (Inl (Errorf ''wallet not found'' []), s)))"

definition Service_Transfer ::
  "service_cfg \<Rightarrow> call_env \<Rightarrow> int64 \<Rightarrow> int64 \<Rightarrow> int64 \<Rightarrow> string \<Rightarrow> unit op" where
  "Service_Transfer cfg env fromTelegramID toTelegramID amountNano desc s =
     (if fromTelegramID = toTelegramID then (Inl (Errorf ''cannot transfer to yourself'' []), s)
      else case GetWallet (ce_io env) fromTelegramID (sv_db s) of
        Inr (Some src) \<Rightarrow>
          (case GetWallet (io_shift 1 (ce_io env)) toTelegramID (sv_db s) of
             Inr (Some dst) \<Rightarrow>
               if \<not> HasEnough src amountNano then (Inl ErrInsufficientBalance, s)
               else (case on_db (Transfer (io_shift 2 (ce_io env)) (W_ID src) (W_ID dst) amountNano desc) s of
                       (Inl e, s1) \<Rightarrow> (Inl (Wrapf ''transfer: %w'' [] e), s1)
                     | (Inr _, s1) \<Rightarrow>
                         (Inr (), send_html cfg toTelegramID (Normalize (cfg_lang cfg) (W_Lang dst))
                            ''transfer.received'' [ArgF64 (NanoToTON amountNano), ArgInt fromTelegramID] s1))
           | _ \<Rightarrow> (Inl (Errorf ''recipient wallet not found'' []), s))
      | _ \<Rightarrow> (Inl (Errorf ''sender wallet not found'' []), s))"

end
