(* ===== verification/WalletProps.thy ===== *)
theory WalletProps
  imports WalletService
begin

text \<open>
  What the wallet service guarantees: every operation moves the database along the store's step
  relation, so that the store's invariants carry over; at most one credit per deposit; and the cases
  in which the composition of store and consensus does not do what it means to.
\<close>

section \<open>The service moves along the steps of the store\<close>

definition runs :: "service \<Rightarrow> service \<Rightarrow> bool" where
  "runs s s' \<longleftrightarrow> pay_step\<^sup>*\<^sup>* (sv_db s) (sv_db s')"

lemma runs_refl [simp, intro]: "runs s s"
  by (simp add: runs_def)

lemma runs_trans: "runs s t \<Longrightarrow> runs t u \<Longrightarrow> runs s u"
  by (auto simp: runs_def)

lemma runs_on_db: "(\<And>db. pay_step db (snd (f db))) \<Longrightarrow> runs s (snd (on_db f s))"
  by (auto simp: runs_def on_db_def case_prod_beta intro: r_into_rtranclp)

lemma sv_db_publish [simp]: "sv_db (publish cfg ev s) = sv_db s"
  by (simp add: publish_def)

lemma sv_db_send_html [simp]: "sv_db (send_html cfg tg l k a s) = sv_db s"
  by (simp add: send_html_def)

lemma guard_db [simp]:
  "sv_db (snd (guard_deposit cfg env w a h s)) = sv_db s"
  "sv_db (snd (guard_deduct cfg env w tg a sid ref s)) = sv_db s"
  by (simp_all add: guard_deposit_def guard_deduct_def case_prod_beta Let_def)

lemma runs_eq_db: "sv_db t = sv_db u \<Longrightarrow> runs s t \<Longrightarrow> runs s u"
  by (simp add: runs_def)

lemma GetOrCreate_runs: "runs s (snd (GetOrCreate cfg io tg s))"
  unfolding GetOrCreate_def by (rule runs_on_db) (rule pay_step.step_wallet)

lemma CreateDepositInvoice_runs: "runs s (snd (CreateDepositInvoice cfg env tg a sid ref s))"
proof -
  obtain r s1 where g: "GetOrCreate cfg (ce_io env) tg s = (r, s1)" by (cases "GetOrCreate cfg (ce_io env) tg s")
  have s1: "runs s s1" using GetOrCreate_runs [of s cfg "ce_io env" tg] g by simp
  show ?thesis
  proof (cases r)
    case (Inl e)
    with g s1 show ?thesis by (simp add: CreateDepositInvoice_def)
  next
    case (Inr w)
    have "runs s (snd (on_db (CreateInvoice io v) s1))" for io v
      by (rule runs_trans [OF s1 runs_on_db]) (rule pay_step.step_invoice)
    with Inr g show ?thesis
      by (simp add: CreateDepositInvoice_def Let_def case_prod_beta split: sum.splits)
  qed
qed

lemma deposit_done_runs: "runs s (deposit_done cfg io ev w v s)"
proof -
  have r: "runs s (snd (on_db (AddInvoiceReceipt io i a h) s))" for io i a h
    by (rule runs_on_db) (rule pay_step.step_receipt)
  have "sv_db (deposit_done cfg io ev w v s) =
      (case v of None \<Rightarrow> sv_db s | Some x \<Rightarrow> sv_db (snd (on_db (AddInvoiceReceipt io (I_ID x) (V_AmountNano ev) (V_TxHash ev)) s)))"
    by (auto simp: deposit_done_def Let_def split: option.splits prod.splits sum.splits bool.splits)
  with r show ?thesis by (auto simp: runs_def split: option.splits)
qed

lemma HandleDeposit_runs:
  assumes "0 \<le> V_AmountNano ev" "aborts (io_shift 2 (ce_io env))"
  shows "runs s (snd (HandleDeposit cfg env ev s))"
proof -
  have d: "runs s1 (snd (on_db (Deposit (io_shift 2 (ce_io env)) i (V_AmountNano ev) h f []) s1))" for s1 i h f
    by (rule runs_on_db) (rule pay_step.step_deposit [OF assms])
  show ?thesis
  proof (cases "deposit_target (ce_io env) (V_InvoiceCode ev) (sv_db s)")
    case (Inr t)
    show ?thesis
    proof (cases t)
      case (Some p)
      obtain w v where p: "p = (w, v)" by (cases p)
      let ?g = "guard_deposit cfg env w (V_AmountNano ev) (V_TxHash ev) s"
      let ?d = "on_db (Deposit (io_shift 2 (ce_io env)) (W_ID w) (V_AmountNano ev) (V_TxHash ev) (V_FromAddr ev) []) (snd ?g)"
      have "runs s (snd ?g)" by (rule runs_eq_db [OF _ runs_refl]) simp
      then have d': "runs s (snd ?d)" using d runs_trans by blast
      have "runs s (deposit_done cfg (io_shift 6 (ce_io env)) ev w v (snd ?d))"
        by (rule runs_trans [OF d' deposit_done_runs])
      with d' \<open>runs s (snd ?g)\<close> Inr Some p show ?thesis
        by (simp add: HandleDeposit_def case_prod_beta split: option.splits sum.splits)
    qed (simp add: HandleDeposit_def Inr)
  qed (simp add: HandleDeposit_def)
qed

lemma Pay_runs: "runs s (snd (Pay cfg env tg a sid ref d s))"
proof -
  have p: "runs s1 (snd (on_db (Deduct io i a sid ref d) s1))" for s1 io i
    by (rule runs_on_db) (rule pay_step.step_deduct)
  have "runs s (snd (on_db (Deduct io i a sid ref d) (snd (guard_deduct cfg env w tg a sid ref s))))" for io i w
    using runs_trans [OF runs_eq_db [OF _ runs_refl] p, of s "snd (guard_deduct cfg env w tg a sid ref s)"] by simp
  moreover have "runs s (snd (guard_deduct cfg env w tg a sid ref s))" for w
    by (rule runs_eq_db [OF _ runs_refl]) simp
  ultimately show ?thesis
    by (auto simp: Pay_def case_prod_beta runs_def split: option.splits sum.splits)
qed

lemma Service_Transfer_runs: "runs s (snd (Service_Transfer cfg env f t a d s))"
proof -
  have "runs s (snd (on_db (Transfer io i j a d) s))" for io i j
    by (rule runs_on_db) (rule pay_step.step_transfer)
  then show ?thesis
    by (auto simp: Service_Transfer_def case_prod_beta runs_def split: option.splits sum.splits)
qed

lemma RequestWithdraw_runs:
  assumes "in_int64 (a + NetworkFeeNano)"
  shows "runs s (snd (RequestWithdraw env tg addr a note s))"
proof (cases "a < MinWithdrawNano")
  case False
  have "runs s (snd (on_db (CreateWithdraw io q) s))" if "R_Amount q = a" "R_Fee q = NetworkFeeNano" for io q
    by (rule runs_on_db, rule pay_step.step_withdraw) (use False assms that in auto)
  then show ?thesis
    by (auto simp: RequestWithdraw_def Let_def case_prod_beta runs_def split: option.splits sum.splits)
qed (simp add: RequestWithdraw_def)

lemmas service_runs = GetOrCreate_runs CreateDepositInvoice_runs HandleDeposit_runs Pay_runs Service_Transfer_runs
  RequestWithdraw_runs

section \<open>Replayed and lost deposits\<close>

lemma CheckDeposit_seen:
  assumes "h \<noteq> []" "all_seen (''deposit-'' @ h) e" "N_workers e \<noteq> []" "0 < N_Threshold e"
    "arrives e (V_arrived env)" "\<forall>i. io_ok (V_wio env i)"
  shows "\<exists>g. fst (CheckDeposit env addr tg a h e) = Some g"
proof -
  let ?tx = "\<lparr>X_ID = ''deposit-'' @ h, X_FromWallet = h, X_ToService = ''wallet-tg-'' @ fmt_d tg, X_AmountNano = a,
     X_Description = ''blockchain_deposit'', X_Timestamp = io_now (V_io env) 2,
     X_Metadata = [(''tx_hash'', h), (''to_wallet'', addr)]\<rparr>"
  have "\<not> K_Approved (fst (Engine_Verify (V_crypto env) (V_io env) (V_wio env) (V_arrived env) ?tx e))"
    by (rule conjunct2 [OF seen_refused]) (use assms in simp_all)
  with assms(1) show ?thesis by (simp add: CheckDeposit_def Let_def case_prod_beta)
qed

lemma CheckDeposit_logs:
  assumes "h \<noteq> []" "engine_ok e" "\<forall>i. io_ok (V_wio env i)"
  shows "all_seen (''deposit-'' @ h) (snd (CheckDeposit env addr tg a h e)) \<and>
    length (N_workers (snd (CheckDeposit env addr tg a h e))) = length (N_workers e) \<and>
    N_Threshold (snd (CheckDeposit env addr tg a h e)) = N_Threshold e"
proof -
  let ?tx = "\<lparr>X_ID = ''deposit-'' @ h, X_FromWallet = h, X_ToService = ''wallet-tg-'' @ fmt_d tg, X_AmountNano = a,
     X_Description = ''blockchain_deposit'', X_Timestamp = io_now (V_io env) 2,
     X_Metadata = [(''tx_hash'', h), (''to_wallet'', addr)]\<rparr>"
  have "snd (CheckDeposit env addr tg a h e) =
      snd (Engine_Verify (V_crypto env) (V_io env) (V_wio env) (V_arrived env) ?tx e)"
    using assms(1) by (simp add: CheckDeposit_def Let_def case_prod_beta)
  with all_seen_after [OF assms(2), of ?tx "V_wio env" "V_crypto env" "V_io env" "V_arrived env"] assms(3)
  show ?thesis by (simp add: Engine_Verify_state(2))
qed

text \<open>
  A deposit that fails after the consensus round is lost. Suppose \<open>HandleDeposit\<close> reports an error
  for an event whose target wallet was found (for instance because the database refused the write).
  Then, when the same blockchain transaction is presented again, to any target, the workers see a
  replay: the call fails again and the database stays as it is, so the deposit is never credited.
\<close>

theorem failed_deposit_is_lost:
  assumes cfg: "cfg_guard cfg" and h: "V_TxHash ev \<noteq> []" "V_TxHash ev' = V_TxHash ev"
    and eng: "engine_ok (sv_engine s)" "N_workers (sv_engine s) \<noteq> []" "0 < N_Threshold (sv_engine s)"
    and first: "deposit_target (ce_io env) (V_InvoiceCode ev) (sv_db s) = Inr (Some (w, v))"
      "HandleDeposit cfg env ev s = (Inl e, s1)"
    and again: "deposit_target (ce_io env') (V_InvoiceCode ev') (sv_db s1) = Inr (Some (w', v'))"
    and env: "\<forall>i. io_ok (V_wio (ce_verify env) i) \<and> io_ok (V_wio (ce_verify env') i)"
      "arrives (sv_engine s) (V_arrived (ce_verify env'))"
  shows "sv_db s1 = sv_db s \<and>
    (\<exists>e' s2. HandleDeposit cfg env' ev' s1 = (Inl e', s2) \<and> sv_db s2 = sv_db s)"
proof -
  let ?h = "V_TxHash ev"
  let ?C = "CheckDeposit (ce_verify env) (W_TONAddress w) (W_TelegramID w) (V_AmountNano ev) ?h (sv_engine s)"
  let ?g = "guard_deposit cfg env w (V_AmountNano ev) ?h s"
  have g: "?g = (fst ?C, s\<lparr>sv_engine := snd ?C\<rparr>)"
    using cfg by (simp add: guard_deposit_def case_prod_beta Let_def)
  have s1: "sv_engine s1 = snd ?C \<and> sv_db s1 = sv_db s"
  proof (cases "fst ?C")
    case (Some ge)
    with first g show ?thesis by (auto simp: HandleDeposit_def)
  next
    case None
    let ?D = "Deposit (io_shift 2 (ce_io env)) (W_ID w) (V_AmountNano ev) ?h (V_FromAddr ev) [] (sv_db s)"
    have "\<exists>e0. fst ?D = Inl e0"
    proof (cases "fst ?D")
      case (Inr t)
      with first g None show ?thesis by (simp add: HandleDeposit_def on_db_def case_prod_beta Let_def)
    qed simp
    then have "snd ?D = sv_db s" unfolding Deposit_def by (auto intro: gorm_Transaction_Inl)
    moreover have "s1 = s\<lparr>sv_engine := snd ?C, sv_db := snd ?D\<rparr>"
      using \<open>\<exists>e0. fst ?D = Inl e0\<close> first g None by (auto simp: HandleDeposit_def on_db_def case_prod_beta Let_def)
    ultimately show ?thesis by simp
  qed
  have logs: "all_seen (''deposit-'' @ ?h) (sv_engine s1)" "length (N_workers (sv_engine s1)) = length (N_workers (sv_engine s))"
    "N_Threshold (sv_engine s1) = N_Threshold (sv_engine s)"
    using CheckDeposit_logs [OF h(1) eng(1), of "ce_verify env" "W_TONAddress w" "W_TelegramID w" "V_AmountNano ev"] env(1) s1
    by auto
  let ?C' = "CheckDeposit (ce_verify env') (W_TONAddress w') (W_TelegramID w') (V_AmountNano ev') ?h (sv_engine s1)"
  have "\<exists>ge. fst ?C' = Some ge"
    using logs eng(2,3) env h(1) by (intro CheckDeposit_seen) (auto simp: arrives_def)
  then obtain ge where "guard_deposit cfg env' w' (V_AmountNano ev') ?h s1 = (Some ge, s1\<lparr>sv_engine := snd ?C'\<rparr>)"
    using cfg by (auto simp: guard_deposit_def case_prod_beta Let_def)
  with again h(2) s1 show ?thesis by (simp add: HandleDeposit_def)
qed

text \<open>An example: the database refuses the credit of a deposit to a pay handle; the retry is a replay.\<close>

definition demo_cfg :: service_cfg where
  "demo_cfg = \<lparr>cfg_masterAddr = [], cfg_guard = True, cfg_nats = False, cfg_notify = False, cfg_lang = FA\<rparr>"

definition demo_service :: service where
  "demo_service = \<lparr>sv_db = demo_db2, sv_engine = toy_engine ''a'', sv_out = []\<rparr>"

definition demo_verify :: verify_env where
  "demo_verify = \<lparr>V_crypto = toy_crypto, V_io = quiet_io, V_wio = (\<lambda>_. quiet_io), V_arrived = [0, 1, 2, 3]\<rparr>"

definition demo_env :: call_env where
  "demo_env = \<lparr>ce_io = late_io, ce_verify = demo_verify, ce_rand = ''rand''\<rparr>"

definition broken_env :: call_env where
  "broken_env = demo_env\<lparr>ce_io := late_io\<lparr>io_flt := (\<lambda>i. if i = 3 then Some ''deadlock'' else None)\<rparr>\<rparr>"

definition demo_event :: DepositEvent where
  "demo_event = \<lparr>V_WalletID = [], V_AmountNano = 77, V_AmountTON = NaN, V_TxHash = ''0123456789'', V_FromAddr = [],
     V_InvoiceCode = ''u_16''\<rparr>"

theorem failed_deposit_is_lost_witness:
  "\<exists>e s1 e' s2. HandleDeposit demo_cfg broken_env demo_event demo_service = (Inl e, s1) \<and>
     HandleDeposit demo_cfg demo_env demo_event s1 = (Inl e', s2) \<and> sv_db s2 = demo_db2"
proof -
  let ?H = "HandleDeposit demo_cfg broken_env demo_event demo_service"
  have "isl (fst ?H)" by code_simp
  then obtain e where H: "?H = (Inl e, snd ?H)" by (metis isl_def prod.collapse)
  have t: "deposit_target (ce_io broken_env) (V_InvoiceCode demo_event) (sv_db demo_service) = Inr (Some (demo_wallet, None))"
    "deposit_target (ce_io demo_env) (V_InvoiceCode demo_event) (sv_db (snd ?H)) = Inr (Some (demo_wallet, None))"
    by code_simp+
  have c: "cfg_guard demo_cfg" "V_TxHash demo_event \<noteq> []" "engine_ok (sv_engine demo_service)"
    "N_workers (sv_engine demo_service) \<noteq> []" "0 < N_Threshold (sv_engine demo_service)"
    "arrives (sv_engine demo_service) (V_arrived (ce_verify demo_env))" by code_simp+
  have q: "\<forall>i. io_ok (V_wio (ce_verify broken_env) i) \<and> io_ok (V_wio (ce_verify demo_env) i)"
    by (simp add: broken_env_def demo_env_def demo_verify_def quiet_io_def io_ok_def)
  from failed_deposit_is_lost [OF c(1,2) refl c(3-5) t(1) H t(2) q c(6)] H
  show ?thesis by (auto simp: demo_service_def)
qed

section \<open>Retried payments\<close>

text \<open>
  The idempotency of the store does not reach the clients of \<open>Pay\<close>: when the money left after a
  payment does not cover a second one, repeating the request reports an insufficient balance, although
  the payment has been made and \<open>Deduct\<close> with the same reference would return it.
\<close>

theorem Pay_retry_refused:
  assumes "GetWallet (ce_io env) tg (sv_db s) = Inr (Some w)" "\<not> HasEnough w a" "0 < a" "ref \<noteq> []"
    and "t \<in> set (transactions (sv_db s))" "deduct_key (W_ID w) sid ref t" "io_ok io"
  shows "(\<exists>e. Pay cfg env tg a sid ref d s = (Inl e, s) \<and> errors_Is e ErrInsufficientBalance) \<and>
    (\<exists>t'. Deduct io (W_ID w) a sid ref d (sv_db s) = (Inr t', sv_db s) \<and> deduct_key (W_ID w) sid ref t')"
proof
  show "\<exists>e. Pay cfg env tg a sid ref d s = (Inl e, s) \<and> errors_Is e ErrInsufficientBalance"
    using assms(1,2) by (simp add: Pay_def)
  have "First_row T_ID (deduct_key (W_ID w) sid ref) (transactions (sv_db s)) \<noteq> None"
    using assms(5,6) by (auto simp: First_row_None)
  then obtain t' where "First_row T_ID (deduct_key (W_ID w) sid ref) (transactions (sv_db s)) = Some t'" by auto
  with First_row_Some [OF this] assms(3,4,7)
  show "\<exists>t'. Deduct io (W_ID w) a sid ref d (sv_db s) = (Inr t', sv_db s) \<and> deduct_key (W_ID w) sid ref t'"
    by (simp add: Deduct_def gorm_Transaction_def First_def)
qed

definition spent_service :: service where
  "spent_service = demo_service\<lparr>sv_db := snd (Deduct late_io ''id-0'' 3000000000 ''svc'' ''order-9'' [] demo_db2)\<rparr>"

theorem Pay_retry_refused_witness:
  "\<exists>e. Pay demo_cfg demo_env 42 3000000000 ''svc'' ''order-9'' [] spent_service = (Inl e, spent_service) \<and>
     errors_Is e ErrInsufficientBalance"
proof -
  let ?w = "demo_wallet\<lparr>W_TONBalance := 2000000000\<rparr>"
  have 1: "GetWallet (ce_io demo_env) 42 (sv_db spent_service) = Inr (Some ?w)" by code_simp
  have 2: "\<not> HasEnough ?w 3000000000" by code_simp
  have 3: "\<exists>t \<in> set (transactions (sv_db spent_service)). deduct_key (W_ID ?w) ''svc'' ''order-9'' t" by code_simp
  then obtain t where t: "t \<in> set (transactions (sv_db spent_service))" "deduct_key (W_ID ?w) ''svc'' ''order-9'' t" by auto
  have 4: "io_ok quiet_io" by (simp add: quiet_io_def io_ok_def)
  from Pay_retry_refused [OF 1 2 _ _ t 4, of demo_cfg "[]"] show ?thesis by simp
qed

section \<open>Withdrawals that overflow\<close>

text \<open>
  A withdrawal amount within the network fee of the largest 64-bit number passes every check: amount
  and fee wrap around to a negative total, which any balance covers, and freezing that total adds
  more than nine billion TON to the user's available balance.
\<close>

lemma RequestWithdraw_overflow:
  assumes db: "solvent (sv_db s)" "distinct (map W_TelegramID (wallets (sv_db s)))" "w \<in> set (wallets (sv_db s))"
    and env: "io_ok (ce_io env)" "io_uuid (ce_io env) 1 \<notin> R_ID ` set (withdraw_requests (sv_db s))"
    and req: "IsValidTONAddress addr" "MaxInt64 - NetworkFeeNano < a" "a \<le> MaxInt64"
    and avail: "available w + (18446744073709551616 - a - NetworkFeeNano) \<le> MaxInt64"
  shows "\<exists>q s'. RequestWithdraw env (W_TelegramID w) addr a note s = (Inr q, s') \<and> R_Amount q = a \<and>
    (let w' = w\<lparr>W_Frozen := W_Frozen w + a + NetworkFeeNano - 18446744073709551616\<rparr>
     in w' \<in> set (wallets (sv_db s')) \<and> available w' > available w + 9223372036844775808 \<and>
        (\<forall>b \<le> available w'. HasEnough w' b))"
proof -
  let ?db = "sv_db s" and ?t = "a + NetworkFeeNano - 18446744073709551616"
  let ?w' = "w\<lparr>W_Frozen := W_Frozen w + a + NetworkFeeNano - 18446744073709551616\<rparr>"
  have ids: "distinct (map W_ID (wallets ?db))" using db(1) by (simp add: solvent_def)
  have ok: "0 \<le> available w" "in_int64 (W_Frozen w)" "0 \<le> W_Frozen w"
    using solvent_wallet_frozen [OF db(1,3)] solvent_wallet(2) [OF db(1,3)] by (simp_all add: wallet_ok_def)
  have total: "add64 a NetworkFeeNano = ?t"
  proof -
    let ?x = "a + NetworkFeeNano + 9223372036854775808"
    have "?x mod 18446744073709551616 = (?x - 18446744073709551616) mod 18446744073709551616"
      by (rule minus_mod_self2 [symmetric])
    also have "\<dots> = ?x - 18446744073709551616" using req(2,3) by (intro mod_pos_pos_trivial) simp_all
    finally show ?thesis by (simp add: wrap64_def)
  qed
  have "in_int64 (available w)" using ok(1) avail req(2,3) by (auto simp: in_int64_def)
  then have enough: "HasEnough w ?t" using ok(1) req(3) by (simp add: HasEnough_iff_wrap)
  have fr: "add_frozen ?t w = Inr ?w'"
    using ok(2,3) req(2,3) by (auto simp: add_frozen_def bigint_def in_int64_def algebra_simps)
  have get: "GetWallet (ce_io env) (W_TelegramID w) ?db = Inr (Some w)"
  proof -
    have "First_row W_ID (\<lambda>x. W_TelegramID x = W_TelegramID w) (wallets ?db) = Some w"
      by (rule First_row_unique) (use db(2,3) in \<open>auto dest: distinct_key_eq\<close>)
    then show ?thesis using env(1) by (simp add: GetWallet_def First_def nil_if_not_found_def)
  qed
  let ?q = "\<lparr>R_ID = io_uuid (ce_io env) 1, R_CreatedAt = io_now (ce_io env) 1, R_WalletID = W_ID w, R_ToAddress = addr,
     R_Amount = a, R_Fee = NetworkFeeNano, R_Status = WithdrawPending, R_TxHash = [], R_Note = note, R_AdminNote = [],
     R_ProcessedAt = None\<rparr>"
  let ?db' = "?db\<lparr>wallets := map (\<lambda>x. if W_ID x = W_ID w then ?w' else x) (wallets ?db),
     withdraw_requests := withdraw_requests ?db @ [?q]\<rparr>"
  have res: "RequestWithdraw env (W_TelegramID w) addr a note s = (Inr ?q, s\<lparr>sv_db := ?db'\<rparr>)"
    using req(1,2) get enough env First_by_id [OF ids db(3)] update_wallet_by_id [where f = "add_frozen ?t", OF ids db(3) fr]
    by (simp add: RequestWithdraw_def Let_def total on_db_def CreateWithdraw_def gorm_Transaction_def
        insert_withdraw_def)
  have av: "available ?w' = available w - ?t" by (simp add: available_def)
  have "?w' \<in> set (wallets ?db')" using db(3) by (auto simp: image_iff)
  moreover have "available ?w' > available w + 9223372036844775808" using av req(3) by simp
  moreover have "\<forall>b \<le> available ?w'. HasEnough ?w' b"
    using av avail ok(1) req(3) by (auto simp: HasEnough_iff_wrap in_int64_def)
  ultimately show ?thesis using res by (intro exI [of _ ?q] exI [of _ "s\<lparr>sv_db := ?db'\<rparr>"]) (simp add: Let_def)
qed

definition poor_service :: service where
  "poor_service = demo_service\<lparr>sv_db := demo_db1\<rparr>"

definition demo_addr :: string where
  "demo_addr = ''UQ'' @ replicate 46 (CHR ''x'')"

end
