(* ===== verification/PayResponder.thy ===== *)
theory PayResponder
  imports WalletProps
begin

text \<open>
  The NATS face of botpay (\<open>botpay/internal/payresponder\<close>), the service authentication it uses
  (\<open>shared/pkg/auth\<close>) and the blockchain watcher (\<open>botpay/internal/ton\<close>). A request arrives decoded,
  or as \<open>None\<close> when the JSON does not parse; the keyed hash is a parameter.
\<close>

section \<open>Service keys (\<open>auth.go\<close>)\<close>

definition ComputeServiceKey :: "(string \<Rightarrow> string \<Rightarrow> string) \<Rightarrow> string \<Rightarrow> string \<Rightarrow> string" where
  "ComputeServiceKey hmac masterSecret serviceID = hexEncode (hmac masterSecret serviceID)"

definition ValidateServiceKey :: "(string \<Rightarrow> string \<Rightarrow> string) \<Rightarrow> string \<Rightarrow> string \<Rightarrow> string \<Rightarrow> bool" where
  "ValidateServiceKey hmac masterSecret serviceID presentedKey =
     (if masterSecret = [] \<or> presentedKey = [] then False
      else ComputeServiceKey hmac masterSecret serviceID = presentedKey)"

section \<open>Requests and responses (\<open>shared-core/protocol\<close>)\<close>

record PayRequest =
  Q_ServiceID :: string
  Q_ServiceKey :: string
  Q_TelegramID :: int64

record DeductRequest = PayRequest +
  Q_AmountTON :: f64
  Q_Reason :: string
  Q_Ref :: string
  Q_Metadata :: string
  Q_IdempotencyKey :: string

record InvoiceRequest = PayRequest +
  IQ_AmountTON :: f64
  IQ_Ref :: string

record InvoiceStatusRequest = PayRequest +
  SQ_Code :: string

record TransferRequest = PayRequest +
  TQ_ToTelegramID :: int64
  TQ_AmountTON :: f64
  TQ_Desc :: string

datatype ErrorCode = ErrCodeNone | ErrCodeUnauthorized | ErrCodeInsufficientBalance | ErrCodeInternal

record BalanceResponse =
  BR_TelegramID :: int64
  BR_TONBalance :: f64
  BR_Credit :: f64
  BR_Total :: f64
  BR_Frozen :: f64
  BR_TONAddress :: string
  BR_Error :: "go_error option"

record AuthorizeResponse =
  AR_Authorized :: bool
  AR_Error :: "go_error option"

record DeductResponse =
  DR_Success :: bool
  DR_NewBalance :: f64
  DR_Error :: "go_error option"
  DR_Code :: ErrorCode

record InvoiceResponse =
  IR_Code :: string
  IR_MasterAddress :: string
  IR_AmountTON :: f64
  IR_ExpiresAt :: int64
  IR_Error :: "go_error option"

datatype PayStatus = StatusPaid | StatusExpired | StatusPartial | StatusPending | StatusNotFound

record InvoiceStatusResponse =
  SR_Status :: PayStatus
  SR_AmountTON :: f64
  SR_PaidTON :: f64
  SR_ExpiresAt :: int64
  SR_Error :: "go_error option"

abbreviation bad_request :: go_error where "bad_request \<equiv> Errorf ''bad request'' []"
abbreviation unauthorized :: go_error where "unauthorized \<equiv> Errorf ''unauthorized'' []"
abbreviation invalid_amount :: go_error where "invalid_amount \<equiv> Errorf ''invalid amount'' []"

section \<open>The responder\<close>

record responder =
  rs_secret :: string
  rs_hmac :: "string \<Rightarrow> string \<Rightarrow> string"
  rs_cache :: bool
  rs_cfg :: service_cfg

definition authorize :: "responder \<Rightarrow> io \<Rightarrow> string \<Rightarrow> string \<Rightarrow> pay_db \<Rightarrow> bool" where
  "authorize r io serviceID serviceKey db =
     (if rs_secret r = [] then False
      else if \<not> ValidateServiceKey (rs_hmac r) (rs_secret r) serviceID serviceKey then False
      else if HasPrefix serviceID ''bot_'' then ValidateBotInstance io serviceID db
      else True)"

definition validAmount :: "f64 \<Rightarrow> bool" where
  "validAmount ton =
     (if IsNaN ton \<or> IsInf ton then False
      else if f64_le ton (Fin 0) then False
      else f64_le ton (Fin 1000000))"

definition emit :: "pay_event \<Rightarrow> service \<Rightarrow> service" where
  "emit ev s = s\<lparr>sv_out := sv_out s @ [ev]\<rparr>"

definition writeBalanceCache :: "responder \<Rightarrow> Wallet \<Rightarrow> service \<Rightarrow> service" where
  "writeBalanceCache r w s =
     (if \<not> rs_cache r then s
      else emit (CacheBalance (W_TelegramID w) (NanoToTON (W_TONBalance w)) (NanoToTON (W_Credit w))
             (NanoToTON (add64 (W_TONBalance w) (W_Credit w))) (NanoToTON (W_Frozen w)) (W_TONAddress w)) s)"

definition balance_error :: "go_error \<Rightarrow> BalanceResponse" where
  "balance_error e = \<lparr>BR_TelegramID = 0, BR_TONBalance = Fin 0, BR_Credit = Fin 0, BR_Total = Fin 0,
     BR_Frozen = Fin 0, BR_TONAddress = [], BR_Error = Some e\<rparr>"

definition handleBalance :: "responder \<Rightarrow> io \<Rightarrow> PayRequest option \<Rightarrow> service \<Rightarrow> BalanceResponse \<times> service" where
  "handleBalance r io data s =
     (case data of
        None \<Rightarrow> (balance_error bad_request, s)
      | Some req \<Rightarrow>
          if \<not> authorize r io (Q_ServiceID req) (Q_ServiceKey req) (sv_db s) then (balance_error unauthorized, s)
          else (case GetOrCreate (rs_cfg r) (io_shift 1 io) (Q_TelegramID req) s of
                  (Inl e, s1) \<Rightarrow> (balance_error e, s1)
                | (Inr w, s1) \<Rightarrow>
                    (\<lparr>BR_TelegramID = Q_TelegramID req, BR_TONBalance = NanoToTON (W_TONBalance w),
                      BR_Credit = NanoToTON (W_Credit w),
                      BR_Total = NanoToTON (add64 (W_TONBalance w) (W_Credit w)),
                      BR_Frozen = NanoToTON (W_Frozen w), BR_TONAddress = W_TONAddress w, BR_Error = None\<rparr>, s1)))"

definition invoice_error :: "go_error \<Rightarrow> InvoiceResponse" where
  "invoice_error e = \<lparr>IR_Code = [], IR_MasterAddress = [], IR_AmountTON = Fin 0, IR_ExpiresAt = 0, IR_Error = Some e\<rparr>"

definition handleCreateInvoice ::
  "responder \<Rightarrow> call_env \<Rightarrow> InvoiceRequest option \<Rightarrow> service \<Rightarrow> InvoiceResponse \<times> service" where
  "handleCreateInvoice r env data s =
     (case data of
        None \<Rightarrow> (invoice_error bad_request, s)
      | Some req \<Rightarrow>
          if \<not> authorize r (ce_io env) (Q_ServiceID req) (Q_ServiceKey req) (sv_db s)
          then (invoice_error unauthorized, s)
          else if \<not> validAmount (IQ_AmountTON req) then (invoice_error invalid_amount, s)
          else (case CreateDepositInvoice (rs_cfg r) (env\<lparr>ce_io := io_shift 1 (ce_io env)\<rparr>) (Q_TelegramID req)
                       (TONToNano (IQ_AmountTON req)) (Q_ServiceID req) (IQ_Ref req) s of
                  (Inl e, s1) \<Rightarrow> (invoice_error e, s1)
                | (Inr v, s1) \<Rightarrow>
                    (\<lparr>IR_Code = I_Code v, IR_MasterAddress = cfg_masterAddr (rs_cfg r),
                      IR_AmountTON = IQ_AmountTON req, IR_ExpiresAt = I_ExpiresAt v div 10 ^ 9, IR_Error = None\<rparr>, s1)))"

definition status_error :: "go_error option \<Rightarrow> InvoiceStatusResponse" where
  "status_error e = \<lparr>SR_Status = StatusNotFound, SR_AmountTON = Fin 0, SR_PaidTON = Fin 0, SR_ExpiresAt = 0, SR_Error = e\<rparr>"

definition invoice_status :: "time \<Rightarrow> Invoice \<Rightarrow> PayStatus" where
  "invoice_status now v =
     (if I_Status v = InvoicePaid then StatusPaid
      else if I_Status v = InvoiceExpired \<or> (I_Status v = InvoicePending \<and> I_ExpiresAt v < now) then StatusExpired
      else if 0 < I_ReceivedNano v \<and> 0 < I_Amount v \<and> I_ReceivedNano v < I_Amount v then StatusPartial
      else StatusPending)"

definition handleInvoiceStatus ::
  "responder \<Rightarrow> io \<Rightarrow> InvoiceStatusRequest option \<Rightarrow> service \<Rightarrow> InvoiceStatusResponse \<times> service" where
  "handleInvoiceStatus r io data s =
     (case data of
        None \<Rightarrow> (status_error (Some bad_request), s)
      | Some req \<Rightarrow>
          if \<not> authorize r io (Q_ServiceID req) (Q_ServiceKey req) (sv_db s) then (status_error (Some unauthorized), s)
          else (case FindInvoiceByCode (io_shift 1 io) (SQ_Code req) (sv_db s) of
                  Inl e \<Rightarrow> (status_error (Some e), s)
                | Inr None \<Rightarrow> (status_error None, s)
                | Inr (Some v) \<Rightarrow>
                    (\<lparr>SR_Status = invoice_status (io_now io 0) v, SR_AmountTON = NanoToTON (I_Amount v),
                      SR_PaidTON = NanoToTON (I_ReceivedNano v), SR_ExpiresAt = I_ExpiresAt v div 10 ^ 9,
                      SR_Error = None\<rparr>, s)))"

definition handleAuthorize :: "responder \<Rightarrow> io \<Rightarrow> PayRequest option \<Rightarrow> service \<Rightarrow> AuthorizeResponse \<times> service" where
  "handleAuthorize r io data s =
     (case data of
        None \<Rightarrow> (\<lparr>AR_Authorized = False, AR_Error = Some bad_request\<rparr>, s)
      | Some req \<Rightarrow>
          if \<not> authorize r io (Q_ServiceID req) (Q_ServiceKey req) (sv_db s)
          then (\<lparr>AR_Authorized = False, AR_Error = Some unauthorized\<rparr>, s)
          else (case GetOrCreate (rs_cfg r) (io_shift 1 io) (Q_TelegramID req) s of
                  (Inl e, s1) \<Rightarrow> (\<lparr>AR_Authorized = False, AR_Error = Some e\<rparr>, s1)
                | (Inr _, s1) \<Rightarrow> (\<lparr>AR_Authorized = True, AR_Error = None\<rparr>, s1)))"

definition deduct_error :: "go_error \<Rightarrow> ErrorCode \<Rightarrow> DeductResponse" where
  "deduct_error e c = \<lparr>DR_Success = False, DR_NewBalance = Fin 0, DR_Error = Some e, DR_Code = c\<rparr>"

text \<open>After a change of balance: read the wallet again, refresh the cache, tell everybody.\<close>

definition refresh_balance :: "responder \<Rightarrow> io \<Rightarrow> int64 \<Rightarrow> string \<Rightarrow> service \<Rightarrow> f64 \<times> service" where
  "refresh_balance r io telegramID reason s =
     (case GetOrCreate (rs_cfg r) io telegramID s of
        (Inr w, s1) \<Rightarrow>
          (NanoToTON (add64 (W_TONBalance w) (W_Credit w)),
           emit (PubWalletUpdated telegramID reason) (writeBalanceCache r w s1))
      | (Inl _, s1) \<Rightarrow> (Fin 0, emit (PubWalletUpdated telegramID reason) s1))"

definition deduct_ref :: "DeductRequest \<Rightarrow> string" where
  "deduct_ref req =
     (let ref = Q_Ref req;
          ref = (if ref = [] then Q_IdempotencyKey req else ref)
      in if ref = [] then Q_Reason req else ref)"

definition handleDeduct :: "responder \<Rightarrow> call_env \<Rightarrow> DeductRequest option \<Rightarrow> service \<Rightarrow> DeductResponse \<times> service" where
  "handleDeduct r env data s =
     (case data of
        None \<Rightarrow> (deduct_error bad_request ErrCodeNone, s)
      | Some req \<Rightarrow>
          if \<not> authorize r (ce_io env) (Q_ServiceID req) (Q_ServiceKey req) (sv_db s)
          then (deduct_error unauthorized ErrCodeUnauthorized, s)
          else if \<not> validAmount (Q_AmountTON req) then (deduct_error invalid_amount ErrCodeInternal, s)
          else (case Pay (rs_cfg r) (env\<lparr>ce_io := io_shift 1 (ce_io env)\<rparr>) (Q_TelegramID req)
                       (TONToNano (Q_AmountTON req)) (Q_ServiceID req) (deduct_ref req) (Q_Reason req) s of
                  (Inl e, s1) \<Rightarrow>
                    (deduct_error e (if errors_Is e ErrInsufficientBalance then ErrCodeInsufficientBalance
                                     else ErrCodeInternal), s1)
                | (Inr tx, s1) \<Rightarrow>
                    (let (newBal, s2) = refresh_balance r (io_shift 7 (ce_io env)) (Q_TelegramID req) ''payment'' s1
                     in (\<lparr>DR_Success = True, DR_NewBalance = newBal, DR_Error = None, DR_Code = ErrCodeNone\<rparr>,
                         emit (PubPayCompleted (Q_ServiceID req) (Q_TelegramID req) (Q_AmountTON req) (Q_Reason req)
                           (Q_Ref req) (Q_Metadata req) (T_ID tx)) s2))))"

definition handleCredit :: "responder \<Rightarrow> io \<Rightarrow> DeductRequest option \<Rightarrow> service \<Rightarrow> DeductResponse \<times> service" where
  "handleCredit r io data s =
     (case data of
        None \<Rightarrow> (deduct_error bad_request ErrCodeNone, s)
      | Some req \<Rightarrow>
          if \<not> authorize r io (Q_ServiceID req) (Q_ServiceKey req) (sv_db s)
          then (deduct_error unauthorized ErrCodeNone, s)
          else if \<not> validAmount (Q_AmountTON req) then (deduct_error invalid_amount ErrCodeNone, s)
          else (case GetOrCreate (rs_cfg r) (io_shift 1 io) (Q_TelegramID req) s of
                  (Inl e, s1) \<Rightarrow> (deduct_error e ErrCodeNone, s1)
                | (Inr w, s1) \<Rightarrow>
                    (case on_db (AddCredit (io_shift 4 io) (W_ID w) (TONToNano (Q_AmountTON req)) (Q_Reason req)) s1 of
                       (Inl e, s2) \<Rightarrow> (deduct_error e ErrCodeNone, s2)
                     | (Inr _, s2) \<Rightarrow>
                         (let (newBal, s3) = refresh_balance r (io_shift 7 io) (Q_TelegramID req) ''refund'' s2
                          in (\<lparr>DR_Success = True, DR_NewBalance = newBal, DR_Error = None, DR_Code = ErrCodeNone\<rparr>, s3)))))"

definition handleTransfer :: "responder \<Rightarrow> call_env \<Rightarrow> TransferRequest option \<Rightarrow> service \<Rightarrow> go_error option \<times> service" where
  "handleTransfer r env data s =
     (case data of
        None \<Rightarrow> (Some bad_request, s)
      | Some req \<Rightarrow>
          if \<not> authorize r (ce_io env) (Q_ServiceID req) (Q_ServiceKey req) (sv_db s) then (Some unauthorized, s)
          else if \<not> validAmount (TQ_AmountTON req) then (Some invalid_amount, s)
          else (case Service_Transfer (rs_cfg r) (env\<lparr>ce_io := io_shift 1 (ce_io env)\<rparr>) (Q_TelegramID req)
                       (TQ_ToTelegramID req) (TONToNano (TQ_AmountTON req)) (TQ_Desc req) s of
                  (Inl e, s1) \<Rightarrow> (Some e, s1)
                | (Inr _, s1) \<Rightarrow>
                    (None, emit (PubWalletUpdated (TQ_ToTelegramID req) ''transfer'')
                             (emit (PubWalletUpdated (Q_TelegramID req) ''transfer'') s1))))"

section \<open>The blockchain watcher (\<open>watcher.go\<close>)\<close>

record tonTx =
  X_Hash :: string
  X_Source :: string
  X_Value :: string
  X_Message :: string

text \<open>
  \<open>fmt.Sscanf(value, "%d", &n)\<close>: blanks are skipped, then an optional sign and digits; when they are
  missing or do not fit 64 bits, \<open>n\<close> keeps its zero.
\<close>

definition Sscanf_d :: "string \<Rightarrow> int64" where
  "Sscanf_d s =
     (let t = dropWhile (\<lambda>c. c = CHR '' '' \<or> c = char_of (9::nat)) s;
          (sg, u) = (case t of c # rest \<Rightarrow> if c = CHR ''-'' \<or> c = CHR ''+'' then ([c], rest) else ([], t) | [] \<Rightarrow> ([], []));
          digits = takeWhile is_dec_digit u
      in case ParseInt (sg @ digits) of Some n \<Rightarrow> n | None \<Rightarrow> 0)"

record watcher =
  wt_seen :: "string list"
  wt_service :: service

definition poll_tx :: "service_cfg \<Rightarrow> call_env \<Rightarrow> tonTx \<Rightarrow> watcher \<Rightarrow> watcher" where
  "poll_tx cfg env tx wt =
     (if X_Source tx = [] \<or> X_Value tx = ''0'' \<or> X_Value tx = [] then wt
      else if X_Hash tx \<in> set (wt_seen wt) then wt
      else let wt1 = wt\<lparr>wt_seen := X_Hash tx # wt_seen wt\<rparr>;
               amountNano = Sscanf_d (X_Value tx)
           in if amountNano \<le> 0 then wt1
              else let ev = \<lparr>V_WalletID = [], V_AmountNano = amountNano, V_AmountTON = NanoToTON amountNano,
                             V_TxHash = X_Hash tx, V_FromAddr = X_Source tx, V_InvoiceCode = X_Message tx\<rparr>
                   in wt1\<lparr>wt_service := snd (HandleDeposit cfg env ev (wt_service wt1))\<rparr>)"

definition poll :: "service_cfg \<Rightarrow> (nat \<Rightarrow> call_env) \<Rightarrow> go_error + tonTx list \<Rightarrow> watcher \<Rightarrow> watcher" where
  "poll cfg envs fetched wt =
     (case fetched of
        Inl _ \<Rightarrow> wt
      | Inr txs \<Rightarrow> fold (\<lambda>(i, tx). poll_tx cfg (envs i) tx) (enumerate 0 txs) wt)"

end
