(* ===== verification/PayResponderProps.thy ===== *)
theory PayResponderProps
  imports PayResponder
begin

text \<open>
  What the NATS face guarantees: amounts in bounds, forged requests without effect, and every handler
  and every poll of the blockchain a run of the store's steps.
\<close>

section \<open>Amounts\<close>

lemma validAmount_Fin:
  assumes "validAmount ton"
  obtains q where "ton = Fin q" "0 < q" "q \<le> 1000000"
  using assms by (cases ton) (auto simp: validAmount_def IsNaN_def IsInf_def split: if_splits)

lemma trunc_mul:
  fixes x :: rat
  assumes "0 \<le> x" "x \<le> 10 ^ 15"
  shows "f64_to_int (rnd x) = \<lfloor>rnd_val x\<rfloor>" "0 \<le> \<lfloor>rnd_val x\<rfloor>" "\<lfloor>rnd_val x\<rfloor> \<le> 10 ^ 15"
    "of_int \<lfloor>rnd_val x\<rfloor> \<le> x + 1 / 16" "x - 17 / 16 < of_int \<lfloor>rnd_val x\<rfloor>"
proof -
  have small: "\<bar>x\<bar> < 2 ^ 50" using assms by simp
  note err = rnd_val_small [OF small]
  show nn: "0 \<le> \<lfloor>rnd_val x\<rfloor>" using rnd_val_nonneg [OF assms(1)] by simp
  have "rnd_val x < 10 ^ 15 + 1" using err assms(2) by linarith
  then show le: "\<lfloor>rnd_val x\<rfloor> \<le> 10 ^ 15" by (simp add: floor_le_iff)
  have "in_int64 \<lfloor>rnd_val x\<rfloor>" using nn le by (simp add: in_int64_def)
  then show "f64_to_int (rnd x) = \<lfloor>rnd_val x\<rfloor>"
    using rnd_val_nonneg [OF assms(1)] by (simp add: rnd_small [OF small] rat_trunc_def)
  show "of_int \<lfloor>rnd_val x\<rfloor> \<le> x + 1 / 16" "x - 17 / 16 < of_int \<lfloor>rnd_val x\<rfloor>"
    using err of_int_floor_le [of "rnd_val x"] floor_correct [of "rnd_val x"] by linarith+
qed

text \<open>
  An amount that \<open>validAmount\<close> accepts converts to between zero and a million TON in nano units,
  and the conversion is off by less than two nano: no wrap-around and no negative amount reaches the
  store through the responder.
\<close>

theorem validAmount_bounds:
  assumes "validAmount ton"
  shows "\<exists>q. ton = Fin q \<and> 0 \<le> TONToNano ton \<and> TONToNano ton \<le> 10 ^ 15 \<and>
    \<bar>of_int (TONToNano ton) - q * 10 ^ 9\<bar> < 17 / 16"
proof -
  obtain q where q: "ton = Fin q" "0 < q" "q \<le> 1000000" by (rule validAmount_Fin [OF assms])
  then have x: "0 \<le> q * 10 ^ 9" "q * 10 ^ 9 \<le> 10 ^ 15" by simp_all
  have "TONToNano ton = \<lfloor>rnd_val (q * 10 ^ 9)\<rfloor>"
    using trunc_mul(1) [OF x] by (simp add: TONToNano_def q(1))
  with trunc_mul(2-5) [OF x] q(1) show ?thesis by (intro exI [of _ q]) (auto simp: abs_if)
qed

theorem validAmount_bounds_witness: "0 \<le> TONToNano (Fin (1 / 4)) \<and> TONToNano (Fin (1 / 4)) \<le> 10 ^ 15"
proof -
  have "validAmount (Fin (1 / 4))" by (simp add: validAmount_def IsNaN_def IsInf_def)
  from validAmount_bounds [OF this] show ?thesis by auto
qed

lemma nano_back:
  assumes "0 \<le> n" "n \<le> 10 ^ 15"
  shows "n - 1 \<le> TONToNano (NanoToTON n) \<and> TONToNano (NanoToTON n) \<le> n"
proof (cases "n = 0")
  case True
  then show ?thesis by (simp add: NanoToTON_def TONToNano_def f64_of_int_def rnd_def rat_trunc_def in_int64_def)
next
  case False
  let ?q = "of_int n / 10 ^ 9 :: rat"
  have n53: "\<bar>n\<bar> \<le> 2 ^ 53" using assms by simp
  have "1 \<le> n" using False assms(1) by simp
  then have nq: "(1::rat) \<le> of_int n" "(of_int n :: rat) \<le> 10 ^ 15"
    using assms(2) of_int_le_iff [where 'a = rat, of n "10 ^ 15"] by simp_all
  have "\<bar>?q\<bar> \<le> 1000000" using nq by (simp add: field_simps)
  then have small: "\<bar>?q\<bar> < 2 ^ 50" by (rule le_less_trans) simp
  have nt: "NanoToTON n = Fin (rnd_val ?q)"
    using rnd_small [OF small] by (simp add: NanoToTON_def f64_of_int_exact [OF n53])
  have "(2::rat) powi (-1022) \<le> 2 powi (-30)" by (simp only: powi_le_iff)
  also have "\<dots> \<le> \<bar>?q\<bar>" using nq(1) by (simp add: power_int_minus field_simps)
  finally have err: "\<bar>rnd_val ?q - ?q\<bar> \<le> \<bar>?q\<bar> / 2 ^ 53" by (rule rnd_val_error)
  let ?x = "rnd_val ?q * 10 ^ 9"
  have "\<bar>?x - of_int n\<bar> \<le> of_int n / 2 ^ 53"
  proof -
    have "?x - of_int n = (rnd_val ?q - ?q) * 10 ^ 9" by (simp add: left_diff_distrib)
    then have "\<bar>?x - of_int n\<bar> = \<bar>rnd_val ?q - ?q\<bar> * 10 ^ 9" by (simp only: abs_mult) simp
    also have "\<dots> \<le> \<bar>?q\<bar> / 2 ^ 53 * 10 ^ 9" using err by (intro mult_right_mono) simp_all
    also have "\<dots> = of_int n / 2 ^ 53" using nq(1) by simp
    finally show ?thesis .
  qed
  also have "\<dots> \<le> 1 / 8" using nq(2) by simp
  finally have x: "\<bar>?x - of_int n\<bar> \<le> 1 / 8" .
  have xs: "0 \<le> ?x" "\<bar>?x\<bar> < 2 ^ 50" using x nq by (auto simp: abs_if split: if_splits)
  have "f64_to_int (rnd ?x) = \<lfloor>rnd_val ?x\<rfloor>"
  proof -
    have "rnd_val ?x \<le> of_int n + 3 / 16" using rnd_val_small [OF xs(2)] x by linarith
    also have "\<dots> < 10 ^ 15 + 2" using nq(2) by linarith
    finally have "rnd_val ?x < of_int (10 ^ 15 + 1) + 1" by simp
    then have "\<lfloor>rnd_val ?x\<rfloor> \<le> 10 ^ 15 + 1" by (simp only: floor_le_iff)
    then show ?thesis
      using rnd_val_nonneg [OF xs(1)] rnd_small [OF xs(2)] by (simp add: rat_trunc_def in_int64_def)
  qed
  then have t: "TONToNano (NanoToTON n) = \<lfloor>rnd_val ?x\<rfloor>" by (simp add: TONToNano_def nt)
  have "rnd_val ?x < of_int n + 1" "of_int n - 1 \<le> rnd_val ?x" using rnd_val_small [OF xs(2)] x by linarith+
  then have "\<lfloor>rnd_val ?x\<rfloor> < n + 1" "n - 1 \<le> \<lfloor>rnd_val ?x\<rfloor>" by linarith+
  then show ?thesis by (simp add: t)
qed

text \<open>
  Nano amounts survive the way through JSON numbers up to one unit: converting up to a million
  TON to a float and back gives the same number of nano, or one less.
\<close>

theorem nano_roundtrip:
  assumes "0 \<le> n" "n \<le> 10 ^ 15"
  shows "n - 1 \<le> TONToNano (NanoToTON n) \<and> TONToNano (NanoToTON n) \<le> n"
  by (rule nano_back [OF assms])

theorem nano_roundtrip_witness: "TONToNano (NanoToTON 5000000007) \<in> {5000000006, 5000000007}"
  using nano_roundtrip [of 5000000007] by auto

section \<open>Authentication\<close>

text \<open>A request without the key that the master secret gives its service.\<close>

definition forged :: "responder \<Rightarrow> 'a PayRequest_scheme \<Rightarrow> bool" where
  "forged r req \<longleftrightarrow> rs_secret r = [] \<or>
     Q_ServiceKey req \<noteq> ComputeServiceKey (rs_hmac r) (rs_secret r) (Q_ServiceID req)"

lemma forged_refused: "forged r req \<Longrightarrow> \<not> authorize r io (Q_ServiceID req) (Q_ServiceKey req) db"
  by (auto simp: forged_def authorize_def ValidateServiceKey_def)

text \<open>
  (C36) The responder fails closed: a request that does not carry the right key for its service, or any
  request while no master secret is configured, is answered with \<open>unauthorized\<close> by every handler, and
  changes nothing: no wallet, no transaction, no invoice, no event.
\<close>

theorem forged_request_no_effect:
  assumes "forged r p" "forged r d" "forged r v" "forged r i" "forged r t"
  shows "handleBalance r io (Some p) s = (balance_error unauthorized, s) \<and>
    handleAuthorize r io (Some p) s = (\<lparr>AR_Authorized = False, AR_Error = Some unauthorized\<rparr>, s) \<and>
    handleDeduct r env (Some d) s = (deduct_error unauthorized ErrCodeUnauthorized, s) \<and>
    handleCredit r io (Some d) s = (deduct_error unauthorized ErrCodeNone, s) \<and>
    handleCreateInvoice r env (Some v) s = (invoice_error unauthorized, s) \<and>
    handleInvoiceStatus r io (Some i) s = (status_error (Some unauthorized), s) \<and>
    handleTransfer r env (Some t) s = (Some unauthorized, s)"
  using assms [THEN forged_refused]
  by (simp add: handleBalance_def handleAuthorize_def handleDeduct_def handleCredit_def handleCreateInvoice_def
      handleInvoiceStatus_def handleTransfer_def)

definition demo_responder :: responder where
  "demo_responder = \<lparr>rs_secret = ''s'', rs_hmac = (\<lambda>k m. k @ m), rs_cache = False, rs_cfg = demo_cfg\<rparr>"

definition forged_deduct :: DeductRequest where
  "forged_deduct = \<lparr>Q_ServiceID = ''botmanager'', Q_ServiceKey = ''guess'', Q_TelegramID = 42, Q_AmountTON = Fin 1,
     Q_Reason = ''plan'', Q_Ref = ''r'', Q_Metadata = [], Q_IdempotencyKey = []\<rparr>"

theorem forged_request_no_effect_witness:
  "snd (handleCredit demo_responder quiet_io (Some forged_deduct) demo_service) = demo_service"
proof -
  let ?p = "PayRequest.truncate forged_deduct"
  let ?v = "PayRequest.extend ?p (InvoiceRequest.fields (Fin 1) [])"
  let ?i = "PayRequest.extend ?p (InvoiceStatusRequest.fields [])"
  let ?t = "PayRequest.extend ?p (TransferRequest.fields 1 (Fin 1) [])"
  have "ComputeServiceKey (\<lambda>k m. k @ m) ''s'' ''botmanager'' \<noteq> ''guess''"
    by (simp add: ComputeServiceKey_def hexEncode_def)
  then have f: "forged demo_responder forged_deduct" "forged demo_responder ?p" "forged demo_responder ?v"
    "forged demo_responder ?i" "forged demo_responder ?t"
    by (simp_all add: forged_def demo_responder_def forged_deduct_def PayRequest.defs InvoiceRequest.defs
        InvoiceStatusRequest.defs TransferRequest.defs)
  from forged_request_no_effect [OF f(2,1,3-5), of quiet_io demo_service] show ?thesis by simp
qed

section \<open>Every request is a run of the store\<close>

lemma runs_emit [simp]: "sv_db (emit ev s) = sv_db s"
  by (simp add: emit_def)

lemma runs_cache [simp]: "sv_db (writeBalanceCache r w s) = sv_db s"
  by (simp add: writeBalanceCache_def)

lemma refresh_balance_runs: "runs s (snd (refresh_balance r io tg why s))"
  using GetOrCreate_runs [of s "rs_cfg r" io tg]
  by (auto simp: refresh_balance_def runs_def split: prod.splits sum.splits)

lemma handleBalance_runs: "runs s (snd (handleBalance r io d s))"
  using GetOrCreate_runs [of s "rs_cfg r" "io_shift 1 io"]
  by (auto simp: handleBalance_def case_prod_beta split: option.splits sum.splits)

lemma handleAuthorize_runs: "runs s (snd (handleAuthorize r io d s))"
  using GetOrCreate_runs [of s "rs_cfg r" "io_shift 1 io"]
  by (auto simp: handleAuthorize_def case_prod_beta split: option.splits sum.splits)

lemma handleInvoiceStatus_same: "snd (handleInvoiceStatus r io d s) = s"
  by (auto simp: handleInvoiceStatus_def split: option.splits sum.splits)

lemma handleCreateInvoice_runs: "runs s (snd (handleCreateInvoice r env d s))"
  by (auto simp: handleCreateInvoice_def case_prod_beta split: option.splits sum.splits intro: CreateDepositInvoice_runs)

lemma handleDeduct_runs: "runs s (snd (handleDeduct r env d s))"
proof -
  have "runs s (snd (refresh_balance r io tg why (snd (Pay cfg env' tg' a sid ref d' s))))"
    for r io tg why cfg env' tg' a sid ref d'
    by (rule runs_trans [OF Pay_runs refresh_balance_runs])
  then show ?thesis
    using Pay_runs [of s]
    by (auto simp: handleDeduct_def case_prod_beta Let_def runs_def split: option.splits sum.splits)
qed

lemma handleCredit_runs: "runs s (snd (handleCredit r io d s))"
proof -
  have c: "runs s (snd (on_db (AddCredit io1 i a why) (snd (GetOrCreate cfg io2 tg s))))" for io1 i a why cfg io2 tg
    by (rule runs_trans [OF GetOrCreate_runs runs_on_db]) (rule pay_step.step_credit)
  have "runs s (snd (refresh_balance r io3 tg3 why3 (snd (on_db (AddCredit io1 i a why) (snd (GetOrCreate cfg io2 tg s))))))"
    for r io3 tg3 why3 io1 i a why cfg io2 tg
    by (rule runs_trans [OF c refresh_balance_runs])
  with c GetOrCreate_runs [of s] show ?thesis
    by (auto simp: handleCredit_def case_prod_beta Let_def runs_def split: option.splits sum.splits)
qed

lemma handleTransfer_runs: "runs s (snd (handleTransfer r env d s))"
  using Service_Transfer_runs [of s]
  by (auto simp: handleTransfer_def case_prod_beta runs_def split: option.splits sum.splits)

lemma poll_tx_runs:
  assumes "aborts (io_shift 2 (ce_io env))"
  shows "runs (wt_service wt) (wt_service (poll_tx cfg env tx wt))"
  using HandleDeposit_runs [OF _ assms, of _ "wt_service wt" cfg]
  by (auto simp: poll_tx_def Let_def)

lemma poll_runs:
  assumes "\<And>i. aborts (io_shift 2 (ce_io (envs i)))"
  shows "runs (wt_service wt) (wt_service (poll cfg envs fetched wt))"
proof (cases fetched)
  case (Inr txs)
  have "runs (wt_service wt) (wt_service (fold (\<lambda>(i, tx). poll_tx cfg (envs i) tx) xs wt))" for xs
  proof (induction xs arbitrary: wt)
    case (Cons x xs)
    obtain i tx where "x = (i, tx)" by (cases x)
    then show ?case using runs_trans [OF poll_tx_runs [OF assms] Cons.IH] by simp
  qed simp
  with Inr show ?thesis by (simp add: poll_def)
qed (simp add: poll_def)

section \<open>The watcher\<close>

lemma poll_tx_seen: "h \<in> set (wt_seen wt) \<Longrightarrow> h \<in> set (wt_seen (poll_tx cfg env tx wt))"
  by (auto simp: poll_tx_def Let_def)

lemma poll_seen: "h \<in> set (wt_seen wt) \<Longrightarrow> h \<in> set (wt_seen (poll cfg envs fetched wt))"
proof (cases fetched)
  case (Inr txs)
  assume h: "h \<in> set (wt_seen wt)"
  have "h \<in> set (wt_seen (fold (\<lambda>(i, tx). poll_tx cfg (envs i) tx) xs wt))" for xs
    using h by (induction xs arbitrary: wt) (auto intro: poll_tx_seen)
  with Inr show ?thesis by (simp add: poll_def)
qed (simp add: poll_def)

text \<open>
  The watcher hands a blockchain transaction to the deposit handler at most once: after it has
  come across an incoming transaction, and whatever it polls afterwards, it passes over every
  transaction with the same hash without any effect, also when the handler failed the first time.
\<close>

theorem watcher_handles_once:
  assumes "X_Source tx \<noteq> []" "X_Value tx \<noteq> ''0''" "X_Value tx \<noteq> []" "X_Hash tx' = X_Hash tx"
    and "wt' = poll cfg envs fetched (poll_tx cfg env tx wt)"
  shows "poll_tx cfg env' tx' wt' = wt'"
proof -
  have "X_Hash tx \<in> set (wt_seen (poll_tx cfg env tx wt))"
    using assms(1-3) by (auto simp: poll_tx_def Let_def)
  then have "X_Hash tx' \<in> set (wt_seen wt')" using poll_seen assms(4,5) by metis
  then show ?thesis by (simp add: poll_tx_def)
qed

definition demo_ton_tx :: tonTx where
  "demo_ton_tx = \<lparr>X_Hash = ''0123456789'', X_Source = ''EQ'', X_Value = ''77'', X_Message = ''u_16''\<rparr>"

theorem watcher_handles_once_witness:
  "poll_tx demo_cfg demo_env demo_ton_tx (poll_tx demo_cfg broken_env demo_ton_tx \<lparr>wt_seen = [], wt_service = demo_service\<rparr>) =
   poll_tx demo_cfg broken_env demo_ton_tx \<lparr>wt_seen = [], wt_service = demo_service\<rparr>"
  by (rule watcher_handles_once [where fetched = "Inr []" and tx = demo_ton_tx and wt = "\<lparr>wt_seen = [], wt_service = demo_service\<rparr>"
        and env = broken_env])
    (simp_all add: demo_ton_tx_def poll_def)

end
