(* ===== verification/PayBot.thy ===== *)
theory PayBot
  imports PayResponderProps
begin

text \<open>
  The Telegram bot of botpay (\<open>botpay/internal/tgbot\<close>): conversation states, user handlers, admin
  handlers, callbacks and keyboards. A handler returns what it sends, in order, and the new state. A
  text is its translation key with its arguments (\<open>i18n.T\<close>); only the comparisons of button labels
  need the translated strings, which come from the bundles. \<open>strconv.ParseFloat\<close> and \<open>uuid.Parse\<close>
  are fields of the handler. Every handler runs to its end before the next one.
\<close>

section \<open>Contexts, texts and keyboards\<close>

record user =
  U_ID :: int64
  U_FirstName :: string
  U_LanguageCode :: string

record tele_ctx =
  c_Sender :: "user option"
  c_Text :: string
  c_Payload :: string
  c_Data :: string

datatype msg = Msg Lang string "msg_arg list" | Raw string | Cat "msg list"
  and msg_arg = Val fmt_arg | Txt msg | Err go_error

datatype button = BText msg | BData msg string | BURL msg string

type_synonym keyboard = "button list list"

datatype reply = Send msg keyboard | Edit msg keyboard | Respond msg | Panic

abbreviation argI :: "int \<Rightarrow> msg_arg" where "argI i \<equiv> Val (ArgInt i)"
abbreviation argS :: "string \<Rightarrow> msg_arg" where "argS s \<equiv> Val (ArgStr s)"
abbreviation argF :: "f64 \<Rightarrow> msg_arg" where "argF x \<equiv> Val (ArgF64 x)"

definition kbMain :: "Lang \<Rightarrow> keyboard" where
  "kbMain lang =
     [[BText (Msg lang ''btn.wallet'' [])],
      [BText (Msg lang ''btn.deposit'' []), BText (Msg lang ''btn.withdraw'' [])],
      [BText (Msg lang ''btn.transfer'' []), BText (Msg lang ''btn.history'' [])],
      [BText (Msg lang ''btn.help'' []), BText (Msg lang ''btn.language'' [])]]"

definition kbCancelOnly :: "Lang \<Rightarrow> keyboard" where
  "kbCancelOnly lang = [[BText (Msg lang ''btn.cancel'' [])]]"

fun Name :: "Lang \<Rightarrow> string" where
  "Name FA = utf8 [0xF0, 0x9F, 0x87, 0xAE, 0xF0, 0x9F, 0x87, 0xB7, 0x20,
                   0xD9, 0x81, 0xD8, 0xA7, 0xD8, 0xB1, 0xD8, 0xB3, 0xDB, 0x8C]"
| "Name EN = utf8 [0xF0, 0x9F, 0x87, 0xAC, 0xF0, 0x9F, 0x87, 0xA7, 0x20] @ ''English''"

definition kbLanguage :: keyboard where
  "kbLanguage = map (\<lambda>l. [BData (Raw (Name l)) (''set_lang:'' @ Lang_code l)]) supported"

definition kbDeposit :: "Lang \<Rightarrow> string \<Rightarrow> string \<Rightarrow> keyboard" where
  "kbDeposit lang payURL code =
     [[BURL (Msg lang ''btn.open_wallet'' []) payURL],
      [BData (Msg lang ''btn.check_deposit'' []) (''check_deposit:'' @ code)]]"

definition kbAdminMenu :: "Lang \<Rightarrow> keyboard" where
  "kbAdminMenu lang =
     [[BData (Msg lang ''btn.admin_withdraws'' []) ''adm:withdraws''],
      [BData (Msg lang ''btn.admin_credit'' []) ''adm:credit'',
       BData (Msg lang ''btn.admin_refresh'' []) ''adm:stats'']]"

definition kbWithdrawList :: "Lang \<Rightarrow> WithdrawRequest list \<Rightarrow> keyboard" where
  "kbWithdrawList lang reqs =
     map (\<lambda>r. let i = R_ID r; short = (if 6 < length i then take 6 i else i)
              in [BData (Raw (utf8 [0xE2, 0x9C, 0x85, 0x20] @ short)) (''wd:approve:'' @ i),
                  BData (Raw (utf8 [0xF0, 0x9F, 0x9A, 0xAB, 0x20] @ short)) (''wd:reject:'' @ i)]) reqs @
     [[BData (Msg lang ''btn.admin_back'' []) ''adm:menu'']]"

text \<open>The creation time is an argument that the message renders as \<open>01/02 15:04\<close>.\<close>

definition adminWithdrawText :: "Lang \<Rightarrow> WithdrawRequest \<Rightarrow> msg" where
  "adminWithdrawText lang r =
     Msg lang ''admin.withdraw_item''
       [argS (R_ID r), argF (NanoToTON (R_Amount r)), argF (NanoToTON (R_Fee r)), argS (R_ToAddress r),
        argI (R_CreatedAt r)]"

section \<open>Conversations (\<open>state.go\<close>)\<close>

datatype convKind = kindNone | kindWithdraw | kindTransfer | kindAdminApprove | kindAdminReject | kindAdminCredit

record convState =
  cs_kind :: convKind
  cs_step :: string
  cs_addr :: string
  cs_toID :: int64
  cs_arg :: string

definition conv :: "convKind \<Rightarrow> string \<Rightarrow> convState" where
  "conv k st = \<lparr>cs_kind = k, cs_step = st, cs_addr = [], cs_toID = 0, cs_arg = []\<rparr>"

type_synonym stateStore = "int64 \<rightharpoonup> convState"

record bot =
  b_service :: service
  b_states :: stateStore

type_synonym handler = "bot \<Rightarrow> reply list \<times> bot"

definition states_get :: "int64 \<Rightarrow> bot \<Rightarrow> convState option" where
  "states_get uid b = b_states b uid"

definition states_set :: "int64 \<Rightarrow> convState \<Rightarrow> bot \<Rightarrow> bot" where
  "states_set uid st b = b\<lparr>b_states := (b_states b)(uid \<mapsto> st)\<rparr>"

definition states_del :: "int64 \<Rightarrow> bot \<Rightarrow> bot" where
  "states_del uid b = b\<lparr>b_states := (b_states b)(uid := None)\<rparr>"

section \<open>The handler (\<open>bot.go\<close>)\<close>

record handler_cfg =
  h_cfg :: service_cfg
  h_ownerID :: int64
  h_defaultLang :: Lang
  h_bundles :: "Lang \<Rightarrow> string \<Rightarrow> string option"
  h_ParseFloat :: "string \<Rightarrow> f64 option"
  h_uuidParse :: "string \<Rightarrow> uuid option"

text \<open>\<open>i18n.T\<close> without arguments; the default language of the package is the one of the service.\<close>

definition i18n_T :: "handler_cfg \<Rightarrow> Lang \<Rightarrow> string \<Rightarrow> string" where
  "i18n_T h lang key =
     (case h_bundles h lang key of
        Some tpl \<Rightarrow> tpl
      | None \<Rightarrow> (case h_bundles h (cfg_lang (h_cfg h)) key of Some tpl \<Rightarrow> tpl | None \<Rightarrow> key))"

definition isCancel :: "handler_cfg \<Rightarrow> string \<Rightarrow> bool" where
  "isCancel h text = (if text = ''/cancel'' then True else list_ex (\<lambda>l. text = i18n_T h l ''btn.cancel'') supported)"

definition isAdmin :: "handler_cfg \<Rightarrow> tele_ctx \<Rightarrow> bool" where
  "isAdmin h c = (case c_Sender c of None \<Rightarrow> False | Some u \<Rightarrow> U_ID u = h_ownerID h)"

definition langOf :: "handler_cfg \<Rightarrow> io \<Rightarrow> tele_ctx \<Rightarrow> bot \<Rightarrow> Lang" where
  "langOf h io c b =
     (case c_Sender c of
        None \<Rightarrow> h_defaultLang h
      | Some u \<Rightarrow>
          (let guess = (if U_LanguageCode u \<noteq> []
                        then (case Parse (U_LanguageCode u) of Some l \<Rightarrow> l | None \<Rightarrow> h_defaultLang h)
                        else h_defaultLang h)
           in case GetWallet io (U_ID u) (sv_db (b_service b)) of
                Inr (Some w) \<Rightarrow> (if W_Lang w \<noteq> [] then Normalize (cfg_lang (h_cfg h)) (W_Lang w) else guess)
              | _ \<Rightarrow> guess))"

text \<open>\<open>c.Sender().ID\<close> panics without a sender; telebot recovers the handler.\<close>

definition with_sender :: "tele_ctx \<Rightarrow> (user \<Rightarrow> handler) \<Rightarrow> handler" where
  "with_sender c k b = (case c_Sender c of None \<Rightarrow> ([Panic], b) | Some u \<Rightarrow> k u b)"

definition svc :: "'a op \<Rightarrow> bot \<Rightarrow> (go_error + 'a) \<times> bot" where
  "svc f b = (let (r, s) = f (b_service b) in (r, b\<lparr>b_service := s\<rparr>))"

abbreviation wallet_of :: "handler_cfg \<Rightarrow> io \<Rightarrow> int64 \<Rightarrow> bot \<Rightarrow> (go_error + Wallet) \<times> bot" where
  "wallet_of h io tg \<equiv> svc (GetOrCreate (h_cfg h) io tg)"

section \<open>User handlers (\<open>handlers_user.go\<close>)\<close>

definition start_msg :: "Lang \<Rightarrow> user \<Rightarrow> Wallet \<Rightarrow> msg" where
  "start_msg lang u w = Msg lang ''start.body''
     [argS (U_FirstName u), argF (BalanceTON w), argF (CreditTON w), argF (TotalTON w)]"

definition onStart :: "handler_cfg \<Rightarrow> call_env \<Rightarrow> tele_ctx \<Rightarrow> handler" where
  "onStart h env c b =
     (let lang = langOf h (ce_io env) c b
      in with_sender c (\<lambda>u b.
           case wallet_of h (io_shift 1 (ce_io env)) (U_ID u) b of
             (Inl e, b1) \<Rightarrow> ([Send (Msg lang ''err.generic'' []) []], b1)
           | (Inr w, b1) \<Rightarrow> ([Send (start_msg lang u w) (kbMain lang)], b1)) b)"

definition onWallet :: "handler_cfg \<Rightarrow> call_env \<Rightarrow> tele_ctx \<Rightarrow> handler" where
  "onWallet h env c b =
     (let lang = langOf h (ce_io env) c b
      in with_sender c (\<lambda>u b.
           case wallet_of h (io_shift 1 (ce_io env)) (U_ID u) b of
             (Inl e, b1) \<Rightarrow> ([Send (Msg lang ''err.generic'' []) (kbMain lang)], b1)
           | (Inr w, b1) \<Rightarrow>
               (let frozen = (if 0 < W_Frozen w then Msg lang ''wallet.frozen_line'' [argF (NanoToTON (W_Frozen w))]
                              else Raw [])
                in ([Send (Msg lang ''wallet.body'' [argF (BalanceTON w), argF (CreditTON w), argF (TotalTON w),
                       Txt frozen, argS (W_TONAddress w), argS (W_PayHandle w)]) (kbMain lang)], b1))) b)"

definition onDeposit :: "handler_cfg \<Rightarrow> call_env \<Rightarrow> tele_ctx \<Rightarrow> handler" where
  "onDeposit h env c b =
     (let lang = langOf h (ce_io env) c b
      in with_sender c (\<lambda>u b.
           case svc (DepositInstructions (h_cfg h) (env\<lparr>ce_io := io_shift 1 (ce_io env)\<rparr>) (U_ID u) 0
                       ''manual'' ''direct'') b of
             (Inl e, b1) \<Rightarrow> ([Send (Msg lang ''deposit.error'' []) (kbMain lang)], b1)
           | (Inr (code, payURL), b1) \<Rightarrow>
               ([Send (Msg lang ''deposit.body'' [argS code]) (kbDeposit lang payURL code)], b1)) b)"

definition onWithdraw :: "handler_cfg \<Rightarrow> call_env \<Rightarrow> tele_ctx \<Rightarrow> handler" where
  "onWithdraw h env c b =
     (let lang = langOf h (ce_io env) c b
      in with_sender c (\<lambda>u b.
           case wallet_of h (io_shift 1 (ce_io env)) (U_ID u) b of
             (Inl e, b1) \<Rightarrow> ([Send (Msg lang ''err.generic'' []) (kbMain lang)], b1)
           | (Inr w, b1) \<Rightarrow>
               (let minTON = NanoToTON MinWithdrawNano; feeTON = NanoToTON NetworkFeeNano
                in if f64_lt (TotalTON w) (f64_add minTON feeTON)
                   then ([Send (Msg lang ''withdraw.insufficient'' [argF minTON, argF feeTON]) (kbMain lang)], b1)
                   else ([Send (Msg lang ''withdraw.ask_addr'' [argF (TotalTON w), argF feeTON]) (kbCancelOnly lang)],
                         states_set (U_ID u) (conv kindWithdraw ''addr'') b1))) b)"

text \<open>
  \<open>[]rune(s)\<close>: the length of the UTF-8 sequence at the front, 0 when it is not valid; an invalid byte
  decodes to U+FFFD.
\<close>

definition byte_in :: "nat \<Rightarrow> nat \<Rightarrow> string \<Rightarrow> nat \<Rightarrow> bool" where
  "byte_in lo hi s i \<longleftrightarrow> i < length s \<and> lo \<le> of_char (s ! i) \<and> of_char (s ! i) \<le> hi"

definition rune_len :: "string \<Rightarrow> nat" where
  "rune_len s =
     (if byte_in 0 0x7F s 0 then 1
      else if byte_in 0xC2 0xDF s 0 \<and> byte_in 0x80 0xBF s 1 then 2
      else if (byte_in 0xE0 0xE0 s 0 \<and> byte_in 0xA0 0xBF s 1 \<or> byte_in 0xE1 0xEC s 0 \<and> byte_in 0x80 0xBF s 1 \<or>
               byte_in 0xED 0xED s 0 \<and> byte_in 0x80 0x9F s 1 \<or> byte_in 0xEE 0xEF s 0 \<and> byte_in 0x80 0xBF s 1) \<and>
              byte_in 0x80 0xBF s 2 then 3
      else if (byte_in 0xF0 0xF0 s 0 \<and> byte_in 0x90 0xBF s 1 \<or> byte_in 0xF1 0xF3 s 0 \<and> byte_in 0x80 0xBF s 1 \<or>
               byte_in 0xF4 0xF4 s 0 \<and> byte_in 0x80 0x8F s 1) \<and>
              byte_in 0x80 0xBF s 2 \<and> byte_in 0x80 0xBF s 3 then 4
      else 0)"

function runes :: "string \<Rightarrow> string list" where
  "runes [] = []"
| "runes (c # cs) =
     (let k = rune_len (c # cs)
      in if k = 0 then utf8 [0xEF, 0xBF, 0xBD] # runes cs else take k (c # cs) # runes (drop (k - 1) cs))"
  by pat_completeness auto
termination by (relation "measure length") auto

definition truncate :: "string \<Rightarrow> nat \<Rightarrow> string" where
  "truncate s n = (let r = runes s in if length r \<le> n then s else concat (take n r) @ ''...'')"

text \<open>The last case of \<open>txMeta\<close> is for a type that is none of the constants.\<close>

fun txMeta :: "TxType \<Rightarrow> string \<times> string" where
  "txMeta TxDeposit = (utf8 [0xF0, 0x9F, 0x93, 0xA5], ''tx.deposit'')"
| "txMeta TxWithdraw = (utf8 [0xF0, 0x9F, 0x93, 0xA4], ''tx.withdraw'')"
| "txMeta TxCreditAdd = (utf8 [0xF0, 0x9F, 0x8E, 0x81], ''tx.credit_add'')"
| "txMeta TxPayment = (utf8 [0xF0, 0x9F, 0x92, 0xB8], ''tx.payment'')"
| "txMeta TxRefund = (utf8 [0xE2, 0x86, 0xA9, 0xEF, 0xB8, 0x8F], ''tx.refund'')"

definition history_line :: "handler_cfg \<Rightarrow> Lang \<Rightarrow> Transaction \<Rightarrow> msg" where
  "history_line h lang tx =
     (let (icon, labelKey) = txMeta (T_Type tx);
          amt = NanoToTON (T_Amount tx);
          (sign, amt) = (if f64_lt amt (Fin 0) then ('''', f64_neg amt) else (''+'', amt));
          status = (if T_Status tx = TxPending then utf8 [0x20, 0xE2, 0x8F, 0xB3] else '''');
          desc = (if T_Description tx = [] then i18n_T h lang labelKey else T_Description tx);
          desc = truncate desc 25
      in Msg lang ''history.line'' [argS icon, argS sign, argF amt, argS status, argI (T_CreatedAt tx), argS desc])"

definition onHistory :: "handler_cfg \<Rightarrow> call_env \<Rightarrow> tele_ctx \<Rightarrow> handler" where
  "onHistory h env c b =
     (let lang = langOf h (ce_io env) c b
      in with_sender c (\<lambda>u b.
           case wallet_of h (io_shift 1 (ce_io env)) (U_ID u) b of
             (Inl e, b1) \<Rightarrow> ([Send (Msg lang ''err.generic'' []) (kbMain lang)], b1)
           | (Inr w, b1) \<Rightarrow>
               (case ListTransactions (io_shift 4 (ce_io env)) (W_ID w) 15 (sv_db (b_service b1)) of
                  Inl e \<Rightarrow> ([Send (Msg lang ''history.empty'' []) (kbMain lang)], b1)
                | Inr txs \<Rightarrow>
                    if txs = [] then ([Send (Msg lang ''history.empty'' []) (kbMain lang)], b1)
                    else ([Send (Cat (Msg lang ''history.title'' [] #
                             concat (map (\<lambda>tx. [Raw [CHR 0x0A], history_line h lang tx]) txs))) (kbMain lang)], b1))) b)"

definition onHelp :: "handler_cfg \<Rightarrow> call_env \<Rightarrow> tele_ctx \<Rightarrow> handler" where
  "onHelp h env c b =
     (let lang = langOf h (ce_io env) c b in ([Send (Msg lang ''help.body'' []) (kbMain lang)], b))"

definition onTransfer :: "handler_cfg \<Rightarrow> call_env \<Rightarrow> tele_ctx \<Rightarrow> handler" where
  "onTransfer h env c b =
     (let lang = langOf h (ce_io env) c b
      in with_sender c (\<lambda>u b.
           case wallet_of h (io_shift 1 (ce_io env)) (U_ID u) b of
             (Inl e, b1) \<Rightarrow> ([Send (Msg lang ''err.generic'' []) (kbMain lang)], b1)
           | (Inr w, b1) \<Rightarrow>
               if f64_le (TotalTON w) (Fin 0)
               then ([Send (Msg lang ''transfer.insufficient'' []) (kbMain lang)], b1)
               else ([Send (Msg lang ''transfer.ask_id'' []) (kbCancelOnly lang)],
                     states_set (U_ID u) (conv kindTransfer ''to_id'') b1)) b)"

section \<open>Languages (\<open>lang.go\<close>)\<close>

definition onLanguage :: "handler_cfg \<Rightarrow> call_env \<Rightarrow> tele_ctx \<Rightarrow> handler" where
  "onLanguage h env c b =
     (let lang = langOf h (ce_io env) c b in ([Send (Msg lang ''language.ask'' []) kbLanguage], b))"

definition onSetLang :: "handler_cfg \<Rightarrow> call_env \<Rightarrow> tele_ctx \<Rightarrow> string \<Rightarrow> handler" where
  "onSetLang h env c code b =
     (case Parse code of
        None \<Rightarrow> ([], b)
      | Some lang \<Rightarrow> with_sender c (\<lambda>u b.
          case wallet_of h (ce_io env) (U_ID u) b of
            (Inl e, b1) \<Rightarrow> ([Respond (Msg lang ''err.generic'' [])], b1)
          | (Inr w, b1) \<Rightarrow>
              (case svc (on_db (SetWalletLang (io_shift 3 (ce_io env)) (U_ID u) (Lang_code lang))) b1 of
                 (Inl e, b2) \<Rightarrow> ([Respond (Msg lang ''err.generic'' [])], b2)
               | (Inr _, b2) \<Rightarrow>
                   ([Edit (Msg lang ''language.changed'' []) [], Send (start_msg lang u w) (kbMain lang)], b2))) b)"

section \<open>The admin panel (\<open>handlers_admin.go\<close>)\<close>

definition adminStatsText :: "io \<Rightarrow> Lang \<Rightarrow> pay_db \<Rightarrow> msg" where
  "adminStatsText io lang db =
     (let stats = GetStats io db;
          pending = (case ListPendingWithdrawals (io_shift 4 io) db of Inr rs \<Rightarrow> rs | Inl _ \<Rightarrow> [])
      in Msg lang ''admin.stats'' [argI (TotalWallets stats), argF (TotalDeposits stats),
           argF (TotalPayments stats), argI (int (length pending))])"

definition onAdmin :: "handler_cfg \<Rightarrow> call_env \<Rightarrow> tele_ctx \<Rightarrow> handler" where
  "onAdmin h env c b =
     (if \<not> isAdmin h c then ([], b)
      else (let lang = langOf h (ce_io env) c b
            in ([Send (adminStatsText (io_shift 1 (ce_io env)) lang (sv_db (b_service b))) (kbAdminMenu lang)], b)))"

definition onAdminHome :: "handler_cfg \<Rightarrow> call_env \<Rightarrow> tele_ctx \<Rightarrow> handler" where
  "onAdminHome h env c b =
     (let lang = langOf h (ce_io env) c b
      in ([Edit (adminStatsText (io_shift 1 (ce_io env)) lang (sv_db (b_service b))) (kbAdminMenu lang)], b))"

text \<open>The list that both the callback and the command show, an error reading as no request.\<close>

definition pending_list :: "io \<Rightarrow> bot \<Rightarrow> WithdrawRequest list" where
  "pending_list io b = (case ListPendingWithdrawals io (sv_db (b_service b)) of Inr rs \<Rightarrow> rs | Inl _ \<Rightarrow> [])"

definition withdraws_msg :: "Lang \<Rightarrow> WithdrawRequest list \<Rightarrow> msg" where
  "withdraws_msg lang reqs =
     Cat (Msg lang ''admin.withdraws_title'' [argI (int (length reqs))] #
       concat (map (\<lambda>r. [Raw [CHR 0x0A], adminWithdrawText lang r, Raw [CHR 0x0A]]) reqs))"

definition onAdminWithdrawsList :: "handler_cfg \<Rightarrow> call_env \<Rightarrow> tele_ctx \<Rightarrow> handler" where
  "onAdminWithdrawsList h env c b =
     (let lang = langOf h (ce_io env) c b; reqs = pending_list (io_shift 1 (ce_io env)) b
      in if reqs = [] then ([Edit (Msg lang ''admin.no_withdraws'' []) (kbAdminMenu lang)], b)
         else ([Edit (withdraws_msg lang reqs) (kbWithdrawList lang reqs)], b))"

definition onAdminCreditStart :: "handler_cfg \<Rightarrow> call_env \<Rightarrow> tele_ctx \<Rightarrow> handler" where
  "onAdminCreditStart h env c b =
     (let lang = langOf h (ce_io env) c b
      in with_sender c (\<lambda>u b.
           ([Send (Msg lang ''admin.ask_credit_userid'' []) (kbCancelOnly lang)],
            states_set (U_ID u) (conv kindAdminCredit ''user_id'') b)) b)"

definition onAdminApproveStart :: "handler_cfg \<Rightarrow> call_env \<Rightarrow> tele_ctx \<Rightarrow> string \<Rightarrow> handler" where
  "onAdminApproveStart h env c i b =
     (let lang = langOf h (ce_io env) c b
      in if h_uuidParse h i = None then ([Respond (Msg lang ''admin.bad_id'' [])], b)
         else with_sender c (\<lambda>u b.
           ([Send (Msg lang ''admin.ask_txhash'' [argS i]) (kbCancelOnly lang)],
            states_set (U_ID u) ((conv kindAdminApprove [])\<lparr>cs_arg := i\<rparr>) b)) b)"

definition onAdminRejectStart :: "handler_cfg \<Rightarrow> call_env \<Rightarrow> tele_ctx \<Rightarrow> string \<Rightarrow> handler" where
  "onAdminRejectStart h env c i b =
     (let lang = langOf h (ce_io env) c b
      in if h_uuidParse h i = None then ([Respond (Msg lang ''admin.bad_id'' [])], b)
         else with_sender c (\<lambda>u b.
           ([Send (Msg lang ''admin.ask_reason'' [argS i]) (kbCancelOnly lang)],
            states_set (U_ID u) ((conv kindAdminReject [])\<lparr>cs_arg := i\<rparr>) b)) b)"

text \<open>What every conversation step does with a cancellation.\<close>

definition cancelled :: "Lang \<Rightarrow> int64 \<Rightarrow> handler" where
  "cancelled lang uid b = ([Send (Msg lang ''common.cancelled'' []) (kbMain lang)], states_del uid b)"

definition handleAdminApprove :: "handler_cfg \<Rightarrow> io \<Rightarrow> Lang \<Rightarrow> int64 \<Rightarrow> convState \<Rightarrow> string \<Rightarrow> handler" where
  "handleAdminApprove h io lang uid st text b =
     (if isCancel h text then cancelled lang uid b
      else case h_uuidParse h (cs_arg st) of
        None \<Rightarrow> ([Send (Msg lang ''admin.bad_id'' []) (kbMain lang)], states_del uid b)
      | Some withdrawID \<Rightarrow>
          (case svc (on_db (CompleteWithdraw io withdrawID (TrimSpace text))) (states_del uid b) of
             (Inl e, b1) \<Rightarrow> ([Send (Msg lang ''admin.error'' [Err e]) (kbMain lang)], b1)
           | (Inr _, b1) \<Rightarrow> ([Send (Msg lang ''admin.approved'' [argS (cs_arg st)]) (kbMain lang)], b1)))"

definition handleAdminReject :: "handler_cfg \<Rightarrow> io \<Rightarrow> Lang \<Rightarrow> int64 \<Rightarrow> convState \<Rightarrow> string \<Rightarrow> handler" where
  "handleAdminReject h io lang uid st text b =
     (if isCancel h text then cancelled lang uid b
      else case h_uuidParse h (cs_arg st) of
        None \<Rightarrow> ([Send (Msg lang ''admin.bad_id'' []) (kbMain lang)], states_del uid b)
      | Some withdrawID \<Rightarrow>
          (case svc (on_db (RejectWithdraw io withdrawID (TrimSpace text))) (states_del uid b) of
             (Inl e, b1) \<Rightarrow> ([Send (Msg lang ''admin.error'' [Err e]) (kbMain lang)], b1)
           | (Inr _, b1) \<Rightarrow> ([Send (Msg lang ''admin.rejected'' [argS (cs_arg st)]) (kbMain lang)], b1)))"

text \<open>\<open>err != nil || amt <= 0\<close> of a text that \<open>ParseFloat\<close> reads; a NaN is not \<open><= 0\<close>.\<close>

definition amount_of :: "handler_cfg \<Rightarrow> string \<Rightarrow> f64 option" where
  "amount_of h text =
     (case h_ParseFloat h text of None \<Rightarrow> None | Some amt \<Rightarrow> if f64_le amt (Fin 0) then None else Some amt)"

definition handleAdminCredit :: "handler_cfg \<Rightarrow> io \<Rightarrow> Lang \<Rightarrow> int64 \<Rightarrow> convState \<Rightarrow> string \<Rightarrow> handler" where
  "handleAdminCredit h io lang uid st text b =
     (if isCancel h text then cancelled lang uid b
      else if cs_step st = ''user_id'' then
        (case ParseInt (TrimSpace text) of
           None \<Rightarrow> ([Send (Msg lang ''admin.bad_param'' []) (kbCancelOnly lang)], b)
         | Some toID \<Rightarrow>
             if toID = 0 then ([Send (Msg lang ''admin.bad_param'' []) (kbCancelOnly lang)], b)
             else ([Send (Msg lang ''admin.ask_credit_amount'' [argI toID]) (kbCancelOnly lang)],
                   states_set uid (st\<lparr>cs_toID := toID, cs_step := ''amount''\<rparr>) b))
      else if cs_step st = ''amount'' then
        (case amount_of h (TrimSpace text) of
           None \<Rightarrow> ([Send (Msg lang ''admin.bad_param'' []) (kbCancelOnly lang)], b)
         | Some amt \<Rightarrow>
             (case wallet_of h io (cs_toID st) (states_del uid b) of
                (Inl e, b1) \<Rightarrow> ([Send (Msg lang ''admin.wallet_not_found'' []) (kbMain lang)], b1)
              | (Inr w, b1) \<Rightarrow>
                  (case svc (on_db (AddCredit (io_shift 3 io) (W_ID w) (TONToNano amt) [])) b1 of
                     (Inl e, b2) \<Rightarrow> ([Send (Msg lang ''admin.error'' [Err e]) (kbMain lang)], b2)
                   | (Inr _, b2) \<Rightarrow>
                       ([Send (Msg lang ''admin.credit_added'' [argF amt, argI (cs_toID st)]) (kbMain lang)], b2))))
      else ([], b))"

definition onAdminWithdraws :: "handler_cfg \<Rightarrow> call_env \<Rightarrow> tele_ctx \<Rightarrow> handler" where
  "onAdminWithdraws h env c b =
     (if \<not> isAdmin h c then ([], b)
      else (let lang = langOf h (ce_io env) c b; reqs = pending_list (io_shift 1 (ce_io env)) b
            in if reqs = [] then ([Send (Msg lang ''admin.no_withdraws'' []) []], b)
               else ([Send (withdraws_msg lang reqs) (kbWithdrawList lang reqs)], b)))"

text \<open>\<open>strings.Fields\<close>: the parts between white space.\<close>

definition space_len :: "string \<Rightarrow> nat" where
  "space_len s = (case find (\<lambda>w. HasPrefix s w) spaces of Some w \<Rightarrow> length w | None \<Rightarrow> 0)"

fun fields_from :: "nat \<Rightarrow> string \<Rightarrow> string \<Rightarrow> string list" where
  "fields_from 0 cur s = (if cur = [] then [] else [cur])"
| "fields_from (Suc n) cur [] = (if cur = [] then [] else [cur])"
| "fields_from (Suc n) cur (c # cs) =
     (let k = space_len (c # cs)
      in if k = 0 then fields_from n (cur @ [c]) cs
         else (if cur = [] then [] else [cur]) @ fields_from n [] (drop k (c # cs)))"

definition Fields :: "string \<Rightarrow> string list" where
  "Fields s = fields_from (Suc (length s)) [] s"

definition onApproveWithdraw :: "handler_cfg \<Rightarrow> call_env \<Rightarrow> tele_ctx \<Rightarrow> handler" where
  "onApproveWithdraw h env c b =
     (if \<not> isAdmin h c then ([], b)
      else (let lang = langOf h (ce_io env) c b
            in case Fields (c_Payload c) of
                 p0 # p1 # _ \<Rightarrow>
                   (case h_uuidParse h p0 of
                      None \<Rightarrow> ([Send (Msg lang ''admin.bad_id'' []) []], b)
                    | Some withdrawID \<Rightarrow>
                        (case svc (on_db (CompleteWithdraw (io_shift 1 (ce_io env)) withdrawID p1)) b of
                           (Inl e, b1) \<Rightarrow> ([Send (Msg lang ''admin.error'' [Err e]) []], b1)
                         | (Inr _, b1) \<Rightarrow> ([Send (Msg lang ''admin.approved'' [argS p0]) []], b1)))
               | _ \<Rightarrow> ([Send (Msg lang ''admin.approve_usage'' []) []], b)))"

definition onRejectWithdraw :: "handler_cfg \<Rightarrow> call_env \<Rightarrow> tele_ctx \<Rightarrow> handler" where
  "onRejectWithdraw h env c b =
     (if \<not> isAdmin h c then ([], b)
      else (let lang = langOf h (ce_io env) c b;
                (idStr, reason, found) = Cut (TrimSpace (c_Payload c)) (CHR '' '')
            in if \<not> found \<or> idStr = [] then ([Send (Msg lang ''admin.reject_usage'' []) []], b)
               else case h_uuidParse h idStr of
                      None \<Rightarrow> ([Send (Msg lang ''admin.bad_id'' []) []], b)
                    | Some withdrawID \<Rightarrow>
                        (case svc (on_db (RejectWithdraw (io_shift 1 (ce_io env)) withdrawID (TrimSpace reason))) b of
                           (Inl e, b1) \<Rightarrow> ([Send (Msg lang ''admin.error'' [Err e]) []], b1)
                         | (Inr _, b1) \<Rightarrow> ([Send (Msg lang ''admin.rejected'' [argS idStr]) []], b1))))"

definition onAddCredit :: "handler_cfg \<Rightarrow> call_env \<Rightarrow> tele_ctx \<Rightarrow> handler" where
  "onAddCredit h env c b =
     (if \<not> isAdmin h c then ([], b)
      else (let lang = langOf h (ce_io env) c b
            in case Fields (c_Payload c) of
                 p0 # p1 # rest \<Rightarrow>
                   (case (ParseInt p0, amount_of h p1) of
                      (Some telegramID, Some amt) \<Rightarrow>
                        if telegramID = 0 then ([Send (Msg lang ''admin.bad_param'' []) []], b)
                        else (case wallet_of h (io_shift 1 (ce_io env)) telegramID b of
                                (Inl e, b1) \<Rightarrow> ([Send (Msg lang ''admin.wallet_not_found'' []) []], b1)
                              | (Inr w, b1) \<Rightarrow>
                                  (let desc = (if rest = [] then [] else Join rest '' '')
                                   in case svc (on_db (AddCredit (io_shift 4 (ce_io env)) (W_ID w) (TONToNano amt) desc)) b1 of
                                        (Inl e, b2) \<Rightarrow> ([Send (Msg lang ''admin.error'' [Err e]) []], b2)
                                      | (Inr _, b2) \<Rightarrow>
                                          ([Send (Msg lang ''admin.credit_added'' [argF amt, argI telegramID]) []], b2)))
                    | _ \<Rightarrow> ([Send (Msg lang ''admin.bad_param'' []) []], b))
               | _ \<Rightarrow> ([Send (Msg lang ''admin.addcredit_usage'' []) []], b)))"

section \<open>Conversations (\<open>handlers_conv.go\<close>)\<close>

definition handleWithdrawState :: "handler_cfg \<Rightarrow> call_env \<Rightarrow> Lang \<Rightarrow> int64 \<Rightarrow> convState \<Rightarrow> string \<Rightarrow> handler" where
  "handleWithdrawState h env lang uid st text b =
     (if isCancel h text then cancelled lang uid b
      else if cs_step st = ''addr'' then
        (if \<not> IsValidTONAddress text then ([Send (Msg lang ''withdraw.bad_addr'' []) (kbCancelOnly lang)], b)
         else (case wallet_of h (ce_io env) uid (states_set uid (st\<lparr>cs_addr := text, cs_step := ''amount''\<rparr>) b) of
                 (Inl e, b1) \<Rightarrow> ([Send (Msg lang ''err.generic'' []) (kbMain lang)], states_del uid b1)
               | (Inr w, b1) \<Rightarrow>
                   (let feeTON = NanoToTON NetworkFeeNano; maxAmount = f64_sub (TotalTON w) feeTON
                    in ([Send (Msg lang ''withdraw.ask_amount''
                           [argS (take 6 text), argS (drop (length text - 4) text), argF maxAmount, argF feeTON])
                           (kbCancelOnly lang)], b1))))
      else if cs_step st = ''amount'' then
        (case amount_of h text of
           None \<Rightarrow> ([Send (Msg lang ''withdraw.bad_amount'' []) (kbCancelOnly lang)], b)
         | Some amt \<Rightarrow>
             (case svc (RequestWithdraw env uid (cs_addr st) (TONToNano amt) []) (states_del uid b) of
                (Inl e, b1) \<Rightarrow> ([Send (Msg lang ''withdraw.error'' [Err e]) (kbMain lang)], b1)
              | (Inr req, b1) \<Rightarrow>
                  ([Send (Msg lang ''withdraw.submitted''
                      [argF amt, argF (NanoToTON NetworkFeeNano), argS (R_ToAddress req), argS (R_ID req)]) (kbMain lang)], b1)))
      else ([], b))"

definition handleTransferState :: "handler_cfg \<Rightarrow> call_env \<Rightarrow> Lang \<Rightarrow> int64 \<Rightarrow> convState \<Rightarrow> string \<Rightarrow> handler" where
  "handleTransferState h env lang uid st text b =
     (if isCancel h text then cancelled lang uid b
      else if cs_step st = ''to_id'' then
        (case ParseInt (TrimSpace text) of
           None \<Rightarrow> ([Send (Msg lang ''transfer.bad_id'' []) (kbCancelOnly lang)], b)
         | Some toID \<Rightarrow>
             if toID \<le> 0 \<or> toID = uid then ([Send (Msg lang ''transfer.bad_id'' []) (kbCancelOnly lang)], b)
             else (case GetWallet (ce_io env) toID (sv_db (b_service b)) of
                     Inr (Some toWallet) \<Rightarrow>
                       (case wallet_of h (io_shift 1 (ce_io env)) uid
                               (states_set uid (st\<lparr>cs_toID := toID, cs_step := ''amount''\<rparr>) b) of
                          (Inl e, b1) \<Rightarrow> ([Send (Msg lang ''err.generic'' []) (kbMain lang)], states_del uid b1)
                        | (Inr w, b1) \<Rightarrow>
                            ([Send (Msg lang ''transfer.ask_amount'' [argI toID, argF (TotalTON w)]) (kbCancelOnly lang)], b1))
                   | _ \<Rightarrow> ([Send (Msg lang ''transfer.no_recipient'' []) (kbCancelOnly lang)], b)))
      else if cs_step st = ''amount'' then
        (case amount_of h (TrimSpace text) of
           None \<Rightarrow> ([Send (Msg lang ''transfer.bad_amount'' []) (kbCancelOnly lang)], b)
         | Some amt \<Rightarrow>
             (case svc (Service_Transfer (h_cfg h) env uid (cs_toID st) (TONToNano amt) []) (states_del uid b) of
                (Inl e, b1) \<Rightarrow> ([Send (Msg lang ''transfer.error'' [Err e]) (kbMain lang)], b1)
              | (Inr _, b1) \<Rightarrow> ([Send (Msg lang ''transfer.done'' [argF amt, argI (cs_toID st)]) (kbMain lang)], b1)))
      else ([], b))"

definition menu :: "handler_cfg \<Rightarrow> call_env \<Rightarrow> tele_ctx \<Rightarrow> Lang \<Rightarrow> string \<Rightarrow> handler" where
  "menu h env c lang text =
     (if text = i18n_T h lang ''btn.wallet'' then onWallet h env c
      else if text = i18n_T h lang ''btn.deposit'' then onDeposit h env c
      else if text = i18n_T h lang ''btn.withdraw'' then onWithdraw h env c
      else if text = i18n_T h lang ''btn.transfer'' then onTransfer h env c
      else if text = i18n_T h lang ''btn.history'' then onHistory h env c
      else if text = i18n_T h lang ''btn.help'' then onHelp h env c
      else if text = i18n_T h lang ''btn.language'' then onLanguage h env c
      else (\<lambda>b. ([], b)))"

definition onText :: "handler_cfg \<Rightarrow> call_env \<Rightarrow> tele_ctx \<Rightarrow> handler" where
  "onText h env c = with_sender c (\<lambda>u b.
     let uid = U_ID u;
         text = TrimSpace (c_Text c);
         lang = langOf h (ce_io env) c b;
         env = env\<lparr>ce_io := io_shift 1 (ce_io env)\<rparr>
     in case states_get uid b of
          None \<Rightarrow> menu h env c lang text b
        | Some st \<Rightarrow>
            (case cs_kind st of
               kindWithdraw \<Rightarrow> handleWithdrawState h env lang uid st text b
             | kindTransfer \<Rightarrow> handleTransferState h env lang uid st text b
             | kindAdminApprove \<Rightarrow> handleAdminApprove h (ce_io env) lang uid st text b
             | kindAdminReject \<Rightarrow> handleAdminReject h (ce_io env) lang uid st text b
             | kindAdminCredit \<Rightarrow> handleAdminCredit h (ce_io env) lang uid st text b
             | kindNone \<Rightarrow> menu h env c lang text b))"

section \<open>Callbacks (\<open>callbacks.go\<close>)\<close>

definition onAdminCallback :: "handler_cfg \<Rightarrow> call_env \<Rightarrow> tele_ctx \<Rightarrow> string \<Rightarrow> handler" where
  "onAdminCallback h env c sub b =
     (if \<not> isAdmin h c then ([], b)
      else if sub = ''stats'' \<or> sub = ''menu'' then onAdminHome h env c b
      else if sub = ''withdraws'' then onAdminWithdrawsList h env c b
      else if sub = ''credit'' then onAdminCreditStart h env c b
      else ([], b))"

definition onWithdrawCallback :: "handler_cfg \<Rightarrow> call_env \<Rightarrow> tele_ctx \<Rightarrow> string \<Rightarrow> string list \<Rightarrow> handler" where
  "onWithdrawCallback h env c oper parts b =
     (if \<not> isAdmin h c \<or> length parts < 3 then ([], b)
      else if oper = ''approve'' then onAdminApproveStart h env c (parts ! 2) b
      else if oper = ''reject'' then onAdminRejectStart h env c (parts ! 2) b
      else ([], b))"

definition onCheckDeposit :: "handler_cfg \<Rightarrow> call_env \<Rightarrow> tele_ctx \<Rightarrow> string \<Rightarrow> handler" where
  "onCheckDeposit h env c code b =
     (let lang = langOf h (ce_io env) c b
      in if code = [] then ([], b)
         else case FindInvoiceByCode (io_shift 1 (ce_io env)) code (sv_db (b_service b)) of
                Inr (Some v) \<Rightarrow>
                  if I_Status v = InvoicePaid
                  then with_sender c (\<lambda>u b.
                         let (r, b1) = wallet_of h (io_shift 2 (ce_io env)) (U_ID u) b;
                             newBalance = (case r of Inr w \<Rightarrow> TotalTON w | Inl _ \<Rightarrow> NanoToTON (I_Amount v))
                         in ([Edit (Msg lang ''check.confirmed'' [argF (NanoToTON (I_Amount v)), argF newBalance]) []], b1)) b
                  else ([Edit (Msg lang ''check.unconfirmed'' []) []], b)
              | _ \<Rightarrow> ([Edit (Msg lang ''check.pending'' []) []], b))"

definition onCallback :: "handler_cfg \<Rightarrow> call_env \<Rightarrow> tele_ctx \<Rightarrow> handler" where
  "onCallback h env c b =
     (let parts = Split (TrimPrefix (c_Data c) [CHR 0x0C]) (CHR '':'');
          action = parts ! 0;
          arg = (if 1 < length parts then parts ! 1 else []);
          (rs, b') =
            (if action = ''check_deposit'' then onCheckDeposit h env c arg b
             else if action = ''set_lang'' then onSetLang h env c arg b
             else if action = ''adm'' then onAdminCallback h env c arg b
             else if action = ''wd'' then onWithdrawCallback h env c arg parts b
             else ([], b))
      in (rs @ [Respond (Raw [])], b'))"

section \<open>Registration\<close>

datatype endpoint = Command string | OnText | OnCallback

text \<open>What \<open>Register\<close> binds; a command it does not bind is a text to telebot.\<close>

definition Register :: "handler_cfg \<Rightarrow> endpoint \<Rightarrow> call_env \<Rightarrow> tele_ctx \<Rightarrow> handler" where
  "Register h ep env c =
     (case ep of
        Command s \<Rightarrow>
          (if s = ''/start'' then onStart h env c
           else if s = ''/wallet'' then onWallet h env c
           else if s = ''/deposit'' then onDeposit h env c
           else if s = ''/withdraw'' then onWithdraw h env c
           else if s = ''/history'' then onHistory h env c
           else if s = ''/help'' then onHelp h env c
           else if s = ''/language'' then onLanguage h env c
           else if s = ''/admin'' then onAdmin h env c
           else if s = ''/addcredit'' then onAddCredit h env c
           else if s = ''/withdraws'' then onAdminWithdraws h env c
           else if s = ''/approve'' then onApproveWithdraw h env c
           else if s = ''/reject'' then onRejectWithdraw h env c
           else onText h env c)
      | OnText \<Rightarrow> onText h env c
      | OnCallback \<Rightarrow> onCallback h env c)"

end
