(* ===== verification/PayBotProps.thy ===== *)
theory PayBotProps
  imports PayBot
begin

text \<open>
  Facts about the bot: what its handlers may do to the database, proved once for any step relation
  with the operations that a user reaches; the conversations; who reaches the admin operations.
\<close>

section \<open>What a handler of a user does to the database\<close>

abbreviation bdb :: "bot \<Rightarrow> pay_db" where "bdb b \<equiv> sv_db (b_service b)"

lemma states_bdb [simp]: "b_service (states_set uid st b) = b_service b" "b_service (states_del uid b) = b_service b"
  by (simp_all add: states_set_def states_del_def)

lemma svc_bdb: "b_service (snd (svc f b)) = snd (f (b_service b))" "b_states (snd (svc f b)) = b_states b"
  by (simp_all add: svc_def case_prod_beta)

locale user_ops =
  fixes step :: "pay_db \<Rightarrow> pay_db \<Rightarrow> bool" and safe :: "int64 \<Rightarrow> bool"
  assumes wallet: "step db (snd (GetOrCreateWallet io tg addr db))"
    and lang: "step db (snd (SetWalletLang io tg l db))"
    and invoice: "step db (snd (CreateInvoice io v db))"
    and transfer: "step db (snd (Transfer io i j a d db))"
    and withdraw: "safe (R_Amount q) \<Longrightarrow> MinWithdrawNano \<le> R_Amount q \<Longrightarrow> R_Fee q = NetworkFeeNano \<Longrightarrow>
      step db (snd (CreateWithdraw io q db))"
begin

definition moves :: "service \<Rightarrow> service \<Rightarrow> bool" where
  "moves s s' \<longleftrightarrow> step\<^sup>*\<^sup>* (sv_db s) (sv_db s')"

lemma moves_refl [simp, intro]: "moves s s"
  by (simp add: moves_def)

lemma moves_trans: "moves s t \<Longrightarrow> moves t u \<Longrightarrow> moves s u"
  by (simp add: moves_def)

lemma moves_on_db: "(\<And>db. step db (snd (f db))) \<Longrightarrow> moves s (snd (on_db f s))"
  by (auto simp: moves_def on_db_def case_prod_beta)

lemma GetOrCreate_moves: "moves s (snd (GetOrCreate cfg io tg s))"
  unfolding GetOrCreate_def by (rule moves_on_db) (rule wallet)

lemma DepositInstructions_moves: "moves s (snd (DepositInstructions cfg env tg a sid ref s))"
proof -
  have "moves s (snd (on_db (CreateInvoice io v) (snd (GetOrCreate cfg (ce_io env) tg s))))" for io v
    by (rule moves_trans [OF GetOrCreate_moves moves_on_db]) (rule invoice)
  then show ?thesis
    using GetOrCreate_moves [of s cfg "ce_io env" tg]
    by (simp add: DepositInstructions_def CreateDepositInvoice_def case_prod_beta Let_def split: sum.splits)
qed

lemma Service_Transfer_moves: "moves s (snd (Service_Transfer cfg env f t a d s))"
proof -
  have "moves s (snd (on_db (Transfer io i j a d) s))" for io i j by (rule moves_on_db) (rule transfer)
  then show ?thesis
    by (auto simp: Service_Transfer_def case_prod_beta moves_def split: option.splits sum.splits)
qed

lemma RequestWithdraw_moves:
  assumes "safe a"
  shows "moves s (snd (RequestWithdraw env tg addr a note s))"
proof (cases "a < MinWithdrawNano")
  case False
  have "moves s (snd (on_db (CreateWithdraw io q) s))" if "R_Amount q = a" "R_Fee q = NetworkFeeNano" for io q
    by (rule moves_on_db, rule withdraw) (use False assms that in auto)
  then show ?thesis
    by (auto simp: RequestWithdraw_def Let_def case_prod_beta split: option.splits sum.splits)
qed (simp add: RequestWithdraw_def)

lemma svc_moves:
  "moves s (b_service (snd (svc (GetOrCreate cfg io tg) b)))" if "b_service b = s"
  using GetOrCreate_moves [of s cfg io tg] that by (simp add: svc_bdb)

lemmas sender_simps = with_sender_def case_prod_beta Let_def

lemma user_handlers_move:
  "moves (b_service b) (b_service (snd (onStart h env c b)))"
  "moves (b_service b) (b_service (snd (onWallet h env c b)))"
  "moves (b_service b) (b_service (snd (onWithdraw h env c b)))"
  "moves (b_service b) (b_service (snd (onHistory h env c b)))"
  "moves (b_service b) (b_service (snd (onTransfer h env c b)))"
  "moves (b_service b) (b_service (snd (onHelp h env c b)))"
  "moves (b_service b) (b_service (snd (onLanguage h env c b)))"
  using svc_moves [of b "b_service b"]
  by (auto simp: onStart_def onWallet_def onWithdraw_def onHistory_def onTransfer_def onHelp_def onLanguage_def
      sender_simps split: option.splits sum.splits)

lemma onDeposit_moves: "moves (b_service b) (b_service (snd (onDeposit h env c b)))"
  using DepositInstructions_moves [of "b_service b"]
  by (auto simp: onDeposit_def sender_simps svc_bdb split: option.splits sum.splits)

lemma onSetLang_moves: "moves (b_service b) (b_service (snd (onSetLang h env c code b)))"
proof -
  have "moves (b_service b) (b_service (snd (svc (on_db (SetWalletLang io tg l)) (snd (svc (GetOrCreate cfg io' tg) b)))))"
    for io tg l cfg io'
    using moves_trans [OF GetOrCreate_moves moves_on_db [OF lang]] by (simp add: svc_bdb)
  then show ?thesis
    using svc_moves [of b "b_service b"] by (auto simp: onSetLang_def sender_simps split: option.splits sum.splits)
qed

lemma onCheckDeposit_moves: "moves (b_service b) (b_service (snd (onCheckDeposit h env c code b)))"
  using svc_moves [of b "b_service b"]
  by (auto simp: onCheckDeposit_def sender_simps split: option.splits sum.splits)

text \<open>The amount that the bot reads from a text may be withdrawn.\<close>

definition safe_amount :: "handler_cfg \<Rightarrow> string \<Rightarrow> bool" where
  "safe_amount h text \<longleftrightarrow> (\<forall>amt. amount_of h text = Some amt \<longrightarrow> safe (TONToNano amt))"

lemma handleWithdrawState_moves:
  assumes "safe_amount h text"
  shows "moves (b_service b) (b_service (snd (handleWithdrawState h env lang uid st text b)))"
proof -
  have "moves (b_service b) (b_service (snd (svc (RequestWithdraw env uid addr (TONToNano amt) []) (states_del uid b))))"
    if "amount_of h text = Some amt" for addr amt
    using RequestWithdraw_moves [of "TONToNano amt" "b_service b"] assms that by (simp add: svc_bdb safe_amount_def)
  then show ?thesis
    using svc_moves [of "states_set uid (st\<lparr>cs_addr := text, cs_step := ''amount''\<rparr>) b" "b_service b"]
    by (auto simp: handleWithdrawState_def cancelled_def sender_simps split: option.splits sum.splits)
qed

lemma handleTransferState_moves:
  "moves (b_service b) (b_service (snd (handleTransferState h env lang uid st text b)))"
proof -
  have "moves (b_service b) (b_service (snd (svc (Service_Transfer cfg env uid to a []) (states_del uid b))))"
    for cfg to a using Service_Transfer_moves [of "b_service b"] by (simp add: svc_bdb)
  then show ?thesis
    using svc_moves [of "states_set uid st' b" "b_service b" for st']
    by (auto simp: handleTransferState_def cancelled_def sender_simps split: option.splits sum.splits)
qed

lemma menu_moves: "moves (b_service b) (b_service (snd (menu h env c lang text b)))"
  using user_handlers_move onDeposit_moves by (simp add: menu_def)

end

interpretation store_ops: user_ops pay_step "\<lambda>a. in_int64 (a + NetworkFeeNano)"
  by unfold_locales (auto intro: pay_step.intros)

lemma store_moves: "store_ops.moves = runs"
  by (rule ext, rule ext) (simp add: store_ops.moves_def runs_def)

text \<open>What a user alone can do: open a wallet, choose a language, ask for an invoice or a withdrawal, transfer.\<close>

inductive user_step :: "pay_db \<Rightarrow> pay_db \<Rightarrow> bool" where
  user_wallet: "user_step db (snd (GetOrCreateWallet io tg addr db))"
| user_lang: "user_step db (snd (SetWalletLang io tg lang db))"
| user_invoice: "user_step db (snd (CreateInvoice io v db))"
| user_transfer: "user_step db (snd (Transfer io i j a d db))"
| user_withdraw: "user_step db (snd (CreateWithdraw io q db))"

interpretation user_ops_any: user_ops user_step "\<lambda>_. True"
  by unfold_locales (auto intro: user_step.intros)

section \<open>Conversations\<close>

text \<open>
  What a stored conversation looks like: an address is checked before an amount is asked for, the
  recipient of a transfer is another user, and admin conversations belong to the owner.
\<close>

definition conv_ok :: "handler_cfg \<Rightarrow> int64 \<Rightarrow> convState \<Rightarrow> bool" where
  "conv_ok h uid st =
     (case cs_kind st of
        kindNone \<Rightarrow> False
      | kindWithdraw \<Rightarrow> cs_step st = ''addr'' \<or> cs_step st = ''amount'' \<and> IsValidTONAddress (cs_addr st)
      | kindTransfer \<Rightarrow> cs_step st = ''to_id'' \<or> cs_step st = ''amount'' \<and> 0 < cs_toID st \<and> cs_toID st \<noteq> uid
      | kindAdminApprove \<Rightarrow> uid = h_ownerID h \<and> h_uuidParse h (cs_arg st) \<noteq> None
      | kindAdminReject \<Rightarrow> uid = h_ownerID h \<and> h_uuidParse h (cs_arg st) \<noteq> None
      | kindAdminCredit \<Rightarrow> uid = h_ownerID h \<and>
          (cs_step st = ''user_id'' \<or> cs_step st = ''amount'' \<and> cs_toID st \<noteq> 0))"

definition convs_ok :: "handler_cfg \<Rightarrow> bot \<Rightarrow> bool" where
  "convs_ok h b \<longleftrightarrow> (\<forall>uid st. states_get uid b = Some st \<longrightarrow> conv_ok h uid st)"

lemma convs_set: "convs_ok h b \<Longrightarrow> conv_ok h uid st \<Longrightarrow> convs_ok h (states_set uid st b)"
  by (simp add: convs_ok_def states_get_def states_set_def)

lemma convs_del: "convs_ok h b \<Longrightarrow> convs_ok h (states_del uid b)"
  by (auto simp: convs_ok_def states_get_def states_del_def)

lemma convs_svc: "convs_ok h b \<Longrightarrow> convs_ok h (snd (svc f b))"
  by (simp add: convs_ok_def states_get_def svc_bdb)

lemma conv_new:
  "conv_ok h uid (conv kindWithdraw ''addr'')" "conv_ok h uid (conv kindTransfer ''to_id'')"
  "conv_ok h uid (conv kindAdminCredit ''user_id'') = (uid = h_ownerID h)"
  by (simp_all add: conv_ok_def conv_def)

lemmas conv_intros = convs_set convs_del convs_svc conv_new

lemma user_handlers_conv:
  assumes "convs_ok h b"
  shows "convs_ok h (snd (onStart h env c b))" "convs_ok h (snd (onWallet h env c b))"
    "convs_ok h (snd (onDeposit h env c b))" "convs_ok h (snd (onWithdraw h env c b))"
    "convs_ok h (snd (onHistory h env c b))" "convs_ok h (snd (onTransfer h env c b))"
    "convs_ok h (snd (onHelp h env c b))" "convs_ok h (snd (onLanguage h env c b))"
    "convs_ok h (snd (onSetLang h env c code b))" "convs_ok h (snd (onCheckDeposit h env c code b))"
  using assms
  by (auto simp: onStart_def onWallet_def onDeposit_def onWithdraw_def onHistory_def onTransfer_def onHelp_def
      onLanguage_def onSetLang_def onCheckDeposit_def with_sender_def case_prod_beta Let_def
      intro: conv_intros split: option.splits sum.splits)

lemma admin_handlers_conv:
  assumes "convs_ok h b"
  shows "convs_ok h (snd (onAdmin h env c b))" "convs_ok h (snd (onAddCredit h env c b))"
    "convs_ok h (snd (onAdminWithdraws h env c b))" "convs_ok h (snd (onApproveWithdraw h env c b))"
    "convs_ok h (snd (onRejectWithdraw h env c b))"
  using assms
  by (auto simp: onAdmin_def onAddCredit_def onAdminWithdraws_def onApproveWithdraw_def onRejectWithdraw_def
      case_prod_beta Let_def intro: conv_intros split: option.splits sum.splits list.splits)

lemma admin_callbacks_conv:
  assumes "convs_ok h b" "isAdmin h c"
  shows "convs_ok h (snd (onAdminHome h env c b))" "convs_ok h (snd (onAdminWithdrawsList h env c b))"
    "convs_ok h (snd (onAdminCreditStart h env c b))" "convs_ok h (snd (onAdminApproveStart h env c i b))"
    "convs_ok h (snd (onAdminRejectStart h env c i b))"
proof -
  obtain u where u: "c_Sender c = Some u" "U_ID u = h_ownerID h"
    using assms(2) by (auto simp: isAdmin_def split: option.splits)
  have "conv_ok h (U_ID u) ((conv k [])\<lparr>cs_arg := i\<rparr>)" if "k = kindAdminApprove \<or> k = kindAdminReject" "h_uuidParse h i \<noteq> None" for k
    using that u by (auto simp: conv_ok_def conv_def)
  with assms u show "convs_ok h (snd (onAdminHome h env c b))" "convs_ok h (snd (onAdminWithdrawsList h env c b))"
    "convs_ok h (snd (onAdminCreditStart h env c b))" "convs_ok h (snd (onAdminApproveStart h env c i b))"
    "convs_ok h (snd (onAdminRejectStart h env c i b))"
    by (auto simp: onAdminHome_def onAdminWithdrawsList_def onAdminCreditStart_def onAdminApproveStart_def
        onAdminRejectStart_def with_sender_def Let_def intro!: conv_intros simp: conv_new)
qed

lemma conv_states_conv:
  assumes "convs_ok h b" "conv_ok h uid st"
  shows "cs_kind st = kindWithdraw \<Longrightarrow> convs_ok h (snd (handleWithdrawState h env lang uid st text b))"
    "cs_kind st = kindTransfer \<Longrightarrow> convs_ok h (snd (handleTransferState h env lang uid st text b))"
    "convs_ok h (snd (handleAdminApprove h io lang uid st text b))"
    "convs_ok h (snd (handleAdminReject h io lang uid st text b))"
    "cs_kind st = kindAdminCredit \<Longrightarrow> convs_ok h (snd (handleAdminCredit h io lang uid st text b))"
  using assms
  by (auto simp: handleWithdrawState_def handleTransferState_def handleAdminApprove_def handleAdminReject_def
      handleAdminCredit_def cancelled_def case_prod_beta Let_def conv_ok_def
      intro!: conv_intros split: option.splits sum.splits)

lemma onText_conv: "convs_ok h b \<Longrightarrow> convs_ok h (snd (onText h env c b))"
proof -
  assume b: "convs_ok h b"
  have m: "convs_ok h (snd (menu h env c l t b))" for env l t
    using user_handlers_conv [OF b] b by (simp add: menu_def)
  show ?thesis
  proof (cases "c_Sender c")
    case (Some u)
    show ?thesis
    proof (cases "states_get (U_ID u) b")
      case (Some st)
      with b have "conv_ok h (U_ID u) st" by (simp add: convs_ok_def)
      then show ?thesis
        using \<open>c_Sender c = Some u\<close> Some m b conv_states_conv [OF b]
        by (cases "cs_kind st") (auto simp: onText_def with_sender_def Let_def)
    qed (use \<open>c_Sender c = Some u\<close> m in \<open>simp add: onText_def with_sender_def Let_def\<close>)
  qed (use b in \<open>simp add: onText_def with_sender_def\<close>)
qed

lemma onCallback_conv:
  assumes "convs_ok h b"
  shows "convs_ok h (snd (onCallback h env c b))"
  using assms user_handlers_conv [OF assms] admin_callbacks_conv [OF assms]
  by (auto simp: onCallback_def onAdminCallback_def onWithdrawCallback_def case_prod_beta Let_def)

lemma Register_conv: "convs_ok h b \<Longrightarrow> convs_ok h (snd (Register h ep env c b))"
  using user_handlers_conv admin_handlers_conv onText_conv onCallback_conv
  by (auto simp: Register_def split: endpoint.splits)

inductive bot_step :: "handler_cfg \<Rightarrow> bot \<Rightarrow> bot \<Rightarrow> bool" for h where
  update: "bot_step h b (snd (Register h ep env c b))"

interpretation conversations: step_invariant "bot_step h" "convs_ok h"
  by unfold_locales (auto elim!: bot_step.cases intro: Register_conv)

section \<open>Only the owner reaches the admin operations\<close>

definition user_change :: "pay_db \<Rightarrow> pay_db \<Rightarrow> bool" where
  "user_change db db' \<longleftrightarrow>
     (\<exists>new. withdraw_requests db' = withdraw_requests db @ new) \<and>
     (\<exists>new. transactions db' = transactions db @ new \<and> (\<forall>t \<in> set new. T_Type t \<noteq> TxCreditAdd))"

lemma user_change_trans: "user_change a b \<Longrightarrow> user_change b c \<Longrightarrow> user_change a c"
  by (fastforce simp: user_change_def)

lemma Transfer_user_change: "user_change db (snd (Transfer io i j a d db))"
proof (cases "a \<le> 0")
  case False
  show ?thesis
    unfolding Transfer_def if_not_P [OF False]
    by (rule gorm_Transaction_snd)
      (auto simp: user_change_def stmt_Inr create_transaction_Inr Let_def split: sum.splits if_splits prod.splits)
qed (simp add: Transfer_def user_change_def)

lemma CreateWithdraw_user_change: "user_change db (snd (CreateWithdraw io q db))"
  unfolding CreateWithdraw_def Let_def
  by (rule gorm_Transaction_snd)
    (auto simp: user_change_def stmt_Inr insert_withdraw_def split: sum.splits if_splits)

lemma other_user_change:
  "user_change db (snd (GetOrCreateWallet io tg addr db))" "user_change db (snd (SetWalletLang io tg lang db))"
  "user_change db (snd (CreateInvoice io v db))"
  by (auto simp: user_change_def SetWalletLang_def CreateInvoice_def GetOrCreateWallet_def Let_def
      split: option.splits sum.splits prod.splits if_splits)

lemma user_step_change: "user_step db db' \<Longrightarrow> user_change db db'"
  by (induction rule: user_step.induct)
    (simp_all add: other_user_change Transfer_user_change CreateWithdraw_user_change)

interpretation users: step_invariant user_step "user_change db0"
  by unfold_locales (auto intro: user_change_trans user_step_change)

lemma any_safe [simp]: "user_ops_any.safe_amount h text"
  by (simp add: user_ops_any.safe_amount_def)

text \<open>What the handlers of texts and callbacks do for a sender who is not the owner.\<close>

context user_ops
begin

lemma onText_moves:
  assumes "convs_ok h b" "safe_amount h (TrimSpace (c_Text c))" "\<not> isAdmin h c"
  shows "moves (b_service b) (b_service (snd (onText h env c b)))"
proof (cases "c_Sender c")
  case (Some u)
  have "cs_kind st \<in> {kindWithdraw, kindTransfer}" if "states_get (U_ID u) b = Some st" for st
  proof -
    have "conv_ok h (U_ID u) st" "U_ID u \<noteq> h_ownerID h"
      using assms(1,3) Some that by (auto simp: convs_ok_def isAdmin_def)
    then show ?thesis by (cases "cs_kind st") (auto simp: conv_ok_def)
  qed
  then show ?thesis
    using Some menu_moves handleWithdrawState_moves [OF assms(2)] handleTransferState_moves
    by (fastforce simp: onText_def with_sender_def Let_def split: option.splits convKind.splits)
qed (simp add: onText_def with_sender_def)

lemma onCallback_moves:
  assumes "\<not> isAdmin h c"
  shows "moves (b_service b) (b_service (snd (onCallback h env c b)))"
  using assms onCheckDeposit_moves onSetLang_moves
  by (auto simp: onCallback_def onAdminCallback_def onWithdrawCallback_def case_prod_beta Let_def)

lemma Register_moves:
  assumes "convs_ok h b" "safe_amount h (TrimSpace (c_Text c))" "\<not> isAdmin h c"
  shows "moves (b_service b) (b_service (snd (Register h ep env c b)))"
  using assms(3) user_handlers_move onDeposit_moves onText_moves [OF assms] onCallback_moves [OF assms(3)]
  by (auto simp: Register_def onAdmin_def onAddCredit_def onAdminWithdraws_def onApproveWithdraw_def
      onRejectWithdraw_def split: endpoint.splits)

end

definition no_convs :: "service \<Rightarrow> bot" where
  "no_convs s = \<lparr>b_service = s, b_states = (\<lambda>_. None)\<rparr>"

lemma no_convs_ok: "convs_ok h (no_convs s)"
  by (simp add: convs_ok_def states_get_def no_convs_def)

text \<open>
  (C6) Only the owner reaches the admin operations. Whatever updates the bot has handled before, an
  update from anybody else, command, text or button, leaves every withdrawal request as it is (new
  ones may be added after them) and grants no credit.
\<close>

theorem only_owner_administers:
  assumes "(bot_step h)\<^sup>*\<^sup>* (no_convs s) b" "c_Sender c = Some u" "U_ID u \<noteq> h_ownerID h"
  shows "(\<exists>new. withdraw_requests (bdb (snd (Register h ep env c b))) = withdraw_requests (bdb b) @ new) \<and>
    (\<exists>new. transactions (bdb (snd (Register h ep env c b))) = transactions (bdb b) @ new \<and>
       (\<forall>t \<in> set new. T_Type t \<noteq> TxCreditAdd))"
proof -
  have "convs_ok h b" by (rule conversations.run_keeps [OF assms(1) no_convs_ok])
  moreover have "\<not> isAdmin h c" using assms(2,3) by (simp add: isAdmin_def)
  ultimately have "user_step\<^sup>*\<^sup>* (bdb b) (bdb (snd (Register h ep env c b)))"
    using user_ops_any.Register_moves by (simp add: user_ops_any.moves_def)
  from users.run_keeps [OF this, of "bdb b"] show ?thesis by (simp add: user_change_def)
qed

text \<open>
  (C7) The conversations are well formed whatever updates arrive, in any order and from any users: a
  withdrawal only reaches the amount question with a valid TON address, a transfer with a positive
  id that is not the sender's own, and an admin conversation is the owner's, with an id that parses.
\<close>

theorem conversations_well_formed:
  assumes "(bot_step h)\<^sup>*\<^sup>* (no_convs s) b" "states_get uid b = Some st"
  shows "conv_ok h uid st"
  using conversations.run_keeps [OF assms(1) no_convs_ok] assms(2) by (simp add: convs_ok_def)

lemma approve_button:
  assumes "r \<in> set reqs"
  shows "\<exists>label x. [BData label (''wd:approve:'' @ R_ID r), x] \<in> set (kbWithdrawList lang reqs)"
proof -
  obtain xs ys where "reqs = xs @ r # ys" using split_list [OF assms] by blast
  then show ?thesis by (auto simp: kbWithdrawList_def Let_def)
qed


section \<open>The updates of the owner\<close>

text \<open>The ids that an update may approve or reject, as texts.\<close>

definition named_ids :: "handler_cfg \<Rightarrow> tele_ctx \<Rightarrow> bot \<Rightarrow> string list" where
  "named_ids h c b =
     (case states_get (h_ownerID h) b of Some st \<Rightarrow> [cs_arg st] | None \<Rightarrow> []) @
     take 1 (Fields (c_Payload c)) @ [fst (Cut (TrimSpace (c_Payload c)) (CHR '' ''))]"

text \<open>Every request that the update may settle is still pending.\<close>

definition careful :: "handler_cfg \<Rightarrow> tele_ctx \<Rightarrow> bot \<Rightarrow> bool" where
  "careful h c b \<longleftrightarrow> (\<forall>s \<in> set (named_ids h c b). \<forall>i. h_uuidParse h s = Some i \<longrightarrow> pending_id i (bdb b))"

lemma settle_runs:
  assumes "pending_id i (sv_db s)"
  shows "runs s (snd (on_db (CompleteWithdraw io i x) s))" "runs s (snd (on_db (RejectWithdraw io i x) s))"
  using assms by (auto simp: runs_def on_db_def case_prod_beta intro: pay_step.intros)

lemma credit_runs: "runs s (snd (on_db (AddCredit io i a d) (snd (GetOrCreate cfg io' tg s))))"
  by (rule runs_trans [OF GetOrCreate_runs runs_on_db]) (rule pay_step.step_credit)

lemma admin_commands_run:
  assumes "careful h c b"
  shows "runs (b_service b) (b_service (snd (onAddCredit h env c b)))"
    "runs (b_service b) (b_service (snd (onApproveWithdraw h env c b)))"
    "runs (b_service b) (b_service (snd (onRejectWithdraw h env c b)))"
    "b_service (snd (onAdmin h env c b)) = b_service b" "b_service (snd (onAdminWithdraws h env c b)) = b_service b"
proof -
  show "runs (b_service b) (b_service (snd (onAddCredit h env c b)))"
    using credit_runs GetOrCreate_runs
    by (auto simp: onAddCredit_def svc_bdb Let_def case_prod_beta split: list.splits option.splits sum.splits)
  show "runs (b_service b) (b_service (snd (onApproveWithdraw h env c b)))"
    using assms settle_runs(1)
    by (auto simp: onApproveWithdraw_def careful_def named_ids_def svc_bdb Let_def case_prod_beta
        split: list.splits option.splits sum.splits)
  show "runs (b_service b) (b_service (snd (onRejectWithdraw h env c b)))"
    using assms settle_runs(2)
    by (auto simp: onRejectWithdraw_def careful_def named_ids_def svc_bdb Let_def case_prod_beta
        split: option.splits sum.splits)
qed (simp_all add: onAdmin_def onAdminWithdraws_def Let_def)

lemma admin_conversations_run:
  assumes "\<And>i. h_uuidParse h (cs_arg st) = Some i \<Longrightarrow> pending_id i (bdb b)"
  shows "runs (b_service b) (b_service (snd (handleAdminApprove h io lang uid st t b)))"
    "runs (b_service b) (b_service (snd (handleAdminReject h io lang uid st t b)))"
    "runs (b_service b) (b_service (snd (handleAdminCredit h io lang uid st t b)))"
  using assms settle_runs credit_runs GetOrCreate_runs
  by (auto simp: handleAdminApprove_def handleAdminReject_def handleAdminCredit_def cancelled_def svc_bdb Let_def
      case_prod_beta split: option.splits sum.splits)

lemma onText_runs:
  assumes "convs_ok h b" "store_ops.safe_amount h (TrimSpace (c_Text c))" "careful h c b"
  shows "runs (b_service b) (b_service (snd (onText h env c b)))"
proof (cases "isAdmin h c")
  case False
  then show ?thesis using store_ops.onText_moves [OF assms(1,2)] by (simp add: store_moves)
next
  case True
  then obtain u where u: "c_Sender c = Some u" "U_ID u = h_ownerID h" by (auto simp: isAdmin_def split: option.splits)
  have "pending_id i (bdb b)" if "states_get (h_ownerID h) b = Some st" "h_uuidParse h (cs_arg st) = Some i" for st i
    using assms(3) that by (auto simp: careful_def named_ids_def)
  then show ?thesis
    using u admin_conversations_run [of h _ b] store_ops.menu_moves store_ops.handleTransferState_moves
      store_ops.handleWithdrawState_moves [OF assms(2)]
    by (auto simp: onText_def with_sender_def Let_def store_moves split: option.splits convKind.splits)
qed

lemma onCallback_runs: "runs (b_service b) (b_service (snd (onCallback h env c b)))"
  using store_ops.onCheckDeposit_moves store_ops.onSetLang_moves
  by (auto simp: onCallback_def onAdminCallback_def onWithdrawCallback_def onAdminHome_def onAdminWithdrawsList_def
      onAdminCreditStart_def onAdminApproveStart_def onAdminRejectStart_def with_sender_def case_prod_beta Let_def
      store_moves split: option.splits)

lemma Register_runs:
  assumes "convs_ok h b" "store_ops.safe_amount h (TrimSpace (c_Text c))" "careful h c b"
  shows "runs (b_service b) (b_service (snd (Register h ep env c b)))"
  using admin_commands_run [OF assms(3)] onText_runs [OF assms] onCallback_runs
    store_ops.user_handlers_move store_ops.onDeposit_moves
  by (auto simp: Register_def store_moves split: endpoint.splits)

section \<open>Withdrawals that overflow\<close>

lemma TONToNano_near:
  assumes "1 \<le> q" "q \<le> 9223372036854 / 1000"
  shows "\<bar>of_int (TONToNano (Fin q)) - q * 1000000000\<bar> \<le> 1026"
proof -
  let ?x = "q * 1000000000"
  have x: "1000000000 \<le> ?x" "?x \<le> 9223372036854000000" using assms by simp_all
  have "(2::rat) powi (-1022) \<le> 2 powi 0" by (simp only: powi_le_iff)
  also have "\<dots> \<le> \<bar>?x\<bar>" using x(1) by simp
  finally have "\<bar>rnd_val ?x - ?x\<bar> \<le> \<bar>?x\<bar> / 2 ^ 53" by (rule rnd_val_error)
  also have "\<dots> \<le> 1024" using x by simp
  finally have e: "\<bar>rnd_val ?x - ?x\<bar> \<le> 1024" .
  then have v: "0 \<le> rnd_val ?x" "rnd_val ?x \<le> 9223372036854001024" using x by linarith+
  have "\<bar>rnd_val ?x\<bar> \<le> 9223372036854001024" using v by simp
  also have "\<dots> < 2 ^ 1024" by simp
  finally have "rnd ?x = Fin (rnd_val ?x)" by (rule rnd_Fin)
  moreover have "in_int64 \<lfloor>rnd_val ?x\<rfloor>"
    using v by (simp add: in_int64_def le_floor_iff floor_le_iff)
  ultimately have "TONToNano (Fin q) = \<lfloor>rnd_val ?x\<rfloor>" using v(1) by (simp add: TONToNano_def rat_trunc_def)
  moreover have "\<bar>of_int \<lfloor>rnd_val ?x\<rfloor> - rnd_val ?x\<bar> \<le> 1" by linarith
  ultimately show ?thesis using e by linarith
qed

text \<open>
  A user can type a balance of nine billion TON into the chat. The amount question has no upper
  bound: when an open withdrawal conversation of a user with at most 0.0002 TON left to spend gets a
  number between 9223372036.845 and 9223372036.854, amount and fee wrap around to a negative total,
  the request passes the balance check, and afterwards the user's wallet covers a payment or a
  transfer of nine billion TON.
\<close>

theorem chat_overflow:
  assumes db: "solvent (bdb b)" "distinct (map W_TelegramID (wallets (bdb b)))" "w \<in> set (wallets (bdb b))"
      "available w \<le> 200000"
    and env: "io_ok (ce_io env)" "io_uuid (ce_io env) 2 \<notin> R_ID ` set (withdraw_requests (bdb b))"
    and st: "states_get (W_TelegramID w) b = Some st" "cs_kind st = kindWithdraw" "cs_step st = ''amount''"
      "IsValidTONAddress (cs_addr st)"
    and c: "c_Sender c = Some u" "U_ID u = W_TelegramID w" "\<not> isCancel h (TrimSpace (c_Text c))"
      "h_ParseFloat h (TrimSpace (c_Text c)) = Some (Fin q)"
      "9223372036845 / 1000 \<le> q" "q \<le> 9223372036854 / 1000"
  shows "\<exists>w' \<in> set (wallets (bdb (snd (onText h env c b)))).
    W_ID w' = W_ID w \<and> HasEnough w' (9 * 10 ^ 18)"
proof -
  let ?a = "TONToNano (Fin q)" and ?env = "env\<lparr>ce_io := io_shift 1 (ce_io env)\<rparr>"
  let ?w' = "w\<lparr>W_Frozen := W_Frozen w + ?a + NetworkFeeNano - 18446744073709551616\<rparr>"
  have "\<bar>of_int ?a - q * 1000000000\<bar> \<le> 1026" using c(5,6) by (intro TONToNano_near) simp_all
  then have "(9223372036844998974 :: rat) \<le> of_int ?a" "(of_int ?a :: rat) \<le> 9223372036854001026" using c(5,6) by linarith+
  then have a: "9223372036844998974 \<le> ?a" "?a \<le> 9223372036854001026" by simp_all
  have "MaxInt64 - NetworkFeeNano < ?a" "?a \<le> MaxInt64" "available w + (18446744073709551616 - ?a - NetworkFeeNano) \<le> MaxInt64"
    using a db(4) by simp_all
  from RequestWithdraw_overflow [OF db(1-3) _ _ st(4) this, of ?env "[]"] env obtain r s' where
    r: "RequestWithdraw ?env (W_TelegramID w) (cs_addr st) ?a [] (b_service b) = (Inr r, s')"
    and w': "?w' \<in> set (wallets (sv_db s'))" "available ?w' > available w + 9223372036844775808"
      "\<forall>b \<le> available ?w'. HasEnough ?w' b" by (auto simp: Let_def numeral_2_eq_2)
  have "amount_of h (TrimSpace (c_Text c)) = Some (Fin q)" using c(4,5) by (simp add: amount_of_def)
  then have "b_service (snd (onText h env c b)) = s'"
    using r c(1-3) st by (simp add: onText_def with_sender_def handleWithdrawState_def svc_def Let_def)
  moreover have "available w = W_TONBalance w + W_Credit w - W_Frozen w" "0 \<le> available w" "0 \<le> W_Credit w"
    using solvent_wallet_frozen [OF db(1,3)] by (simp_all add: wallet_ok_def available_def)
  moreover from this have "9 * 10 ^ 18 \<le> available ?w'" using w'(2) by simp
  ultimately show ?thesis using w' by (intro bexI [of _ ?w']) auto
qed

section \<open>Examples\<close>

definition demo_h :: handler_cfg where
  "demo_h = \<lparr>h_cfg = demo_cfg, h_ownerID = 7, h_defaultLang = EN, h_bundles = (\<lambda>_ _. None),
     h_ParseFloat = (\<lambda>s. if s = ''9223372036.84765625'' then Some (Fin (9223372036 + 217 / 256)) else None),
     h_uuidParse = (\<lambda>s. if HasPrefix s ''id-'' then Some s else None)\<rparr>"

definition demo_ctx :: "int64 \<Rightarrow> tele_ctx" where
  "demo_ctx uid = \<lparr>c_Sender = Some \<lparr>U_ID = uid, U_FirstName = ''Ada'', U_LanguageCode = ''en''\<rparr>,
     c_Text = ''9223372036.84765625'', c_Payload = ''id-3 hash'', c_Data = ''adm:credit''\<rparr>"

definition asked_bot :: bot where
  "asked_bot = \<lparr>b_service = poor_service, b_states = [42 \<mapsto> (conv kindWithdraw ''amount'')\<lparr>cs_addr := demo_addr\<rparr>]\<rparr>"

theorem chat_overflow_witness:
  "\<exists>w' \<in> set (wallets (bdb (snd (onText demo_h demo_env (demo_ctx 42) asked_bot)))). HasEnough w' (9 * 10 ^ 18)"
proof -
  let ?w = "demo_wallet\<lparr>W_TONBalance := 0\<rparr>" and ?s = "(conv kindWithdraw ''amount'')\<lparr>cs_addr := demo_addr\<rparr>"
  have s: "bdb asked_bot = demo_db1" by (simp add: asked_bot_def poor_service_def)
  have 1: "solvent (bdb asked_bot)" using solvency.run_keeps [OF demo_run(1) empty_db_ok(1)] by (simp add: s)
  have 2: "distinct (map W_TelegramID (wallets (bdb asked_bot)))" "?w \<in> set (wallets (bdb asked_bot))"
    "io_uuid (ce_io demo_env) 2 \<notin> R_ID ` set (withdraw_requests (bdb asked_bot))"
    unfolding s by code_simp+
  have av: "available ?w \<le> 200000" by (simp add: demo_wallet_def available_def)
  have 3: "io_ok (ce_io demo_env)" by (simp add: demo_env_def late_io_def demo_io_def io_ok_def)
  have "TrimSpace demo_addr = demo_addr" by (rule TrimSpace_id) (simp_all add: demo_addr_def visible_def)
  then have valid: "IsValidTONAddress (cs_addr ?s)"
    by (simp add: IsValidTONAddress_def demo_addr_def HasPrefix_def)
  have t: "TrimSpace (c_Text (demo_ctx 42)) = ''9223372036.84765625''"
    by (subst TrimSpace_id) (simp_all add: demo_ctx_def visible_def)
  have st: "states_get (W_TelegramID ?w) asked_bot = Some ?s" "cs_kind ?s = kindWithdraw" "cs_step ?s = ''amount''"
    by (simp_all add: states_get_def asked_bot_def demo_wallet_def conv_def)
  have c: "c_Sender (demo_ctx 42) = Some \<lparr>U_ID = 42, U_FirstName = ''Ada'', U_LanguageCode = ''en''\<rparr>"
    "U_ID \<lparr>U_ID = 42, U_FirstName = ''Ada'', U_LanguageCode = ''en''\<rparr> = W_TelegramID ?w"
    "\<not> isCancel demo_h (TrimSpace (c_Text (demo_ctx 42)))"
    "h_ParseFloat demo_h (TrimSpace (c_Text (demo_ctx 42))) = Some (Fin (9223372036 + 217 / 256))"
    by (simp_all add: t) (simp_all add: demo_ctx_def demo_wallet_def isCancel_def demo_h_def i18n_T_def supported_def)
  from chat_overflow [OF 1 2(1,2) av 3 2(3) st valid c] show ?thesis by auto
qed

theorem only_owner_administers_witness:
  "\<exists>new. withdraw_requests (bdb (snd (Register demo_h (Command ''/approve'') demo_env (demo_ctx 42)
     (no_convs (demo_service\<lparr>sv_db := demo_db3\<rparr>))))) = withdraw_requests demo_db3 @ new"
  using only_owner_administers [OF rtranclp.rtrancl_refl [of "bot_step demo_h" "no_convs (demo_service\<lparr>sv_db := demo_db3\<rparr>)"],
      of "demo_ctx 42" _ "Command ''/approve''" demo_env]
  by (simp add: demo_ctx_def demo_h_def no_convs_def)

theorem conversations_well_formed_witness: "conv_ok demo_h 7 (conv kindAdminCredit ''user_id'')"
proof -
  let ?b = "snd (Register demo_h OnCallback demo_env (demo_ctx 7) (no_convs demo_service))"
  have "(bot_step demo_h)\<^sup>*\<^sup>* (no_convs demo_service) ?b" by (rule r_into_rtranclp) (rule bot_step.update)
  moreover have "states_get 7 ?b = Some (conv kindAdminCredit ''user_id'')"
    by (simp add: Register_def onCallback_def demo_ctx_def onAdminCallback_def isAdmin_def demo_h_def TrimPrefix_def
        HasPrefix_def onAdminCreditStart_def with_sender_def states_get_def states_set_def Let_def)
  ultimately show ?thesis by (rule conversations_well_formed)
qed


end
