(* ===== verification/PaySystem.thy ===== *)
theory PaySystem
  imports PayBotProps
begin

text \<open>
  botpay as one system: the responder on NATS, the blockchain watcher and the Telegram bot work on
  the same service and the same database, in any order.
\<close>

section \<open>Interleavings\<close>

record system =
  sy_bot :: bot
  sy_seen :: "string list"

definition with_service :: "service \<Rightarrow> system \<Rightarrow> system" where
  "with_service s y = y\<lparr>sy_bot := (sy_bot y)\<lparr>b_service := s\<rparr>\<rparr>"

definition after_poll :: "watcher \<Rightarrow> system \<Rightarrow> system" where
  "after_poll wt y = (with_service (wt_service wt) y)\<lparr>sy_seen := wt_seen wt\<rparr>"

abbreviation sv :: "system \<Rightarrow> service" where "sv y \<equiv> b_service (sy_bot y)"

text \<open>A text that, read as an amount, stays at least the network fee away from the largest 64-bit number.\<close>

definition modest :: "handler_cfg \<Rightarrow> tele_ctx \<Rightarrow> bool" where
  "modest h c =
     (case amount_of h (TrimSpace (c_Text c)) of
        None \<Rightarrow> True
      | Some amt \<Rightarrow> in_int64 (TONToNano amt + NetworkFeeNano))"

lemma modest_safe: "modest h c \<Longrightarrow> store_ops.safe_amount h (TrimSpace (c_Text c))"
  by (auto simp: modest_def store_ops.safe_amount_def)

inductive sys_step :: "responder \<Rightarrow> handler_cfg \<Rightarrow> system \<Rightarrow> system \<Rightarrow> bool" for r h where
  nats_balance: "sys_step r h y (with_service (snd (handleBalance r io p (sv y))) y)"
| nats_authorize: "sys_step r h y (with_service (snd (handleAuthorize r io p (sv y))) y)"
| nats_deduct: "sys_step r h y (with_service (snd (handleDeduct r env d (sv y))) y)"
| nats_credit: "sys_step r h y (with_service (snd (handleCredit r io d (sv y))) y)"
| nats_invoice: "sys_step r h y (with_service (snd (handleCreateInvoice r env v (sv y))) y)"
| nats_status: "sys_step r h y (with_service (snd (handleInvoiceStatus r io q (sv y))) y)"
| nats_transfer: "sys_step r h y (with_service (snd (handleTransfer r env t (sv y))) y)"
| chain_poll: "(\<And>i. aborts (io_shift 2 (ce_io (envs i)))) \<Longrightarrow>
    sys_step r h y (after_poll (poll cfg envs fetched \<lparr>wt_seen = sy_seen y, wt_service = sv y\<rparr>) y)"
| telegram: "careful h c (sy_bot y) \<Longrightarrow> modest h c \<Longrightarrow> sys_step r h y (y\<lparr>sy_bot := snd (Register h ep env c (sy_bot y))\<rparr>)"

inductive_cases sys_stepE: "sys_step r h y y'"

lemma with_service_sel [simp]:
  "sv (with_service s y) = s" "b_states (sy_bot (with_service s y)) = b_states (sy_bot y)"
  by (simp_all add: with_service_def)

lemma convs_with_service [simp]:
  "convs_ok h (sy_bot (with_service s y)) = convs_ok h (sy_bot y)"
  "convs_ok h (sy_bot (after_poll wt y)) = convs_ok h (sy_bot y)"
  by (simp_all add: convs_ok_def states_get_def with_service_def after_poll_def)

lemma sv_after_poll [simp]: "sv (after_poll wt y) = wt_service wt"
  by (simp add: after_poll_def with_service_def)

text \<open>A step keeps the conversations and moves the database along the operations of the store.\<close>

lemma sys_step_runs:
  assumes "sys_step r h y y'" "convs_ok h (sy_bot y)"
  shows "convs_ok h (sy_bot y') \<and> runs (sv y) (sv y')"
  using assms(1)
proof cases
  case (chain_poll envs cfg fetched)
  then show ?thesis
    using assms(2) poll_runs [of envs "\<lparr>wt_seen = sy_seen y, wt_service = sv y\<rparr>" cfg fetched] by simp
next
  case (telegram c ep env)
  then show ?thesis using assms(2) by (auto simp: Register_conv Register_runs modest_safe)
qed (simp_all add: assms(2) handleBalance_runs handleAuthorize_runs handleDeduct_runs handleCredit_runs
      handleCreateInvoice_runs handleInvoiceStatus_same handleTransfer_runs)

definition sys_inv :: "handler_cfg \<Rightarrow> pay_db \<Rightarrow> system \<Rightarrow> bool" where
  "sys_inv h db0 y \<longleftrightarrow> convs_ok h (sy_bot y) \<and> pay_step\<^sup>*\<^sup>* db0 (sv_db (sv y))"

interpretation sys: step_invariant "sys_step r h" "sys_inv h db0"
proof
  fix y y' assume "sys_step r h y y'" "sys_inv h db0 y"
  then show "sys_inv h db0 y'"
    using sys_step_runs [of r h y y'] by (auto simp: sys_inv_def runs_def)
qed

definition fresh_system :: "Engine \<Rightarrow> system" where
  "fresh_system e = \<lparr>sy_bot = no_convs \<lparr>sv_db = empty_db, sv_engine = e, sv_out = []\<rparr>, sy_seen = []\<rparr>"



definition demo_system :: system where
  "demo_system = (fresh_system (toy_engine ''a''))\<lparr>sy_bot := snd (Register demo_h
     (Command ''/start'') demo_env (demo_ctx 42\<lparr>c_Text := ''/start''\<rparr>) (sy_bot (fresh_system (toy_engine ''a''))))\<rparr>"

lemma start_text: "TrimSpace ''/start'' = ''/start''"
  by (rule TrimSpace_id) (simp_all add: visible_def)

lemma demo_system_reach:
  "(sys_step demo_responder demo_h)\<^sup>*\<^sup>* (fresh_system (toy_engine ''a'')) demo_system"
  unfolding demo_system_def
  by (rule r_into_rtranclp, rule sys_step.telegram)
    (simp_all add: careful_def pending_id_def fresh_system_def no_convs_def empty_db_def modest_def amount_of_def demo_h_def
      start_text)

lemma demo_system_wallet: "length (wallets (sv_db (sv demo_system))) = 1"
  by (simp add: demo_system_def fresh_system_def Register_def onStart_def demo_ctx_def with_sender_def svc_def
      case_prod_beta no_convs_def GetOrCreate_def on_db_def GetOrCreateWallet_def demo_env_def late_io_def demo_io_def
      empty_db_def First_def First_row_def insert_wallet_def Let_def split: sum.splits)



end
