(* ===== verification/PayClient.thy ===== *)
theory PayClient
  imports PayBotProps
begin

text \<open>
  The client that the other services use to reach botpay (\<open>shared-core/natspayclient\<close>), on top of
  the responder's handlers. A NATS request is answered, or it times out: then the responder may have
  done the work all the same. The Redis cache of balances is a finite map.
\<close>

section \<open>Transport\<close>

datatype transport = Delivered | NotDelivered | ReplyLost

text \<open>\<open>nc.Request\<close>: the handler runs unless the request is lost on its way.\<close>

definition nats_request :: "transport \<Rightarrow> ('s \<Rightarrow> 'r \<times> 's) \<Rightarrow> 's \<Rightarrow> (go_error + 'r) \<times> 's" where
  "nats_request tr handler s =
     (case tr of
        NotDelivered \<Rightarrow> (Inl (Sentinel ''nats: timeout''), s)
      | ReplyLost \<Rightarrow> (Inl (Sentinel ''nats: timeout''), snd (handler s))
      | Delivered \<Rightarrow> (let (r, s') = handler s in (Inr r, s')))"

section \<open>The client (\<open>client.go\<close>)\<close>

record BalanceResp =
  BL_TelegramID :: int64
  BL_TONBalance :: f64
  BL_Credit :: f64
  BL_Total :: f64
  BL_Frozen :: f64
  BL_TONAddress :: string

record ClientInvoice =  \<comment> \<open>\<open>Invoice\<close> of the client\<close>
  CI_Code :: string
  CI_MasterAddress :: string
  CI_AmountTON :: f64
  CI_ExpiresAt :: int64

record InvoiceStatusResult =
  IS_Status :: PayStatus
  IS_AmountTON :: f64
  IS_PaidTON :: f64
  IS_ExpiresAt :: int64

record pay_client =
  pc_ServiceID :: string
  pc_ServiceKey :: string
  pc_responder :: responder
  pc_cached :: bool

text \<open>What a client works on: botpay behind NATS, and the cache.\<close>

record pay_world =
  pw_service :: service
  pw_cache :: "int64 \<rightharpoonup> BalanceResp"

record client_env =
  cl_transport :: transport
  cl_call :: call_env
  cl_get_ok :: bool
  cl_put_ok :: bool

text \<open>The client's error value, with the text \<open>insufficient balance\<close>; it is not the one of botpay's wallet service.\<close>

abbreviation client_ErrInsufficientBalance :: go_error where
  "client_ErrInsufficientBalance \<equiv> Sentinel ''natspayclient: insufficient balance''"

definition IsInsufficientBalance :: "go_error \<Rightarrow> bool" where
  "IsInsufficientBalance e \<longleftrightarrow> e = client_ErrInsufficientBalance"

definition base :: "pay_client \<Rightarrow> int64 \<Rightarrow> PayRequest" where
  "base c tgID = \<lparr>Q_ServiceID = pc_ServiceID c, Q_ServiceKey = pc_ServiceKey c, Q_TelegramID = tgID\<rparr>"

definition at_botpay :: "client_env \<Rightarrow> (service \<Rightarrow> 'r \<times> service) \<Rightarrow> pay_world \<Rightarrow> (go_error + 'r) \<times> pay_world" where
  "at_botpay env handler w =
     (let (r, s) = nats_request (cl_transport env) handler (pw_service w) in (r, w\<lparr>pw_service := s\<rparr>))"

definition pay_err :: "go_error \<Rightarrow> go_error" where
  "pay_err e = Textf ''pay: %s'' e"

definition cache_del :: "pay_client \<Rightarrow> client_env \<Rightarrow> int64 \<Rightarrow> pay_world \<Rightarrow> pay_world" where
  "cache_del c env tgID w =
     (if pc_cached c \<and> cl_put_ok env then w\<lparr>pw_cache := (pw_cache w)(tgID := None)\<rparr> else w)"

definition Balance :: "pay_client \<Rightarrow> client_env \<Rightarrow> int64 \<Rightarrow> pay_world \<Rightarrow> (go_error + BalanceResp) \<times> pay_world" where
  "Balance c env telegramID w =
     (case (if pc_cached c \<and> cl_get_ok env then pw_cache w telegramID else None) of
        Some b \<Rightarrow> (Inr b, w)
      | None \<Rightarrow>
          (case at_botpay env (handleBalance (pc_responder c) (ce_io (cl_call env)) (Some (base c telegramID))) w of
             (Inl e, w1) \<Rightarrow> (Inl e, w1)
           | (Inr resp, w1) \<Rightarrow>
               (case BR_Error resp of
                  Some e \<Rightarrow> (Inl (pay_err e), w1)
                | None \<Rightarrow>
                    (let b = \<lparr>BL_TelegramID = BR_TelegramID resp, BL_TONBalance = BR_TONBalance resp,
                              BL_Credit = BR_Credit resp, BL_Total = BR_Total resp, BL_Frozen = BR_Frozen resp,
                              BL_TONAddress = BR_TONAddress resp\<rparr>
                     in (Inr b, if pc_cached c \<and> cl_put_ok env
                                then w1\<lparr>pw_cache := (pw_cache w1)(telegramID \<mapsto> b)\<rparr> else w1)))))"

definition Authorize :: "pay_client \<Rightarrow> client_env \<Rightarrow> int64 \<Rightarrow> pay_world \<Rightarrow> (go_error + bool) \<times> pay_world" where
  "Authorize c env telegramID w =
     (case at_botpay env (handleAuthorize (pc_responder c) (ce_io (cl_call env)) (Some (base c telegramID))) w of
        (Inl e, w1) \<Rightarrow> (Inl e, w1)
      | (Inr resp, w1) \<Rightarrow>
          (case AR_Error resp of Some e \<Rightarrow> (Inl (pay_err e), w1) | None \<Rightarrow> (Inr (AR_Authorized resp), w1)))"

definition Client_CreateInvoice ::
  "pay_client \<Rightarrow> client_env \<Rightarrow> int64 \<Rightarrow> f64 \<Rightarrow> string \<Rightarrow> pay_world \<Rightarrow> (go_error + ClientInvoice) \<times> pay_world" where
  "Client_CreateInvoice c env telegramID amountTON ref w =
     (case at_botpay env (handleCreateInvoice (pc_responder c) (cl_call env)
             (Some (PayRequest.extend (base c telegramID) \<lparr>IQ_AmountTON = amountTON, IQ_Ref = ref\<rparr>))) w of
        (Inl e, w1) \<Rightarrow> (Inl e, w1)
      | (Inr resp, w1) \<Rightarrow>
          (case IR_Error resp of
             Some e \<Rightarrow> (Inl (pay_err e), w1)
           | None \<Rightarrow> (Inr \<lparr>CI_Code = IR_Code resp, CI_MasterAddress = IR_MasterAddress resp, CI_AmountTON = IR_AmountTON resp,
                          CI_ExpiresAt = IR_ExpiresAt resp\<rparr>, w1)))"

definition Client_InvoiceStatus ::
  "pay_client \<Rightarrow> client_env \<Rightarrow> int64 \<Rightarrow> string \<Rightarrow> pay_world \<Rightarrow> (go_error + InvoiceStatusResult) \<times> pay_world" where
  "Client_InvoiceStatus c env telegramID code w =
     (case at_botpay env (handleInvoiceStatus (pc_responder c) (ce_io (cl_call env))
             (Some (PayRequest.extend (base c telegramID) \<lparr>SQ_Code = code\<rparr>))) w of
        (Inl e, w1) \<Rightarrow> (Inl e, w1)
      | (Inr resp, w1) \<Rightarrow>
          (case SR_Error resp of
             Some e \<Rightarrow> (Inl (pay_err e), w1)
           | None \<Rightarrow> (Inr \<lparr>IS_Status = SR_Status resp, IS_AmountTON = SR_AmountTON resp, IS_PaidTON = SR_PaidTON resp,
                          IS_ExpiresAt = SR_ExpiresAt resp\<rparr>, w1)))"

definition DeductWithMeta ::
  "pay_client \<Rightarrow> client_env \<Rightarrow> int64 \<Rightarrow> f64 \<Rightarrow> string \<Rightarrow> string \<Rightarrow> string \<Rightarrow> string \<Rightarrow> pay_world \<Rightarrow>
     (go_error + f64) \<times> pay_world" where
  "DeductWithMeta c env telegramID amountTON reason idempotencyKey ref metadata w =
     (case at_botpay env (handleDeduct (pc_responder c) (cl_call env)
             (Some (PayRequest.extend (base c telegramID)
                \<lparr>Q_AmountTON = amountTON, Q_Reason = reason, Q_Ref = ref, Q_Metadata = metadata,
                 Q_IdempotencyKey = idempotencyKey\<rparr>))) w of
        (Inl e, w1) \<Rightarrow> (Inl e, w1)
      | (Inr resp, w1) \<Rightarrow>
          (case DR_Error resp of
             Some e \<Rightarrow>
               (if DR_Code resp = ErrCodeInsufficientBalance then (Inl client_ErrInsufficientBalance, w1)
                else (Inl (pay_err e), w1))
           | None \<Rightarrow> (Inr (DR_NewBalance resp), cache_del c env telegramID w1)))"

definition Client_Deduct ::
  "pay_client \<Rightarrow> client_env \<Rightarrow> int64 \<Rightarrow> f64 \<Rightarrow> string \<Rightarrow> string \<Rightarrow> pay_world \<Rightarrow> (go_error + f64) \<times> pay_world" where
  "Client_Deduct c env telegramID amountTON reason idempotencyKey =
     DeductWithMeta c env telegramID amountTON reason idempotencyKey [] []"

text \<open>\<open>%q\<close> of a plan id that needs no escapes.\<close>

definition DeductForService ::
  "pay_client \<Rightarrow> client_env \<Rightarrow> int64 \<Rightarrow> f64 \<Rightarrow> string \<Rightarrow> pay_world \<Rightarrow> (go_error + string) \<times> pay_world" where
  "DeductForService c env telegramID amountTON planID w =
     (let reason = ''plan:'' @ planID;
          dq = [CHR 0x22];
          meta = ''{'' @ dq @ ''plan_id'' @ dq @ '':'' @ dq @ planID @ dq @ ''}''
      in case DeductWithMeta c env telegramID amountTON reason reason planID meta w of
           (Inl e, w1) \<Rightarrow> (Inl e, w1)
         | (Inr _, w1) \<Rightarrow> (Inr reason, w1))"

definition Client_Credit ::
  "pay_client \<Rightarrow> client_env \<Rightarrow> int64 \<Rightarrow> f64 \<Rightarrow> string \<Rightarrow> string \<Rightarrow> pay_world \<Rightarrow> (go_error + unit) \<times> pay_world" where
  "Client_Credit c env telegramID amountTON ref metadata w =
     (case at_botpay env (handleCredit (pc_responder c) (ce_io (cl_call env))
             (Some (PayRequest.extend (base c telegramID)
                \<lparr>Q_AmountTON = amountTON, Q_Reason = ref, Q_Ref = ref, Q_Metadata = metadata,
                 Q_IdempotencyKey = []\<rparr>))) w of
        (Inl e, w1) \<Rightarrow> (Inl e, w1)
      | (Inr resp, w1) \<Rightarrow>
          (case DR_Error resp of
             Some e \<Rightarrow> (Inl (pay_err e), w1)
           | None \<Rightarrow> (Inr (), cache_del c env telegramID w1)))"

definition RefundService ::
  "pay_client \<Rightarrow> client_env \<Rightarrow> int64 \<Rightarrow> f64 \<Rightarrow> string \<Rightarrow> pay_world \<Rightarrow> (go_error + unit) \<times> pay_world" where
  "RefundService c env telegramID amountTON ref = Client_Credit c env telegramID amountTON (''refund:'' @ ref) []"

text \<open>\<open>SubscribeWalletUpdates\<close>: an event of botpay drops the cached balance of its user.\<close>

definition onWalletUpdated :: "pay_client \<Rightarrow> client_env \<Rightarrow> int64 \<Rightarrow> pay_world \<Rightarrow> pay_world" where
  "onWalletUpdated c env telegramID w = cache_del c env telegramID w"

end
