(* ===== verification/PayClientProps.thy ===== *)
theory PayClientProps
  imports PayClient
begin

text \<open>
  What the services can rely on when they pay through the client: every call moves botpay along the
  steps of its store, a credit that is answered has arrived exactly once, and what repeated purchases
  of one plan do.
\<close>

section \<open>Calls move botpay along the steps of its store\<close>

lemma at_botpay_runs:
  assumes "\<And>s. runs s (snd (handler s))"
  shows "runs (pw_service w) (pw_service (snd (at_botpay env handler w)))"
  using assms by (auto simp: at_botpay_def nats_request_def case_prod_beta split: transport.splits)

lemma cache_del_service [simp]: "pw_service (cache_del c env tg w) = pw_service w"
  by (simp add: cache_del_def)

lemma client_runs:
  "runs (pw_service w) (pw_service (snd (Balance c env tg w)))"
  "runs (pw_service w) (pw_service (snd (Authorize c env tg w)))"
  "runs (pw_service w) (pw_service (snd (Client_CreateInvoice c env tg a ref w)))"
  "runs (pw_service w) (pw_service (snd (DeductWithMeta c env tg a why key ref meta w)))"
  "runs (pw_service w) (pw_service (snd (Client_Credit c env tg a ref meta w)))"
  using at_botpay_runs [OF handleBalance_runs] at_botpay_runs [OF handleAuthorize_runs]
    at_botpay_runs [OF handleCreateInvoice_runs] at_botpay_runs [OF handleDeduct_runs] at_botpay_runs [OF handleCredit_runs]
  by (simp_all add: Balance_def Authorize_def Client_CreateInvoice_def DeductWithMeta_def Client_Credit_def Let_def
      case_prod_beta split: sum.splits option.splits)

lemma other_client_runs:
  "runs (pw_service w) (pw_service (snd (DeductForService c env tg a plan w)))"
  "runs (pw_service w) (pw_service (snd (RefundService c env tg a ref w)))"
  using client_runs by (simp_all add: DeductForService_def RefundService_def Let_def case_prod_beta split: sum.splits)

section \<open>Credits\<close>

definition cash :: "int64 \<Rightarrow> pay_db \<Rightarrow> int" where
  "cash tg db = sum_list (map W_Credit (filter (\<lambda>w. W_TelegramID w = tg) (wallets db)))"

definition ids_ok :: "pay_db \<Rightarrow> bool" where
  "ids_ok db \<longleftrightarrow> distinct (map W_ID (wallets db))"

lemma sum_filter_map_same:
  assumes "\<And>r. r \<in> set rows \<Longrightarrow> W_TelegramID (g r) = W_TelegramID r \<and> W_Credit (g r) = W_Credit r"
  shows "sum_list (map W_Credit (filter (\<lambda>w. W_TelegramID w = tg) (map g rows))) =
    sum_list (map W_Credit (filter (\<lambda>w. W_TelegramID w = tg) rows))"
  using assms by (induction rows) auto

lemma insert_wallet_Inr:
  "insert_wallet w rows = Inr rows' \<longleftrightarrow> rows' = rows @ [w] \<and>
     W_ID w \<notin> W_ID ` set rows \<and> W_TelegramID w \<notin> W_TelegramID ` set rows \<and> W_PayHandle w \<notin> W_PayHandle ` set rows"
proof (cases "\<exists>r \<in> set rows. W_ID r = W_ID w \<or> W_TelegramID r = W_TelegramID w \<or> W_PayHandle r = W_PayHandle w")
  case True
  then have "W_ID w \<in> W_ID ` set rows \<or> W_TelegramID w \<in> W_TelegramID ` set rows \<or> W_PayHandle w \<in> W_PayHandle ` set rows"
    by (metis image_eqI)
  with True show ?thesis by (auto simp: insert_wallet_def)
qed (auto simp: insert_wallet_def)

lemma GetOrCreateWallet_cash:
  assumes "ids_ok db"
  shows "ids_ok (snd (GetOrCreateWallet io tg addr db))" "cash u (snd (GetOrCreateWallet io tg addr db)) = cash u db"
proof -
  let ?g = "\<lambda>i h r. if W_ID r = i then r\<lparr>W_PayHandle := h\<rparr> else r"
  have g: "map W_ID (map (?g i h) rows) = map W_ID rows" for i h rows by auto
  have c: "sum_list (map W_Credit (filter (\<lambda>w. W_TelegramID w = u) (map (?g i h) rows))) =
    sum_list (map W_Credit (filter (\<lambda>w. W_TelegramID w = u) rows))" for i h rows by (rule sum_filter_map_same) auto
  show "ids_ok (snd (GetOrCreateWallet io tg addr db))"
    using assms by (auto simp: ids_ok_def GetOrCreateWallet_def Let_def stmt_Inr insert_wallet_Inr comp_def
        split: sum.splits if_splits simp del: map_map simp: g)
  show "cash u (snd (GetOrCreateWallet io tg addr db)) = cash u db"
    by (auto simp: cash_def GetOrCreateWallet_def Let_def stmt_Inr insert_wallet_Inr
        split: sum.splits if_splits simp del: filter_map simp: c)
qed

lemma GetOrCreateWallet_row:
  assumes "GetOrCreateWallet io tg addr db = (Inr w, db')" "tg \<noteq> 0" "ids_ok db"
  shows "w \<in> set (wallets db')" "W_TelegramID w = tg"
  using assms
  by (auto simp: GetOrCreateWallet_def Let_def stmt_Inr insert_wallet_Inr wallet_struct_cond_def
      split: sum.splits if_splits dest!: First_Inr_row intro!: image_eqI [rotated])

lemma AddCredit_rows_of:
  assumes "AddCredit io i a d db = (Inr (), db')"
  shows "0 < a" "wallets db' = map (\<lambda>r. if W_ID r = i then r\<lparr>W_Credit := W_Credit r + a\<rparr> else r) (wallets db)"
proof -
  show "0 < a" using assms by (auto simp: AddCredit_def split: if_splits)
  obtain db1 where "update_wallet i (add_credit a) db = Inr db1" "wallets db' = wallets db1"
    using assms by (auto simp: AddCredit_def gorm_Transaction_Inr stmt_Inr create_transaction_def
        split: if_splits sum.splits)
  then obtain rows where rows: "update_rows (\<lambda>w. W_ID w = i) (add_credit a) (wallets db) = Inr rows" "wallets db' = rows"
    by (auto simp: update_wallet_def split: sum.splits)
  note R = update_rows_InrD [OF rows(1)]
  have "projr (add_credit a r) = r\<lparr>W_Credit := W_Credit r + a\<rparr>" if "r \<in> set (wallets db)" "W_ID r = i" for r
  proof -
    have "add_credit a r = Inr (projr (add_credit a r))" using R that by blast
    then show ?thesis by (simp add: add_credit_Inr)
  qed
  with R rows(2) show "wallets db' = map (\<lambda>r. if W_ID r = i then r\<lparr>W_Credit := W_Credit r + a\<rparr> else r) (wallets db)"
    by auto
qed

lemma sum_credit_one:
  assumes "distinct (map W_ID rows)" "w \<in> set rows"
  shows "sum_list (map W_Credit (filter (\<lambda>x. W_TelegramID x = tg)
      (map (\<lambda>r. if W_ID r = W_ID w then r\<lparr>W_Credit := W_Credit r + a\<rparr> else r) rows))) =
    sum_list (map W_Credit (filter (\<lambda>x. W_TelegramID x = tg) rows)) + (if W_TelegramID w = tg then a else 0)"
  using assms
proof (induction rows)
  case (Cons r rows)
  show ?case
  proof (cases "r = w")
    case True
    then have "map (\<lambda>r. if W_ID r = W_ID w then r\<lparr>W_Credit := W_Credit r + a\<rparr> else r) rows = rows"
      using Cons.prems(1) by (intro map_idI) (auto simp: image_iff)
    with True show ?thesis by simp
  next
    case False
    then have "w \<in> set rows" "W_ID r \<noteq> W_ID w" using Cons.prems by (auto simp: image_iff)
    with Cons show ?thesis by simp
  qed
qed simp

lemma AddCredit_cash:
  assumes "AddCredit io (W_ID w) a d db = (Inr (), db')" "ids_ok db" "w \<in> set (wallets db)"
  shows "ids_ok db'" "cash u db' = cash u db + (if W_TelegramID w = u then a else 0)"
proof -
  note r = AddCredit_rows_of(2) [OF assms(1)]
  have "map W_ID (wallets db') = map W_ID (wallets db)" by (simp add: r)
  with assms(2) show "ids_ok db'" by (simp only: ids_ok_def)
  show "cash u db' = cash u db + (if W_TelegramID w = u then a else 0)"
    unfolding cash_def r using sum_credit_one [of "wallets db" w u a] assms(2,3) by (simp only: ids_ok_def)
qed

lemma AddCredit_failed: "AddCredit io i a d db = (Inl e, db') \<Longrightarrow> db' = db"
  by (auto simp: AddCredit_def split: if_splits dest: gorm_Transaction_error)

text \<open>A credit that the responder reports as done has arrived, once, and nothing else has changed.\<close>

lemma refresh_balance_cash:
  assumes "ids_ok (sv_db s)"
  shows "ids_ok (sv_db (snd (refresh_balance r io tg why s)))"
    "cash u (sv_db (snd (refresh_balance r io tg why s))) = cash u (sv_db s)"
  using GetOrCreateWallet_cash [OF assms, where io = io and tg = tg and addr = "cfg_masterAddr (rs_cfg r)"]
  by (auto simp: refresh_balance_def GetOrCreate_def on_db_def emit_def writeBalanceCache_def case_prod_beta
      split: sum.splits prod.splits)

lemma handleCredit_cash:
  assumes "handleCredit r io (Some req) s = (resp, s')" "ids_ok (sv_db s)" "Q_TelegramID req \<noteq> 0"
  shows "ids_ok (sv_db s')"
    "DR_Error resp = None \<Longrightarrow> cash u (sv_db s') = cash u (sv_db s) +
       (if u = Q_TelegramID req then TONToNano (Q_AmountTON req) else 0)"
    "DR_Error resp \<noteq> None \<Longrightarrow> cash u (sv_db s') = cash u (sv_db s)"
proof -
  let ?tg = "Q_TelegramID req" and ?a = "TONToNano (Q_AmountTON req)"
  obtain r1 db1 where g: "GetOrCreateWallet (io_shift 1 io) ?tg (cfg_masterAddr (rs_cfg r)) (sv_db s) = (r1, db1)"
    by fastforce
  note G = GetOrCreateWallet_cash [OF assms(2), where io = "io_shift 1 io" and tg = ?tg and addr = "cfg_masterAddr (rs_cfg r)",
      unfolded g snd_conv]
  have "ids_ok (sv_db s') \<and>
    (DR_Error resp = None \<longrightarrow> cash u (sv_db s') = cash u (sv_db s) + (if u = ?tg then ?a else 0)) \<and>
    (DR_Error resp \<noteq> None \<longrightarrow> cash u (sv_db s') = cash u (sv_db s))"
  proof (cases "authorize r io (Q_ServiceID req) (Q_ServiceKey req) (sv_db s) \<and> validAmount (Q_AmountTON req)")
    case True
    show ?thesis
    proof (cases r1)
      case (Inl e)
      with True g G assms(1) show ?thesis
        by (auto simp: handleCredit_def GetOrCreate_def on_db_def deduct_error_def)
    next
      case (Inr w)
      note w = GetOrCreateWallet_row [OF g [unfolded Inr] assms(3,2)]
      obtain r2 db2 where a: "AddCredit (io_shift 4 io) (W_ID w) ?a (Q_Reason req) db1 = (r2, db2)" by fastforce
      show ?thesis
      proof (cases r2)
        case (Inl e)
        with AddCredit_failed a have "db2 = db1" by blast
        with Inl \<open>r1 = Inr w\<close> True g a G assms(1) show ?thesis
          by (auto simp: handleCredit_def GetOrCreate_def on_db_def deduct_error_def)
      next
        case (Inr x)
        have a': "AddCredit (io_shift 4 io) (W_ID w) ?a (Q_Reason req) db1 = (Inr (), db2)" using a Inr by simp
        note A = AddCredit_cash [OF a' G(1) w(1)]
        let ?s2 = "s\<lparr>sv_db := db1\<rparr>\<lparr>sv_db := db2\<rparr>"
        have s': "s' = snd (refresh_balance r (io_shift 7 io) ?tg ''refund'' ?s2)" "DR_Error resp = None"
          using Inr \<open>r1 = Inr w\<close> True g a assms(1)
          by (auto simp: handleCredit_def GetOrCreate_def on_db_def split: prod.splits)
        have ok: "ids_ok (sv_db ?s2)" using A(1) by simp
        show ?thesis
          using refresh_balance_cash [OF ok, where r = r and io = "io_shift 7 io" and tg = ?tg and why = "''refund''"] A(2) [of u] G(2) [of u] w(2) s' by auto
      qed
    qed
  next
    case False
    then have "s' = s" "DR_Error resp \<noteq> None"
      using assms(1) by (auto simp: handleCredit_def deduct_error_def split: if_splits)
    with assms(2) show ?thesis by auto
  qed
  then show "ids_ok (sv_db s')"
    "DR_Error resp = None \<Longrightarrow> cash u (sv_db s') = cash u (sv_db s) + (if u = ?tg then ?a else 0)"
    "DR_Error resp \<noteq> None \<Longrightarrow> cash u (sv_db s') = cash u (sv_db s)" by blast+
qed

lemma Client_Credit_cash:
  assumes "Client_Credit c env tg x ref meta w = (res, w')" "ids_ok (sv_db (pw_service w))" "tg \<noteq> 0"
  shows "ids_ok (sv_db (pw_service w'))"
    "res = Inr () \<Longrightarrow> cash u (sv_db (pw_service w')) = cash u (sv_db (pw_service w)) + (if u = tg then TONToNano x else 0)"
    "u \<noteq> tg \<Longrightarrow> cash u (sv_db (pw_service w')) = cash u (sv_db (pw_service w))"
proof -
  let ?req = "PayRequest.extend (base c tg) \<lparr>Q_AmountTON = x, Q_Reason = ref, Q_Ref = ref, Q_Metadata = meta, Q_IdempotencyKey = []\<rparr>"
  obtain resp s' where h: "handleCredit (pc_responder c) (ce_io (cl_call env)) (Some ?req) (pw_service w) = (resp, s')"
    by fastforce
  have q: "Q_TelegramID ?req = tg" "Q_AmountTON ?req = x" by (simp_all add: base_def PayRequest.defs)
  note H = handleCredit_cash [OF h assms(2), unfolded q, OF assms(3)]
  have "(pw_service w' = s' \<or> pw_service w' = pw_service w) \<and>
    (res = Inr () \<longrightarrow> pw_service w' = s' \<and> DR_Error resp = None)"
    using assms(1) h
    by (auto simp: Client_Credit_def at_botpay_def nats_request_def split: transport.splits option.splits)
  with H assms(2) show "ids_ok (sv_db (pw_service w'))"
    "res = Inr () \<Longrightarrow> cash u (sv_db (pw_service w')) = cash u (sv_db (pw_service w)) + (if u = tg then TONToNano x else 0)"
    "u \<noteq> tg \<Longrightarrow> cash u (sv_db (pw_service w')) = cash u (sv_db (pw_service w))"
    by (fastforce simp: option.exhaust_sel)+
qed

text \<open>Whatever the call reports, the account has got the amount, or nothing has changed.\<close>

lemma Client_Credit_any:
  assumes "Client_Credit c env tg x ref meta w = (res, w')" "ids_ok (sv_db (pw_service w))" "tg \<noteq> 0"
  shows "cash u (sv_db (pw_service w')) = cash u (sv_db (pw_service w)) \<or>
    u = tg \<and> cash u (sv_db (pw_service w')) = cash u (sv_db (pw_service w)) + TONToNano x"
proof -
  let ?req = "PayRequest.extend (base c tg) \<lparr>Q_AmountTON = x, Q_Reason = ref, Q_Ref = ref, Q_Metadata = meta, Q_IdempotencyKey = []\<rparr>"
  obtain resp s' where h: "handleCredit (pc_responder c) (ce_io (cl_call env)) (Some ?req) (pw_service w) = (resp, s')"
    by fastforce
  have q: "Q_TelegramID ?req = tg" "Q_AmountTON ?req = x" by (simp_all add: base_def PayRequest.defs)
  note H = handleCredit_cash [OF h assms(2), unfolded q, OF assms(3)]
  have "pw_service w' = s' \<or> pw_service w' = pw_service w"
    using assms(1) h
    by (auto simp: Client_Credit_def at_botpay_def nats_request_def split: transport.splits option.splits)
  then show ?thesis
  proof
    assume s': "pw_service w' = s'"
    show ?thesis
    proof (cases "DR_Error resp = None")
      case True
      from H(2) [OF True, of u] show ?thesis unfolding s' by (cases "u = tg") simp_all
    next
      case False
      from H(3) [OF False, of u] show ?thesis unfolding s' by blast
    qed
  qed simp
qed

section \<open>Repeated purchases of one plan\<close>

lemma GetWallet_existing:
  assumes "distinct (map W_TelegramID (wallets db))" "w \<in> set (wallets db)" "io_ok io"
  shows "GetWallet io (W_TelegramID w) db = Inr (Some w)"
proof -
  have "First_row W_ID (\<lambda>x. W_TelegramID x = W_TelegramID w) (wallets db) = Some w"
    by (rule First_row_unique) (use assms in \<open>auto dest: distinct_key_eq\<close>)
  then show ?thesis using assms(3) by (simp add: GetWallet_def First_def nil_if_not_found_def)
qed

lemma GetOrCreateWallet_existing:
  assumes "distinct (map W_TelegramID (wallets db))" "w \<in> set (wallets db)" "io_ok io" "W_TelegramID w \<noteq> 0" "W_PayHandle w \<noteq> []"
  shows "GetOrCreateWallet io (W_TelegramID w) addr db = (Inr w, db)"
proof -
  have "First_row W_ID (wallet_struct_cond (W_TelegramID w)) (wallets db) = Some w"
    by (rule First_row_unique) (use assms in \<open>auto simp: wallet_struct_cond_def dest: distinct_key_eq\<close>)
  then show ?thesis using assms(3,5) by (simp add: GetOrCreateWallet_def First_def Let_def)
qed

lemma Deduct_repeated:
  assumes "io_ok io" "ref \<noteq> []" "0 < a" "t \<in> set (transactions db)" "deduct_key i sid ref t"
  shows "\<exists>t'. Deduct io i a sid ref d db = (Inr t', db)"
proof -
  have "First_row T_ID (deduct_key i sid ref) (transactions db) \<noteq> None" using assms(4,5) by (auto simp: First_row_None)
  then obtain t' where "First_row T_ID (deduct_key i sid ref) (transactions db) = Some t'" by auto
  with assms(1-3) show ?thesis by (simp add: Deduct_def gorm_Transaction_def First_def)
qed

lemma AddCredit_existing:
  assumes "distinct (map W_ID (wallets db))" "w \<in> set (wallets db)" "io_ok io" "0 < a" "in_int64 (W_Credit w + a)"
    and "io_uuid io 1 \<notin> T_ID ` set (transactions db)"
  shows "fst (AddCredit io (W_ID w) a d db) = Inr ()"
proof -
  have "add_credit a w = Inr (w\<lparr>W_Credit := W_Credit w + a\<rparr>)" using assms(5) by (simp add: add_credit_def bigint_def)
  from update_wallet_by_id [where f = "add_credit a", OF assms(1,2) this] assms(3,4,6) show ?thesis
    by (simp add: AddCredit_def gorm_Transaction_def create_transaction_def insert_transaction_def)
qed

text \<open>The situation of a user who has bought the plan before, at a quiet botpay that knows the calling service.\<close>

definition bought :: "pay_client \<Rightarrow> Wallet \<Rightarrow> f64 \<Rightarrow> string \<Rightarrow> pay_world \<Rightarrow> bool" where
  "bought c w price plan W \<longleftrightarrow>
     (let db = sv_db (pw_service W)
      in solvent db \<and> distinct (map W_TelegramID (wallets db)) \<and> w \<in> set (wallets db) \<and> W_TelegramID w \<noteq> 0 \<and>
         W_PayHandle w \<noteq> [] \<and> plan \<noteq> [] \<and> validAmount price \<and> 0 < TONToNano price \<and> HasEnough w (TONToNano price) \<and>
         in_int64 (W_Credit w + TONToNano price) \<and>
         (\<exists>t \<in> set (transactions db). deduct_key (W_ID w) (pc_ServiceID c) plan t) \<and>
         \<not> cfg_guard (rs_cfg (pc_responder c)) \<and> \<not> HasPrefix (pc_ServiceID c) ''bot_'' \<and>
         rs_secret (pc_responder c) \<noteq> [] \<and> pc_ServiceKey c \<noteq> [] \<and>
         pc_ServiceKey c = ComputeServiceKey (rs_hmac (pc_responder c)) (rs_secret (pc_responder c)) (pc_ServiceID c))"

definition quiet_env :: "client_env \<Rightarrow> bool" where
  "quiet_env env \<longleftrightarrow> cl_transport env = Delivered \<and> io_ok (ce_io (cl_call env))"

lemma bought_authorized:
  assumes "bought c w price plan W"
  shows "authorize (pc_responder c) io (pc_ServiceID c) (pc_ServiceKey c) db"
  using assms unfolding bought_def Let_def authorize_def ValidateServiceKey_def by presburger

lemma sv_db_emit [simp]: "sv_db (emit ev s) = sv_db s" "sv_db (writeBalanceCache r w s) = sv_db s"
  by (simp_all add: emit_def writeBalanceCache_def)

lemma refresh_balance_same:
  assumes "distinct (map W_TelegramID (wallets (sv_db s)))" "w \<in> set (wallets (sv_db s))" "io_ok io"
    "W_TelegramID w \<noteq> 0" "W_PayHandle w \<noteq> []"
  shows "sv_db (snd (refresh_balance r io (W_TelegramID w) why s)) = sv_db s"
  using GetOrCreateWallet_existing [OF assms]
  by (simp add: refresh_balance_def GetOrCreate_def on_db_def)

lemma DeductWithMeta_repeated:
  assumes "bought c w price ref W" "quiet_env env"
  shows "\<exists>b W'. DeductWithMeta c env (W_TelegramID w) price why key ref meta W = (Inr b, W') \<and> sv_db (pw_service W') = sv_db (pw_service W)"
proof -
  let ?db = "sv_db (pw_service W)" and ?a = "TONToNano price" and ?io = "ce_io (cl_call env)"
  note B = assms(1) [unfolded bought_def Let_def]
  have io: "io_ok (io_shift k ?io)" for k using assms(2) by (simp add: quiet_env_def)
  obtain t where t: "t \<in> set (transactions ?db)" "deduct_key (W_ID w) (pc_ServiceID c) ref t" using B by blast
  obtain t' where d: "Deduct (io_shift (Suc (Suc 0)) ?io) (W_ID w) ?a (pc_ServiceID c) ref why ?db = (Inr t', ?db)"
    using Deduct_repeated [OF io, of ref ?a t ?db] B t by blast
  have g: "GetWallet (io_shift 1 ?io) (W_TelegramID w) ?db = Inr (Some w)" using GetWallet_existing io B by blast
  have shift: "io_shift (Suc 0) (io_shift (Suc 0) ?io) = io_shift (Suc (Suc 0)) ?io" by (simp add: io_shift_def)
  have pay: "\<exists>s1. Pay (rs_cfg (pc_responder c)) (cl_call env\<lparr>ce_io := io_shift 1 ?io\<rparr>) (W_TelegramID w) ?a (pc_ServiceID c) ref
      why (pw_service W) = (Inr t', s1) \<and> sv_db s1 = ?db"
    using B g d by (simp add: Pay_def guard_deduct_def on_db_def shift)
  then obtain s1 where s1: "Pay (rs_cfg (pc_responder c)) (cl_call env\<lparr>ce_io := io_shift 1 ?io\<rparr>) (W_TelegramID w) ?a
      (pc_ServiceID c) ref why (pw_service W) = (Inr t', s1)" "sv_db s1 = ?db" by blast
  have r: "sv_db (snd (refresh_balance (pc_responder c) (io_shift 7 ?io) (W_TelegramID w) ''payment'' s1)) = ?db"
    using refresh_balance_same [of s1 w "io_shift 7 ?io"] B s1(2) io by simp
  show ?thesis
    using assms(2) s1(1) r bought_authorized [OF assms(1)] B
    by (auto simp: DeductWithMeta_def at_botpay_def nats_request_def quiet_env_def handleDeduct_def
        base_def PayRequest.defs DeductRequest.defs deduct_ref_def Let_def case_prod_beta)
qed

lemma DeductForService_repeated:
  assumes "bought c w price plan W" "quiet_env env"
  shows "\<exists>W'. DeductForService c env (W_TelegramID w) price plan W = (Inr (''plan:'' @ plan), W') \<and>
    sv_db (pw_service W') = sv_db (pw_service W)"
proof -
  define meta where "meta = ''{'' @ [CHR 0x22] @ ''plan_id'' @ [CHR 0x22] @ '':'' @ [CHR 0x22] @ plan @ [CHR 0x22] @ ''}''"
  obtain b W' where "DeductWithMeta c env (W_TelegramID w) price (''plan:'' @ plan) (''plan:'' @ plan) plan meta W = (Inr b, W')"
    "sv_db (pw_service W') = sv_db (pw_service W)" using DeductWithMeta_repeated [OF assms] by blast
  then show ?thesis by (simp add: DeductForService_def Let_def meta_def)
qed

lemma Client_Credit_done:
  assumes "quiet_env env" "\<And>io. authorize (pc_responder c) io (pc_ServiceID c) (pc_ServiceKey c) (sv_db (pw_service W))"
    and "solvent (sv_db (pw_service W))" "distinct (map W_TelegramID (wallets (sv_db (pw_service W))))"
    and "w \<in> set (wallets (sv_db (pw_service W)))" "W_TelegramID w \<noteq> 0" "W_PayHandle w \<noteq> []"
    and "validAmount price" "0 < TONToNano price" "in_int64 (W_Credit w + TONToNano price)"
    and "io_uuid (ce_io (cl_call env)) 5 \<notin> T_ID ` set (transactions (sv_db (pw_service W)))"
  shows "fst (Client_Credit c env (W_TelegramID w) price ref meta W) = Inr ()"
proof -
  let ?db = "sv_db (pw_service W)" and ?a = "TONToNano price" and ?io = "ce_io (cl_call env)"
  have io: "io_ok (io_shift k ?io)" for k using assms(1) by (simp add: quiet_env_def)
  have g: "GetOrCreateWallet (io_shift 1 ?io) (W_TelegramID w) addr ?db = (Inr w, ?db)" for addr
    using GetOrCreateWallet_existing io assms by blast
  have ids: "distinct (map W_ID (wallets ?db))" using assms(3) by (simp add: solvent_def)
  have "fst (AddCredit (io_shift 4 ?io) (W_ID w) ?a d ?db) = Inr ()" for d
    using AddCredit_existing [OF ids, of w "io_shift 4 ?io" ?a d] io assms by simp
  then obtain db' where "AddCredit (io_shift 4 ?io) (W_ID w) ?a ref ?db = (Inr (), db')"
    by (metis prod.collapse)
  with assms(1,2,8) g show ?thesis
    by (simp add: Client_Credit_def at_botpay_def nats_request_def quiet_env_def handleCredit_def
        base_def PayRequest.defs DeductRequest.defs GetOrCreate_def on_db_def Let_def case_prod_beta)
qed

lemma RefundService_done:
  assumes "bought c w price plan W" "quiet_env env" "sv_db (pw_service W') = sv_db (pw_service W)"
    and "io_uuid (ce_io (cl_call env)) 5 \<notin> T_ID ` set (transactions (sv_db (pw_service W)))"
  shows "fst (RefundService c env (W_TelegramID w) price ref W') = Inr ()"
  unfolding RefundService_def
  by (rule Client_Credit_done) (use assms bought_authorized [OF assms(1)] in \<open>simp_all add: bought_def Let_def\<close>)


text \<open>A user with a payment for \<open>order-1\<close> on record.\<close>

definition plan_client :: pay_client where
  "plan_client = \<lparr>pc_ServiceID = ''svc'', pc_ServiceKey = ComputeServiceKey (\<lambda>k m. k @ m) ''s'' ''svc'',
     pc_responder = demo_responder\<lparr>rs_cfg := demo_cfg\<lparr>cfg_guard := False\<rparr>\<rparr>, pc_cached = False\<rparr>"

definition plan_world :: pay_world where
  "plan_world = \<lparr>pw_service = demo_service\<lparr>sv_db := demo_db4\<rparr>, pw_cache = (\<lambda>_. None)\<rparr>"

definition plan_env :: client_env where
  "plan_env = \<lparr>cl_transport = Delivered, cl_call = demo_env, cl_get_ok = True, cl_put_ok = True\<rparr>"

definition plan_wallet :: Wallet where
  "plan_wallet = demo_wallet\<lparr>W_TONBalance := 4999999300\<rparr>"

lemma quarter: "TONToNano (Fin (1 / 4)) = 250000000"
proof -
  have "rnd 250000000 = (Fin 250000000 :: f64)"
    using f64_of_int_exact [of 250000000] by (simp add: f64_of_int_def)
  then show ?thesis
    by (simp add: TONToNano_def in_int64_def rat_trunc_def)
qed

lemma plan_bought: "bought plan_client plan_wallet (Fin (1 / 4)) ''order-1'' plan_world"
proof -
  let ?db = "demo_db4"
  have "pay_step\<^sup>*\<^sup>* empty_db ?db"
    unfolding demo_db4_def
    by (rule rtranclp.rtrancl_into_rtrancl [OF rtranclp.rtrancl_into_rtrancl [OF demo_run(2) pay_step.step_deduct] pay_step.step_deduct])
  then have 1: "solvent ?db" by (rule solvency.run_keeps [OF _ empty_db_ok(1)])
  have 2: "distinct (map W_TelegramID (wallets ?db))" "plan_wallet \<in> set (wallets ?db)"
    "\<exists>t \<in> set (transactions ?db). deduct_key (W_ID plan_wallet) ''svc'' ''order-1'' t" by code_simp+
  have 3: "validAmount (Fin (1 / 4))" by (simp add: validAmount_def IsNaN_def IsInf_def)
  have 4: "HasEnough plan_wallet 250000000" "in_int64 (W_Credit plan_wallet + 250000000)" "W_TelegramID plan_wallet \<noteq> 0"
    "W_PayHandle plan_wallet \<noteq> []" by code_simp+
  have 5: "\<not> HasPrefix ''svc'' ''bot_''" "ComputeServiceKey (\<lambda>k m. k @ m) ''s'' ''svc'' \<noteq> []" by code_simp+
  from 1 2 3 4 5 show ?thesis
    by (simp add: bought_def Let_def quarter plan_world_def plan_client_def demo_responder_def demo_cfg_def)
qed


end
