(* ===== verification/Revenue.thy ===== *)
theory Revenue
  imports PayClientProps
begin

text \<open>
  The revenue service (\<open>revenue-service\<close>): its tables and repository, the engine that splits an
  earning between the owner of a bot or channel and the platform and pays both through botpay, and
  its REST and NATS faces. The columns that gorm maintains and no modelled query reads are left out;
  so is logging. The interface \<open>PayClient\<close> of the engine is a field of the environment of a call, and
  \<open>natspay_AddCredit\<close> is what \<open>main.go\<close> plugs in there.
\<close>

section \<open>Rows (\<open>store/models.go\<close>)\<close>

type_synonym RevenueType = string

abbreviation "RevSubscription \<equiv> ''subscription''"
abbreviation "RevLockIncome \<equiv> ''lock_income''"
abbreviation "RevLockRental \<equiv> ''lock_rental''"
abbreviation "RevAdIncome \<equiv> ''ad_income''"
abbreviation "RevReward \<equiv> ''reward''"
abbreviation "RevCommission \<equiv> ''commission''"
abbreviation "RevChannelRevenue \<equiv> ''channel_revenue''"
abbreviation "RevGroupRevenue \<equiv> ''group_revenue''"
abbreviation "RevMemberReward \<equiv> ''member_reward''"

definition uuid_Nil :: uuid where
  "uuid_Nil = ''00000000-0000-0000-0000-000000000000''"

record RevenueRule =
  RR_ID :: uuid
  RR_Type :: RevenueType
  RR_OwnerPercent :: f64
  RR_PlatformPercent :: f64
  RR_IsActive :: bool
  RR_Description :: string

datatype EarningStatus = EarningPending | EarningProcessing | EarningDone | EarningFailed

record Earning =
  EA_ID :: uuid
  EA_CreatedAt :: time
  EA_Type :: RevenueType
  EA_TotalNano :: int64
  EA_OwnerTelegramID :: int64
  EA_BotID :: string
  EA_RefID :: string
  EA_Description :: string
  EA_Status :: EarningStatus
  EA_OwnerNano :: int64
  EA_PlatformNano :: int64
  EA_OwnerTxID :: string
  EA_PlatformTxID :: string
  EA_ProcessedAt :: "time option"
  EA_Error :: "go_error option"  \<comment> \<open>the text before its rendering; \<open>None\<close> is the empty text\<close>

record PlatformWallet =
  PW_ID :: uuid
  PW_TelegramID :: int64
  PW_Label :: string
  PW_IsDefault :: bool

record rev_db =
  rules :: "RevenueRule list"
  earnings :: "Earning list"
  platform_wallets :: "PlatformWallet list"

definition default_rule :: "RevenueType \<Rightarrow> rat \<Rightarrow> rat \<Rightarrow> string \<Rightarrow> RevenueRule" where
  "default_rule t owner platform desc =
     \<lparr>RR_ID = uuid_Nil, RR_Type = t, RR_OwnerPercent = Fin owner, RR_PlatformPercent = Fin platform,
      RR_IsActive = False, RR_Description = desc\<rparr>"

definition DefaultRules :: "RevenueRule list" where
  "DefaultRules =
    [default_rule RevSubscription 0 100 (utf8 [216, 174, 216, 177, 219, 140, 216, 175, 32, 217, 190, 217, 132, 217, 134, 32, 226, 128, 148, 32, 217, 135, 217, 133, 217, 135, 32, 216, 168, 217, 135, 32, 217, 190, 217, 132, 216, 170, 217, 129, 216, 177, 217, 133]),
     default_rule RevLockIncome 70 30 (utf8 [216, 175, 216, 177, 216, 162, 217, 133, 216, 175, 32, 108, 111, 99, 107, 32, 226, 128, 148, 32, 55, 48, 37, 32, 216, 168, 217, 135, 32, 216, 181, 216, 167, 216, 173, 216, 168]),
     default_rule RevLockRental 70 30 (utf8 [216, 167, 216, 172, 216, 167, 216, 177, 217, 135, 32, 108, 111, 99, 107, 32, 226, 128, 148, 32, 55, 48, 37, 32, 216, 168, 217, 135, 32, 217, 133, 216, 167, 217, 132, 218, 169]),
     default_rule RevAdIncome 70 30 (utf8 [216, 175, 216, 177, 216, 162, 217, 133, 216, 175, 32, 216, 170, 216, 168, 217, 132, 219, 140, 216, 186, 32, 226, 128, 148, 32, 55, 48, 37, 32, 216, 168, 217, 135, 32, 218, 169, 216, 167, 217, 134, 216, 167, 217, 132]),
     default_rule RevReward 100 0 (utf8 [216, 172, 216, 167, 219, 140, 216, 178, 217, 135, 32, 226, 128, 148, 32, 217, 135, 217, 133, 217, 135, 32, 216, 168, 217, 135, 32, 218, 169, 216, 167, 216, 177, 216, 168, 216, 177])]"

section \<open>Repository (\<open>store/store.go\<close>)\<close>

abbreviation unique_violation :: go_error where
  "unique_violation \<equiv> DBErr ''duplicate key value violates unique constraint''"

text \<open>\<open>First\<close> with \<open>ErrRecordNotFound\<close> turned into \<open>nil, nil\<close>.\<close>

definition First_or_nil :: "string option \<Rightarrow> ('r \<Rightarrow> uuid) \<Rightarrow> ('r \<Rightarrow> bool) \<Rightarrow> 'r list \<Rightarrow> go_error + 'r option" where
  "First_or_nil f key P rows = stmt f (Inr (First_row key P rows))"

definition GetRule :: "io \<Rightarrow> RevenueType \<Rightarrow> rev_db \<Rightarrow> go_error + RevenueRule option" where
  "GetRule io t db = First_or_nil (io_flt io 0) RR_ID (\<lambda>r. RR_Type r = t \<and> RR_IsActive r) (rules db)"

text \<open>
  \<open>Create\<close> of a rule: a row without key gets one from the database, and the column default replaces
  a false \<open>is_active\<close>.
\<close>

definition create_rule :: "string option \<Rightarrow> uuid \<Rightarrow> RevenueRule \<Rightarrow> rev_db \<Rightarrow> (go_error + RevenueRule) \<times> rev_db" where
  "create_rule f new rule db =
     (let r = rule\<lparr>RR_ID := (if RR_ID rule = uuid_Nil then new else RR_ID rule), RR_IsActive := True\<rparr>
      in case stmt f (if \<exists>x \<in> set (rules db). RR_ID x = RR_ID r \<or> RR_Type x = RR_Type r
                      then Inl unique_violation else Inr r) of
           Inl e \<Rightarrow> (Inl e, db)
         | Inr r \<Rightarrow> (Inr r, db\<lparr>rules := rules db @ [r]\<rparr>))"

text \<open>\<open>Save\<close>: without key a \<open>Create\<close>, otherwise an update of all columns, and a \<open>Create\<close> when no row was hit.\<close>

definition UpsertRule :: "io \<Rightarrow> RevenueRule \<Rightarrow> rev_db \<Rightarrow> (go_error + RevenueRule) \<times> rev_db" where
  "UpsertRule io rule db =
     (if RR_ID rule = uuid_Nil then create_rule (io_flt io 0) (io_uuid io 0) rule db
      else case stmt (io_flt io 0)
             (if (\<exists>x \<in> set (rules db). RR_ID x = RR_ID rule) \<and>
                 (\<exists>x \<in> set (rules db). RR_ID x \<noteq> RR_ID rule \<and> RR_Type x = RR_Type rule)
              then Inl unique_violation else Inr (\<exists>x \<in> set (rules db). RR_ID x = RR_ID rule)) of
             Inl e \<Rightarrow> (Inl e, db)
           | Inr True \<Rightarrow>
               (Inr rule, db\<lparr>rules := map (\<lambda>x. if RR_ID x = RR_ID rule then rule else x) (rules db)\<rparr>)
           | Inr False \<Rightarrow> create_rule (io_flt io 1) (io_uuid io 1) rule db)"

definition ListRules :: "io \<Rightarrow> rev_db \<Rightarrow> go_error + RevenueRule list" where
  "ListRules io db = stmt (io_flt io 0) (Inr (rules db))"

fun seed_rules :: "io \<Rightarrow> RevenueRule list \<Rightarrow> rev_db \<Rightarrow> (go_error + unit) \<times> rev_db" where
  "seed_rules io [] db = (Inr (), db)"
| "seed_rules io (rule # rs) db =
     (case First (io_flt io 0) RR_ID (\<lambda>r. RR_Type r = RR_Type rule) (rules db) of
        Inr _ \<Rightarrow> seed_rules (io_shift 2 io) rs db
      | Inl e \<Rightarrow>
          (if errors_Is e ErrRecordNotFound
           then case create_rule (io_flt io 1) (io_uuid io 1) rule db of
                  (Inl e', db1) \<Rightarrow> (Inl e', db1)
                | (Inr _, db1) \<Rightarrow> seed_rules (io_shift 2 io) rs db1
           else seed_rules (io_shift 2 io) rs db))"

definition SeedDefaultRules :: "io \<Rightarrow> rev_db \<Rightarrow> (go_error + unit) \<times> rev_db" where
  "SeedDefaultRules io db = seed_rules io DefaultRules db"

definition CreateEarning :: "io \<Rightarrow> Earning \<Rightarrow> rev_db \<Rightarrow> (go_error + Earning) \<times> rev_db" where
  "CreateEarning io e db =
     (let e1 = e\<lparr>EA_ID := (if EA_ID e = uuid_Nil then io_uuid io 0 else EA_ID e), EA_CreatedAt := io_now io 0\<rparr>
      in case stmt (io_flt io 0) (if EA_ID e1 \<in> EA_ID ` set (earnings db) then Inl unique_violation else Inr e1) of
           Inl err \<Rightarrow> (Inl err, db)
         | Inr e1 \<Rightarrow> (Inr e1, db\<lparr>earnings := earnings db @ [e1]\<rparr>))"

definition GetEarning :: "io \<Rightarrow> uuid \<Rightarrow> rev_db \<Rightarrow> go_error + Earning option" where
  "GetEarning io i db = First_or_nil (io_flt io 0) EA_ID (\<lambda>e. EA_ID e = i) (earnings db)"

definition UpdateEarning :: "io \<Rightarrow> Earning \<Rightarrow> rev_db \<Rightarrow> (go_error + Earning) \<times> rev_db" where
  "UpdateEarning io e db =
     (if EA_ID e = uuid_Nil then CreateEarning io e db
      else case io_flt io 0 of
        Some m \<Rightarrow> (Inl (DBErr m), db)
      | None \<Rightarrow>
          (if EA_ID e \<in> EA_ID ` set (earnings db)
           then (Inr e, db\<lparr>earnings := map (\<lambda>x. if EA_ID x = EA_ID e then e else x) (earnings db)\<rparr>)
           else CreateEarning (io_shift 1 io) e db))"

definition FindEarningByRefID :: "io \<Rightarrow> string \<Rightarrow> rev_db \<Rightarrow> go_error + Earning option" where
  "FindEarningByRefID io refID db =
     (if refID = [] then Inr None
      else First_or_nil (io_flt io 0) EA_ID (\<lambda>e. EA_RefID e = refID) (earnings db))"

definition ListPendingEarnings :: "io \<Rightarrow> nat \<Rightarrow> rev_db \<Rightarrow> go_error + Earning list" where
  "ListPendingEarnings io limit db =
     stmt (io_flt io 0)
       (Inr (take limit (sort_key EA_CreatedAt (filter (\<lambda>e. EA_Status e = EarningPending) (earnings db)))))"

definition update_earnings ::
  "string option \<Rightarrow> (Earning \<Rightarrow> bool) \<Rightarrow> (Earning \<Rightarrow> Earning) \<Rightarrow> rev_db \<Rightarrow> (go_error + unit) \<times> rev_db" where
  "update_earnings f P g db =
     (case f of
        Some m \<Rightarrow> (Inl (DBErr m), db)
      | None \<Rightarrow> (Inr (), db\<lparr>earnings := map (\<lambda>e. if P e then g e else e) (earnings db)\<rparr>))"

definition MarkProcessing :: "io \<Rightarrow> uuid \<Rightarrow> rev_db \<Rightarrow> (go_error + unit) \<times> rev_db" where
  "MarkProcessing io i =
     update_earnings (io_flt io 0) (\<lambda>e. EA_ID e = i \<and> EA_Status e = EarningPending)
       (\<lambda>e. e\<lparr>EA_Status := EarningProcessing\<rparr>)"

definition MarkDone :: "io \<Rightarrow> uuid \<Rightarrow> string \<Rightarrow> string \<Rightarrow> int64 \<Rightarrow> int64 \<Rightarrow> rev_db \<Rightarrow> (go_error + unit) \<times> rev_db" where
  "MarkDone io i ownerTxID platformTxID ownerNano platformNano =
     update_earnings (io_flt io 0) (\<lambda>e. EA_ID e = i)
       (\<lambda>e. e\<lparr>EA_Status := EarningDone, EA_OwnerTxID := ownerTxID, EA_PlatformTxID := platformTxID,
              EA_OwnerNano := ownerNano, EA_PlatformNano := platformNano, EA_ProcessedAt := Some (io_now io 0)\<rparr>)"

definition MarkFailed :: "io \<Rightarrow> uuid \<Rightarrow> go_error \<Rightarrow> rev_db \<Rightarrow> (go_error + unit) \<times> rev_db" where
  "MarkFailed io i errMsg =
     update_earnings (io_flt io 0) (\<lambda>e. EA_ID e = i)
       (\<lambda>e. e\<lparr>EA_Status := EarningFailed, EA_Error := Some errMsg, EA_ProcessedAt := Some (io_now io 0)\<rparr>)"

definition zero_PlatformWallet :: PlatformWallet where
  "zero_PlatformWallet = \<lparr>PW_ID = uuid_Nil, PW_TelegramID = 0, PW_Label = [], PW_IsDefault = False\<rparr>"

text \<open>\<open>return &w, err\<close>: with an error of the driver, the wallet returned is the zero value, not \<open>nil\<close>.\<close>

definition GetPlatformWallet :: "io \<Rightarrow> rev_db \<Rightarrow> PlatformWallet option \<times> go_error option" where
  "GetPlatformWallet io db =
     (case First (io_flt io 0) PW_ID PW_IsDefault (platform_wallets db) of
        Inr w \<Rightarrow> (Some w, None)
      | Inl e \<Rightarrow> (if errors_Is e ErrRecordNotFound then (None, None) else (Some zero_PlatformWallet, Some e)))"

definition create_platform_wallet ::
  "string option \<Rightarrow> uuid \<Rightarrow> PlatformWallet \<Rightarrow> rev_db \<Rightarrow> (go_error + unit) \<times> rev_db" where
  "create_platform_wallet f new w db =
     (let w1 = w\<lparr>PW_ID := new\<rparr>
      in case stmt f (if \<exists>x \<in> set (platform_wallets db). PW_ID x = new \<or> PW_TelegramID x = PW_TelegramID w
                      then Inl unique_violation else Inr w1) of
           Inl e \<Rightarrow> (Inl e, db)
         | Inr w1 \<Rightarrow> (Inr (), db\<lparr>platform_wallets := platform_wallets db @ [w1]\<rparr>))"

definition SetPlatformWallet :: "io \<Rightarrow> int64 \<Rightarrow> string \<Rightarrow> rev_db \<Rightarrow> (go_error + unit) \<times> rev_db" where
  "SetPlatformWallet io telegramID label db =
     (let db1 = (case io_flt io 0 of
                   Some _ \<Rightarrow> db
                 | None \<Rightarrow> db\<lparr>platform_wallets := map (\<lambda>w. if PW_IsDefault w then w\<lparr>PW_IsDefault := False\<rparr> else w)
                              (platform_wallets db)\<rparr>);
          found = First (io_flt io 1) PW_ID (\<lambda>w. PW_TelegramID w = telegramID) (platform_wallets db1)
      in case found of
           Inr w \<Rightarrow>
             (let w1 = w\<lparr>PW_IsDefault := True, PW_Label := label\<rparr>
              in case io_flt io 2 of
                   Some m \<Rightarrow> (Inl (DBErr m), db1)
                 | None \<Rightarrow> (Inr (), db1\<lparr>platform_wallets := map (\<lambda>x. if PW_ID x = PW_ID w1 then w1 else x)
                              (platform_wallets db1)\<rparr>))
         | Inl e \<Rightarrow>
             create_platform_wallet (io_flt io 2) (io_uuid io 2)
               (if errors_Is e ErrRecordNotFound
                then zero_PlatformWallet\<lparr>PW_TelegramID := telegramID, PW_Label := label, PW_IsDefault := True\<rparr>
                else zero_PlatformWallet\<lparr>PW_Label := label, PW_IsDefault := True\<rparr>) db1)"

text \<open>
  Statistics; a query that fails leaves its numbers at zero. The sums are those of a table whose sums
  fit in 64 bits.
\<close>

record EarningStats =
  ES_TotalEarnings :: int64
  ES_TotalOwnerNano :: int64
  ES_PlatformNano :: int64
  ES_PendingCount :: int64

definition rev_GetStats :: "io \<Rightarrow> rev_db \<Rightarrow> EarningStats" where
  "rev_GetStats io db =
     (let done = filter (\<lambda>e. EA_Status e = EarningDone) (earnings db);
          or0 = (\<lambda>i n. if io_flt io i = None then n else 0)
      in \<lparr>ES_TotalEarnings = or0 0 (int (length done)),
          ES_TotalOwnerNano = or0 2 (sum_list (map EA_OwnerNano done)),
          ES_PlatformNano = or0 2 (sum_list (map EA_PlatformNano done)),
          ES_PendingCount = or0 1 (int (length (filter (\<lambda>e. EA_Status e = EarningPending) (earnings db))))\<rparr>)"

section \<open>Engine (\<open>engine/engine.go\<close>)\<close>

text \<open>
  The environment of a call: the database driver, and the payment client, whose \<open>k\<close>-th call in the
  operation is \<open>re_pay env k\<close> on the state of the world behind it.
\<close>

record 'w rev_env =
  re_io :: io
  re_pay :: "nat \<Rightarrow> int64 \<Rightarrow> f64 \<Rightarrow> string \<Rightarrow> 'w \<Rightarrow> (go_error + string) \<times> 'w"

definition env_shift :: "nat \<Rightarrow> 'w rev_env \<Rightarrow> 'w rev_env" where
  "env_shift k env = \<lparr>re_io = io_shift k (re_io env), re_pay = (\<lambda>i. re_pay env (i + k))\<rparr>"

record 'w rev_state =
  rv_db :: rev_db
  rv_pay :: 'w

definition owner_share :: "int64 \<Rightarrow> f64 \<Rightarrow> int64" where
  "owner_share totalNano ownerPercent = f64_to_int (f64_div (f64_mul (f64_of_int totalNano) ownerPercent) 100)"

definition pay_owner :: "'w rev_env \<Rightarrow> Earning \<Rightarrow> int64 \<Rightarrow> 'w \<Rightarrow> (go_error + string) \<times> 'w" where
  "pay_owner env earning ownerNano w =
     (if 0 < ownerNano \<and> EA_OwnerTelegramID earning \<noteq> 0
      then re_pay env 0 (EA_OwnerTelegramID earning) (NanoToTON ownerNano)
             (utf8 [216, 175, 216, 177, 216, 162, 217, 133, 216, 175, 32] @ EA_Type earning @ utf8 [32, 226, 128, 148, 32] @ EA_Description earning) w
      else (Inr [], w))"

definition pay_platform :: "'w rev_env \<Rightarrow> Earning \<Rightarrow> int64 \<Rightarrow> rev_db \<Rightarrow> 'w \<Rightarrow> string \<times> 'w" where
  "pay_platform env earning platformNano db w =
     (if 0 < platformNano
      then case fst (GetPlatformWallet (io_shift 3 (re_io env)) db) of
             None \<Rightarrow> ([], w)
           | Some pw \<Rightarrow>
               (case re_pay env 1 (PW_TelegramID pw) (NanoToTON platformNano)
                       (utf8 [112, 108, 97, 116, 102, 111, 114, 109, 32, 99, 111, 109, 109, 105, 115, 115, 105, 111, 110, 32, 226, 128, 148, 32] @ EA_Type earning) w of
                  (Inl _, w1) \<Rightarrow> ([], w1)
                | (Inr txID, w1) \<Rightarrow> (txID, w1))
      else ([], w))"

definition ProcessEarning :: "'w rev_env \<Rightarrow> Earning \<Rightarrow> 'w rev_state \<Rightarrow> (go_error + unit) \<times> 'w rev_state" where
  "ProcessEarning env earning st =
     (let io = re_io env; total = EA_TotalNano earning; i = EA_ID earning; db = rv_db st
      in if total \<le> 0
         then (Inl (Errorf ''invalid total_nano: %d (must be > 0)'' [ArgInt total]),
               st\<lparr>rv_db := snd (MarkFailed io i (Sentinel ''invalid total_nano: must be > 0'') db)\<rparr>)
         else case GetRule io (EA_Type earning) db of
           Inl e \<Rightarrow> (Inl (Wrapf ''get rule: %w'' [] e), st)
         | Inr None \<Rightarrow> (Inl (Errorf ''no rule for type: %s'' [ArgStr (EA_Type earning)]), st)
         | Inr (Some rule) \<Rightarrow>
             (let ownerNano = owner_share total (RR_OwnerPercent rule);
                  platformNano = sub64 total ownerNano;
                  db1 = snd (MarkProcessing (io_shift 1 io) i db)
              in case pay_owner env earning ownerNano (rv_pay st) of
                   (Inl e, w1) \<Rightarrow>
                     (Inl (Wrapf ''owner payment: %w'' [] e),
                      \<lparr>rv_db = snd (MarkFailed (io_shift 2 io) i (Textf ''owner payment failed: %s'' e) db1), rv_pay = w1\<rparr>)
                 | (Inr ownerTxID, w1) \<Rightarrow>
                     (let (platformTxID, w2) = pay_platform env earning platformNano db1 w1;
                          (r, db2) = MarkDone (io_shift 4 io) i ownerTxID platformTxID ownerNano platformNano db1
                      in (r, \<lparr>rv_db = db2, rv_pay = w2\<rparr>))))"

fun process_all :: "'w rev_env \<Rightarrow> Earning list \<Rightarrow> 'w rev_state \<Rightarrow> 'w rev_state" where
  "process_all env [] st = st"
| "process_all env (e # es) st = process_all (env_shift 5 env) es (snd (ProcessEarning env e st))"

definition processBatch :: "'w rev_env \<Rightarrow> 'w rev_state \<Rightarrow> 'w rev_state" where
  "processBatch env st =
     (case ListPendingEarnings (re_io env) 50 (rv_db st) of
        Inl _ \<Rightarrow> st
      | Inr es \<Rightarrow> process_all (env_shift 1 env) es st)"

definition CreateAndProcess ::
  "'w rev_env \<Rightarrow> RevenueType \<Rightarrow> int64 \<Rightarrow> int64 \<Rightarrow> string \<Rightarrow> string \<Rightarrow> string \<Rightarrow> 'w rev_state \<Rightarrow> (go_error + unit) \<times> 'w rev_state" where
  "CreateAndProcess env revType ownerTelegramID totalNano botID refID desc st =
     (if totalNano \<le> 0 then (Inl (Errorf ''invalid total_nano: %d (must be > 0)'' [ArgInt totalNano]), st)
      else case FindEarningByRefID (re_io env) refID (rv_db st) of
        Inl e \<Rightarrow> (Inl (Wrapf ''check existing earning: %w'' [] e), st)
      | Inr (Some _) \<Rightarrow> (Inr (), st)
      | Inr None \<Rightarrow>
          (case CreateEarning (io_shift 1 (re_io env))
                  \<lparr>EA_ID = uuid_Nil, EA_CreatedAt = 0, EA_Type = revType, EA_TotalNano = totalNano,
                   EA_OwnerTelegramID = ownerTelegramID, EA_BotID = botID, EA_RefID = refID, EA_Description = desc,
                   EA_Status = EarningPending, EA_OwnerNano = 0, EA_PlatformNano = 0, EA_OwnerTxID = [],
                   EA_PlatformTxID = [], EA_ProcessedAt = None, EA_Error = None\<rparr> (rv_db st) of
             (Inl e, db1) \<Rightarrow> (Inl (Wrapf ''create earning: %w'' [] e), st\<lparr>rv_db := db1\<rparr>)
           | (Inr earning, db1) \<Rightarrow> ProcessEarning (env_shift 2 env) earning (st\<lparr>rv_db := db1\<rparr>)))"

text \<open>
  The split of a group's revenue, 50/40/10. The share of the members goes out as an event, which the
  operation returns beside the new state; \<open>platform\<close> is the field \<open>platformTelegramID\<close> of the engine.
\<close>

record MemberPoolEvent =
  MP_community_id :: string
  MP_pool_nano :: int64
  MP_ref_id :: uuid

definition ProcessGroupRevenue ::
  "'w rev_env \<Rightarrow> int64 \<Rightarrow> Earning \<Rightarrow> 'w rev_state \<Rightarrow> ((go_error + unit) \<times> MemberPoolEvent list) \<times> 'w rev_state" where
  "ProcessGroupRevenue env platform earning st =
     (let total = EA_TotalNano earning;
          ownerNano = go_div (mul64 total 50) 100;
          memberPoolNano = go_div (mul64 total 40) 100;
          platformNano = sub64 (sub64 total ownerNano) memberPoolNano;
          w1 = (if 0 < ownerNano \<and> EA_OwnerTelegramID earning \<noteq> 0
                then snd (re_pay env 0 (EA_OwnerTelegramID earning) (NanoToTON ownerNano)
                       (utf8 [216, 175, 216, 177, 216, 162, 217, 133, 216, 175, 32, 218, 175, 216, 177, 217, 136, 217, 135, 32, 226, 128, 148, 32, 216, 179, 217, 135, 217, 133, 32, 111, 119, 110, 101, 114]) (rv_pay st)) else rv_pay st);
          evs = (if 0 < memberPoolNano
                 then [\<lparr>MP_community_id = EA_BotID earning, MP_pool_nano = memberPoolNano, MP_ref_id = EA_ID earning\<rparr>] else []);
          w2 = (if 0 < platformNano \<and> platform \<noteq> 0
                then snd (re_pay env 1 platform (NanoToTON platformNano)
                       (utf8 [218, 169, 217, 133, 219, 140, 216, 179, 219, 140, 217, 136, 217, 134, 32, 217, 190, 217, 132, 216, 170, 217, 129, 216, 177, 217, 133]) w1) else w1);
          (r, db1) = MarkDone (re_io env) (EA_ID earning) [] [] 0 0 (rv_db st)
      in ((r, evs), \<lparr>rv_db = db1, rv_pay = w2\<rparr>))"

section \<open>REST and NATS (\<open>api/api.go\<close>)\<close>

record EarningEvent =
  EE_Type :: string
  EE_OwnerTelegramID :: int64
  EE_TotalNano :: int64
  EE_BotID :: string
  EE_RefID :: string
  EE_Description :: string

text \<open>The handler of \<open>earning.created\<close>; \<open>None\<close> is a message that does not decode. \<open>binding\<close> tags do not apply here.\<close>

definition onEarningCreated :: "'w rev_env \<Rightarrow> EarningEvent option \<Rightarrow> 'w rev_state \<Rightarrow> 'w rev_state" where
  "onEarningCreated env msg st =
     (case msg of
        None \<Rightarrow> st
      | Some m \<Rightarrow> snd (CreateAndProcess env (EE_Type m) (EE_OwnerTelegramID m) (EE_TotalNano m) (EE_BotID m) (EE_RefID m)
                   (EE_Description m) st))"

datatype rev_data = Processed | RuleList "RevenueRule list" | RuleSaved RevenueRule | StatsData int64 f64 f64 int64 | WalletSet int64

text \<open>A response: \<open>fail\<close> with its status and message, or \<open>ok\<close> with its data.\<close>

datatype rev_reply = Fail int go_error | Ok rev_data

abbreviation rev_bad_request :: rev_reply where "rev_bad_request \<equiv> Fail 400 (Sentinel ''bind'')"
abbreviation admin_only :: rev_reply where "admin_only \<equiv> Fail 403 (Sentinel ''admin only'')"

definition createEarning :: "'w rev_env \<Rightarrow> bool \<Rightarrow> EarningEvent option \<Rightarrow> 'w rev_state \<Rightarrow> rev_reply \<times> 'w rev_state" where
  "createEarning env is_admin body st =
     (if \<not> is_admin then (admin_only, st)
      else case body of
        None \<Rightarrow> (rev_bad_request, st)
      | Some req \<Rightarrow>
          (if EE_Type req = [] \<or> EE_OwnerTelegramID req = 0 \<or> EE_TotalNano req = 0 then (rev_bad_request, st)
           else case CreateAndProcess env (EE_Type req) (EE_OwnerTelegramID req) (EE_TotalNano req) (EE_BotID req)
                       (EE_RefID req) (EE_Description req) st of
                  (Inl e, st1) \<Rightarrow> (Fail 500 e, st1)
                | (Inr _, st1) \<Rightarrow> (Ok Processed, st1)))"

definition listRules :: "'w rev_env \<Rightarrow> 'w rev_state \<Rightarrow> rev_reply \<times> 'w rev_state" where
  "listRules env st =
     (case ListRules (re_io env) (rv_db st) of Inl e \<Rightarrow> (Fail 500 e, st) | Inr rs \<Rightarrow> (Ok (RuleList rs), st))"

definition updateRule :: "'w rev_env \<Rightarrow> bool \<Rightarrow> RevenueRule option \<Rightarrow> 'w rev_state \<Rightarrow> rev_reply \<times> 'w rev_state" where
  "updateRule env is_admin body st =
     (if \<not> is_admin then (admin_only, st)
      else case body of
        None \<Rightarrow> (rev_bad_request, st)
      | Some rule \<Rightarrow>
          (if f64_add (RR_OwnerPercent rule) (RR_PlatformPercent rule) \<noteq> Fin 100
           then (Fail 400 (Sentinel ''owner_percent + platform_percent must equal 100''), st)
           else case UpsertRule (re_io env) rule (rv_db st) of
                  (Inl e, db1) \<Rightarrow> (Fail 500 e, st\<lparr>rv_db := db1\<rparr>)
                | (Inr r, db1) \<Rightarrow> (Ok (RuleSaved r), st\<lparr>rv_db := db1\<rparr>)))"

definition getStats :: "'w rev_env \<Rightarrow> 'w rev_state \<Rightarrow> rev_reply \<times> 'w rev_state" where
  "getStats env st =
     (let s = rev_GetStats (re_io env) (rv_db st)
      in (Ok (StatsData (ES_TotalEarnings s) (NanoToTON (ES_TotalOwnerNano s)) (NanoToTON (ES_PlatformNano s))
               (ES_PendingCount s)), st))"

definition setPlatformWallet :: "'w rev_env \<Rightarrow> bool \<Rightarrow> (int64 \<times> string) option \<Rightarrow> 'w rev_state \<Rightarrow> rev_reply \<times> 'w rev_state" where
  "setPlatformWallet env is_admin body st =
     (if \<not> is_admin then (admin_only, st)
      else case body of
        None \<Rightarrow> (rev_bad_request, st)
      | Some (tg, label) \<Rightarrow>
          (if tg = 0 then (rev_bad_request, st)
           else case SetPlatformWallet (re_io env) tg label (rv_db st) of
                  (Inl e, db1) \<Rightarrow> (Fail 500 e, st\<lparr>rv_db := db1\<rparr>)
                | (Inr _, db1) \<Rightarrow> (Ok (WalletSet tg), st\<lparr>rv_db := db1\<rparr>)))"

datatype rev_request =
    PostEarn "EarningEvent option"
  | GetRules
  | PutRules "RevenueRule option"
  | GetStatsReq
  | PostPlatformWallet "(int64 \<times> string) option"

text \<open>\<open>authMiddleware\<close> in front of the routes of \<open>Register\<close>: a key is needed, and the configured one makes an administrator.\<close>

definition rev_Register ::
  "string \<Rightarrow> 'w rev_env \<Rightarrow> string \<Rightarrow> rev_request \<Rightarrow> 'w rev_state \<Rightarrow> rev_reply \<times> 'w rev_state" where
  "rev_Register AdminKey env key req st =
     (if key = [] then (Fail 401 (Sentinel ''missing api key''), st)
      else let is_admin = (key = AdminKey)
           in case req of
                PostEarn b \<Rightarrow> createEarning env is_admin b st
              | GetRules \<Rightarrow> listRules env st
              | PutRules b \<Rightarrow> updateRule env is_admin b st
              | GetStatsReq \<Rightarrow> getStats env st
              | PostPlatformWallet b \<Rightarrow> setPlatformWallet env is_admin b st)"

section \<open>The payment client of the service (\<open>cmd/main.go\<close>)\<close>

definition natspay_AddCredit ::
  "pay_client \<Rightarrow> client_env \<Rightarrow> int64 \<Rightarrow> f64 \<Rightarrow> string \<Rightarrow> pay_world \<Rightarrow> (go_error + string) \<times> pay_world" where
  "natspay_AddCredit c env telegramID amountTON desc w =
     (let dq = [CHR 0x22]
      in case Client_Credit c env telegramID amountTON desc
                (''{'' @ dq @ ''src'' @ dq @ '':'' @ dq @ ''revenue-service'' @ dq @ ''}'') w of
           (Inl e, w1) \<Rightarrow> (Inl e, w1)
         | (Inr _, w1) \<Rightarrow> (Inr [], w1))"

definition natspay_Deduct ::
  "pay_client \<Rightarrow> client_env \<Rightarrow> int64 \<Rightarrow> f64 \<Rightarrow> string \<Rightarrow> string \<Rightarrow> pay_world \<Rightarrow> (go_error + string) \<times> pay_world" where
  "natspay_Deduct c env telegramID amountTON ref desc w =
     (case Client_Deduct c env telegramID amountTON desc ref w of
        (Inl e, w1) \<Rightarrow> (Inl e, w1)
      | (Inr _, w1) \<Rightarrow> (Inr [], w1))"

end
