(* ===== verification/RevenueProps.thy ===== *)
theory RevenueProps
  imports Revenue
begin

text \<open>
  What the revenue service guarantees: exact shares, references that are used once, owners that are
  never paid more than their settled earnings while the database answers, and what happens when it
  does not.
\<close>

section \<open>Shares\<close>

lemma rnd_val_le_rel:
  assumes "0 \<le> x" "x \<le> 10 ^ 17"
  shows "\<bar>rnd_val x - x\<bar> \<le> 12" "rnd x = Fin (rnd_val x)"
proof -
  show err: "\<bar>rnd_val x - x\<bar> \<le> 12"
  proof (cases "x < 1")
    case True
    then have "\<bar>x\<bar> < 2 ^ 50" using assms(1) by simp
    from rnd_val_small [OF this] show ?thesis by linarith
  next
    case False
    have "(2::rat) powi (-1022) \<le> 2 powi 0" by (simp only: powi_le_iff)
    with False assms(1) have "2 powi (-1022) \<le> \<bar>x\<bar>" by simp
    from rnd_val_error [OF this] have "\<bar>rnd_val x - x\<bar> \<le> x / 2 ^ 53" using assms(1) by simp
    also have "\<dots> \<le> 12" using assms(2) by simp
    finally show ?thesis .
  qed
  have "\<bar>rnd_val x\<bar> \<le> 10 ^ 17 + 12" using err assms by linarith
  also have "\<dots> < 2 ^ 1024" by simp
  finally show "rnd x = Fin (rnd_val x)" by (rule rnd_Fin)
qed

lemma owner_share_bounds:
  assumes "0 < amt" "amt \<le> 10 ^ 15" "0 \<le> p" "p \<le> 100"
  shows "\<bar>of_int (owner_share amt (Fin p)) - of_int amt * p / 100\<bar> \<le> 5 / 4"
    "0 \<le> owner_share amt (Fin p)" "owner_share amt (Fin p) \<le> amt"
proof -
  let ?t = "of_int amt :: rat" and ?o = "owner_share amt (Fin p)"
  let ?x = "?t * p"
  let ?y = "rnd_val ?x / 100"
  have t: "0 < ?t" "?t \<le> 10 ^ 15" using assms(1,2) of_int_le_iff [where 'a = rat, of amt "10 ^ 15"] by simp_all
  have x: "0 \<le> ?x" "?x \<le> ?t * 100" using t assms(3,4) by (simp_all add: mult_left_mono)
  have "?t * 100 \<le> 10 ^ 17" using mult_right_mono [OF t(2), of 100] by simp
  with x(2) have x17: "?x \<le> 10 ^ 17" by (rule order_trans)
  have f: "f64_of_int amt = Fin ?t" using assms(1,2) by (intro f64_of_int_exact) simp
  note e1 = rnd_val_le_rel [OF x(1) x17]
  have y0: "0 \<le> ?y" using rnd_val_nonneg [OF x(1)] by simp
  have y: "\<bar>?y - ?x / 100\<bar> \<le> 12 / 100" using e1(1) by linarith
  have "?y \<le> 10 ^ 15 + 1" using y x(2) t by linarith
  then have ys: "\<bar>?y\<bar> < 2 ^ 50" using y0 by (simp add: abs_of_nonneg)
  note e2 = rnd_val_small [OF ys]
  have oz: "?o = f64_to_int (Fin (rnd_val ?y))"
    by (simp add: owner_share_def f e1(2) rnd_small [OF ys])
  have z0: "0 \<le> rnd_val ?y" by (rule rnd_val_nonneg [OF y0])
  have zu: "rnd_val ?y \<le> ?x / 100 + 1 / 4" using e2 y by linarith
  then have "rnd_val ?y < of_int amt + 1" using x(2) by linarith
  then have zt: "\<lfloor>rnd_val ?y\<rfloor> \<le> amt" by linarith
  have "0 \<le> \<lfloor>rnd_val ?y\<rfloor>" using z0 by simp
  moreover have "in_int64 k" if "0 \<le> k" "k \<le> amt" for k using that assms(2) by (simp add: in_int64_def)
  ultimately have "in_int64 \<lfloor>rnd_val ?y\<rfloor>" using zt by blast
  then have o: "?o = \<lfloor>rnd_val ?y\<rfloor>" using oz z0 by (simp add: rat_trunc_def)
  show "0 \<le> ?o" using z0 by (simp add: o)
  show "?o \<le> amt" using zt by (simp add: o)
  have "of_int \<lfloor>rnd_val ?y\<rfloor> \<le> rnd_val ?y" "rnd_val ?y - 1 < of_int \<lfloor>rnd_val ?y\<rfloor>" by linarith+
  then show "\<bar>of_int ?o - of_int amt * p / 100\<bar> \<le> 5 / 4"
    unfolding o using zu e2 y by linarith
qed

text \<open>
  (C11) The shares of an earning. For a percentage between 0 and 100 and up to a million TON, the
  owner's share lies between zero and the total and is off the exact share by at most five quarters
  of a nano, in spite of the roundings of the floating point computation; so the rest, which goes to
  the platform, is never negative and nothing is lost.
\<close>

theorem split_bounds:
  assumes "0 < amt" "amt \<le> 10 ^ 15" "0 \<le> p" "p \<le> 100"
  shows "0 \<le> owner_share amt (Fin p) \<and> 0 \<le> sub64 amt (owner_share amt (Fin p)) \<and>
    owner_share amt (Fin p) + sub64 amt (owner_share amt (Fin p)) = amt \<and>
    \<bar>of_int (owner_share amt (Fin p)) - of_int amt * p / 100\<bar> \<le> 5 / 4"
proof -
  note b = owner_share_bounds [OF assms]
  have "sub64 amt (owner_share amt (Fin p)) = amt - owner_share amt (Fin p)"
    using b(2,3) assms(1,2) by (intro wrap64_id) (simp add: in_int64_def)
  with b show ?thesis by simp
qed

theorem split_bounds_witness:
  "owner_share 1000000007 (Fin 70) \<in> {700000004, 700000005, 700000006}"
proof -
  have "\<bar>of_int (owner_share 1000000007 (Fin 70)) - 7000000049 / 10\<bar> \<le> (5 / 4 :: rat)"
    using split_bounds [of 1000000007 70] by simp
  then have "(of_int 700000003 :: rat) < of_int (owner_share 1000000007 (Fin 70))"
    "of_int (owner_share 1000000007 (Fin 70)) < (of_int 700000007 :: rat)" by linarith+
  then have "700000003 < owner_share 1000000007 (Fin 70)" "owner_share 1000000007 (Fin 70) < 700000007"
    by (simp_all only: of_int_less_iff)
  then show ?thesis by auto
qed

section \<open>References\<close>

text \<open>One step of the service: an event, a request or a pass of the worker, of the allowed kinds.\<close>

inductive rev_step ::
  "('w rev_env \<Rightarrow> bool) \<Rightarrow> (EarningEvent \<Rightarrow> bool) \<Rightarrow> (rev_request \<Rightarrow> bool) \<Rightarrow> 'w rev_state \<Rightarrow> 'w rev_state \<Rightarrow> bool"
  for ok_env ok_event ok_request where
    rev_event: "ok_env env \<Longrightarrow> pred_option ok_event m \<Longrightarrow> rev_step ok_env ok_event ok_request st (onEarningCreated env m st)"
  | rev_rest: "ok_env env \<Longrightarrow> ok_request q \<Longrightarrow>
      rev_step ok_env ok_event ok_request st (snd (rev_Register AdminKey env key q st))"
  | rev_batch: "ok_env env \<Longrightarrow> rev_step ok_env ok_event ok_request st (processBatch env st)"

inductive_cases rev_step_cases: "rev_step ok_env ok_event ok_request st st'"

text \<open>The references of the table, in order; processing an earning does not touch them.\<close>

definition refs :: "rev_db \<Rightarrow> string list" where
  "refs db = filter (\<lambda>r. r \<noteq> []) (map EA_RefID (earnings db))"

lemma refs_update: "(\<And>e. EA_RefID (g e) = EA_RefID e) \<Longrightarrow> refs (snd (update_earnings f P g db)) = refs db"
  by (auto simp: refs_def update_earnings_def comp_def if_distrib [of EA_RefID] cong: if_cong split: option.splits)

lemma refs_mark [simp]:
  "refs (snd (MarkProcessing io i db)) = refs db"
  "refs (snd (MarkDone io i t1 t2 n1 n2 db)) = refs db"
  "refs (snd (MarkFailed io i m db)) = refs db"
  by (simp_all add: MarkProcessing_def MarkDone_def MarkFailed_def refs_update)

lemma refs_ProcessEarning [simp]: "refs (rv_db (snd (ProcessEarning env e st))) = refs (rv_db st)"
  by (auto simp: ProcessEarning_def Let_def case_prod_beta split: sum.splits option.splits)

lemma refs_process_all [simp]: "refs (rv_db (process_all env es st)) = refs (rv_db st)"
  by (induction env es st rule: process_all.induct) simp_all

lemma refs_processBatch [simp]: "refs (rv_db (processBatch env st)) = refs (rv_db st)"
  by (simp add: processBatch_def split: sum.splits)

text \<open>What creating and processing comes to: nothing, or a new pending row with a fresh reference that is processed.\<close>

lemma CreateAndProcess_cases [consumes 0, case_names nothing created]:
  obtains "snd (CreateAndProcess env t tg n b ref d st) = st"
  | e where "0 < n" "EA_ID e \<notin> EA_ID ` set (earnings (rv_db st))" "ref \<noteq> [] \<Longrightarrow> ref \<notin> EA_RefID ` set (earnings (rv_db st))"
      "EA_Status e = EarningPending" "EA_TotalNano e = n" "EA_OwnerTelegramID e = tg" "EA_RefID e = ref"
      "CreateAndProcess env t tg n b ref d st =
         ProcessEarning (env_shift 2 env) e (st\<lparr>rv_db := (rv_db st)\<lparr>earnings := earnings (rv_db st) @ [e]\<rparr>\<rparr>)"
proof -
  let ?io = "re_io env" and ?db = "rv_db st"
  let ?fresh = "\<lparr>EA_ID = uuid_Nil, EA_CreatedAt = 0, EA_Type = t, EA_TotalNano = n,
                   EA_OwnerTelegramID = tg, EA_BotID = b, EA_RefID = ref, EA_Description = d,
                   EA_Status = EarningPending, EA_OwnerNano = 0, EA_PlatformNano = 0, EA_OwnerTxID = [],
                   EA_PlatformTxID = [], EA_ProcessedAt = None, EA_Error = None\<rparr>"
  let ?e = "?fresh\<lparr>EA_ID := io_uuid ?io 1, EA_CreatedAt := io_now ?io 1\<rparr>"
  have id: "st\<lparr>rv_db := rv_db st\<rparr> = st" by simp
  consider (no) "n \<le> 0 \<or> FindEarningByRefID ?io ref ?db \<noteq> Inr None"
    | (refused) "0 < n" "FindEarningByRefID ?io ref ?db = Inr None" "io_flt ?io 1 \<noteq> None \<or> io_uuid ?io 1 \<in> EA_ID ` set (earnings ?db)"
    | (new) "0 < n" "FindEarningByRefID ?io ref ?db = Inr None" "io_flt ?io 1 = None" "io_uuid ?io 1 \<notin> EA_ID ` set (earnings ?db)"
    by force
  then show thesis
  proof cases
    case no
    then have "snd (CreateAndProcess env t tg n b ref d st) = st"
      by (cases "FindEarningByRefID ?io ref ?db") (auto simp: CreateAndProcess_def split: option.splits)
    then show thesis by (rule that(1))
  next
    case refused
    then have "\<exists>x. CreateEarning (io_shift 1 ?io) ?fresh ?db = (Inl x, ?db)"
      by (cases "io_flt ?io 1") (simp_all add: CreateEarning_def Let_def)
    then obtain x where "CreateEarning (io_shift 1 ?io) ?fresh ?db = (Inl x, ?db)" by blast
    with refused(1,2) have "snd (CreateAndProcess env t tg n b ref d st) = st" by (simp add: CreateAndProcess_def id)
    then show thesis by (rule that(1))
  next
    case new
    have c: "CreateEarning (io_shift 1 ?io) ?fresh ?db = (Inr ?e, ?db\<lparr>earnings := earnings ?db @ [?e]\<rparr>)"
      using new(3,4) by (simp add: CreateEarning_def Let_def)
    have r: "ref \<noteq> [] \<Longrightarrow> ref \<notin> EA_RefID ` set (earnings ?db)"
      using new(2) by (auto simp: FindEarningByRefID_def First_or_nil_def stmt_Inr First_row_None)
    show thesis
      by (rule that(2) [of ?e]) (use new r c in \<open>simp_all add: CreateAndProcess_def\<close>)
  qed
qed

lemma refs_CreateAndProcess:
  assumes "distinct (refs (rv_db st))"
  shows "distinct (refs (rv_db (snd (CreateAndProcess env t tg n b ref d st))))"
proof (cases rule: CreateAndProcess_cases [of env t tg n b ref d st])
  case (created e)
  then have "refs (rv_db (snd (CreateAndProcess env t tg n b ref d st))) =
      refs ((rv_db st)\<lparr>earnings := earnings (rv_db st) @ [e]\<rparr>)" by simp
  with created(3,7) assms show ?thesis by (auto simp: refs_def)
qed (use assms in simp)

lemma earnings_create [simp]:
  "earnings (snd (create_rule f i r db)) = earnings db" "earnings (snd (create_platform_wallet f i w db)) = earnings db"
  by (simp_all add: create_rule_def create_platform_wallet_def Let_def split: sum.splits)

lemma earnings_rules [simp]:
  "earnings (snd (UpsertRule io r db)) = earnings db" "earnings (snd (SetPlatformWallet io tg l db)) = earnings db"
  by (simp_all add: UpsertRule_def SetPlatformWallet_def Let_def split: sum.splits bool.splits option.splits)

lemma rev_Register_state:
  "snd (rev_Register A env key q st) =
     (case q of
        PostEarn (Some m) \<Rightarrow>
          (if key = [] \<or> key \<noteq> A \<or> EE_Type m = [] \<or> EE_OwnerTelegramID m = 0 \<or> EE_TotalNano m = 0 then st
           else snd (CreateAndProcess env (EE_Type m) (EE_OwnerTelegramID m) (EE_TotalNano m) (EE_BotID m) (EE_RefID m)
                   (EE_Description m) st))
      | PutRules (Some r) \<Rightarrow>
          (if key = [] \<or> key \<noteq> A \<or> f64_add (RR_OwnerPercent r) (RR_PlatformPercent r) \<noteq> Fin 100 then st
           else st\<lparr>rv_db := snd (UpsertRule (re_io env) r (rv_db st))\<rparr>)
      | PostPlatformWallet (Some (tg, l)) \<Rightarrow>
          (if key = [] \<or> key \<noteq> A \<or> tg = 0 then st
           else st\<lparr>rv_db := snd (SetPlatformWallet (re_io env) tg l (rv_db st))\<rparr>)
      | _ \<Rightarrow> st)"
proof (cases q)
  case (PostEarn b)
  then show ?thesis
    by (cases b) (simp_all add: rev_Register_def createEarning_def Let_def split: prod.splits sum.splits)
next
  case (PutRules b)
  then show ?thesis
    by (cases b) (simp_all add: rev_Register_def updateRule_def Let_def split: prod.splits sum.splits)
next
  case (PostPlatformWallet b)
  then show ?thesis
    by (cases b) (auto simp: rev_Register_def setPlatformWallet_def Let_def split: prod.splits sum.splits)
qed (simp_all add: rev_Register_def listRules_def getStats_def Let_def split: sum.splits)

lemma rev_step_refs:
  assumes "rev_step ok_env ok_event ok_request st st'" "distinct (refs (rv_db st))"
  shows "distinct (refs (rv_db st'))"
  using assms
proof (cases rule: rev_step.cases)
  case (rev_event env m)
  with assms(2) show ?thesis by (simp add: onEarningCreated_def refs_CreateAndProcess split: option.splits)
next
  case (rev_rest env q A key)
  have "refs (rv_db (st\<lparr>rv_db := snd (UpsertRule io r (rv_db st))\<rparr>)) = refs (rv_db st)"
    "refs (rv_db (st\<lparr>rv_db := snd (SetPlatformWallet io tg l (rv_db st))\<rparr>)) = refs (rv_db st)" for io r tg l
    by (simp_all add: refs_def)
  with rev_rest assms(2) show ?thesis
    by (simp add: rev_Register_state refs_CreateAndProcess split: rev_request.splits option.splits prod.splits)
qed simp

interpretation refs_once: step_invariant "rev_step ok_env ok_event ok_request" "\<lambda>st. distinct (refs (rv_db st))"
  for ok_env :: "'w rev_env \<Rightarrow> bool" and ok_event and ok_request
  by unfold_locales (rule rev_step_refs)

text \<open>
  (C10) A reference is used once. Whatever events and requests arrive, in any order and however often,
  and whatever the database and botpay answer, no two earnings of the table carry the same non-empty
  reference: a repeated \<open>earning.created\<close> creates nothing.
\<close>

theorem reference_used_once:
  assumes "(rev_step (\<lambda>_. True) (\<lambda>_. True) (\<lambda>_. True))\<^sup>*\<^sup>* st st'" "distinct (refs (rv_db st))"
    and "e \<in> set (earnings (rv_db st'))" "e' \<in> set (earnings (rv_db st'))" "EA_RefID e = EA_RefID e'" "EA_RefID e \<noteq> []"
  shows "e = e'"
proof -
  have "distinct (refs (rv_db st'))" by (rule refs_once.run_keeps [OF assms(1,2)])
  with assms(3-6) show ?thesis
    by (auto simp: refs_def filter_map distinct_map inj_on_def comp_def)
qed

definition rev_demo_db :: rev_db where
  "rev_demo_db = snd (SeedDefaultRules demo_io \<lparr>rules = [], earnings = [], platform_wallets = []\<rparr>)"

definition rev_demo :: "pay_world rev_state" where
  "rev_demo = \<lparr>rv_db = rev_demo_db, rv_pay = plan_world\<rparr>"

definition rev_demo_env :: "pay_world rev_env" where
  "rev_demo_env = \<lparr>re_io = late_io, re_pay = (\<lambda>_. natspay_AddCredit plan_client plan_env)\<rparr>"

definition demo_event :: EarningEvent where
  "demo_event = \<lparr>EE_Type = RevAdIncome, EE_OwnerTelegramID = 42, EE_TotalNano = 1000000000, EE_BotID = ''b'',
     EE_RefID = ''order-9'', EE_Description = []\<rparr>"

lemma seed_earnings: "earnings (snd (seed_rules io rs db)) = earnings db"
proof (induction io rs db rule: seed_rules.induct)
  case (2 io r rs db)
  have "earnings db1 = earnings db" if "create_rule f i r db = (x, db1)" for f i x db1
    using earnings_create(1) [of f i r db] that by simp
  with 2 show ?case by (auto split: sum.splits prod.splits)
qed simp

lemma rev_demo_empty: "earnings (rv_db rev_demo) = []"
  by (simp add: rev_demo_def rev_demo_db_def SeedDefaultRules_def seed_earnings)

theorem reference_used_once_witness:
  "card {e \<in> set (earnings (rv_db (onEarningCreated rev_demo_env (Some demo_event)
     (onEarningCreated rev_demo_env (Some demo_event) rev_demo)))). EA_RefID e = ''order-9''} \<le> Suc 0"
proof -
  let ?step = "rev_step (\<lambda>_. True) (\<lambda>_. True) (\<lambda>_. True)"
  let ?st = "onEarningCreated rev_demo_env (Some demo_event) rev_demo"
  let ?st' = "onEarningCreated rev_demo_env (Some demo_event) ?st"
  have "?step rev_demo ?st" "?step ?st ?st'" by (rule rev_step.rev_event; simp)+
  then have run: "?step\<^sup>*\<^sup>* rev_demo ?st'" by (meson converse_rtranclp_into_rtranclp r_into_rtranclp)
  have "distinct (refs (rv_db rev_demo))" by (simp add: refs_def rev_demo_empty)
  from reference_used_once [OF run this] show ?thesis
    by (subst card_le_Suc0_iff_eq) auto
qed

section \<open>Owners are not overpaid\<close>

text \<open>
  The contract of the payment client: a credit that is reported as done has arrived; whatever is
  reported, the account got the amount or nothing changed, and no other account changed.
\<close>

locale credit_client =
  fixes credit :: "'e \<Rightarrow> int64 \<Rightarrow> f64 \<Rightarrow> string \<Rightarrow> 'w \<Rightarrow> (go_error + string) \<times> 'w"
    and good :: "'w \<Rightarrow> bool"
    and balance :: "int64 \<Rightarrow> 'w \<Rightarrow> int"
  assumes credit_good: "credit ce tg x d w = (r, w') \<Longrightarrow> good w \<Longrightarrow> tg \<noteq> 0 \<Longrightarrow> good w'"
    and credit_done: "credit ce tg x d w = (Inr txid, w') \<Longrightarrow> good w \<Longrightarrow> tg \<noteq> 0 \<Longrightarrow>
      balance u w' = balance u w + (if u = tg then TONToNano x else 0)"
    and credit_any: "credit ce tg x d w = (r, w') \<Longrightarrow> good w \<Longrightarrow> tg \<noteq> 0 \<Longrightarrow>
      balance u w' = balance u w \<or> u = tg \<and> balance u w' = balance u w + TONToNano x"

text \<open>Payments go through the given client; and the database answers, too.\<close>

definition through :: "('e \<Rightarrow> int64 \<Rightarrow> f64 \<Rightarrow> string \<Rightarrow> 'w \<Rightarrow> (go_error + string) \<times> 'w) \<Rightarrow> 'w rev_env \<Rightarrow> bool" where
  "through credit env \<longleftrightarrow> (\<forall>k. \<exists>ce. re_pay env k = credit ce)"

definition quiet :: "('e \<Rightarrow> int64 \<Rightarrow> f64 \<Rightarrow> string \<Rightarrow> 'w \<Rightarrow> (go_error + string) \<times> 'w) \<Rightarrow> 'w rev_env \<Rightarrow> bool" where
  "quiet credit env \<longleftrightarrow> io_ok (re_io env) \<and> through credit env"

lemma quiet_shift [simp]: "quiet credit env \<Longrightarrow> quiet credit (env_shift k env)"
  by (simp add: quiet_def through_def env_shift_def)

definition sane_rules :: "rev_db \<Rightarrow> bool" where
  "sane_rules db \<longleftrightarrow> (\<forall>r \<in> set (rules db). \<exists>p. RR_OwnerPercent r = Fin p \<and> 0 \<le> p \<and> p \<le> 100)"

definition settled :: "Earning \<Rightarrow> bool" where
  "settled e \<longleftrightarrow> EA_Status e = EarningDone \<or> EA_Status e = EarningFailed"

definition due :: "int64 \<Rightarrow> Earning \<Rightarrow> int" where
  "due u e = (if EA_OwnerTelegramID e = u \<and> settled e then EA_TotalNano e else 0)"

definition settled_total :: "int64 \<Rightarrow> rev_db \<Rightarrow> int" where
  "settled_total u db = sum_list (map (due u) (earnings db))"

definition rev_ok :: "int64 set \<Rightarrow> rev_db \<Rightarrow> bool" where
  "rev_ok P db \<longleftrightarrow> distinct (map EA_ID (earnings db)) \<and> (\<forall>e \<in> set (earnings db). 0 < EA_TotalNano e \<and> EA_TotalNano e \<le> 10 ^ 15) \<and>
     sane_rules db \<and> PW_TelegramID ` set (platform_wallets db) \<subseteq> P \<and> 0 \<notin> P"

lemma GetRule_sane: "GetRule io t db = Inr (Some r) \<Longrightarrow> sane_rules db \<Longrightarrow> \<exists>p. RR_OwnerPercent r = Fin p \<and> 0 \<le> p \<and> p \<le> 100"
  by (auto simp: GetRule_def First_or_nil_def stmt_Inr sane_rules_def dest!: First_row_Some)

lemma GetPlatformWallet_quiet:
  "io_flt io 0 = None \<Longrightarrow> fst (GetPlatformWallet io db) = Some pw \<Longrightarrow> pw \<in> set (platform_wallets db)"
  by (auto simp: GetPlatformWallet_def First_def split: option.splits dest: First_row_Some)

text \<open>Marking an earning twice leaves the last mark.\<close>

lemma MarkDone_after:
  "io_ok io' \<Longrightarrow> snd (MarkDone io' i t1 t2 n1 n2 (snd (MarkProcessing io i db))) = snd (MarkDone io' i t1 t2 n1 n2 db)"
  by (simp add: MarkDone_def MarkProcessing_def update_earnings_def comp_def split: option.splits)

lemma MarkFailed_after:
  "io_ok io' \<Longrightarrow> snd (MarkFailed io' i m (snd (MarkProcessing io i db))) = snd (MarkFailed io' i m db)"
  by (simp add: MarkFailed_def MarkProcessing_def update_earnings_def comp_def split: option.splits)

lemma platform_wallets_mark [simp]: "platform_wallets (snd (MarkProcessing io i db)) = platform_wallets db"
  by (simp add: MarkProcessing_def update_earnings_def split: option.splits)

text \<open>With distinct keys, an update by key replaces one row.\<close>

lemma update_earnings_row:
  assumes "distinct (map EA_ID (earnings db))" "e \<in> set (earnings db)"
  shows "snd (update_earnings None (\<lambda>x. EA_ID x = EA_ID e) g db) =
    db\<lparr>earnings := map (\<lambda>x. if EA_ID x = EA_ID e then g e else x) (earnings db)\<rparr>"
proof -
  have "map (\<lambda>x. if EA_ID x = EA_ID e then g x else x) (earnings db) = map (\<lambda>x. if EA_ID x = EA_ID e then g e else x) (earnings db)"
    using distinct_key_eq [OF assms(1) _ assms(2)] by auto
  then show ?thesis by (simp add: update_earnings_def)
qed

lemma ProcessEarning_rule:
  assumes "0 < EA_TotalNano e" "GetRule (re_io env) (EA_Type e) (rv_db st) = Inr (Some rule)"
    and "pay_owner env e (owner_share (EA_TotalNano e) (RR_OwnerPercent rule)) (rv_pay st) = (r, w1)" "io_ok (re_io env)"
  shows "ProcessEarning env e st =
    (case r of
       Inl x \<Rightarrow> (Inl (Wrapf ''owner payment: %w'' [] x),
         \<lparr>rv_db = snd (MarkFailed (io_shift 2 (re_io env)) (EA_ID e) (Textf ''owner payment failed: %s'' x) (rv_db st)), rv_pay = w1\<rparr>)
     | Inr t1 \<Rightarrow>
         (let own = owner_share (EA_TotalNano e) (RR_OwnerPercent rule); plat = sub64 (EA_TotalNano e) own;
              (t2, w2) = pay_platform env e plat (snd (MarkProcessing (io_shift 1 (re_io env)) (EA_ID e) (rv_db st))) w1
          in (Inr (), \<lparr>rv_db = snd (MarkDone (io_shift 4 (re_io env)) (EA_ID e) t1 t2 own plat (rv_db st)), rv_pay = w2\<rparr>)))"
proof -
  have dn: "fst (MarkDone io' i t1 t2 n1 n2 db) = Inr ()" if "io_ok io'" for io' i t1 t2 n1 n2 db
    using that by (simp add: MarkDone_def update_earnings_def)
  show ?thesis
  proof (cases r)
    case (Inl x)
    with assms show ?thesis by (simp add: ProcessEarning_def Let_def MarkFailed_after)
  next
    case (Inr t1)
    with assms show ?thesis
      by (simp add: ProcessEarning_def Let_def case_prod_beta MarkDone_after dn)
  qed
qed

definition rev_inv :: "('w \<Rightarrow> bool) \<Rightarrow> (int64 \<Rightarrow> 'w \<Rightarrow> int) \<Rightarrow> int64 set \<Rightarrow> (int64 \<Rightarrow> int) \<Rightarrow> 'w rev_state \<Rightarrow> bool" where
  "rev_inv good balance P b0 st \<longleftrightarrow> rev_ok P (rv_db st) \<and> good (rv_pay st) \<and>
     (\<forall>u. u \<notin> P \<longrightarrow> balance u (rv_pay st) \<le> b0 u + settled_total u (rv_db st))"

definition sane_event :: "EarningEvent \<Rightarrow> bool" where
  "sane_event m \<longleftrightarrow> EE_TotalNano m \<le> 10 ^ 15"

fun sane_request :: "int64 set \<Rightarrow> rev_request \<Rightarrow> bool" where
  "sane_request P (PostEarn m) = pred_option sane_event m"
| "sane_request P (PutRules r) = pred_option (\<lambda>r. \<exists>p. RR_OwnerPercent r = Fin p \<and> 0 \<le> p \<and> p \<le> 100) r"
| "sane_request P (PostPlatformWallet b) = pred_option (\<lambda>b. fst b \<in> P) b"
| "sane_request P _ = True"

lemma settled_total_row:
  assumes "distinct (map EA_ID (earnings db))" "e \<in> set (earnings db)" "\<not> settled e"
    and "settled e'" "EA_TotalNano e' = EA_TotalNano e" "EA_OwnerTelegramID e' = EA_OwnerTelegramID e"
  shows "settled_total u (db\<lparr>earnings := map (\<lambda>x. if EA_ID x = EA_ID e then e' else x) (earnings db)\<rparr>) =
    settled_total u db + (if u = EA_OwnerTelegramID e then EA_TotalNano e else 0)"
proof -
  let ?d = "if u = EA_OwnerTelegramID e then EA_TotalNano e else 0"
  have "due u e' = due u r + ?d" if "r \<in> set (earnings db)" "EA_ID r = EA_ID e" for r
    using distinct_key_eq [OF assms(1) that(1) assms(2) that(2)] assms(3-6) by (auto simp: due_def)
  from sum_list_map_update [where h = "due u" and g = "\<lambda>_. e'" and P = "\<lambda>x. EA_ID x = EA_ID e", OF this
      distinct_filter_length [OF assms(1,2)]]
  show ?thesis by (simp add: settled_total_def)
qed

lemma rev_ok_row:
  assumes "rev_ok P db" "e \<in> set (earnings db)" "EA_ID e' = EA_ID e" "EA_TotalNano e' = EA_TotalNano e"
  shows "rev_ok P (db\<lparr>earnings := map (\<lambda>x. if EA_ID x = EA_ID e then e' else x) (earnings db)\<rparr>)"
proof -
  have "map EA_ID (map (\<lambda>x. if EA_ID x = EA_ID e then e' else x) (earnings db)) = map EA_ID (earnings db)"
    using assms(3) by simp
  with assms show ?thesis unfolding rev_ok_def sane_rules_def by (auto simp del: map_map)
qed

lemma create_rule_rows:
  "platform_wallets (snd (create_rule f i r db)) = platform_wallets db \<and>
   set (rules (snd (create_rule f i r db))) \<subseteq> set (rules db) \<union> {x. RR_OwnerPercent x = RR_OwnerPercent r}"
  by (cases f) (auto simp: create_rule_def Let_def)

lemma rev_ok_UpsertRule:
  assumes "rev_ok P db" "RR_OwnerPercent r = Fin p" "0 \<le> p" "p \<le> 100"
  shows "rev_ok P (snd (UpsertRule io r db))"
proof -
  have "platform_wallets (snd (UpsertRule io r db)) = platform_wallets db \<and>
    set (rules (snd (UpsertRule io r db))) \<subseteq> set (rules db) \<union> {x. RR_OwnerPercent x = RR_OwnerPercent r}"
    by (cases "io_flt io 0"; cases "\<exists>x \<in> set (rules db). RR_ID x = RR_ID r") (use create_rule_rows in \<open>auto simp: UpsertRule_def\<close>)
  with assms show ?thesis by (auto simp: rev_ok_def sane_rules_def subset_iff)
qed

lemma rev_ok_seed:
  assumes "rev_ok P db" "\<forall>r \<in> set rs. \<exists>p. RR_OwnerPercent r = Fin p \<and> 0 \<le> p \<and> p \<le> 100"
  shows "rev_ok P (snd (seed_rules io rs db))"
  using assms
proof (induction io rs db rule: seed_rules.induct)
  case (2 io r rs db)
  have ok: "rev_ok P (snd (create_rule f i r db))" for f i
    using "2.prems" create_rule_rows [of f i r db] by (auto simp: rev_ok_def sane_rules_def subset_iff)
  show ?case
  proof (cases "First (io_flt io 0) RR_ID (\<lambda>x. RR_Type x = RR_Type r) (rules db)")
    case (Inl e)
    show ?thesis
    proof (cases "errors_Is e ErrRecordNotFound")
      case True
      obtain r1 db1 where c: "create_rule (io_flt io 1) (io_uuid io 1) r db = (r1, db1)" by fastforce
      with ok [of "io_flt io 1" "io_uuid io 1"] have "rev_ok P db1" by simp
      with 2 Inl True c show ?thesis by (cases r1) auto
    qed (use 2 Inl in auto)
  qed (use 2 in auto)
qed simp

lemma rev_ok_SeedDefaultRules: "rev_ok P db \<Longrightarrow> rev_ok P (snd (SeedDefaultRules io db))"
  unfolding SeedDefaultRules_def by (rule rev_ok_seed) (auto simp: DefaultRules_def default_rule_def)

lemma rev_ok_SetPlatformWallet:
  assumes "rev_ok P db" "tg \<in> P" "io_ok io"
  shows "rev_ok P (snd (SetPlatformWallet io tg l db))"
proof -
  have "rules (snd (SetPlatformWallet io tg l db)) = rules db"
    by (simp add: SetPlatformWallet_def create_platform_wallet_def Let_def split: sum.splits option.splits)
  moreover have "PW_TelegramID ` set (platform_wallets (snd (SetPlatformWallet io tg l db))) \<subseteq> P"
    using assms by (auto simp: SetPlatformWallet_def create_platform_wallet_def Let_def First_def rev_ok_def image_subset_iff
        split: sum.splits option.splits dest: First_row_Some)
  ultimately show ?thesis using assms(1) by (simp add: rev_ok_def sane_rules_def)
qed

context credit_client
begin

lemma credit_bounded:
  assumes "credit ce tg (NanoToTON n) d w = (r, w')" "good w" "tg \<noteq> 0" "0 < n" "n \<le> 10 ^ 15"
  shows "good w'" "balance u w' \<le> balance u w + (if u = tg then n else 0)"
    "r = Inr txid \<Longrightarrow> balance tg w + n - 1 \<le> balance tg w'" "u \<noteq> tg \<Longrightarrow> balance u w' = balance u w"
proof -
  note b = nano_back [of n]
  show "good w'" by (rule credit_good [OF assms(1-3)])
  show "balance u w' \<le> balance u w + (if u = tg then n else 0)"
    using credit_any [OF assms(1-3), of u] b assms(4,5) by auto
  show "u \<noteq> tg \<Longrightarrow> balance u w' = balance u w" using credit_any [OF assms(1-3), of u] by auto
  assume "r = Inr txid"
  with assms(1) have "credit ce tg (NanoToTON n) d w = (Inr txid, w')" by simp
  from credit_done [OF this assms(2,3), of tg] b assms(4,5) show "balance tg w + n - 1 \<le> balance tg w'" by auto
qed

lemma pay_owner_credit:
  assumes "pay_owner env e n w = (r, w')" "through credit env" "good w" "n \<le> 10 ^ 15"
  shows "good w'" "balance u w' \<le> balance u w + (if u = EA_OwnerTelegramID e \<and> 0 < n then n else 0)"
    "r = Inr txid \<Longrightarrow> EA_OwnerTelegramID e \<noteq> 0 \<Longrightarrow> balance (EA_OwnerTelegramID e) w + n - 1 \<le> balance (EA_OwnerTelegramID e) w'"
proof -
  have "good w' \<and> balance u w' \<le> balance u w + (if u = EA_OwnerTelegramID e \<and> 0 < n then n else 0) \<and>
    (r = Inr txid \<longrightarrow> EA_OwnerTelegramID e \<noteq> 0 \<longrightarrow> balance (EA_OwnerTelegramID e) w + n - 1 \<le> balance (EA_OwnerTelegramID e) w')"
  proof (cases "0 < n \<and> EA_OwnerTelegramID e \<noteq> 0")
    case True
    obtain ce where ce: "re_pay env 0 = credit ce" using assms(2) by (auto simp: through_def)
    with True assms(1) obtain d where "credit ce (EA_OwnerTelegramID e) (NanoToTON n) d w = (r, w')"
      by (auto simp: pay_owner_def)
    from credit_bounded [OF this assms(3) _ _ assms(4)] True show ?thesis by auto
  qed (use assms(1,3) in \<open>auto simp: pay_owner_def split: if_splits\<close>)
  then show "good w'" "balance u w' \<le> balance u w + (if u = EA_OwnerTelegramID e \<and> 0 < n then n else 0)"
    "r = Inr txid \<Longrightarrow> EA_OwnerTelegramID e \<noteq> 0 \<Longrightarrow> balance (EA_OwnerTelegramID e) w + n - 1 \<le> balance (EA_OwnerTelegramID e) w'"
    by auto
qed

lemma pay_platform_credit:
  assumes "pay_platform env e n db w = (t, w')" "through credit env" "io_flt (re_io env) 3 = None" "good w" "n \<le> 10 ^ 15"
    and "PW_TelegramID ` set (platform_wallets db) \<subseteq> P" "0 \<notin> P"
  shows "good w'" "u \<notin> P \<Longrightarrow> balance u w' = balance u w" "balance u w \<le> balance u w'"
proof -
  have "good w' \<and> (u \<notin> P \<longrightarrow> balance u w' = balance u w) \<and> balance u w \<le> balance u w'"
  proof (cases "0 < n \<and> fst (GetPlatformWallet (io_shift 3 (re_io env)) db) \<noteq> None")
    case True
    then obtain pw where pw: "fst (GetPlatformWallet (io_shift 3 (re_io env)) db) = Some pw" by auto
    have "pw \<in> set (platform_wallets db)"
      using GetPlatformWallet_quiet [OF _ pw] assms(3) by simp
    then have tg: "PW_TelegramID pw \<in> P" "PW_TelegramID pw \<noteq> 0" using assms(6,7) by auto
    obtain ce where ce: "re_pay env 1 = credit ce" using assms(2) by (auto simp: through_def)
    obtain r d where c: "credit ce (PW_TelegramID pw) (NanoToTON n) d w = (r, w')"
      using True pw ce assms(1) by (auto simp: pay_platform_def split: prod.splits sum.splits)
    have "balance u w \<le> balance u w'"
      using credit_any [OF c assms(4) tg(2), of u] nano_back [of n] True assms(5) by auto
    moreover have "u \<noteq> PW_TelegramID pw" if "u \<notin> P" using tg(1) that by auto
    ultimately show ?thesis using credit_bounded(1,4) [OF c assms(4) tg(2) _ assms(5)] True by blast
  qed (use assms(1,4) in \<open>auto simp: pay_platform_def split: if_splits option.splits\<close>)
  then show "good w'" "u \<notin> P \<Longrightarrow> balance u w' = balance u w" "balance u w \<le> balance u w'" by auto
qed

text \<open>A quiet run on a pending row: nothing, or the row is settled and its owner got at most its total.\<close>

lemma ProcessEarning_quiet:
  assumes "quiet credit env" "rev_ok P (rv_db st)" "good (rv_pay st)" "e \<in> set (earnings (rv_db st))"
  obtains "snd (ProcessEarning env e st) = st"
  | e' w' where "EA_ID e' = EA_ID e" "settled e'" "EA_TotalNano e' = EA_TotalNano e" "EA_OwnerTelegramID e' = EA_OwnerTelegramID e"
      "snd (ProcessEarning env e st) = \<lparr>rv_db = (rv_db st)\<lparr>earnings := map (\<lambda>x. if EA_ID x = EA_ID e then e' else x) (earnings (rv_db st))\<rparr>,
         rv_pay = w'\<rparr>"
      "good w'" "\<And>u. u \<notin> P \<Longrightarrow> balance u w' \<le> balance u (rv_pay st) + (if u = EA_OwnerTelegramID e then EA_TotalNano e else 0)"
proof -
  let ?db = "rv_db st" and ?w = "rv_pay st" and ?io = "re_io env" and ?n = "EA_TotalNano e"
  have io: "io_ok ?io" and thr: "through credit env" using assms(1) by (simp_all add: quiet_def)
  then have io3: "io_flt ?io 3 = None" by simp
  have ids: "distinct (map EA_ID (earnings ?db))" and n: "0 < ?n" "?n \<le> 10 ^ 15" and sane: "sane_rules ?db"
    and P: "PW_TelegramID ` set (platform_wallets ?db) \<subseteq> P" "0 \<notin> P" using assms(2,4) by (auto simp: rev_ok_def)
  show thesis
  proof (cases "\<exists>rule. GetRule ?io (EA_Type e) ?db = Inr (Some rule)")
    case False
    then have "snd (ProcessEarning env e st) = st"
      using n by (auto simp: ProcessEarning_def Let_def split: sum.splits option.splits)
    then show thesis by (rule that(1))
  next
    case True
    then obtain rule where rule: "GetRule ?io (EA_Type e) ?db = Inr (Some rule)" by blast
    obtain p where p: "RR_OwnerPercent rule = Fin p" "0 \<le> p" "p \<le> 100" using GetRule_sane [OF rule sane] by blast
    let ?own = "owner_share ?n (RR_OwnerPercent rule)"
    have own: "0 \<le> ?own" "?own \<le> ?n" using owner_share_bounds [OF n p(2,3)] by (simp_all add: p(1))
    have plat: "sub64 ?n ?own = ?n - ?own" using own n by (intro wrap64_id) (simp add: in_int64_def)
    obtain r w1 where o: "pay_owner env e ?own ?w = (r, w1)" by fastforce
    have o10: "?own \<le> 10 ^ 15" "?n - ?own \<le> 10 ^ 15" using own n by simp_all
    note O = pay_owner_credit(1,2) [OF o thr assms(3) o10(1)]
    have up: "balance u w1 \<le> balance u ?w + (if u = EA_OwnerTelegramID e then ?n else 0)" for u
      using O(2) [of u] own n by (auto split: if_splits)
    note PE = ProcessEarning_rule [OF n(1) rule o io]
    show thesis
    proof (cases r)
      case (Inl x)
      let ?e' = "e\<lparr>EA_Status := EarningFailed, EA_Error := Some (Textf ''owner payment failed: %s'' x),
        EA_ProcessedAt := Some (io_now ?io 2)\<rparr>"
      have st': "snd (ProcessEarning env e st) = \<lparr>rv_db = ?db\<lparr>earnings := map (\<lambda>y. if EA_ID y = EA_ID e then ?e' else y) (earnings ?db)\<rparr>,
        rv_pay = w1\<rparr>"
        using Inl PE io update_earnings_row [OF ids assms(4)] by (simp add: MarkFailed_def numeral_2_eq_2)
      show thesis by (rule that(2) [OF _ _ _ _ st' O(1) up]) (simp_all add: settled_def)
    next
      case (Inr t1)
      obtain t2 w2 where pp: "pay_platform env e (?n - ?own) (snd (MarkProcessing (io_shift 1 ?io) (EA_ID e) ?db)) w1 = (t2, w2)"
        by fastforce
      have P1: "PW_TelegramID ` set (platform_wallets (snd (MarkProcessing (io_shift 1 ?io) (EA_ID e) ?db))) \<subseteq> P"
        using P(1) by simp
      note PP = pay_platform_credit [OF pp thr io3 O(1) o10(2) P1 P(2)]
      let ?e' = "e\<lparr>EA_Status := EarningDone, EA_OwnerTxID := t1, EA_PlatformTxID := t2, EA_OwnerNano := ?own,
        EA_PlatformNano := ?n - ?own, EA_ProcessedAt := Some (io_now ?io 4)\<rparr>"
      have st': "snd (ProcessEarning env e st) = \<lparr>rv_db = ?db\<lparr>earnings := map (\<lambda>y. if EA_ID y = EA_ID e then ?e' else y) (earnings ?db)\<rparr>,
        rv_pay = w2\<rparr>"
        using Inr PE pp plat io update_earnings_row [OF ids assms(4)] by (simp add: MarkDone_def Let_def)
      have up2: "balance u w2 \<le> balance u ?w + (if u = EA_OwnerTelegramID e then ?n else 0)" if "u \<notin> P" for u
        using PP(2) [OF that] up [of u] by simp
      show thesis by (rule that(2) [OF _ _ _ _ st' PP(1) up2]) (simp_all add: settled_def)
    qed
  qed
qed

lemma ProcessEarning_inv:
  assumes "quiet credit env" "rev_inv good balance P b0 st" "e \<in> set (earnings (rv_db st))" "\<not> settled e"
  shows "rev_inv good balance P b0 (snd (ProcessEarning env e st))"
    "x \<in> set (earnings (rv_db st)) \<Longrightarrow> EA_ID x \<noteq> EA_ID e \<Longrightarrow> x \<in> set (earnings (rv_db (snd (ProcessEarning env e st))))"
proof -
  have ok: "rev_ok P (rv_db st)" "good (rv_pay st)" using assms(2) by (simp_all add: rev_inv_def)
  have ids: "distinct (map EA_ID (earnings (rv_db st)))" using ok(1) by (simp add: rev_ok_def)
  have "rev_inv good balance P b0 (snd (ProcessEarning env e st)) \<and>
    (x \<in> set (earnings (rv_db st)) \<longrightarrow> EA_ID x \<noteq> EA_ID e \<longrightarrow> x \<in> set (earnings (rv_db (snd (ProcessEarning env e st)))))"
  proof (rule ProcessEarning_quiet [OF assms(1) ok assms(3)], goal_cases)
    case 1
    then show ?case using assms(2) by simp
  next
    case (2 e' w')
    note T = settled_total_row [OF ids assms(3,4) 2(2-4)]
    have "balance u w' \<le> b0 u + (settled_total u (rv_db st) + (if u = EA_OwnerTelegramID e then EA_TotalNano e else 0))"
      if "u \<notin> P" for u using assms(2) 2(7) [OF that] that by (fastforce simp: rev_inv_def)
    with 2(5,6) T rev_ok_row [OF ok(1) assms(3) 2(1,3)] show ?case by (auto simp: rev_inv_def)
  qed
  then show "rev_inv good balance P b0 (snd (ProcessEarning env e st))"
    "x \<in> set (earnings (rv_db st)) \<Longrightarrow> EA_ID x \<noteq> EA_ID e \<Longrightarrow> x \<in> set (earnings (rv_db (snd (ProcessEarning env e st))))"
    by auto
qed

lemma process_all_inv:
  assumes "quiet credit env" "rev_inv good balance P b0 st" "set es \<subseteq> set (earnings (rv_db st))" "\<forall>e \<in> set es. \<not> settled e"
    and "distinct (map EA_ID es)"
  shows "rev_inv good balance P b0 (process_all env es st)"
  using assms
proof (induction env es st rule: process_all.induct)
  case (2 env e es st)
  note I = ProcessEarning_inv [OF "2.prems"(1,2), of e]
  have "rev_inv good balance P b0 (snd (ProcessEarning env e st))" using I(1) "2.prems" by simp
  moreover have "set es \<subseteq> set (earnings (rv_db (snd (ProcessEarning env e st))))"
    using I(2) "2.prems" by (fastforce simp: image_iff)
  ultimately show ?case using "2.IH" "2.prems" by simp
qed simp

lemma processBatch_inv:
  assumes "quiet credit env" "rev_inv good balance P b0 st"
  shows "rev_inv good balance P b0 (processBatch env st)"
proof -
  let ?es = "take 50 (sort_key EA_CreatedAt (filter (\<lambda>e. EA_Status e = EarningPending) (earnings (rv_db st))))"
  have "distinct (map EA_ID (earnings (rv_db st)))" using assms(2) by (simp add: rev_inv_def rev_ok_def)
  then have "distinct (map EA_ID (sort_key EA_CreatedAt (filter (\<lambda>e. EA_Status e = EarningPending) (earnings (rv_db st)))))"
    by (auto simp: distinct_map inj_on_def)
  then have d: "distinct (map EA_ID ?es)" by (simp flip: take_map)
  have "set ?es \<subseteq> set (earnings (rv_db st))" "\<forall>e \<in> set ?es. \<not> settled e"
    by (auto simp: settled_def dest!: in_set_takeD)
  from process_all_inv [OF quiet_shift [OF assms(1)] assms(2) this d] assms(1)
  show ?thesis by (simp add: processBatch_def ListPendingEarnings_def quiet_def)
qed

lemma CreateAndProcess_inv:
  assumes "quiet credit env" "rev_inv good balance P b0 st" "n \<le> 10 ^ 15"
  shows "rev_inv good balance P b0 (snd (CreateAndProcess env t tg n b ref d st))"
proof (cases rule: CreateAndProcess_cases [of env t tg n b ref d st])
  case (created e)
  let ?st = "st\<lparr>rv_db := (rv_db st)\<lparr>earnings := earnings (rv_db st) @ [e]\<rparr>\<rparr>"
  have "rev_inv good balance P b0 ?st"
    using assms(2,3) created(1,2,4,5)
    by (auto simp: rev_inv_def rev_ok_def settled_total_def due_def settled_def sane_rules_def)
  then show ?thesis
    using ProcessEarning_inv(1) [OF quiet_shift [OF assms(1)], of P b0 ?st e] created(4,8) by (simp add: settled_def)
qed (use assms in simp)

lemma rev_step_inv:
  assumes "rev_step (quiet credit) sane_event (sane_request P) st st'" "rev_inv good balance P b0 st"
  shows "rev_inv good balance P b0 st'"
  using assms(1)
proof (cases rule: rev_step.cases)
  case (rev_event env m)
  then show ?thesis
    using CreateAndProcess_inv [OF _ assms(2)] assms(2)
    by (cases m) (simp_all add: onEarningCreated_def sane_event_def)
next
  case (rev_rest env q A key)
  have io: "io_ok (re_io env)" using rev_rest(2) by (simp add: quiet_def)
  have rules: "rev_inv good balance P b0 (st\<lparr>rv_db := snd (UpsertRule (re_io env) r (rv_db st))\<rparr>)"
    if "RR_OwnerPercent r = Fin p" "0 \<le> p" "p \<le> 100" for r p
    using rev_ok_UpsertRule [OF _ that] assms(2) by (simp add: rev_inv_def settled_total_def)
  have pw: "rev_inv good balance P b0 (st\<lparr>rv_db := snd (SetPlatformWallet (re_io env) tg l (rv_db st))\<rparr>)" if "tg \<in> P" for tg l
    using rev_ok_SetPlatformWallet [OF _ that io] assms(2) by (simp add: rev_inv_def settled_total_def)
  show ?thesis
    using rev_rest CreateAndProcess_inv [OF rev_rest(2) assms(2)] assms(2) rules pw
    by (auto simp: rev_Register_state sane_event_def split: rev_request.splits option.splits prod.splits)
next
  case (rev_batch env)
  then show ?thesis using processBatch_inv [OF _ assms(2)] by simp
qed

sublocale step_invariant "rev_step (quiet credit) sane_event (sane_request P)" "rev_inv good balance P b0" for P b0
  by unfold_locales (rule rev_step_inv)

end

lemma natspay_credit:
  assumes "natspay_AddCredit c ce tg x d w = (r, w')"
  obtains meta r' where "Client_Credit c ce tg x d meta w = (r', w')" "\<And>txid. r = Inr txid \<Longrightarrow> r' = Inr ()"
  using assms by (auto simp: natspay_AddCredit_def Let_def split: prod.splits sum.splits)

interpretation natspay: credit_client "natspay_AddCredit c" "\<lambda>w. ids_ok (sv_db (pw_service w))"
    "\<lambda>u w. cash u (sv_db (pw_service w))" for c
proof (unfold_locales, goal_cases)
  case (1 ce tg x d w r w')
  then show ?case by (auto elim!: natspay_credit dest: Client_Credit_cash(1))
next
  case (2 ce tg x d w txid w' u)
  obtain meta r' where c: "Client_Credit c ce tg x d meta w = (r', w')" and r': "r' = Inr ()"
    by (rule natspay_credit [OF 2(1)]) auto
  show ?case by (rule Client_Credit_cash(2) [OF c 2(2,3) r'])
next
  case (3 ce tg x d w r w' u)
  obtain meta r' where c: "Client_Credit c ce tg x d meta w = (r', w')" by (rule natspay_credit [OF 3(1)]) auto
  show ?case by (rule Client_Credit_any [OF c 3(2,3)])
qed


lemma rev_demo_ok: "rev_ok {7} rev_demo_db"
  unfolding rev_demo_db_def by (rule rev_ok_SeedDefaultRules) (simp add: rev_ok_def sane_rules_def)

lemma rev_demo_quiet: "quiet (natspay_AddCredit plan_client) rev_demo_env"
  by (auto simp: quiet_def through_def rev_demo_env_def late_io_def demo_io_def io_ok_def)

lemma rev_demo_ids: "ids_ok (sv_db (pw_service (rv_pay rev_demo)))"
  using plan_bought by (simp add: bought_def Let_def rev_demo_def ids_ok_def solvent_def)



definition reward_rule :: RevenueRule where
  "reward_rule = \<lparr>RR_ID = ''r1'', RR_Type = RevReward, RR_OwnerPercent = Fin 100, RR_PlatformPercent = Fin 0,
     RR_IsActive = True, RR_Description = []\<rparr>"

definition reward :: Earning where
  "reward = \<lparr>EA_ID = ''e1'', EA_CreatedAt = 5, EA_Type = RevReward, EA_TotalNano = 1000000000, EA_OwnerTelegramID = 42,
     EA_BotID = [], EA_RefID = ''ref-1'', EA_Description = [], EA_Status = EarningPending, EA_OwnerNano = 0, EA_PlatformNano = 0,
     EA_OwnerTxID = [], EA_PlatformTxID = [], EA_ProcessedAt = None, EA_Error = None\<rparr>"

definition reward_db :: rev_db where
  "reward_db = \<lparr>rules = [reward_rule], earnings = [reward], platform_wallets = []\<rparr>"

lemma exact_ton: "rnd (of_int n * 10 ^ k) = Fin (of_int n * 10 ^ k)" if "\<bar>n * 10 ^ k\<bar> \<le> 2 ^ 53"
  using f64_of_int_exact [OF that] by (simp add: f64_of_int_def)

lemma one_ton: "owner_share 1000000000 (Fin 100) = 1000000000" "NanoToTON 1000000000 = Fin 1" "TONToNano (Fin 1) = 1000000000"
  using exact_ton [of 1 0] exact_ton [of 1 9] exact_ton [of 1 11]
  by (simp_all add: owner_share_def NanoToTON_def TONToNano_def f64_of_int_def rat_trunc_def in_int64_def)

lemma reward_GetRule: "io_ok io \<Longrightarrow> GetRule io RevReward reward_db = Inr (Some reward_rule)"
  by (simp add: GetRule_def First_or_nil_def First_row_def least_by_def reward_db_def reward_rule_def)

lemma reward_credited:
  "\<exists>w'. natspay_AddCredit plan_client plan_env 42 (Fin 1) d plan_world = (Inr [], w')"
proof -
  have q: "quiet_env plan_env" by (simp add: quiet_env_def plan_env_def demo_env_def late_io_def demo_io_def io_ok_def)
  have u: "io_uuid (ce_io (cl_call plan_env)) 5 \<notin> T_ID ` set (transactions (sv_db (pw_service plan_world)))" by code_simp
  have B: "solvent (sv_db (pw_service plan_world))" "distinct (map W_TelegramID (wallets (sv_db (pw_service plan_world))))"
    "plan_wallet \<in> set (wallets (sv_db (pw_service plan_world)))" "W_TelegramID plan_wallet \<noteq> 0" "W_PayHandle plan_wallet \<noteq> []"
    using plan_bought by (simp_all add: bought_def Let_def)
  have "fst (Client_Credit plan_client plan_env (W_TelegramID plan_wallet) (Fin 1) d meta plan_world) = Inr ()" for meta
    by (rule Client_Credit_done [OF q bought_authorized [OF plan_bought] B])
      (use u in \<open>simp_all add: one_ton validAmount_def IsNaN_def IsInf_def plan_wallet_def demo_wallet_def in_int64_def\<close>)
  then have "\<exists>w'. Client_Credit plan_client plan_env 42 (Fin 1) d meta plan_world = (Inr (), w')" for meta
    by (simp add: plan_wallet_def demo_wallet_def) (metis prod.collapse)
  then show ?thesis by (metis (no_types, lifting) natspay_AddCredit_def case_prod_conv sum.case(2))
qed


section \<open>Errors that are not noticed\<close>

text \<open>
  (C12) Earnings without a rule block the queue. The worker asks for the 50 oldest pending earnings, and
  an earning whose type has no active rule stays pending. So once 50 such earnings are the oldest, every
  pass ends where it began, whatever waits behind them. Four of the nine types the service knows
  (\<open>commission\<close>, \<open>channel_revenue\<close>, \<open>group_revenue\<close>, \<open>member_reward\<close>) have no default rule.
\<close>

theorem batch_starved:
  assumes "\<forall>e \<in> set (take 50 (sort_key EA_CreatedAt (filter (\<lambda>e. EA_Status e = EarningPending) (earnings (rv_db st))))).
    0 < EA_TotalNano e \<and> (\<forall>r \<in> set (rules (rv_db st)). RR_Type r = EA_Type e \<longrightarrow> \<not> RR_IsActive r)"
  shows "processBatch env st = st"
proof -
  have skip: "snd (ProcessEarning env e st) = st"
    if "0 < EA_TotalNano e" "\<forall>r \<in> set (rules (rv_db st)). RR_Type r = EA_Type e \<longrightarrow> \<not> RR_IsActive r" for env :: "'a rev_env" and e
  proof -
    have "First_row RR_ID (\<lambda>r. RR_Type r = EA_Type e \<and> RR_IsActive r) (rules (rv_db st)) = None"
      using that(2) by (auto simp: First_row_None)
    then show ?thesis using that(1)
      by (cases "io_flt (re_io env) 0") (simp_all add: ProcessEarning_def GetRule_def First_or_nil_def Let_def)
  qed
  have "process_all env es st = st"
    if "\<forall>e \<in> set es. 0 < EA_TotalNano e \<and> (\<forall>r \<in> set (rules (rv_db st)). RR_Type r = EA_Type e \<longrightarrow> \<not> RR_IsActive r)"
    for env :: "'a rev_env" and es
    using that by (induction es arbitrary: env) (auto simp: skip)
  with assms show ?thesis
    by (cases "io_flt (re_io env) 0") (simp_all add: processBatch_def ListPendingEarnings_def)
qed

definition stuck :: "nat \<Rightarrow> Earning" where
  "stuck k = reward\<lparr>EA_ID := ''s'' @ fmt_d (int k), EA_CreatedAt := 1, EA_Type := RevChannelRevenue, EA_RefID := []\<rparr>"

theorem batch_starved_witness:
  "processBatch rev_demo_env \<lparr>rv_db = reward_db\<lparr>earnings := reward # map stuck [0..<50]\<rparr>, rv_pay = plan_world\<rparr> =
     \<lparr>rv_db = reward_db\<lparr>earnings := reward # map stuck [0..<50]\<rparr>, rv_pay = plan_world\<rparr>"
proof (rule batch_starved)
  have "sort_key EA_CreatedAt (filter (\<lambda>e. EA_Status e = EarningPending) (reward # map stuck [0..<50])) =
    map stuck [0..<50] @ [reward]" by (simp add: upt_rec reward_def stuck_def)
  then have t: "take 50 (sort_key EA_CreatedAt (filter (\<lambda>e. EA_Status e = EarningPending) (reward # map stuck [0..<50]))) = map stuck [0..<50]"
    by simp
  show "\<forall>e \<in> set (take 50 (sort_key EA_CreatedAt (filter (\<lambda>e. EA_Status e = EarningPending)
      (earnings (rv_db \<lparr>rv_db = reward_db\<lparr>earnings := reward # map stuck [0..<50]\<rparr>, rv_pay = plan_world\<rparr>))))).
    0 < EA_TotalNano e \<and> (\<forall>r \<in> set (rules (rv_db \<lparr>rv_db = reward_db\<lparr>earnings := reward # map stuck [0..<50]\<rparr>, rv_pay = plan_world\<rparr>)).
      RR_Type r = EA_Type e \<longrightarrow> \<not> RR_IsActive r)"
    using t by (auto simp: reward_db_def reward_rule_def stuck_def reward_def)
qed

text \<open>
  A payment that is not recorded is made again. The engine ignores the errors of its marks. When
  the driver fails on both marks of an earning whose owner has been paid, processing reports an error
  and the table is as before, with the earning pending; the owner has the money, and the next pass of
  the worker pays him again: the credit carries no reference that botpay could recognise.
\<close>

theorem unrecorded_payment:
  assumes "through (natspay_AddCredit c) env" "rev_ok P (rv_db st)" "ids_ok (sv_db (pw_service (rv_pay st)))"
    and "e \<in> set (earnings (rv_db st))" "EA_OwnerTelegramID e \<noteq> 0"
    and "GetRule (re_io env) (EA_Type e) (rv_db st) = Inr (Some rule)"
    and "pay_owner env e (owner_share (EA_TotalNano e) (RR_OwnerPercent rule)) (rv_pay st) = (Inr txid, w1)"
    and "io_flt (re_io env) 1 = Some err1" "io_flt (re_io env) 3 = None" "io_flt (re_io env) 4 = Some err2"
  shows "\<exists>w2. ProcessEarning env e st = (Inl (DBErr err2), \<lparr>rv_db = rv_db st, rv_pay = w2\<rparr>) \<and>
    cash (EA_OwnerTelegramID e) (sv_db (pw_service (rv_pay st))) + owner_share (EA_TotalNano e) (RR_OwnerPercent rule) - 1 \<le>
      cash (EA_OwnerTelegramID e) (sv_db (pw_service w2))"
proof -
  let ?db = "rv_db st" and ?n = "EA_TotalNano e" and ?own = "owner_share (EA_TotalNano e) (RR_OwnerPercent rule)"
  have n: "0 < ?n" "?n \<le> 10 ^ 15" and sane: "sane_rules ?db"
    and P: "PW_TelegramID ` set (platform_wallets ?db) \<subseteq> P" "0 \<notin> P" using assms(2,4) by (auto simp: rev_ok_def)
  obtain p where p: "RR_OwnerPercent rule = Fin p" "0 \<le> p" "p \<le> 100" using GetRule_sane [OF assms(6) sane] by blast
  have own: "0 \<le> ?own" "?own \<le> ?n" using owner_share_bounds [OF n p(2,3)] by (simp_all add: p(1))
  have plat: "sub64 ?n ?own = ?n - ?own" using own n by (intro wrap64_id) (simp add: in_int64_def)
  have o10: "?own \<le> 10 ^ 15" "?n - ?own \<le> 10 ^ 15" using own n by simp_all
  have mp: "MarkProcessing (io_shift 1 (re_io env)) (EA_ID e) ?db = (Inl (DBErr err1), ?db)"
    using assms(8) by (simp add: MarkProcessing_def update_earnings_def)
  obtain t2 w2 where pp: "pay_platform env e (?n - ?own) ?db w1 = (t2, w2)" by fastforce
  note O = natspay.pay_owner_credit [OF assms(7) assms(1,3) o10(1)]
  note PP = natspay.pay_platform_credit(3) [OF pp assms(1,9) O(1) o10(2) P, of "EA_OwnerTelegramID e"]
  have "ProcessEarning env e st = (Inl (DBErr err2), \<lparr>rv_db = ?db, rv_pay = w2\<rparr>)"
    using n(1) assms(6,7,10) mp pp plat by (simp add: ProcessEarning_def Let_def MarkDone_def update_earnings_def)
  with O(3) [OF refl assms(5)] PP show ?thesis by auto
qed

definition faulty_marks :: "pay_world rev_env" where
  "faulty_marks = rev_demo_env\<lparr>re_io := late_io\<lparr>io_flt := (\<lambda>i. if i \<in> {1, 4} then Some ''connection lost'' else None)\<rparr>\<rparr>"

theorem unrecorded_payment_witness:
  "\<exists>w2. ProcessEarning faulty_marks reward \<lparr>rv_db = reward_db, rv_pay = plan_world\<rparr> =
     (Inl (DBErr ''connection lost''), \<lparr>rv_db = reward_db, rv_pay = w2\<rparr>) \<and>
     cash 42 (sv_db (pw_service plan_world)) + 999999999 \<le> cash 42 (sv_db (pw_service w2))"
proof -
  let ?st = "\<lparr>rv_db = reward_db, rv_pay = plan_world\<rparr>"
  have thr: "through (natspay_AddCredit plan_client) faulty_marks" using rev_demo_quiet by (simp add: quiet_def through_def faulty_marks_def)
  have rule: "GetRule (re_io faulty_marks) (EA_Type reward) (rv_db ?st) = Inr (Some reward_rule)"
    by (simp add: GetRule_def First_or_nil_def First_row_def least_by_def reward_db_def reward_rule_def reward_def faulty_marks_def)
  obtain w1 where o: "pay_owner faulty_marks reward (owner_share (EA_TotalNano reward) (RR_OwnerPercent reward_rule)) (rv_pay ?st) = (Inr [], w1)"
    using reward_credited by (auto simp: pay_owner_def reward_def reward_rule_def one_ton rev_demo_env_def faulty_marks_def)
  have ok: "rev_ok {7} (rv_db ?st)" by (auto simp: rev_ok_def reward_db_def reward_def reward_rule_def sane_rules_def)
  have ids: "ids_ok (sv_db (pw_service (rv_pay ?st)))" using rev_demo_ids by (simp add: rev_demo_def)
  have m: "reward \<in> set (earnings (rv_db ?st))" "EA_OwnerTelegramID reward \<noteq> 0" "EA_OwnerTelegramID reward = 42"
    "owner_share (EA_TotalNano reward) (RR_OwnerPercent reward_rule) = 1000000000"
    by (simp_all add: reward_db_def reward_def reward_rule_def one_ton)
  have f: "io_flt (re_io faulty_marks) 1 = Some ''connection lost''" "io_flt (re_io faulty_marks) 3 = None"
    "io_flt (re_io faulty_marks) 4 = Some ''connection lost''" by (simp_all add: faulty_marks_def)
  from unrecorded_payment [OF thr ok ids m(1,2) rule o f] show ?thesis by (simp add: m(3,4) add.commute)
qed

end
