(* ===== verification/Gateway.thy ===== *)
theory Gateway
  imports PayResponder "HOL-Library.AList"
begin

text \<open>
  The webhook gateway (\<open>webhook-gateway\<close>): the registry of bots, the token bucket rate limiters, the
  router with its management endpoints and NATS subscriptions, and the poller with which a bot reads
  its updates back from NATS (\<open>shared/pkg/adapters/webhook\<close>). Calls are atomic, as the locks of the
  registry and of the buckets make them; SHA-256, the HTTP server and the decoding of a Telegram
  update are parameters. Logging is left out.
\<close>

section \<open>Registry (\<open>registry.go\<close>)\<close>

record BotEntry =
  BE_Token :: string
  BE_BotID :: int64
  BE_NATSSubject :: string
  BE_Type :: string

text \<open>Go's maps as association lists with distinct keys; the order in which \<open>List\<close> ranges over them is not specified.\<close>

record Registry =
  rg_entries :: "(string \<times> BotEntry) list"
  rg_byBotID :: "(int64 \<times> BotEntry) list"

definition New_Registry :: Registry where
  "New_Registry = \<lparr>rg_entries = [], rg_byBotID = []\<rparr>"

definition tokenHash :: "(string \<Rightarrow> string) \<Rightarrow> string \<Rightarrow> string" where
  "tokenHash sha token = hexEncode (take 16 (sha token))"

definition Registry_Register :: "(string \<Rightarrow> string) \<Rightarrow> BotEntry \<Rightarrow> Registry \<Rightarrow> Registry" where
  "Registry_Register sha e r =
     \<lparr>rg_entries = AList.update (tokenHash sha (BE_Token e)) e (rg_entries r),
      rg_byBotID = AList.update (BE_BotID e) e (rg_byBotID r)\<rparr>"

definition Unregister :: "(string \<Rightarrow> string) \<Rightarrow> string \<Rightarrow> Registry \<Rightarrow> Registry" where
  "Unregister sha token r =
     (let h = tokenHash sha token
      in case map_of (rg_entries r) h of
           Some e \<Rightarrow> \<lparr>rg_entries = AList.delete h (rg_entries r), rg_byBotID = AList.delete (BE_BotID e) (rg_byBotID r)\<rparr>
         | None \<Rightarrow> r)"

definition Registry_Lookup :: "(string \<Rightarrow> string) \<Rightarrow> string \<Rightarrow> Registry \<Rightarrow> BotEntry option" where
  "Registry_Lookup sha token r = map_of (rg_entries r) (tokenHash sha token)"

definition LookupByID :: "int64 \<Rightarrow> Registry \<Rightarrow> BotEntry option" where
  "LookupByID botID r = map_of (rg_byBotID r) botID"

definition Registry_List :: "Registry \<Rightarrow> BotEntry list" where
  "Registry_List r = map snd (rg_entries r)"

definition Registry_Count :: "Registry \<Rightarrow> int" where
  "Registry_Count r = int (length (rg_entries r))"

section \<open>Rate limiter (\<open>ratelimit.go\<close>)\<close>

record bucket =
  bk_tokens :: f64
  bk_lastSeen :: time

record BotRateLimiter =
  rl_rate :: f64
  rl_capacity :: f64
  rl_buckets :: "string \<rightharpoonup> bucket"

definition NewBotRateLimiter :: "f64 \<Rightarrow> f64 \<Rightarrow> BotRateLimiter" where
  "NewBotRateLimiter ratePerSec burst = \<lparr>rl_rate = ratePerSec, rl_capacity = burst, rl_buckets = (\<lambda>_. None)\<rparr>"

text \<open>
  \<open>Duration.Seconds\<close>: the whole seconds and the rest are converted apart. The clock is monotonic, so
  that no elapsed time is negative.
\<close>

definition Seconds :: "int64 \<Rightarrow> f64" where
  "Seconds d = f64_add (f64_of_int (d div 1000000000)) (f64_div (f64_of_int (d mod 1000000000)) (10 ^ 9))"

definition fmin :: "f64 \<Rightarrow> f64 \<Rightarrow> f64" where
  "fmin a b = (if f64_lt a b then a else b)"

definition allow :: "time \<Rightarrow> string \<Rightarrow> BotRateLimiter \<Rightarrow> bool \<times> BotRateLimiter" where
  "allow now botID r =
     (let b = (case rl_buckets r botID of Some b \<Rightarrow> b | None \<Rightarrow> \<lparr>bk_tokens = rl_capacity r, bk_lastSeen = now\<rparr>);
          elapsed = Seconds (now - bk_lastSeen b);
          tokens = fmin (rl_capacity r) (f64_add (bk_tokens b) (f64_mul elapsed (rl_rate r)));
          put = (\<lambda>t. r\<lparr>rl_buckets := (rl_buckets r)(botID \<mapsto> \<lparr>bk_tokens = t, bk_lastSeen = now\<rparr>)\<rparr>)
      in if f64_le (Fin 1) tokens then (True, put (f64_sub tokens (Fin 1))) else (False, put tokens))"

text \<open>One tick of \<open>cleanup\<close>: buckets that were not used for ten minutes go.\<close>

definition cleanup :: "time \<Rightarrow> BotRateLimiter \<Rightarrow> BotRateLimiter" where
  "cleanup now r =
     r\<lparr>rl_buckets := (\<lambda>k. case rl_buckets r k of
          Some b \<Rightarrow> (if bk_lastSeen b < now - 600000000000 then None else Some b)
        | None \<Rightarrow> None)\<rparr>"

section \<open>Router (\<open>router.go\<close>, \<open>auth.go\<close>)\<close>

record gateway_stats =
  TotalReceived :: int64
  TotalForwarded :: int64
  TotalUnknown :: int64
  TotalErrors :: int64

text \<open>
  The state of the process. \<open>WebhookRateLimit\<close> is called once for each of the two webhook routes, so
  each has a limiter of its own. \<open>gw_published\<close> are the NATS messages, oldest first.
\<close>

record gateway =
  gw_reg :: Registry
  gw_global :: BotRateLimiter
  gw_hook :: BotRateLimiter
  gw_hook_slash :: BotRateLimiter
  gw_stats :: gateway_stats
  gw_published :: "(string \<times> string) list"

text \<open>\<open>json.Marshal\<close> of a byte slice: its base64 encoding as a JSON string.\<close>

definition b64_char :: "nat \<Rightarrow> char" where
  "b64_char n =
     char_of (if n < 26 then 65 + n else if n < 52 then 71 + n else if n < 62 then n - 4 else if n = 62 then 43 else 47)"

fun base64 :: "string \<Rightarrow> string" where
  "base64 (a # b # c # s) =
     (let x = of_char a; y = of_char b; z = of_char c
      in b64_char (x div 4) # b64_char (x mod 4 * 16 + y div 16) # b64_char (y mod 16 * 4 + z div 64) # b64_char (z mod 64) # base64 s)"
| "base64 [a, b] =
     (let x = of_char a; y = of_char b
      in [b64_char (x div 4), b64_char (x mod 4 * 16 + y div 16), b64_char (y mod 16 * 4), CHR ''=''])"
| "base64 [a] = (let x = of_char a in [b64_char (x div 4), b64_char (x mod 4 * 16), CHR ''='', CHR ''=''])"
| "base64 [] = []"

definition json_bytes :: "string \<Rightarrow> string" where
  "json_bytes body = CHR 0x22 # base64 body @ [CHR 0x22]"

text \<open>A webhook request: the named parameters of its route, the client's address and its body, which may fail to read.\<close>

record hook_request =
  hq_params :: "(string \<times> string) list"
  hq_ip :: string
  hq_body :: "string option"

definition Param :: "hook_request \<Rightarrow> string \<Rightarrow> string" where
  "Param c name = (case map_of (hq_params c) name of Some v \<Rightarrow> v | None \<Rightarrow> [])"

definition count_received :: "gateway \<Rightarrow> gateway" where
  "count_received g = g\<lparr>gw_stats := (gw_stats g)\<lparr>TotalReceived := add64 (TotalReceived (gw_stats g)) 1\<rparr>\<rparr>"

definition count_unknown :: "gateway \<Rightarrow> gateway" where
  "count_unknown g = g\<lparr>gw_stats := (gw_stats g)\<lparr>TotalUnknown := add64 (TotalUnknown (gw_stats g)) 1\<rparr>\<rparr>"

definition count_error :: "gateway \<Rightarrow> gateway" where
  "count_error g = g\<lparr>gw_stats := (gw_stats g)\<lparr>TotalErrors := add64 (TotalErrors (gw_stats g)) 1\<rparr>\<rparr>"

definition count_forwarded :: "gateway \<Rightarrow> gateway" where
  "count_forwarded g = g\<lparr>gw_stats := (gw_stats g)\<lparr>TotalForwarded := add64 (TotalForwarded (gw_stats g)) 1\<rparr>\<rparr>"

text \<open>\<open>publish_ok\<close> says whether NATS takes the message. The result is the HTTP status.\<close>

definition handleWebhook :: "(string \<Rightarrow> string) \<Rightarrow> bool \<Rightarrow> hook_request \<Rightarrow> gateway \<Rightarrow> int \<times> gateway" where
  "handleWebhook sha publish_ok c g =
     (let token = Param c ''token''
      in if token = [] then (400, g)
         else let g1 = count_received g
              in case Registry_Lookup sha token (gw_reg g1) of
                   None \<Rightarrow> (200, count_unknown g1)
                 | Some entry \<Rightarrow>
                     (case hq_body c of
                        None \<Rightarrow> (400, count_error g1)
                      | Some raw \<Rightarrow>
                          (let body = take 10485760 raw
                           in if \<not> publish_ok then (200, count_error g1)
                              else (200, count_forwarded
                                     (g1\<lparr>gw_published := gw_published g1 @ [(BE_NATSSubject entry, json_bytes body)]\<rparr>)))))"

text \<open>The middlewares: a limiter refuses with its status, or the rest of the chain runs.\<close>

definition GlobalRateLimit :: "time \<Rightarrow> (gateway \<Rightarrow> int \<times> gateway) \<Rightarrow> gateway \<Rightarrow> int \<times> gateway" where
  "GlobalRateLimit now next_handler g =
     (let (ok, l) = allow now ''global'' (gw_global g); g1 = g\<lparr>gw_global := l\<rparr>
      in if ok then next_handler g1 else (503, g1))"

definition limit_key :: "hook_request \<Rightarrow> string" where
  "limit_key c = (let botID = Param c ''bot_id'' in if botID = [] then hq_ip c else botID)"

definition WebhookRateLimit :: "bool \<Rightarrow> time \<Rightarrow> hook_request \<Rightarrow> (gateway \<Rightarrow> int \<times> gateway) \<Rightarrow> gateway \<Rightarrow> int \<times> gateway" where
  "WebhookRateLimit slash now c next_handler g =
     (let (ok, l) = allow now (limit_key c) (if slash then gw_hook_slash g else gw_hook g);
          g1 = (if slash then g\<lparr>gw_hook_slash := l\<rparr> else g\<lparr>gw_hook := l\<rparr>)
      in if ok then next_handler g1 else (429, g1))"

record RegisterRequest =
  RQ_Token :: string
  RQ_BotID :: int64
  RQ_NATSSubject :: string
  RQ_Type :: string

definition entry_of :: "RegisterRequest \<Rightarrow> BotEntry" where
  "entry_of req = \<lparr>BE_Token = RQ_Token req, BE_BotID = RQ_BotID req, BE_NATSSubject = RQ_NATSSubject req, BE_Type = RQ_Type req\<rparr>"

definition registerBot :: "(string \<Rightarrow> string) \<Rightarrow> RegisterRequest option \<Rightarrow> gateway \<Rightarrow> int \<times> gateway" where
  "registerBot sha body g =
     (case body of
        None \<Rightarrow> (400, g)
      | Some req \<Rightarrow>
          (if RQ_Token req = [] \<or> RQ_BotID req = 0 \<or> RQ_NATSSubject req = [] then (400, g)
           else (200, g\<lparr>gw_reg := Registry_Register sha (entry_of req) (gw_reg g)\<rparr>)))"

definition unregisterBot :: "(string \<Rightarrow> string) \<Rightarrow> string option \<Rightarrow> gateway \<Rightarrow> int \<times> gateway" where
  "unregisterBot sha body g =
     (case body of
        None \<Rightarrow> (400, g)
      | Some token \<Rightarrow> (if token = [] then (400, g) else (200, g\<lparr>gw_reg := Unregister sha token (gw_reg g)\<rparr>)))"

definition InternalAuth :: "string \<Rightarrow> string \<Rightarrow> (gateway \<Rightarrow> int \<times> gateway) \<Rightarrow> gateway \<Rightarrow> int \<times> gateway" where
  "InternalAuth secret key next_handler g = (if key = [] \<or> key \<noteq> secret then (401, g) else next_handler g)"

text \<open>The routes; the reading endpoints (\<open>bots\<close>, \<open>stats\<close>, \<open>health\<close>) only report the state.\<close>

datatype gateway_request =
    Webhook bool string string "string option"  \<comment> \<open>trailing slash, token, client address, body\<close>
  | InternalRegister string "RegisterRequest option"  \<comment> \<open>the key of the request first\<close>
  | InternalUnregister string "string option"
  | InternalRead string

definition gateway_Register ::
  "(string \<Rightarrow> string) \<Rightarrow> string \<Rightarrow> bool \<Rightarrow> time \<Rightarrow> time \<Rightarrow> gateway_request \<Rightarrow> gateway \<Rightarrow> int \<times> gateway" where
  "gateway_Register sha internalKey publish_ok now1 now2 req =
     GlobalRateLimit now1
       (case req of
          Webhook slash token ip body \<Rightarrow>
            (let c = \<lparr>hq_params = [(''token'', token)], hq_ip = ip, hq_body = body\<rparr>
             in WebhookRateLimit slash now2 c (handleWebhook sha publish_ok c))
        | InternalRegister key body \<Rightarrow> InternalAuth internalKey key (registerBot sha body)
        | InternalUnregister key body \<Rightarrow> InternalAuth internalKey key (unregisterBot sha body)
        | InternalRead key \<Rightarrow> InternalAuth internalKey key (\<lambda>g. (200, g)))"

definition BotWebhookSubject :: "int64 \<Rightarrow> string" where
  "BotWebhookSubject botID = ''webhook.'' @ fmt_d botID"

section \<open>NATS subscriptions (\<open>cmd/main.go\<close>)\<close>

text \<open>\<open>gateway.register\<close>: the request with the service id and key of its sender; a key is asked for when a secret is set.\<close>

definition onGatewayRegister ::
  "(string \<Rightarrow> string) \<Rightarrow> (string \<Rightarrow> string \<Rightarrow> string) \<Rightarrow> string \<Rightarrow> (RegisterRequest \<times> string \<times> string) option \<Rightarrow> gateway \<Rightarrow> gateway" where
  "onGatewayRegister sha hmac secret msg g =
     (case msg of
        None \<Rightarrow> g
      | Some (req, serviceID, serviceKey) \<Rightarrow>
          (if RQ_Token req = [] then g
           else if secret \<noteq> [] \<and> \<not> ValidateServiceKey hmac secret serviceID serviceKey then g
           else g\<lparr>gw_reg := Registry_Register sha (entry_of req) (gw_reg g)\<rparr>))"

definition onGatewayUnregister :: "(string \<Rightarrow> string) \<Rightarrow> string option \<Rightarrow> gateway \<Rightarrow> gateway" where
  "onGatewayUnregister sha msg g =
     (case msg of
        Some token \<Rightarrow> (if token \<noteq> [] then g\<lparr>gw_reg := Unregister sha token (gw_reg g)\<rparr> else g)
      | None \<Rightarrow> g)"

text \<open>The bots that are registered at the start, when their token and id are configured.\<close>

definition register_static :: "(string \<Rightarrow> string) \<Rightarrow> string \<Rightarrow> int64 \<Rightarrow> string \<Rightarrow> Registry \<Rightarrow> Registry" where
  "register_static sha token botID typ r =
     (if token \<noteq> [] \<and> botID \<noteq> 0
      then Registry_Register sha \<lparr>BE_Token = token, BE_BotID = botID, BE_NATSSubject = BotWebhookSubject botID, BE_Type = typ\<rparr> r
      else r)"

definition gateway_main :: "(string \<Rightarrow> string) \<Rightarrow> string \<Rightarrow> int64 \<Rightarrow> string \<Rightarrow> int64 \<Rightarrow> gateway" where
  "gateway_main sha botmanagerToken botmanagerID botpayToken botpayID =
     \<lparr>gw_reg = register_static sha botpayToken botpayID ''botpay''
                (register_static sha botmanagerToken botmanagerID ''botmanager'' New_Registry),
      gw_global = NewBotRateLimiter (Fin 1000) (Fin 5000),
      gw_hook = NewBotRateLimiter (Fin 30) (Fin 100),
      gw_hook_slash = NewBotRateLimiter (Fin 30) (Fin 100),
      gw_stats = \<lparr>TotalReceived = 0, TotalForwarded = 0, TotalUnknown = 0, TotalErrors = 0\<rparr>, gw_published = []\<rparr>"

section \<open>The poller of a bot (\<open>nats_poller.go\<close>)\<close>

text \<open>A message of the bot's subject: decoded, and queued unless the channel of updates is full.\<close>

definition poller_message :: "(string \<Rightarrow> 'u option) \<Rightarrow> nat \<Rightarrow> string \<Rightarrow> 'u list \<Rightarrow> 'u list" where
  "poller_message decodeUpdate capacity data queue =
     (case decodeUpdate data of
        None \<Rightarrow> queue
      | Some u \<Rightarrow> (if length queue < capacity then queue @ [u] else queue))"

definition poller_subject :: "int64 \<Rightarrow> string" where
  "poller_subject botID = ''webhook.'' @ fmt_d botID"

definition poll_bot :: "(string \<Rightarrow> 'u option) \<Rightarrow> nat \<Rightarrow> int64 \<Rightarrow> (string \<times> string) list \<Rightarrow> 'u list \<Rightarrow> 'u list" where
  "poll_bot decodeUpdate capacity botID msgs queue =
     fold (\<lambda>(subj, data) q. if subj = poller_subject botID then poller_message decodeUpdate capacity data q else q) msgs queue"

end
