(* ===== verification/GatewayProps.thy ===== *)
theory GatewayProps
  imports Gateway
begin

text \<open>
  What the gateway guarantees: the registry is a map from tokens to bots, the limiter lets through
  what its rate and burst allow and no more, and what reaches the bots.
\<close>

section \<open>The registry is a map\<close>

datatype reg_op = Reg BotEntry | Unreg string

fun op_key :: "(string \<Rightarrow> string) \<Rightarrow> reg_op \<Rightarrow> string" where
  "op_key key (Reg e) = key (BE_Token e)"
| "op_key key (Unreg t) = key t"

fun op_entry :: "reg_op \<Rightarrow> BotEntry option" where
  "op_entry (Reg e) = Some e"
| "op_entry (Unreg t) = None"

definition apply_op :: "(BotEntry \<Rightarrow> 'r \<Rightarrow> 'r) \<Rightarrow> (string \<Rightarrow> 'r \<Rightarrow> 'r) \<Rightarrow> reg_op \<Rightarrow> 'r \<Rightarrow> 'r" where
  "apply_op register unregister op r = (case op of Reg e \<Rightarrow> register e r | Unreg t \<Rightarrow> unregister t r)"

text \<open>The contract of a registry: a map on the keys of tokens. Then the last operation on the key of a token decides.\<close>

locale token_registry =
  fixes key :: "string \<Rightarrow> string"
    and register :: "BotEntry \<Rightarrow> 'r \<Rightarrow> 'r"
    and unregister :: "string \<Rightarrow> 'r \<Rightarrow> 'r"
    and look :: "string \<Rightarrow> 'r \<Rightarrow> BotEntry option"
  assumes look_register: "look t (register e r) = (if key t = key (BE_Token e) then Some e else look t r)"
    and look_unregister: "look t (unregister t' r) = (if key t = key t' then None else look t r)"
begin

lemma look_history:
  "look t (fold (apply_op register unregister) ops r) =
     (case find (\<lambda>op. op_key key op = key t) (rev ops) of None \<Rightarrow> look t r | Some op \<Rightarrow> op_entry op)"
proof (induction ops arbitrary: r rule: rev_induct)
  case (snoc op ops)
  then show ?case by (cases op) (auto simp: apply_op_def look_register look_unregister)
qed simp

end

interpretation registry: token_registry "tokenHash sha" "Registry_Register sha" "Unregister sha" "Registry_Lookup sha" for sha
  by unfold_locales
    (auto simp: Registry_Lookup_def Registry_Register_def Unregister_def Let_def update_conv' map_of_delete delete_conv'
      split: option.splits)

text \<open>
  (C16) The registry is a map from tokens to bots. After any history of registrations and removals, a
  token leads to the bot that was registered last under it, unless it was removed after that; up to
  tokens whose 128-bit hashes collide.
\<close>

theorem registry_last_wins:
  "Registry_Lookup sha t (fold (apply_op (Registry_Register sha) (Unregister sha)) ops New_Registry) =
     (case find (\<lambda>op. op_key (tokenHash sha) op = tokenHash sha t) (rev ops) of None \<Rightarrow> None | Some op \<Rightarrow> op_entry op)"
  using registry.look_history [of sha t ops New_Registry]
  by (simp add: Registry_Lookup_def New_Registry_def split: option.splits)

text \<open>The second index is not kept in step: removing an old token of a bot drops the entry of its new one.\<close>

lemma stale_unregister:
  assumes "tokenHash sha (BE_Token e1) \<noteq> tokenHash sha (BE_Token e2)" "BE_BotID e1 = BE_BotID e2"
  defines "r \<equiv> Unregister sha (BE_Token e1) (Registry_Register sha e2 (Registry_Register sha e1 New_Registry))"
  shows "Registry_Lookup sha (BE_Token e2) r = Some e2" "LookupByID (BE_BotID e2) r = None"
  using assms
  by (simp_all add: r_def Registry_Lookup_def LookupByID_def Registry_Register_def Unregister_def New_Registry_def Let_def
      update_conv' delete_conv')

section \<open>The limiter keeps its rate\<close>

lemma rnd_val_13:
  assumes "\<bar>q\<bar> < 2 ^ 13"
  shows "\<bar>rnd_val q - q\<bar> \<le> 1 / 2 ^ 41" "rnd q = Fin (rnd_val q)"
proof -
  show "\<bar>rnd_val q - q\<bar> \<le> 1 / 2 ^ 41"
  proof (cases "q = 0")
    case False
    have "(2::rat) powi floor_log2 q < 2 powi 13" using floor_log2_bounds(1) [OF False] assms by simp
    then have "floor_log2 q < 13" by (simp only: powi_less_iff)
    then have "ulp_exp q - 1 \<le> -41" by (simp add: ulp_exp_def)
    then have "(2::rat) powi (ulp_exp q - 1) \<le> 2 powi (-41)" by (simp only: powi_le_iff)
    with rnd_val_ulp [OF False] show ?thesis by (simp add: power_int_minus field_simps)
  qed simp
  have "\<bar>q\<bar> < 2 ^ 50" using assms by (rule less_trans) simp
  then show "rnd q = Fin (rnd_val q)" by (rule rnd_small)
qed

text \<open>Seconds are exact up to two roundings, for the elapsed times that matter.\<close>

lemma Seconds_error:
  assumes "0 \<le> d" "d < 5000 * 10 ^ 9"
  shows "\<exists>e. Seconds d = Fin e \<and> 0 \<le> e \<and> \<bar>e - of_int d / 10 ^ 9\<bar> \<le> 2 / 2 ^ 41"
proof -
  let ?s = "d div 1000000000" and ?n = "d mod 1000000000"
  have s: "0 \<le> ?s" "?s < 5000" using assms by (simp_all add: pos_imp_zdiv_nonneg_iff)
  have n: "0 \<le> ?n" "?n < 1000000000" by simp_all
  have fs: "f64_of_int ?s = Fin (of_int ?s)" "f64_of_int ?n = Fin (of_int ?n)"
    using s n by (intro f64_of_int_exact; simp)+
  let ?f = "of_int ?n / 10 ^ 9 :: rat"
  have f: "0 \<le> ?f" "?f < 1" using n by (simp_all add: divide_less_eq)
  then have "\<bar>?f\<bar> < 2 ^ 13" by simp
  note F = rnd_val_13 [OF this]
  have f0: "0 \<le> rnd_val ?f" by (rule rnd_val_nonneg [OF f(1)])
  let ?x = "of_int ?s + rnd_val ?f"
  have "of_int ?s < (5000 :: rat)" using s(2) of_int_less_iff [where 'a = rat, of ?s 5000] by simp
  moreover have "(1 :: rat) / 2 ^ 41 \<le> 1" by simp
  then have "rnd_val ?f < 2" using F(1) f by linarith
  moreover have "0 \<le> (of_int ?s :: rat)" using s(1) by simp
  ultimately have x: "0 \<le> ?x" "?x < 5002" using f0 by linarith+
  then have xa: "\<bar>?x\<bar> < 2 ^ 13" by simp
  note X = rnd_val_13 [OF xa]
  have "of_int d = (of_int (?s * 1000000000 + ?n) :: rat)" by (simp only: div_mult_mod_eq)
  then have "of_int d = (of_int ?s * 10 ^ 9 + of_int ?n :: rat)" by (simp only: of_int_add of_int_mult) simp
  then have d: "of_int d / 10 ^ 9 = of_int ?s + ?f" by (simp only: add_divide_distrib) simp
  have "Seconds d = Fin (rnd_val ?x)" by (simp only: Seconds_def fs f64_div.simps F(2) f64_add.simps X(2))
  moreover have "\<bar>rnd_val ?x - of_int d / 10 ^ 9\<bar> \<le> 2 / 2 ^ 41" unfolding d using X(1) F(1) by linarith
  ultimately show ?thesis using rnd_val_nonneg [OF x(1)] by blast
qed

text \<open>Numbers that are not negative, infinity included.\<close>

definition nonneg64 :: "f64 \<Rightarrow> bool" where
  "nonneg64 x \<longleftrightarrow> x = PInf \<or> (\<exists>q. x = Fin q \<and> 0 \<le> q)"

lemma nonneg64_simps [simp]: "nonneg64 PInf" "nonneg64 (Fin q) \<longleftrightarrow> 0 \<le> q" "\<not> nonneg64 NaN" "\<not> nonneg64 NInf"
  by (simp_all add: nonneg64_def)

lemma nonneg64_rnd: "0 \<le> q \<Longrightarrow> nonneg64 (rnd q)"
  using rnd_val_nonneg [of q] by (auto simp: rnd_def Let_def)

lemma nonneg64_ops:
  "nonneg64 x \<Longrightarrow> nonneg64 y \<Longrightarrow> nonneg64 (f64_add x y)"
  "nonneg64 x \<Longrightarrow> 0 < q \<Longrightarrow> nonneg64 (f64_mul x (Fin q))"
  "nonneg64 x \<Longrightarrow> 0 < q \<Longrightarrow> nonneg64 (f64_div x q)"
  "0 \<le> n \<Longrightarrow> nonneg64 (f64_of_int n)"
  by (cases x; cases y; simp add: nonneg64_rnd) (cases x; simp add: nonneg64_rnd f64_of_int_def)+

lemma nonneg64_Seconds: "0 \<le> d \<Longrightarrow> nonneg64 (Seconds d)"
  by (simp add: Seconds_def nonneg64_ops pos_imp_zdiv_nonneg_iff)

lemma fmin_range: "nonneg64 y \<Longrightarrow> 0 \<le> K \<Longrightarrow> \<exists>z. fmin (Fin K) y = Fin z \<and> 0 \<le> z \<and> z \<le> K \<and> (\<forall>q. y = Fin q \<longrightarrow> z \<le> q)"
  by (auto simp: nonneg64_def fmin_def)

text \<open>The refilled bucket holds at most what the exact computation gives, up to the roundings.\<close>

lemma refill_bound:
  assumes "0 \<le> q" "q \<le> K" "K \<le> 5000" "1 \<le> R" "R \<le> 1000" "0 \<le> d"
  shows "\<exists>z. fmin (Fin K) (f64_add (Fin q) (f64_mul (Seconds d) (Fin R))) = Fin z \<and> 0 \<le> z \<and> z \<le> K \<and>
    z \<le> min K (q + R * (of_int d / 10 ^ 9)) + 2002 / 2 ^ 41"
proof -
  let ?y = "f64_add (Fin q) (f64_mul (Seconds d) (Fin R))" and ?x = "of_int d / 10 ^ 9 :: rat"
  have "nonneg64 (f64_mul (Seconds d) (Fin R))" using assms by (intro nonneg64_ops(2) nonneg64_Seconds) auto
  then have "nonneg64 ?y" using assms(1) by (intro nonneg64_ops(1)) simp_all
  from fmin_range [OF this, of K] assms obtain z where z: "fmin (Fin K) ?y = Fin z" "0 \<le> z" "z \<le> K" "\<And>p. ?y = Fin p \<Longrightarrow> z \<le> p"
    by (meson order_trans)
  have "z \<le> min K (q + R * ?x) + 2002 / 2 ^ 41"
  proof (cases "q + R * ?x < K")
    case True
    have x0: "0 \<le> ?x" using assms(6) by simp
    have "?x \<le> R * ?x" using assms(4) x0 by (simp add: mult_le_cancel_right1)
    then have x5: "?x < 5000" using True assms(1,3) by linarith
    then have "of_int d < (of_int (5000 * 10 ^ 9) :: rat)" by (simp add: divide_less_eq)
    then have "d < 5000 * 10 ^ 9" by (simp only: of_int_less_iff)
    from Seconds_error [OF assms(6) this] obtain e where e: "Seconds d = Fin e" "0 \<le> e" "\<bar>e - ?x\<bar> \<le> 2 / 2 ^ 41" by blast
    have "e * R - R * ?x = R * (e - ?x)" by (simp only: right_diff_distrib mult.commute)
    then have "\<bar>e * R - R * ?x\<bar> = R * \<bar>e - ?x\<bar>" using assms(4) by (simp only: abs_mult)
    also have "\<dots> \<le> 1000 * (2 / 2 ^ 41)" using e(3) assms(4,5) by (intro mult_mono) auto
    finally have m: "\<bar>e * R - R * ?x\<bar> \<le> 2000 / 2 ^ 41" by simp
    have "(2000 :: rat) / 2 ^ 41 \<le> 1" "(1 :: rat) / 2 ^ 41 \<le> 1" by simp_all
    note ones = this
    have er: "0 \<le> e * R" "e * R < 5001" using e(2) assms(4) by simp (use True m ones assms(1,3) in linarith)
    then have "\<bar>e * R\<bar> < 2 ^ 13" by simp
    note E = rnd_val_13 [OF this]
    have er0: "0 \<le> rnd_val (e * R)" by (rule rnd_val_nonneg [OF er(1)])
    have s: "0 \<le> q + rnd_val (e * R)" "q + rnd_val (e * R) < 8000"
      using er0 E(1) m True ones assms(1,3) by linarith+
    then have "\<bar>q + rnd_val (e * R)\<bar> < 2 ^ 13" by simp
    note S = rnd_val_13 [OF this]
    have "?y = Fin (rnd_val (q + rnd_val (e * R)))" by (simp add: e(1) E(2) S(2))
    from z(4) [OF this] have "z \<le> q + R * ?x + 2002 / 2 ^ 41" using S(1) E(1) m by linarith
    then show ?thesis using True by simp
  next
    case False
    then have "min K (q + R * ?x) = K" by simp
    then show ?thesis using z(3) by simp
  qed
  with z show ?thesis by blast
qed

text \<open>What a key may still use at time \<open>t\<close>: the tokens of its bucket and what has flowed in since.\<close>

definition avail :: "rat \<Rightarrow> rat \<Rightarrow> time \<Rightarrow> bucket option \<Rightarrow> rat" where
  "avail R K t ob =
     (case ob of
        None \<Rightarrow> K
      | Some b \<Rightarrow> (case bk_tokens b of Fin q \<Rightarrow> min K (q + R * (of_int (t - bk_lastSeen b) / 10 ^ 9)) | _ \<Rightarrow> K))"

definition bucket_ok :: "rat \<Rightarrow> time \<Rightarrow> bucket option \<Rightarrow> bool" where
  "bucket_ok K t ob \<longleftrightarrow> (\<forall>b. ob = Some b \<longrightarrow> bk_lastSeen b \<le> t \<and> (\<exists>q. bk_tokens b = Fin q \<and> 0 \<le> q \<and> q \<le> K))"

definition sane_limiter :: "rat \<Rightarrow> rat \<Rightarrow> BotRateLimiter \<Rightarrow> bool" where
  "sane_limiter R K r \<longleftrightarrow> rl_rate r = Fin R \<and> rl_capacity r = Fin K \<and> 1 \<le> R \<and> R \<le> 1000 \<and> 1 \<le> K \<and> K \<le> 5000 \<and> K \<le> 600 * R"

lemma allow_params [simp]:
  "rl_rate (snd (allow now k r)) = rl_rate r" "rl_capacity (snd (allow now k r)) = rl_capacity r"
  "k' \<noteq> k \<Longrightarrow> rl_buckets (snd (allow now k r)) k' = rl_buckets r k'"
  by (simp_all add: allow_def Let_def)

lemma allow_own:
  assumes "sane_limiter R K r" "bucket_ok K now (rl_buckets r k)"
  shows "bucket_ok K now (rl_buckets (snd (allow now k r)) k)"
    "(if fst (allow now k r) then 1 else 0) + avail R K now (rl_buckets (snd (allow now k r)) k) \<le>
      avail R K now (rl_buckets r k) + 1 / 10 ^ 8"
proof -
  let ?b = "case rl_buckets r k of Some b \<Rightarrow> b | None \<Rightarrow> \<lparr>bk_tokens = rl_capacity r, bk_lastSeen = now\<rparr>"
  have P: "rl_rate r = Fin R" "rl_capacity r = Fin K" "1 \<le> R" "R \<le> 1000" "1 \<le> K" "K \<le> 5000"
    using assms(1) by (simp_all add: sane_limiter_def)
  obtain q where q: "bk_tokens ?b = Fin q" "0 \<le> q" "q \<le> K" "bk_lastSeen ?b \<le> now"
    using assms(2) P by (cases "rl_buckets r k") (auto simp: bucket_ok_def)
  have av: "avail R K now (rl_buckets r k) = min K (q + R * (of_int (now - bk_lastSeen ?b) / 10 ^ 9))"
    using q P by (cases "rl_buckets r k") (auto simp: avail_def)
  have "0 \<le> now - bk_lastSeen ?b" using q(4) by simp
  from refill_bound [OF q(2,3) P(6,3,4) this] obtain z where
    z: "fmin (Fin K) (f64_add (Fin q) (f64_mul (Seconds (now - bk_lastSeen ?b)) (Fin R))) = Fin z" "0 \<le> z" "z \<le> K"
      "z \<le> avail R K now (rl_buckets r k) + 2002 / 2 ^ 41" unfolding av by blast
  have small: "(2002 :: rat) / 2 ^ 41 + 1 / 2 ^ 41 \<le> 1 / 10 ^ 8" "(2002 :: rat) / 2 ^ 41 \<le> 1 / 10 ^ 8" by simp_all
  have "bucket_ok K now (rl_buckets (snd (allow now k r)) k) \<and>
    (if fst (allow now k r) then 1 else 0) + avail R K now (rl_buckets (snd (allow now k r)) k) \<le>
      avail R K now (rl_buckets r k) + 1 / 10 ^ 8"
  proof (cases "1 \<le> z")
    case True
    let ?v = "rnd_val (z - 1)"
    have "\<bar>z - 1\<bar> < 2 ^ 13" using True z(3) P(6) by simp
    note V = rnd_val_13 [OF this]
    have "(1 :: rat) / 2 ^ 41 \<le> 1" by simp
    then have v: "?v \<le> K" using V(1) z(3) by linarith
    have v0: "0 \<le> ?v" using True by (intro rnd_val_nonneg) simp
    have a: "allow now k r = (True, r\<lparr>rl_buckets := (rl_buckets r)(k \<mapsto> \<lparr>bk_tokens = Fin ?v, bk_lastSeen = now\<rparr>)\<rparr>)"
      using True V(2) by (simp add: allow_def Let_def q(1) P z(1) f64_sub_def)
    have "1 + ?v \<le> avail R K now (rl_buckets r k) + 1 / 10 ^ 8" using V(1) z(4) small by linarith
    with v v0 show ?thesis by (simp add: a bucket_ok_def avail_def min_def)
  next
    case False
    have a: "allow now k r = (False, r\<lparr>rl_buckets := (rl_buckets r)(k \<mapsto> \<lparr>bk_tokens = Fin z, bk_lastSeen = now\<rparr>)\<rparr>)"
      using False by (simp add: allow_def Let_def q(1) P z(1))
    have "z \<le> avail R K now (rl_buckets r k) + 1 / 10 ^ 8" using z(4) small by linarith
    with z show ?thesis by (simp add: a bucket_ok_def avail_def min_def)
  qed
  then show "bucket_ok K now (rl_buckets (snd (allow now k r)) k)"
    "(if fst (allow now k r) then 1 else 0) + avail R K now (rl_buckets (snd (allow now k r)) k) \<le>
      avail R K now (rl_buckets r k) + 1 / 10 ^ 8" by blast+
qed

lemma avail_later:
  assumes "1 \<le> R" "1 \<le> K" "t \<le> t'" "bucket_ok K t ob"
  shows "avail R K t' ob \<le> avail R K t ob + R * (of_int (t' - t) / 10 ^ 9)" "bucket_ok K t' ob" "0 \<le> avail R K t ob"
    "avail R K t ob \<le> K"
proof -
  have "0 \<le> of_int (t' - t) / (10 ^ 9 :: rat)" using assms(3) by simp
  then have up: "0 \<le> R * (of_int (t' - t) / 10 ^ 9)" using assms(1) by simp
  show "avail R K t' ob \<le> avail R K t ob + R * (of_int (t' - t) / 10 ^ 9)"
  proof (cases ob)
    case (Some b)
    then obtain q where "bk_tokens b = Fin q" using assms(4) by (auto simp: bucket_ok_def)
    moreover have "R * (of_int (t' - bk_lastSeen b) / 10 ^ 9) =
      R * (of_int (t - bk_lastSeen b) / 10 ^ 9) + R * (of_int (t' - t) / 10 ^ 9)"
      by (simp add: diff_divide_distrib right_diff_distrib)
    moreover have "min K (q + c) \<le> min K (q + a) + u" if "c = a + u" "0 \<le> u" for q a c u
      using that by (auto simp: min_def)
    ultimately show ?thesis using Some up by (simp only: avail_def option.case f64.case)
  qed (use up in \<open>simp add: avail_def\<close>)
  show "bucket_ok K t' ob" using assms(3,4) by (fastforce simp: bucket_ok_def)
  show "0 \<le> avail R K t ob" "avail R K t ob \<le> K"
    using assms(1,2,4) by (fastforce simp: avail_def bucket_ok_def split: option.splits)+
qed

lemma cleanup_own:
  assumes "sane_limiter R K r" "bucket_ok K t (rl_buckets r k)"
  shows "bucket_ok K t (rl_buckets (cleanup t r) k)" "avail R K t (rl_buckets (cleanup t r) k) \<le> avail R K t (rl_buckets r k)"
proof -
  have P: "1 \<le> R" "1 \<le> K" "K \<le> 600 * R" using assms(1) by (simp_all add: sane_limiter_def)
  show "bucket_ok K t (rl_buckets (cleanup t r) k)"
    using assms(2) by (auto simp: cleanup_def bucket_ok_def split: option.splits if_splits)
  show "avail R K t (rl_buckets (cleanup t r) k) \<le> avail R K t (rl_buckets r k)"
  proof (cases "\<exists>b. rl_buckets r k = Some b \<and> bk_lastSeen b < t - 600000000000")
    case True
    then obtain b q where b: "rl_buckets r k = Some b" "bk_lastSeen b < t - 600000000000" "bk_tokens b = Fin q" "0 \<le> q"
      using assms(2) by (auto simp: bucket_ok_def)
    have "of_int (600000000000) < (of_int (t - bk_lastSeen b) :: rat)" using b(2) by (simp only: of_int_less_iff)
    then have "600 \<le> of_int (t - bk_lastSeen b) / (10 ^ 9 :: rat)" by (simp add: le_divide_eq)
    then have "600 * R \<le> R * (of_int (t - bk_lastSeen b) / 10 ^ 9)" using P(1) by (simp only: mult.commute [of 600] mult_left_mono)
    then have "K \<le> q + R * (of_int (t - bk_lastSeen b) / 10 ^ 9)" using P(3) b(4) by linarith
    with b show ?thesis by (simp add: avail_def cleanup_def)
  qed (auto simp: cleanup_def avail_def split: option.splits)
qed

text \<open>A history of a limiter: calls for keys and ticks of the cleanup, with their times; and how many calls for a key were let through.\<close>

datatype limiter_event = Call string | Tick

fun served :: "string \<Rightarrow> (time \<times> limiter_event) list \<Rightarrow> BotRateLimiter \<Rightarrow> nat" where
  "served k [] r = 0"
| "served k ((t, Call k') # es) r = (if fst (allow t k' r) \<and> k' = k then 1 else 0) + served k es (snd (allow t k' r))"
| "served k ((t, Tick) # es) r = served k es (cleanup t r)"

lemma served_bound:
  assumes "sane_limiter R K r" "bucket_ok K t0 (rl_buckets r k)" "sorted (t0 # map fst es)"
  shows "of_nat (served k es r) \<le> avail R K t0 (rl_buckets r k) +
    R * (of_int (last (t0 # map fst es) - t0) / 10 ^ 9) + of_nat (length es) / 10 ^ 8"
  using assms
proof (induction k es r arbitrary: t0 rule: served.induct)
  case (1 k r)
  then show ?case using avail_later(3) [of R K t0 t0] by (simp add: sane_limiter_def)
next
  case (2 k t k' es r)
  let ?r = "snd (allow t k' r)" and ?T = "last (t # map fst es)"
  have P: "1 \<le> R" "1 \<le> K" "t0 \<le> t" "sane_limiter R K ?r" "sorted (t # map fst es)"
    using "2.prems" by (simp_all add: sane_limiter_def)
  note L = avail_later [OF P(1-3) "2.prems"(2)]
  have step: "bucket_ok K t (rl_buckets ?r k) \<and>
    (if fst (allow t k' r) \<and> k' = k then 1 else 0) + avail R K t (rl_buckets ?r k) \<le> avail R K t (rl_buckets r k) + 1 / 10 ^ 8"
  proof (cases "k' = k")
    case True
    show ?thesis unfolding True using allow_own [OF "2.prems"(1) L(2)] by simp
  qed (use L(2) in simp)
  have T: "R * (of_int (?T - t0) / 10 ^ 9) = R * (of_int (?T - t) / 10 ^ 9) + R * (of_int (t - t0) / 10 ^ 9)"
    by (simp add: diff_divide_distrib right_diff_distrib)
  have n: "of_nat (length ((t, Call k') # es)) / 10 ^ 8 = of_nat (length es) / 10 ^ 8 + (1 / 10 ^ 8 :: rat)"
    by (simp add: add_divide_distrib)
  have "of_nat (served k es ?r) \<le> avail R K t (rl_buckets ?r k) + R * (of_int (?T - t) / 10 ^ 9) + of_nat (length es) / 10 ^ 8"
    using "2.IH" [OF P(4) _ P(5)] step by blast
  moreover have "of_nat (served k ((t, Call k') # es) r) =
    (if fst (allow t k' r) \<and> k' = k then 1 else 0) + (of_nat (served k es ?r) :: rat)"
    by (simp only: served.simps of_nat_add if_distrib [of of_nat] of_nat_simps)
  moreover have "last (t0 # map fst ((t, Call k') # es)) = ?T" by simp
  ultimately show ?case using step L(1) unfolding n by (simp only: T) linarith
next
  case (3 k t es r)
  let ?r = "cleanup t r" and ?T = "last (t # map fst es)"
  have P: "1 \<le> R" "1 \<le> K" "t0 \<le> t" "sane_limiter R K ?r" "sorted (t # map fst es)"
    using "3.prems" by (simp_all add: sane_limiter_def cleanup_def)
  note L = avail_later [OF P(1-3) "3.prems"(2)]
  note C = cleanup_own [OF "3.prems"(1) L(2)]
  have T: "R * (of_int (?T - t0) / 10 ^ 9) = R * (of_int (?T - t) / 10 ^ 9) + R * (of_int (t - t0) / 10 ^ 9)"
    by (simp add: diff_divide_distrib right_diff_distrib)
  have n: "of_nat (length es) / 10 ^ 8 \<le> (of_nat (length ((t, Tick) # es)) / 10 ^ 8 :: rat)" by simp
  have "of_nat (served k es ?r) \<le> avail R K t (rl_buckets ?r k) + R * (of_int (?T - t) / 10 ^ 9) + of_nat (length es) / 10 ^ 8"
    using "3.IH" [OF P(4) C(1) P(5)] .
  moreover have "last (t0 # map fst ((t, Tick) # es)) = ?T" by simp
  ultimately show ?case using C(2) L(1) n by (simp only: T served.simps)
qed

text \<open>
  (C14) The limiter keeps its rate. Whatever calls arrive for whatever keys, and whenever the cleanup
  runs: over a span of time, at most the burst plus the rate times the span many calls for a key are
  let through, up to a hundred-millionth of a call for each call, which the roundings of the floating
  point tokens can add up to. The cleanup does not help a client, because an idle bucket of its age is
  full again.
\<close>

theorem rate_limited:
  assumes "sane_limiter R K r" "bucket_ok K t0 (rl_buckets r k)" "sorted (t0 # map fst es)"
  shows "of_nat (served k es r) \<le> K + R * (of_int (last (t0 # map fst es) - t0) / 10 ^ 9) + of_nat (length es) / 10 ^ 8"
proof -
  have "avail R K t0 (rl_buckets r k) \<le> K"
    using avail_later(4) [OF _ _ order_refl assms(2), of R] assms(1) by (simp add: sane_limiter_def)
  with served_bound [OF assms] show ?thesis by linarith
qed

theorem rate_limited_witness:
  "served ''1.2.3.4'' (replicate 1000 (7, Call ''1.2.3.4'')) (gw_hook (gateway_main id [] 0 [] 0)) \<le> 100"
proof -
  let ?r = "gw_hook (gateway_main id [] 0 [] 0)" and ?es = "replicate 1000 (7, Call ''1.2.3.4'')"
  have ok: "sane_limiter 30 100 ?r" "bucket_ok 100 7 (rl_buckets ?r ''1.2.3.4'')" "sorted (7 # map fst ?es)"
    by (simp_all add: sane_limiter_def bucket_ok_def gateway_main_def NewBotRateLimiter_def)
  have "last (7 # map fst ?es) = 7" by simp
  with rate_limited [OF ok] have "(of_nat (served ''1.2.3.4'' ?es ?r) :: rat) \<le> 100 + 1 / 10 ^ 5" by simp
  then have "(of_nat (served ''1.2.3.4'' ?es ?r) :: rat) < of_nat 101" by simp
  then show ?thesis by (simp only: of_nat_less_iff)
qed

section \<open>What reaches the bots\<close>

text \<open>
  The limit on webhooks is not a limit for each bot. The middleware asks for a route parameter
  \<open>bot_id\<close> that neither webhook route has, and falls back to the address of the client: from one
  address, a webhook is refused as one request too many if and only if a webhook for any other token
  would be.
\<close>

theorem webhook_limit_shared:
  "fst (gateway_Register sha key ok now1 now2 (Webhook slash token ip body) g) = 429 \<longleftrightarrow>
   fst (gateway_Register sha key ok' now1 now2 (Webhook slash token' ip body') g) = 429"
proof -
  have h: "fst (handleWebhook sha ok c g') \<noteq> 429" for ok c g'
    by (simp add: handleWebhook_def Let_def split: option.splits)
  have k: "limit_key \<lparr>hq_params = [(''token'', t)], hq_ip = ip, hq_body = b\<rparr> = ip" for t b
    by (simp add: limit_key_def Param_def)
  show ?thesis
    by (simp add: gateway_Register_def GlobalRateLimit_def WebhookRateLimit_def k h case_prod_beta Let_def split: if_splits)
qed

text \<open>One step of the gateway: a request, or a message of one of its two subjects.\<close>

inductive gateway_step :: "(string \<Rightarrow> string) \<Rightarrow> (string \<Rightarrow> string \<Rightarrow> string) \<Rightarrow> string \<Rightarrow> string \<Rightarrow> gateway \<Rightarrow> gateway \<Rightarrow> bool"
  for sha hmac secret internalKey where
    gw_request: "gateway_step sha hmac secret internalKey g (snd (gateway_Register sha internalKey ok now1 now2 q g))"
  | gw_register: "gateway_step sha hmac secret internalKey g (onGatewayRegister sha hmac secret m g)"
  | gw_unregister: "gateway_step sha hmac secret internalKey g (onGatewayUnregister sha m' g)"

definition quoted :: "gateway \<Rightarrow> bool" where
  "quoted g \<longleftrightarrow> (\<forall>(subj, data) \<in> set (gw_published g). \<exists>s. data = CHR 0x22 # s)"

lemma quoted_counts [simp]:
  "quoted (count_received g) = quoted g" "quoted (count_unknown g) = quoted g" "quoted (count_error g) = quoted g"
  "quoted (count_forwarded g) = quoted g" "quoted (g\<lparr>gw_reg := x\<rparr>) = quoted g" "quoted (g\<lparr>gw_global := y\<rparr>) = quoted g"
  "quoted (g\<lparr>gw_hook := y\<rparr>) = quoted g" "quoted (g\<lparr>gw_hook_slash := y\<rparr>) = quoted g"
  by (simp_all add: quoted_def count_received_def count_unknown_def count_error_def count_forwarded_def)

lemma handleWebhook_quoted: "quoted g \<Longrightarrow> quoted (snd (handleWebhook sha ok c g))"
proof -
  assume g: "quoted g"
  have "quoted (count_received g\<lparr>gw_published := gw_published (count_received g) @ [(s, json_bytes b)]\<rparr>)" for s b
    using g by (auto simp: quoted_def json_bytes_def count_received_def)
  with g show ?thesis by (simp add: handleWebhook_def Let_def split: option.splits)
qed

lemma gateway_step_quoted: "gateway_step sha hmac secret key g g' \<Longrightarrow> quoted g \<Longrightarrow> quoted g'"
proof (induction rule: gateway_step.induct)
  case (gw_request g ok now1 now2 q)
  have "quoted (snd (handleWebhook sha ok c h))" if "quoted h" for c h using that by (rule handleWebhook_quoted)
  with gw_request show ?case
    by (cases q) (auto simp: gateway_Register_def GlobalRateLimit_def WebhookRateLimit_def InternalAuth_def registerBot_def
        unregisterBot_def case_prod_beta Let_def split: option.splits)
qed (auto simp: onGatewayRegister_def onGatewayUnregister_def split: option.splits)

interpretation gateway_quoted: step_invariant "gateway_step sha hmac secret key" quoted for sha hmac secret key
  by unfold_locales (rule gateway_step_quoted)

text \<open>
  (C17) No update reaches a bot through the gateway. The router hands the body of a webhook to
  \<open>PublishCore\<close> as bytes, which are marshalled to a JSON string of their base64 encoding; the poller
  unmarshals the message into a struct. A decoder that refuses JSON strings, as \<open>encoding/json\<close> does for
  a struct, drops every message that the gateway has ever published.
\<close>

theorem webhook_updates_dropped:
  assumes "(gateway_step sha hmac secret key)\<^sup>*\<^sup>* (gateway_main sha t1 i1 t2 i2) g"
    and "\<And>s. decodeUpdate (CHR 0x22 # s) = None"
  shows "poll_bot decodeUpdate capacity botID (gw_published g) queue = queue"
proof -
  have "quoted g"
    by (rule gateway_quoted.run_keeps [OF assms(1)]) (simp add: quoted_def gateway_main_def)
  then have "\<forall>m \<in> set (gw_published g). decodeUpdate (snd m) = None" using assms(2) by (fastforce simp: quoted_def)
  moreover have "poll_bot decodeUpdate capacity botID ms q = q" if "\<forall>m \<in> set ms. decodeUpdate (snd m) = None" for ms q
    using that by (induction ms arbitrary: q) (auto simp: poll_bot_def poller_message_def)
  ultimately show ?thesis by blast
qed

definition object_decoder :: "string \<Rightarrow> string option" where
  "object_decoder s = (case s of c # _ \<Rightarrow> if c = CHR 0x7B then Some s else None | [] \<Rightarrow> None)"

definition hooked :: gateway where
  "hooked = snd (gateway_Register id ''k'' True 5 6 (Webhook False ''tok'' ''1.2.3.4'' (Some ''{}'')) (gateway_main id ''tok'' 7 [] 0))"

lemma allow_fresh:
  assumes "rl_buckets r k = None" "rl_capacity r = Fin (of_int K)" "rl_rate r = Fin R" "1 \<le> K" "K \<le> 5000"
  shows "fst (allow now k r)"
proof -
  have z: "rnd 0 = Fin 0" by (simp add: rnd_def)
  have K: "rnd (of_int K) = Fin (of_int K)" using f64_of_int_exact [of K] assms(4,5) by (simp add: f64_of_int_def)
  have "Seconds 0 = Fin 0" by (simp add: Seconds_def f64_of_int_def z)
  with assms K show ?thesis by (simp add: allow_def Let_def z fmin_def)
qed

theorem webhook_updates_dropped_witness:
  "gw_published hooked = [(''webhook.7'', CHR 0x22 # ''e30='' @ [CHR 0x22])] \<and>
   poll_bot object_decoder 100 7 (gw_published hooked) [] = []"
proof
  show "gw_published hooked = [(''webhook.7'', CHR 0x22 # ''e30='' @ [CHR 0x22])]"
  proof -
    let ?g = "gateway_main id ''tok'' 7 [] 0"
    let ?g1 = "?g\<lparr>gw_global := snd (allow 5 ''global'' (gw_global ?g))\<rparr>"
    let ?g2 = "?g1\<lparr>gw_hook := snd (allow 6 ''1.2.3.4'' (gw_hook ?g1))\<rparr>"
    let ?c = "\<lparr>hq_params = [(''token'', ''tok'')], hq_ip = ''1.2.3.4'', hq_body = Some ''{}''\<rparr>"
    have "fst (allow 5 ''global'' (gw_global ?g))"
      by (rule allow_fresh [where K = 5000 and R = 1000]) (simp_all add: gateway_main_def NewBotRateLimiter_def)
    moreover have "fst (allow 6 ''1.2.3.4'' (gw_hook ?g1))"
      by (rule allow_fresh [where K = 100 and R = 30]) (simp_all add: gateway_main_def NewBotRateLimiter_def)
    moreover have "limit_key ?c = ''1.2.3.4''" by (simp add: limit_key_def Param_def)
    ultimately have h: "hooked = snd (handleWebhook id True ?c ?g2)"
      by (simp add: hooked_def gateway_Register_def GlobalRateLimit_def WebhookRateLimit_def case_prod_beta Let_def)
    have "Registry_Lookup id ''tok'' (gw_reg ?g) =
        Some \<lparr>BE_Token = ''tok'', BE_BotID = 7, BE_NATSSubject = BotWebhookSubject 7, BE_Type = ''botmanager''\<rparr>"
      by (simp add: gateway_main_def register_static_def Registry_Register_def Registry_Lookup_def New_Registry_def)
    moreover have "BotWebhookSubject 7 = ''webhook.7''" "json_bytes ''{}'' = CHR 0x22 # ''e30='' @ [CHR 0x22]" by code_simp+
    moreover have "gw_published ?g = []" by (simp add: gateway_main_def)
    ultimately show ?thesis unfolding h by (simp add: handleWebhook_def Param_def count_received_def count_forwarded_def Let_def)
  qed
  have "(gateway_step id (\<lambda>_ _. []) [] ''k'')\<^sup>*\<^sup>* (gateway_main id ''tok'' 7 [] 0) hooked"
    unfolding hooked_def by (rule r_into_rtranclp) (rule gateway_step.gw_request)
  then show "poll_bot object_decoder 100 7 (gw_published hooked) [] = []"
    by (rule webhook_updates_dropped) (simp add: object_decoder_def)
qed

end
