(* ===== verification/License.thy ===== *)
theory License
  imports Revenue
begin

text \<open>
  The license service (\<open>license-service\<close>): one license for each bot, tied to a token and to the server
  the bot was deployed on. Issuing, verifying and revoking, the NATS handlers in front of them, and
  the interleaving of a check-in with a revocation. The signer of tokens and SHA-256 are parameters;
  the columns that gorm maintains and logging are left out.
\<close>

section \<open>Rows and repository (\<open>store/models.go\<close>, \<open>store/store.go\<close>)\<close>

record License =
  LI_ID :: uuid
  LI_BotID :: int64
  LI_InstanceID :: string
  LI_OwnerID :: string
  LI_PlanID :: string
  LI_TokenHash :: string
  LI_KnownServerID :: string
  LI_Status :: string
  LI_RevokedReason :: string
  LI_ExpiresAt :: "time option"
  LI_LastCheckinAt :: "time option"
  LI_LastServerSeen :: string
  LI_CloneFlagCount :: int64

definition IsActive :: "time \<Rightarrow> License \<Rightarrow> bool" where
  "IsActive now l =
     (if LI_Status l \<noteq> ''active'' then False
      else case LI_ExpiresAt l of Some t \<Rightarrow> \<not> t < now | None \<Rightarrow> True)"

definition License_Create :: "string option \<Rightarrow> uuid \<Rightarrow> License \<Rightarrow> License list \<Rightarrow> (go_error + unit) \<times> License list" where
  "License_Create f new l rows =
     (let l1 = l\<lparr>LI_ID := (if LI_ID l = uuid_Nil then new else LI_ID l),
                LI_Status := (if LI_Status l = [] then ''active'' else LI_Status l)\<rparr>
      in case f of
           Some m \<Rightarrow> (Inl (DBErr m), rows)
         | None \<Rightarrow>
             (if \<exists>x \<in> set rows. LI_ID x = LI_ID l1 \<or> LI_BotID x = LI_BotID l1 then (Inl unique_violation, rows)
              else (Inr (), rows @ [l1])))"

definition FindByBotID :: "string option \<Rightarrow> int64 \<Rightarrow> License list \<Rightarrow> go_error + License option" where
  "FindByBotID f botID rows = First_or_nil f LI_ID (\<lambda>l. LI_BotID l = botID) rows"

text \<open>\<open>Save\<close> of a row with a key writes all its columns.\<close>

definition License_Save :: "io \<Rightarrow> License \<Rightarrow> License list \<Rightarrow> (go_error + unit) \<times> License list" where
  "License_Save io l rows =
     (if LI_ID l = uuid_Nil then License_Create (io_flt io 0) (io_uuid io 0) l rows
      else case io_flt io 0 of
        Some m \<Rightarrow> (Inl (DBErr m), rows)
      | None \<Rightarrow>
          (if LI_ID l \<notin> LI_ID ` set rows then License_Create (io_flt io 1) (io_uuid io 1) l rows
           else if \<exists>x \<in> set rows. LI_ID x \<noteq> LI_ID l \<and> LI_BotID x = LI_BotID l then (Inl unique_violation, rows)
           else (Inr (), map (\<lambda>x. if LI_ID x = LI_ID l then l else x) rows)))"

definition License_Revoke :: "string option \<Rightarrow> int64 \<Rightarrow> string \<Rightarrow> License list \<Rightarrow> (go_error + unit) \<times> License list" where
  "License_Revoke f botID reason rows =
     (case f of
        Some m \<Rightarrow> (Inl (DBErr m), rows)
      | None \<Rightarrow> (Inr (), map (\<lambda>x. if LI_BotID x = botID then x\<lparr>LI_Status := ''revoked'', LI_RevokedReason := reason\<rparr> else x) rows))"

section \<open>Requests and responses (\<open>protocol/subjects.go\<close>)\<close>

record LicenseIssueRequest =
  LQ_ServiceID :: string
  LQ_ServiceKey :: string
  LQ_BotID :: int64
  LQ_InstanceID :: string
  LQ_OwnerID :: string
  LQ_ServerID :: string
  LQ_PlanID :: string
  LQ_ExpiresAt :: int64

record LicenseVerifyRequest =
  VQ_BotID :: int64
  VQ_Token :: string
  VQ_ServerID :: string

record LicenseVerifyResponse =
  VR_Valid :: bool
  VR_Status :: string
  VR_CloneWarning :: bool
  VR_Error :: "go_error option"

record LicenseRevokeRequest =
  KQ_ServiceID :: string
  KQ_ServiceKey :: string
  KQ_BotID :: int64
  KQ_Reason :: string

record LicenseCloneDetectedEvent =
  CD_BotID :: int64
  CD_InstanceID :: string
  CD_KnownServerID :: string
  CD_UnexpectedServer :: string
  CD_DetectedAt :: int64

section \<open>Service (\<open>licensing/service.go\<close>)\<close>

text \<open>
  The service: its hash, the signer with the secret and the lifetime of tokens built in (subject and
  role to a token at a time), and whether it has a NATS connection.
\<close>

record license_service =
  lc_sha :: "string \<Rightarrow> string"
  lc_sign :: "time \<Rightarrow> string \<Rightarrow> string \<Rightarrow> go_error + string"
  lc_nats :: bool

record license_state =
  ls_rows :: "License list"
  ls_events :: "LicenseCloneDetectedEvent list"

definition hashToken :: "(string \<Rightarrow> string) \<Rightarrow> string \<Rightarrow> string" where
  "hashToken sha token = hexEncode (sha token)"

definition Issue :: "license_service \<Rightarrow> io \<Rightarrow> LicenseIssueRequest \<Rightarrow> license_state \<Rightarrow> (go_error + string) \<times> license_state" where
  "Issue lsvc io req s =
     (case lc_sign lsvc (io_now io 0) (''bot_'' @ fmt_d (LQ_BotID req)) ''license'' of
        Inl e \<Rightarrow> (Inl (Wrapf ''sign license token: %w'' [] e), s)
      | Inr token \<Rightarrow>
          (case FindByBotID (io_flt io 1) (LQ_BotID req) (ls_rows s) of
             Inl e \<Rightarrow> (Inl e, s)
           | Inr found \<Rightarrow>
               (let expiresAt = (if 0 < LQ_ExpiresAt req then Some (LQ_ExpiresAt req * 1000000000) else None);
                    (r, rows) = (case found of
                       Some existing \<Rightarrow>
                         License_Save (io_shift 2 io)
                           (existing\<lparr>LI_InstanceID := LQ_InstanceID req, LI_OwnerID := LQ_OwnerID req, LI_PlanID := LQ_PlanID req,
                              LI_TokenHash := hashToken (lc_sha lsvc) token, LI_KnownServerID := LQ_ServerID req,
                              LI_Status := ''active'', LI_RevokedReason := [], LI_ExpiresAt := expiresAt, LI_CloneFlagCount := 0\<rparr>)
                           (ls_rows s)
                     | None \<Rightarrow>
                         License_Create (io_flt io 2) (io_uuid io 2)
                           \<lparr>LI_ID = uuid_Nil, LI_BotID = LQ_BotID req, LI_InstanceID = LQ_InstanceID req, LI_OwnerID = LQ_OwnerID req,
                            LI_PlanID = LQ_PlanID req, LI_TokenHash = hashToken (lc_sha lsvc) token,
                            LI_KnownServerID = LQ_ServerID req, LI_Status = ''active'', LI_RevokedReason = [],
                            LI_ExpiresAt = expiresAt, LI_LastCheckinAt = None, LI_LastServerSeen = [], LI_CloneFlagCount = 0\<rparr>
                           (ls_rows s))
                in case r of Inl e \<Rightarrow> (Inl e, s\<lparr>ls_rows := rows\<rparr>) | Inr _ \<Rightarrow> (Inr token, s\<lparr>ls_rows := rows\<rparr>))))"

text \<open>
  \<open>Verify\<close> up to its write: an error with the status reported beside it, or the row to save and
  whether a clone was noticed, with the event for it.
\<close>

definition Verify_load ::
  "license_service \<Rightarrow> io \<Rightarrow> LicenseVerifyRequest \<Rightarrow> License list \<Rightarrow>
     (go_error \<times> string) + License \<times> bool \<times> LicenseCloneDetectedEvent list" where
  "Verify_load lsvc io req rows =
     (case FindByBotID (io_flt io 0) (VQ_BotID req) rows of
        Inl e \<Rightarrow> Inl (e, [])
      | Inr None \<Rightarrow> Inl (Errorf ''license not found'' [], ''expired'')
      | Inr (Some lic) \<Rightarrow>
          (if hashToken (lc_sha lsvc) (VQ_Token req) \<noteq> LI_TokenHash lic then Inl (Errorf ''token mismatch'' [], LI_Status lic)
           else let now = io_now io 0;
                    lic1 = lic\<lparr>LI_LastCheckinAt := Some now, LI_LastServerSeen := VQ_ServerID req\<rparr>
                in if LI_KnownServerID lic \<noteq> [] \<and> VQ_ServerID req \<noteq> [] \<and> LI_KnownServerID lic \<noteq> VQ_ServerID req
                   then Inr (lic1\<lparr>LI_CloneFlagCount := add64 (LI_CloneFlagCount lic) 1\<rparr>, True,
                          (if lc_nats lsvc
                           then [\<lparr>CD_BotID = VQ_BotID req, CD_InstanceID = LI_InstanceID lic, CD_KnownServerID = LI_KnownServerID lic,
                                  CD_UnexpectedServer = VQ_ServerID req, CD_DetectedAt = now div 1000000000\<rparr>]
                           else []))
                   else Inr (lic1, False, [])))"

text \<open>The write, whose error is dropped, and the answer from the row in memory.\<close>

definition Verify_save :: "io \<Rightarrow> License \<Rightarrow> License list \<Rightarrow> (bool \<times> string) \<times> License list" where
  "Verify_save io lic rows =
     ((IsActive (io_now io 1) lic,
       (case LI_ExpiresAt lic of Some t \<Rightarrow> (if t < io_now io 0 then ''expired'' else LI_Status lic) | None \<Rightarrow> LI_Status lic)),
      snd (License_Save (io_shift 1 io) lic rows))"

definition License_Verify ::
  "license_service \<Rightarrow> io \<Rightarrow> LicenseVerifyRequest \<Rightarrow> license_state \<Rightarrow> (go_error \<times> string + bool \<times> string \<times> bool) \<times> license_state" where
  "License_Verify lsvc io req s =
     (case Verify_load lsvc io req (ls_rows s) of
        Inl e \<Rightarrow> (Inl e, s)
      | Inr (lic, clone, evs) \<Rightarrow>
          (let ((valid, status), rows) = Verify_save io lic (ls_rows s)
           in (Inr (valid, status, clone), \<lparr>ls_rows = rows, ls_events = ls_events s @ evs\<rparr>)))"

section \<open>NATS handlers (\<open>responder/responder.go\<close>)\<close>

record license_responder =
  lr_secret :: string
  lr_hmac :: "string \<Rightarrow> string \<Rightarrow> string"
  lr_service :: license_service

definition authorizeService :: "license_responder \<Rightarrow> string \<Rightarrow> string \<Rightarrow> bool" where
  "authorizeService r serviceID serviceKey =
     (if lr_secret r = [] then False
      else if serviceID = ''agentmanager'' \<or> serviceID = ''botmanager''
           then ValidateServiceKey (lr_hmac r) (lr_secret r) serviceID serviceKey
      else False)"

definition handleIssue ::
  "license_responder \<Rightarrow> io \<Rightarrow> LicenseIssueRequest option \<Rightarrow> license_state \<Rightarrow> (go_error + string) \<times> license_state" where
  "handleIssue r io msg s =
     (case msg of
        None \<Rightarrow> (Inl (Errorf ''bad request'' []), s)
      | Some req \<Rightarrow>
          (if \<not> authorizeService r (LQ_ServiceID req) (LQ_ServiceKey req) then (Inl (Errorf ''unauthorized'' []), s)
           else if LQ_BotID req = 0 then (Inl (Errorf ''bot_id required'' []), s)
           else Issue (lr_service r) io req s))"

definition verify_error :: "go_error \<Rightarrow> LicenseVerifyResponse" where
  "verify_error e = \<lparr>VR_Valid = False, VR_Status = [], VR_CloneWarning = False, VR_Error = Some e\<rparr>"

definition handleVerify ::
  "license_responder \<Rightarrow> io \<Rightarrow> LicenseVerifyRequest option \<Rightarrow> license_state \<Rightarrow> LicenseVerifyResponse \<times> license_state" where
  "handleVerify r io msg s =
     (case msg of
        None \<Rightarrow> (verify_error (Errorf ''bad request'' []), s)
      | Some req \<Rightarrow>
          (if VQ_BotID req = 0 \<or> VQ_Token req = [] then (verify_error (Errorf ''bot_id and token required'' []), s)
           else case License_Verify (lr_service r) io req s of
                  (Inl (e, _), s1) \<Rightarrow> (verify_error e, s1)
                | (Inr (valid, status, clone), s1) \<Rightarrow>
                    (\<lparr>VR_Valid = valid, VR_Status = status, VR_CloneWarning = clone, VR_Error = None\<rparr>, s1)))"

definition handleRevoke ::
  "license_responder \<Rightarrow> io \<Rightarrow> LicenseRevokeRequest option \<Rightarrow> license_state \<Rightarrow> (go_error + unit) \<times> license_state" where
  "handleRevoke r io msg s =
     (case msg of
        None \<Rightarrow> (Inl (Errorf ''bad request'' []), s)
      | Some req \<Rightarrow>
          (if \<not> authorizeService r (KQ_ServiceID req) (KQ_ServiceKey req) then (Inl (Errorf ''unauthorized'' []), s)
           else let (res, rows) = License_Revoke (io_flt io 0) (KQ_BotID req) (KQ_Reason req) (ls_rows s)
                in (res, s\<lparr>ls_rows := rows\<rparr>)))"

section \<open>A revoked license stays revoked\<close>

definition license_rows_ok :: "License list \<Rightarrow> bool" where
  "license_rows_ok rows \<longleftrightarrow> distinct (map LI_ID rows) \<and> distinct (map LI_BotID rows)"

definition inactive :: "int64 \<Rightarrow> License list \<Rightarrow> bool" where
  "inactive b rows \<longleftrightarrow> (\<forall>l \<in> set rows. LI_BotID l = b \<longrightarrow> LI_Status l \<noteq> ''active'')"

text \<open>Saving a row that was read from the same table replaces it, or fails.\<close>

lemma Save_loaded:
  assumes "l0 \<in> set rows" "LI_ID l = LI_ID l0" "LI_BotID l = LI_BotID l0"
  shows "License_Save io l rows = (Inr (), map (\<lambda>x. if LI_ID x = LI_ID l then l else x) rows) \<or>
    (\<exists>e. License_Save io l rows = (Inl e, rows))"
proof -
  have "\<exists>x \<in> set rows. LI_BotID x = LI_BotID l" using assms by metis
  then have c: "\<exists>e. License_Create f i l rows = (Inl e, rows)" for f i
    by (cases f) (auto simp: License_Create_def Let_def)
  have "LI_ID l \<in> LI_ID ` set rows" using assms by auto
  with c show ?thesis by (cases "io_flt io 0") (auto simp: License_Save_def)
qed

lemma FindByBotID_row: "FindByBotID f b rows = Inr (Some l) \<Longrightarrow> l \<in> set rows \<and> LI_BotID l = b"
  by (auto simp: FindByBotID_def First_or_nil_def stmt_Inr dest: First_row_Some)

lemma Verify_load_row:
  assumes "Verify_load lsvc io req rows = Inr (lic, clone, evs)"
  obtains l0 where "l0 \<in> set rows" "LI_ID lic = LI_ID l0" "LI_BotID lic = LI_BotID l0" "LI_BotID l0 = VQ_BotID req"
    "LI_Status lic = LI_Status l0" "LI_ExpiresAt lic = LI_ExpiresAt l0"
  using assms by (auto simp: Verify_load_def Let_def split: sum.splits option.splits if_splits dest!: FindByBotID_row)

lemma License_Verify_inactive:
  assumes "inactive b (ls_rows s)"
  shows "inactive b (ls_rows (snd (License_Verify lsvc io req s)))"
proof (cases "Verify_load lsvc io req (ls_rows s)")
  case (Inr x)
  obtain lic clone evs where x: "x = (lic, clone, evs)" by (cases x)
  obtain l0 where l0: "l0 \<in> set (ls_rows s)" "LI_ID lic = LI_ID l0" "LI_BotID lic = LI_BotID l0" "LI_Status lic = LI_Status l0"
    by (rule Verify_load_row [OF Inr [unfolded x]])
  have "inactive b (map (\<lambda>y. if LI_ID y = LI_ID lic then lic else y) (ls_rows s))"
    using assms l0 by (auto simp: inactive_def)
  moreover have "inactive b (snd (License_Save (io_shift 1 io) lic (ls_rows s)))"
    using Save_loaded [OF l0(1-3), of "io_shift 1 io"] calculation assms by auto
  ultimately show ?thesis by (simp add: License_Verify_def Inr x Verify_save_def)
qed (use assms in \<open>simp add: License_Verify_def\<close>)

lemma handleVerify_inactive: "inactive b (ls_rows s) \<Longrightarrow> inactive b (ls_rows (snd (handleVerify r io m s)))"
  using License_Verify_inactive [of b s "lr_service r" io]
  by (auto simp: handleVerify_def split: option.splits prod.splits sum.splits) (metis snd_conv)+

lemma handleRevoke_inactive: "inactive b (ls_rows s) \<Longrightarrow> inactive b (ls_rows (snd (handleRevoke r io m s)))"
  by (auto simp: handleRevoke_def License_Revoke_def inactive_def split: option.splits)

lemma Issue_inactive:
  assumes "inactive b (ls_rows s)" "LQ_BotID req \<noteq> b"
  shows "inactive b (ls_rows (snd (Issue lsvc io req s)))"
proof -
  have save: "inactive b (snd (License_Save io' l (ls_rows s)))"
    if "l0 \<in> set (ls_rows s)" "LI_ID l = LI_ID l0" "LI_BotID l = LI_BotID l0" "LI_BotID l0 \<noteq> b" for l l0 io'
    using Save_loaded [OF that(1-3), of io'] assms(1) that(3,4) by (auto simp: inactive_def)
  have create: "inactive b (snd (License_Create f i l (ls_rows s)))" if "LI_BotID l \<noteq> b" for f i l
    using that assms(1) by (auto simp: License_Create_def Let_def inactive_def split: option.splits)
  show ?thesis
    using assms save create
    by (auto simp: Issue_def Let_def case_prod_beta split: sum.splits option.splits dest!: FindByBotID_row)
qed

lemma handleIssue_inactive:
  "inactive b (ls_rows s) \<Longrightarrow> (\<forall>req. m = Some req \<longrightarrow> LQ_BotID req \<noteq> b) \<Longrightarrow> inactive b (ls_rows (snd (handleIssue r io m s)))"
  by (auto simp: handleIssue_def Issue_inactive split: option.splits)

text \<open>The steps of the service, each handler at once, without an issue for one bot.\<close>

inductive license_step :: "license_responder \<Rightarrow> int64 \<Rightarrow> license_state \<Rightarrow> license_state \<Rightarrow> bool" for r b where
    ls_verify: "license_step r b s (snd (handleVerify r io m s))"
  | ls_revoke: "license_step r b s (snd (handleRevoke r io m' s))"
  | ls_issue: "(\<forall>req. m'' = Some req \<longrightarrow> LQ_BotID req \<noteq> b) \<Longrightarrow> license_step r b s (snd (handleIssue r io m'' s))"

interpretation license_inactive: step_invariant "license_step r b" "\<lambda>s. inactive b (ls_rows s)" for r b
  by unfold_locales
    (auto elim!: license_step.cases intro: handleVerify_inactive handleRevoke_inactive handleIssue_inactive)

lemma inactive_not_valid:
  assumes "inactive b (ls_rows s)" "VQ_BotID req = b"
  shows "\<not> VR_Valid (fst (handleVerify r io (Some req) s))"
proof -
  have "\<not> IsActive now lic" if "Verify_load lsvc io req (ls_rows s) = Inr (lic, c, evs)" for lsvc lic c evs now
    by (rule Verify_load_row [OF that]) (use assms in \<open>auto simp: IsActive_def inactive_def\<close>)
  then show ?thesis
    by (auto simp: handleVerify_def License_Verify_def Verify_save_def verify_error_def split: sum.splits prod.splits)
qed


definition toy_license :: license_service where
  "toy_license = \<lparr>lc_sha = id, lc_sign = (\<lambda>now subj role. Inr (subj @ role)), lc_nats = True\<rparr>"

definition toy_responder :: license_responder where
  "toy_responder = \<lparr>lr_secret = ''s'', lr_hmac = (\<lambda>k m. k @ m), lr_service = toy_license\<rparr>"

definition toy_key :: string where
  "toy_key = ComputeServiceKey (\<lambda>k m. k @ m) ''s'' ''botmanager''"

definition toy_issue :: LicenseIssueRequest where
  "toy_issue = \<lparr>LQ_ServiceID = ''botmanager'', LQ_ServiceKey = toy_key, LQ_BotID = 9, LQ_InstanceID = ''bot_9'', LQ_OwnerID = ''o'',
     LQ_ServerID = ''srv1'', LQ_PlanID = [], LQ_ExpiresAt = 0\<rparr>"

definition toy_revoke :: LicenseRevokeRequest where
  "toy_revoke = \<lparr>KQ_ServiceID = ''botmanager'', KQ_ServiceKey = toy_key, KQ_BotID = 9, KQ_Reason = ''abuse''\<rparr>"

definition toy_verify :: LicenseVerifyRequest where
  "toy_verify = \<lparr>VQ_BotID = 9, VQ_Token = ''bot_9license'', VQ_ServerID = ''srv2''\<rparr>"

definition licensed :: license_state where
  "licensed = snd (handleIssue toy_responder demo_io (Some toy_issue) \<lparr>ls_rows = [], ls_events = []\<rparr>)"

lemma toy_authorized: "authorizeService toy_responder ''botmanager'' toy_key"
proof -
  have "toy_key \<noteq> []" by (simp add: toy_key_def ComputeServiceKey_def hexEncode_def)
  then show ?thesis by (simp add: authorizeService_def toy_responder_def ValidateServiceKey_def toy_key_def)
qed

definition toy_row :: License where
  "toy_row = \<lparr>LI_ID = ''id-2'', LI_BotID = 9, LI_InstanceID = ''bot_9'', LI_OwnerID = ''o'', LI_PlanID = [],
     LI_TokenHash = hashToken id ''bot_9license'', LI_KnownServerID = ''srv1'', LI_Status = ''active'', LI_RevokedReason = [],
     LI_ExpiresAt = None, LI_LastCheckinAt = None, LI_LastServerSeen = [], LI_CloneFlagCount = 0\<rparr>"

lemma licensed_eq: "handleIssue toy_responder demo_io (Some toy_issue) \<lparr>ls_rows = [], ls_events = []\<rparr> =
    (Inr ''bot_9license'', \<lparr>ls_rows = [toy_row], ls_events = []\<rparr>)"
proof -
  have "fmt_d 9 = ''9''" "fmt_d 2 = ''2''" by code_simp+
  then show ?thesis using toy_authorized
    by (simp add: handleIssue_def Issue_def toy_issue_def toy_responder_def toy_license_def FindByBotID_def First_or_nil_def
        First_row_def License_Create_def demo_io_def toy_row_def Let_def)
qed

lemma licensed_rows: "licensed = \<lparr>ls_rows = [toy_row], ls_events = []\<rparr>"
  by (simp add: licensed_def licensed_eq)


lemma Save_update:
  assumes "LI_ID l \<noteq> uuid_Nil" "io_flt io 0 = None" "LI_ID l \<in> LI_ID ` set rows"
    and "\<And>x. x \<in> set rows \<Longrightarrow> LI_BotID x = LI_BotID l \<Longrightarrow> LI_ID x = LI_ID l"
  shows "License_Save io l rows = (Inr (), map (\<lambda>x. if LI_ID x = LI_ID l then l else x) rows)"
  using assms by (auto simp: License_Save_def)

section \<open>A check-in can undo a revocation\<close>

text \<open>
  A revocation that meets a check-in is lost. \<open>Verify\<close> reads the license, and later writes the
  whole row back to record the check-in. When a revocation is committed between the two, the row that
  is written back is still active: the bot runs on, although the revocation was reported as done.
\<close>

theorem revocation_lost:
  assumes "license_rows_ok rows" "l \<in> set rows" "LI_ID l \<noteq> uuid_Nil" "LI_Status l = ''active''" "io_ok io"
    and "VQ_BotID req = LI_BotID l" "hashToken (lc_sha lsvc) (VQ_Token req) = LI_TokenHash l"
  shows "\<exists>lic clone evs. Verify_load lsvc io req rows = Inr (lic, clone, evs) \<and>
    License_Revoke None (LI_BotID l) reason rows =
      (Inr (), map (\<lambda>x. if LI_BotID x = LI_BotID l then x\<lparr>LI_Status := ''revoked'', LI_RevokedReason := reason\<rparr> else x) rows) \<and>
    (\<exists>x \<in> set (snd (Verify_save io lic (snd (License_Revoke None (LI_BotID l) reason rows)))).
       LI_BotID x = LI_BotID l \<and> LI_Status x = ''active'' \<and> LI_RevokedReason x = LI_RevokedReason l)"
proof -
  have "First_row LI_ID (\<lambda>x. LI_BotID x = LI_BotID l) rows = Some l"
    by (rule First_row_unique) (use assms(1,2) in \<open>auto simp: license_rows_ok_def dest: distinct_key_eq\<close>)
  then have f: "FindByBotID (io_flt io 0) (VQ_BotID req) rows = Inr (Some l)"
    using assms(5,6) by (simp add: FindByBotID_def First_or_nil_def)
  then obtain lic clone evs where v: "Verify_load lsvc io req rows = Inr (lic, clone, evs)" "LI_ID lic = LI_ID l"
    "LI_BotID lic = LI_BotID l" "LI_Status lic = ''active''" "LI_RevokedReason lic = LI_RevokedReason l"
    using assms(4,7)
    by (cases "LI_KnownServerID l \<noteq> [] \<and> VQ_ServerID req \<noteq> [] \<and> LI_KnownServerID l \<noteq> VQ_ServerID req")
      (auto simp: Verify_load_def Let_def)
  define rev :: "License \<Rightarrow> License" where "rev = (\<lambda>x. if LI_BotID x = LI_BotID l then x\<lparr>LI_Status := ''revoked'', LI_RevokedReason := reason\<rparr> else x)"
  have keys: "LI_ID (rev x) = LI_ID x" "LI_BotID (rev x) = LI_BotID x" for x by (simp_all add: rev_def)
  have revoke: "License_Revoke None (LI_BotID l) reason rows = (Inr (), map rev rows)" by (simp add: License_Revoke_def rev_def)
  have y: "rev l \<in> set (map rev rows)" "LI_ID (rev l) = LI_ID lic" using assms(2) v(2) keys by simp_all
  then have m: "LI_ID lic \<in> LI_ID ` set (map rev rows)" by (metis imageI)
  have n: "LI_ID x = LI_ID lic" if "x \<in> set (map rev rows)" "LI_BotID x = LI_BotID lic" for x
    using that assms(1,2) v(2,3) keys by (auto simp: license_rows_ok_def dest: distinct_key_eq)
  have "License_Save (io_shift 1 io) lic (map rev rows) = (Inr (), map (\<lambda>x. if LI_ID x = LI_ID lic then lic else x) (map rev rows))"
    by (rule Save_update [OF _ _ m n]) (use assms(3,5) v(2) in simp_all)
  moreover have "lic \<in> set (map (\<lambda>x. if LI_ID x = LI_ID lic then lic else x) R)" if "rev l \<in> set R" for R
    using that y(2) by (auto intro!: image_eqI [of _ _ "rev l"])
  note this [OF y(1)]
  ultimately have "lic \<in> set (snd (Verify_save io lic (map rev rows)))" by (simp only: Verify_save_def snd_conv)
  with v revoke show ?thesis unfolding rev_def by auto
qed

theorem revocation_lost_witness:
  "\<exists>lic c evs. Verify_load toy_license demo_io toy_verify (ls_rows licensed) = Inr (lic, c, evs) \<and>
     ''active'' \<in> LI_Status ` set (snd (Verify_save demo_io lic (snd (License_Revoke None 9 ''abuse'' (ls_rows licensed)))))"
proof -
  have rows: "ls_rows licensed = [toy_row]" by (simp add: licensed_rows)
  have ok: "license_rows_ok [toy_row]" "toy_row \<in> set [toy_row]" "LI_ID toy_row \<noteq> uuid_Nil" "LI_Status toy_row = ''active''"
    "VQ_BotID toy_verify = LI_BotID toy_row" "hashToken (lc_sha toy_license) (VQ_Token toy_verify) = LI_TokenHash toy_row"
    by (simp_all add: license_rows_ok_def toy_row_def uuid_Nil_def toy_verify_def toy_license_def)
  have io: "io_ok demo_io" by (simp add: demo_io_def io_ok_def)
  have b: "LI_BotID toy_row = 9" by (simp add: toy_row_def)
  from revocation_lost [OF ok(1-4) io ok(5,6), of "''abuse''"] show ?thesis
    unfolding rows b by (force simp: image_iff)
qed

section \<open>What is issued verifies\<close>

lemma Issue_row:
  assumes "Issue lsvc io req s = (Inr token, s')" "license_rows_ok (ls_rows s)"
  shows "\<exists>l. First_row LI_ID (\<lambda>x. LI_BotID x = LQ_BotID req) (ls_rows s') = Some l \<and> LI_BotID l = LQ_BotID req \<and>
    LI_TokenHash l = hashToken (lc_sha lsvc) token \<and> LI_KnownServerID l = LQ_ServerID req \<and> LI_Status l = ''active'' \<and>
    LI_ExpiresAt l = (if 0 < LQ_ExpiresAt req then Some (LQ_ExpiresAt req * 1000000000) else None)"
proof -
  let ?exp = "if 0 < LQ_ExpiresAt req then Some (LQ_ExpiresAt req * 1000000000) else None"
  obtain found where sg: "lc_sign lsvc (io_now io 0) (''bot_'' @ fmt_d (LQ_BotID req)) ''license'' = Inr token"
    and f: "FindByBotID (io_flt io 1) (LQ_BotID req) (ls_rows s) = Inr found"
    using assms(1) by (auto simp: Issue_def Let_def case_prod_beta split: sum.splits)
  show ?thesis
  proof (cases found)
    case None
    then have none: "\<forall>x \<in> set (ls_rows s). LI_BotID x \<noteq> LQ_BotID req"
      using f by (auto simp: FindByBotID_def First_or_nil_def stmt_Inr First_row_None)
    obtain l where "ls_rows s' = ls_rows s @ [l]" "LI_BotID l = LQ_BotID req" "LI_TokenHash l = hashToken (lc_sha lsvc) token"
      "LI_KnownServerID l = LQ_ServerID req" "LI_Status l = ''active''" "LI_ExpiresAt l = ?exp"
      using assms(1) sg f None
      by (auto simp: Issue_def License_Create_def Let_def split: option.splits if_splits)
    with none show ?thesis by (auto intro!: exI [of _ l] First_row_unique)
  next
    case (Some e)
    then have e: "e \<in> set (ls_rows s)" "LI_BotID e = LQ_BotID req" using f by (auto dest: FindByBotID_row)
    let ?l = "e\<lparr>LI_InstanceID := LQ_InstanceID req, LI_OwnerID := LQ_OwnerID req, LI_PlanID := LQ_PlanID req,
                LI_TokenHash := hashToken (lc_sha lsvc) token, LI_KnownServerID := LQ_ServerID req,
                LI_Status := ''active'', LI_RevokedReason := [], LI_ExpiresAt := ?exp, LI_CloneFlagCount := 0\<rparr>"
    have "License_Save (io_shift 2 io) ?l (ls_rows s) = (Inr (), ls_rows s')"
      using assms(1) sg f Some by (auto simp: Issue_def Let_def split: prod.splits sum.splits)
    with Save_loaded [OF e(1), of ?l "io_shift 2 io"]
    have rows: "ls_rows s' = map (\<lambda>x. if LI_ID x = LI_ID e then ?l else x) (ls_rows s)" by auto
    have "First_row LI_ID (\<lambda>x. LI_BotID x = LQ_BotID req) (ls_rows s') = Some ?l"
      unfolding rows using e assms(2)
      by (intro First_row_unique) (auto simp: license_rows_ok_def image_iff dest: distinct_key_eq)
    with e(2) show ?thesis by auto
  qed
qed

text \<open>
  What is issued verifies, and nothing else does. After a license was issued, a check-in with its
  token is valid exactly until the expiry date, is reported as active or expired, and carries a clone
  warning exactly when it comes from another server than the one the license was issued for; a
  check-in with a token of another hash is refused.
\<close>

theorem issued_license_verifies:
  assumes "handleIssue r io (Some req) s = (Inr token, s')" "license_rows_ok (ls_rows s)" "io_ok io'"
    and "VQ_BotID q = LQ_BotID req" "VQ_Token q \<noteq> []"
  shows "if hashToken (lc_sha (lr_service r)) (VQ_Token q) = hashToken (lc_sha (lr_service r)) token
    then fst (handleVerify r io' (Some q) s') =
      \<lparr>VR_Valid = (LQ_ExpiresAt req \<le> 0 \<or> io_now io' 1 \<le> LQ_ExpiresAt req * 1000000000),
       VR_Status = (if 0 < LQ_ExpiresAt req \<and> LQ_ExpiresAt req * 1000000000 < io_now io' 0 then ''expired'' else ''active''),
       VR_CloneWarning = (LQ_ServerID req \<noteq> [] \<and> VQ_ServerID q \<noteq> [] \<and> LQ_ServerID req \<noteq> VQ_ServerID q), VR_Error = None\<rparr>
    else fst (handleVerify r io' (Some q) s') = verify_error (Errorf ''token mismatch'' [])"
proof -
  have req: "LQ_BotID req \<noteq> 0" "Issue (lr_service r) io req s = (Inr token, s')"
    using assms(1) by (auto simp: handleIssue_def split: if_splits)
  from Issue_row [OF req(2) assms(2)] obtain l where
    l: "First_row LI_ID (\<lambda>x. LI_BotID x = LQ_BotID req) (ls_rows s') = Some l"
      "LI_TokenHash l = hashToken (lc_sha (lr_service r)) token" "LI_KnownServerID l = LQ_ServerID req" "LI_Status l = ''active''"
      "LI_ExpiresAt l = (if 0 < LQ_ExpiresAt req then Some (LQ_ExpiresAt req * 1000000000) else None)" by blast
  have "FindByBotID (io_flt io' 0) (VQ_BotID q) (ls_rows s') = Inr (Some l)"
    using l(1) assms(3,4) by (simp add: FindByBotID_def First_or_nil_def)
  with l(2-5) req(1) assms(4,5) show ?thesis
    by (auto simp: handleVerify_def License_Verify_def Verify_load_def Verify_save_def IsActive_def Let_def)
qed

theorem issued_license_verifies_witness:
  "fst (handleVerify toy_responder demo_io (Some toy_verify) licensed) =
     \<lparr>VR_Valid = True, VR_Status = ''active'', VR_CloneWarning = True, VR_Error = None\<rparr>"
proof -
  have i: "handleIssue toy_responder demo_io (Some toy_issue) \<lparr>ls_rows = [], ls_events = []\<rparr> = (Inr ''bot_9license'', licensed)"
    by (simp add: licensed_eq licensed_rows)
  have io: "io_ok demo_io" by (simp add: demo_io_def io_ok_def)
  from issued_license_verifies [OF i _ io, of toy_verify] show ?thesis
    by (simp add: license_rows_ok_def toy_verify_def toy_issue_def)
qed

end
