(* ===== verification/Rotation.thy ===== *)
theory Rotation
  imports Consensus
begin

text \<open>
  Rotation of secrets (\<open>shared/pkg/rotation\<close>): every name has a current key and, for a period of grace,
  its previous one. Random bytes and the key store are inputs of the calls.
\<close>

section \<open>The manager (\<open>rotation.go\<close>)\<close>

record KeyPair =
  KP_Current :: string
  KP_Previous :: string
  KP_RotatedAt :: time

record Manager =
  mg_keys :: "string \<rightharpoonup> KeyPair"
  mg_gracePeriod :: int64
  mg_store :: bool  \<comment> \<open>whether a store is configured\<close>

definition New_Manager :: "bool \<Rightarrow> int64 \<Rightarrow> Manager" where
  "New_Manager store gracePeriod =
     \<lparr>mg_keys = (\<lambda>_. None), mg_gracePeriod = (if gracePeriod = 0 then 86400000000000 else gracePeriod), mg_store = store\<rparr>"

text \<open>The world of one call: random bytes or an error, the clock, and the answer of the store.\<close>

record rot_env =
  ro_rand :: "go_error + string"
  ro_now :: time
  ro_save :: "go_error option"

definition generateKey :: "go_error + string \<Rightarrow> go_error + string" where
  "generateKey rand = (case rand of Inl e \<Rightarrow> Inl e | Inr b \<Rightarrow> Inr (hexEncode b))"

definition Rotate :: "rot_env \<Rightarrow> string \<Rightarrow> Manager \<Rightarrow> (go_error + string) \<times> Manager" where
  "Rotate env name m =
     (case generateKey (ro_rand env) of
        Inl e \<Rightarrow> (Inl (Wrapf ''rotation: generate key: %w'' [] e), m)
      | Inr newKey \<Rightarrow>
          (let previous = (case mg_keys m name of Some existing \<Rightarrow> KP_Current existing | None \<Rightarrow> []);
               pair = \<lparr>KP_Current = newKey, KP_Previous = previous, KP_RotatedAt = ro_now env\<rparr>;
               m1 = m\<lparr>mg_keys := (mg_keys m)(name \<mapsto> pair)\<rparr>
           in if mg_store m
              then case ro_save env of
                     Some e \<Rightarrow> (Inl (Wrapf ''rotation: save: %w'' [] e), m1)
                   | None \<Rightarrow> (Inr newKey, m1)
              else (Inr newKey, m1)))"

definition Validate :: "time \<Rightarrow> string \<Rightarrow> string \<Rightarrow> Manager \<Rightarrow> bool" where
  "Validate now name key m =
     (case mg_keys m name of
        None \<Rightarrow> False
      | Some pair \<Rightarrow>
          (if key = KP_Current pair then True
           else if key = KP_Previous pair \<and> KP_Previous pair \<noteq> []
                then (if now - KP_RotatedAt pair < mg_gracePeriod m then True else False)
           else False))"

definition Current :: "string \<Rightarrow> Manager \<Rightarrow> go_error + string" where
  "Current name m =
     (case mg_keys m name of
        None \<Rightarrow> Inl (Errorf ''rotation: key %q not found'' [ArgStr name])
      | Some pair \<Rightarrow> Inr (KP_Current pair))"

text \<open>\<open>loaded\<close> is what the store answers.\<close>

definition Load :: "go_error + string \<times> string \<times> time \<Rightarrow> string \<Rightarrow> Manager \<Rightarrow> (go_error + unit) \<times> Manager" where
  "Load loaded name m =
     (if \<not> mg_store m then (Inr (), m)
      else case loaded of
        Inl e \<Rightarrow> (Inl e, m)
      | Inr (current, previous, rotatedAt) \<Rightarrow>
          (Inr (), m\<lparr>mg_keys := (mg_keys m)(name \<mapsto> \<lparr>KP_Current = current, KP_Previous = previous, KP_RotatedAt = rotatedAt\<rparr>)\<rparr>))"

text \<open>The names in the order in which Go ranges over the map; the first error ends the loop.\<close>

fun RotateAll :: "(nat \<Rightarrow> rot_env) \<Rightarrow> string list \<Rightarrow> Manager \<Rightarrow> ((string \<times> string) list \<times> go_error option) \<times> Manager" where
  "RotateAll envs [] m = (([], None), m)"
| "RotateAll envs (name # names) m =
     (case Rotate (envs 0) name m of
        (Inl e, m1) \<Rightarrow> (([], Some (Wrapf ''rotate %s: %w'' [ArgStr name] e)), m1)
      | (Inr newKey, m1) \<Rightarrow>
          (let ((result, err), m2) = RotateAll (\<lambda>i. envs (Suc i)) names m1 in (((name, newKey) # result, err), m2)))"

text \<open>A tick of \<open>ScheduleRotation\<close>: errors are ignored, and \<open>onRotate\<close> is called for the keys that came back.\<close>

fun rotation_tick :: "(nat \<Rightarrow> rot_env) \<Rightarrow> string list \<Rightarrow> Manager \<Rightarrow> (string \<times> string) list \<times> Manager" where
  "rotation_tick envs [] m = ([], m)"
| "rotation_tick envs (name # names) m =
     (let (r, m1) = Rotate (envs 0) name m; (calls, m2) = rotation_tick (\<lambda>i. envs (Suc i)) names m1
      in (case r of Inl _ \<Rightarrow> calls | Inr k \<Rightarrow> (name, k) # calls, m2))"

section \<open>Which keys are accepted\<close>

lemma Rotate_done:
  assumes "Rotate env name m = (Inr k, m')"
  shows "mg_keys m' = (mg_keys m)(name \<mapsto> \<lparr>KP_Current = k, KP_Previous = (case mg_keys m name of Some p \<Rightarrow> KP_Current p | None \<Rightarrow> []),
      KP_RotatedAt = ro_now env\<rparr>)" "mg_gracePeriod m' = mg_gracePeriod m"
  using assms by (auto simp: Rotate_def Let_def split: sum.splits if_splits option.splits)

text \<open>
  What a rotation does to the accepted keys. After a rotation of a name, exactly two keys are
  accepted for it: the new one always, and the one that was current before, when there was one, until
  the period of grace has passed; every older key is refused at once, and other names are as before.
\<close>

theorem rotation_accepts:
  assumes "Rotate env name m = (Inr k, m')"
  shows "(Validate t name key m' \<longleftrightarrow>
      key = k \<or> (t - ro_now env < mg_gracePeriod m \<and> key \<noteq> [] \<and> Current name m = Inr key)) \<and>
    (other \<noteq> name \<longrightarrow> Validate t other key m' = Validate t other key m)"
  using Rotate_done [OF assms] by (auto simp: Validate_def Current_def split: option.splits)

definition rot_demo :: "string \<Rightarrow> time \<Rightarrow> rot_env" where
  "rot_demo b t = \<lparr>ro_rand = Inr b, ro_now = t, ro_save = None\<rparr>"

definition rotated :: Manager where
  "rotated = snd (Rotate (rot_demo ''A'' 5) ''jwt'' (New_Manager True 100))"

theorem rotation_accepts_witness:
  "Validate 60 ''jwt'' (hexEncode ''A'') (snd (Rotate (rot_demo ''B'' 10) ''jwt'' rotated)) \<and>
   \<not> Validate 110 ''jwt'' (hexEncode ''A'') (snd (Rotate (rot_demo ''B'' 10) ''jwt'' rotated))"
proof -
  let ?m = "snd (Rotate (rot_demo ''B'' 10) ''jwt'' rotated)"
  have r: "Rotate (rot_demo ''B'' 10) ''jwt'' rotated = (Inr (hexEncode ''B''), ?m)"
    by (simp add: Rotate_def rot_demo_def rotated_def New_Manager_def generateKey_def Let_def)
  have c: "Current ''jwt'' rotated = Inr (hexEncode ''A'')" "mg_gracePeriod rotated = 100"
    by (simp_all add: rotated_def Rotate_def rot_demo_def New_Manager_def generateKey_def Let_def Current_def)
  have d: "hexEncode ''A'' \<noteq> hexEncode ''B''" "hexEncode ''A'' \<noteq> []" by code_simp+
  show ?thesis
    using rotation_accepts [OF r, of 60 "hexEncode ''A''"] rotation_accepts [OF r, of 110 "hexEncode ''A''"] c d
    by (simp add: rot_demo_def)
qed

text \<open>
  A rotation that fails in the store is not undone: it reports an error and hands out no key, but the
  manager accepts only the key that nobody got and, for the period of grace, the old one.
\<close>

lemma failed_rotation_rotates:
  assumes "mg_store m" "ro_rand env = Inr b" "ro_save env = Some e" "Current name m = Inr old" "old \<noteq> []" "old \<noteq> hexEncode b"
  shows "fst (Rotate env name m) = Inl (Wrapf ''rotation: save: %w'' [] e)"
    "Validate t name old (snd (Rotate env name m)) \<longleftrightarrow> t - ro_now env < mg_gracePeriod m"
  using assms by (auto simp: Rotate_def generateKey_def Let_def Validate_def Current_def split: option.splits)

end
