(* ===== verification/Mongo.thy ===== *)
theory Mongo
  imports GoRuntime
begin

text \<open>
  MongoDB collections as the source uses them through the driver: a collection is the list of its
  documents in natural order, a document a record. An update names the fields it writes, for the
  server refuses an update that writes one field twice; increments are 64-bit and refuse to overflow.
  Times are stored in milliseconds.
\<close>

section \<open>Values\<close>

definition bson_time :: "time \<Rightarrow> time" where
  "bson_time t = t div 1000000 * 1000000"

definition zero_time :: time where  \<comment> \<open>\<open>time.Time{}\<close>: the first of January of the year 1\<close>
  "zero_time = -62135596800000000000"

text \<open>\<open>t.Sub(u)\<close> saturates; durations divide towards zero.\<close>

definition time_Sub :: "time \<Rightarrow> time \<Rightarrow> int64" where
  "time_Sub t u = max MinInt64 (min MaxInt64 (t - u))"

definition go_mod :: "int64 \<Rightarrow> int64 \<Rightarrow> int64" where
  "go_mod a b = a - b * go_div a b"

definition AddDays :: "time \<Rightarrow> int \<Rightarrow> time" where  \<comment> \<open>\<open>AddDate(0, 0, d)\<close> in UTC\<close>
  "AddDays t d = t + d * 86400000000000"

definition pad :: "nat \<Rightarrow> int \<Rightarrow> string" where
  "pad k n = (let s = format_nat 10 (nat n) in replicate (k - length s) CHR ''0'' @ s)"

text \<open>\<open>Format("2006-01-02")\<close>: the date of a time in the Gregorian calendar, counted from the first of March of the year 0.\<close>

definition civil :: "int \<Rightarrow> int \<times> int \<times> int" where
  "civil days =
     (let z = days + 719468; era = z div 146097; doe = z mod 146097;
          yoe = (doe - doe div 1460 + doe div 36524 - doe div 146096) div 365;
          doy = doe - (365 * yoe + yoe div 4 - yoe div 100);
          mp = (5 * doy + 2) div 153;
          d = doy - (153 * mp + 2) div 5 + 1;
          m = (if mp < 10 then mp + 3 else mp - 9)
      in (yoe + era * 400 + (if m \<le> 2 then 1 else 0), m, d))"

definition Format_date :: "time \<Rightarrow> string" where
  "Format_date t =
     (let (y, m, d) = civil (t div 86400000000000)
      in pad 4 y @ ''-'' @ pad 2 m @ ''-'' @ pad 2 d)"

section \<open>Statements\<close>

fun update_first :: "('d \<Rightarrow> bool) \<Rightarrow> ('d \<Rightarrow> go_error + 'd) \<Rightarrow> 'd list \<Rightarrow> (go_error + 'd list) option" where
  "update_first P f [] = None"
| "update_first P f (d # ds) =
     (if P d then Some (case f d of Inl e \<Rightarrow> Inl e | Inr d' \<Rightarrow> Inr (d' # ds))
      else map_option (map_sum id (Cons d)) (update_first P f ds))"

text \<open>
  \<open>UpdateOne\<close> of the first match; \<open>paths\<close> has the fields that each operator writes, \<open>upsert\<close> the document to
  insert when nothing matches.
\<close>

definition UpdateOne ::
  "string option \<Rightarrow> string list list \<Rightarrow> 'd option \<Rightarrow> ('d \<Rightarrow> bool) \<Rightarrow> ('d \<Rightarrow> go_error + 'd) \<Rightarrow> 'd list \<Rightarrow> (go_error + unit) \<times> 'd list" where
  "UpdateOne flt paths upsert P f docs =
     (case flt of
        Some m \<Rightarrow> (Inl (DBErr m), docs)
      | None \<Rightarrow>
          (if \<not> distinct (concat paths) then (Inl (DBErr ''ConflictingUpdateOperators''), docs)
           else case update_first P f docs of
                  None \<Rightarrow> (Inr (), docs @ (case upsert of None \<Rightarrow> [] | Some d \<Rightarrow> [d]))
                | Some (Inl e) \<Rightarrow> (Inl e, docs)
                | Some (Inr docs') \<Rightarrow> (Inr (), docs')))"

definition InsertOne :: "string option \<Rightarrow> 'd \<Rightarrow> 'd list \<Rightarrow> (go_error + unit) \<times> 'd list" where
  "InsertOne flt d docs = (case flt of Some m \<Rightarrow> (Inl (DBErr m), docs) | None \<Rightarrow> (Inr (), docs @ [d]))"

definition CountDocuments :: "string option \<Rightarrow> ('d \<Rightarrow> bool) \<Rightarrow> 'd list \<Rightarrow> int \<times> go_error option" where
  "CountDocuments flt P docs = (case flt of Some m \<Rightarrow> (0, Some (DBErr m)) | None \<Rightarrow> (int (length (filter P docs)), None))"

text \<open>\<open>SetSort\<close>: descending order with ties in natural order.\<close>

definition sort_desc :: "('d \<Rightarrow> int) \<Rightarrow> 'd list \<Rightarrow> 'd list" where
  "sort_desc key = sort_key (\<lambda>d. - key d)"

text \<open>\<open>FindOne(...).Decode(&v)\<close>, where no document is no error: \<open>None\<close>, and a zero value on an error.\<close>

definition FindOne :: "string option \<Rightarrow> 'd \<Rightarrow> 'd list \<Rightarrow> 'd option \<times> go_error option" where
  "FindOne flt zero docs =
     (case flt of
        Some m \<Rightarrow> (Some zero, Some (DBErr m))
      | None \<Rightarrow> (case docs of [] \<Rightarrow> None | d # _ \<Rightarrow> Some d, None))"

text \<open>\<open>Find\<close>, then \<open>cur.All\<close> with its error dropped.\<close>

definition Find_All :: "io \<Rightarrow> 'd list \<Rightarrow> go_error + 'd list" where
  "Find_All io docs = stmt (io_flt io 0) (Inr (if io_flt io 1 = None then docs else []))"

section \<open>What statements keep\<close>

lemma update_first_Inr:
  "update_first P f ds = Some (Inr ds') \<Longrightarrow>
     \<exists>xs d ys d'. ds = xs @ d # ys \<and> P d \<and> (\<forall>x \<in> set xs. \<not> P x) \<and> f d = Inr d' \<and> ds' = xs @ d' # ys"
proof (induction ds arbitrary: ds')
  case (Cons d ds)
  show ?case
  proof (cases "P d")
    case True
    with Cons.prems obtain d' where "f d = Inr d'" "ds' = d' # ds" by (auto split: sum.splits)
    with True show ?thesis by fastforce
  next
    case False
    with Cons.prems obtain z where "update_first P f ds = Some z" "map_sum id (Cons d) z = Inr ds'" by auto
    then obtain r where r: "update_first P f ds = Some (Inr r)" "ds' = d # r" by (cases z) auto
    with Cons.IH [OF r(1)] obtain xs x ys x' where
      "ds = xs @ x # ys" "P x" "\<forall>x \<in> set xs. \<not> P x" "f x = Inr x'" "r = xs @ x' # ys" by auto
    with False r(2) show ?thesis by (intro exI [of _ "d # xs"]) auto
  qed
qed simp

lemma update_first_None [simp]: "update_first P f ds = None \<longleftrightarrow> (\<forall>d \<in> set ds. \<not> P d)"
  by (induction ds) auto

text \<open>What holds of all documents and is kept by the change holds after an update.\<close>

lemma UpdateOne_all:
  assumes "\<forall>d \<in> set docs. Q d" "\<And>d d'. Q d \<Longrightarrow> P d \<Longrightarrow> f d = Inr d' \<Longrightarrow> Q d'" "\<And>d. upsert = Some d \<Longrightarrow> Q d"
  shows "\<forall>d \<in> set (snd (UpdateOne flt paths upsert P f docs)). Q d"
  using assms by (auto simp: UpdateOne_def split: option.splits sum.splits dest!: update_first_Inr)

text \<open>Without an upsert, a field that the change keeps is kept throughout.\<close>

lemma UpdateOne_map:
  assumes "\<And>d d'. f d = Inr d' \<Longrightarrow> g d' = g d"
  shows "map g (snd (UpdateOne flt paths None P f docs)) = map g docs"
  using assms by (auto simp: UpdateOne_def split: option.splits sum.splits dest!: update_first_Inr)

lemma UpdateOne_empty [simp]: "snd (UpdateOne flt paths None P f []) = []"
  by (simp add: UpdateOne_def split: option.splits)

lemma UpdateOne_conflict: "\<not> distinct (concat paths) \<Longrightarrow> snd (UpdateOne flt paths upsert P f docs) = docs"
  by (simp add: UpdateOne_def split: option.splits)

lemma InsertOne_set: "set (snd (InsertOne flt d docs)) \<subseteq> insert d (set docs)"
  by (auto simp: InsertOne_def split: option.splits)

end
