(* ===== verification/Fraud.thy ===== *)
theory Fraud
  imports Mongo
begin

text \<open>
  The fraud engine (\<open>fraud-engine\<close>): profiles, memberships and activity of users in MongoDB, the trust
  score of a user and the quality score of a community, the NATS listeners that keep them up to date
  and the REST face. A text that explains a score is a constructor of \<open>Reason\<close>; descriptions of fraud
  events and logging are left out. Handlers run to their end one after the other; \<open>ios k\<close> is what the outside
  answers during the \<open>k\<close>-th call a handler makes.
\<close>

section \<open>Documents (\<open>store/models.go\<close>)\<close>

record UserProfile =
  UP_TelegramID :: int64
  UP_Username :: string
  UP_FirstName :: string
  UP_LastName :: string
  UP_HasPhoto :: bool
  UP_IsBot :: bool
  UP_FirstSeen :: time
  UP_LastSeen :: time
  UP_UpdatedAt :: time
  UP_TrustScore :: int64
  UP_ScoreLabel :: string
  UP_TotalJoins :: int64
  UP_TotalLeaves :: int64
  UP_TotalCampaigns :: int64
  UP_AdCompletions :: int64

definition zero_profile :: UserProfile where
  "zero_profile = \<lparr>UP_TelegramID = 0, UP_Username = [], UP_FirstName = [], UP_LastName = [], UP_HasPhoto = False,
     UP_IsBot = False, UP_FirstSeen = zero_time, UP_LastSeen = zero_time, UP_UpdatedAt = zero_time, UP_TrustScore = 0,
     UP_ScoreLabel = [], UP_TotalJoins = 0, UP_TotalLeaves = 0, UP_TotalCampaigns = 0, UP_AdCompletions = 0\<rparr>"

definition profile_fields :: "string list" where
  "profile_fields =
     [''_id'', ''username'', ''first_name'', ''last_name'', ''has_photo'', ''is_bot'', ''first_seen'', ''last_seen'',
      ''updated_at'', ''trust_score'', ''score_label'', ''total_joins'', ''total_leaves'', ''total_campaigns'', ''ad_completions'']"

record UserProfileHistory =
  PH_TelegramID :: int64
  PH_Field :: string
  PH_OldValue :: string
  PH_NewValue :: string
  PH_ChangedAt :: time

record UserMembership =
  UM_TelegramID :: int64
  UM_CommunityID :: int64
  UM_JoinedAt :: time
  UM_LeftAt :: "time option"
  UM_DurationSec :: int64
  UM_RejoinCount :: int64
  UM_Source :: string
  UM_CampaignID :: string

definition Duration_Hours :: "int64 \<Rightarrow> f64" where  \<comment> \<open>\<open>Duration.Hours\<close>\<close>
  "Duration_Hours d =
     f64_add (f64_of_int (go_div d 3600000000000)) (f64_div (f64_of_int (go_mod d 3600000000000)) 3600000000000)"

definition Duration_Seconds :: "int64 \<Rightarrow> f64" where  \<comment> \<open>\<open>Duration.Seconds\<close>\<close>
  "Duration_Seconds d =
     f64_add (f64_of_int (go_div d 1000000000)) (f64_div (f64_of_int (go_mod d 1000000000)) 1000000000)"

definition DurationDays :: "time \<Rightarrow> UserMembership \<Rightarrow> f64" where
  "DurationDays now m =
     (if UM_DurationSec m < 0 then f64_div (Duration_Hours (time_Sub now (UM_JoinedAt m))) 24
      else f64_div (f64_of_int (UM_DurationSec m)) 86400)"

definition IsShortTerm :: "time \<Rightarrow> UserMembership \<Rightarrow> bool" where
  "IsShortTerm now m = f64_lt (DurationDays now m) (Fin 1)"

record UserActivity =
  UA_TelegramID :: int64
  UA_CommunityID :: int64
  UA_Date :: string
  UA_Messages :: int64
  UA_Replies :: int64
  UA_Reactions :: int64
  UA_UpdatedAt :: time

datatype Reason =
    ShortMembership | AbnormalJoinLeave | NoActivity | LowRetention | TooManyCommunities | IncompleteProfile | BotAccount
  | LowMemberRetention | LowMemberActivity | LowMemberTrust | HighLeaveRate

record ScoreBreakdown =
  SB_MembershipDuration :: f64
  SB_JoinLeaveRatio :: f64
  SB_ActivityScore :: f64
  SB_RetentionScore :: f64
  SB_DiversityScore :: f64
  SB_AdQualityScore :: f64
  SB_Reasons :: "Reason list"

record UserScoreSnapshot =
  US_TelegramID :: int64
  US_Score :: int64
  US_Breakdown :: ScoreBreakdown
  US_CalculatedAt :: time

record CommunityBreakdown =
  CB_RetentionRate :: f64
  CB_ActivityRate :: f64
  CB_AvgMemberQuality :: f64
  CB_JoinLeaveRate :: f64
  CB_AdConversionRate :: f64
  CB_Reasons :: "Reason list"

record CommunityScoreSnapshot =
  CS_CommunityID :: int64
  CS_Score :: int64
  CS_Breakdown :: CommunityBreakdown
  CS_CalculatedAt :: time
  CS_RevenueStatus :: string

record CommunityStatistics =
  ST_CommunityID :: int64
  ST_MemberCount :: int64
  ST_ActiveMembers :: int64
  ST_TotalJoins :: int64
  ST_TotalLeaves :: int64
  ST_AvgTrustScore :: f64
  ST_UpdatedAt :: time

record FraudEvent =
  FE_EventType :: string
  FE_TelegramID :: "int64 option"
  FE_CommunityID :: "int64 option"
  FE_Score :: int64
  FE_Evidence :: "(string \<times> int64) list"
  FE_DetectedAt :: time
  FE_Reviewed :: bool

definition UserScoreLabel :: "int64 \<Rightarrow> string" where
  "UserScoreLabel score =
     (if 80 \<le> score then ''trusted'' else if 60 \<le> score then ''normal'' else if 30 \<le> score then ''suspicious'' else ''high_risk'')"

definition CommunityRevenueStatus :: "int64 \<Rightarrow> string" where
  "CommunityRevenueStatus score =
     (if 80 \<le> score then ''normal'' else if 50 \<le> score then ''monitored'' else if 30 \<le> score then ''partial_hold'' else ''frozen'')"

section \<open>Collections (\<open>store/store.go\<close>)\<close>

record fraud_db =
  fd_profiles :: "UserProfile list"
  fd_history :: "UserProfileHistory list"
  fd_memberships :: "UserMembership list"
  fd_activity :: "UserActivity list"
  fd_user_scores :: "UserScoreSnapshot list"
  fd_community_scores :: "CommunityScoreSnapshot list"
  fd_statistics :: "CommunityStatistics list"
  fd_events :: "FraudEvent list"

definition bson_profile :: "UserProfile \<Rightarrow> UserProfile" where
  "bson_profile p = p\<lparr>UP_FirstSeen := bson_time (UP_FirstSeen p), UP_LastSeen := bson_time (UP_LastSeen p),
     UP_UpdatedAt := bson_time (UP_UpdatedAt p)\<rparr>"

definition UpsertProfile :: "io \<Rightarrow> UserProfile \<Rightarrow> fraud_db \<Rightarrow> (go_error + unit) \<times> fraud_db" where
  "UpsertProfile io p db =
     (let p1 = p\<lparr>UP_UpdatedAt := io_now io 0\<rparr>;
          p2 = (if UP_FirstSeen p1 = zero_time then p1\<lparr>UP_FirstSeen := io_now io 1\<rparr> else p1);
          p3 = p2\<lparr>UP_LastSeen := io_now io 2\<rparr>;
          (r, docs) = UpdateOne (io_flt io 0) [profile_fields, [''first_seen'']] (Some (bson_profile p3))
            (\<lambda>d. UP_TelegramID d = UP_TelegramID p3) (\<lambda>d. Inr (bson_profile p3)) (fd_profiles db)
      in (r, db\<lparr>fd_profiles := docs\<rparr>))"

definition GetProfile :: "string option \<Rightarrow> int64 \<Rightarrow> fraud_db \<Rightarrow> UserProfile option \<times> go_error option" where
  "GetProfile flt telegramID db =
     FindOne flt zero_profile (filter (\<lambda>p. UP_TelegramID p = telegramID) (fd_profiles db))"

definition UpdateTrustScore :: "io \<Rightarrow> int64 \<Rightarrow> int64 \<Rightarrow> ScoreBreakdown \<Rightarrow> fraud_db \<Rightarrow> (go_error + unit) \<times> fraud_db" where
  "UpdateTrustScore io telegramID score breakdown db =
     (let (r, docs) = UpdateOne (io_flt io 0) [[''trust_score'', ''score_label'', ''updated_at'']] None
            (\<lambda>d. UP_TelegramID d = telegramID)
            (\<lambda>d. Inr (d\<lparr>UP_TrustScore := score, UP_ScoreLabel := UserScoreLabel score, UP_UpdatedAt := bson_time (io_now io 0)\<rparr>))
            (fd_profiles db);
          db1 = db\<lparr>fd_profiles := docs\<rparr>
      in case r of
           Inl e \<Rightarrow> (Inl e, db1)
         | Inr _ \<Rightarrow>
             (let (r2, snaps) = InsertOne (io_flt io 1)
                    \<lparr>US_TelegramID = telegramID, US_Score = score, US_Breakdown = breakdown, US_CalculatedAt = bson_time (io_now io 1)\<rparr>
                    (fd_user_scores db1)
              in (r2, db1\<lparr>fd_user_scores := snaps\<rparr>)))"

definition RecordProfileChange :: "io \<Rightarrow> UserProfileHistory \<Rightarrow> fraud_db \<Rightarrow> fraud_db" where
  "RecordProfileChange io h db =
     db\<lparr>fd_history := snd (InsertOne (io_flt io 0) (h\<lparr>PH_ChangedAt := bson_time (io_now io 0)\<rparr>) (fd_history db))\<rparr>"

definition inc_profile_joins :: "UserProfile \<Rightarrow> go_error + UserProfile" where
  "inc_profile_joins p = (case bigint (UP_TotalJoins p + 1) of Inl e \<Rightarrow> Inl e | Inr n \<Rightarrow> Inr (p\<lparr>UP_TotalJoins := n\<rparr>))"

definition inc_profile_leaves :: "UserProfile \<Rightarrow> go_error + UserProfile" where
  "inc_profile_leaves p = (case bigint (UP_TotalLeaves p + 1) of Inl e \<Rightarrow> Inl e | Inr n \<Rightarrow> Inr (p\<lparr>UP_TotalLeaves := n\<rparr>))"

definition inc_statistics :: "int \<Rightarrow> int \<Rightarrow> int \<Rightarrow> time \<Rightarrow> CommunityStatistics \<Rightarrow> go_error + CommunityStatistics" where
  "inc_statistics joins leaves members now st =
     (if in_int64 (ST_TotalJoins st + joins) \<and> in_int64 (ST_TotalLeaves st + leaves) \<and> in_int64 (ST_MemberCount st + members)
      then Inr (st\<lparr>ST_TotalJoins := ST_TotalJoins st + joins, ST_TotalLeaves := ST_TotalLeaves st + leaves,
                   ST_MemberCount := ST_MemberCount st + members, ST_UpdatedAt := bson_time now\<rparr>)
      else Inl (DBErr ''overflow''))"

definition RecordJoin :: "io \<Rightarrow> UserMembership \<Rightarrow> fraud_db \<Rightarrow> (go_error + unit) \<times> fraud_db" where
  "RecordJoin io m db =
     (let (count, _) = CountDocuments (io_flt io 0)
            (\<lambda>d. UM_TelegramID d = UM_TelegramID m \<and> UM_CommunityID d = UM_CommunityID m) (fd_memberships db);
          m1 = m\<lparr>UM_JoinedAt := bson_time (io_now io 0), UM_DurationSec := -1, UM_RejoinCount := count\<rparr>;
          (_, ps) = UpdateOne (io_flt io 1) [[''total_joins'']] None (\<lambda>p. UP_TelegramID p = UM_TelegramID m)
            inc_profile_joins (fd_profiles db);
          (_, sts) = UpdateOne (io_flt io 2) [[''total_joins'', ''member_count''], [''updated_at'']]
            (Some \<lparr>ST_CommunityID = UM_CommunityID m, ST_MemberCount = 1, ST_ActiveMembers = 0, ST_TotalJoins = 1,
                   ST_TotalLeaves = 0, ST_AvgTrustScore = Fin 0, ST_UpdatedAt = bson_time (io_now io 1)\<rparr>)
            (\<lambda>st. ST_CommunityID st = UM_CommunityID m) (inc_statistics 1 0 1 (io_now io 1)) (fd_statistics db);
          (r, ms) = InsertOne (io_flt io 3) m1 (fd_memberships db)
      in (r, db\<lparr>fd_profiles := ps, fd_statistics := sts, fd_memberships := ms\<rparr>))"

definition open_at :: "int64 \<Rightarrow> int64 \<Rightarrow> UserMembership \<Rightarrow> bool" where
  "open_at telegramID communityID m \<longleftrightarrow>
     UM_TelegramID m = telegramID \<and> UM_CommunityID m = communityID \<and> UM_LeftAt m = None"

definition close_membership :: "io \<Rightarrow> int64 \<Rightarrow> int64 \<Rightarrow> UserMembership list \<Rightarrow> UserMembership list" where
  "close_membership io telegramID communityID ms =
     (case io_flt io 0 of
        Some _ \<Rightarrow> ms
      | None \<Rightarrow>
          (case sort_desc UM_JoinedAt (filter (open_at telegramID communityID) ms) of
             [] \<Rightarrow> ms
           | m # _ \<Rightarrow>
               snd (UpdateOne (io_flt io 1) [[''left_at'', ''duration_sec'']] None (open_at telegramID communityID)
                 (\<lambda>d. Inr (d\<lparr>UM_LeftAt := Some (bson_time (io_now io 0)),
                             UM_DurationSec := f64_to_int (Duration_Seconds (time_Sub (io_now io 0) (UM_JoinedAt m)))\<rparr>)) ms)))"

definition RecordLeave :: "io \<Rightarrow> int64 \<Rightarrow> int64 \<Rightarrow> fraud_db \<Rightarrow> fraud_db" where
  "RecordLeave io telegramID communityID db =
     (let ms = close_membership io telegramID communityID (fd_memberships db);
          (_, ps) = UpdateOne (io_flt io 2) [[''total_leaves'']] None (\<lambda>p. UP_TelegramID p = telegramID)
            inc_profile_leaves (fd_profiles db);
          (_, sts) = UpdateOne (io_flt io 3) [[''total_leaves'', ''member_count''], [''updated_at'']] None
            (\<lambda>st. ST_CommunityID st = communityID) (inc_statistics 0 1 (-1) (io_now io 0)) (fd_statistics db)
      in db\<lparr>fd_memberships := ms, fd_profiles := ps, fd_statistics := sts\<rparr>)"

definition GetRecentMemberships :: "io \<Rightarrow> int64 \<Rightarrow> int \<Rightarrow> fraud_db \<Rightarrow> go_error + UserMembership list" where
  "GetRecentMemberships io telegramID days db =
     Find_All io (filter (\<lambda>m. UM_TelegramID m = telegramID \<and> bson_time (AddDays (io_now io 0) (- days)) \<le> UM_JoinedAt m)
       (fd_memberships db))"

definition GetMembershipHistory :: "io \<Rightarrow> int64 \<Rightarrow> int64 \<Rightarrow> fraud_db \<Rightarrow> go_error + UserMembership list" where
  "GetMembershipHistory io telegramID communityID db =
     Find_All io (sort_desc UM_JoinedAt
       (filter (\<lambda>m. UM_TelegramID m = telegramID \<and> UM_CommunityID m = communityID) (fd_memberships db)))"

definition RecordActivity ::
  "io \<Rightarrow> int64 \<Rightarrow> int64 \<Rightarrow> int64 \<Rightarrow> int64 \<Rightarrow> int64 \<Rightarrow> fraud_db \<Rightarrow> (go_error + unit) \<times> fraud_db" where
  "RecordActivity io telegramID communityID msgCount replies reactions db =
     (let date = Format_date (io_now io 0);
          (r, as) = UpdateOne (io_flt io 0) [[''messages'', ''replies'', ''reactions''], [''updated_at'']]
            (Some \<lparr>UA_TelegramID = telegramID, UA_CommunityID = communityID, UA_Date = date, UA_Messages = msgCount,
                   UA_Replies = replies, UA_Reactions = reactions, UA_UpdatedAt = bson_time (io_now io 1)\<rparr>)
            (\<lambda>a. UA_TelegramID a = telegramID \<and> UA_CommunityID a = communityID \<and> UA_Date a = date)
            (\<lambda>a. if in_int64 (UA_Messages a + msgCount) \<and> in_int64 (UA_Replies a + replies) \<and> in_int64 (UA_Reactions a + reactions)
                 then Inr (a\<lparr>UA_Messages := UA_Messages a + msgCount, UA_Replies := UA_Replies a + replies,
                             UA_Reactions := UA_Reactions a + reactions, UA_UpdatedAt := bson_time (io_now io 1)\<rparr>)
                 else Inl (DBErr ''overflow'')) (fd_activity db)
      in (r, db\<lparr>fd_activity := as\<rparr>))"

definition GetActivityDays :: "io \<Rightarrow> int64 \<Rightarrow> int \<Rightarrow> fraud_db \<Rightarrow> int \<times> go_error option" where
  "GetActivityDays io telegramID days db =
     CountDocuments (io_flt io 0)
       (\<lambda>a. UA_TelegramID a = telegramID \<and> bson_time (AddDays (io_now io 0) (- days)) \<le> UA_UpdatedAt a) (fd_activity db)"

definition UpdateCommunityScore :: "io \<Rightarrow> int64 \<Rightarrow> int64 \<Rightarrow> CommunityBreakdown \<Rightarrow> fraud_db \<Rightarrow> fraud_db" where
  "UpdateCommunityScore io communityID score breakdown db =
     db\<lparr>fd_community_scores := snd (InsertOne (io_flt io 0)
         \<lparr>CS_CommunityID = communityID, CS_Score = score, CS_Breakdown = breakdown, CS_CalculatedAt = bson_time (io_now io 0),
          CS_RevenueStatus = CommunityRevenueStatus score\<rparr> (fd_community_scores db))\<rparr>"

definition zero_breakdown :: CommunityBreakdown where
  "zero_breakdown = \<lparr>CB_RetentionRate = Fin 0, CB_ActivityRate = Fin 0, CB_AvgMemberQuality = Fin 0, CB_JoinLeaveRate = Fin 0,
     CB_AdConversionRate = Fin 0, CB_Reasons = []\<rparr>"

definition GetLatestCommunityScore :: "string option \<Rightarrow> int64 \<Rightarrow> fraud_db \<Rightarrow> CommunityScoreSnapshot option \<times> go_error option" where
  "GetLatestCommunityScore flt communityID db =
     FindOne flt \<lparr>CS_CommunityID = 0, CS_Score = 0, CS_Breakdown = zero_breakdown, CS_CalculatedAt = zero_time, CS_RevenueStatus = []\<rparr>
       (sort_desc CS_CalculatedAt (filter (\<lambda>c. CS_CommunityID c = communityID) (fd_community_scores db)))"

definition GetCommunityStats :: "string option \<Rightarrow> int64 \<Rightarrow> fraud_db \<Rightarrow> CommunityStatistics option \<times> go_error option" where
  "GetCommunityStats flt communityID db =
     FindOne flt \<lparr>ST_CommunityID = 0, ST_MemberCount = 0, ST_ActiveMembers = 0, ST_TotalJoins = 0, ST_TotalLeaves = 0,
         ST_AvgTrustScore = Fin 0, ST_UpdatedAt = zero_time\<rparr>
       (filter (\<lambda>st. ST_CommunityID st = communityID) (fd_statistics db))"

text \<open>The pipeline joins every open membership with the profile of its user and averages their scores.\<close>

definition GetAvgTrustScoreForCommunity :: "io \<Rightarrow> int64 \<Rightarrow> fraud_db \<Rightarrow> f64 \<times> go_error option" where
  "GetAvgTrustScoreForCommunity io communityID db =
     (let scores = concat (map (\<lambda>m. map UP_TrustScore (filter (\<lambda>p. UP_TelegramID p = UM_TelegramID m) (fd_profiles db)))
            (filter (\<lambda>m. UM_CommunityID m = communityID \<and> UM_LeftAt m = None) (fd_memberships db)))
      in case io_flt io 0 of
           Some e \<Rightarrow> (Fin 50, Some (DBErr e))
         | None \<Rightarrow> (if io_flt io 1 \<noteq> None \<or> scores = [] then Fin 50
                   else f64_div (f64_of_int (sum_list scores)) (of_nat (length scores)), None))"

definition RecordFraudEvent :: "io \<Rightarrow> FraudEvent \<Rightarrow> fraud_db \<Rightarrow> fraud_db" where
  "RecordFraudEvent io e db =
     db\<lparr>fd_events := snd (InsertOne (io_flt io 0) (e\<lparr>FE_DetectedAt := bson_time (io_now io 0)\<rparr>) (fd_events db))\<rparr>"

definition GetFraudEvents :: "io \<Rightarrow> int64 \<Rightarrow> nat \<Rightarrow> fraud_db \<Rightarrow> go_error + FraudEvent list" where
  "GetFraudEvents io telegramID limit db =
     Find_All io (take limit (sort_desc FE_DetectedAt (filter (\<lambda>e. FE_TelegramID e = Some telegramID) (fd_events db))))"

definition ListUsersForRecalc :: "io \<Rightarrow> int64 \<Rightarrow> nat \<Rightarrow> fraud_db \<Rightarrow> go_error + int64 list" where
  "ListUsersForRecalc io afterID limit db =
     Find_All io (take limit (sort (filter (\<lambda>i. afterID < i) (map UP_TelegramID (fd_profiles db)))))"

end
