(* ===== verification/FraudEngine.thy ===== *)
theory FraudEngine
  imports Fraud
begin

text \<open>
  The scorers of the fraud engine (\<open>scorer\<close>), its processor (\<open>processor\<close>) and REST handlers (\<open>api\<close>), the client of
  the other services (\<open>shared/pkg/fraudclient\<close>) and the publisher of membership events in member-bot
  (\<open>member-bot/internal/events\<close>). A message on the bus is a JSON object, a list of keys and values.
\<close>

section \<open>Floats\<close>

text \<open>\<open>x / y\<close> for two floats, and \<open>math.Min\<close>.\<close>

definition f64_quot :: "f64 \<Rightarrow> f64 \<Rightarrow> f64" where
  "f64_quot x y =
     (case y of
        NaN \<Rightarrow> NaN
      | Fin q \<Rightarrow> (if q \<noteq> 0 then f64_div x q
                 else case x of Fin p \<Rightarrow> (if p = 0 then NaN else if 0 < p then PInf else NInf) | z \<Rightarrow> z)
      | _ \<Rightarrow> (case x of Fin _ \<Rightarrow> Fin 0 | _ \<Rightarrow> NaN))"

definition math_Min :: "f64 \<Rightarrow> f64 \<Rightarrow> f64" where
  "math_Min x y =
     (if x = NInf \<or> y = NInf then NInf else if x = NaN \<or> y = NaN then NaN else if f64_lt x y then x else y)"

section \<open>User trust score (\<open>user_scorer.go\<close>)\<close>

fun total_days :: "(nat \<Rightarrow> time) \<Rightarrow> f64 \<Rightarrow> UserMembership list \<Rightarrow> f64" where
  "total_days now t [] = t"
| "total_days now t (m # ms) = total_days (\<lambda>i. now (Suc i)) (f64_add t (DurationDays (now 0) m)) ms"

definition avgMembershipDays :: "(nat \<Rightarrow> time) \<Rightarrow> UserMembership list \<Rightarrow> f64" where
  "avgMembershipDays now ms = (if ms = [] then Fin 0 else f64_quot (total_days now (Fin 0) ms) (f64_of_int (int (length ms))))"

definition calcRetentionScore :: "UserMembership list \<Rightarrow> f64" where
  "calcRetentionScore ms =
     (if ms = [] then Fin 10
      else f64_mul (f64_quot (f64_of_int (int (length (filter (\<lambda>m. UM_LeftAt m = None) ms)))) (f64_of_int (int (length ms)))) (Fin 20))"

definition uniqueCommunities :: "UserMembership list \<Rightarrow> int64 list" where
  "uniqueCommunities ms = remdups (map UM_CommunityID ms)"

definition duration_score :: "f64 \<Rightarrow> f64 \<times> Reason list" where
  "duration_score avg =
     (if f64_le (Fin 30) avg then (Fin 25, []) else if f64_le (Fin 14) avg then (Fin 20, [])
      else if f64_le (Fin 7) avg then (Fin 15, []) else if f64_le (Fin 3) avg then (Fin 10, [])
      else if f64_le (Fin 1) avg then (Fin 5, []) else (Fin 0, [ShortMembership]))"

definition join_leave_score :: "int64 \<Rightarrow> int64 \<Rightarrow> f64 \<times> Reason list" where
  "join_leave_score leaves joins =
     (if joins = 0 then (Fin 10, [])
      else let ratio = f64_quot (f64_of_int leaves) (f64_of_int joins)
           in if f64_lt (rnd (9 / 10)) ratio then (Fin 0, [AbnormalJoinLeave])
              else if f64_lt (rnd (7 / 10)) ratio then (Fin 5, [])
              else if f64_lt (rnd (1 / 2)) ratio then (Fin 10, [])
              else if f64_lt (rnd (3 / 10)) ratio then (Fin 15, []) else (Fin 20, []))"

definition diversity_score :: "nat \<Rightarrow> f64 \<times> Reason list" where
  "diversity_score n =
     (if n = 0 then (Fin 0, []) else if n \<le> 2 then (Fin 3, []) else if n \<le> 5 then (Fin 7, [])
      else if 20 < n then (Fin 3, [TooManyCommunities]) else (Fin 10, []))"

definition ad_score :: "UserProfile \<Rightarrow> f64" where
  "ad_score p =
     (if 0 < UP_TotalCampaigns p
      then f64_mul (f64_quot (f64_of_int (UP_AdCompletions p)) (f64_of_int (UP_TotalCampaigns p))) (Fin 5)
      else Fin 0)"

definition sum_scores :: "f64 list \<Rightarrow> f64" where
  "sum_scores xs = foldl f64_add (hd xs) (tl xs)"

definition scale_score :: "int64 \<Rightarrow> rat \<Rightarrow> int64" where  \<comment> \<open>\<open>int(float64(score) * c)\<close>\<close>
  "scale_score score c = f64_to_int (f64_mul (f64_of_int score) (rnd c))"

definition penalize :: "UserProfile \<Rightarrow> int64 \<Rightarrow> int64 \<times> Reason list" where
  "penalize profile score =
     (let (score, r1) = (if \<not> UP_HasPhoto profile \<and> UP_Username profile = []
                         then (scale_score score (85 / 100), [IncompleteProfile]) else (score, []));
          (score, r2) = (if UP_IsBot profile then (scale_score score (1 / 2), [BotAccount]) else (score, []))
      in (score, r1 @ r2))"

definition empty_score :: ScoreBreakdown where
  "empty_score = \<lparr>SB_MembershipDuration = Fin 0, SB_JoinLeaveRatio = Fin 0, SB_ActivityScore = Fin 0, SB_RetentionScore = Fin 0,
     SB_DiversityScore = Fin 0, SB_AdQualityScore = Fin 0, SB_Reasons = []\<rparr>"

text \<open>The errors of the four reads are dropped.\<close>

definition UserScorer_Calculate :: "(nat \<Rightarrow> io) \<Rightarrow> int64 \<Rightarrow> fraud_db \<Rightarrow> int64 \<times> ScoreBreakdown" where
  "UserScorer_Calculate ios telegramID db =
     (case fst (GetProfile (io_flt (ios 0) 0) telegramID db) of
        None \<Rightarrow> (50, empty_score)
      | Some profile \<Rightarrow>
          (let memberships = (case GetRecentMemberships (ios 1) telegramID 90 db of Inl _ \<Rightarrow> [] | Inr l \<Rightarrow> l);
               (durationScore, r1) = duration_score (avgMembershipDays (io_now (ios 2)) memberships);
               (joinLeaveScore, r2) = join_leave_score (UP_TotalLeaves profile) (UP_TotalJoins profile);
               activeDays = fst (GetActivityDays (ios 3) telegramID 30 db);
               activityScore = math_Min (f64_mul (f64_of_int activeDays) (rnd (67 / 100))) (Fin 20);
               r3 = (if activeDays = 0 then [NoActivity] else []);
               retentionScore = calcRetentionScore memberships;
               r4 = (if f64_lt retentionScore (Fin 5) then [LowRetention] else []);
               (diversityScore, r5) = diversity_score (length (uniqueCommunities memberships));
               adScore = ad_score profile;
               score = f64_to_int (math_Min
                 (sum_scores [durationScore, joinLeaveScore, activityScore, retentionScore, diversityScore, adScore]) (Fin 100));
               (score, r6) = penalize profile score
           in (max score 0,
               \<lparr>SB_MembershipDuration = durationScore, SB_JoinLeaveRatio = joinLeaveScore, SB_ActivityScore = activityScore,
                SB_RetentionScore = retentionScore, SB_DiversityScore = diversityScore, SB_AdQualityScore = adScore,
                SB_Reasons = r1 @ r2 @ r3 @ r4 @ r5 @ r6\<rparr>)))"

section \<open>Community quality score (\<open>community_scorer.go\<close>)\<close>

definition calcCommunityRetention :: "CommunityStatistics \<Rightarrow> f64" where
  "calcCommunityRetention st =
     (if ST_TotalJoins st = 0 then rnd (1 / 2)
      else math_Min (f64_quot (f64_of_int (ST_MemberCount st)) (f64_of_int (ST_TotalJoins st))) (Fin 1))"

definition leave_score :: "CommunityStatistics \<Rightarrow> f64 \<times> f64 \<times> Reason list" where  \<comment> \<open>score, rate, reasons\<close>
  "leave_score st =
     (if 0 < ST_TotalJoins st
      then let leaveRatio = f64_quot (f64_of_int (ST_TotalLeaves st)) (f64_of_int (ST_TotalJoins st))
           in if f64_lt (rnd (9 / 10)) leaveRatio then (Fin 0, leaveRatio, [HighLeaveRate])
              else if f64_lt (rnd (7 / 10)) leaveRatio then (Fin 3, leaveRatio, [])
              else if f64_lt (rnd (1 / 2)) leaveRatio then (Fin 6, leaveRatio, []) else (Fin 10, leaveRatio, [])
      else (Fin 5, Fin 0, []))"

definition CommunityScorer_Calculate :: "(nat \<Rightarrow> io) \<Rightarrow> int64 \<Rightarrow> fraud_db \<Rightarrow> int64 \<times> CommunityBreakdown" where
  "CommunityScorer_Calculate ios communityID db =
     (case fst (GetCommunityStats (io_flt (ios 0) 0) communityID db) of
        None \<Rightarrow> (50, zero_breakdown)
      | Some st \<Rightarrow>
          (if ST_MemberCount st = 0 then (50, zero_breakdown)
           else let retentionRate = calcCommunityRetention st;
                    retentionScore = f64_mul retentionRate (Fin 30);
                    r1 = (if f64_lt retentionRate (rnd (3 / 10)) then [LowMemberRetention] else []);
                    activityRate = (if 0 < ST_MemberCount st
                                    then f64_quot (f64_of_int (ST_ActiveMembers st)) (f64_of_int (ST_MemberCount st)) else Fin 0);
                    activityScore = math_Min (f64_mul activityRate (Fin 20)) (Fin 20);
                    r2 = (if f64_lt activityRate (rnd (1 / 10)) then [LowMemberActivity] else []);
                    avgTrust = fst (GetAvgTrustScoreForCommunity (ios 1) communityID db);
                    memberQualityScore = f64_mul avgTrust (rnd (3 / 10));
                    r3 = (if f64_lt avgTrust (Fin 40) then [LowMemberTrust] else []);
                    (joinLeaveScore, joinLeaveRate, r4) = leave_score st;
                    score = f64_to_int (math_Min
                      (sum_scores [retentionScore, activityScore, memberQualityScore, joinLeaveScore, Fin 5]) (Fin 100))
                in (max score 0,
                    \<lparr>CB_RetentionRate = retentionRate, CB_ActivityRate = activityRate, CB_AvgMemberQuality = avgTrust,
                     CB_JoinLeaveRate = joinLeaveRate, CB_AdConversionRate = rnd (1 / 2), CB_Reasons = r1 @ r2 @ r3 @ r4\<rparr>)))"

definition WeightedMemberCount :: "int64 list \<Rightarrow> f64" where
  "WeightedMemberCount memberScores = foldl (\<lambda>t score. f64_add t (f64_div (f64_of_int score) 100)) (Fin 0) memberScores"

definition RevenueMultiplier :: "int64 \<Rightarrow> f64" where
  "RevenueMultiplier score =
     (if 80 \<le> score then Fin 1 else if 50 \<le> score then rnd (8 / 10) else if 30 \<le> score then rnd (1 / 2) else Fin 0)"

section \<open>Processor (\<open>processor.go\<close>)\<close>

datatype fraud_msg =
    UserScoreUpdated int64 int64 string ScoreBreakdown int64
  | CommunityScoreUpdated int64 int64 string f64 int64
  | FraudDetected string int64 int64 int64

record fraud =
  fr_db :: fraud_db
  fr_published :: "fraud_msg list"

definition fr_publish :: "string option \<Rightarrow> fraud_msg \<Rightarrow> fraud \<Rightarrow> fraud" where
  "fr_publish flt m s = (case flt of None \<Rightarrow> s\<lparr>fr_published := fr_published s @ [m]\<rparr> | Some _ \<Rightarrow> s)"

definition on_fraud_db :: "(fraud_db \<Rightarrow> fraud_db) \<Rightarrow> fraud \<Rightarrow> fraud" where
  "on_fraud_db f s = s\<lparr>fr_db := f (fr_db s)\<rparr>"

definition Unix :: "time \<Rightarrow> int64" where
  "Unix t = t div 1000000000"

definition recalcUserScore :: "(nat \<Rightarrow> io) \<Rightarrow> int64 \<Rightarrow> fraud \<Rightarrow> fraud" where
  "recalcUserScore ios telegramID s =
     (let (score, breakdown) = UserScorer_Calculate ios telegramID (fr_db s);
          s1 = on_fraud_db (\<lambda>db. snd (UpdateTrustScore (ios 4) telegramID score breakdown db)) s
      in fr_publish (io_flt (ios 5) 0) (UserScoreUpdated telegramID score (UserScoreLabel score) breakdown (Unix (io_now (ios 5) 0))) s1)"

definition recalcCommunityScore :: "(nat \<Rightarrow> io) \<Rightarrow> int64 \<Rightarrow> fraud \<Rightarrow> fraud" where
  "recalcCommunityScore ios communityID s =
     (let (score, breakdown) = CommunityScorer_Calculate ios communityID (fr_db s);
          s1 = on_fraud_db (UpdateCommunityScore (ios 2) communityID score breakdown) s
      in fr_publish (io_flt (ios 3) 0)
           (CommunityScoreUpdated communityID score (CommunityRevenueStatus score) (RevenueMultiplier score) (Unix (io_now (ios 3) 0))) s1)"

definition detectJoinLoopFraud :: "(nat \<Rightarrow> io) \<Rightarrow> int64 \<Rightarrow> int64 \<Rightarrow> fraud \<Rightarrow> fraud" where
  "detectJoinLoopFraud ios telegramID communityID s =
     (let history = (case GetMembershipHistory (ios 0) telegramID communityID (fr_db s) of Inl _ \<Rightarrow> [] | Inr l \<Rightarrow> l)
      in if length history < 3 then s
         else let cutoff = AddDays (io_now (ios 0) 1) (-7);
                  recentJoins = int (length (filter (\<lambda>m. cutoff < UM_JoinedAt m) history))
              in if 3 \<le> recentJoins
                 then let s1 = on_fraud_db (RecordFraudEvent (ios 1)
                        \<lparr>FE_EventType = ''join_leave_loop'', FE_TelegramID = Some telegramID, FE_CommunityID = Some communityID,
                         FE_Score = 70, FE_Evidence = [(''recent_joins'', recentJoins), (''days'', 7)],
                         FE_DetectedAt = zero_time, FE_Reviewed = False\<rparr>) s
                      in fr_publish (io_flt (ios 2) 0) (FraudDetected ''join_leave_loop'' telegramID communityID 70) s1
                 else s)"

definition handleJoin :: "(nat \<Rightarrow> io) \<Rightarrow> int64 \<Rightarrow> int64 \<Rightarrow> string \<Rightarrow> string \<Rightarrow> fraud \<Rightarrow> fraud" where
  "handleJoin ios telegramID communityID source campaignID s =
     (let m = \<lparr>UM_TelegramID = telegramID, UM_CommunityID = communityID, UM_JoinedAt = zero_time, UM_LeftAt = None,
               UM_DurationSec = 0, UM_RejoinCount = 0, UM_Source = source, UM_CampaignID = campaignID\<rparr>;
          s1 = on_fraud_db (\<lambda>db. snd (RecordJoin (ios 0) m db)) s;
          s2 = detectJoinLoopFraud (\<lambda>k. ios (k + 1)) telegramID communityID s1;
          s3 = recalcUserScore (\<lambda>k. ios (k + 4)) telegramID s2
      in recalcCommunityScore (\<lambda>k. ios (k + 10)) communityID s3)"

definition handleLeave :: "(nat \<Rightarrow> io) \<Rightarrow> int64 \<Rightarrow> int64 \<Rightarrow> fraud \<Rightarrow> fraud" where
  "handleLeave ios telegramID communityID s =
     (let s1 = on_fraud_db (RecordLeave (ios 0) telegramID communityID) s;
          s2 = recalcUserScore (\<lambda>k. ios (k + 1)) telegramID s1
      in recalcCommunityScore (\<lambda>k. ios (k + 7)) communityID s2)"

definition handleProfileUpdate :: "(nat \<Rightarrow> io) \<Rightarrow> int64 \<Rightarrow> string \<Rightarrow> string \<Rightarrow> string \<Rightarrow> bool \<Rightarrow> fraud \<Rightarrow> fraud" where
  "handleProfileUpdate ios telegramID username firstName lastName hasPhoto s =
     (let change = (\<lambda>io field old new. on_fraud_db (RecordProfileChange io
            \<lparr>PH_TelegramID = telegramID, PH_Field = field, PH_OldValue = old, PH_NewValue = new, PH_ChangedAt = zero_time\<rparr>));
          s1 = (case fst (GetProfile (io_flt (ios 0) 0) telegramID (fr_db s)) of
                  None \<Rightarrow> s
                | Some existing \<Rightarrow>
                    (let s1 = (if UP_Username existing \<noteq> username then change (ios 1) ''username'' (UP_Username existing) username s else s)
                     in if UP_FirstName existing \<noteq> firstName then change (ios 2) ''first_name'' (UP_FirstName existing) firstName s1 else s1));
          profile = zero_profile\<lparr>UP_TelegramID := telegramID, UP_Username := username, UP_FirstName := firstName,
                                 UP_LastName := lastName, UP_HasPhoto := hasPhoto\<rparr>;
          s2 = on_fraud_db (\<lambda>db. snd (UpsertProfile (ios 3) profile db)) s1
      in recalcUserScore (\<lambda>k. ios (k + 4)) telegramID s2)"

definition handleCampaignComplete :: "(nat \<Rightarrow> io) \<Rightarrow> int64 \<Rightarrow> bool \<Rightarrow> fraud \<Rightarrow> fraud" where
  "handleCampaignComplete ios telegramID stayed s =
     (case fst (GetProfile (io_flt (ios 0) 0) telegramID (fr_db s)) of
        None \<Rightarrow> s
      | Some profile \<Rightarrow>
          (let update = zero_profile\<lparr>UP_TelegramID := telegramID, UP_TotalCampaigns := add64 (UP_TotalCampaigns profile) 1,
                 UP_AdCompletions := (if stayed then add64 (UP_AdCompletions profile) 1 else 0)\<rparr>;
               s1 = on_fraud_db (\<lambda>db. snd (UpsertProfile (ios 1) update db)) s
           in recalcUserScore (\<lambda>k. ios (k + 2)) telegramID s1))"

definition handleActivity :: "(nat \<Rightarrow> io) \<Rightarrow> int64 \<Rightarrow> int64 \<Rightarrow> int64 \<Rightarrow> int64 \<Rightarrow> int64 \<Rightarrow> fraud \<Rightarrow> fraud" where
  "handleActivity ios telegramID communityID messages replies reactions s =
     recalcUserScore (\<lambda>k. ios (k + 1)) telegramID
       (on_fraud_db (\<lambda>db. snd (RecordActivity (ios 0) telegramID communityID messages replies reactions db)) s)"

text \<open>
  A JSON object and its decoding into the fields of a struct: a missing key leaves the zero value, a
  value of another type is an error.
\<close>

datatype json = JInt int | JStr string | JBool bool | JFloat f64

type_synonym json_obj = "(string \<times> json) list"

definition get_int :: "string \<Rightarrow> json_obj \<Rightarrow> int64 option" where
  "get_int k obj = (case map_of obj k of
        None \<Rightarrow> Some 0
      | Some (JInt i) \<Rightarrow> (if in_int64 i then Some i else None)
      | Some (JFloat (Fin q)) \<Rightarrow> (if of_int \<lfloor>q\<rfloor> = q \<and> in_int64 \<lfloor>q\<rfloor> then Some \<lfloor>q\<rfloor> else None)
      | _ \<Rightarrow> None)"

definition get_f64 :: "string \<Rightarrow> json_obj \<Rightarrow> f64 option" where
  "get_f64 k obj =
     (case map_of obj k of None \<Rightarrow> Some (Fin 0) | Some (JInt i) \<Rightarrow> Some (rnd (of_int i)) | Some (JFloat x) \<Rightarrow> Some x | _ \<Rightarrow> None)"

definition get_str :: "string \<Rightarrow> json_obj \<Rightarrow> string option" where
  "get_str k obj = (case map_of obj k of None \<Rightarrow> Some [] | Some (JStr s) \<Rightarrow> Some s | _ \<Rightarrow> None)"

definition get_bool :: "string \<Rightarrow> json_obj \<Rightarrow> bool option" where
  "get_bool k obj = (case map_of obj k of None \<Rightarrow> Some False | Some (JBool b) \<Rightarrow> Some b | _ \<Rightarrow> None)"

definition onJoin :: "(nat \<Rightarrow> io) \<Rightarrow> json_obj \<Rightarrow> fraud \<Rightarrow> fraud" where
  "onJoin ios e s =
     (case (get_int ''telegram_id'' e, get_int ''community_id'' e, get_str ''source'' e, get_str ''campaign_id'' e) of
        (Some t, Some c, Some src, Some camp) \<Rightarrow> handleJoin ios t c src camp s
      | _ \<Rightarrow> s)"

definition onLeave :: "(nat \<Rightarrow> io) \<Rightarrow> json_obj \<Rightarrow> fraud \<Rightarrow> fraud" where
  "onLeave ios e s =
     (case (get_int ''telegram_id'' e, get_int ''community_id'' e) of
        (Some t, Some c) \<Rightarrow> handleLeave ios t c s
      | _ \<Rightarrow> s)"

definition onActivity :: "(nat \<Rightarrow> io) \<Rightarrow> json_obj \<Rightarrow> fraud \<Rightarrow> fraud" where
  "onActivity ios e s =
     (case (get_int ''telegram_id'' e, get_int ''community_id'' e, get_int ''messages'' e, get_int ''replies'' e, get_int ''reactions'' e) of
        (Some t, Some c, Some m, Some r, Some x) \<Rightarrow> handleActivity ios t c m r x s
      | _ \<Rightarrow> s)"

definition onProfile :: "bool \<Rightarrow> (nat \<Rightarrow> io) \<Rightarrow> json_obj \<Rightarrow> fraud \<Rightarrow> fraud" where  \<comment> \<open>only one of the two listeners reads \<open>last_name\<close>\<close>
  "onProfile with_last ios e s =
     (case (get_int ''telegram_id'' e, get_str ''username'' e, get_str ''first_name'' e,
            if with_last then get_str ''last_name'' e else Some [], get_bool ''has_photo'' e) of
        (Some t, Some u, Some f, Some l, Some p) \<Rightarrow> handleProfileUpdate ios t u f l p s
      | _ \<Rightarrow> s)"

definition onCampaign :: "(nat \<Rightarrow> io) \<Rightarrow> json_obj \<Rightarrow> fraud \<Rightarrow> fraud" where
  "onCampaign ios e s =
     (case (get_int ''telegram_id'' e, get_str ''campaign_id'' e, get_bool ''stayed'' e) of
        (Some t, Some _, Some stayed) \<Rightarrow> handleCampaignComplete ios t stayed s
      | _ \<Rightarrow> s)"

text \<open>The subscriptions of \<open>RegisterListeners\<close> and \<open>RegisterScoreHandlers\<close>; \<open>None\<close> is a message that is no JSON object.\<close>

definition RegisterListeners :: "(nat \<Rightarrow> io) \<Rightarrow> string \<Rightarrow> json_obj option \<Rightarrow> fraud \<Rightarrow> fraud" where
  "RegisterListeners ios subject msg s =
     (case msg of
        None \<Rightarrow> s
      | Some e \<Rightarrow>
          (if subject = ''membership.joined'' then onJoin ios e s
           else if subject = ''membership.left'' then onLeave ios e s
           else if subject = ''community.activity.updated'' then onActivity ios e s
           else if subject = ''profile.updated'' then onProfile True ios e s
           else if subject = ''campaign.completed'' then onCampaign ios e s
           else s))"

definition RegisterScoreHandlers :: "(nat \<Rightarrow> io) \<Rightarrow> string \<Rightarrow> json_obj option \<Rightarrow> fraud \<Rightarrow> fraud" where
  "RegisterScoreHandlers ios subject msg s =
     (case msg of
        None \<Rightarrow> s
      | Some e \<Rightarrow>
          (if subject = ''fraud.event.join'' then onJoin ios e s
           else if subject = ''fraud.event.leave'' then onLeave ios e s
           else if subject = ''fraud.event.activity'' then onActivity ios e s
           else if subject = ''fraud.event.profile'' then onProfile False ios e s
           else s))"

record UserScore =
  XS_TelegramID :: int64
  XS_Score :: int64
  XS_Label :: string
  XS_Known :: bool

record CommunityScore =
  XC_CommunityID :: int64
  XC_Score :: int64
  XC_RevenueStatus :: string
  XC_RevenueMultiplier :: f64
  XC_Known :: bool

definition onUserScoreRequest :: "string option \<Rightarrow> int64 \<Rightarrow> fraud_db \<Rightarrow> UserScore" where
  "onUserScoreRequest flt telegramID db =
     (case fst (GetProfile flt telegramID db) of
        None \<Rightarrow> \<lparr>XS_TelegramID = telegramID, XS_Score = 60, XS_Label = ''normal'', XS_Known = False\<rparr>
      | Some p \<Rightarrow> \<lparr>XS_TelegramID = telegramID, XS_Score = UP_TrustScore p, XS_Label = UP_ScoreLabel p, XS_Known = True\<rparr>)"

definition revenueMultiplierFromScore :: "int64 \<Rightarrow> f64" where
  "revenueMultiplierFromScore score =
     (if 80 \<le> score then Fin 1 else if 50 \<le> score then rnd (8 / 10) else if 30 \<le> score then rnd (1 / 2) else Fin 0)"

definition onCommunityScoreRequest :: "string option \<Rightarrow> int64 \<Rightarrow> fraud_db \<Rightarrow> CommunityScore" where
  "onCommunityScoreRequest flt communityID db =
     (case fst (GetLatestCommunityScore flt communityID db) of
        None \<Rightarrow> \<lparr>XC_CommunityID = communityID, XC_Score = 70, XC_RevenueStatus = ''monitored'', XC_RevenueMultiplier = rnd (8 / 10), XC_Known = False\<rparr>
      | Some c \<Rightarrow> \<lparr>XC_CommunityID = communityID, XC_Score = CS_Score c, XC_RevenueStatus = CS_RevenueStatus c,
                   XC_RevenueMultiplier = revenueMultiplierFromScore (CS_Score c), XC_Known = True\<rparr>)"

end
