(* ===== verification/FraudBus.thy ===== *)
theory FraudBus
  imports FraudEngine
begin

text \<open>
  The periodic recalculation of the fraud engine, its REST handlers (\<open>api\<close>), the client of the other
  services (\<open>shared/pkg/fraudclient\<close>) and the publisher of membership events in member-bot
  (\<open>member-bot/internal/events\<close>), with the delivery of what it publishes.
\<close>

section \<open>Periodic recalculation (\<open>batchRecalcUsers\<close>)\<close>

text \<open>
  The inner loop: \<open>stop n\<close> says whether the context is done before the \<open>n\<close>-th user. It returns whether
  it was stopped, how many users it has processed, the last identifier and the state.
\<close>

fun recalc_users ::
  "(nat \<Rightarrow> bool) \<Rightarrow> (nat \<Rightarrow> nat \<Rightarrow> io) \<Rightarrow> nat \<Rightarrow> int64 \<Rightarrow> int64 list \<Rightarrow> fraud \<Rightarrow> bool \<times> nat \<times> int64 \<times> fraud" where
  "recalc_users stop ios n lastID [] s = (False, n, lastID, s)"
| "recalc_users stop ios n lastID (uid # us) s =
     (if stop n then (True, n, lastID, s) else recalc_users stop ios (Suc n) uid us (recalcUserScore (ios n) uid s))"

definition profile_ids :: "fraud \<Rightarrow> int64 list" where
  "profile_ids s = map UP_TelegramID (fd_profiles (fr_db s))"

definition ids_after :: "int64 \<Rightarrow> fraud \<Rightarrow> int64 list" where
  "ids_after i s = filter (\<lambda>j. i < j) (profile_ids s)"

lemma ListUsersForRecalc_ids:
  "ListUsersForRecalc io i k (fr_db s) = Find_All io (take k (sort (ids_after i s)))"
  by (simp add: ListUsersForRecalc_def ids_after_def profile_ids_def)

lemma fr_publish_db [simp]: "fr_db (fr_publish flt m s) = fr_db s"
  by (simp add: fr_publish_def split: option.splits)

lemma on_fraud_db_db [simp]: "fr_db (on_fraud_db f s) = f (fr_db s)"
  by (simp add: on_fraud_db_def)

lemma UpdateTrustScore_ids:
  "map UP_TelegramID (fd_profiles (snd (UpdateTrustScore io i sc b db))) = map UP_TelegramID (fd_profiles db)"
  by (auto simp: UpdateTrustScore_def case_prod_beta Let_def intro!: UpdateOne_map split: sum.splits)

lemma recalcUserScore_ids [simp]: "profile_ids (recalcUserScore ios uid s) = profile_ids s"
  by (simp add: recalcUserScore_def profile_ids_def case_prod_beta Let_def UpdateTrustScore_ids)

lemma recalc_users_ids:
  "recalc_users stop ios n i us s = (b, n', i', s') \<Longrightarrow> profile_ids s' = profile_ids s"
  by (induction stop ios n i us s rule: recalc_users.induct) (auto split: if_splits)

lemma recalc_users_last:
  "recalc_users stop ios n i us s = (False, n', i', s') \<Longrightarrow> us \<noteq> [] \<Longrightarrow> i' = last us"
proof (induction stop ios n i us s rule: recalc_users.induct)
  case (2 stop ios n i uid us s)
  then show ?case by (cases us) (auto split: if_splits)
qed simp

text \<open>The outer loop with its cursor; \<open>lio k\<close> is the world of the \<open>k\<close>-th query.\<close>

function batch_loop ::
  "(nat \<Rightarrow> bool) \<Rightarrow> (nat \<Rightarrow> io) \<Rightarrow> (nat \<Rightarrow> nat \<Rightarrow> io) \<Rightarrow> nat \<Rightarrow> nat \<Rightarrow> int64 \<Rightarrow> fraud \<Rightarrow> nat \<times> fraud" where
  "batch_loop stop lio ios k n lastID s =
     (case ListUsersForRecalc (lio k) lastID 100 (fr_db s) of
        Inl _ \<Rightarrow> (n, s)
      | Inr users \<Rightarrow>
          (if users = [] then (n, s)
           else case recalc_users stop ios n lastID users s of
                  (stopped, n', lastID', s') \<Rightarrow>
                    (if stopped \<or> length users < 100 then (n', s')
                     else batch_loop stop lio ios (Suc k) n' lastID' s')))"
  by pat_completeness auto

text \<open>Every round moves the cursor past a user.\<close>

lemma ids_after_shrinks:
  assumes "Find_All io (take k (sort (ids_after i s))) = Inr users" "users \<noteq> []" "profile_ids s' = profile_ids s"
  shows "length (ids_after (last users) s') < length (ids_after i s)"
proof -
  have u: "users = take k (sort (ids_after i s))"
    using assms(1,2) by (auto simp: Find_All_def stmt_Inr split: if_splits)
  have "last users \<in> set users" using assms(2) by simp
  then have "last users \<in> set (sort (ids_after i s))" unfolding u by (rule in_set_takeD)
  then have in_s: "last users \<in> set (ids_after i s)" by simp
  have gt: "i < last users" using in_s by (simp add: ids_after_def)
  have "ids_after (last users) s' = filter (\<lambda>j. last users < j) (ids_after i s)"
    using gt by (auto simp: ids_after_def assms(3) intro!: filter_cong)
  moreover have "length (filter (\<lambda>j. last users < j) (ids_after i s)) < length (ids_after i s)"
    by (rule length_filter_less [OF in_s]) simp
  ultimately show ?thesis by simp
qed

lemma round_shrinks:
  assumes "ListUsersForRecalc io i k (fr_db s) = Inr users" "users \<noteq> []"
    "recalc_users stop ios n i users s = (False, n', i', s')"
  shows "length (ids_after i' s') < length (ids_after i s)"
  using ids_after_shrinks [OF _ assms(2) recalc_users_ids [OF assms(3)]] assms(1)
  by (simp add: ListUsersForRecalc_ids recalc_users_last [OF assms(3,2)])

termination batch_loop
  by (relation "measure (\<lambda>(stop, lio, ios, k, n, lastID, s). length (ids_after lastID s))")
    (auto intro: round_shrinks dest: sym)

declare batch_loop.simps [simp del]

definition batchRecalcUsers :: "(nat \<Rightarrow> bool) \<Rightarrow> (nat \<Rightarrow> io) \<Rightarrow> (nat \<Rightarrow> nat \<Rightarrow> io) \<Rightarrow> fraud \<Rightarrow> nat \<times> fraud" where
  "batchRecalcUsers stop lio ios s = batch_loop stop lio ios 0 0 0 s"

section \<open>REST handlers (\<open>api.go\<close>)\<close>

datatype fraud_reply =
    FR_Health
  | FR_InvalidID
  | FR_Unauthorized
  | FR_NotFound
  | FR_User UserScore "(time \<times> time) option"
  | FR_Community CommunityScore "(CommunityBreakdown \<times> time) option"
  | FR_UserRecalc int64 string ScoreBreakdown
  | FR_CommunityRecalc int64 string f64 CommunityBreakdown
  | FR_Events "FraudEvent list"
  | FR_Profile UserProfile

fun fraud_status :: "fraud_reply \<Rightarrow> int" where
  "fraud_status FR_InvalidID = 400"
| "fraud_status FR_Unauthorized = 401"
| "fraud_status FR_NotFound = 404"
| "fraud_status _ = 200"

text \<open>The value that \<open>strconv.ParseInt\<close> returns beside its error: zero for a syntax error, the nearest number for an overflow.\<close>

definition ParseInt_value :: "string \<Rightarrow> int64" where
  "ParseInt_value s =
     (case ParseInt s of
        Some i \<Rightarrow> i
      | None \<Rightarrow>
          (case s of
             [] \<Rightarrow> 0
           | c # cs \<Rightarrow>
               (case parse_dec (if c = CHR ''+'' \<or> c = CHR ''-'' then cs else s) of
                  None \<Rightarrow> 0
                | Some _ \<Rightarrow> (if c = CHR ''-'' then MinInt64 else MaxInt64))))"

definition getUserScore :: "string option \<Rightarrow> string \<Rightarrow> fraud \<Rightarrow> fraud_reply" where
  "getUserScore flt param s =
     (case ParseInt param of
        None \<Rightarrow> FR_InvalidID
      | Some i \<Rightarrow>
          (case fst (GetProfile flt i (fr_db s)) of
             None \<Rightarrow> FR_User \<lparr>XS_TelegramID = i, XS_Score = 50, XS_Label = ''normal'', XS_Known = False\<rparr> None
           | Some p \<Rightarrow> FR_User \<lparr>XS_TelegramID = i, XS_Score = UP_TrustScore p, XS_Label = UP_ScoreLabel p, XS_Known = True\<rparr>
               (Some (UP_FirstSeen p, UP_LastSeen p))))"

definition getCommunityScore :: "string option \<Rightarrow> string \<Rightarrow> fraud \<Rightarrow> fraud_reply" where
  "getCommunityScore flt param s =
     (case ParseInt param of
        None \<Rightarrow> FR_InvalidID
      | Some i \<Rightarrow>
          (case fst (GetLatestCommunityScore flt i (fr_db s)) of
             None \<Rightarrow> FR_Community \<lparr>XC_CommunityID = i, XC_Score = 50, XC_RevenueStatus = ''monitored'',
                       XC_RevenueMultiplier = rnd (8 / 10), XC_Known = False\<rparr> None
           | Some c \<Rightarrow> FR_Community \<lparr>XC_CommunityID = i, XC_Score = CS_Score c, XC_RevenueStatus = CS_RevenueStatus c,
                        XC_RevenueMultiplier = RevenueMultiplier (CS_Score c), XC_Known = True\<rparr>
                 (Some (CS_Breakdown c, CS_CalculatedAt c))))"

definition recalcUser :: "(nat \<Rightarrow> io) \<Rightarrow> string \<Rightarrow> fraud \<Rightarrow> fraud_reply \<times> fraud" where
  "recalcUser ios param s =
     (let i = ParseInt_value param;
          (score, breakdown) = UserScorer_Calculate ios i (fr_db s)
      in (FR_UserRecalc score (UserScoreLabel score) breakdown,
          on_fraud_db (\<lambda>db. snd (UpdateTrustScore (ios 4) i score breakdown db)) s))"

definition recalcCommunity :: "(nat \<Rightarrow> io) \<Rightarrow> string \<Rightarrow> fraud \<Rightarrow> fraud_reply \<times> fraud" where
  "recalcCommunity ios param s =
     (let i = ParseInt_value param;
          (score, breakdown) = CommunityScorer_Calculate ios i (fr_db s)
      in (FR_CommunityRecalc score (CommunityRevenueStatus score) (RevenueMultiplier score) breakdown,
          on_fraud_db (UpdateCommunityScore (ios 2) i score breakdown) s))"

definition getFraudEvents :: "io \<Rightarrow> int64 \<Rightarrow> fraud \<Rightarrow> fraud_reply" where
  "getFraudEvents io telegramID s =
     FR_Events (case GetFraudEvents io telegramID 50 (fr_db s) of Inl _ \<Rightarrow> [] | Inr l \<Rightarrow> l)"

definition getUserProfile :: "string option \<Rightarrow> string \<Rightarrow> fraud \<Rightarrow> fraud_reply" where
  "getUserProfile flt param s =
     (case fst (GetProfile flt (ParseInt_value param) (fr_db s)) of None \<Rightarrow> FR_NotFound | Some p \<Rightarrow> FR_Profile p)"

definition fraud_authMiddleware :: "string \<Rightarrow> string \<Rightarrow> (fraud \<Rightarrow> fraud_reply \<times> fraud) \<Rightarrow> fraud \<Rightarrow> fraud_reply \<times> fraud" where
  "fraud_authMiddleware adminKey header next_handler s =
     (if adminKey = [] then (FR_Unauthorized, s)
      else if header \<noteq> adminKey then (FR_Unauthorized, s) else next_handler s)"

datatype fraud_request =
    GET_health
  | GET_score_user string
  | GET_score_community string
  | GET_fraud_events int64
  | GET_user_profile string
  | POST_recalc_user string
  | POST_recalc_community string

definition fraud_Register :: "string \<Rightarrow> string \<Rightarrow> (nat \<Rightarrow> io) \<Rightarrow> fraud_request \<Rightarrow> fraud \<Rightarrow> fraud_reply \<times> fraud" where
  "fraud_Register adminKey header ios q s =
     (case q of
        GET_health \<Rightarrow> (FR_Health, s)
      | GET_score_user p \<Rightarrow> (getUserScore (io_flt (ios 0) 0) p s, s)
      | GET_score_community p \<Rightarrow> (getCommunityScore (io_flt (ios 0) 0) p s, s)
      | GET_fraud_events i \<Rightarrow> fraud_authMiddleware adminKey header (\<lambda>s. (getFraudEvents (ios 0) i s, s)) s
      | GET_user_profile p \<Rightarrow> fraud_authMiddleware adminKey header (\<lambda>s. (getUserProfile (io_flt (ios 0) 0) p s, s)) s
      | POST_recalc_user p \<Rightarrow> fraud_authMiddleware adminKey header (recalcUser ios p) s
      | POST_recalc_community p \<Rightarrow> fraud_authMiddleware adminKey header (recalcCommunity ios p) s)"

section \<open>Client (\<open>fraudclient\<close>)\<close>

type_synonym bus = "(string \<times> json_obj) list"

text \<open>\<open>None\<close> is a request that is not answered in time.\<close>

definition Client_GetUserScore :: "UserScore option \<Rightarrow> int64 \<Rightarrow> UserScore" where
  "Client_GetUserScore answer telegramID =
     (case answer of
        None \<Rightarrow> \<lparr>XS_TelegramID = telegramID, XS_Score = 60, XS_Label = ''normal'', XS_Known = False\<rparr>
      | Some score \<Rightarrow> score)"

definition Client_GetCommunityScore :: "CommunityScore option \<Rightarrow> int64 \<Rightarrow> CommunityScore" where
  "Client_GetCommunityScore answer chatID =
     (case answer of
        None \<Rightarrow> \<lparr>XC_CommunityID = chatID, XC_Score = 70, XC_RevenueStatus = [], XC_RevenueMultiplier = rnd (8 / 10), XC_Known = False\<rparr>
      | Some score \<Rightarrow> score)"

definition IsFake :: "UserScore \<Rightarrow> bool" where "IsFake u \<longleftrightarrow> XS_Score u < 30"

definition IsSuspicious :: "UserScore \<Rightarrow> bool" where "IsSuspicious u \<longleftrightarrow> XS_Score u < 60"

definition TrustMultiplier :: "UserScore \<Rightarrow> f64" where "TrustMultiplier u = f64_div (f64_of_int (XS_Score u)) 100"

definition ReportJoin :: "int64 \<Rightarrow> int64 \<Rightarrow> string \<Rightarrow> string \<Rightarrow> bus" where
  "ReportJoin telegramID communityID source campaignID =
     [(''fraud.event.join'', [(''telegram_id'', JInt telegramID), (''community_id'', JInt communityID), (''source'', JStr source),
        (''campaign_id'', JStr campaignID)])]"

definition ReportLeave :: "int64 \<Rightarrow> int64 \<Rightarrow> bus" where
  "ReportLeave telegramID communityID =
     [(''fraud.event.leave'', [(''telegram_id'', JInt telegramID), (''community_id'', JInt communityID)])]"

definition ReportActivity :: "int64 \<Rightarrow> int64 \<Rightarrow> int64 \<Rightarrow> int64 \<Rightarrow> int64 \<Rightarrow> bus" where
  "ReportActivity telegramID communityID messages replies reactions =
     [(''fraud.event.activity'', [(''telegram_id'', JInt telegramID), (''community_id'', JInt communityID), (''messages'', JInt messages),
        (''replies'', JInt replies), (''reactions'', JInt reactions)])]"

definition ReportProfileUpdate :: "int64 \<Rightarrow> string \<Rightarrow> string \<Rightarrow> bool \<Rightarrow> bus" where
  "ReportProfileUpdate telegramID username firstName hasPhoto =
     [(''fraud.event.profile'', [(''telegram_id'', JInt telegramID), (''username'', JStr username), (''first_name'', JStr firstName),
        (''has_photo'', JBool hasPhoto)])]"

section \<open>Publisher (\<open>member-bot/internal/events\<close>)\<close>

record chat_member =
  CM_UserID :: int64
  CM_Username :: string
  CM_OldRole :: string
  CM_NewRole :: string
  CM_InviteLink :: "string option"

fun LastIndex_from :: "nat \<Rightarrow> string \<Rightarrow> string \<Rightarrow> nat option" where
  "LastIndex_from i [] sep = (if sep = [] then Some i else None)"
| "LastIndex_from i (c # cs) sep =
     (case LastIndex_from (Suc i) cs sep of Some j \<Rightarrow> Some j | None \<Rightarrow> (if prefix sep (c # cs) then Some i else None))"

definition LastIndex :: "string \<Rightarrow> string \<Rightarrow> nat option" where
  "LastIndex s sep = LastIndex_from 0 s sep"

definition extractInviteHash :: "string \<Rightarrow> string" where
  "extractInviteHash url =
     (case LastIndex url ''/+'' of
        Some i \<Rightarrow> drop (i + 2) url
      | None \<Rightarrow> (case LastIndex url ''/joinchat/'' of Some i \<Rightarrow> drop (i + 10) url | None \<Rightarrow> []))"

text \<open>\<open>fraud\<close> says whether the publisher has a fraud client.\<close>

definition publishJoin :: "bool \<Rightarrow> time \<Rightarrow> int64 \<Rightarrow> int64 \<Rightarrow> string \<Rightarrow> string \<Rightarrow> string \<Rightarrow> bus" where
  "publishJoin fraud now telegramID chatID username source inviteHash =
     (''membership.joined'', [(''telegram_id'', JInt telegramID), (''community_id'', JInt chatID), (''source'', JStr source),
        (''invite_hash'', JStr inviteHash), (''joined_at'', JInt (Unix now)), (''username'', JStr username)])
     # (if fraud then ReportJoin telegramID chatID source inviteHash else [])"

definition publishLeave :: "bool \<Rightarrow> time \<Rightarrow> int64 \<Rightarrow> int64 \<Rightarrow> bus" where
  "publishLeave fraud now telegramID chatID =
     (''membership.left'', [(''telegram_id'', JInt telegramID), (''community_id'', JInt chatID), (''left_at'', JInt (Unix now))])
     # (if fraud then ReportLeave telegramID chatID else [])"

definition PublishActivity :: "bool \<Rightarrow> int64 \<Rightarrow> int64 \<Rightarrow> int64 \<Rightarrow> int64 \<Rightarrow> int64 \<Rightarrow> bus" where
  "PublishActivity fraud telegramID chatID messages replies reactions =
     (''community.activity.updated'', [(''telegram_id'', JInt telegramID), (''community_id'', JInt chatID), (''messages'', JInt messages),
        (''replies'', JInt replies), (''reactions'', JInt reactions)])
     # (if fraud then ReportActivity telegramID chatID messages replies reactions else [])"

definition role_inside :: "string \<Rightarrow> bool" where
  "role_inside r \<longleftrightarrow> r \<in> {''member'', ''administrator'', ''creator'', ''restricted''}"

definition onChatMember :: "bool \<Rightarrow> time \<Rightarrow> int64 \<Rightarrow> chat_member option \<Rightarrow> bus" where
  "onChatMember fraud now chatID update =
     (case update of
        None \<Rightarrow> []
      | Some u \<Rightarrow>
          (let wasOutside = CM_OldRole u \<in> {''left'', ''kicked'', []};
               isOutside = CM_NewRole u \<in> {''left'', ''kicked''}
           in if wasOutside \<and> role_inside (CM_NewRole u)
              then let (source, inviteHash) =
                     (case CM_InviteLink u of
                        Some l \<Rightarrow> (if l \<noteq> [] then (''invite_link'', extractInviteHash l) else (''organic'', []))
                      | None \<Rightarrow> (''organic'', []))
                   in publishJoin fraud now (CM_UserID u) chatID (CM_Username u) source inviteHash
              else if role_inside (CM_OldRole u) \<and> isOutside then publishLeave fraud now (CM_UserID u) chatID
              else []))"

definition onUserJoined :: "bool \<Rightarrow> time \<Rightarrow> int64 \<Rightarrow> (int64 \<times> string) list \<Rightarrow> bus" where
  "onUserJoined fraud now chatID users =
     concat (map (\<lambda>(i, name). publishJoin fraud now i chatID name ''organic'' []) users)"

definition onUserLeft :: "bool \<Rightarrow> time \<Rightarrow> int64 \<Rightarrow> int64 option \<Rightarrow> bus" where
  "onUserLeft fraud now chatID left = (case left of None \<Rightarrow> [] | Some i \<Rightarrow> publishLeave fraud now i chatID)"

section \<open>Delivery\<close>

text \<open>The fraud engine is subscribed through both of its registrations.\<close>

definition fraud_deliver :: "(nat \<Rightarrow> io) \<Rightarrow> string \<times> json_obj \<Rightarrow> fraud \<Rightarrow> fraud" where
  "fraud_deliver ios msg s =
     RegisterScoreHandlers ios (fst msg) (Some (snd msg)) (RegisterListeners ios (fst msg) (Some (snd msg)) s)"

fun fraud_deliver_all :: "(nat \<Rightarrow> nat \<Rightarrow> io) \<Rightarrow> bus \<Rightarrow> fraud \<Rightarrow> fraud" where
  "fraud_deliver_all ios [] s = s"
| "fraud_deliver_all ios (m # ms) s = fraud_deliver_all (\<lambda>n. ios (Suc n)) ms (fraud_deliver (ios 0) m s)"

end
