(* ===== verification/FraudProps.thy ===== *)
theory FraudProps
  imports FraudBus
begin

text \<open>
  What the fraud engine guarantees: scores in their documented ranges, a recalculation that reaches
  every user once, statistics that add up; and what its composition with MongoDB and with member-bot
  does to profiles, to payments and to the detection of loops.
\<close>

section \<open>Floats within integer bounds\<close>

lemma round_even_le: "q \<le> of_int m \<Longrightarrow> round_even q \<le> m"
  unfolding round_even_def Let_def by (auto split: if_splits) linarith+

lemma round_even_ge: "of_int m \<le> q \<Longrightarrow> m \<le> round_even q"
  unfolding round_even_def Let_def by (auto split: if_splits) linarith+

lemma ulp_exp_nonpos:
  assumes "0 < q" "q \<le> of_int n" "n < 2 ^ 53"
  shows "ulp_exp q \<le> 0"
proof -
  have "(of_int n :: rat) < of_int (2 ^ 53)" using assms(3) by (simp only: of_int_less_iff)
  then have "q < 2 ^ 53" using assms(2) by simp
  then have "(2::rat) powi floor_log2 q < 2 powi 53" using floor_log2_bounds(1) [of q] assms(1) by simp
  then have "floor_log2 q < 53" by (simp only: powi_less_iff)
  then show ?thesis by (simp add: ulp_exp_def)
qed

lemma rnd_val_nonpos: "q \<le> 0 \<Longrightarrow> rnd_val q \<le> 0"
proof -
  assume "q \<le> 0"
  then have "q / 2 powi ulp_exp q \<le> of_int 0" by (simp add: divide_nonpos_nonneg)
  from round_even_le [OF this] show ?thesis by (simp add: rnd_val_def mult_nonpos_nonneg)
qed

text \<open>Rounding does not cross an integer that is a float.\<close>

lemma rnd_val_le_int:
  assumes "q \<le> of_int n" "0 \<le> n" "n < 2 ^ 53"
  shows "rnd_val q \<le> of_int n"
proof (cases "0 < q")
  case True
  then obtain j where j: "ulp_exp q = - int j" using ulp_exp_nonpos [OF True assms(1,3)] by (metis nonpos_int_cases)
  have "q * 2 ^ j \<le> of_int (n * 2 ^ j)" using assms(1) by simp
  then have "q / 2 powi ulp_exp q \<le> of_int (n * 2 ^ j)" by (simp add: j power_int_minus field_simps)
  from round_even_le [OF this] have "(of_int (round_even (q / 2 powi ulp_exp q)) :: rat) \<le> of_int (n * 2 ^ j)"
    by (simp only: of_int_le_iff)
  then have "of_int (round_even (q / 2 powi ulp_exp q)) * (2::rat) powi ulp_exp q \<le> of_int n"
    by (simp add: j power_int_minus field_simps)
  then show ?thesis using True by (simp add: rnd_val_def)
next
  case False
  then show ?thesis using rnd_val_nonpos [of q] assms(2) by (meson linorder_not_less of_int_0_le_iff order_trans)
qed

definition upto :: "int \<Rightarrow> f64 \<Rightarrow> bool" where
  "upto n x \<longleftrightarrow> (\<exists>q. x = Fin q \<and> 0 \<le> q \<and> q \<le> of_int n)"

definition below :: "int \<Rightarrow> f64 \<Rightarrow> bool" where
  "below n x \<longleftrightarrow> (case x of Fin q \<Rightarrow> q \<le> of_int n | PInf \<Rightarrow> False | _ \<Rightarrow> True)"

definition small :: "int \<Rightarrow> bool" where "small n \<longleftrightarrow> 0 \<le> n \<and> n \<le> 10 ^ 6"

lemma small_numeral [simp]: "small (numeral k) \<longleftrightarrow> (numeral k :: int) \<le> 10 ^ 6" "small 0" "small 1"
  by (simp_all add: small_def)

lemma upto_rnd: "0 \<le> q \<Longrightarrow> q \<le> of_int n \<Longrightarrow> small n \<Longrightarrow> upto n (rnd q)"
proof -
  assume q: "0 \<le> q" "q \<le> of_int n" and n: "small n"
  have "(of_int n :: rat) \<le> of_int (10 ^ 6)" using n by (simp only: small_def of_int_le_iff)
  then have "q \<le> 10 ^ 6" using q(2) by simp
  then have "rnd q = Fin (rnd_val q)" by (intro rnd_small) (use q(1) in simp)
  moreover have "rnd_val q \<le> of_int n" using q(2) n by (intro rnd_val_le_int) (auto simp: small_def)
  ultimately show ?thesis using rnd_val_nonneg [OF q(1)] by (auto simp: upto_def)
qed

lemma upto_Fin [simp]: "upto n (Fin q) \<longleftrightarrow> 0 \<le> q \<and> q \<le> of_int n"
  by (simp add: upto_def)

lemma upto_mono: "upto m x \<Longrightarrow> m \<le> n \<Longrightarrow> upto n x"
  by (auto simp: upto_def)

lemma upto_below: "upto n x \<Longrightarrow> below n x"
  by (auto simp: upto_def below_def)

lemma upto_mul: "upto m x \<Longrightarrow> 0 \<le> c \<Longrightarrow> small (m * c) \<Longrightarrow> upto (m * c) (f64_mul x (Fin (of_int c)))"
proof -
  assume a: "upto m x" "0 \<le> c" "small (m * c)"
  then obtain q where q: "x = Fin q" "0 \<le> q" "q \<le> of_int m" by (auto simp: upto_def)
  have "upto (m * c) (rnd (q * of_int c))" using q(2,3) a(2,3) by (intro upto_rnd) (auto intro: mult_right_mono)
  then show ?thesis by (simp add: q(1))
qed

lemma below_rnd: "q \<le> of_int n \<Longrightarrow> small n \<Longrightarrow> below n (rnd q)"
proof -
  assume "q \<le> of_int n" "small n"
  then have le: "rnd_val q \<le> of_int n" by (intro rnd_val_le_int) (auto simp: small_def)
  have "(of_int n :: rat) \<le> of_int (10 ^ 6)" using \<open>small n\<close> by (simp only: small_def of_int_le_iff)
  with le have "\<not> 2 ^ 1024 \<le> rnd_val q" by (auto dest: order_trans)
  then show ?thesis using le by (auto simp: below_def rnd_def Let_def)
qed

lemma below_add: "below m x \<Longrightarrow> below n y \<Longrightarrow> small (m + n) \<Longrightarrow> below (m + n) (f64_add x y)"
proof (cases x; cases y)
  fix p q
  assume "below m x" "below n y" "small (m + n)" "x = Fin p" "y = Fin q"
  then show ?thesis using below_rnd [of "p + q" "m + n"] by (simp add: below_def [of _ "Fin _"] add_mono)
qed (auto simp: below_def)

lemma below_mul: "below m x \<Longrightarrow> 0 < c \<Longrightarrow> small (m * c) \<Longrightarrow> below (m * c) (f64_mul x (Fin (of_int c)))"
proof (cases x)
  fix p
  assume "below m x" "0 < c" "small (m * c)" "x = Fin p"
  then show ?thesis using below_rnd [of "p * of_int c" "m * c"] by (simp add: below_def [of _ "Fin _"] mult_right_mono)
qed (auto simp: below_def)

lemma below_Min: "small n \<Longrightarrow> below n (math_Min x (Fin (of_int n)))"
  by (cases x) (auto simp: math_Min_def below_def)

lemma below_to_int: "below n x \<Longrightarrow> 0 \<le> n \<Longrightarrow> f64_to_int x \<le> n"
proof (cases x)
  case (Fin q)
  assume "below n x" "0 \<le> n"
  with Fin have "rat_trunc q \<le> n" by (auto simp: below_def rat_trunc_def floor_le_iff ceiling_le_iff)
  with \<open>0 \<le> n\<close> show ?thesis by (simp add: Fin)
qed simp_all

lemma below_fraction: "below n x \<Longrightarrow> upto 1 y \<Longrightarrow> small n \<Longrightarrow> below n (f64_mul x y)"
proof (cases x; cases y)
  fix p q
  assume a: "below n x" "upto 1 y" "small n" "x = Fin p" "y = Fin q"
  then have q: "0 \<le> q" "q \<le> 1" "p \<le> of_int n" by (auto simp: below_def)
  have "p * q \<le> of_int n"
  proof (cases "0 \<le> p")
    case True
    then have "p * q \<le> p" using q by (simp add: mult_left_le)
    with q(3) show ?thesis by simp
  next
    case False
    then have "p * q \<le> 0" using q by (simp add: mult_nonpos_nonneg)
    also have "0 \<le> (of_int n :: rat)" using a(3) by (simp add: small_def)
    finally show ?thesis .
  qed
  then show ?thesis using below_rnd a by simp
qed (auto simp: below_def upto_def)

lemma below_sum5:
  assumes "below a x" "below b y" "below c z" "below d u" "below e v" "0 \<le> a" "0 \<le> b" "0 \<le> c" "0 \<le> d" "0 \<le> e" "small (a + b + c + d + e)"
  shows "below (a + b + c + d + e) (sum_scores [x, y, z, u, v])"
  unfolding sum_scores_def using assms by (auto intro!: below_add simp: small_def)

lemma quot_upto_1:
  assumes "0 \<le> a" "a \<le> b" "b \<le> 2 ^ 53" "b \<noteq> 0"
  shows "upto 1 (f64_quot (f64_of_int a) (f64_of_int b))"
proof -
  have "f64_of_int a = Fin (of_int a)" "f64_of_int b = Fin (of_int b)" using assms by (auto intro!: f64_of_int_exact)
  moreover have "(of_int a :: rat) / of_int b \<le> 1" using assms by (simp add: divide_le_eq)
  ultimately show ?thesis using assms by (simp add: f64_quot_def upto_rnd)
qed

section \<open>The scores stay in their ranges\<close>

lemma scale_score_le: "s \<le> 100 \<Longrightarrow> 0 \<le> c \<Longrightarrow> c \<le> 1 \<Longrightarrow> scale_score s c \<le> 100"
  unfolding scale_score_def f64_of_int_def
  by (rule below_to_int) (auto intro!: below_fraction below_rnd upto_rnd)

lemma penalize_le: "s \<le> 100 \<Longrightarrow> fst (penalize p s) \<le> 100"
  by (auto simp: penalize_def Let_def intro!: scale_score_le)

lemma duration_score_upto: "upto 25 (fst (duration_score x))"
  by (simp add: duration_score_def)

lemma join_leave_score_upto: "upto 20 (fst (join_leave_score l j))"
  by (simp add: join_leave_score_def Let_def)

lemma diversity_score_upto: "upto 10 (fst (diversity_score n))"
  by (simp add: diversity_score_def)

lemma retention_upto: "length ms \<le> 2 ^ 53 \<Longrightarrow> upto 20 (calcRetentionScore ms)"
proof (cases "ms = []")
  case False
  assume "length ms \<le> 2 ^ 53"
  then have "upto 1 (f64_quot (f64_of_int (int (length (filter (\<lambda>m. UM_LeftAt m = None) ms)))) (f64_of_int (int (length ms))))"
    using False by (intro quot_upto_1) auto
  from upto_mul [OF this, of 20] False show ?thesis by (simp add: calcRetentionScore_def)
qed (simp add: calcRetentionScore_def)

lemma activity_upto: "0 \<le> n \<Longrightarrow> upto 20 (math_Min (f64_mul (f64_of_int n) (rnd (67 / 100))) (Fin 20))"
proof -
  assume n: "0 \<le> n"
  have r: "rnd x = PInf \<or> (\<exists>q. rnd x = Fin q \<and> 0 \<le> q)" if "0 \<le> x" for x
    using rnd_val_nonneg [OF that] by (auto simp: rnd_def Let_def)
  obtain c where c: "rnd (67 / 100) = Fin c" "0 \<le> c" using upto_rnd [of "67/100" 1] by (auto simp: upto_def)
  have "c \<noteq> 0"
    using rnd_val_error [of "67/100"] c rnd_small [of "67/100"] powi_le_iff [of "-1022" "-1"] by (auto simp: abs_if split: if_splits)
  consider "f64_of_int n = PInf" | q where "f64_of_int n = Fin q" "0 \<le> q"
    using r [of "of_int n"] n by (auto simp: f64_of_int_def)
  then show ?thesis
  proof cases
    case 1
    with c \<open>c \<noteq> 0\<close> show ?thesis by (simp add: math_Min_def)
  next
    case (2 q)
    then have "0 \<le> q * c" using c(2) by simp
    with r [OF this] c 2 show ?thesis by (auto simp: math_Min_def)
  qed
qed

lemma ad_score_upto:
  "0 \<le> UP_AdCompletions p \<Longrightarrow> UP_AdCompletions p \<le> UP_TotalCampaigns p \<Longrightarrow> UP_TotalCampaigns p \<le> 2 ^ 53 \<Longrightarrow> upto 5 (ad_score p)"
  using upto_mul [of 1 "f64_quot (f64_of_int (UP_AdCompletions p)) (f64_of_int (UP_TotalCampaigns p))" 5] quot_upto_1 [of "UP_AdCompletions p" "UP_TotalCampaigns p"]
  by (auto simp: ad_score_def)

text \<open>A profile read for a score is a stored one, or zero after a failed read.\<close>

lemma GetProfile_cases: "fst (GetProfile f i db) = Some p \<Longrightarrow> p = zero_profile \<or> p \<in> set (fd_profiles db) \<and> UP_TelegramID p = i"
  by (auto simp: GetProfile_def FindOne_def filter_eq_Cons_iff split: option.splits list.splits)

lemma recent_memberships_length: "GetRecentMemberships io i d db = Inr l \<Longrightarrow> length l \<le> length (fd_memberships db)"
  by (auto simp: GetRecentMemberships_def Find_All_def stmt_Inr split: if_splits)

definition counters_ok :: "fraud_db \<Rightarrow> bool" where
  "counters_ok db \<longleftrightarrow> length (fd_memberships db) \<le> 2 ^ 53 \<and>
     (\<forall>p \<in> set (fd_profiles db). 0 \<le> UP_AdCompletions p \<and> UP_AdCompletions p \<le> UP_TotalCampaigns p \<and> UP_TotalCampaigns p \<le> 2 ^ 53)"

lemma GetActivityDays_nonneg: "0 \<le> fst (GetActivityDays io i d db)"
  by (simp add: GetActivityDays_def CountDocuments_def split: option.splits)

text \<open>
  (C21) The trust score of a user lies between 0 and 100 and each of its six factors within the range that the model
  documents (25, 20, 20, 20, 10 and 5), whatever the reads answer, as long as no counter exceeds \<open>2 ^ 53\<close> and no
  profile completed more campaigns than it took part in.
\<close>

theorem user_score_bounds:
  assumes "UserScorer_Calculate ios i db = (score, b)" "counters_ok db"
  shows "0 \<le> score \<and> score \<le> 100 \<and> upto 25 (SB_MembershipDuration b) \<and> upto 20 (SB_JoinLeaveRatio b) \<and>
    upto 20 (SB_ActivityScore b) \<and> upto 20 (SB_RetentionScore b) \<and> upto 10 (SB_DiversityScore b) \<and> upto 5 (SB_AdQualityScore b)"
proof (cases "fst (GetProfile (io_flt (ios 0) 0) i db)")
  case None
  with assms(1) show ?thesis by (auto simp: UserScorer_Calculate_def empty_score_def)
next
  case (Some p)
  have ad: "upto 5 (ad_score p)"
    using GetProfile_cases [OF Some] assms(2) by (intro ad_score_upto) (auto simp: counters_ok_def zero_profile_def)
  define ms where "ms = (case GetRecentMemberships (ios 1) i 90 db of Inl _ \<Rightarrow> [] | Inr l \<Rightarrow> l)"
  have "length ms \<le> length (fd_memberships db)"
    by (auto simp: ms_def dest: recent_memberships_length split: sum.splits)
  then have ret: "upto 20 (calcRetentionScore ms)" using assms(2) by (intro retention_upto) (simp add: counters_ok_def)
  define t where "t = sum_scores [fst (duration_score (avgMembershipDays (io_now (ios 2)) ms)),
    fst (join_leave_score (UP_TotalLeaves p) (UP_TotalJoins p)),
    math_Min (f64_mul (f64_of_int (fst (GetActivityDays (ios 3) i 30 db))) (rnd (67 / 100))) (Fin 20),
    calcRetentionScore ms, fst (diversity_score (length (uniqueCommunities ms))), ad_score p]"
  have t: "f64_to_int (math_Min t (Fin 100)) \<le> 100" using below_to_int [OF below_Min [of 100 t]] by simp
  have r: "score = max (fst (penalize p (f64_to_int (math_Min t (Fin 100))))) 0"
    "SB_MembershipDuration b = fst (duration_score (avgMembershipDays (io_now (ios 2)) ms))"
    "SB_JoinLeaveRatio b = fst (join_leave_score (UP_TotalLeaves p) (UP_TotalJoins p))"
    "SB_ActivityScore b = math_Min (f64_mul (f64_of_int (fst (GetActivityDays (ios 3) i 30 db))) (rnd (67 / 100))) (Fin 20)"
    "SB_RetentionScore b = calcRetentionScore ms" "SB_DiversityScore b = fst (diversity_score (length (uniqueCommunities ms)))"
    "SB_AdQualityScore b = ad_score p"
    using assms(1) by (auto simp: UserScorer_Calculate_def Some Let_def case_prod_beta ms_def t_def)
  show ?thesis
    unfolding r using penalize_le [OF t] duration_score_upto join_leave_score_upto activity_upto [OF GetActivityDays_nonneg] ret
      diversity_score_upto ad by simp
qed

definition quiet :: io where
  "quiet = \<lparr>io_flt = (\<lambda>_. None), io_now = (\<lambda>_. 0), io_uuid = (\<lambda>_. [])\<rparr>"

definition no_fraud_data :: fraud_db where
  "no_fraud_data = \<lparr>fd_profiles = [], fd_history = [], fd_memberships = [], fd_activity = [], fd_user_scores = [],
     fd_community_scores = [], fd_statistics = [], fd_events = []\<rparr>"

definition toy_profile :: UserProfile where
  "toy_profile = zero_profile\<lparr>UP_TelegramID := 7, UP_TotalJoins := 4, UP_TotalLeaves := 3, UP_TotalCampaigns := 2, UP_AdCompletions := 1\<rparr>"

theorem user_score_bounds_witness:
  "counters_ok (no_fraud_data\<lparr>fd_profiles := [toy_profile]\<rparr>) \<and>
   fst (UserScorer_Calculate (\<lambda>_. quiet) 7 (no_fraud_data\<lparr>fd_profiles := [toy_profile]\<rparr>)) \<in> {0..100}"
proof
  show ok: "counters_ok (no_fraud_data\<lparr>fd_profiles := [toy_profile]\<rparr>)"
    by (simp add: counters_ok_def no_fraud_data_def toy_profile_def zero_profile_def)
  show "fst (UserScorer_Calculate (\<lambda>_. quiet) 7 (no_fraud_data\<lparr>fd_profiles := [toy_profile]\<rparr>)) \<in> {0..100}"
    using user_score_bounds [OF prod.collapse [symmetric] ok, of "\<lambda>_. quiet" 7] by simp
qed

section \<open>What a community can score\<close>

lemma below_mono: "below m x \<Longrightarrow> m \<le> n \<Longrightarrow> below n x"
  by (cases x) (auto simp: below_def intro: order_trans)

lemma avg_unknown: "fd_profiles db = [] \<Longrightarrow> fst (GetAvgTrustScoreForCommunity io c db) = Fin 50"
  by (auto simp: GetAvgTrustScoreForCommunity_def Let_def split: option.splits)

lemma quality_below: "below 16 (f64_mul (Fin 50) (rnd (3 / 10)))"
proof -
  have "(2::rat) powi (-1022) \<le> 2 powi (-2)" by (simp only: powi_le_iff)
  then have "(2::rat) powi (-1022) \<le> \<bar>3 / 10\<bar>" by simp
  from rnd_val_error [OF this] have "\<bar>rnd_val (3 / 10) - 3 / 10\<bar> \<le> 1 / 1000" by (rule order_trans) simp
  then have "rnd_val (3 / 10) \<le> 31 / 100" by linarith
  then have "50 * rnd_val (3 / 10) \<le> of_int 16" by simp
  from below_rnd [OF this] show ?thesis by (simp add: rnd_small)
qed

lemma retention_below: "below 30 (f64_mul (calcCommunityRetention st) (Fin 30))"
proof -
  have "below 1 (calcCommunityRetention st)"
    using below_Min [of 1] by (simp add: calcCommunityRetention_def below_rnd)
  from below_mul [OF this, of 30] show ?thesis by simp
qed

lemma idle_below: "below 0 (math_Min (f64_mul (if b then f64_quot (Fin 0) y else Fin 0) (Fin 20)) (Fin 20))"
  by (auto simp: f64_quot_def math_Min_def below_def rnd_def Let_def split: f64.splits)

lemma leave_score_below: "below 10 (fst (leave_score st))"
  by (simp add: leave_score_def Let_def below_def)

text \<open>Without profiles and without active members a community stays below 62 points.\<close>

lemma community_score_le:
  assumes "fd_profiles db = []" "\<forall>st \<in> set (fd_statistics db). ST_ActiveMembers st = 0"
  shows "fst (CommunityScorer_Calculate ios c db) \<le> 61"
proof (cases "fst (GetCommunityStats (io_flt (ios 0) 0) c db)")
  case (Some st)
  have st: "ST_ActiveMembers st = 0" using Some assms(2)
    by (auto simp: GetCommunityStats_def FindOne_def filter_eq_Cons_iff split: option.splits list.splits)
  let ?t = "sum_scores [f64_mul (calcCommunityRetention st) (Fin 30),
    math_Min (f64_mul (if 0 < ST_MemberCount st then f64_quot (Fin 0) (f64_of_int (ST_MemberCount st)) else Fin 0) (Fin 20)) (Fin 20),
    f64_mul (Fin 50) (rnd (3 / 10)), fst (leave_score st), Fin 5]"
  have "below (30 + 0 + 16 + 10 + 5) ?t"
    using below_sum5 [OF retention_below idle_below quality_below leave_score_below, of 5 "Fin 5"] by (simp add: below_def)
  then have "below 61 (math_Min ?t (Fin 100))" by (cases ?t) (auto simp: math_Min_def below_def)
  then have "f64_to_int (math_Min ?t (Fin 100)) \<le> 61" by (rule below_to_int) simp
  moreover have "fst (CommunityScorer_Calculate ios c db) = (if ST_MemberCount st = 0 then 50 else max (f64_to_int (math_Min ?t (Fin 100))) 0)"
    by (simp add: CommunityScorer_Calculate_def Some Let_def case_prod_beta st avg_unknown [OF assms(1)] f64_of_int_exact [of 0, simplified])
  ultimately show ?thesis by simp
qed (simp add: CommunityScorer_Calculate_def)

section \<open>Histories of the fraud engine\<close>

inductive fraud_step :: "fraud \<Rightarrow> fraud \<Rightarrow> bool" where
  listener: "fraud_step s (RegisterListeners ios subject msg s)"
| score_handler: "fraud_step s (RegisterScoreHandlers ios subject msg s)"
| rest: "fraud_step s (snd (fraud_Register key header ios q s))"
| periodic: "fraud_step s (snd (batchRecalcUsers stop lio ios s))"

definition no_fraud :: fraud where
  "no_fraud = \<lparr>fr_db = no_fraud_data, fr_published = []\<rparr>"

text \<open>
  No profile, statistics in which members are joins less leaves and nobody is active, and snapshots
  of communities below full payment.
\<close>

definition stat_ok :: "CommunityStatistics \<Rightarrow> bool" where
  "stat_ok st \<longleftrightarrow> ST_ActiveMembers st = 0 \<and> ST_MemberCount st = ST_TotalJoins st - ST_TotalLeaves st"

definition snap_ok :: "CommunityScoreSnapshot \<Rightarrow> bool" where
  "snap_ok c \<longleftrightarrow> CS_Score c \<le> 61 \<and> CS_RevenueStatus c = CommunityRevenueStatus (CS_Score c)"

definition fraud_db_inv :: "fraud_db \<Rightarrow> bool" where
  "fraud_db_inv db \<longleftrightarrow> fd_profiles db = [] \<and> (\<forall>st \<in> set (fd_statistics db). stat_ok st) \<and> (\<forall>c \<in> set (fd_community_scores db). snap_ok c)"

lemma profile_paths_conflict: "\<not> distinct (concat [profile_fields, [''first_seen'']])"
  by (simp add: profile_fields_def)

lemma UpsertProfile_nothing: "snd (UpsertProfile io p db) = db"
  by (simp add: UpsertProfile_def Let_def case_prod_beta UpdateOne_conflict [OF profile_paths_conflict])

lemma inc_statistics_ok:
  "inc_statistics 1 0 1 now st = Inr st' \<Longrightarrow> stat_ok st \<Longrightarrow> stat_ok st'"
  "inc_statistics 0 1 (-1) now st = Inr st' \<Longrightarrow> stat_ok st \<Longrightarrow> stat_ok st'"
  by (auto simp: inc_statistics_def stat_ok_def split: if_splits)

lemma inv_RecordJoin: "fraud_db_inv db \<Longrightarrow> fraud_db_inv (snd (RecordJoin io m db))"
proof -
  assume inv: "fraud_db_inv db"
  have "\<forall>st \<in> set (snd (UpdateOne f ps (Some \<lparr>ST_CommunityID = c, ST_MemberCount = 1, ST_ActiveMembers = 0, ST_TotalJoins = 1,
      ST_TotalLeaves = 0, ST_AvgTrustScore = Fin 0, ST_UpdatedAt = t\<rparr>) P (inc_statistics 1 0 1 now) (fd_statistics db))). stat_ok st"
    for f ps c t P now
    by (rule UpdateOne_all) (use inv in \<open>auto simp: fraud_db_inv_def stat_ok_def [of "\<lparr>ST_CommunityID = _, ST_MemberCount = _, ST_ActiveMembers = _, ST_TotalJoins = _, ST_TotalLeaves = _, ST_AvgTrustScore = _, ST_UpdatedAt = _\<rparr>"] dest: inc_statistics_ok\<close>)
  with inv show ?thesis by (simp add: fraud_db_inv_def RecordJoin_def Let_def case_prod_beta)
qed

lemma inv_RecordLeave: "fraud_db_inv db \<Longrightarrow> fraud_db_inv (RecordLeave io t c db)"
proof -
  assume inv: "fraud_db_inv db"
  have "\<forall>st \<in> set (snd (UpdateOne f ps None P (inc_statistics 0 1 (-1) now) (fd_statistics db))). stat_ok st" for f ps P now
    by (rule UpdateOne_all) (use inv in \<open>auto simp: fraud_db_inv_def dest: inc_statistics_ok\<close>)
  with inv show ?thesis by (simp add: fraud_db_inv_def RecordLeave_def Let_def case_prod_beta)
qed

lemma inv_UpdateTrustScore: "fraud_db_inv db \<Longrightarrow> fraud_db_inv (snd (UpdateTrustScore io i sc b db))"
  by (auto simp: fraud_db_inv_def UpdateTrustScore_def Let_def case_prod_beta split: sum.splits)

lemma inv_UpdateCommunityScore: "fraud_db_inv db \<Longrightarrow> sc \<le> 61 \<Longrightarrow> fraud_db_inv (UpdateCommunityScore io c sc b db)"
  using InsertOne_set by (fastforce simp: fraud_db_inv_def UpdateCommunityScore_def snap_ok_def)

lemma inv_others:
  "fraud_db_inv db \<Longrightarrow> fraud_db_inv (RecordProfileChange io h db)"
  "fraud_db_inv db \<Longrightarrow> fraud_db_inv (snd (RecordActivity io t c m r x db))"
  "fraud_db_inv db \<Longrightarrow> fraud_db_inv (RecordFraudEvent io e db)"
  by (simp_all add: fraud_db_inv_def RecordProfileChange_def RecordActivity_def RecordFraudEvent_def Let_def case_prod_beta)

abbreviation fraud_inv :: "fraud \<Rightarrow> bool" where "fraud_inv s \<equiv> fraud_db_inv (fr_db s)"

lemma inv_recalcUser: "fraud_inv s \<Longrightarrow> fraud_inv (recalcUserScore ios i s)"
  by (simp add: recalcUserScore_def Let_def case_prod_beta inv_UpdateTrustScore)

lemma inv_score: "fraud_db_inv db \<Longrightarrow> fst (CommunityScorer_Calculate ios c db) \<le> 61"
  by (rule community_score_le) (auto simp: fraud_db_inv_def stat_ok_def)

lemma inv_recalcCommunity: "fraud_inv s \<Longrightarrow> fraud_inv (recalcCommunityScore ios c s)"
  using inv_UpdateCommunityScore [OF _ inv_score] by (simp add: recalcCommunityScore_def Let_def case_prod_beta)

lemma inv_detect: "fraud_inv s \<Longrightarrow> fraud_inv (detectJoinLoopFraud ios t c s)"
  by (simp add: detectJoinLoopFraud_def Let_def inv_others)

lemmas inv_handlers = inv_recalcUser inv_recalcCommunity inv_detect inv_RecordJoin inv_RecordLeave inv_others UpsertProfile_nothing

lemma inv_events:
  assumes "fraud_inv s"
  shows "fraud_inv (onJoin ios e s)" "fraud_inv (onLeave ios e s)" "fraud_inv (onActivity ios e s)"
    "fraud_inv (onProfile w ios e s)" "fraud_inv (onCampaign ios e s)"
  using assms
  by (auto simp: onJoin_def handleJoin_def onLeave_def handleLeave_def onActivity_def handleActivity_def onProfile_def
      handleProfileUpdate_def onCampaign_def handleCampaignComplete_def Let_def inv_handlers split: option.splits)

lemma inv_recalc_users: "recalc_users stop ios n i us s = (b, n', i', s') \<Longrightarrow> fraud_inv s \<Longrightarrow> fraud_inv s'"
  by (induction stop ios n i us s rule: recalc_users.induct) (auto simp: inv_recalcUser split: if_splits)

lemma inv_batch: "fraud_inv s \<Longrightarrow> fraud_inv (snd (batch_loop stop lio ios k n i s))"
proof (induction stop lio ios k n i s rule: batch_loop.induct)
  case (1 stop lio ios k n i s)
  then show ?case
    by (subst batch_loop.simps) (auto dest: inv_recalc_users split: sum.splits prod.splits if_splits, metis inv_recalc_users)
qed

lemma inv_rest: "fraud_inv s \<Longrightarrow> fraud_inv (snd (fraud_Register key header ios q s))"
  using inv_UpdateCommunityScore [OF _ inv_score]
  by (auto simp: fraud_Register_def fraud_authMiddleware_def recalcUser_def recalcCommunity_def Let_def case_prod_beta inv_UpdateTrustScore
      split: fraud_request.splits)

interpretation fraud_history: step_invariant fraud_step fraud_inv
proof
  fix s s'
  assume "fraud_step s s'" "fraud_inv s"
  then show "fraud_inv s'"
    by cases (auto simp: RegisterListeners_def RegisterScoreHandlers_def batchRecalcUsers_def inv_events inv_rest inv_batch split: option.splits)
qed

lemma no_fraud_inv: "fraud_inv no_fraud"
  by (simp add: no_fraud_def no_fraud_data_def fraud_db_inv_def)

lemma reached_inv: "fraud_step\<^sup>*\<^sup>* no_fraud s \<Longrightarrow> fraud_inv s"
  using fraud_history.run_keeps no_fraud_inv by blast

text \<open>
  (C18) No profile is ever stored. \<open>UpsertProfile\<close> writes \<open>first_seen\<close> under two operators of one update, which the
  server refuses; so after any history of messages, requests and recalculations every user is unknown, is scored 50,
  and is answered with the default.
\<close>

theorem profiles_never_stored:
  assumes "fraud_step\<^sup>*\<^sup>* no_fraud s"
  shows "fd_profiles (fr_db s) = [] \<and>
    onUserScoreRequest None i (fr_db s) = \<lparr>XS_TelegramID = i, XS_Score = 60, XS_Label = ''normal'', XS_Known = False\<rparr> \<and>
    (io_flt (ios 0) 0 = None \<longrightarrow> UserScorer_Calculate ios i (fr_db s) = (50, empty_score))"
proof -
  have p: "fd_profiles (fr_db s) = []" using reached_inv [OF assms] by (simp add: fraud_db_inv_def)
  then have "fst (GetProfile None i (fr_db s)) = None" by (simp add: GetProfile_def FindOne_def)
  with p show ?thesis by (simp add: onUserScoreRequest_def UserScorer_Calculate_def)
qed

definition profile_msg :: json_obj where
  "profile_msg = [(''telegram_id'', JInt 7), (''username'', JStr ''ali''), (''first_name'', JStr ''Ali''), (''has_photo'', JBool True)]"

theorem profiles_never_stored_witness:
  "fraud_step\<^sup>*\<^sup>* no_fraud (RegisterListeners (\<lambda>_. quiet) ''profile.updated'' (Some profile_msg) no_fraud) \<and>
   XS_Known (onUserScoreRequest None 7 (fr_db (RegisterListeners (\<lambda>_. quiet) ''profile.updated'' (Some profile_msg) no_fraud))) = False"
proof
  show run: "fraud_step\<^sup>*\<^sup>* no_fraud (RegisterListeners (\<lambda>_. quiet) ''profile.updated'' (Some profile_msg) no_fraud)"
    by (rule r_into_rtranclp) (rule listener)
  show "XS_Known (onUserScoreRequest None 7 (fr_db (RegisterListeners (\<lambda>_. quiet) ''profile.updated'' (Some profile_msg) no_fraud))) = False"
    using profiles_never_stored [OF run, of 7 "\<lambda>_. quiet"] by simp
qed

lemma rnd_val_fraction:
  assumes "1 / 10 \<le> q" "q \<le> 9 / 10"
  shows "rnd_val q < 1"
proof -
  have "(2::rat) powi (-1022) \<le> 2 powi (-4)" by (simp only: powi_le_iff)
  also have "\<dots> \<le> \<bar>q\<bar>" using assms by simp
  finally have "\<bar>rnd_val q - q\<bar> \<le> \<bar>q\<bar> / 2 ^ 53" by (rule rnd_val_error)
  also have "\<dots> \<le> 1 / 100" using assms by simp
  finally show ?thesis using assms(2) by linarith
qed

lemma multiplier_partial: "sc < 80 \<Longrightarrow> revenueMultiplierFromScore sc \<noteq> Fin 1" "rnd (8 / 10) \<noteq> Fin 1"
  using rnd_val_fraction [of "8 / 10"] rnd_val_fraction [of "1 / 2"] by (auto simp: revenueMultiplierFromScore_def rnd_small)

lemma FindOne_cases: "fst (FindOne flt z docs) = Some d \<Longrightarrow> d = z \<or> d \<in> set docs"
  by (auto simp: FindOne_def split: option.splits list.splits)


definition join_msg :: json_obj where
  "join_msg = [(''telegram_id'', JInt 7), (''community_id'', JInt (-100)), (''source'', JStr ''organic'')]"


text \<open>Statistics add up in every history.\<close>

lemma members_add_up:
  "fraud_step\<^sup>*\<^sup>* no_fraud s \<Longrightarrow> st \<in> set (fd_statistics (fr_db s)) \<Longrightarrow> ST_MemberCount st = ST_TotalJoins st - ST_TotalLeaves st"
  using reached_inv by (auto simp: fraud_db_inv_def stat_ok_def)

section \<open>The recalculation reaches every user once\<close>

fun recalc_all :: "(nat \<Rightarrow> nat \<Rightarrow> io) \<Rightarrow> nat \<Rightarrow> int64 list \<Rightarrow> fraud \<Rightarrow> fraud" where
  "recalc_all ios n [] s = s"
| "recalc_all ios n (u # us) s = recalc_all ios (Suc n) us (recalcUserScore (ios n) u s)"

lemma recalc_all_append: "recalc_all ios n (xs @ ys) s = recalc_all ios (n + length xs) ys (recalc_all ios n xs s)"
  by (induction xs arbitrary: n s) auto

lemma recalc_all_ids [simp]: "profile_ids (recalc_all ios n us s) = profile_ids s"
  by (induction us arbitrary: n s) auto

lemma recalc_users_all:
  "us \<noteq> [] \<Longrightarrow> recalc_users (\<lambda>_. False) ios n i us s = (False, n + length us, last us, recalc_all ios n us s)"
proof (induction us arbitrary: n i s)
  case (Cons u us)
  then show ?case by (cases us) auto
qed simp

lemma sorted_after_take:
  assumes "sorted xs" "distinct xs" "k \<le> length xs" "0 < k"
  shows "filter (\<lambda>j. last (take k xs) < j) xs = drop k xs"
proof -
  let ?l = "last (take k xs)"
  have "take k xs \<noteq> []" using assms(3,4) by auto
  then have l: "?l \<in> set (take k xs)" by (rule last_in_set)
  have cat: "sorted (take k xs @ drop k xs)" "distinct (take k xs @ drop k xs)" using assms(1,2) by simp_all
  have "x \<le> ?l" if "x \<in> set (take k xs)" for x
  proof -
    have "take k xs = butlast (take k xs) @ [?l]" using \<open>take k xs \<noteq> []\<close> by simp
    moreover have "sorted (take k xs)" using assms(1) by (simp add: sorted_wrt_take)
    ultimately have "\<forall>y \<in> set (butlast (take k xs)). y \<le> ?l" by (metis list.set_intros(1) sorted_append)
    then show ?thesis using that \<open>take k xs = _\<close> by (metis Un_iff empty_iff insert_iff list.set(1,2) order_refl set_append)
  qed
  moreover have "?l < x" if "x \<in> set (drop k xs)" for x
  proof -
    have "?l \<le> x" using cat(1) l that unfolding sorted_append by blast
    moreover have "?l \<noteq> x" using cat(2) l that unfolding distinct_append by blast
    ultimately show ?thesis by simp
  qed
  ultimately have "filter (\<lambda>j. ?l < j) (take k xs @ drop k xs) = drop k xs"
    by (subst filter_append) (auto simp: filter_empty_conv filter_id_conv not_less)
  then show ?thesis by simp
qed

lemma batch_loop_all:
  assumes "\<And>k. io_ok (lio k)" "distinct (profile_ids s)"
  shows "batch_loop (\<lambda>_. False) lio ios k n i s =
    (n + length (ids_after i s), recalc_all ios n (sort (ids_after i s)) s)"
  using assms(2)
proof (induction "length (ids_after i s)" arbitrary: k n i s rule: less_induct)
  case less
  define xs where "xs = sort (ids_after i s)"
  have xs: "sorted xs" "distinct xs" "length xs = length (ids_after i s)"
    using less.prems by (simp_all add: xs_def ids_after_def)
  have users: "ListUsersForRecalc (lio k) i 100 (fr_db s) = Inr (take 100 xs)"
    by (simp add: ListUsersForRecalc_ids Find_All_def assms(1) xs_def)
  consider "xs = []" | "xs \<noteq> []" "length xs < 100" | "100 \<le> length xs" by linarith
  then show ?case
  proof cases
    case 3
    then have ne: "take 100 xs \<noteq> []" by auto
    let ?s = "recalc_all ios n (take 100 xs) s" and ?i = "last (take 100 xs)"
    have dec: "length (ids_after ?i ?s) < length (ids_after i s)"
      by (rule round_shrinks [OF users ne recalc_users_all [OF ne]])
    have "i < ?i"
      using last_in_set [OF ne] set_take_subset [of 100 xs] by (auto simp: xs_def ids_after_def)
    then have "ids_after ?i ?s = filter (\<lambda>j. ?i < j) (ids_after i s)" by (auto simp: ids_after_def intro!: filter_cong)
    then have "sort (ids_after ?i ?s) = filter (\<lambda>j. ?i < j) xs" by (simp add: xs_def filter_sort)
    then have rest: "sort (ids_after ?i ?s) = drop 100 xs" using sorted_after_take [OF xs(1,2) 3] by simp
    then have len: "length (ids_after ?i ?s) = length xs - 100" by (metis length_drop length_sort)
    have "batch_loop (\<lambda>_. False) lio ios k n i s = batch_loop (\<lambda>_. False) lio ios (Suc k) (n + 100) ?i ?s"
      using 3 ne by (subst batch_loop.simps) (simp add: users recalc_users_all)
    also have "\<dots> = (n + 100 + (length xs - 100), recalc_all ios (n + 100) (drop 100 xs) ?s)"
      by (subst less.hyps [OF dec]) (use less.prems in \<open>simp_all only: rest len recalc_all_ids\<close>)
    also have "recalc_all ios (n + 100) (drop 100 xs) ?s = recalc_all ios n xs s"
      using recalc_all_append [of ios n "take 100 xs" "drop 100 xs" s] 3
      by (simp only: append_take_drop_id length_take min.absorb2)
    also have "n + 100 + (length xs - 100) = n + length (ids_after i s)" using 3 xs(3) by simp
    finally show ?thesis by (simp add: xs_def)
  next
    case 1
    then have "ids_after i s = []" using xs(3) by simp
    with 1 show ?thesis by (subst batch_loop.simps) (simp add: users)
  next
    case 2
    then have "batch_loop (\<lambda>_. False) lio ios k n i s = (n + length xs, recalc_all ios n xs s)"
      by (subst batch_loop.simps) (simp add: users recalc_users_all)
    then show ?thesis by (simp add: xs_def)
  qed
qed

text \<open>
  (C19) The periodic recalculation ends and, while the database answers and the process is not stopped, recalculates
  every user with a positive identifier exactly once, in ascending order, although it reads them in pages of a hundred.
\<close>

theorem batch_recalc_complete:
  assumes "\<And>k. io_ok (lio k)" "distinct (profile_ids s)"
  shows "batchRecalcUsers (\<lambda>_. False) lio ios s =
    (length (filter (\<lambda>i. 0 < i) (profile_ids s)), recalc_all ios 0 (sort (filter (\<lambda>i. 0 < i) (profile_ids s))) s)"
  using batch_loop_all [OF assms, where i = 0 and n = 0 and k = 0] by (simp add: batchRecalcUsers_def ids_after_def)

theorem batch_recalc_complete_witness:
  "fst (batchRecalcUsers (\<lambda>_. False) (\<lambda>_. quiet) (\<lambda>_ _. quiet)
     (no_fraud\<lparr>fr_db := no_fraud_data\<lparr>fd_profiles := map (\<lambda>i. toy_profile\<lparr>UP_TelegramID := i\<rparr>) [9, 7, 8]\<rparr>\<rparr>)) = 3"
  by (subst batch_recalc_complete) (simp_all add: quiet_def io_ok_def profile_ids_def)

section \<open>Joins as member-bot reports them\<close>

definition at_community :: "int64 \<Rightarrow> int64 \<Rightarrow> UserMembership \<Rightarrow> bool" where
  "at_community t c m \<longleftrightarrow> UM_TelegramID m = t \<and> UM_CommunityID m = c"

definition join_times :: "int64 \<Rightarrow> int64 \<Rightarrow> fraud \<Rightarrow> time list" where
  "join_times t c s = map UM_JoinedAt (filter (at_community t c) (fd_memberships (fr_db s)))"

lemma recalc_memberships [simp]:
  "fd_memberships (fr_db (recalcUserScore ios i s)) = fd_memberships (fr_db s)"
  "fd_memberships (fr_db (recalcCommunityScore ios c s)) = fd_memberships (fr_db s)"
  "fd_memberships (fr_db (detectJoinLoopFraud ios t c s)) = fd_memberships (fr_db s)"
  by (simp_all add: recalcUserScore_def recalcCommunityScore_def detectJoinLoopFraud_def UpdateTrustScore_def UpdateCommunityScore_def
      RecordFraudEvent_def Let_def case_prod_beta split: sum.splits)

text \<open>Publications are only ever added.\<close>

definition grows :: "fraud \<Rightarrow> fraud \<Rightarrow> bool" where
  "grows s s' \<longleftrightarrow> set (fr_published s) \<subseteq> set (fr_published s')"

lemma grows_simps [simp]:
  "grows s s" "grows s (fr_publish flt m s)" "grows s (on_fraud_db f s)"
  "fr_published (on_fraud_db f s) = fr_published s"
  by (auto simp: grows_def fr_publish_def on_fraud_db_def split: option.splits)

lemma grows_trans: "grows s t \<Longrightarrow> grows t u \<Longrightarrow> grows s u"
  by (auto simp: grows_def)

lemma grows_recalc: "grows s (recalcUserScore ios i s)" "grows s (recalcCommunityScore ios c s)"
  by (auto simp: recalcUserScore_def recalcCommunityScore_def Let_def case_prod_beta grows_def fr_publish_def split: option.splits)

lemma handleJoin_times:
  assumes "io_flt (ios 0) 3 = None"
  shows "join_times t c (handleJoin ios t c src camp s) = join_times t c s @ [bson_time (io_now (ios 0) 0)]"
  using assms
  by (simp add: join_times_def handleJoin_def RecordJoin_def InsertOne_def Let_def case_prod_beta at_community_def)

lemma close_membership_times:
  "map (\<lambda>m. (UM_TelegramID m, UM_CommunityID m, UM_JoinedAt m)) (close_membership io t c ms) =
   map (\<lambda>m. (UM_TelegramID m, UM_CommunityID m, UM_JoinedAt m)) ms"
  by (auto simp: close_membership_def intro!: UpdateOne_map split: option.splits list.splits)

lemma join_times_alt:
  "join_times t c s = map (\<lambda>x. snd (snd x)) (filter (\<lambda>x. fst x = t \<and> fst (snd x) = c)
     (map (\<lambda>m. (UM_TelegramID m, UM_CommunityID m, UM_JoinedAt m)) (fd_memberships (fr_db s))))"
  by (simp add: join_times_def at_community_def [abs_def] filter_map o_def)

lemma handleLeave_times: "join_times t c (handleLeave ios u d s) = join_times t c s"
  by (simp add: join_times_alt handleLeave_def RecordLeave_def Let_def case_prod_beta close_membership_times)

text \<open>Three joins within seven days are reported.\<close>

lemma detect_reports:
  assumes "io_ok (ios 0)" "io_ok (ios 2)" "3 \<le> length (filter (\<lambda>x. AddDays (io_now (ios 0) 1) (-7) < x) (join_times t c s))"
  shows "FraudDetected ''join_leave_loop'' t c 70 \<in> set (fr_published (detectJoinLoopFraud ios t c s))"
proof -
  let ?h = "sort_desc UM_JoinedAt (filter (at_community t c) (fd_memberships (fr_db s)))"
  have h: "GetMembershipHistory (ios 0) t c (fr_db s) = Inr ?h"
    by (simp add: GetMembershipHistory_def Find_All_def assms(1) at_community_def [abs_def])
  have len: "length (filter (\<lambda>m. AddDays (io_now (ios 0) 1) (-7) < UM_JoinedAt m) ?h) =
      length (filter (\<lambda>x. AddDays (io_now (ios 0) 1) (-7) < x) (join_times t c s))"
    by (simp add: sort_desc_def join_times_def filter_sort filter_map o_def)
  then have big: "3 \<le> length (filter (\<lambda>m. AddDays (io_now (ios 0) (Suc 0)) (-7) < UM_JoinedAt m) ?h)" using assms(3) by simp
  then have "3 \<le> length ?h" using length_filter_le [of _ ?h] by (metis order_trans)
  then show ?thesis using assms(2) big by (simp add: detectJoinLoopFraud_def h Let_def fr_publish_def)
qed

lemma handleJoin_reports:
  assumes "\<And>k. io_ok (ios k)" "3 \<le> length (filter (\<lambda>x. AddDays (io_now (ios 1) 1) (-7) < x) (join_times t c s @ [bson_time (io_now (ios 0) 0)]))"
  shows "FraudDetected ''join_leave_loop'' t c 70 \<in> set (fr_published (handleJoin ios t c src camp s))"
proof -
  let ?m = "\<lparr>UM_TelegramID = t, UM_CommunityID = c, UM_JoinedAt = zero_time, UM_LeftAt = None, UM_DurationSec = 0,
    UM_RejoinCount = 0, UM_Source = src, UM_CampaignID = camp\<rparr>"
  let ?s1 = "on_fraud_db (\<lambda>db. snd (RecordJoin (ios 0) ?m db)) s"
  have "join_times t c ?s1 = join_times t c s @ [bson_time (io_now (ios 0) 0)]"
    by (simp add: join_times_def RecordJoin_def InsertOne_def Let_def case_prod_beta at_community_def assms(1))
  then have "FraudDetected ''join_leave_loop'' t c 70 \<in> set (fr_published (detectJoinLoopFraud (\<lambda>k. ios (k + 1)) t c ?s1))"
    using assms(1,2) by (intro detect_reports) simp_all
  then show ?thesis using grows_recalc unfolding handleJoin_def Let_def grows_def by blast
qed

lemma deliver_join:
  assumes "in_int64 t" "in_int64 c"
  shows "fraud_deliver_all ios (publishJoin True now t c name src h) s = handleJoin (ios 1) t c src h (handleJoin (ios 0) t c src [] s)"
  using assms
  by (simp add: publishJoin_def ReportJoin_def fraud_deliver_def RegisterListeners_def RegisterScoreHandlers_def onJoin_def get_int_def get_str_def)

lemma deliver_leave:
  assumes "in_int64 t" "in_int64 c"
  shows "fraud_deliver_all ios (publishLeave True now t c) s = handleLeave (ios 1) t c (handleLeave (ios 0) t c s)"
  using assms
  by (simp add: publishLeave_def ReportLeave_def fraud_deliver_def RegisterListeners_def RegisterScoreHandlers_def onLeave_def get_int_def)

text \<open>
  member-bot reports one join on two subjects and the fraud engine counts both. A user who joins, leaves and
  comes back once within six days is recorded with four joins and reported for joining three times in seven days.
\<close>

theorem join_counted_twice:
  fixes ios :: "nat \<Rightarrow> nat \<Rightarrow> nat \<Rightarrow> io"
  assumes ok: "\<And>i n k. io_ok (ios i n k)"
    and clock: "\<And>i n k j. T \<le> io_now (ios i n k) j \<and> io_now (ios i n k) j \<le> T + 6 * 86400000000000"
    and ids: "in_int64 t" "in_int64 c" and fresh: "join_times t c s = []"
    and run: "s' = fraud_deliver_all (ios 2) (publishJoin True T3 t c name src h)
      (fraud_deliver_all (ios 1) (publishLeave True T2 t c) (fraud_deliver_all (ios 0) (publishJoin True T1 t c name src h) s))"
  shows "length (join_times t c s') = 4 \<and> FraudDetected ''join_leave_loop'' t c 70 \<in> set (fr_published s')"
proof -
  have recent: "AddDays (io_now (ios i n k) j) (-7) < bson_time (io_now (ios i' n' k') j')" for i n k j i' n' k' j'
    using clock [of i n k j] clock [of i' n' k' j'] by (simp add: AddDays_def bson_time_def) linarith
  define s2 where "s2 = fraud_deliver_all (ios 1) (publishLeave True T2 t c) (fraud_deliver_all (ios 0) (publishJoin True T1 t c name src h) s)"
  have two: "join_times t c s2 = [bson_time (io_now (ios 0 0 0) 0), bson_time (io_now (ios 0 1 0) 0)]"
    by (simp add: s2_def deliver_join deliver_leave ids handleLeave_times handleJoin_times ok fresh)
  have "FraudDetected ''join_leave_loop'' t c 70 \<in> set (fr_published (handleJoin (ios 2 1) t c src h (handleJoin (ios 2 0) t c src [] s2)))"
    by (rule handleJoin_reports) (simp_all add: ok handleJoin_times two recent)
  moreover have "s' = handleJoin (ios 2 1) t c src h (handleJoin (ios 2 0) t c src [] s2)"
    unfolding run s2_def by (rule deliver_join [OF ids])
  ultimately show ?thesis by (simp add: handleJoin_times ok two)
qed

theorem join_counted_twice_witness:
  "FraudDetected ''join_leave_loop'' 7 (-100) 70 \<in> set (fr_published (
     fraud_deliver_all (\<lambda>_ _. quiet) (publishJoin True 0 7 (-100) ''ali'' ''organic'' [])
       (fraud_deliver_all (\<lambda>_ _. quiet) (publishLeave True 0 7 (-100))
         (fraud_deliver_all (\<lambda>_ _. quiet) (publishJoin True 0 7 (-100) ''ali'' ''organic'' []) no_fraud))))"
  using join_counted_twice [of "\<lambda>_ _ _. quiet" 0 7 "-100" no_fraud, OF _ _ _ _ _ refl]
  by (simp add: quiet_def io_ok_def in_int64_def join_times_def no_fraud_def no_fraud_data_def)

section \<open>Invite links\<close>

lemma LastIndex_from_slash: "CHR ''/'' \<notin> set s \<Longrightarrow> LastIndex_from i s (CHR ''/'' # r) = None"
  by (induction s arbitrary: i) auto

lemma LastIndex_from_last:
  "CHR ''/'' \<notin> set r \<Longrightarrow> CHR ''/'' \<notin> set h \<Longrightarrow>
     LastIndex_from i (u @ (CHR ''/'' # r) @ h) (CHR ''/'' # r) = Some (i + length u)"
  by (induction u arbitrary: i) (auto simp: LastIndex_from_slash)

text \<open>The hash of a link is found again.\<close>

lemma extractInviteHash_link: "CHR ''/'' \<notin> set h \<Longrightarrow> extractInviteHash (u @ ''/+'' @ h) = h"
  using LastIndex_from_last [of "''+''" h 0 u] by (simp add: extractInviteHash_def LastIndex_def)

end
