(* ===== verification/AdsStore.thy ===== *)
theory AdsStore
  imports Revenue
begin

text \<open>
  The tables and the repository of the advertising bot (\<open>ads-bot/internal/store\<close>). A \<open>numeric\<close> column holds exact
  decimals, or NaN or an infinity; a float goes in as its shortest decimal, the parameter \<open>dec\<close>, and comes out
  rounded. A statement names the columns it uses, for the server refuses one that its table does not have.
  \<open>updated_at\<close> is left out.
\<close>

section \<open>Numeric columns\<close>

type_synonym numeric = f64

fun num_in :: "(f64 \<Rightarrow> rat) \<Rightarrow> f64 \<Rightarrow> numeric" where
  "num_in dec (Fin q) = Fin (dec (Fin q))"
| "num_in dec x = x"

fun num_out :: "numeric \<Rightarrow> f64" where
  "num_out (Fin q) = rnd q"
| "num_out x = x"

fun num_add :: "numeric \<Rightarrow> numeric \<Rightarrow> numeric" where
  "num_add (Fin p) (Fin q) = Fin (p + q)"
| "num_add NaN y = NaN"
| "num_add x NaN = NaN"
| "num_add PInf NInf = NaN"
| "num_add NInf PInf = NaN"
| "num_add PInf y = PInf"
| "num_add NInf y = NInf"
| "num_add x y = y"

text \<open>In PostgreSQL NaN equals itself and is greater than every other number.\<close>

definition num_le :: "numeric \<Rightarrow> numeric \<Rightarrow> bool" where
  "num_le x y \<longleftrightarrow> y = NaN \<or> f64_le x y"

definition sql :: "string option \<Rightarrow> string list \<Rightarrow> string list \<Rightarrow> go_error + 'a \<Rightarrow> go_error + 'a" where
  "sql flt columns used r =
     stmt flt (if list_all (\<lambda>c. c \<in> set columns) used then r else Inl (DBErr ''column does not exist''))"

section \<open>Rows (\<open>models.go\<close>)\<close>

record AdConfig =
  AG_ID :: uuid
  AG_BaseCPJ :: numeric
  AG_MinChannelScore :: int64
  AG_MaxFakePercent :: numeric
  AG_PlatformCommission :: numeric
  AG_IsActive :: bool

record ChannelCategory =
  CC_ID :: uuid
  CC_Name :: string
  CC_CPJMultiplier :: numeric
  CC_IsActive :: bool

record Publisher =
  PB_ID :: uuid
  PB_CreatedAt :: time
  PB_TelegramID :: int64
  PB_Username :: string
  PB_FirstName :: string
  PB_Balance :: numeric
  PB_IsBlocked :: bool

abbreviation "ChannelPending \<equiv> ''pending''"
abbreviation "ChannelVerified \<equiv> ''verified''"

record AdChannel =
  AC_ID :: uuid
  AC_CreatedAt :: time
  AC_OwnerID :: uuid
  AC_CategoryID :: "uuid option"
  AC_ChannelID :: int64
  AC_ChannelName :: string
  AC_MemberCount :: int64
  AC_Status :: string
  AC_IsActive :: bool
  AC_Score :: int64
  AC_FakePercent :: numeric
  AC_RealMembers :: int64
  AC_EffectiveCPJ :: numeric
  AC_LastAnalyzedAt :: "time option"

definition ad_channel_columns :: "string list" where
  "ad_channel_columns =
     [''id'', ''created_at'', ''updated_at'', ''owner_id'', ''category_id'', ''channel_id'', ''channel_name'', ''channel_username'',
      ''member_count'', ''status'', ''is_active'', ''score'', ''fake_percent'', ''real_members'', ''effective_cpj'',
      ''last_analyzed_at'', ''total_impressions'', ''total_earned'']"

record MemberAnalysis =
  MA_ID :: uuid
  MA_ChannelID :: int64
  MA_TelegramID :: int64
  MA_HasUsername :: bool
  MA_HasProfilePhoto :: bool
  MA_IsBot :: bool
  MA_RealScore :: int64
  MA_IsFake :: bool
  MA_AnalyzedAt :: time

abbreviation "CampaignDraft \<equiv> ''draft''"
abbreviation "CampaignPending \<equiv> ''pending''"
abbreviation "CampaignActive \<equiv> ''active''"
abbreviation "CampaignPaused \<equiv> ''paused''"
abbreviation "CampaignDone \<equiv> ''done''"
abbreviation "CampaignRejected \<equiv> ''rejected''"

record Campaign =
  CA_ID :: uuid
  CA_CreatedAt :: time
  CA_PublisherID :: uuid
  CA_Name :: string
  CA_Status :: string
  CA_MediaFileID :: string
  CA_MediaType :: string
  CA_Caption :: string
  CA_ButtonText :: string
  CA_ButtonURL :: string
  CA_Budget :: numeric
  CA_Spent :: numeric
  CA_CPJ :: numeric
  CA_TotalJoins :: int64
  CA_TargetCount :: int64
  CA_EndAt :: "time option"
  CA_ReviewNote :: string
  CA_ReviewedAt :: "time option"
  CA_ReviewerID :: int64

definition campaign_columns :: "string list" where
  "campaign_columns =
     [''id'', ''created_at'', ''updated_at'', ''publisher_id'', ''name'', ''status'', ''target_category_id'', ''min_channel_score'',
      ''media_file_id'', ''media_type'', ''caption'', ''button_text'', ''button_url'', ''budget'', ''spent'', ''cpj'', ''total_joins'',
      ''real_joins'', ''target_count'', ''start_at'', ''end_at'', ''review_note'', ''reviewed_at'', ''reviewer_id'']"

definition Campaign_RemainingBudget :: "Campaign \<Rightarrow> f64" where
  "Campaign_RemainingBudget c = f64_sub (num_out (CA_Budget c)) (num_out (CA_Spent c))"

definition Campaign_IsExpired :: "time \<Rightarrow> Campaign \<Rightarrow> bool" where
  "Campaign_IsExpired now c = (case CA_EndAt c of None \<Rightarrow> False | Some t \<Rightarrow> t < now)"

record Impression =
  IM_ID :: uuid
  IM_CampaignID :: uuid
  IM_ChannelID :: int64
  IM_MessageID :: int64

abbreviation "RentalPendingReview \<equiv> ''pending_review''"
abbreviation "RentalActive \<equiv> ''active''"
abbreviation "RentalRejected \<equiv> ''rejected''"
abbreviation "RentalDone \<equiv> ''done''"

record LockRentalCampaign =
  LR_ID :: uuid
  LR_CreatedAt :: time
  LR_BuyerTelegramID :: int64
  LR_TargetChannelID :: int64
  LR_TargetChannelUsername :: string
  LR_Status :: string
  LR_ReviewNote :: string
  LR_ReviewedAt :: "time option"
  LR_ReviewerID :: int64
  LR_RewardPerJoinTON :: numeric
  LR_Budget :: numeric
  LR_Spent :: numeric
  LR_FreeBotOwnerRewardPercent :: numeric
  LR_TotalJoins :: int64
  LR_RealJoins :: int64
  LR_StartAt :: "time option"
  LR_EndAt :: "time option"

definition LR_RemainingBudget :: "LockRentalCampaign \<Rightarrow> f64" where
  "LR_RemainingBudget l = f64_sub (num_out (LR_Budget l)) (num_out (LR_Spent l))"

definition LR_IsActive :: "time \<Rightarrow> LockRentalCampaign \<Rightarrow> bool" where
  "LR_IsActive now l =
     (if LR_Status l \<noteq> RentalActive then False
      else if f64_le (LR_RemainingBudget l) (Fin 0) then False
      else case LR_EndAt l of None \<Rightarrow> True | Some t \<Rightarrow> \<not> t < now)"

record FreeBotSlot =
  FS_ID :: uuid
  FS_BotInstanceID :: uuid
  FS_BotID :: int64
  FS_RentalID :: "uuid option"
  FS_AssignedOwnerTelegramID :: int64
  FS_IsChannelAdminConfirmed :: bool

definition IsFree :: "FreeBotSlot \<Rightarrow> bool" where "IsFree s \<longleftrightarrow> FS_RentalID s = None"
definition IsRented :: "FreeBotSlot \<Rightarrow> bool" where "IsRented s \<longleftrightarrow> FS_RentalID s \<noteq> None"

datatype JoinRewardStatus = RewardPending | RewardSettled | RewardReversed

record RentalJoinReward =
  JR_ID :: uuid
  JR_RentalID :: uuid
  JR_TelegramID :: int64
  JR_AmountTON :: numeric
  JR_Status :: JoinRewardStatus
  JR_SettleAt :: time
  JR_SettledAt :: "time option"

record FreeBotOwnerReward =
  FO_ID :: uuid
  FO_RentalID :: uuid
  FO_SlotID :: uuid
  FO_OwnerTelegramID :: int64
  FO_AmountTON :: numeric
  FO_Status :: JoinRewardStatus
  FO_SettleAt :: time
  FO_SettledAt :: "time option"

record ads_db =
  publishers :: "Publisher list"
  campaigns :: "Campaign list"
  ad_channels :: "AdChannel list"
  impressions :: "Impression list"
  ad_configs :: "AdConfig list"
  channel_categories :: "ChannelCategory list"
  member_analyses :: "MemberAnalysis list"
  lock_rentals :: "LockRentalCampaign list"
  free_bot_slots :: "FreeBotSlot list"
  join_rewards :: "RentalJoinReward list"
  owner_rewards :: "FreeBotOwnerReward list"

section \<open>Publishers and campaigns (\<open>store.go\<close>)\<close>

definition rows_set :: "('r \<Rightarrow> bool) \<Rightarrow> ('r \<Rightarrow> 'r) \<Rightarrow> 'r list \<Rightarrow> 'r list" where
  "rows_set P f rows = map (\<lambda>r. if P r then f r else r) rows"

text \<open>\<open>FirstOrCreate\<close> with \<open>Assign\<close>: the non-empty fields are written to the row that is found.\<close>

definition UpsertPublisher :: "io \<Rightarrow> int64 \<Rightarrow> string \<Rightarrow> string \<Rightarrow> ads_db \<Rightarrow> (go_error + Publisher) \<times> ads_db" where
  "UpsertPublisher io telegramID username firstName db =
     (case First (io_flt io 0) PB_ID (\<lambda>p. telegramID = 0 \<or> PB_TelegramID p = telegramID) (publishers db) of
        Inr p \<Rightarrow>
          (let p' = p\<lparr>PB_Username := (if username = [] then PB_Username p else username),
                      PB_FirstName := (if firstName = [] then PB_FirstName p else firstName)\<rparr>
           in if username = [] \<and> firstName = [] then (Inr p, db)
              else case io_flt io 1 of
                     Some m \<Rightarrow> (Inl (DBErr m), db)
                   | None \<Rightarrow> (Inr p', db\<lparr>publishers := rows_set (\<lambda>x. PB_ID x = PB_ID p) (\<lambda>_. p') (publishers db)\<rparr>))
      | Inl e \<Rightarrow>
          (if e \<noteq> ErrRecordNotFound then (Inl e, db)
           else let p = \<lparr>PB_ID = io_uuid io 0, PB_CreatedAt = io_now io 0, PB_TelegramID = telegramID, PB_Username = username,
                         PB_FirstName = firstName, PB_Balance = Fin 0, PB_IsBlocked = False\<rparr>
                in case io_flt io 1 of
                     Some m \<Rightarrow> (Inl (DBErr m), db)
                   | None \<Rightarrow>
                       (if PB_ID p \<in> PB_ID ` set (publishers db) \<or> telegramID \<in> PB_TelegramID ` set (publishers db)
                        then (Inl unique_violation, db)
                        else (Inr p, db\<lparr>publishers := publishers db @ [p]\<rparr>))))"

definition FindPublisher :: "string option \<Rightarrow> int64 \<Rightarrow> ads_db \<Rightarrow> go_error + Publisher option" where
  "FindPublisher flt telegramID db = First_or_nil flt PB_ID (\<lambda>p. PB_TelegramID p = telegramID) (publishers db)"

definition FindPublisherByID :: "string option \<Rightarrow> uuid \<Rightarrow> ads_db \<Rightarrow> go_error + Publisher option" where
  "FindPublisherByID flt i db = First_or_nil flt PB_ID (\<lambda>p. PB_ID p = i) (publishers db)"

definition UpdateBalance :: "(f64 \<Rightarrow> rat) \<Rightarrow> string option \<Rightarrow> uuid \<Rightarrow> f64 \<Rightarrow> ads_db \<Rightarrow> ads_db" where
  "UpdateBalance dec flt publisherID delta db =
     (case flt of
        Some _ \<Rightarrow> db
      | None \<Rightarrow> db\<lparr>publishers := rows_set (\<lambda>p. PB_ID p = publisherID)
                     (\<lambda>p. p\<lparr>PB_Balance := num_add (PB_Balance p) (num_in dec delta)\<rparr>) (publishers db)\<rparr>)"

definition ListPublishers :: "string option \<Rightarrow> ads_db \<Rightarrow> go_error + Publisher list" where
  "ListPublishers flt db = stmt flt (Inr (sort_key (\<lambda>p. - PB_CreatedAt p) (publishers db)))"

definition CreateCampaign :: "io \<Rightarrow> Campaign \<Rightarrow> ads_db \<Rightarrow> (go_error + Campaign) \<times> ads_db" where
  "CreateCampaign io c db =
     (let c1 = c\<lparr>CA_ID := (if CA_ID c = uuid_Nil then io_uuid io 0 else CA_ID c),
                 CA_CreatedAt := io_now io 0\<rparr>
      in case io_flt io 0 of
           Some m \<Rightarrow> (Inl (DBErr m), db)
         | None \<Rightarrow> (if CA_ID c1 \<in> CA_ID ` set (campaigns db) then (Inl unique_violation, db)
                   else (Inr c1, db\<lparr>campaigns := campaigns db @ [c1]\<rparr>)))"

definition FindCampaign :: "string option \<Rightarrow> uuid \<Rightarrow> ads_db \<Rightarrow> go_error + Campaign option" where
  "FindCampaign flt i db = First_or_nil flt CA_ID (\<lambda>c. CA_ID c = i) (campaigns db)"

text \<open>\<open>Save\<close> writes every column of the row with that key, and inserts the row when there is none.\<close>

definition UpdateCampaign :: "io \<Rightarrow> Campaign \<Rightarrow> ads_db \<Rightarrow> ads_db" where
  "UpdateCampaign io c db =
     (if CA_ID c = uuid_Nil then snd (CreateCampaign io c db)
      else case io_flt io 0 of
        Some _ \<Rightarrow> db
      | None \<Rightarrow> (if CA_ID c \<in> CA_ID ` set (campaigns db)
                then db\<lparr>campaigns := rows_set (\<lambda>x. CA_ID x = CA_ID c) (\<lambda>_. c) (campaigns db)\<rparr>
                else snd (CreateCampaign (io_shift 1 io) c db)))"

definition FindCampaignsByPublisher :: "string option \<Rightarrow> uuid \<Rightarrow> ads_db \<Rightarrow> go_error + Campaign list" where
  "FindCampaignsByPublisher flt publisherID db =
     stmt flt (Inr (sort_key (\<lambda>c. - CA_CreatedAt c) (filter (\<lambda>c. CA_PublisherID c = publisherID) (campaigns db))))"

definition FindPendingCampaigns :: "string option \<Rightarrow> ads_db \<Rightarrow> go_error + Campaign list" where
  "FindPendingCampaigns flt db = stmt flt (Inr (sort_key CA_CreatedAt (filter (\<lambda>c. CA_Status c = CampaignPending) (campaigns db))))"

text \<open>\<open>ORDER BY cpj DESC\<close>, where NaN comes first.\<close>

fun insert_by :: "('r \<Rightarrow> 'r \<Rightarrow> bool) \<Rightarrow> 'r \<Rightarrow> 'r list \<Rightarrow> 'r list" where
  "insert_by before r [] = [r]"
| "insert_by before r (x # xs) = (if before x r then x # insert_by before r xs else r # x # xs)"

definition order_by :: "('r \<Rightarrow> 'r \<Rightarrow> bool) \<Rightarrow> 'r list \<Rightarrow> 'r list" where
  "order_by before rows = foldr (insert_by (\<lambda>x r. \<not> before r x)) rows []"

definition FindActiveCampaigns :: "io \<Rightarrow> ads_db \<Rightarrow> go_error + Campaign list" where
  "FindActiveCampaigns io db =
     stmt (io_flt io 0) (Inr (order_by (\<lambda>x y. num_le (CA_CPJ y) (CA_CPJ x))
       (filter (\<lambda>c. CA_Status c = CampaignActive \<and> (case CA_EndAt c of None \<Rightarrow> True | Some t \<Rightarrow> io_now io 0 < t)) (campaigns db))))"

definition ApproveCampaign :: "io \<Rightarrow> uuid \<Rightarrow> int64 \<Rightarrow> ads_db \<Rightarrow> (go_error + unit) \<times> ads_db" where
  "ApproveCampaign io i reviewerID db =
     (case io_flt io 0 of
        Some m \<Rightarrow> (Inl (DBErr m), db)
      | None \<Rightarrow> (Inr (), db\<lparr>campaigns := rows_set (\<lambda>c. CA_ID c = i)
          (\<lambda>c. c\<lparr>CA_Status := CampaignActive, CA_ReviewedAt := Some (io_now io 0), CA_ReviewerID := reviewerID\<rparr>) (campaigns db)\<rparr>))"

definition RejectCampaign :: "io \<Rightarrow> uuid \<Rightarrow> int64 \<Rightarrow> string \<Rightarrow> ads_db \<Rightarrow> (go_error + unit) \<times> ads_db" where
  "RejectCampaign io i reviewerID note db =
     (case io_flt io 0 of
        Some m \<Rightarrow> (Inl (DBErr m), db)
      | None \<Rightarrow> (Inr (), db\<lparr>campaigns := rows_set (\<lambda>c. CA_ID c = i)
          (\<lambda>c. c\<lparr>CA_Status := CampaignRejected, CA_ReviewNote := note, CA_ReviewedAt := Some (io_now io 0), CA_ReviewerID := reviewerID\<rparr>)
          (campaigns db)\<rparr>))"

definition AddJoinCount :: "(f64 \<Rightarrow> rat) \<Rightarrow> string option \<Rightarrow> uuid \<Rightarrow> int64 \<Rightarrow> f64 \<Rightarrow> ads_db \<Rightarrow> (go_error + unit) \<times> ads_db" where
  "AddJoinCount dec flt campaignID joins cost db =
     (case sql flt campaign_columns [''id'', ''join_count'', ''spent'']
             (Inr (rows_set (\<lambda>c. CA_ID c = campaignID)
               (\<lambda>c. c\<lparr>CA_TotalJoins := CA_TotalJoins c + joins, CA_Spent := num_add (CA_Spent c) (num_in dec cost)\<rparr>) (campaigns db))) of
        Inl e \<Rightarrow> (Inl e, db)
      | Inr rows \<Rightarrow> (Inr (), db\<lparr>campaigns := rows\<rparr>))"

section \<open>Channels, impressions, configuration (\<open>store.go\<close>)\<close>

definition CreateChannel :: "io \<Rightarrow> AdChannel \<Rightarrow> ads_db \<Rightarrow> (go_error + AdChannel) \<times> ads_db" where
  "CreateChannel io ch db =
     (let ch1 = ch\<lparr>AC_ID := (if AC_ID ch = uuid_Nil then io_uuid io 0 else AC_ID ch), AC_CreatedAt := io_now io 0, AC_IsActive := True\<rparr>
      in case io_flt io 0 of
           Some m \<Rightarrow> (Inl (DBErr m), db)
         | None \<Rightarrow> (if AC_ID ch1 \<in> AC_ID ` set (ad_channels db) \<or> AC_ChannelID ch1 \<in> AC_ChannelID ` set (ad_channels db)
                   then (Inl unique_violation, db)
                   else (Inr ch1, db\<lparr>ad_channels := ad_channels db @ [ch1]\<rparr>)))"

definition FindChannelByTelegramID :: "string option \<Rightarrow> int64 \<Rightarrow> ads_db \<Rightarrow> go_error + AdChannel option" where
  "FindChannelByTelegramID flt channelID db = First_or_nil flt AC_ID (\<lambda>c. AC_ChannelID c = channelID) (ad_channels db)"

definition FindChannelByID :: "string option \<Rightarrow> uuid \<Rightarrow> ads_db \<Rightarrow> go_error + AdChannel option" where
  "FindChannelByID flt i db = First_or_nil flt AC_ID (\<lambda>c. AC_ID c = i) (ad_channels db)"

text \<open>
  Three statements use columns that the table does not have; \<open>is_verified\<close> and \<open>cpj_rate\<close> are read as \<open>status\<close> and
  \<open>effective_cpj\<close>, which came in their place.
\<close>

definition ListActiveChannels :: "string option \<Rightarrow> f64 \<Rightarrow> ads_db \<Rightarrow> go_error + AdChannel list" where
  "ListActiveChannels flt minCPJ db =
     sql flt ad_channel_columns [''is_active'', ''is_verified'', ''cpj_rate'', ''member_count'']
       (Inr (sort_key (\<lambda>c. - AC_MemberCount c)
         (filter (\<lambda>c. AC_IsActive c \<and> AC_Status c = ChannelVerified \<and> f64_le (num_out (AC_EffectiveCPJ c)) minCPJ) (ad_channels db))))"

definition ListChannelsByOwner :: "string option \<Rightarrow> uuid \<Rightarrow> ads_db \<Rightarrow> go_error + AdChannel list" where
  "ListChannelsByOwner flt ownerID db = stmt flt (Inr (filter (\<lambda>c. AC_OwnerID c = ownerID) (ad_channels db)))"

definition VerifyChannel :: "string option \<Rightarrow> uuid \<Rightarrow> ads_db \<Rightarrow> (go_error + unit) \<times> ads_db" where
  "VerifyChannel flt i db =
     (case sql flt ad_channel_columns [''id'', ''is_verified'']
             (Inr (rows_set (\<lambda>c. AC_ID c = i) (\<lambda>c. c\<lparr>AC_Status := ChannelVerified\<rparr>) (ad_channels db))) of
        Inl e \<Rightarrow> (Inl e, db)
      | Inr rows \<Rightarrow> (Inr (), db\<lparr>ad_channels := rows\<rparr>))"

definition ListUnverifiedChannels :: "string option \<Rightarrow> ads_db \<Rightarrow> go_error + AdChannel list" where
  "ListUnverifiedChannels flt db =
     sql flt ad_channel_columns [''is_verified'', ''is_active'', ''created_at'']
       (Inr (sort_key AC_CreatedAt (filter (\<lambda>c. AC_Status c \<noteq> ChannelVerified \<and> AC_IsActive c) (ad_channels db))))"

definition DeactivateChannel :: "string option \<Rightarrow> uuid \<Rightarrow> ads_db \<Rightarrow> ads_db" where
  "DeactivateChannel flt i db =
     (case flt of Some _ \<Rightarrow> db
      | None \<Rightarrow> db\<lparr>ad_channels := rows_set (\<lambda>c. AC_ID c = i) (\<lambda>c. c\<lparr>AC_IsActive := False\<rparr>) (ad_channels db)\<rparr>)"

definition UpdateChannelAnalysis :: "(f64 \<Rightarrow> rat) \<Rightarrow> io \<Rightarrow> uuid \<Rightarrow> int64 \<Rightarrow> f64 \<Rightarrow> int64 \<Rightarrow> f64 \<Rightarrow> ads_db \<Rightarrow> ads_db" where
  "UpdateChannelAnalysis dec io i score fakePercent realMembers effectiveCPJ db =
     (case io_flt io 0 of Some _ \<Rightarrow> db
      | None \<Rightarrow> db\<lparr>ad_channels := rows_set (\<lambda>c. AC_ID c = i)
          (\<lambda>c. c\<lparr>AC_Score := score, AC_FakePercent := num_in dec fakePercent, AC_RealMembers := realMembers,
                 AC_EffectiveCPJ := num_in dec effectiveCPJ, AC_LastAnalyzedAt := Some (io_now io 0)\<rparr>) (ad_channels db)\<rparr>)"

definition ListChannelsByScore :: "(f64 \<Rightarrow> rat) \<Rightarrow> string option \<Rightarrow> int64 \<Rightarrow> uuid option \<Rightarrow> f64 \<Rightarrow> ads_db \<Rightarrow> go_error + AdChannel list" where
  "ListChannelsByScore dec flt minScore categoryID cpjBudget db =
     sql flt ad_channel_columns [''is_active'', ''status'', ''score'', ''effective_cpj'', ''category_id'']
       (Inr (sort_key (\<lambda>c. - AC_Score c)
         (filter (\<lambda>c. AC_IsActive c \<and> AC_Status c = ChannelVerified \<and> minScore \<le> AC_Score c \<and>
                      num_le (AC_EffectiveCPJ c) (num_in dec cpjBudget) \<and> (categoryID = None \<or> AC_CategoryID c = categoryID)) (ad_channels db))))"

definition CreateImpression :: "io \<Rightarrow> Impression \<Rightarrow> ads_db \<Rightarrow> ads_db" where
  "CreateImpression io imp db =
     (case io_flt io 0 of
        Some _ \<Rightarrow> db
      | None \<Rightarrow> (if io_uuid io 0 \<in> IM_ID ` set (impressions db) then db
                else db\<lparr>impressions := impressions db @ [imp\<lparr>IM_ID := io_uuid io 0\<rparr>]\<rparr>))"

definition DefaultConfig :: "(f64 \<Rightarrow> rat) \<Rightarrow> AdConfig" where
  "DefaultConfig dec = \<lparr>AG_ID = uuid_Nil, AG_BaseCPJ = num_in dec (rnd (5 / 1000)), AG_MinChannelScore = 30,
     AG_MaxFakePercent = num_in dec (Fin 30), AG_PlatformCommission = num_in dec (Fin 20), AG_IsActive = True\<rparr>"

definition GetConfig :: "(f64 \<Rightarrow> rat) \<Rightarrow> io \<Rightarrow> ads_db \<Rightarrow> (go_error + AdConfig) \<times> ads_db" where
  "GetConfig dec io db =
     (case First (io_flt io 0) AG_ID AG_IsActive (ad_configs db) of
        Inr cfg \<Rightarrow> (Inr cfg, db)
      | Inl e \<Rightarrow>
          (if e \<noteq> ErrRecordNotFound then (Inl e, db)
           else let cfg = (DefaultConfig dec)\<lparr>AG_ID := io_uuid io 0\<rparr>
                in if io_flt io 1 = None \<and> io_uuid io 0 \<notin> AG_ID ` set (ad_configs db)
                   then (Inr cfg, db\<lparr>ad_configs := ad_configs db @ [cfg]\<rparr>) else (Inr (DefaultConfig dec), db)))"

definition UpdateConfig :: "io \<Rightarrow> AdConfig \<Rightarrow> ads_db \<Rightarrow> (go_error + unit) \<times> ads_db" where
  "UpdateConfig io cfg db =
     (let new = (\<lambda>k. let c = cfg\<lparr>AG_ID := (if AG_ID cfg = uuid_Nil then io_uuid io 0 else AG_ID cfg)\<rparr>
                     in case io_flt io k of
                          Some m \<Rightarrow> (Inl (DBErr m), db)
                        | None \<Rightarrow> (if AG_ID c \<in> AG_ID ` set (ad_configs db) then (Inl unique_violation, db)
                                  else (Inr (), db\<lparr>ad_configs := ad_configs db @ [c]\<rparr>)))
      in if AG_ID cfg = uuid_Nil then new 0
         else case io_flt io 0 of
                Some m \<Rightarrow> (Inl (DBErr m), db)
              | None \<Rightarrow> (if AG_ID cfg \<in> AG_ID ` set (ad_configs db)
                        then (Inr (), db\<lparr>ad_configs := rows_set (\<lambda>x. AG_ID x = AG_ID cfg) (\<lambda>_. cfg) (ad_configs db)\<rparr>) else new 1))"

definition FindCategoryByName :: "string option \<Rightarrow> string \<Rightarrow> ads_db \<Rightarrow> go_error + ChannelCategory option" where
  "FindCategoryByName flt name db = First_or_nil flt CC_ID (\<lambda>c. CC_Name c = name) (channel_categories db)"

text \<open>\<open>Assign\<close> writes only what is not a zero value: a flag that is set in the row that is found stays set.\<close>

definition SaveMemberAnalysis :: "io \<Rightarrow> MemberAnalysis \<Rightarrow> ads_db \<Rightarrow> (go_error + unit) \<times> ads_db" where
  "SaveMemberAnalysis io m db =
     (case First (io_flt io 0) MA_ID (\<lambda>x. (MA_ChannelID m = 0 \<or> MA_ChannelID x = MA_ChannelID m) \<and>
                                         (MA_TelegramID m = 0 \<or> MA_TelegramID x = MA_TelegramID m)) (member_analyses db) of
        Inr x \<Rightarrow>
          (case io_flt io 1 of
             Some e \<Rightarrow> (Inl (DBErr e), db)
           | None \<Rightarrow> (Inr (), db\<lparr>member_analyses := rows_set (\<lambda>y. MA_ID y = MA_ID x)
               (\<lambda>y. y\<lparr>MA_HasUsername := MA_HasUsername m \<or> MA_HasUsername y, MA_HasProfilePhoto := MA_HasProfilePhoto m \<or> MA_HasProfilePhoto y,
                      MA_IsBot := MA_IsBot m \<or> MA_IsBot y, MA_RealScore := (if MA_RealScore m = 0 then MA_RealScore y else MA_RealScore m),
                      MA_IsFake := MA_IsFake m \<or> MA_IsFake y, MA_AnalyzedAt := MA_AnalyzedAt m\<rparr>) (member_analyses db)\<rparr>))
      | Inl e \<Rightarrow>
          (if e \<noteq> ErrRecordNotFound then (Inl e, db)
           else case io_flt io 1 of
                  Some f \<Rightarrow> (Inl (DBErr f), db)
                | None \<Rightarrow> (if io_uuid io 0 \<in> MA_ID ` set (member_analyses db) then (Inl unique_violation, db)
                          else (Inr (), db\<lparr>member_analyses := member_analyses db @ [m\<lparr>MA_ID := io_uuid io 0\<rparr>]\<rparr>))))"

definition DefaultCategories :: "(string \<times> rat) list" where
  "DefaultCategories =
     [(''crypto'', 2), (''tech'', 3 / 2), (''cinema'', 6 / 5), (''sport'', 13 / 10), (''news'', 7 / 5), (''education'', 13 / 10),
      (''entertainment'', 1), (''business'', 9 / 5), (''health'', 6 / 5), (''other'', 1)]"

fun seed_categories :: "(f64 \<Rightarrow> rat) \<Rightarrow> (nat \<Rightarrow> io) \<Rightarrow> (string \<times> rat) list \<Rightarrow> ads_db \<Rightarrow> ads_db" where
  "seed_categories dec ios [] db = db"
| "seed_categories dec ios ((name, factor) # cats) db =
     (let io = ios 0;
          db1 = (if First (io_flt io 0) CC_ID (\<lambda>c. CC_Name c = name) (channel_categories db) = Inl ErrRecordNotFound \<and>
                    io_flt io 1 = None \<and> io_uuid io 0 \<notin> CC_ID ` set (channel_categories db)
                 then db\<lparr>channel_categories := channel_categories db @
                        [\<lparr>CC_ID = io_uuid io 0, CC_Name = name, CC_CPJMultiplier = num_in dec (rnd factor), CC_IsActive = True\<rparr>]\<rparr>
                 else db)
      in seed_categories dec (\<lambda>k. ios (Suc k)) cats db1)"

definition SeedCategories :: "(f64 \<Rightarrow> rat) \<Rightarrow> (nat \<Rightarrow> io) \<Rightarrow> ads_db \<Rightarrow> ads_db" where
  "SeedCategories dec ios db = seed_categories dec ios DefaultCategories db"

definition GetChannelFakeStats :: "io \<Rightarrow> int64 \<Rightarrow> ads_db \<Rightarrow> int64 \<times> int64" where
  "GetChannelFakeStats io channelID db =
     (let count = (\<lambda>k P. if io_flt io k = None then int (length (filter P (member_analyses db))) else 0)
      in (count 0 (\<lambda>m. MA_ChannelID m = channelID), count 1 (\<lambda>m. MA_ChannelID m = channelID \<and> MA_IsFake m)))"

section \<open>Lock rentals (\<open>store.go\<close>)\<close>

definition CreateLockRental :: "io \<Rightarrow> LockRentalCampaign \<Rightarrow> ads_db \<Rightarrow> (go_error + unit) \<times> ads_db" where
  "CreateLockRental io r db =
     (case io_flt io 0 of
        Some m \<Rightarrow> (Inl (DBErr m), db)
      | None \<Rightarrow> (if LR_ID r \<in> LR_ID ` set (lock_rentals db) then (Inl unique_violation, db)
                else (Inr (), db\<lparr>lock_rentals := lock_rentals db @ [r\<lparr>LR_CreatedAt := io_now io 0\<rparr>]\<rparr>)))"

definition FindLockRental :: "string option \<Rightarrow> uuid \<Rightarrow> ads_db \<Rightarrow> go_error + LockRentalCampaign option" where
  "FindLockRental flt i db = First_or_nil flt LR_ID (\<lambda>r. LR_ID r = i) (lock_rentals db)"

definition FindActiveRentalByChannel :: "string option \<Rightarrow> int64 \<Rightarrow> ads_db \<Rightarrow> go_error + LockRentalCampaign option" where
  "FindActiveRentalByChannel flt channelID db =
     First_or_nil flt LR_ID (\<lambda>r. LR_TargetChannelID r = channelID \<and> LR_Status r = RentalActive) (lock_rentals db)"

definition RewardSettlementDelay :: int64 where "RewardSettlementDelay = 86400000000000"

text \<open>\<open>ON CONFLICT DO NOTHING\<close>: the answer says whether a row was inserted.\<close>

definition TryRecordJoinReward ::
  "(f64 \<Rightarrow> rat) \<Rightarrow> io \<Rightarrow> uuid \<Rightarrow> int64 \<Rightarrow> f64 \<Rightarrow> ads_db \<Rightarrow> (go_error + bool) \<times> ads_db" where
  "TryRecordJoinReward dec io rentalID telegramID amount db =
     (case io_flt io 0 of
        Some m \<Rightarrow> (Inl (DBErr m), db)
      | None \<Rightarrow>
          (if \<exists>r \<in> set (join_rewards db). JR_ID r = io_uuid io 0 \<or> JR_RentalID r = rentalID \<and> JR_TelegramID r = telegramID
           then (Inr False, db)
           else (Inr True, db\<lparr>join_rewards := join_rewards db @
                  [\<lparr>JR_ID = io_uuid io 0, JR_RentalID = rentalID, JR_TelegramID = telegramID, JR_AmountTON = num_in dec amount,
                    JR_Status = RewardPending, JR_SettleAt = io_now io 0 + RewardSettlementDelay, JR_SettledAt = None\<rparr>]\<rparr>)))"

definition FindDueRewards :: "io \<Rightarrow> nat \<Rightarrow> ads_db \<Rightarrow> go_error + RentalJoinReward list" where
  "FindDueRewards io limit db =
     stmt (io_flt io 0) (Inr (take limit (filter (\<lambda>r. JR_Status r = RewardPending \<and> JR_SettleAt r \<le> io_now io 0) (join_rewards db))))"

definition SettleReward :: "io \<Rightarrow> uuid \<Rightarrow> ads_db \<Rightarrow> (go_error + unit) \<times> ads_db" where
  "SettleReward io i db =
     (case io_flt io 0 of
        Some m \<Rightarrow> (Inl (DBErr m), db)
      | None \<Rightarrow> (Inr (), db\<lparr>join_rewards := rows_set (\<lambda>r. JR_ID r = i \<and> JR_Status r = RewardPending)
                  (\<lambda>r. r\<lparr>JR_Status := RewardSettled, JR_SettledAt := Some (io_now io 0)\<rparr>) (join_rewards db)\<rparr>))"

definition num_neg :: "numeric \<Rightarrow> numeric" where "num_neg = f64_neg"

definition add_spent :: "uuid \<Rightarrow> numeric \<Rightarrow> ads_db \<Rightarrow> ads_db" where
  "add_spent rentalID d db =
     db\<lparr>lock_rentals := rows_set (\<lambda>r. LR_ID r = rentalID) (\<lambda>r. r\<lparr>LR_Spent := num_add (LR_Spent r) d\<rparr>) (lock_rentals db)\<rparr>"

definition ReverseReward ::
  "(f64 \<Rightarrow> rat) \<Rightarrow> io \<Rightarrow> uuid \<Rightarrow> uuid \<Rightarrow> f64 \<Rightarrow> ads_db \<Rightarrow> (go_error + unit) \<times> ads_db" where
  "ReverseReward dec io i rentalID amount db =
     gorm_Transaction (io_flt io 2) (\<lambda>db.
       case io_flt io 0 of
         Some m \<Rightarrow> Inl (DBErr m)
       | None \<Rightarrow>
           (if \<not> (\<exists>r \<in> set (join_rewards db). JR_ID r = i \<and> JR_Status r = RewardPending) then Inr ((), db)
            else let db1 = db\<lparr>join_rewards := rows_set (\<lambda>r. JR_ID r = i \<and> JR_Status r = RewardPending)
                                 (\<lambda>r. r\<lparr>JR_Status := RewardReversed\<rparr>) (join_rewards db)\<rparr>
                 in case io_flt io 1 of
                      Some m \<Rightarrow> Inl (DBErr m)
                    | None \<Rightarrow> Inr ((), add_spent rentalID (num_neg (num_in dec amount)) db1))) db"

fun reverse_all :: "(f64 \<Rightarrow> rat) \<Rightarrow> (nat \<Rightarrow> io) \<Rightarrow> RentalJoinReward list \<Rightarrow> ads_db \<Rightarrow> (go_error + unit) \<times> ads_db" where
  "reverse_all dec ios [] db = (Inr (), db)"
| "reverse_all dec ios (r # rs) db =
     (case ReverseReward dec (ios 0) (JR_ID r) (JR_RentalID r) (num_out (JR_AmountTON r)) db of
        (Inl e, db1) \<Rightarrow> (Inl e, db1)
      | (Inr _, db1) \<Rightarrow> reverse_all dec (\<lambda>k. ios (Suc k)) rs db1)"

definition ReversePendingRewardByUser ::
  "(f64 \<Rightarrow> rat) \<Rightarrow> (nat \<Rightarrow> io) \<Rightarrow> int64 \<Rightarrow> int64 \<Rightarrow> ads_db \<Rightarrow> (go_error + unit) \<times> ads_db" where
  "ReversePendingRewardByUser dec ios channelID telegramID db =
     (case io_flt (ios 0) 0 of
        Some m \<Rightarrow> (Inl (DBErr m), db)
      | None \<Rightarrow>
          reverse_all dec (\<lambda>k. ios (Suc k))
            (filter (\<lambda>r. JR_TelegramID r = telegramID \<and> JR_Status r = RewardPending \<and>
                         (\<exists>l \<in> set (lock_rentals db). LR_ID l = JR_RentalID r \<and> LR_TargetChannelID l = channelID)) (join_rewards db)) db)"

definition TryRecordOwnerReward ::
  "(f64 \<Rightarrow> rat) \<Rightarrow> io \<Rightarrow> uuid \<Rightarrow> uuid \<Rightarrow> int64 \<Rightarrow> f64 \<Rightarrow> ads_db \<Rightarrow> (go_error + bool) \<times> ads_db" where
  "TryRecordOwnerReward dec io rentalID slotID ownerTelegramID amount db =
     (case io_flt io 0 of
        Some m \<Rightarrow> (Inl (DBErr m), db)
      | None \<Rightarrow>
          (if \<exists>r \<in> set (owner_rewards db). FO_ID r = io_uuid io 0 \<or> FO_RentalID r = rentalID \<and> FO_SlotID r = slotID
           then (Inr False, db)
           else (Inr True, db\<lparr>owner_rewards := owner_rewards db @
                  [\<lparr>FO_ID = io_uuid io 0, FO_RentalID = rentalID, FO_SlotID = slotID, FO_OwnerTelegramID = ownerTelegramID,
                    FO_AmountTON = num_in dec amount, FO_Status = RewardPending, FO_SettleAt = io_now io 0 + RewardSettlementDelay,
                    FO_SettledAt = None\<rparr>]\<rparr>)))"

definition FindDueOwnerRewards :: "io \<Rightarrow> nat \<Rightarrow> ads_db \<Rightarrow> go_error + FreeBotOwnerReward list" where
  "FindDueOwnerRewards io limit db =
     stmt (io_flt io 0) (Inr (take limit (filter (\<lambda>r. FO_Status r = RewardPending \<and> FO_SettleAt r \<le> io_now io 0) (owner_rewards db))))"

definition SettleOwnerReward :: "io \<Rightarrow> uuid \<Rightarrow> ads_db \<Rightarrow> (go_error + unit) \<times> ads_db" where
  "SettleOwnerReward io i db =
     (case io_flt io 0 of
        Some m \<Rightarrow> (Inl (DBErr m), db)
      | None \<Rightarrow> (Inr (), db\<lparr>owner_rewards := rows_set (\<lambda>r. FO_ID r = i \<and> FO_Status r = RewardPending)
                  (\<lambda>r. r\<lparr>FO_Status := RewardSettled, FO_SettledAt := Some (io_now io 0)\<rparr>) (owner_rewards db)\<rparr>))"

definition FindPendingLockRentals :: "string option \<Rightarrow> ads_db \<Rightarrow> go_error + LockRentalCampaign list" where
  "FindPendingLockRentals flt db =
     stmt flt (Inr (sort_key LR_CreatedAt (filter (\<lambda>r. LR_Status r = RentalPendingReview) (lock_rentals db))))"

definition ended :: "time \<Rightarrow> LockRentalCampaign \<Rightarrow> bool" where
  "ended now r = (case LR_EndAt r of None \<Rightarrow> False | Some t \<Rightarrow> t \<le> now)"

definition FindExpiredActiveRentals :: "io \<Rightarrow> ads_db \<Rightarrow> go_error + LockRentalCampaign list" where
  "FindExpiredActiveRentals io db =
     stmt (io_flt io 0) (Inr (filter (\<lambda>r. LR_Status r = RentalActive \<and> ended (io_now io 0) r) (lock_rentals db)))"

definition DefaultRentalDuration :: int64 where "DefaultRentalDuration = 2592000000000000"

definition ApproveLockRental :: "io \<Rightarrow> uuid \<Rightarrow> int64 \<Rightarrow> ads_db \<Rightarrow> (go_error + unit) \<times> ads_db" where
  "ApproveLockRental io i reviewerID db =
     (case io_flt io 0 of
        Some m \<Rightarrow> (Inl (DBErr m), db)
      | None \<Rightarrow> (Inr (), db\<lparr>lock_rentals := rows_set (\<lambda>r. LR_ID r = i)
          (\<lambda>r. r\<lparr>LR_Status := RentalActive, LR_ReviewerID := reviewerID, LR_ReviewedAt := Some (io_now io 0),
                 LR_StartAt := Some (io_now io 0), LR_EndAt := Some (io_now io 0 + DefaultRentalDuration)\<rparr>) (lock_rentals db)\<rparr>))"

definition RejectLockRental :: "io \<Rightarrow> uuid \<Rightarrow> int64 \<Rightarrow> string \<Rightarrow> ads_db \<Rightarrow> (go_error + unit) \<times> ads_db" where
  "RejectLockRental io i reviewerID note db =
     (case io_flt io 0 of
        Some m \<Rightarrow> (Inl (DBErr m), db)
      | None \<Rightarrow> (Inr (), db\<lparr>lock_rentals := rows_set (\<lambda>r. LR_ID r = i)
          (\<lambda>r. r\<lparr>LR_Status := RentalRejected, LR_ReviewerID := reviewerID, LR_ReviewedAt := Some (io_now io 0), LR_ReviewNote := note\<rparr>)
          (lock_rentals db)\<rparr>))"

definition AddRentalJoinCount :: "(f64 \<Rightarrow> rat) \<Rightarrow> string option \<Rightarrow> uuid \<Rightarrow> int64 \<Rightarrow> f64 \<Rightarrow> ads_db \<Rightarrow> ads_db" where
  "AddRentalJoinCount dec flt rentalID joins cost db =
     (case flt of
        Some _ \<Rightarrow> db
      | None \<Rightarrow> db\<lparr>lock_rentals := rows_set (\<lambda>r. LR_ID r = rentalID)
          (\<lambda>r. r\<lparr>LR_TotalJoins := LR_TotalJoins r + joins, LR_RealJoins := LR_RealJoins r + joins,
                 LR_Spent := num_add (LR_Spent r) (num_in dec cost)\<rparr>) (lock_rentals db)\<rparr>)"

definition MarkRentalDoneIfFinished :: "io \<Rightarrow> uuid \<Rightarrow> ads_db \<Rightarrow> (go_error + bool) \<times> ads_db" where
  "MarkRentalDoneIfFinished io rentalID db =
     (let P = (\<lambda>r. LR_ID r = rentalID \<and> LR_Status r = RentalActive \<and> (num_le (LR_Budget r) (LR_Spent r) \<or> ended (io_now io 0) r))
      in case io_flt io 0 of
           Some m \<Rightarrow> (Inl (DBErr m), db)
         | None \<Rightarrow> (Inr (\<exists>r \<in> set (lock_rentals db). P r),
                   db\<lparr>lock_rentals := rows_set P (\<lambda>r. r\<lparr>LR_Status := RentalDone\<rparr>) (lock_rentals db)\<rparr>))"

definition IncrementRentalSpentOnly :: "(f64 \<Rightarrow> rat) \<Rightarrow> string option \<Rightarrow> uuid \<Rightarrow> f64 \<Rightarrow> ads_db \<Rightarrow> ads_db" where
  "IncrementRentalSpentOnly dec flt rentalID cost db =
     (case flt of Some _ \<Rightarrow> db | None \<Rightarrow> add_spent rentalID (num_in dec cost) db)"

section \<open>Free bot slots (\<open>store.go\<close>)\<close>

definition UpsertFreeBotSlot :: "string option \<Rightarrow> FreeBotSlot \<Rightarrow> ads_db \<Rightarrow> (go_error + unit) \<times> ads_db" where
  "UpsertFreeBotSlot flt slot db =
     (case flt of
        Some m \<Rightarrow> (Inl (DBErr m), db)
      | None \<Rightarrow>
          (if FS_BotID slot \<in> FS_BotID ` set (free_bot_slots db) then (Inr (), db)
           else if FS_ID slot \<in> FS_ID ` set (free_bot_slots db) \<or> FS_BotInstanceID slot \<in> FS_BotInstanceID ` set (free_bot_slots db)
           then (Inl unique_violation, db)
           else (Inr (), db\<lparr>free_bot_slots := free_bot_slots db @ [slot]\<rparr>)))"

definition FindFreeBotSlotByBotID :: "string option \<Rightarrow> int64 \<Rightarrow> ads_db \<Rightarrow> go_error + FreeBotSlot option" where
  "FindFreeBotSlotByBotID flt botID db = First_or_nil flt FS_ID (\<lambda>s. FS_BotID s = botID) (free_bot_slots db)"

definition ListFreeSlots :: "string option \<Rightarrow> int64 \<Rightarrow> ads_db \<Rightarrow> go_error + FreeBotSlot list" where
  "ListFreeSlots flt limit db =
     (let free = filter IsFree (free_bot_slots db) in stmt flt (Inr (if 0 < limit then take (nat limit) free else free)))"

definition ListSlotsByRental :: "string option \<Rightarrow> uuid \<Rightarrow> ads_db \<Rightarrow> go_error + FreeBotSlot list" where
  "ListSlotsByRental flt rentalID db = stmt flt (Inr (filter (\<lambda>s. FS_RentalID s = Some rentalID) (free_bot_slots db)))"

fun save_slots :: "(nat \<Rightarrow> string option) \<Rightarrow> FreeBotSlot list \<Rightarrow> FreeBotSlot list \<Rightarrow> go_error + FreeBotSlot list" where
  "save_slots flt [] rows = Inr rows"
| "save_slots flt (s # ss) rows =
     (case flt 0 of
        Some m \<Rightarrow> Inl (DBErr m)
      | None \<Rightarrow> save_slots (\<lambda>k. flt (Suc k)) ss (rows_set (\<lambda>x. FS_ID x = FS_ID s) (\<lambda>_. s) rows))"

text \<open>The slots are handed back even when the commit fails.\<close>

definition AssignSlotsToRental ::
  "io \<Rightarrow> uuid \<Rightarrow> int64 \<Rightarrow> nat \<Rightarrow> ads_db \<Rightarrow> (FreeBotSlot list \<times> go_error option) \<times> ads_db" where
  "AssignSlotsToRental io rentalID buyerTelegramID n db =
     (case io_flt io 1 of
        Some m \<Rightarrow> (([], Some (DBErr m)), db)
      | None \<Rightarrow>
          (let free = map (\<lambda>s. s\<lparr>FS_RentalID := Some rentalID, FS_AssignedOwnerTelegramID := buyerTelegramID,
                                  FS_IsChannelAdminConfirmed := False\<rparr>) (take n (filter IsFree (free_bot_slots db)))
           in case save_slots (\<lambda>k. io_flt io (k + 2)) free (free_bot_slots db) of
                Inl e \<Rightarrow> (([], Some e), db)
              | Inr rows \<Rightarrow>
                  (case io_flt io 0 of
                     Some m \<Rightarrow> ((free, Some (DBErr m)), db)
                   | None \<Rightarrow> ((free, None), db\<lparr>free_bot_slots := rows\<rparr>))))"

definition ReleaseSlot :: "string option \<Rightarrow> uuid \<Rightarrow> ads_db \<Rightarrow> ads_db" where
  "ReleaseSlot flt slotID db =
     (case flt of
        Some _ \<Rightarrow> db
      | None \<Rightarrow> db\<lparr>free_bot_slots := rows_set (\<lambda>s. FS_ID s = slotID)
          (\<lambda>s. s\<lparr>FS_RentalID := None, FS_AssignedOwnerTelegramID := 0, FS_IsChannelAdminConfirmed := False\<rparr>) (free_bot_slots db)\<rparr>)"

definition ConfirmChannelAdmin :: "string option \<Rightarrow> uuid \<Rightarrow> ads_db \<Rightarrow> (go_error + unit) \<times> ads_db" where
  "ConfirmChannelAdmin flt slotID db =
     (case flt of
        Some m \<Rightarrow> (Inl (DBErr m), db)
      | None \<Rightarrow> (Inr (), db\<lparr>free_bot_slots := rows_set (\<lambda>s. FS_ID s = slotID)
          (\<lambda>s. s\<lparr>FS_IsChannelAdminConfirmed := True\<rparr>) (free_bot_slots db)\<rparr>))"

end
