(* ===== verification/AdsBot.thy ===== *)
theory AdsBot
  imports AdsStore FraudBus
begin

text \<open>
  The advertising bot: the engine that distributes campaigns and pays for joins and the analysis of channels
  (\<open>ads-bot/internal/engine\<close>), and its conversations, campaigns, channels, admin operations and lock rentals
  (\<open>ads-bot/internal/tgbot\<close>), with the client of botpay beneath. What is sent to a chat is recorded by a key that
  stands for its text. Parsing of floats and UUIDs, lookups of chats, the sending of a campaign to a channel and
  the owner of a bot instance, which another service's tables hold, are fields of the configuration.
\<close>

section \<open>State\<close>

record wizardState =
  wz_Step :: string
  wz_Data :: "string \<rightharpoonup> string"

datatype ads_msg =
    CampaignRevenue string int64 f64 int64
  | EarningCreated string int64 int64 string string

record ads_cfg =
  ac_dec :: "f64 \<Rightarrow> rat"
  ac_ownerID :: int64
  ac_pay :: "pay_client option"
  ac_ParseFloat :: "string \<Rightarrow> f64 \<times> bool"  \<comment> \<open>the value, and whether there was no error\<close>
  ac_ParseUUID :: "string \<Rightarrow> uuid option"
  ac_ChatByID :: "int64 \<Rightarrow> (int64 \<times> string) option"
  ac_ChatByUsername :: "string \<Rightarrow> (int64 \<times> string) option"
  ac_send :: "int64 \<Rightarrow> Campaign \<Rightarrow> int64 option"
  ac_slot_owner :: "uuid \<Rightarrow> go_error + int64"
  ac_fraud :: "int64 \<Rightarrow> UserScore option"  \<comment> \<open>the answer of the fraud engine, if any\<close>

record ads =
  ad_db :: ads_db
  ad_states :: "int64 \<rightharpoonup> wizardState"
  ad_sent :: "(int64 \<times> string) list"
  ad_bus :: "ads_msg list"
  ad_pay :: pay_world

definition tell :: "int64 \<Rightarrow> string \<Rightarrow> ads \<Rightarrow> ads" where
  "tell chat key s = s\<lparr>ad_sent := ad_sent s @ [(chat, key)]\<rparr>"

definition on_ads_db :: "(ads_db \<Rightarrow> ads_db) \<Rightarrow> ads \<Rightarrow> ads" where
  "on_ads_db f s = s\<lparr>ad_db := f (ad_db s)\<rparr>"

definition with_db :: "(ads_db \<Rightarrow> 'r \<times> ads_db) \<Rightarrow> ads \<Rightarrow> 'r \<times> ads" where
  "with_db f s = (let (r, db) = f (ad_db s) in (r, s\<lparr>ad_db := db\<rparr>))"

definition ok_or :: "'b \<Rightarrow> 'a + 'b \<Rightarrow> 'b" where
  "ok_or d r = (case r of Inl _ \<Rightarrow> d | Inr x \<Rightarrow> x)"

section \<open>Conversation state (\<open>state.go\<close>)\<close>

definition getState :: "int64 \<Rightarrow> ads \<Rightarrow> wizardState" where
  "getState uid s = (case ad_states s uid of None \<Rightarrow> \<lparr>wz_Step = [], wz_Data = (\<lambda>_. None)\<rparr> | Some st \<Rightarrow> st)"

definition setState :: "int64 \<Rightarrow> wizardState \<Rightarrow> ads \<Rightarrow> ads" where
  "setState uid st s = s\<lparr>ad_states := (ad_states s)(uid \<mapsto> st)\<rparr>"

definition setStep :: "int64 \<Rightarrow> string \<Rightarrow> (string \<times> string) list \<Rightarrow> ads \<Rightarrow> ads" where
  "setStep uid st kv s =
     (let w = getState uid s
      in setState uid (w\<lparr>wz_Step := st, wz_Data := foldl (\<lambda>d (k, v). d(k \<mapsto> v)) (wz_Data w) kv\<rparr>) s)"

definition clearState :: "int64 \<Rightarrow> ads \<Rightarrow> ads" where
  "clearState uid s = s\<lparr>ad_states := (ad_states s)(uid := None)\<rparr>"

definition data_of :: "wizardState \<Rightarrow> string \<Rightarrow> string" where
  "data_of st k = (case wz_Data st k of None \<Rightarrow> [] | Some v \<Rightarrow> v)"

definition keep :: "wizardState \<Rightarrow> string list \<Rightarrow> (string \<times> string) list" where
  "keep st ks = map (\<lambda>k. (k, data_of st k)) ks"

section \<open>Engine (\<open>engine.go\<close>)\<close>

definition zero_campaign :: Campaign where
  "zero_campaign = \<lparr>CA_ID = uuid_Nil, CA_CreatedAt = -62135596800000000000, CA_PublisherID = uuid_Nil, CA_Name = [], CA_Status = [],
     CA_MediaFileID = [], CA_MediaType = [], CA_Caption = [], CA_ButtonText = [], CA_ButtonURL = [], CA_Budget = Fin 0, CA_Spent = Fin 0,
     CA_CPJ = Fin 0, CA_TotalJoins = 0, CA_TargetCount = 0, CA_EndAt = None, CA_ReviewNote = [], CA_ReviewedAt = None, CA_ReviewerID = 0\<rparr>"

fun send_all :: "ads_cfg \<Rightarrow> (nat \<Rightarrow> io) \<Rightarrow> Campaign \<Rightarrow> AdChannel list \<Rightarrow> ads_db \<Rightarrow> ads_db" where
  "send_all cfg ios c [] db = db"
| "send_all cfg ios c (ch # chs) db =
     (case ac_send cfg (AC_ChannelID ch) c of
        None \<Rightarrow> send_all cfg (\<lambda>k. ios (Suc k)) c chs db
      | Some msgID \<Rightarrow>
          send_all cfg (\<lambda>k. ios (Suc k)) c chs
            (CreateImpression (ios 0) \<lparr>IM_ID = uuid_Nil, IM_CampaignID = CA_ID c, IM_ChannelID = AC_ChannelID ch, IM_MessageID = msgID\<rparr> db))"

definition finish_campaign :: "io \<Rightarrow> uuid \<Rightarrow> ads_db \<Rightarrow> ads_db" where
  "finish_campaign io i = UpdateCampaign io (zero_campaign\<lparr>CA_ID := i, CA_Status := CampaignDone\<rparr>)"

definition DistributeCampaign :: "ads_cfg \<Rightarrow> (nat \<Rightarrow> io) \<Rightarrow> Campaign \<Rightarrow> ads \<Rightarrow> (go_error + unit) \<times> ads" where
  "DistributeCampaign cfg ios c s =
     (if CA_Status c \<noteq> CampaignActive then (Inl (Errorf ''campaign not active'' []), s)
      else if Campaign_IsExpired (io_now (ios 0) 0) c then (Inr (), on_ads_db (finish_campaign (ios 1) (CA_ID c)) s)
      else case ListActiveChannels (io_flt (ios 2) 0) (num_out (CA_CPJ c)) (ad_db s) of
             Inl _ \<Rightarrow> (Inr (), s)
           | Inr channels \<Rightarrow>
               (if channels = [] then (Inr (), s)
                else if f64_le (Campaign_RemainingBudget c) (Fin 0) then (Inr (), on_ads_db (finish_campaign (ios 1) (CA_ID c)) s)
                else (Inr (), on_ads_db (send_all cfg (\<lambda>k. ios (k + 3)) c channels) s)))"

definition ads_RecordJoin :: "ads_cfg \<Rightarrow> io \<Rightarrow> uuid \<Rightarrow> int64 \<Rightarrow> int64 \<Rightarrow> ads \<Rightarrow> (go_error + unit) \<times> ads" where
  "ads_RecordJoin cfg io campaignID channelTelegramID userTelegramID s =
     (case FindCampaign (io_flt io 0) campaignID (ad_db s) of
        Inl _ \<Rightarrow> (Inl (Errorf ''campaign not found'' []), s)
      | Inr None \<Rightarrow> (Inl (Errorf ''campaign not found'' []), s)
      | Inr (Some c) \<Rightarrow>
          (let score = Client_GetUserScore (ac_fraud cfg userTelegramID) userTelegramID;
               asked = (0 < userTelegramID);
               trustMultiplier = (if asked then TrustMultiplier score else Fin 1)
           in if asked \<and> IsFake score then (Inr (), s)
              else let cpj = f64_mul (num_out (CA_CPJ c)) trustMultiplier;
                       cost = (if f64_lt (Campaign_RemainingBudget c) cpj then Campaign_RemainingBudget c else cpj);
                       s1 = on_ads_db (\<lambda>db. snd (AddJoinCount (ac_dec cfg) (io_flt io 1) campaignID 1 cost db)) s
                   in (Inr (), s1\<lparr>ad_bus := ad_bus s1 @
                        [CampaignRevenue campaignID channelTelegramID cost 1,
                         EarningCreated ''ad_income'' channelTelegramID (f64_to_int (f64_mul cost (Fin 1000000000))) ''ads-bot'' campaignID]\<rparr>)))"

fun distribute_all :: "ads_cfg \<Rightarrow> (nat \<Rightarrow> nat \<Rightarrow> io) \<Rightarrow> Campaign list \<Rightarrow> ads \<Rightarrow> ads" where
  "distribute_all cfg ios [] s = s"
| "distribute_all cfg ios (c # cs) s = distribute_all cfg (\<lambda>k. ios (Suc k)) cs (snd (DistributeCampaign cfg (ios 0) c s))"

definition runBatch :: "ads_cfg \<Rightarrow> io \<Rightarrow> (nat \<Rightarrow> nat \<Rightarrow> io) \<Rightarrow> ads \<Rightarrow> ads" where
  "runBatch cfg io ios s =
     (case FindActiveCampaigns io (ad_db s) of Inl _ \<Rightarrow> s | Inr cs \<Rightarrow> distribute_all cfg ios cs s)"

section \<open>Analysis (\<open>analyzer.go\<close>)\<close>

definition clamp :: "int64 \<Rightarrow> int64 \<Rightarrow> int64 \<Rightarrow> int64" where
  "clamp v lo hi = (if v < lo then lo else if hi < v then hi else v)"

definition estimateFakePercent :: "int64 \<Rightarrow> bool \<Rightarrow> f64" where
  "estimateFakePercent memberCount hasUsername =
     (let base = (if hasUsername then Fin 15 else Fin 35);
          base = (if memberCount < 500 then f64_add base (Fin 10)
                  else if 100000 < memberCount then (let d = f64_sub base (Fin 10) in if f64_lt d (Fin 5) then Fin 5 else d)
                  else base)
      in math_Min base (Fin 80))"

record chat_info =
  CH_Username :: string
  CH_Description :: string
  CH_LinkedChatID :: int64

record ChannelAnalysisResult =
  AR_ChannelID :: int64
  AR_MemberCount :: int64
  AR_Score :: int64
  AR_FakePercent :: f64
  AR_RealMembers :: int64
  AR_AnalyzedAt :: time

definition AnalyzeChannel :: "go_error + chat_info \<Rightarrow> int64 option \<Rightarrow> time \<Rightarrow> AdChannel \<Rightarrow> go_error + ChannelAnalysisResult" where
  "AnalyzeChannel chat members now ch =
     (case chat of
        Inl e \<Rightarrow> Inl (Wrapf ''get chat info: %w'' [] e)
      | Inr info \<Rightarrow>
          (let memberCount = (case members of Some n \<Rightarrow> n | None \<Rightarrow> AC_MemberCount ch);
               score = 50 + (if memberCount < 100 then -20 else if memberCount < 1000 then 0 else if memberCount < 10000 then 10
                             else if memberCount < 100000 then 20 else 25)
                          + (if CH_Username info \<noteq> [] then 10 else 0) + (if CH_Description info \<noteq> [] then 5 else 0)
                          + (if CH_LinkedChatID info \<noteq> 0 then 10 else 0);
               fakePercent = estimateFakePercent memberCount (CH_Username info \<noteq> [])
           in Inr \<lparr>AR_ChannelID = AC_ChannelID ch, AR_MemberCount = memberCount, AR_Score = clamp score 0 100,
                   AR_FakePercent = fakePercent,
                   AR_RealMembers = f64_to_int (f64_mul (f64_of_int memberCount) (f64_sub (Fin 1) (f64_div fakePercent 100))),
                   AR_AnalyzedAt = now\<rparr>))"

record tg_user =
  TU_Username :: string
  TU_HasPhoto :: bool
  TU_Type :: string
  TU_FirstName :: string
  TU_LastName :: string

definition AnalyzeMember :: "tg_user option \<Rightarrow> time \<Rightarrow> int64 \<Rightarrow> int64 \<Rightarrow> MemberAnalysis" where
  "AnalyzeMember user now channelID userID =
     (let a = \<lparr>MA_ID = uuid_Nil, MA_ChannelID = channelID, MA_TelegramID = userID, MA_HasUsername = False, MA_HasProfilePhoto = False,
               MA_IsBot = False, MA_RealScore = 0, MA_IsFake = False, MA_AnalyzedAt = now\<rparr>
      in case user of
           None \<Rightarrow> a\<lparr>MA_RealScore := 20, MA_IsFake := True\<rparr>
         | Some u \<Rightarrow>
             (let bot = (TU_Type u \<in> {''bot'', ''group'', ''supergroup'', ''channel''});
                  score = (if TU_Username u \<noteq> [] then 20 else 0) + (if TU_HasPhoto u then 20 else 0)
                        + (if TU_Type u = ''private'' then 30 else if bot then 0 else 15)
                        + (if 1 < length (TU_FirstName u) then 15 else 0) + (if TU_LastName u \<noteq> [] then 15 else 0)
              in a\<lparr>MA_HasUsername := TU_Username u \<noteq> [], MA_HasProfilePhoto := TU_HasPhoto u, MA_IsBot := bot,
                   MA_RealScore := clamp score 0 100, MA_IsFake := clamp score 0 100 < 40\<rparr>))"

definition ComputeEffectiveCPJ :: "f64 \<Rightarrow> f64 \<Rightarrow> f64 \<Rightarrow> int64 \<Rightarrow> f64" where
  "ComputeEffectiveCPJ baseCPJ categoryMultiplier fakePercent score =
     (let fakeRatio = f64_div fakePercent 100;
          scoreFactor = f64_add (rnd (1 / 2)) (f64_mul (f64_div (f64_of_int score) 100) (rnd (1 / 2)))
      in f64_mul (f64_mul (f64_mul baseCPJ categoryMultiplier) (f64_sub (Fin 1) fakeRatio)) scoreFactor)"

section \<open>Campaigns (\<open>campaign.go\<close>, \<open>admin.go\<close>)\<close>

definition btnNewCampaign :: string where "btnNewCampaign = utf8 [226, 158, 149, 32, 218, 169, 217, 133, 217, 190, 219, 140, 217, 134, 32, 216, 172, 216, 175, 219, 140, 216, 175]"

definition btnMyCampaigns :: string where "btnMyCampaigns = utf8 [240, 159, 147, 138, 32, 218, 169, 217, 133, 217, 190, 219, 140, 217, 134, 226, 128, 140, 217, 135, 216, 167, 219, 140, 32, 217, 133, 217, 134]"

definition btnMyChannels :: string where "btnMyChannels = utf8 [240, 159, 147, 162, 32, 218, 169, 216, 167, 217, 134, 216, 167, 217, 132, 226, 128, 140, 217, 135, 216, 167, 219, 140, 32, 217, 133, 217, 134]"

definition btnAddChannel :: string where "btnAddChannel = utf8 [226, 158, 149, 32, 216, 167, 217, 129, 216, 178, 217, 136, 216, 175, 217, 134, 32, 218, 169, 216, 167, 217, 134, 216, 167, 217, 132]"

definition btnBalance :: string where "btnBalance = utf8 [240, 159, 146, 176, 32, 217, 133, 217, 136, 216, 172, 217, 136, 216, 175, 219, 140]"

definition btnHelp :: string where "btnHelp = utf8 [226, 157, 147, 32, 216, 177, 216, 167, 217, 135, 217, 134, 217, 133, 216, 167]"

definition btnCancel :: string where "btnCancel = utf8 [226, 157, 140, 32, 216, 167, 217, 134, 216, 181, 216, 177, 216, 167, 217, 129]"

definition btnBack :: string where "btnBack = utf8 [240, 159, 148, 153, 32, 216, 168, 216, 167, 216, 178, 218, 175, 216, 180, 216, 170]"

definition btnSkip :: string where "btnSkip = utf8 [226, 143, 173, 32, 216, 177, 216, 175, 32, 218, 169, 216, 177, 216, 175, 217, 134]"

definition admStats :: string where "admStats = utf8 [240, 159, 147, 138, 32, 216, 162, 217, 133, 216, 167, 216, 177]"

definition admPending :: string where "admPending = utf8 [226, 143, 179, 32, 216, 175, 216, 177, 32, 216, 167, 217, 134, 216, 170, 216, 184, 216, 167, 216, 177, 32, 216, 170, 216, 163, 219, 140, 219, 140, 216, 175]"

definition admChannels :: string where "admChannels = utf8 [240, 159, 147, 162, 32, 218, 169, 216, 167, 217, 134, 216, 167, 217, 132, 226, 128, 140, 217, 135, 216, 167]"

definition admBroadcast :: string where "admBroadcast = utf8 [240, 159, 147, 163, 32, 98, 114, 111, 97, 100, 99, 97, 115, 116]"

definition parse_pos :: "ads_cfg \<Rightarrow> string \<Rightarrow> f64 option" where  \<comment> \<open>\<open>err != nil || v <= 0\<close> is refused\<close>
  "parse_pos cfg text = (case ac_ParseFloat cfg (TrimSpace text) of (v, ok) \<Rightarrow> (if \<not> ok \<or> f64_le v (Fin 0) then None else Some v))"

definition parse_uuid :: "ads_cfg \<Rightarrow> string \<Rightarrow> uuid" where
  "parse_uuid cfg t = (case ac_ParseUUID cfg t of None \<Rightarrow> uuid_Nil | Some i \<Rightarrow> i)"

text \<open>\<open>pub, _ := FindPublisher(...)\<close>: a failed read gives a zero row, not \<open>nil\<close>.\<close>

definition zero_publisher :: Publisher where
  "zero_publisher = \<lparr>PB_ID = uuid_Nil, PB_CreatedAt = -62135596800000000000, PB_TelegramID = 0, PB_Username = [], PB_FirstName = [],
     PB_Balance = Fin 0, PB_IsBlocked = False\<rparr>"

definition publisher_of :: "string option \<Rightarrow> int64 \<Rightarrow> ads \<Rightarrow> Publisher option" where
  "publisher_of flt uid s = ok_or (Some zero_publisher) (FindPublisher flt uid (ad_db s))"

definition campaign_of :: "string option \<Rightarrow> uuid \<Rightarrow> ads \<Rightarrow> Campaign option" where
  "campaign_of flt i s = ok_or (Some zero_campaign) (FindCampaign flt i (ad_db s))"

definition onNewCampaign :: "int64 \<Rightarrow> ads \<Rightarrow> ads" where
  "onNewCampaign uid s = tell uid ''new_campaign'' (setStep uid ''camp:name'' [] s)"

definition handleCampName :: "int64 \<Rightarrow> string \<Rightarrow> ads \<Rightarrow> ads" where
  "handleCampName uid text s =
     (if length text < 2 then tell uid ''name_too_short'' s
      else tell uid ''send_media'' (setStep uid ''camp:media'' [(''name'', text)] s))"

datatype media = Photo string | Video string | NoMedia

definition handleCampaignMedia :: "int64 \<Rightarrow> wizardState \<Rightarrow> media \<Rightarrow> ads \<Rightarrow> ads" where
  "handleCampaignMedia uid st m s =
     (let (fileID, mediaType) = (case m of Photo f \<Rightarrow> (f, ''photo'') | Video f \<Rightarrow> (f, ''video'') | NoMedia \<Rightarrow> ([], []))
      in tell uid ''send_caption'' (setStep uid ''camp:caption'' (keep st [''name''] @ [(''file_id'', fileID), (''media_type'', mediaType)]) s))"

definition handleCampCaption :: "int64 \<Rightarrow> wizardState \<Rightarrow> string \<Rightarrow> ads \<Rightarrow> ads" where
  "handleCampCaption uid st text s =
     tell uid ''send_button'' (setStep uid ''camp:button''
       (keep st [''name'', ''file_id'', ''media_type''] @ [(''caption'', if text \<noteq> btnSkip then text else [])]) s)"

definition handleCampButton :: "int64 \<Rightarrow> wizardState \<Rightarrow> string \<Rightarrow> ads \<Rightarrow> ads" where
  "handleCampButton uid st text s =
     (let kv = keep st [''name'', ''file_id'', ''media_type'', ''caption'']
      in if text \<noteq> btnSkip then tell uid ''send_url'' (setStep uid ''camp:url'' (kv @ [(''btn_text'', text)]) s)
         else tell uid ''send_budget'' (setStep uid ''camp:budget'' kv s))"

definition handleCampURL :: "int64 \<Rightarrow> wizardState \<Rightarrow> string \<Rightarrow> ads \<Rightarrow> ads" where
  "handleCampURL uid st text s =
     (if \<not> HasPrefix text ''http'' then tell uid ''bad_url'' s
      else tell uid ''send_budget'' (setStep uid ''camp:budget''
        (keep st [''name'', ''file_id'', ''media_type'', ''caption'', ''btn_text''] @ [(''btn_url'', text)]) s))"

definition handleCampBudget :: "ads_cfg \<Rightarrow> io \<Rightarrow> int64 \<Rightarrow> wizardState \<Rightarrow> string \<Rightarrow> ads \<Rightarrow> ads" where
  "handleCampBudget cfg io uid st text s =
     (case parse_pos cfg text of
        None \<Rightarrow> tell uid ''bad_amount'' s
      | Some budget \<Rightarrow>
          (if (case publisher_of (io_flt io 0) uid s of None \<Rightarrow> False | Some p \<Rightarrow> f64_lt (num_out (PB_Balance p)) budget)
           then tell uid ''no_balance'' s
           else tell uid ''send_cpj'' (setStep uid ''camp:cpj''
             (keep st [''name'', ''file_id'', ''media_type'', ''caption'', ''btn_text'', ''btn_url''] @ [(''budget'', text)]) s)))"

definition notifyAdmin :: "ads_cfg \<Rightarrow> string \<Rightarrow> ads \<Rightarrow> ads" where
  "notifyAdmin cfg key s = (if ac_ownerID cfg = 0 then s else tell (ac_ownerID cfg) key s)"

definition handleCampCPJ :: "ads_cfg \<Rightarrow> io \<Rightarrow> int64 \<Rightarrow> wizardState \<Rightarrow> string \<Rightarrow> ads \<Rightarrow> ads" where
  "handleCampCPJ cfg io uid st text s =
     (let s1 = clearState uid s
      in case parse_pos cfg text of
           None \<Rightarrow> tell uid ''bad_value'' s1
         | Some cpj \<Rightarrow>
             (let budget = fst (ac_ParseFloat cfg (data_of st ''budget''))
              in case publisher_of (io_flt io 0) uid s1 of
                   None \<Rightarrow> tell uid ''error'' s1
                 | Some pub \<Rightarrow>
                     (let camp = zero_campaign\<lparr>CA_PublisherID := PB_ID pub, CA_Name := data_of st ''name'', CA_MediaFileID := data_of st ''file_id'',
                            CA_MediaType := data_of st ''media_type'', CA_Caption := data_of st ''caption'', CA_ButtonText := data_of st ''btn_text'',
                            CA_ButtonURL := data_of st ''btn_url'', CA_Budget := num_in (ac_dec cfg) budget, CA_CPJ := num_in (ac_dec cfg) cpj,
                            CA_Status := CampaignPending, CA_TargetCount := f64_to_int (f64_quot budget cpj)\<rparr>;
                          (r, s2) = with_db (CreateCampaign (io_shift 1 io) camp) s1
                      in case r of
                           Inl _ \<Rightarrow> tell uid ''create_failed'' s2
                         | Inr _ \<Rightarrow>
                             tell uid ''campaign_sent'' (notifyAdmin cfg ''review_campaign''
                               (on_ads_db (UpdateBalance (ac_dec cfg) (io_flt io 2) (PB_ID pub) (f64_neg budget)) s2)))))"

definition owned_campaign :: "ads_cfg \<Rightarrow> io \<Rightarrow> int64 \<Rightarrow> string \<Rightarrow> ads \<Rightarrow> string + Campaign" where
  "owned_campaign cfg io uid campIDStr s =
     (case campaign_of (io_flt io 0) (parse_uuid cfg campIDStr) s of
        None \<Rightarrow> Inl ''not_found''
      | Some camp \<Rightarrow>
          (case publisher_of (io_flt io 1) uid s of
             None \<Rightarrow> Inl ''not_owner''
           | Some pub \<Rightarrow> (if CA_PublisherID camp \<noteq> PB_ID pub then Inl ''not_owner'' else Inr camp)))"

definition pauseCampaign :: "ads_cfg \<Rightarrow> io \<Rightarrow> int64 \<Rightarrow> string \<Rightarrow> ads \<Rightarrow> ads" where
  "pauseCampaign cfg io uid campIDStr s =
     (case owned_campaign cfg io uid campIDStr s of
        Inl key \<Rightarrow> tell uid key s
      | Inr camp \<Rightarrow>
          tell uid ''campaign'' (on_ads_db (UpdateCampaign (io_shift 2 io)
            (camp\<lparr>CA_Status := (if CA_Status camp = CampaignActive then CampaignPaused else CampaignActive)\<rparr>)) s))"

definition deleteCampaign :: "ads_cfg \<Rightarrow> io \<Rightarrow> int64 \<Rightarrow> string \<Rightarrow> ads \<Rightarrow> ads" where
  "deleteCampaign cfg io uid campIDStr s =
     (case owned_campaign cfg io uid campIDStr s of
        Inl key \<Rightarrow> tell uid key s
      | Inr camp \<Rightarrow>
          tell uid ''campaign_stopped'' (on_ads_db (UpdateCampaign (io_shift 3 io) (camp\<lparr>CA_Status := CampaignDone\<rparr>))
            (on_ads_db (UpdateBalance (ac_dec cfg) (io_flt io 2) (CA_PublisherID camp) (Campaign_RemainingBudget camp)) s)))"

definition notifyPublisher :: "string option \<Rightarrow> Campaign \<Rightarrow> string \<Rightarrow> ads \<Rightarrow> ads" where
  "notifyPublisher flt camp key s =
     (case ok_or (Some zero_publisher) (FindPublisherByID flt (CA_PublisherID camp) (ad_db s)) of
        None \<Rightarrow> s
      | Some pub \<Rightarrow> tell (PB_TelegramID pub) key s)"

text \<open>The distribution that an approval starts runs after it.\<close>

definition approveCampaign :: "ads_cfg \<Rightarrow> (nat \<Rightarrow> io) \<Rightarrow> int64 \<Rightarrow> string \<Rightarrow> ads \<Rightarrow> ads" where
  "approveCampaign cfg ios uid campIDStr s =
     (let campID = parse_uuid cfg campIDStr;
          (r, s1) = with_db (ApproveCampaign (ios 0) campID uid) s
      in case r of
           Inl _ \<Rightarrow> tell uid ''error'' s1
         | Inr _ \<Rightarrow>
             (let s2 = (case campaign_of (io_flt (ios 1) 0) campID s1 of
                          None \<Rightarrow> s1
                        | Some camp \<Rightarrow> snd (DistributeCampaign cfg (\<lambda>k. ios (k + 3)) camp
                                         (notifyPublisher (io_flt (ios 2) 0) camp ''campaign_approved'' s1)))
              in tell uid ''approved'' s2))"

definition startReject :: "int64 \<Rightarrow> string \<Rightarrow> ads \<Rightarrow> ads" where
  "startReject uid campIDStr s = tell uid ''reject_note'' (setStep uid ''admin:reject_note'' [(''camp_id'', campIDStr)] s)"

definition doReject :: "ads_cfg \<Rightarrow> io \<Rightarrow> int64 \<Rightarrow> wizardState \<Rightarrow> string \<Rightarrow> ads \<Rightarrow> ads" where
  "doReject cfg io uid st note s =
     (let s1 = clearState uid s;
          campID = parse_uuid cfg (data_of st ''camp_id'');
          (r, s2) = with_db (RejectCampaign (io_shift 0 io) campID uid note) s1
      in case r of
           Inl _ \<Rightarrow> tell uid ''error'' s2
         | Inr _ \<Rightarrow>
             (let s3 = (case campaign_of (io_flt io 1) campID s2 of
                          None \<Rightarrow> s2
                        | Some camp \<Rightarrow>
                            notifyPublisher (io_flt io 4) camp ''campaign_rejected''
                              (case publisher_of (io_flt io 2) uid s2 of
                                 None \<Rightarrow> s2
                               | Some pub \<Rightarrow> on_ads_db (UpdateBalance (ac_dec cfg) (io_flt io 3) (PB_ID pub) (num_out (CA_Budget camp))) s2))
              in tell uid ''rejected'' s3))"

definition onMyCampaigns :: "io \<Rightarrow> int64 \<Rightarrow> ads \<Rightarrow> ads" where
  "onMyCampaigns io uid s =
     (case publisher_of (io_flt io 0) uid s of
        None \<Rightarrow> tell uid ''start_first'' s
      | Some pub \<Rightarrow>
          (let camps = ok_or [] (FindCampaignsByPublisher (io_flt io 1) (PB_ID pub) (ad_db s))
           in if camps = [] then tell uid ''no_campaigns'' s else fold (\<lambda>c. tell uid ''campaign'') camps s))"

end
