(* ===== verification/AdsRental.thy ===== *)
theory AdsRental
  imports AdsBot
begin

text \<open>
  The rest of the advertising bot: registration of channels (\<open>channel.go\<close>), the admin's lists, broadcast and
  channel review (\<open>admin.go\<close>), lock rentals from the buyer's request over the admin's approval, which charges the
  buyer in botpay, to the rewards of joining users and of the owners of free bots, which are credited in botpay
  after a day (\<open>lockrental.go\<close>), the routing of updates (\<open>handler.go\<close>) and the NATS subscriptions (\<open>cmd/main.go\<close>).
\<close>

section \<open>Channels (\<open>channel.go\<close>)\<close>

record tg_chat =
  TC_ID :: int64
  TC_Title :: string
  TC_Type :: string

definition onAddChannel :: "int64 \<Rightarrow> ads \<Rightarrow> ads" where
  "onAddChannel uid s = tell uid ''add_channel'' (setStep uid ''channel:fwd'' [] s)"

text \<open>\<open>role\<close> is the bot's role in the channel, if Telegram tells it; \<open>members\<close> what \<open>Len\<close> gives, zero on an error.\<close>

definition handleChannelForward :: "string option \<Rightarrow> string option \<Rightarrow> int64 \<Rightarrow> int64 \<Rightarrow> tg_chat option \<Rightarrow> ads \<Rightarrow> ads" where
  "handleChannelForward flt role members uid origChat s =
     (case origChat of
        None \<Rightarrow> tell uid ''forward_first'' s
      | Some ch \<Rightarrow>
          (if TC_Type ch \<noteq> ''channel'' then tell uid ''not_a_channel'' s
           else case FindChannelByTelegramID flt (TC_ID ch) (ad_db s) of
                  Inr None \<Rightarrow>
                    (if role \<notin> {Some ''administrator'', Some ''creator''} then tell uid ''bot_not_admin'' s
                     else tell uid ''send_min_cpj'' (setStep uid ''channel:cpj''
                       [(''channel_id'', fmt_d (TC_ID ch)), (''channel_name'', TC_Title ch),
                        (''member_count'', fmt_d (if members \<le> 0 then 0 else members))] s))
                | _ \<Rightarrow> tell uid ''channel_exists'' s))"

definition handleChannelCPJ :: "ads_cfg \<Rightarrow> io \<Rightarrow> int64 \<Rightarrow> wizardState \<Rightarrow> string \<Rightarrow> ads \<Rightarrow> ads" where
  "handleChannelCPJ cfg io uid st text s =
     (let s1 = clearState uid s;
          (cpj, ok) = ac_ParseFloat cfg (TrimSpace text)
      in if \<not> ok \<or> f64_lt cpj (Fin 0) then tell uid ''bad_value'' s1
         else case publisher_of (io_flt io 0) uid s1 of
                None \<Rightarrow> tell uid ''error'' s1
              | Some pub \<Rightarrow>
                  (let ch = \<lparr>AC_ID = uuid_Nil, AC_CreatedAt = -62135596800000000000, AC_OwnerID = PB_ID pub, AC_CategoryID = None,
                             AC_ChannelID = ParseInt_value (data_of st ''channel_id''), AC_ChannelName = data_of st ''channel_name'',
                             AC_MemberCount = ParseInt_value (data_of st ''member_count''), AC_Status = ChannelPending, AC_IsActive = True,
                             AC_Score = 0, AC_FakePercent = Fin 0, AC_RealMembers = 0, AC_EffectiveCPJ = num_in (ac_dec cfg) cpj,
                             AC_LastAnalyzedAt = None\<rparr>;
                       (r, s2) = with_db (CreateChannel (io_shift 1 io) ch) s1
                   in case r of
                        Inl _ \<Rightarrow> tell uid ''channel_failed'' s2
                      | Inr _ \<Rightarrow> tell uid ''channel_created'' (notifyAdmin cfg ''review_channel'' s2)))"

definition onMyChannels :: "io \<Rightarrow> int64 \<Rightarrow> ads \<Rightarrow> ads" where
  "onMyChannels io uid s =
     (case publisher_of (io_flt io 0) uid s of
        None \<Rightarrow> tell uid ''start_first'' s
      | Some pub \<Rightarrow>
          (if ok_or [] (ListChannelsByOwner (io_flt io 1) (PB_ID pub) (ad_db s)) = [] then tell uid ''no_channels'' s
           else tell uid ''channels'' s))"

section \<open>Admin (\<open>admin.go\<close>, \<open>GetStats\<close> of \<open>store.go\<close>)\<close>

record ads_Stats =
  ST_TotalCampaigns :: int64
  ST_ActiveCampaigns :: int64
  ST_TotalChannels :: int64
  ST_TotalSpent :: f64
  ST_TotalJoins :: int64

text \<open>The error of a statement is dropped: its field stays zero. \<open>SUM\<close> over no row is \<open>NULL\<close>, which does not scan.\<close>

definition row_count :: "go_error + 'r list \<Rightarrow> int64" where
  "row_count r = int (length (ok_or [] r))"

definition ads_GetStats :: "(nat \<Rightarrow> string option) \<Rightarrow> ads_db \<Rightarrow> ads_Stats" where
  "ads_GetStats flt db =
     (let agg = sql (flt 3) campaign_columns [''spent'', ''join_count'']
                   (if campaigns db = [] then Inl (DBErr ''converting NULL'')
                    else Inr (num_out (fold (\<lambda>c a. num_add a (CA_Spent c)) (campaigns db) (Fin 0)), sum_list (map CA_TotalJoins (campaigns db))))
      in \<lparr>ST_TotalCampaigns = row_count (stmt (flt 0) (Inr (campaigns db))),
          ST_ActiveCampaigns = row_count (stmt (flt 1) (Inr (filter (\<lambda>c. CA_Status c = CampaignActive) (campaigns db)))),
          ST_TotalChannels = row_count (sql (flt 2) ad_channel_columns [''is_verified'']
            (Inr (filter (\<lambda>c. AC_Status c = ChannelVerified) (ad_channels db)))),
          ST_TotalSpent = fst (ok_or (Fin 0, 0) agg), ST_TotalJoins = snd (ok_or (Fin 0, 0) agg)\<rparr>)"

definition adminStats :: "int64 \<Rightarrow> ads \<Rightarrow> ads" where
  "adminStats uid s = tell uid ''stats'' s"

definition adminPending :: "string option \<Rightarrow> int64 \<Rightarrow> ads \<Rightarrow> ads" where
  "adminPending flt uid s =
     (let camps = ok_or [] (FindPendingCampaigns flt (ad_db s))
      in if camps = [] then tell uid ''no_pending'' s
         else fold (\<lambda>c s. let s1 = tell uid ''review_campaign'' s
                          in if CA_MediaFileID c \<noteq> [] \<and> CA_MediaType c \<in> {''photo'', ''video''} then tell uid ''preview'' s1 else s1) camps s)"

definition adminChannels :: "string option \<Rightarrow> int64 \<Rightarrow> ads \<Rightarrow> ads" where
  "adminChannels flt uid s =
     (let chs = ok_or [] (ListUnverifiedChannels flt (ad_db s))
      in if chs = [] then tell uid ''no_pending_channels'' s else fold (\<lambda>c. tell uid ''review_channel'') chs s)"

definition handle_verifyChannel :: "ads_cfg \<Rightarrow> string option \<Rightarrow> int64 \<Rightarrow> string \<Rightarrow> ads \<Rightarrow> ads" where
  "handle_verifyChannel cfg flt uid chIDStr s =
     (let (r, s1) = with_db (VerifyChannel flt (parse_uuid cfg chIDStr)) s
      in case r of Inl _ \<Rightarrow> tell uid ''error'' s1 | Inr _ \<Rightarrow> tell uid ''channel_verified'' s1)"

definition rejectChannel :: "ads_cfg \<Rightarrow> string option \<Rightarrow> int64 \<Rightarrow> string \<Rightarrow> ads \<Rightarrow> ads" where
  "rejectChannel cfg flt uid chIDStr s = tell uid ''channel_rejected'' (on_ads_db (DeactivateChannel flt (parse_uuid cfg chIDStr)) s)"

definition doBroadcast :: "string option \<Rightarrow> int64 \<Rightarrow> string \<Rightarrow> ads \<Rightarrow> ads" where
  "doBroadcast flt uid text s =
     (let s1 = clearState uid s;
          pubs = ok_or [] (ListPublishers flt (ad_db s1))
      in tell uid ''broadcast_done'' (fold (\<lambda>p. if PB_IsBlocked p then id else tell (PB_TelegramID p) text) pubs s1))"

definition handleAdminText :: "io \<Rightarrow> int64 \<Rightarrow> string \<Rightarrow> ads \<Rightarrow> ads" where
  "handleAdminText io uid text s =
     (if text = admStats then adminStats uid s
      else if text = admPending then adminPending (io_flt io 0) uid s
      else if text = admChannels then adminChannels (io_flt io 0) uid s
      else if text = admBroadcast then tell uid ''send_broadcast'' (setStep uid ''admin:broadcast'' [] s)
      else s)"

section \<open>Lock rentals: the request (\<open>lockrental.go\<close>)\<close>

definition onRentLock :: "int64 \<Rightarrow> ads \<Rightarrow> ads" where
  "onRentLock uid s = tell uid ''rent_lock'' (setStep uid ''rent:channel'' [] s)"

definition resolveChannel :: "ads_cfg \<Rightarrow> string \<Rightarrow> (int64 \<times> string) option" where
  "resolveChannel cfg input =
     (case ParseInt input of
        Some i \<Rightarrow> ac_ChatByID cfg i
      | None \<Rightarrow> ac_ChatByUsername cfg (''@'' @ TrimPrefix input ''@''))"

definition handleRentChannel :: "ads_cfg \<Rightarrow> int64 \<Rightarrow> string \<Rightarrow> ads \<Rightarrow> ads" where
  "handleRentChannel cfg uid text s =
     (let t = TrimSpace text
      in if t = [] then tell uid ''bad_channel'' s
         else case resolveChannel cfg t of
                None \<Rightarrow> tell uid ''channel_not_found'' s
              | Some (chatID, username) \<Rightarrow>
                  tell uid ''send_rent_budget'' (setStep uid ''rent:budget''
                    [(''channel_id'', fmt_d chatID), (''channel_username'', username)] s))"

definition handleRentBudget :: "ads_cfg \<Rightarrow> int64 \<Rightarrow> wizardState \<Rightarrow> string \<Rightarrow> ads \<Rightarrow> ads" where
  "handleRentBudget cfg uid st text s =
     (case parse_pos cfg text of
        None \<Rightarrow> tell uid ''bad_amount'' s
      | Some _ \<Rightarrow> tell uid ''send_rent_reward'' (setStep uid ''rent:reward''
                    (keep st [''channel_id'', ''channel_username''] @ [(''budget'', text)]) s))"

definition new_rental :: "ads_cfg \<Rightarrow> uuid \<Rightarrow> int64 \<Rightarrow> wizardState \<Rightarrow> f64 \<Rightarrow> LockRentalCampaign" where
  "new_rental cfg i uid st reward =
     \<lparr>LR_ID = i, LR_CreatedAt = -62135596800000000000, LR_BuyerTelegramID = uid,
      LR_TargetChannelID = ParseInt_value (data_of st ''channel_id''), LR_TargetChannelUsername = data_of st ''channel_username'',
      LR_Status = RentalPendingReview, LR_ReviewNote = [], LR_ReviewedAt = None, LR_ReviewerID = 0,
      LR_RewardPerJoinTON = num_in (ac_dec cfg) reward, LR_Budget = num_in (ac_dec cfg) (fst (ac_ParseFloat cfg (data_of st ''budget''))),
      LR_Spent = Fin 0, LR_FreeBotOwnerRewardPercent = Fin 5, LR_TotalJoins = 0, LR_RealJoins = 0, LR_StartAt = None, LR_EndAt = None\<rparr>"

definition handleRentReward :: "ads_cfg \<Rightarrow> io \<Rightarrow> int64 \<Rightarrow> wizardState \<Rightarrow> string \<Rightarrow> ads \<Rightarrow> ads" where
  "handleRentReward cfg io uid st text s =
     (case parse_pos cfg text of
        None \<Rightarrow> tell uid ''bad_amount'' s
      | Some reward \<Rightarrow>
          (let (r, s1) = with_db (CreateLockRental io (new_rental cfg (io_uuid io 0) uid st reward)) (clearState uid s)
           in case r of
                Inl _ \<Rightarrow> tell uid ''rent_failed'' s1
              | Inr _ \<Rightarrow> tell uid ''rent_sent'' (notifyAdmin cfg ''review_rental'' s1)))"

section \<open>Lock rentals: approval\<close>

definition fmt_q :: "string \<Rightarrow> string" where  \<comment> \<open>\<open>%q\<close> of a text that needs no escapes\<close>
  "fmt_q t = [CHR 0x22] @ t @ [CHR 0x22]"

definition defaultSlotsPerRental :: nat where "defaultSlotsPerRental = 3"

fun reserve_owners :: "ads_cfg \<Rightarrow> (nat \<Rightarrow> io) \<Rightarrow> uuid \<Rightarrow> f64 \<Rightarrow> FreeBotSlot list \<Rightarrow> ads \<Rightarrow> ads" where
  "reserve_owners cfg ios rentalID perOwner [] s = s"
| "reserve_owners cfg ios rentalID perOwner (slot # slots) s =
     reserve_owners cfg (\<lambda>k. ios (Suc k)) rentalID perOwner slots
       (case ac_slot_owner cfg (FS_BotInstanceID slot) of
          Inl _ \<Rightarrow> s
        | Inr owner \<Rightarrow>
            (if owner = 0 then s
             else let (r, s1) = with_db (TryRecordOwnerReward (ac_dec cfg) (ios 0) rentalID (FS_ID slot) owner perOwner) s
                  in if r = Inr True then tell owner ''owner_reward_reserved'' s1 else s1))"

definition payFreeBotOwners :: "ads_cfg \<Rightarrow> (nat \<Rightarrow> io) \<Rightarrow> LockRentalCampaign \<Rightarrow> FreeBotSlot list \<Rightarrow> ads \<Rightarrow> ads" where
  "payFreeBotOwners cfg ios rental slots s =
     (let percent = num_out (LR_FreeBotOwnerRewardPercent rental);
          totalPool = f64_div (f64_mul (num_out (LR_Budget rental)) percent) 100;
          perOwner = f64_div totalPool (of_nat (length slots))
      in if slots = [] \<or> f64_le percent (Fin 0) then s
         else if f64_le perOwner (Fin 0) then s
         else reserve_owners cfg (\<lambda>k. ios (Suc k)) (LR_ID rental) perOwner slots
                (on_ads_db (IncrementRentalSpentOnly (ac_dec cfg) (io_flt (ios 0) 0) (LR_ID rental) totalPool) s))"

definition charge_budget :: "ads_cfg \<Rightarrow> client_env \<Rightarrow> LockRentalCampaign \<Rightarrow> ads \<Rightarrow> go_error option \<times> ads" where
  "charge_budget cfg env rental s =
     (case ac_pay cfg of
        None \<Rightarrow> (None, s)
      | Some c \<Rightarrow>
          (let i = LR_ID rental;
               meta = ''{'' @ fmt_q ''type'' @ '':'' @ fmt_q ''lock_rental'' @ '','' @ fmt_q ''rental_id'' @ '':'' @ fmt_q i @ '','' @
                      fmt_q ''channel'' @ '':'' @ fmt_q (LR_TargetChannelUsername rental) @ ''}'';
               (r, w) = DeductWithMeta c env (LR_BuyerTelegramID rental) (num_out (LR_Budget rental)) (''lock_rental:'' @ i) i i meta (ad_pay s)
           in (case r of Inl e \<Rightarrow> Some e | Inr _ \<Rightarrow> None, s\<lparr>ad_pay := w\<rparr>)))"

definition approveLockRental :: "ads_cfg \<Rightarrow> (nat \<Rightarrow> io) \<Rightarrow> client_env \<Rightarrow> int64 \<Rightarrow> string \<Rightarrow> ads \<Rightarrow> ads" where
  "approveLockRental cfg ios env uid idStr s =
     (case ac_ParseUUID cfg idStr of
        None \<Rightarrow> tell uid ''bad_id'' s
      | Some i \<Rightarrow>
          (case FindLockRental (io_flt (ios 0) 0) i (ad_db s) of
             Inr (Some rental) \<Rightarrow>
               (if LR_Status rental \<noteq> RentalPendingReview then tell uid ''already_reviewed'' s
                else case charge_budget cfg env rental s of
                       (Some e, s1) \<Rightarrow> tell uid (if IsInsufficientBalance e then ''insufficient_balance'' else ''deduct_failed'') s1
                     | (None, s1) \<Rightarrow>
                         (case with_db (ApproveLockRental (ios 1) i uid) s1 of
                            (Inl _, s2) \<Rightarrow> tell uid ''approve_failed'' s2
                          | (Inr _, s2) \<Rightarrow>
                              (let ((slots, _), s3) = with_db (AssignSlotsToRental (ios 2) i (LR_BuyerTelegramID rental) defaultSlotsPerRental) s2
                               in tell uid ''rental_approved'' (tell (LR_BuyerTelegramID rental) ''rental_approved_buyer''
                                    (payFreeBotOwners cfg (\<lambda>k. ios (k + 3)) rental slots s3)))))
           | _ \<Rightarrow> tell uid ''not_found'' s))"

definition handle_rejectLockRental :: "ads_cfg \<Rightarrow> io \<Rightarrow> int64 \<Rightarrow> string \<Rightarrow> ads \<Rightarrow> ads" where
  "handle_rejectLockRental cfg io uid idStr s =
     (case ac_ParseUUID cfg idStr of
        None \<Rightarrow> tell uid ''bad_id'' s
      | Some i \<Rightarrow>
          (case with_db (RejectLockRental io i uid ''rejected by the admin'') s of
             (Inl _, s1) \<Rightarrow> tell uid ''error'' s1
           | (Inr _, s1) \<Rightarrow>
               tell uid ''rental_rejected''
                 (case FindLockRental (io_flt io 1) i (ad_db s1) of
                    Inr (Some r) \<Rightarrow> tell (LR_BuyerTelegramID r) ''rental_rejected_buyer'' s1
                  | Inr None \<Rightarrow> s1
                  | Inl _ \<Rightarrow> tell 0 ''rental_rejected_buyer'' s1)))"

section \<open>Lock rentals: joins, completion and settlement\<close>

definition HandleFraudDetected :: "ads_cfg \<Rightarrow> (nat \<Rightarrow> io) \<Rightarrow> int64 \<Rightarrow> int64 \<Rightarrow> ads \<Rightarrow> ads" where
  "HandleFraudDetected cfg ios telegramID channelID s =
     on_ads_db (\<lambda>db. snd (ReversePendingRewardByUser (ac_dec cfg) ios channelID telegramID db)) s"

fun release_slots :: "ads_cfg \<Rightarrow> (nat \<Rightarrow> string option) \<Rightarrow> FreeBotSlot list \<Rightarrow> ads \<Rightarrow> ads" where
  "release_slots cfg flt [] s = s"
| "release_slots cfg flt (slot # slots) s =
     release_slots cfg (\<lambda>k. flt (Suc k)) slots
       (case ac_slot_owner cfg (FS_BotInstanceID slot) of
          Inl _ \<Rightarrow> s
        | Inr owner \<Rightarrow> (if owner = 0 then s else on_ads_db (ReleaseSlot (flt 0) (FS_ID slot)) (tell owner ''rental_finished_owner'' s)))"

definition checkCampaignCompletion :: "ads_cfg \<Rightarrow> io \<Rightarrow> uuid \<Rightarrow> ads \<Rightarrow> ads" where
  "checkCampaignCompletion cfg io rentalID s =
     (case with_db (MarkRentalDoneIfFinished io rentalID) s of
        (Inr True, s1) \<Rightarrow>
          (case FindLockRental (io_flt io 1) rentalID (ad_db s1) of
             Inr (Some rental) \<Rightarrow>
               (let s2 = tell (LR_BuyerTelegramID rental) ''rental_finished'' s1
                in case ListSlotsByRental (io_flt io 2) rentalID (ad_db s2) of
                     Inl _ \<Rightarrow> s2
                   | Inr slots \<Rightarrow> release_slots cfg (\<lambda>k. io_flt io (k + 3)) slots s2)
           | _ \<Rightarrow> s1)
      | (_, s1) \<Rightarrow> s1)"

definition HandleMembershipJoined :: "ads_cfg \<Rightarrow> io \<Rightarrow> int64 \<Rightarrow> int64 \<Rightarrow> ads \<Rightarrow> ads" where
  "HandleMembershipJoined cfg io telegramID channelID s =
     (case FindActiveRentalByChannel (io_flt io 0) channelID (ad_db s) of
        Inr (Some rental) \<Rightarrow>
          (if \<not> LR_IsActive (io_now io 0) rental then s
           else let reward = num_out (LR_RewardPerJoinTON rental)
                in case with_db (TryRecordJoinReward (ac_dec cfg) (io_shift 1 io) (LR_ID rental) telegramID reward) s of
                     (Inr True, s1) \<Rightarrow>
                       checkCampaignCompletion cfg (io_shift 3 io) (LR_ID rental)
                         (tell telegramID ''reward_reserved''
                           (on_ads_db (AddRentalJoinCount (ac_dec cfg) (io_flt io 2) (LR_ID rental) 1 reward) s1))
                   | (_, s1) \<Rightarrow> s1)
      | _ \<Rightarrow> s)"

fun check_all :: "ads_cfg \<Rightarrow> (nat \<Rightarrow> io) \<Rightarrow> LockRentalCampaign list \<Rightarrow> ads \<Rightarrow> ads" where
  "check_all cfg ios [] s = s"
| "check_all cfg ios (r # rs) s = check_all cfg (\<lambda>k. ios (Suc k)) rs (checkCampaignCompletion cfg (ios 0) (LR_ID r) s)"

definition checkExpiredRentals :: "ads_cfg \<Rightarrow> (nat \<Rightarrow> io) \<Rightarrow> ads \<Rightarrow> ads" where
  "checkExpiredRentals cfg ios s =
     (case FindExpiredActiveRentals (ios 0) (ad_db s) of
        Inl _ \<Rightarrow> s
      | Inr expired \<Rightarrow> check_all cfg (\<lambda>k. ios (Suc k)) expired s)"

definition settle_one :: "pay_client \<Rightarrow> client_env \<Rightarrow> io \<Rightarrow> RentalJoinReward \<Rightarrow> ads \<Rightarrow> ads" where
  "settle_one c env io r s =
     (let meta = ''{'' @ fmt_q ''type'' @ '':'' @ fmt_q ''join_reward_settlement'' @ '','' @ fmt_q ''rental_id'' @ '':'' @
                 fmt_q (JR_RentalID r) @ '','' @ fmt_q ''reward_id'' @ '':'' @ fmt_q (JR_ID r) @ ''}'';
          ref = ''join_reward:'' @ JR_RentalID r @ '':'' @ JR_ID r;
          (e, w) = Client_Credit c env (JR_TelegramID r) (num_out (JR_AmountTON r)) ref meta (ad_pay s);
          s1 = s\<lparr>ad_pay := w\<rparr>
      in case e of
           Inl _ \<Rightarrow> s1
         | Inr _ \<Rightarrow>
             (case with_db (SettleReward io (JR_ID r)) s1 of
                (Inl _, s2) \<Rightarrow> s2
              | (Inr _, s2) \<Rightarrow> tell (JR_TelegramID r) ''reward_paid'' s2))"

fun settle_all :: "pay_client \<Rightarrow> (nat \<Rightarrow> client_env) \<Rightarrow> (nat \<Rightarrow> io) \<Rightarrow> RentalJoinReward list \<Rightarrow> ads \<Rightarrow> ads" where
  "settle_all c envs ios [] s = s"
| "settle_all c envs ios (r # rs) s =
     settle_all c (\<lambda>k. envs (Suc k)) (\<lambda>k. ios (Suc k)) rs (settle_one c (envs 0) (ios 0) r s)"

definition settleDueRewards :: "ads_cfg \<Rightarrow> (nat \<Rightarrow> client_env) \<Rightarrow> (nat \<Rightarrow> io) \<Rightarrow> ads \<Rightarrow> ads" where
  "settleDueRewards cfg envs ios s =
     (case ac_pay cfg of
        None \<Rightarrow> s
      | Some c \<Rightarrow>
          (case FindDueRewards (ios 0) 200 (ad_db s) of
             Inl _ \<Rightarrow> s
           | Inr due \<Rightarrow> settle_all c envs (\<lambda>k. ios (Suc k)) due s))"

definition settle_owner :: "pay_client \<Rightarrow> client_env \<Rightarrow> io \<Rightarrow> FreeBotOwnerReward \<Rightarrow> ads \<Rightarrow> ads" where
  "settle_owner c env io r s =
     (let meta = ''{'' @ fmt_q ''type'' @ '':'' @ fmt_q ''freebot_owner_reward_settlement'' @ '','' @ fmt_q ''rental_id'' @ '':'' @
                 fmt_q (FO_RentalID r) @ '','' @ fmt_q ''slot_id'' @ '':'' @ fmt_q (FO_SlotID r) @ ''}'';
          ref = ''freebot_reward:'' @ FO_RentalID r @ '':'' @ FO_SlotID r;
          (e, w) = Client_Credit c env (FO_OwnerTelegramID r) (num_out (FO_AmountTON r)) ref meta (ad_pay s);
          s1 = s\<lparr>ad_pay := w\<rparr>
      in case e of
           Inl _ \<Rightarrow> s1
         | Inr _ \<Rightarrow>
             (case with_db (SettleOwnerReward io (FO_ID r)) s1 of
                (Inl _, s2) \<Rightarrow> s2
              | (Inr _, s2) \<Rightarrow> tell (FO_OwnerTelegramID r) ''owner_reward_paid'' s2))"

fun settle_owners :: "pay_client \<Rightarrow> (nat \<Rightarrow> client_env) \<Rightarrow> (nat \<Rightarrow> io) \<Rightarrow> FreeBotOwnerReward list \<Rightarrow> ads \<Rightarrow> ads" where
  "settle_owners c envs ios [] s = s"
| "settle_owners c envs ios (r # rs) s =
     settle_owners c (\<lambda>k. envs (Suc k)) (\<lambda>k. ios (Suc k)) rs (settle_owner c (envs 0) (ios 0) r s)"

definition settleDueOwnerRewards :: "ads_cfg \<Rightarrow> (nat \<Rightarrow> client_env) \<Rightarrow> (nat \<Rightarrow> io) \<Rightarrow> ads \<Rightarrow> ads" where
  "settleDueOwnerRewards cfg envs ios s =
     (case ac_pay cfg of
        None \<Rightarrow> s
      | Some c \<Rightarrow>
          (case FindDueOwnerRewards (ios 0) 200 (ad_db s) of
             Inl _ \<Rightarrow> s
           | Inr due \<Rightarrow> settle_owners c envs (\<lambda>k. ios (Suc k)) due s))"

text \<open>One round of \<open>RunSettlementScheduler\<close>.\<close>

definition settlement_tick ::
  "ads_cfg \<Rightarrow> (nat \<Rightarrow> client_env) \<Rightarrow> (nat \<Rightarrow> client_env) \<Rightarrow> (nat \<Rightarrow> nat \<Rightarrow> io) \<Rightarrow> ads \<Rightarrow> ads" where
  "settlement_tick cfg envs envs' ios s =
     checkExpiredRentals cfg (ios 2) (settleDueOwnerRewards cfg envs' (ios 1) (settleDueRewards cfg envs (ios 0) s))"

definition ConfirmChannelAdminByBotID :: "io \<Rightarrow> int64 \<Rightarrow> ads \<Rightarrow> (go_error + unit) \<times> ads" where
  "ConfirmChannelAdminByBotID io botID s =
     (case FindFreeBotSlotByBotID (io_flt io 0) botID (ad_db s) of
        Inr (Some slot) \<Rightarrow>
          (if IsFree slot then (Inl (Errorf ''bot_id=%d is not assigned to any rental'' [ArgInt botID]), s)
           else with_db (ConfirmChannelAdmin (io_flt io 1) (FS_ID slot)) s)
      | _ \<Rightarrow> (Inl (Errorf ''slot not found for bot_id=%d'' [ArgInt botID]), s))"

section \<open>Updates of Telegram (\<open>handler.go\<close>)\<close>

definition ads_onStart :: "ads_cfg \<Rightarrow> io \<Rightarrow> int64 \<Rightarrow> string \<Rightarrow> string \<Rightarrow> ads \<Rightarrow> ads" where
  "ads_onStart cfg io uid username firstName s =
     (let s1 = snd (with_db (UpsertPublisher io uid username firstName) s)
      in tell uid (if uid = ac_ownerID cfg then ''admin_panel'' else ''welcome'') s1)"

definition ads_onAdmin :: "ads_cfg \<Rightarrow> int64 \<Rightarrow> ads \<Rightarrow> ads" where
  "ads_onAdmin cfg uid s = (if uid \<noteq> ac_ownerID cfg then s else tell uid ''admin_panel'' s)"

definition onCancel :: "int64 \<Rightarrow> ads \<Rightarrow> ads" where
  "onCancel uid s = tell uid ''cancelled'' (clearState uid s)"

definition handleStep :: "ads_cfg \<Rightarrow> io \<Rightarrow> int64 \<Rightarrow> wizardState \<Rightarrow> string \<Rightarrow> ads \<Rightarrow> ads" where
  "handleStep cfg io uid st text s =
     (if text = btnCancel \<or> text = btnBack then onCancel uid s
      else if wz_Step st = ''camp:name'' then handleCampName uid text s
      else if wz_Step st = ''camp:caption'' then handleCampCaption uid st text s
      else if wz_Step st = ''camp:button'' then handleCampButton uid st text s
      else if wz_Step st = ''camp:url'' then handleCampURL uid st text s
      else if wz_Step st = ''camp:budget'' then handleCampBudget cfg io uid st text s
      else if wz_Step st = ''camp:cpj'' then handleCampCPJ cfg io uid st text s
      else if wz_Step st = ''channel:cpj'' then handleChannelCPJ cfg io uid st text s
      else if wz_Step st = ''admin:broadcast'' then doBroadcast (io_flt io 0) uid text s
      else if wz_Step st = ''admin:reject_note'' then doReject cfg io uid st text s
      else if wz_Step st = ''rent:channel'' then handleRentChannel cfg uid text s
      else if wz_Step st = ''rent:budget'' then handleRentBudget cfg uid st text s
      else if wz_Step st = ''rent:reward'' then handleRentReward cfg io uid st text s
      else s)"

definition ads_onText :: "ads_cfg \<Rightarrow> io \<Rightarrow> int64 \<Rightarrow> string \<Rightarrow> ads \<Rightarrow> ads" where
  "ads_onText cfg io uid raw s =
     (let text = TrimSpace raw;
          st = getState uid s
      in if wz_Step st \<noteq> [] then handleStep cfg io uid st text s
         else if text = btnNewCampaign then onNewCampaign uid s
         else if text = btnMyCampaigns then onMyCampaigns io uid s
         else if text = btnMyChannels then onMyChannels io uid s
         else if text = btnAddChannel then onAddChannel uid s
         else if text = btnBalance then tell uid ''balance'' s
         else if text = btnHelp then tell uid ''help'' s
         else if text = btnCancel \<or> text = btnBack then onCancel uid s
         else if uid = ac_ownerID cfg then handleAdminText io uid text s
         else s)"

definition onMedia :: "int64 \<Rightarrow> media \<Rightarrow> ads \<Rightarrow> ads" where
  "onMedia uid m s = (let st = getState uid s in if wz_Step st = ''camp:media'' then handleCampaignMedia uid st m s else s)"

definition onChannelPost :: "string option \<Rightarrow> string option \<Rightarrow> int64 \<Rightarrow> int64 \<Rightarrow> tg_chat option \<Rightarrow> ads \<Rightarrow> ads" where
  "onChannelPost flt role members uid origChat s =
     (if wz_Step (getState uid s) = ''channel:fwd'' then handleChannelForward flt role members uid origChat s else s)"

text \<open>\<open>strings.SplitN(data, ":", 2)\<close>: what stands before the first colon, and what follows it, if there is one.\<close>

definition split_colon :: "string \<Rightarrow> string \<times> string option" where
  "split_colon d = (takeWhile (\<lambda>c. c \<noteq> CHR '':'') d,
     case dropWhile (\<lambda>c. c \<noteq> CHR '':'') d of [] \<Rightarrow> None | _ # rest \<Rightarrow> Some rest)"

definition callback_parts :: "string \<Rightarrow> string \<times> string option" where
  "callback_parts raw = split_colon (case raw of c # r \<Rightarrow> (if c = CHR 0x0C then r else raw) | [] \<Rightarrow> raw)"

definition ads_onCallback :: "ads_cfg \<Rightarrow> (nat \<Rightarrow> io) \<Rightarrow> client_env \<Rightarrow> int64 \<Rightarrow> string \<Rightarrow> ads \<Rightarrow> ads" where
  "ads_onCallback cfg ios env uid raw s =
     (let (cmd, arg) = callback_parts raw;
          admin = (uid = ac_ownerID cfg);
          guarded = (\<lambda>f a. if \<not> admin then tell uid ''admin_only'' s else f a s)
      in if cmd = ''cancel'' then tell uid ''cancelled'' (clearState uid s)
         else case arg of
                None \<Rightarrow> s
              | Some a \<Rightarrow>
                  (if cmd = ''approve'' then guarded (approveCampaign cfg ios uid) a
                   else if cmd = ''reject'' then guarded (startReject uid) a
                   else if cmd = ''camp_pause'' then pauseCampaign cfg (ios 0) uid a s
                   else if cmd = ''camp_del'' then deleteCampaign cfg (ios 0) uid a s
                   else if cmd = ''verify_ch'' then guarded (handle_verifyChannel cfg (io_flt (ios 0) 0) uid) a
                   else if cmd = ''reject_ch'' then guarded (rejectChannel cfg (io_flt (ios 0) 0) uid) a
                   else if cmd = ''rent_approve'' then guarded (approveLockRental cfg ios env uid) a
                   else if cmd = ''rent_reject'' then guarded (handle_rejectLockRental cfg (ios 0) uid) a
                   else s))"

section \<open>Updates and NATS messages, one step each (\<open>Register\<close>, \<open>cmd/main.go\<close>)\<close>

datatype ads_event =
    Command int64 string string string  \<comment> \<open>sender, command, user name, first name\<close>
  | TextMsg int64 string
  | MediaMsg int64 media
  | ChannelPost int64 "string option" int64 "tg_chat option"
  | Button int64 string
  | FreeBotCreated string int64
  | MembershipJoined int64 int64
  | FraudDetected int64 int64
  | ConfirmAdmin int64
  | Tick
  | EngineTick

record ads_env =
  ae_ios :: "nat \<Rightarrow> nat \<Rightarrow> io"
  ae_envs :: "nat \<Rightarrow> nat \<Rightarrow> client_env"

definition onCommand :: "ads_cfg \<Rightarrow> io \<Rightarrow> int64 \<Rightarrow> string \<Rightarrow> string \<Rightarrow> string \<Rightarrow> ads \<Rightarrow> ads" where
  "onCommand cfg io uid cmd username firstName s =
     (if cmd = ''/start'' then ads_onStart cfg io uid username firstName s
      else if cmd = ''/help'' then tell uid ''help'' s
      else if cmd = ''/newcampaign'' then onNewCampaign uid s
      else if cmd = ''/campaigns'' then onMyCampaigns io uid s
      else if cmd = ''/channels'' then onMyChannels io uid s
      else if cmd = ''/addchannel'' then onAddChannel uid s
      else if cmd = ''/balance'' then tell uid ''balance'' s
      else if cmd = ''/rentlock'' then onRentLock uid s
      else if cmd = ''/admin'' then ads_onAdmin cfg uid s
      else if cmd = ''/cancel'' then onCancel uid s
      else ads_onText cfg io uid cmd s)"

definition onFreeBotCreated :: "ads_cfg \<Rightarrow> io \<Rightarrow> string \<Rightarrow> int64 \<Rightarrow> ads \<Rightarrow> ads" where
  "onFreeBotCreated cfg io instanceID botID s =
     (case ac_ParseUUID cfg instanceID of
        None \<Rightarrow> s
      | Some inst \<Rightarrow> snd (with_db (UpsertFreeBotSlot (io_flt io 0)
          \<lparr>FS_ID = io_uuid io 0, FS_BotInstanceID = inst, FS_BotID = botID, FS_RentalID = None, FS_AssignedOwnerTelegramID = 0,
           FS_IsChannelAdminConfirmed = False\<rparr>) s))"

definition ads_step :: "ads_cfg \<Rightarrow> ads_env \<Rightarrow> ads_event \<Rightarrow> ads \<Rightarrow> ads" where
  "ads_step cfg env ev s =
     (let ios = ae_ios env 0; io = ios 0 in
      case ev of
        Command uid cmd username firstName \<Rightarrow> onCommand cfg io uid cmd username firstName s
      | TextMsg uid t \<Rightarrow> ads_onText cfg io uid t s
      | MediaMsg uid m \<Rightarrow> onMedia uid m s
      | ChannelPost uid role members ch \<Rightarrow> onChannelPost (io_flt io 0) role members uid ch s
      | Button uid d \<Rightarrow> ads_onCallback cfg ios (ae_envs env 0 0) uid d s
      | FreeBotCreated inst botID \<Rightarrow> onFreeBotCreated cfg io inst botID s
      | MembershipJoined uid ch \<Rightarrow> HandleMembershipJoined cfg io uid ch s
      | FraudDetected uid ch \<Rightarrow> HandleFraudDetected cfg ios uid ch s
      | ConfirmAdmin botID \<Rightarrow> snd (ConfirmChannelAdminByBotID io botID s)
      | Tick \<Rightarrow> settlement_tick cfg (ae_envs env 0) (ae_envs env 1) (ae_ios env) s
      | EngineTick \<Rightarrow> runBatch cfg io (\<lambda>k. ae_ios env (Suc k)) s)"

fun ads_run :: "ads_cfg \<Rightarrow> (ads_env \<times> ads_event) list \<Rightarrow> ads \<Rightarrow> ads" where
  "ads_run cfg [] s = s"
| "ads_run cfg ((env, ev) # evs) s = ads_run cfg evs (ads_step cfg env ev s)"

end
