(* ===== verification/AdsFrame.thy ===== *)
theory AdsFrame
  imports AdsRental PayClientProps
begin

text \<open>
  What the steps of the advertising bot do to its database. The interface \<open>ads_contract\<close> is a relation between
  two states of the database that the single writes respect; inside it every handler, NATS message and timer
  tick is shown to respect it, apart from the approval of a lock rental, which it may exclude.
\<close>

section \<open>Access to the state\<close>

lemma db_access [simp]:
  "ad_db (tell u k s) = ad_db s" "ad_db (setStep u st kv s) = ad_db s" "ad_db (clearState u s) = ad_db s"
  "ad_db (notifyAdmin cfg k s) = ad_db s" "ad_db (on_ads_db f s) = f (ad_db s)"
  "ad_db (snd (with_db g s)) = snd (g (ad_db s))" "fst (with_db g s) = fst (g (ad_db s))"
  by (simp_all add: tell_def setStep_def setState_def clearState_def notifyAdmin_def on_ads_db_def with_db_def Let_def case_prod_beta)

lemma pay_access [simp]:
  "ad_pay (tell u k s) = ad_pay s" "ad_pay (setStep u st kv s) = ad_pay s" "ad_pay (clearState u s) = ad_pay s"
  "ad_pay (on_ads_db f s) = ad_pay s" "ad_pay (snd (with_db g s)) = ad_pay s"
  by (simp_all add: tell_def setStep_def setState_def clearState_def on_ads_db_def with_db_def Let_def case_prod_beta)

lemma notifyPublisher_db [simp]: "ad_db (notifyPublisher flt c k s) = ad_db s"
  by (simp add: notifyPublisher_def split: option.splits)

lemma fold_tell_db [simp]:
  "ad_db (fold (\<lambda>c. tell u k) xs s) = ad_db s"
  "ad_db (fold (\<lambda>p. if P p then id else tell (h p) k) ps s) = ad_db s"
  by (induction xs arbitrary: s, simp_all) (induction ps arbitrary: s, simp_all)

lemma with_db_case:
  "with_db f s = (r, s') \<longleftrightarrow> r = fst (f (ad_db s)) \<and> s' = s\<lparr>ad_db := snd (f (ad_db s))\<rparr>"
  by (auto simp: with_db_def case_prod_beta Let_def)

section \<open>The contract\<close>

definition spent_from :: "numeric \<Rightarrow> ads_db \<Rightarrow> bool" where
  "spent_from x db \<longleftrightarrow> x = Fin 0 \<or> x \<in> CA_Spent ` set (campaigns db)"

definition active_in :: "uuid \<Rightarrow> ads_db \<Rightarrow> bool" where
  "active_in i db \<longleftrightarrow> (\<exists>r \<in> set (lock_rentals db). LR_ID r = i \<and> LR_Status r = RentalActive)"

definition same_core :: "ads_db \<Rightarrow> ads_db \<Rightarrow> bool" where
  "same_core db db' \<longleftrightarrow> campaigns db' = campaigns db \<and> impressions db' = impressions db \<and> lock_rentals db' = lock_rentals db \<and>
     join_rewards db' = join_rewards db \<and> owner_rewards db' = owner_rewards db"

lemma same_core_ops:
  "same_core db (snd (UpsertPublisher io u n f db))" "same_core db (UpdateBalance dec flt i d db)"
  "same_core db (snd (CreateChannel io ch db))" "same_core db (snd (VerifyChannel flt i db))" "same_core db (DeactivateChannel flt i db)"
  "same_core db (snd (UpsertFreeBotSlot flt sl db))" "same_core db (snd (AssignSlotsToRental io i b k db))"
  "same_core db (ReleaseSlot flt i db)" "same_core db (snd (ConfirmChannelAdmin flt i db))"
  by (simp_all add: same_core_def UpsertPublisher_def UpdateBalance_def CreateChannel_def VerifyChannel_def DeactivateChannel_def
      UpsertFreeBotSlot_def AssignSlotsToRental_def ReleaseSlot_def ConfirmChannelAdmin_def Let_def split: option.splits sum.splits)

lemma ListActiveChannels_fails [simp]: "\<exists>e. ListActiveChannels flt x db = Inl e"
  by (simp add: ListActiveChannels_def sql_def stmt_def ad_channel_columns_def split: option.splits)

lemma campaign_of_spent: "campaign_of flt i s = Some c \<Longrightarrow> spent_from (CA_Spent c) (ad_db s)"
  by (auto simp: campaign_of_def ok_or_def FindCampaign_def First_or_nil_def stmt_def spent_from_def zero_campaign_def
      dest!: First_row_Some split: option.splits)

text \<open>The approval of a rental goes through when its row is under review and botpay has taken the budget.\<close>

definition charged :: "ads_cfg \<Rightarrow> (nat \<Rightarrow> io) \<Rightarrow> client_env \<Rightarrow> LockRentalCampaign \<Rightarrow> ads \<Rightarrow> bool" where
  "charged cfg ios env r s \<longleftrightarrow> FindLockRental (io_flt (ios 0) 0) (LR_ID r) (ad_db s) = Inr (Some r) \<and>
     LR_Status r = RentalPendingReview \<and> fst (charge_budget cfg env r s) = None"

definition approves :: "ads_cfg \<Rightarrow> ads_env \<Rightarrow> ads_event \<Rightarrow> LockRentalCampaign \<Rightarrow> ads \<Rightarrow> bool" where
  "approves cfg env ev r s \<longleftrightarrow> (\<exists>d t. ev = Button (ac_ownerID cfg) d \<and> callback_parts d = (''rent_approve'', Some t) \<and>
     ac_ParseUUID cfg t = Some (LR_ID r) \<and> charged cfg (ae_ios env 0) (ae_envs env 0 0) r s)"

locale ads_contract =
  fixes keep :: "ads_db \<Rightarrow> ads_db \<Rightarrow> bool" and allow :: "uuid \<Rightarrow> bool"
  assumes keep_trans: "keep a b \<Longrightarrow> keep b c \<Longrightarrow> keep a c"
    and keep_other: "same_core db db' \<Longrightarrow> keep db db'"
    and keep_campaigns: "(\<And>c. c \<in> set cs \<Longrightarrow> spent_from (CA_Spent c) db) \<Longrightarrow> keep db (db\<lparr>campaigns := cs\<rparr>)"
    and keep_rentals: "(\<And>r. r \<in> set rs \<Longrightarrow> LR_Status r = RentalActive \<Longrightarrow> active_in (LR_ID r) db) \<Longrightarrow>
      keep db (db\<lparr>lock_rentals := rs\<rparr>)"
    and keep_approve: "allow i \<Longrightarrow> keep db (snd (ApproveLockRental io i u db))"
    and keep_join: "keep db (snd (TryRecordJoinReward dec io i u x db))"
    and keep_owner: "keep db (snd (TryRecordOwnerReward dec io i j u x db))"
    and keep_join_rows: "(\<And>r. JR_ID (f r) = JR_ID r \<and> JR_RentalID (f r) = JR_RentalID r \<and> JR_TelegramID (f r) = JR_TelegramID r) \<Longrightarrow>
      keep db (db\<lparr>join_rewards := rows_set P f (join_rewards db)\<rparr>)"
    and keep_owner_rows: "(\<And>r. FO_ID (g r) = FO_ID r \<and> FO_RentalID (g r) = FO_RentalID r \<and> FO_SlotID (g r) = FO_SlotID r) \<Longrightarrow>
      keep db (db\<lparr>owner_rewards := rows_set Q g (owner_rewards db)\<rparr>)"
begin

lemma keep_refl: "keep db db"
  by (rule keep_other) (simp add: same_core_def)

lemma keep_rentals_set:
  assumes "\<And>r. LR_ID (f r) = LR_ID r" "\<And>r. LR_Status (f r) = RentalActive \<Longrightarrow> LR_Status r = RentalActive"
  shows "keep db (db\<lparr>lock_rentals := rows_set P f (lock_rentals db)\<rparr>)"
  by (rule keep_rentals) (use assms in \<open>auto simp: rows_set_def active_in_def split: if_splits\<close>)

lemma keep_campaigns_set:
  assumes "\<And>c. c \<in> set (campaigns db) \<Longrightarrow> P c \<Longrightarrow> spent_from (CA_Spent (f c)) db"
  shows "keep db (db\<lparr>campaigns := rows_set P f (campaigns db)\<rparr>)"
  by (rule keep_campaigns) (use assms in \<open>auto simp: rows_set_def spent_from_def split: if_splits\<close>)

lemma keep_CreateCampaign: "spent_from (CA_Spent c) db \<Longrightarrow> keep db (snd (CreateCampaign io c db))"
  by (auto simp: CreateCampaign_def Let_def spent_from_def intro!: keep_refl keep_campaigns split: option.splits)

lemma keep_UpdateCampaign: "spent_from (CA_Spent c) db \<Longrightarrow> keep db (UpdateCampaign io c db)"
  by (auto simp: UpdateCampaign_def intro: keep_CreateCampaign keep_refl keep_campaigns_set split: option.splits)

lemma keep_review:
  "keep db (snd (ApproveCampaign io i u db))" "keep db (snd (RejectCampaign io i u n db))"
  by (auto simp: ApproveCampaign_def RejectCampaign_def spent_from_def intro!: keep_refl keep_campaigns_set split: option.splits)

lemma keep_rental_ops:
  "LR_Status r \<noteq> RentalActive \<Longrightarrow> keep db (snd (CreateLockRental io r db))"
  "keep db (snd (RejectLockRental io i u n db))" "keep db (snd (MarkRentalDoneIfFinished io i db))"
  "keep db (AddRentalJoinCount dec flt i k x db)" "keep db (IncrementRentalSpentOnly dec flt i x db)" "keep db (add_spent i d db)"
  by (auto simp: CreateLockRental_def RejectLockRental_def MarkRentalDoneIfFinished_def AddRentalJoinCount_def
      IncrementRentalSpentOnly_def add_spent_def Let_def active_in_def rows_set_def intro!: keep_refl keep_rentals split: option.splits if_splits) blast+

lemma keep_settle: "keep db (snd (SettleReward io i db))" "keep db (snd (SettleOwnerReward io i db))"
  by (auto simp: SettleReward_def SettleOwnerReward_def intro!: keep_refl keep_join_rows keep_owner_rows split: option.splits)

lemma keep_ReverseReward: "keep db (snd (ReverseReward dec io i j x db))"
proof -
  let ?db1 = "db\<lparr>join_rewards := rows_set (\<lambda>r. JR_ID r = i \<and> JR_Status r = RewardPending) (\<lambda>r. r\<lparr>JR_Status := RewardReversed\<rparr>) (join_rewards db)\<rparr>"
  have "keep db ?db1" by (rule keep_join_rows) simp
  then have "keep db (add_spent j (num_neg (num_in dec x)) ?db1)" by (rule keep_trans) (rule keep_rental_ops)
  then show ?thesis
    by (auto simp: ReverseReward_def gorm_Transaction_def Let_def intro: keep_refl split: option.splits sum.splits)
qed

lemma keep_reverse_all: "keep db (snd (reverse_all dec ios rs db))"
proof (induction rs arbitrary: ios db)
  case (Cons r rs)
  have "keep db (snd (ReverseReward dec (ios 0) (JR_ID r) (JR_RentalID r) (num_out (JR_AmountTON r)) db))" by (rule keep_ReverseReward)
  then show ?case by (auto intro: keep_trans Cons split: prod.splits sum.splits)
qed (simp add: keep_refl)

lemma keep_fraud: "keep (ad_db s) (ad_db (HandleFraudDetected cfg ios u ch s))"
  by (simp add: HandleFraudDetected_def ReversePendingRewardByUser_def keep_refl keep_reverse_all split: option.splits)

lemmas keep_core = keep_other [OF same_core_ops(1)] keep_other [OF same_core_ops(2)] keep_other [OF same_core_ops(3)]
  keep_other [OF same_core_ops(4)] keep_other [OF same_core_ops(5)] keep_other [OF same_core_ops(6)] keep_other [OF same_core_ops(7)]
  keep_other [OF same_core_ops(8)] keep_other [OF same_core_ops(9)]

text \<open>Campaigns.\<close>

lemma keep_Distribute: "keep (ad_db s) (ad_db (snd (DistributeCampaign cfg ios c s)))"
proof -
  have "keep (ad_db s) (finish_campaign (ios 1) (CA_ID c) (ad_db s))"
    by (simp add: finish_campaign_def keep_UpdateCampaign spent_from_def zero_campaign_def)
  moreover obtain e where "ListActiveChannels (io_flt (ios 2) 0) (num_out (CA_CPJ c)) (ad_db s) = Inl e"
    using ListActiveChannels_fails by blast
  ultimately show ?thesis by (simp add: DistributeCampaign_def keep_refl)
qed

lemma keep_runBatch: "keep (ad_db s) (ad_db (runBatch cfg io ios s))"
proof -
  have "keep (ad_db s) (ad_db (distribute_all cfg ios cs s))" for cs
  proof (induction cs arbitrary: ios s)
    case (Cons c cs)
    show ?case unfolding distribute_all.simps by (rule keep_trans [OF keep_Distribute Cons.IH])
  qed (simp add: keep_refl)
  then show ?thesis by (simp add: runBatch_def keep_refl split: sum.splits)
qed

lemma keep_campaign_handlers:
  "keep (ad_db s) (ad_db (handleCampCPJ cfg io u st t s))" "keep (ad_db s) (ad_db (pauseCampaign cfg io u t s))"
  "keep (ad_db s) (ad_db (deleteCampaign cfg io u t s))" "keep (ad_db s) (ad_db (doReject cfg io u st t s))"
proof -
  let ?keep = "keep (ad_db s)"
  have new: "?keep (snd (CreateCampaign io' (zero_campaign\<lparr>CA_PublisherID := a1, CA_Name := a2, CA_MediaFileID := a3, CA_MediaType := a4,
      CA_Caption := a5, CA_ButtonText := a6, CA_ButtonURL := a7, CA_Budget := a8, CA_CPJ := a9, CA_Status := b1, CA_TargetCount := b2\<rparr>) (ad_db s)))"
    for io' a1 a2 a3 a4 a5 a6 a7 a8 a9 b1 b2
    by (rule keep_CreateCampaign) (simp add: spent_from_def zero_campaign_def)
  show "?keep (ad_db (handleCampCPJ cfg io u st t s))"
    by (auto simp: handleCampCPJ_def Let_def case_prod_beta intro: keep_refl keep_trans [OF _ keep_core(2)] new split: option.splits sum.splits)
  have own: "owned_campaign cfg io u t s = Inr c \<Longrightarrow> spent_from (CA_Spent c) (ad_db s)" for c
    by (auto simp: owned_campaign_def split: option.splits if_splits intro: campaign_of_spent)
  show "?keep (ad_db (pauseCampaign cfg io u t s))"
    by (auto simp: pauseCampaign_def intro!: keep_refl keep_UpdateCampaign dest!: own split: sum.splits)
  show "?keep (ad_db (deleteCampaign cfg io u t s))"
  proof (cases "owned_campaign cfg io u t s")
    case (Inr c)
    let ?db = "UpdateBalance (ac_dec cfg) (io_flt io 2) (CA_PublisherID c) (Campaign_RemainingBudget c) (ad_db s)"
    have "spent_from (CA_Spent c) ?db"
      using own [OF Inr] same_core_ops(2) [of "ad_db s"] by (simp add: spent_from_def same_core_def)
    then have "keep ?db (UpdateCampaign (io_shift 3 io) (c\<lparr>CA_Status := CampaignDone\<rparr>) ?db)" by (simp add: keep_UpdateCampaign)
    with Inr show ?thesis by (simp add: deleteCampaign_def keep_trans [OF keep_core(2)])
  qed (simp add: deleteCampaign_def keep_refl)
  show "?keep (ad_db (doReject cfg io u st t s))"
    by (auto simp: doReject_def Let_def case_prod_beta intro: keep_review keep_trans [OF keep_review(2) keep_core(2)] split: option.splits sum.splits)
qed

lemma keep_approveCampaign: "keep (ad_db s) (ad_db (approveCampaign cfg ios u t s))"
proof -
  have "keep (ad_db s) (ad_db (snd (DistributeCampaign cfg ios' c (notifyPublisher flt c k (snd (with_db (ApproveCampaign io i u) s))))))"
    for ios' c flt k io i
    by (rule keep_trans [OF _ keep_Distribute]) (simp add: keep_review)
  then show ?thesis
    by (simp add: approveCampaign_def Let_def case_prod_beta keep_review split: option.splits sum.splits)
qed

lemma keep_channel_handlers:
  "keep (ad_db s) (ad_db (handleChannelCPJ cfg io u st t s))" "keep (ad_db s) (ad_db (handle_verifyChannel cfg flt u t s))"
  "keep (ad_db s) (ad_db (rejectChannel cfg flt u t s))"
  by (auto simp: handleChannelCPJ_def handle_verifyChannel_def rejectChannel_def Let_def case_prod_beta
      intro: keep_refl keep_core split: option.splits sum.splits)

text \<open>Lock rentals.\<close>

lemma keep_handleRentReward: "keep (ad_db s) (ad_db (handleRentReward cfg io u st t s))"
proof -
  have "keep (ad_db s) (snd (CreateLockRental io (new_rental cfg i u st x) (ad_db s)))" for i x
    by (rule keep_rental_ops(1)) (simp add: new_rental_def)
  then show ?thesis
    by (auto simp: handleRentReward_def Let_def case_prod_beta intro: keep_refl split: option.splits sum.splits)
qed

lemma keep_reserve_owners: "keep (ad_db s) (ad_db (reserve_owners cfg ios i x slots s))"
proof (induction slots arbitrary: ios s)
  case (Cons slot slots)
  have "keep (ad_db s) (ad_db (reserve_owners cfg ios i x [slot] s))"
    by (auto simp: case_prod_beta Let_def intro: keep_refl keep_owner split: sum.splits)
  from keep_trans [OF this] Cons.IH show ?case by simp
qed (simp add: keep_refl)

lemma keep_payFreeBotOwners: "keep (ad_db s) (ad_db (payFreeBotOwners cfg ios r slots s))"
proof -
  define s1 where "s1 = (\<lambda>x. on_ads_db (IncrementRentalSpentOnly (ac_dec cfg) (io_flt (ios 0) 0) (LR_ID r) x) s)"
  have "keep (ad_db s) (ad_db (s1 x))" for x by (simp add: s1_def keep_rental_ops)
  then have "keep (ad_db s) (ad_db (reserve_owners cfg ios' i y slots (s1 x)))" for ios' i x y
    by (rule keep_trans) (rule keep_reserve_owners)
  then show ?thesis by (simp add: payFreeBotOwners_def Let_def keep_refl s1_def)
qed

lemma charge_budget_db [simp]: "ad_db (snd (charge_budget cfg env r s)) = ad_db s"
  by (simp add: charge_budget_def Let_def case_prod_beta split: option.splits)

lemma keep_approveLockRental:
  assumes "\<And>r. ac_ParseUUID cfg t = Some (LR_ID r) \<Longrightarrow> charged cfg ios env r s \<Longrightarrow> allow (LR_ID r)"
  shows "keep (ad_db s) (ad_db (approveLockRental cfg ios env u t s))"
proof -
  have paid: "keep (ad_db s) (ad_db (payFreeBotOwners cfg ios' r slots
      (snd (with_db (AssignSlotsToRental io' i b n) (snd (with_db (ApproveLockRental io i u) (snd (charge_budget cfg env r s))))))))"
    if "allow i" for ios' r slots io' i b n io
  proof -
    define s1 where "s1 = snd (with_db (ApproveLockRental io i u) (snd (charge_budget cfg env r s)))"
    have "keep (ad_db s) (ad_db s1)" using that by (simp add: s1_def keep_approve)
    then have "keep (ad_db s) (ad_db (snd (with_db (AssignSlotsToRental io' i b n) s1)))" by (rule keep_trans) (simp add: keep_core)
    then show ?thesis unfolding s1_def by (rule keep_trans) (rule keep_payFreeBotOwners)
  qed
  have "allow i" if "ac_ParseUUID cfg t = Some i" "FindLockRental (io_flt (ios 0) 0) i (ad_db s) = Inr (Some r)"
    "LR_Status r = RentalPendingReview" "fst (charge_budget cfg env r s) = None" for i r
  proof -
    have "LR_ID r = i" using that(2) by (auto simp: FindLockRental_def First_or_nil_def stmt_def dest!: First_row_Some split: option.splits)
    with that assms [of r] show ?thesis by (simp add: charged_def)
  qed
  then show ?thesis
    by (simp add: approveLockRental_def Let_def case_prod_beta keep_refl keep_approve paid split: option.splits sum.splits)
qed

lemma keep_handle_reject: "keep (ad_db s) (ad_db (handle_rejectLockRental cfg io u t s))"
  by (simp add: handle_rejectLockRental_def case_prod_beta keep_refl keep_rental_ops split: option.splits sum.splits)

lemma keep_release_slots: "keep (ad_db s) (ad_db (release_slots cfg flt slots s))"
proof (induction slots arbitrary: flt s)
  case (Cons slot slots)
  have "keep (ad_db s) (ad_db (release_slots cfg flt [slot] s))"
    by (simp add: keep_refl keep_core split: sum.splits)
  from keep_trans [OF this] Cons.IH show ?case by simp
qed (simp add: keep_refl)

lemma keep_completion: "keep (ad_db s) (ad_db (checkCampaignCompletion cfg io i s))"
proof -
  define s1 where "s1 = snd (with_db (MarkRentalDoneIfFinished io i) s)"
  have k: "keep (ad_db s) (ad_db s1)" by (simp add: s1_def keep_rental_ops)
  have "keep (ad_db s) (ad_db (release_slots cfg flt slots (tell u m s1)))" for flt slots u m
    by (rule keep_trans [OF _ keep_release_slots]) (simp add: k)
  with k show ?thesis
    by (auto simp: checkCampaignCompletion_def case_prod_beta s1_def [symmetric] Let_def split: sum.splits option.splits bool.splits)
qed

lemma keep_joined: "keep (ad_db s) (ad_db (HandleMembershipJoined cfg io u ch s))"
proof -
  have "keep (ad_db s) (ad_db (checkCampaignCompletion cfg io' i (tell u m (on_ads_db (AddRentalJoinCount dec flt i n x)
      (snd (with_db (TryRecordJoinReward dec' io'' r u y) s))))))" for io' i m dec flt n x dec' io'' r y
    by (rule keep_trans [OF _ keep_completion]) (simp add: keep_trans [OF keep_join keep_rental_ops(4)])
  then show ?thesis
    by (auto simp: HandleMembershipJoined_def case_prod_beta Let_def keep_refl keep_join split: sum.splits option.splits bool.splits)
qed

lemma keep_settle_one:
  "keep (ad_db s) (ad_db (settle_one c env io r s))" "keep (ad_db s) (ad_db (settle_owner c env io r' s))"
  by (simp_all add: settle_one_def settle_owner_def Let_def case_prod_beta keep_refl keep_settle split: sum.splits)

lemma keep_settle_all:
  "keep (ad_db s) (ad_db (settle_all c envs ios rs s))" "keep (ad_db s) (ad_db (settle_owners c envs ios rs' s))"
proof -
  show "keep (ad_db s) (ad_db (settle_all c envs ios rs s))"
  proof (induction rs arbitrary: envs ios s)
    case (Cons r rs)
    show ?case unfolding settle_all.simps by (rule keep_trans [OF keep_settle_one(1) Cons.IH])
  qed (simp add: keep_refl)
  show "keep (ad_db s) (ad_db (settle_owners c envs ios rs' s))"
  proof (induction rs' arbitrary: envs ios s)
    case (Cons r rs)
    show ?case unfolding settle_owners.simps by (rule keep_trans [OF keep_settle_one(2) Cons.IH])
  qed (simp add: keep_refl)
qed

lemma keep_check_all: "keep (ad_db s) (ad_db (check_all cfg ios rs s))"
proof (induction rs arbitrary: ios s)
  case (Cons r rs)
  show ?case unfolding check_all.simps by (rule keep_trans [OF keep_completion Cons.IH])
qed (simp add: keep_refl)

lemma keep_tick: "keep (ad_db s) (ad_db (settlement_tick cfg envs envs' ios s))"
proof -
  have 1: "keep (ad_db s) (ad_db (settleDueRewards cfg envs i s))" for s i
    by (simp add: settleDueRewards_def keep_refl keep_settle_all split: option.splits sum.splits)
  have 2: "keep (ad_db s) (ad_db (settleDueOwnerRewards cfg envs' i s))" for s i
    by (simp add: settleDueOwnerRewards_def keep_refl keep_settle_all split: option.splits sum.splits)
  have 3: "keep (ad_db s) (ad_db (checkExpiredRentals cfg i s))" for s i
    by (simp add: checkExpiredRentals_def keep_refl keep_check_all split: sum.splits)
  show ?thesis unfolding settlement_tick_def by (rule keep_trans [OF keep_trans [OF 1 2] 3])
qed

text \<open>Updates and messages.\<close>

lemma fold_preview_db:
  "ad_db (fold (\<lambda>c s. if P c then tell u k' (tell u k s) else tell u k s) cs s) = ad_db s"
  by (induction cs arbitrary: s) simp_all

lemma keep_handleStep: "keep (ad_db s) (ad_db (handleStep cfg io u st t s))"
  by (simp add: handleStep_def onCancel_def handleCampName_def handleCampCaption_def handleCampButton_def handleCampURL_def
      handleCampBudget_def doBroadcast_def handleRentChannel_def handleRentBudget_def Let_def keep_refl keep_campaign_handlers
      keep_channel_handlers keep_handleRentReward split: option.splits prod.splits)

lemma quiet_handlers:
  "ad_db (onNewCampaign u s) = ad_db s" "ad_db (onMyCampaigns io u s) = ad_db s" "ad_db (onMyChannels io u s) = ad_db s"
  "ad_db (onAddChannel u s) = ad_db s" "ad_db (onCancel u s) = ad_db s" "ad_db (handleAdminText io u t s) = ad_db s"
  "ad_db (onRentLock u s) = ad_db s" "ad_db (ads_onAdmin cfg u s) = ad_db s" "ad_db (onMedia u m s) = ad_db s"
  "ad_db (startReject u t s) = ad_db s" "ad_db (onChannelPost flt role n u ch s) = ad_db s"
  by (simp_all add: onNewCampaign_def onMyCampaigns_def onMyChannels_def onAddChannel_def onCancel_def handleAdminText_def adminStats_def
      adminPending_def adminChannels_def onRentLock_def ads_onAdmin_def onMedia_def handleCampaignMedia_def startReject_def onChannelPost_def
      handleChannelForward_def Let_def fold_preview_db case_prod_beta split: option.splits sum.splits)

lemma keep_onText: "keep (ad_db s) (ad_db (ads_onText cfg io u t s))"
  by (simp add: ads_onText_def Let_def keep_handleStep quiet_handlers keep_refl)

lemma keep_onCommand: "keep (ad_db s) (ad_db (onCommand cfg io u c n f s))"
  by (simp add: onCommand_def ads_onStart_def Let_def keep_onText quiet_handlers keep_refl keep_core)

lemma keep_callback:
  assumes "\<And>r t. u = ac_ownerID cfg \<Longrightarrow> callback_parts d = (''rent_approve'', Some t) \<Longrightarrow> ac_ParseUUID cfg t = Some (LR_ID r) \<Longrightarrow>
    charged cfg ios env r s \<Longrightarrow> allow (LR_ID r)"
  shows "keep (ad_db s) (ad_db (ads_onCallback cfg ios env u d s))"
proof -
  obtain cmd arg where d: "callback_parts d = (cmd, arg)" by fastforce
  have "keep (ad_db s) (ad_db (approveLockRental cfg ios env u t s))" if "cmd = ''rent_approve''" "arg = Some t" "u = ac_ownerID cfg" for t
    using assms d that by (intro keep_approveLockRental) auto
  then show ?thesis
    by (simp add: ads_onCallback_def Let_def d keep_refl keep_approveCampaign quiet_handlers keep_campaign_handlers
        keep_channel_handlers keep_handle_reject split: option.splits)
qed

lemma keep_step:
  assumes "\<And>r. approves cfg env ev r s \<Longrightarrow> allow (LR_ID r)"
  shows "keep (ad_db s) (ad_db (ads_step cfg env ev s))"
proof (cases ev)
  case (Button u d)
  with assms show ?thesis by (auto simp: ads_step_def approves_def Let_def intro!: keep_callback)
next
  case (FreeBotCreated i b)
  then show ?thesis by (simp add: ads_step_def onFreeBotCreated_def keep_refl keep_core Let_def split: option.splits)
next
  case (ConfirmAdmin b)
  then show ?thesis
    by (simp add: ads_step_def ConfirmChannelAdminByBotID_def keep_refl keep_core Let_def split: option.splits sum.splits)
qed (simp_all add: ads_step_def Let_def keep_onCommand keep_onText quiet_handlers keep_refl keep_joined keep_fraud keep_tick keep_runBatch)

lemma keep_run:
  assumes "\<And>i. allow i"
  shows "keep (ad_db s) (ad_db (ads_run cfg evs s))"
proof (induction evs arbitrary: s)
  case (Cons e evs)
  obtain env ev where e: "e = (env, ev)" by fastforce
  show ?case unfolding e ads_run.simps by (rule keep_trans [OF keep_step Cons.IH]) (rule assms)
qed (simp add: keep_refl)

end

end
