(* ===== verification/AdsProps.thy ===== *)
theory AdsProps
  imports AdsFrame
begin

text \<open>
  Properties of the advertising bot: what holds of every history of its updates, messages and timers, how its
  rentals and rewards move money in botpay, and where campaigns escape review and payment.
\<close>

section \<open>Histories\<close>

definition rewards_ok :: "ads_db \<Rightarrow> bool" where
  "rewards_ok db \<longleftrightarrow>
     distinct (map JR_ID (join_rewards db)) \<and> distinct (map (\<lambda>r. (JR_RentalID r, JR_TelegramID r)) (join_rewards db)) \<and>
     distinct (map FO_ID (owner_rewards db)) \<and> distinct (map (\<lambda>r. (FO_RentalID r, FO_SlotID r)) (owner_rewards db))"

definition tame :: "ads_db \<Rightarrow> ads_db \<Rightarrow> bool" where
  "tame a db \<longleftrightarrow> (\<forall>c \<in> set (campaigns db). spent_from (CA_Spent c) a) \<and> impressions db = impressions a \<and> (rewards_ok a \<longrightarrow> rewards_ok db)"

lemma rewards_ok_same: "join_rewards db' = join_rewards db \<Longrightarrow> owner_rewards db' = owner_rewards db \<Longrightarrow> rewards_ok db' = rewards_ok db"
  by (simp add: rewards_ok_def)

lemma tame_same:
  "impressions db' = impressions db \<Longrightarrow> join_rewards db' = join_rewards db \<Longrightarrow> owner_rewards db' = owner_rewards db \<Longrightarrow>
   (\<And>c. c \<in> set (campaigns db') \<Longrightarrow> spent_from (CA_Spent c) db) \<Longrightarrow> tame db db'"
  using rewards_ok_same [of db' db] by (simp add: tame_def)

lemma tame_rewards:
  "impressions db' = impressions db \<Longrightarrow> campaigns db' = campaigns db \<Longrightarrow> (rewards_ok db \<Longrightarrow> rewards_ok db') \<Longrightarrow> tame db db'"
  by (simp add: tame_def spent_from_def)

interpretation histories: ads_contract tame "\<lambda>_. True"
proof (unfold_locales, goal_cases)
  case (1 a b c)
  then show ?case by (fastforce simp: tame_def spent_from_def)
next
  case (2 db db')
  then show ?case by (intro tame_same) (auto simp: same_core_def spent_from_def)
next
  case (5 io i u db)
  then show ?case by (intro tame_same) (auto simp: ApproveLockRental_def spent_from_def split: option.splits)
next
  case (6 db dec io i u x)
  show ?case by (intro tame_rewards) (auto simp: TryRecordJoinReward_def rewards_ok_def split: option.splits)
next
  case (7 db dec io i j u x)
  show ?case by (intro tame_rewards) (auto simp: TryRecordOwnerReward_def rewards_ok_def split: option.splits)
next
  case (8 f db P)
  then have "map k (rows_set P f (join_rewards db)) = map k (join_rewards db)"
    if "k = (\<lambda>r. (JR_ID r, JR_RentalID r, JR_TelegramID r))" for k by (auto simp: rows_set_def that)
  then have "map JR_ID (rows_set P f (join_rewards db)) = map JR_ID (join_rewards db)"
    "map (\<lambda>r. (JR_RentalID r, JR_TelegramID r)) (rows_set P f (join_rewards db)) = map (\<lambda>r. (JR_RentalID r, JR_TelegramID r)) (join_rewards db)"
    by (auto simp: rows_set_def 8)
  then show ?case by (intro tame_rewards) (simp_all add: rewards_ok_def)
next
  case (9 g db Q)
  then have "map FO_ID (rows_set Q g (owner_rewards db)) = map FO_ID (owner_rewards db)"
    "map (\<lambda>r. (FO_RentalID r, FO_SlotID r)) (rows_set Q g (owner_rewards db)) = map (\<lambda>r. (FO_RentalID r, FO_SlotID r)) (owner_rewards db)"
    by (auto simp: rows_set_def)
  then show ?case by (intro tame_rewards) (simp_all add: rewards_ok_def)
qed (auto intro: tame_same simp: spent_from_def)

definition stays :: "uuid \<Rightarrow> ads_db \<Rightarrow> ads_db \<Rightarrow> bool" where
  "stays i a db \<longleftrightarrow> (active_in i db \<longrightarrow> active_in i a)"

interpretation activation: ads_contract "stays i" "\<lambda>j. j \<noteq> i" for i
  by unfold_locales
    (auto simp: stays_def active_in_def same_core_def ApproveLockRental_def TryRecordJoinReward_def TryRecordOwnerReward_def rows_set_def
      split: option.splits if_splits)

section \<open>A payment that is answered has been booked\<close>

lemma Deduct_booked:
  assumes "Deduct io i a sid ref d db = (Inr tx, db')" "ref \<noteq> []"
  shows "tx \<in> set (transactions db') \<and> deduct_key i sid ref tx"
  using assms
  by (auto simp: Deduct_def gorm_Transaction_def First_def stmt_Inr create_transaction_Inr deduct_key_def Let_def
      dest!: First_row_Some split: if_splits sum.splits option.splits prod.splits)

lemma GetWallet_Some: "GetWallet io tg db = Inr (Some w) \<Longrightarrow> w \<in> set (wallets db) \<and> W_TelegramID w = tg"
  by (cases "io_flt io 0")
    (auto simp: GetWallet_def nil_if_not_found_def First_def dest!: First_row_Some split: sum.splits option.splits if_splits)

lemma Pay_booked:
  assumes "Pay cfg env tg a sid ref d s = (Inr tx, s')" "ref \<noteq> []"
  shows "\<exists>w \<in> set (wallets (sv_db s)). W_TelegramID w = tg \<and> tx \<in> set (transactions (sv_db s')) \<and> deduct_key (W_ID w) sid ref tx"
  using assms
  by (auto simp: Pay_def on_db_def publish_def dest!: GetWallet_Some Deduct_booked split: sum.splits option.splits if_splits prod.splits)

lemma refresh_balance_rows: "transactions (sv_db (snd (refresh_balance r io tg why s))) = transactions (sv_db s)"
proof -
  have "transactions (sv_db (snd (GetOrCreate cfg io tg s))) = transactions (sv_db s)" for cfg
    by (auto simp: GetOrCreate_def on_db_def GetOrCreateWallet_def case_prod_beta Let_def split: sum.splits option.splits)
  then show ?thesis
    by (auto simp: refresh_balance_def case_prod_beta split: sum.splits prod.splits)
qed

lemma DeductWithMeta_booked:
  assumes "DeductWithMeta c env tg a why key ref meta w = (Inr b, w')" "ref \<noteq> []"
  shows "\<exists>x \<in> set (wallets (sv_db (pw_service w))). W_TelegramID x = tg \<and>
    (\<exists>tx \<in> set (transactions (sv_db (pw_service w'))). deduct_key (W_ID x) (pc_ServiceID c) ref tx)"
proof -
  define req where "req = PayRequest.extend (base c tg)
    \<lparr>Q_AmountTON = a, Q_Reason = why, Q_Ref = ref, Q_Metadata = meta, Q_IdempotencyKey = key\<rparr>"
  have q: "Q_TelegramID req = tg" "Q_ServiceID req = pc_ServiceID c" "deduct_ref req = ref"
    using assms(2) by (simp_all add: req_def base_def deduct_ref_def PayRequest.defs DeductRequest.defs)
  obtain resp s' where h: "handleDeduct (pc_responder c) (cl_call env) (Some req) (pw_service w) = (resp, s')" by fastforce
  have "DR_Error resp = None" and s': "pw_service w' = s'"
    using assms(1) h by (auto simp: DeductWithMeta_def at_botpay_def nats_request_def req_def [symmetric]
        split: transport.splits option.splits if_splits)
  obtain p s1 where p: "Pay (rs_cfg (pc_responder c)) ((cl_call env)\<lparr>ce_io := io_shift 1 (ce_io (cl_call env))\<rparr>) tg
      (TONToNano (Q_AmountTON req)) (pc_ServiceID c) ref (Q_Reason req) (pw_service w) = (p, s1)" by fastforce
  from h q p \<open>DR_Error resp = None\<close> obtain tx where tx: "p = Inr tx" "transactions (sv_db s') = transactions (sv_db s1)"
    by (cases p) (auto simp: handleDeduct_def deduct_error_def case_prod_beta Let_def refresh_balance_rows split: if_splits)
  from Pay_booked [OF p [unfolded tx(1)] assms(2)] tx(2) show ?thesis unfolding s' by auto
qed

lemma reserve_owners_pay [simp]: "ad_pay (reserve_owners cfg ios i x slots s) = ad_pay s"
  by (induction slots arbitrary: ios s) (auto simp: Let_def case_prod_beta split: sum.splits)

lemma payFreeBotOwners_pay [simp]: "ad_pay (payFreeBotOwners cfg ios r slots s) = ad_pay s"
  by (simp add: payFreeBotOwners_def Let_def)

lemma approve_pay:
  assumes "charged cfg ios env r s" "ac_ParseUUID cfg t = Some (LR_ID r)"
  shows "ad_pay (approveLockRental cfg ios env u t s) = ad_pay (snd (charge_budget cfg env r s))"
  using assms by (simp add: approveLockRental_def charged_def case_prod_beta Let_def split: sum.splits)

lemma charge_budget_pays:
  assumes "ac_pay cfg = Some c"
  obtains meta where "charge_budget cfg env r s =
    (case DeductWithMeta c env (LR_BuyerTelegramID r) (num_out (LR_Budget r)) (''lock_rental:'' @ LR_ID r) (LR_ID r) (LR_ID r) meta (ad_pay s) of
       (x, w) \<Rightarrow> (case x of Inl e \<Rightarrow> Some e | Inr _ \<Rightarrow> None, s\<lparr>ad_pay := w\<rparr>))"
  by (rule that) (use assms in \<open>simp add: charge_budget_def Let_def\<close>)

lemma charge_booked:
  assumes "charged cfg ios env r s" "ac_pay cfg = Some c" "LR_ID r \<noteq> []"
  shows "\<exists>w \<in> set (wallets (sv_db (pw_service (ad_pay s)))). W_TelegramID w = LR_BuyerTelegramID r \<and>
    (\<exists>tx \<in> set (transactions (sv_db (pw_service (ad_pay (snd (charge_budget cfg env r s)))))). deduct_key (W_ID w) (pc_ServiceID c) (LR_ID r) tx)"
proof -
  obtain meta where m: "charge_budget cfg env r s =
    (case DeductWithMeta c env (LR_BuyerTelegramID r) (num_out (LR_Budget r)) (''lock_rental:'' @ LR_ID r) (LR_ID r) (LR_ID r) meta (ad_pay s) of
       (x, w) \<Rightarrow> (case x of Inl e \<Rightarrow> Some e | Inr _ \<Rightarrow> None, s\<lparr>ad_pay := w\<rparr>))" by (rule charge_budget_pays [OF assms(2)])
  obtain x w' where d: "DeductWithMeta c env (LR_BuyerTelegramID r) (num_out (LR_Budget r)) (''lock_rental:'' @ LR_ID r) (LR_ID r) (LR_ID r)
      meta (ad_pay s) = (x, w')" by fastforce
  with m assms(1) obtain b where "x = Inr b" by (auto simp: charged_def split: sum.splits)
  with DeductWithMeta_booked [OF d [unfolded \<open>x = Inr b\<close>] assms(3)] m d show ?thesis by simp
qed

section \<open>Every rental that goes live is paid for\<close>

text \<open>
  (C22) No update, message or timer tick makes a lock rental active but one: the platform owner presses the approval
  button of a rental that is still under review, and botpay then holds a payment of the buyer's wallet to the
  advertising bot whose reference is the rental.
\<close>

theorem rental_live_is_paid:
  assumes "active_in i (ad_db (ads_step cfg env ev s))" "\<not> active_in i (ad_db s)" "ac_pay cfg = Some c" "i \<noteq> []"
  shows "\<exists>d r w tx. ev = Button (ac_ownerID cfg) d \<and> r \<in> set (lock_rentals (ad_db s)) \<and> LR_ID r = i \<and> LR_Status r = RentalPendingReview \<and>
    w \<in> set (wallets (sv_db (pw_service (ad_pay s)))) \<and> W_TelegramID w = LR_BuyerTelegramID r \<and>
    tx \<in> set (transactions (sv_db (pw_service (ad_pay (ads_step cfg env ev s))))) \<and> deduct_key (W_ID w) (pc_ServiceID c) i tx"
proof -
  have "\<not> stays i (ad_db s) (ad_db (ads_step cfg env ev s))" using assms(1,2) by (simp add: stays_def)
  then obtain r where r: "approves cfg env ev r s" "LR_ID r = i" using activation.keep_step by blast
  then obtain d t where ev: "ev = Button (ac_ownerID cfg) d" "callback_parts d = (''rent_approve'', Some t)"
    and t: "ac_ParseUUID cfg t = Some (LR_ID r)" and ch: "charged cfg (ae_ios env 0) (ae_envs env 0 0) r s" by (auto simp: approves_def)
  have "ads_step cfg env ev s = approveLockRental cfg (ae_ios env 0) (ae_envs env 0 0) (ac_ownerID cfg) t s"
    by (simp add: ads_step_def ev ads_onCallback_def)
  then have "ad_pay (ads_step cfg env ev s) = ad_pay (snd (charge_budget cfg (ae_envs env 0 0) r s))" using approve_pay [OF ch t] by simp
  moreover have "r \<in> set (lock_rentals (ad_db s))" "LR_Status r = RentalPendingReview"
    using ch by (auto simp: charged_def FindLockRental_def First_or_nil_def stmt_Inr dest!: First_row_Some)
  ultimately show ?thesis using charge_booked [OF ch assms(3)] assms(4) r(2) ev(1) by auto
qed

text \<open>A state of the bot with one rental under review, whose buyer's payment is on record at botpay.\<close>

definition shop_cfg :: ads_cfg where
  "shop_cfg = \<lparr>ac_dec = (\<lambda>x. case x of Fin q \<Rightarrow> q | _ \<Rightarrow> 0), ac_ownerID = 1, ac_pay = Some plan_client, ac_ParseFloat = (\<lambda>t. (Fin 1, True)),
     ac_ParseUUID = Some, ac_ChatByID = (\<lambda>_. None), ac_ChatByUsername = (\<lambda>_. None), ac_send = (\<lambda>_ _. None),
     ac_slot_owner = (\<lambda>_. Inr 0), ac_fraud = (\<lambda>_. None)\<rparr>"

definition shop_rental :: LockRentalCampaign where
  "shop_rental = \<lparr>LR_ID = ''order-1'', LR_CreatedAt = 0, LR_BuyerTelegramID = 42, LR_TargetChannelID = 7, LR_TargetChannelUsername = ''chan'',
     LR_Status = RentalPendingReview, LR_ReviewNote = [], LR_ReviewedAt = None, LR_ReviewerID = 0, LR_RewardPerJoinTON = Fin 3, LR_Budget = Fin 1,
     LR_Spent = Fin 0, LR_FreeBotOwnerRewardPercent = Fin 5, LR_TotalJoins = 0, LR_RealJoins = 0, LR_StartAt = None, LR_EndAt = None\<rparr>"

definition shop_publisher :: Publisher where
  "shop_publisher = \<lparr>PB_ID = ''p'', PB_CreatedAt = 0, PB_TelegramID = 5, PB_Username = [], PB_FirstName = [], PB_Balance = Fin 2, PB_IsBlocked = False\<rparr>"

definition shop_campaign :: Campaign where
  "shop_campaign = zero_campaign\<lparr>CA_ID := ''c'', CA_PublisherID := ''p'', CA_Status := CampaignPending, CA_Budget := Fin 3, CA_CPJ := Fin 1\<rparr>"

definition shop_db :: ads_db where
  "shop_db = \<lparr>publishers = [shop_publisher], campaigns = [shop_campaign], ad_channels = [], impressions = [], ad_configs = [], channel_categories = [],
     member_analyses = [], lock_rentals = [shop_rental], free_bot_slots = [], join_rewards = [], owner_rewards = []\<rparr>"

definition shop :: ads where
  "shop = \<lparr>ad_db = shop_db, ad_states = (\<lambda>_. None), ad_sent = [], ad_bus = [], ad_pay = plan_world\<rparr>"

definition shop_io :: io where
  "shop_io = \<lparr>io_flt = (\<lambda>_. None), io_now = (\<lambda>_. 0), io_uuid = (\<lambda>k. fmt_d (int k))\<rparr>"

definition shop_env :: ads_env where
  "shop_env = \<lparr>ae_ios = (\<lambda>_ _. shop_io), ae_envs = (\<lambda>_ _. plan_env)\<rparr>"

lemma shop_ops:
  "ad_db shop = shop_db" "ac_ParseUUID shop_cfg t = Some t" "io_flt shop_io k = None"
  "fst (ApproveLockRental shop_io ''order-1'' u shop_db) = Inr ()"
  "lock_rentals (snd (AssignSlotsToRental shop_io ''order-1'' b n (snd (ApproveLockRental shop_io ''order-1'' u shop_db)))) =
     [shop_rental\<lparr>LR_Status := RentalActive, LR_ReviewerID := u, LR_ReviewedAt := Some 0, LR_StartAt := Some 0,
        LR_EndAt := Some DefaultRentalDuration\<rparr>]"
  "fst (fst (AssignSlotsToRental shop_io ''order-1'' b n (snd (ApproveLockRental shop_io ''order-1'' u shop_db)))) = []"
  "LR_ID shop_rental = ''order-1''"
  by (simp_all add: shop_def shop_cfg_def shop_io_def ApproveLockRental_def AssignSlotsToRental_def shop_db_def rows_set_def shop_rental_def)

lemma TONToNano_of_int: "\<bar>n\<bar> \<le> 4000000 \<Longrightarrow> TONToNano (Fin (of_int n)) = n * 1000000000"
proof -
  assume n: "\<bar>n\<bar> \<le> 4000000"
  then have "rnd (of_int (n * 1000000000)) = (Fin (of_int (n * 1000000000)) :: f64)"
    using f64_of_int_exact [of "n * 1000000000"] by (simp add: f64_of_int_def)
  moreover have "in_int64 (n * 1000000000)" using n unfolding in_int64_def by arith
  moreover have "\<lfloor>rat_of_int n * 1000000000\<rfloor> = n * 1000000000" "\<lceil>rat_of_int n * 1000000000\<rceil> = n * 1000000000"
    using floor_of_int [of "n * 1000000000", where 'a = rat] ceiling_of_int [of "n * 1000000000", where 'a = rat] by simp_all
  ultimately show ?thesis by (simp add: TONToNano_def rat_trunc_def)
qed

lemma one_TON: "TONToNano (Fin 1) = 1000000000"
  using TONToNano_of_int [of 1] by simp

lemma rnd_of_int: "\<bar>n\<bar> \<le> 2 ^ 53 \<Longrightarrow> rnd (of_int n) = Fin (of_int n)"
  using f64_of_int_exact [of n] by (simp add: f64_of_int_def)

lemma rnd_1: "rnd 1 = Fin 1" and rnd_3: "rnd 3 = Fin 3" and rnd_0: "rnd 0 = Fin 0"
  using rnd_of_int [of 1] rnd_of_int [of 3] rnd_of_int [of 0] by simp_all

lemma plan_bought_one: "bought plan_client plan_wallet (Fin 1) ''order-1'' plan_world"
proof -
  have "HasEnough plan_wallet 1000000000" "in_int64 (W_Credit plan_wallet + 1000000000)" by code_simp+
  moreover have "validAmount (Fin 1)" by (simp add: validAmount_def IsNaN_def IsInf_def)
  ultimately show ?thesis using plan_bought unfolding bought_def Let_def one_TON by (intro conjI) (blast | simp)+
qed

lemma plan_env_quiet: "quiet_env plan_env"
  by (simp add: quiet_env_def plan_env_def demo_env_def late_io_def demo_io_def io_ok_def)

theorem rental_live_is_paid_witness:
  "\<exists>(w :: Wallet) tx. W_TelegramID w = 42 \<and> deduct_key (W_ID w) ''svc'' ''order-1'' tx \<and>
     tx \<in> set (transactions (sv_db (pw_service (ad_pay (ads_step shop_cfg shop_env (Button 1 ''rent_approve:order-1'') shop)))))"
proof -
  have parts: "callback_parts ''rent_approve:order-1'' = (''rent_approve'', Some ''order-1'')"
    by (simp add: callback_parts_def split_colon_def)
  have "ac_pay shop_cfg = Some plan_client" by (simp add: shop_cfg_def)
  then obtain meta where m: "charge_budget shop_cfg plan_env shop_rental shop =
    (case DeductWithMeta plan_client plan_env (LR_BuyerTelegramID shop_rental) (num_out (LR_Budget shop_rental)) (''lock_rental:'' @ LR_ID shop_rental)
        (LR_ID shop_rental) (LR_ID shop_rental) meta (ad_pay shop) of
       (x, w) \<Rightarrow> (case x of Inl e \<Rightarrow> Some e | Inr _ \<Rightarrow> None, shop\<lparr>ad_pay := w\<rparr>))" by (rule charge_budget_pays)
  have "W_TelegramID plan_wallet = 42" by (simp add: plan_wallet_def demo_wallet_def)
  with DeductWithMeta_repeated [OF plan_bought_one plan_env_quiet] obtain b W' where
    "DeductWithMeta plan_client plan_env 42 (Fin 1) (''lock_rental:'' @ ''order-1'') ''order-1'' ''order-1'' meta plan_world = (Inr b, W')" by metis
  then have "fst (charge_budget shop_cfg plan_env shop_rental shop) = None"
    unfolding m by (simp add: shop_rental_def shop_def rnd_1)
  then have ch: "charged shop_cfg (\<lambda>_. shop_io) plan_env shop_rental shop"
    by (simp add: charged_def FindLockRental_def First_or_nil_def First_row_def least_by_def shop_io_def shop_def shop_db_def shop_rental_def)
  then have "FindLockRental None ''order-1'' shop_db = Inr (Some shop_rental)"
    by (simp add: charged_def shop_io_def shop_def shop_rental_def)
  with ch have "active_in ''order-1'' (ad_db (approveLockRental shop_cfg (\<lambda>_. shop_io) plan_env 1 ''order-1'' shop))"
    by (simp add: approveLockRental_def charged_def case_prod_beta Let_def shop_ops payFreeBotOwners_def active_in_def)
  moreover have own: "ac_ownerID shop_cfg = 1" by (simp add: shop_cfg_def)
  ultimately have a: "active_in ''order-1'' (ad_db (ads_step shop_cfg shop_env (Button 1 ''rent_approve:order-1'') shop))"
    by (simp add: ads_step_def ads_onCallback_def parts shop_env_def)
  have "\<not> active_in ''order-1'' (ad_db shop)" by (simp add: active_in_def shop_def shop_db_def shop_rental_def)
  moreover have "ac_pay shop_cfg = Some plan_client" by (simp add: shop_cfg_def)
  moreover have "lock_rentals (ad_db shop) = [shop_rental]" "LR_BuyerTelegramID shop_rental = 42" "pc_ServiceID plan_client = ''svc''"
    by (simp_all add: shop_def shop_db_def shop_rental_def plan_client_def)
  ultimately show ?thesis using rental_live_is_paid [OF a, of plan_client] by auto
qed

text \<open>
  (C24) A join is rewarded once. Whatever the bot is sent, and however often a join is reported or a tick comes, there is
  at most one reward for a user in a rental and at most one for a slot, and the keys of the rewards differ.
\<close>

theorem one_reward_per_join:
  assumes "rewards_ok (ad_db s)"
  shows "distinct (map (\<lambda>r. (JR_RentalID r, JR_TelegramID r)) (join_rewards (ad_db (ads_run cfg evs s)))) \<and>
    distinct (map (\<lambda>r. (FO_RentalID r, FO_SlotID r)) (owner_rewards (ad_db (ads_run cfg evs s)))) \<and>
    distinct (map JR_ID (join_rewards (ad_db (ads_run cfg evs s)))) \<and> distinct (map FO_ID (owner_rewards (ad_db (ads_run cfg evs s))))"
  using histories.keep_run [of s cfg evs] assms by (simp add: tame_def rewards_ok_def)

theorem one_reward_per_join_witness:
  "distinct (map (\<lambda>r. (JR_RentalID r, JR_TelegramID r)) (join_rewards (ad_db (ads_run shop_cfg
     [(shop_env, Button 1 ''rent_approve:order-1''), (shop_env, MembershipJoined 9 7), (shop_env, MembershipJoined 9 7)] shop))))"
proof -
  have "rewards_ok (ad_db shop)" by (simp add: rewards_ok_def shop_def shop_db_def)
  from one_reward_per_join [OF this] show ?thesis by blast
qed

text \<open>
  (C27) Campaigns are never charged and never delivered. The statement that adds a join to a campaign names a column
  the table does not have, and so does the one that lists the channels to deliver to: in every history no campaign
  ever spends anything and no impression is recorded, and the recording of a join changes nothing in the database
  while it reports the full price as an earning.
\<close>

theorem campaigns_never_charged:
  assumes "\<forall>c \<in> set (campaigns (ad_db s)). CA_Spent c = Fin 0"
  shows "(\<forall>c \<in> set (campaigns (ad_db (ads_run cfg evs s))). CA_Spent c = Fin 0) \<and>
    impressions (ad_db (ads_run cfg evs s)) = impressions (ad_db s) \<and> ad_db (snd (ads_RecordJoin cfg io i ch u s)) = ad_db s"
proof -
  have "\<exists>e. AddJoinCount dec flt i n x db = (Inl e, db)" for dec flt n x db
    by (simp add: AddJoinCount_def sql_def stmt_def campaign_columns_def split: option.splits)
  then have "snd (AddJoinCount dec flt i n x db) = db" for dec flt n x db by (metis snd_conv)
  then have "ad_db (snd (ads_RecordJoin cfg io i ch u s)) = ad_db s"
    by (simp add: ads_RecordJoin_def on_ads_db_def Let_def split: sum.splits option.splits)
  moreover have "tame (ad_db s) (ad_db (ads_run cfg evs s))" by (rule histories.keep_run) simp
  ultimately show ?thesis using assms by (auto simp: tame_def spent_from_def)
qed

theorem campaigns_never_charged_witness:
  "impressions (ad_db (ads_run shop_cfg [(shop_env, Button 5 ''camp_pause:c''), (shop_env, EngineTick)] shop)) = [] \<and>
   ad_db (snd (ads_RecordJoin shop_cfg shop_io ''c'' 7 9 shop)) = shop_db"
proof -
  have "\<forall>c \<in> set (campaigns (ad_db shop)). CA_Spent c = Fin 0"
    by (simp add: shop_def shop_db_def shop_campaign_def zero_campaign_def)
  from campaigns_never_charged [OF this, of shop_cfg "[(shop_env, Button 5 ''camp_pause:c''), (shop_env, EngineTick)]" shop_io "''c''" 7 9]
  show ?thesis by (simp add: shop_def shop_db_def)
qed

end
