(* ===== verification/AdsMoney.thy ===== *)
theory AdsMoney
  imports AdsProps
begin

text \<open>
  The money of the advertising bot: the payout of rewards through botpay, as an interface shared by the rewards of
  users and of bot owners, the cover of rewards by the rental's budget, and the balances of publishers.
\<close>

section \<open>Payouts\<close>

text \<open>
  A table of rewards that are paid one after the other: a reward is credited to its user, and marked as settled when
  botpay has answered. What has been paid to a user is the sum of the settled rewards.
\<close>

locale payouts =
  fixes rows :: "ads \<Rightarrow> 'r list" and key :: "'r \<Rightarrow> uuid" and user :: "'r \<Rightarrow> int64" and amount :: "'r \<Rightarrow> f64"
    and status :: "'r \<Rightarrow> JoinRewardStatus" and mark :: "time \<Rightarrow> 'r \<Rightarrow> 'r"
    and one :: "pay_client \<Rightarrow> client_env \<Rightarrow> io \<Rightarrow> 'r \<Rightarrow> ads \<Rightarrow> ads"
    and all :: "pay_client \<Rightarrow> (nat \<Rightarrow> client_env) \<Rightarrow> (nat \<Rightarrow> io) \<Rightarrow> 'r list \<Rightarrow> ads \<Rightarrow> ads"
  assumes mark: "key (mark t r) = key r" "user (mark t r) = user r" "amount (mark t r) = amount r" "status (mark t r) = RewardSettled"
    and one: "\<exists>ref meta e w. Client_Credit c env (user r) (amount r) ref meta (ad_pay s) = (e, w) \<and> ad_pay (one c env io r s) = w \<and>
      rows (one c env io r s) = (if e = Inr () \<and> io_flt io 0 = None
        then rows_set (\<lambda>x. key x = key r \<and> status x = RewardPending) (mark (io_now io 0)) (rows s) else rows s)"
    and all_Nil: "all c envs ios [] s = s"
    and all_Cons: "all c envs ios (r # rs) s = all c (\<lambda>k. envs (Suc k)) (\<lambda>k. ios (Suc k)) rs (one c (envs 0) (ios 0) r s)"
begin

definition paid :: "int64 \<Rightarrow> ads \<Rightarrow> int" where
  "paid u s = sum_list (map (\<lambda>r. TONToNano (amount r)) (filter (\<lambda>r. user r = u \<and> status r = RewardSettled) (rows s)))"

definition ledger :: "int64 \<Rightarrow> ads \<Rightarrow> int" where
  "ledger u s = cash u (sv_db (pw_service (ad_pay s))) - paid u s"

lemma paid_mark:
  assumes "distinct (map key rs)" "r \<in> set rs" "status r = RewardPending"
  shows "sum_list (map (\<lambda>r. TONToNano (amount r)) (filter (\<lambda>r. user r = u \<and> status r = RewardSettled)
      (rows_set (\<lambda>x. key x = key r \<and> status x = RewardPending) (mark t) rs))) =
    sum_list (map (\<lambda>r. TONToNano (amount r)) (filter (\<lambda>r. user r = u \<and> status r = RewardSettled) rs)) +
    (if user r = u then TONToNano (amount r) else 0)"
  using assms
proof (induction rs)
  case (Cons x rs)
  show ?case
  proof (cases "x = r")
    case True
    then have "rows_set (\<lambda>x. key x = key r \<and> status x = RewardPending) (mark t) rs = rs"
      using Cons.prems(1) by (auto simp: rows_set_def intro!: map_idI) (metis image_eqI)
    with True Cons.prems show ?thesis by (simp add: rows_set_def mark)
  next
    case False
    then have "key x \<noteq> key r" using Cons.prems by (auto simp: rev_image_eqI)
    with False Cons show ?thesis by (simp add: rows_set_def)
  qed
qed simp

definition payable :: "'r list \<Rightarrow> ads \<Rightarrow> bool" where
  "payable rs s \<longleftrightarrow> distinct (map key (rows s)) \<and> distinct (map key rs) \<and>
     (\<forall>r \<in> set rs. r \<in> set (rows s) \<and> status r = RewardPending \<and> user r \<noteq> 0) \<and> ids_ok (sv_db (pw_service (ad_pay s)))"

lemma Client_Credit_unheard:
  assumes "Client_Credit c env tg x ref meta w = (e, w')" "e \<noteq> Inr ()" "cl_transport env \<noteq> ReplyLost" "ids_ok (sv_db (pw_service w))" "tg \<noteq> 0"
  shows "cash u (sv_db (pw_service w')) = cash u (sv_db (pw_service w))"
proof -
  define req where "req = PayRequest.extend (base c tg) \<lparr>Q_AmountTON = x, Q_Reason = ref, Q_Ref = ref, Q_Metadata = meta, Q_IdempotencyKey = []\<rparr>"
  obtain resp s' where h: "handleCredit (pc_responder c) (ce_io (cl_call env)) (Some req) (pw_service w) = (resp, s')" by fastforce
  have "Q_TelegramID req = tg" by (simp add: req_def base_def PayRequest.defs)
  then have "DR_Error resp \<noteq> None \<Longrightarrow> cash u (sv_db s') = cash u (sv_db (pw_service w))"
    using handleCredit_cash(3) [OF h assms(4)] assms(5) by simp
  moreover have "pw_service w' = s' \<and> DR_Error resp \<noteq> None \<or> pw_service w' = pw_service w"
    using assms(1-3) h by (auto simp: Client_Credit_def at_botpay_def nats_request_def req_def [symmetric] split: transport.splits option.splits)
  ultimately show ?thesis by auto
qed

lemma one_ledger:
  assumes "payable (r # rs) s" "cl_transport env \<noteq> ReplyLost" "io_flt io 0 = None"
  shows "ledger u (one c env io r s) = ledger u s \<and> payable rs (one c env io r s)"
proof -
  obtain ref meta e w where c: "Client_Credit c env (user r) (amount r) ref meta (ad_pay s) = (e, w)" "ad_pay (one c env io r s) = w"
    and rows: "rows (one c env io r s) = (if e = Inr ()
        then rows_set (\<lambda>x. key x = key r \<and> status x = RewardPending) (mark (io_now io 0)) (rows s) else rows s)"
    using one [of c env r s io] assms(3) by auto
  have r: "r \<in> set (rows s)" "status r = RewardPending" "user r \<noteq> 0" "ids_ok (sv_db (pw_service (ad_pay s)))" "distinct (map key (rows s))"
    "key r \<notin> key ` set rs"
    using assms(1) by (auto simp: payable_def)
  note cash = Client_Credit_cash [OF c(1) r(4,3)]
  have "ledger u (one c env io r s) = ledger u s"
  proof (cases "e = Inr ()")
    case True
    then show ?thesis
      using cash(2) [OF True, of u] paid_mark [OF r(5,1,2), of u "io_now io 0"] by (auto simp: ledger_def paid_def c(2) rows)
  next
    case False
    then show ?thesis using Client_Credit_unheard [OF c(1) False assms(2) r(4,3)] by (simp add: ledger_def paid_def c(2) rows)
  qed
  moreover have "x \<in> set (rows (one c env io r s))" if "x \<in> set rs" for x
    using that assms(1) r(6) by (force simp: rows payable_def rows_set_def rev_image_eqI)
  moreover have "map key (rows (one c env io r s)) = map key (rows s)" by (simp add: rows rows_set_def mark)
  ultimately show ?thesis using assms(1) cash(1) by (auto simp: payable_def c(2))
qed

lemma all_ledger:
  assumes "payable rs s" "\<And>k. cl_transport (envs k) \<noteq> ReplyLost" "\<And>k. io_flt (ios k) 0 = None"
  shows "ledger u (all c envs ios rs s) = ledger u s \<and> payable [] (all c envs ios rs s)"
  using assms
proof (induction rs arbitrary: envs ios s)
  case (Cons r rs)
  note one = one_ledger [OF Cons.prems(1-3), where u = u and c = c]
  from one show ?case unfolding all_Cons using Cons.IH [of "one c (envs 0) (ios 0) r s"] Cons.prems(2,3) by simp
next
  case Nil
  then show ?case by (simp add: all_Nil)
qed

end

interpretation join_payouts: payouts "\<lambda>s. join_rewards (ad_db s)" JR_ID JR_TelegramID "\<lambda>r. num_out (JR_AmountTON r)" JR_Status
    "\<lambda>t r. r\<lparr>JR_Status := RewardSettled, JR_SettledAt := Some t\<rparr>" settle_one settle_all
proof (unfold_locales, goal_cases)
  case (5 c env r s io)
  define ref where "ref = ''join_reward:'' @ JR_RentalID r @ '':'' @ JR_ID r"
  define meta where "meta = ''{'' @ fmt_q ''type'' @ '':'' @ fmt_q ''join_reward_settlement'' @ '','' @ fmt_q ''rental_id'' @ '':'' @
    fmt_q (JR_RentalID r) @ '','' @ fmt_q ''reward_id'' @ '':'' @ fmt_q (JR_ID r) @ ''}''"
  obtain e w where c: "Client_Credit c env (JR_TelegramID r) (num_out (JR_AmountTON r)) ref meta (ad_pay s) = (e, w)" by fastforce
  have "ad_pay (settle_one c env io r s) = w \<and> join_rewards (ad_db (settle_one c env io r s)) = (if e = Inr () \<and> io_flt io 0 = None
      then rows_set (\<lambda>x. JR_ID x = JR_ID r \<and> JR_Status x = RewardPending) (\<lambda>x. x\<lparr>JR_Status := RewardSettled, JR_SettledAt := Some (io_now io 0)\<rparr>)
        (join_rewards (ad_db s)) else join_rewards (ad_db s))"
    unfolding settle_one_def Let_def ref_def [symmetric] meta_def [symmetric] c
    by (auto simp: case_prod_beta SettleReward_def split: sum.splits option.splits)
  with c show ?case by blast
qed simp_all

interpretation owner_payouts: payouts "\<lambda>s. owner_rewards (ad_db s)" FO_ID FO_OwnerTelegramID "\<lambda>r. num_out (FO_AmountTON r)" FO_Status
    "\<lambda>t r. r\<lparr>FO_Status := RewardSettled, FO_SettledAt := Some t\<rparr>" settle_owner settle_owners
proof (unfold_locales, goal_cases)
  case (5 c env r s io)
  define ref where "ref = ''freebot_reward:'' @ FO_RentalID r @ '':'' @ FO_SlotID r"
  define meta where "meta = ''{'' @ fmt_q ''type'' @ '':'' @ fmt_q ''freebot_owner_reward_settlement'' @ '','' @ fmt_q ''rental_id'' @ '':'' @
    fmt_q (FO_RentalID r) @ '','' @ fmt_q ''slot_id'' @ '':'' @ fmt_q (FO_SlotID r) @ ''}''"
  obtain e w where c: "Client_Credit c env (FO_OwnerTelegramID r) (num_out (FO_AmountTON r)) ref meta (ad_pay s) = (e, w)" by fastforce
  have "ad_pay (settle_owner c env io r s) = w \<and> owner_rewards (ad_db (settle_owner c env io r s)) = (if e = Inr () \<and> io_flt io 0 = None
      then rows_set (\<lambda>x. FO_ID x = FO_ID r \<and> FO_Status x = RewardPending) (\<lambda>x. x\<lparr>FO_Status := RewardSettled, FO_SettledAt := Some (io_now io 0)\<rparr>)
        (owner_rewards (ad_db s)) else owner_rewards (ad_db s))"
    unfolding settle_owner_def Let_def ref_def [symmetric] meta_def [symmetric] c
    by (auto simp: case_prod_beta SettleOwnerReward_def split: sum.splits option.splits)
  with c show ?case by blast
qed simp_all

section \<open>A tick pays exactly what it settles\<close>

lemma settle_one_frame [simp]:
  "owner_rewards (ad_db (settle_one c env io r s)) = owner_rewards (ad_db s)"
  "join_rewards (ad_db (settle_owner c env io q s)) = join_rewards (ad_db s)"
  by (simp_all add: settle_one_def settle_owner_def SettleReward_def SettleOwnerReward_def Let_def case_prod_beta split: sum.splits option.splits)

lemma settle_all_frame [simp]:
  "owner_rewards (ad_db (settle_all c envs ios rs s)) = owner_rewards (ad_db s)"
  "join_rewards (ad_db (settle_owners c envs ios qs s)) = join_rewards (ad_db s)"
  by (induction rs arbitrary: envs ios s, simp_all) (induction qs arbitrary: envs ios s, simp_all)

definition same_money :: "ads \<Rightarrow> ads \<Rightarrow> bool" where
  "same_money s s' \<longleftrightarrow> ad_pay s' = ad_pay s \<and> join_rewards (ad_db s') = join_rewards (ad_db s) \<and> owner_rewards (ad_db s') = owner_rewards (ad_db s)"

lemma release_slots_money: "same_money s (release_slots cfg flt slots s)"
  by (induction slots arbitrary: flt s) (auto simp: same_money_def ReleaseSlot_def split: sum.splits option.splits)

lemma completion_money: "same_money s (checkCampaignCompletion cfg io i s)"
proof -
  define s1 where "s1 = snd (with_db (MarkRentalDoneIfFinished io i) s)"
  have s1: "same_money s s1" by (simp add: s1_def same_money_def MarkRentalDoneIfFinished_def Let_def split: option.splits)
  then have "same_money s (release_slots cfg flt slots (tell u m s1))" for flt slots u m
    using release_slots_money [of "tell u m s1" cfg flt slots] by (simp add: same_money_def)
  moreover have "same_money s (tell u m s1)" for u m using s1 by (simp add: same_money_def)
  ultimately show ?thesis
    using s1 unfolding checkCampaignCompletion_def case_prod_beta s1_def [symmetric] by (simp add: Let_def split: sum.splits option.splits bool.splits)
qed

lemma checkExpired_money: "same_money s (checkExpiredRentals cfg ios s)"
proof -
  have "same_money s (check_all cfg ios rs s)" for ios rs
  proof (induction rs arbitrary: ios s)
    case (Cons r rs)
    show ?case using Cons.IH [of "checkCampaignCompletion cfg (ios 0) (LR_ID r) s"] completion_money [of s cfg "ios 0" "LR_ID r"]
      by (simp add: same_money_def)
  qed (simp add: same_money_def)
  then show ?thesis by (simp add: checkExpiredRentals_def same_money_def split: sum.splits)
qed

definition wallet_cash :: "int64 \<Rightarrow> ads \<Rightarrow> int" where
  "wallet_cash u s = cash u (sv_db (pw_service (ad_pay s)))"

definition settled_rewards :: "int64 \<Rightarrow> ads_db \<Rightarrow> int" where
  "settled_rewards u db =
     sum_list (map (\<lambda>r. TONToNano (num_out (JR_AmountTON r))) (filter (\<lambda>r. JR_TelegramID r = u \<and> JR_Status r = RewardSettled) (join_rewards db))) +
     sum_list (map (\<lambda>r. TONToNano (num_out (FO_AmountTON r))) (filter (\<lambda>r. FO_OwnerTelegramID r = u \<and> FO_Status r = RewardSettled) (owner_rewards db)))"

lemma due_payable:
  assumes "rewards_ok (ad_db s)" "ids_ok (sv_db (pw_service (ad_pay s)))"
  shows "\<forall>r \<in> set (join_rewards (ad_db s)). JR_TelegramID r \<noteq> 0 \<Longrightarrow> FindDueRewards io n (ad_db s) = Inr due \<Longrightarrow> join_payouts.payable due s"
    and "\<forall>r \<in> set (owner_rewards (ad_db s)). FO_OwnerTelegramID r \<noteq> 0 \<Longrightarrow> FindDueOwnerRewards io n (ad_db s) = Inr due' \<Longrightarrow>
      owner_payouts.payable due' s"
  using assms
  by (auto simp: join_payouts.payable_def owner_payouts.payable_def FindDueRewards_def FindDueOwnerRewards_def stmt_Inr rewards_ok_def
      distinct_map take_map [symmetric] dest: in_set_takeD intro!: distinct_take distinct_filter inj_on_subset [OF _ order_trans [OF set_take_subset]])

lemma settleDueRewards_ledger:
  assumes "rewards_ok (ad_db s)" "ids_ok (sv_db (pw_service (ad_pay s)))" "\<And>k. cl_transport (envs k) \<noteq> ReplyLost" "\<And>k. io_flt (ios k) 0 = None"
    and "\<forall>r \<in> set (join_rewards (ad_db s)). JR_TelegramID r \<noteq> 0"
  shows "join_payouts.ledger u (settleDueRewards cfg envs ios s) = join_payouts.ledger u s \<and>
    ids_ok (sv_db (pw_service (ad_pay (settleDueRewards cfg envs ios s))))"
  using assms(2) join_payouts.all_ledger [OF due_payable(1) [OF assms(1,2,5)], where envs = envs, OF _ assms(3) assms(4)]
  by (auto simp: settleDueRewards_def join_payouts.payable_def split: option.splits sum.splits)

lemma settleDueOwnerRewards_ledger:
  assumes "rewards_ok (ad_db s)" "ids_ok (sv_db (pw_service (ad_pay s)))" "\<And>k. cl_transport (envs k) \<noteq> ReplyLost" "\<And>k. io_flt (ios k) 0 = None"
    and "\<forall>r \<in> set (owner_rewards (ad_db s)). FO_OwnerTelegramID r \<noteq> 0"
  shows "owner_payouts.ledger u (settleDueOwnerRewards cfg envs ios s) = owner_payouts.ledger u s"
  using owner_payouts.all_ledger [OF due_payable(2) [OF assms(1,2,5)], where envs = envs, OF _ assms(3) assms(4)]
  by (auto simp: settleDueOwnerRewards_def split: option.splits sum.splits)


section \<open>A credit that goes through\<close>

definition creditable :: "pay_client \<Rightarrow> Wallet \<Rightarrow> pay_world \<Rightarrow> bool" where
  "creditable c w W \<longleftrightarrow> (\<forall>io db. authorize (pc_responder c) io (pc_ServiceID c) (pc_ServiceKey c) db) \<and>
     ids_ok (sv_db (pw_service W)) \<and> distinct (map W_TelegramID (wallets (sv_db (pw_service W)))) \<and>
     w \<in> set (wallets (sv_db (pw_service W))) \<and> W_TelegramID w \<noteq> 0 \<and> W_PayHandle w \<noteq> []"

definition tx_ids :: "pay_world \<Rightarrow> uuid set" where
  "tx_ids W = T_ID ` set (transactions (sv_db (pw_service W)))"

lemma AddCredit_row:
  assumes "AddCredit io i a d db = (Inr (), db')"
  shows "T_ID ` set (transactions db') = insert (io_uuid io 1) (T_ID ` set (transactions db))"
proof -
  obtain db1 t where u: "update_wallet i (add_credit a) db = Inr db1"
    and t: "create_transaction t db1 = Inr (t, db')" "T_ID t = io_uuid io 1"
    using assms by (auto simp: AddCredit_def gorm_Transaction_Inr stmt_Inr create_transaction_Inr split: if_splits sum.splits)
  from u have "transactions db1 = transactions db" by (auto simp: update_wallet_def split: sum.splits)
  with t show ?thesis by (auto simp: create_transaction_Inr)
qed

lemma credited_world:
  assumes C: "creditable c w W" and env: "cl_transport env \<noteq> NotDelivered" "io_ok (ce_io (cl_call env))"
    and x: "validAmount x" "0 < TONToNano x" "in_int64 (W_Credit w + TONToNano x)" "io_uuid (ce_io (cl_call env)) 5 \<notin> tx_ids W"
    and r: "Client_Credit c env (W_TelegramID w) x ref meta W = (e, W')"
  shows "creditable c (w\<lparr>W_Credit := W_Credit w + TONToNano x\<rparr>) W'" "tx_ids W' = insert (io_uuid (ce_io (cl_call env)) 5) (tx_ids W)"
    "e = Inr () \<longleftrightarrow> cl_transport env = Delivered"
    "cash u (sv_db (pw_service W')) = cash u (sv_db (pw_service W)) + (if u = W_TelegramID w then TONToNano x else 0)"
proof -
  let ?db = "sv_db (pw_service W)" and ?a = "TONToNano x" and ?io = "ce_io (cl_call env)" and ?R = "pc_responder c"
  note C' = C [unfolded creditable_def]
  have io: "io_ok (io_shift k ?io)" for k using env(2) by simp
  have g: "GetOrCreateWallet (io_shift 1 ?io) (W_TelegramID w) addr ?db = (Inr w, ?db)" for addr
    using GetOrCreateWallet_existing io C' by blast
  have ids: "distinct (map W_ID (wallets ?db))" using C' by (simp add: ids_ok_def)
  have "fst (AddCredit (io_shift 4 ?io) (W_ID w) ?a ref ?db) = Inr ()"
    using AddCredit_existing [OF ids, of w "io_shift 4 ?io" ?a ref] io C' x by (simp add: tx_ids_def)
  then obtain db' where a: "AddCredit (io_shift 4 ?io) (W_ID w) ?a ref ?db = (Inr (), db')" by (metis prod.collapse)
  let ?w = "w\<lparr>W_Credit := W_Credit w + ?a\<rparr>"
  have rows: "wallets db' = map (\<lambda>r. if W_ID r = W_ID w then r\<lparr>W_Credit := W_Credit r + ?a\<rparr> else r) (wallets ?db)"
    by (rule AddCredit_rows_of(2) [OF a])
  have "map W_TelegramID (wallets db') = map W_TelegramID (wallets ?db)" by (simp add: rows)
  with C' have d: "distinct (map W_TelegramID (wallets db'))" by metis
  have w: "?w \<in> set (wallets db')" unfolding rows using C' by force
  define s1 where "s1 = (pw_service W)\<lparr>sv_db := db'\<rparr>"
  have "sv_db (snd (refresh_balance ?R (io_shift 7 ?io) (W_TelegramID ?w) ''refund'' s1)) = sv_db s1"
    by (rule refresh_balance_same) (use d w io C' in \<open>simp_all add: s1_def\<close>)
  then have f: "sv_db (snd (refresh_balance ?R (io_shift 7 ?io) (W_TelegramID w) ''refund'' s1)) = db'" by (simp add: s1_def)
  have h: "sv_db (snd (handleCredit ?R ?io (Some (PayRequest.extend (base c (W_TelegramID w)) \<lparr>Q_AmountTON = x, Q_Reason = ref, Q_Ref = ref,
        Q_Metadata = meta, Q_IdempotencyKey = []\<rparr>)) (pw_service W))) = db' \<and>
    DR_Error (fst (handleCredit ?R ?io (Some (PayRequest.extend (base c (W_TelegramID w)) \<lparr>Q_AmountTON = x, Q_Reason = ref, Q_Ref = ref,
        Q_Metadata = meta, Q_IdempotencyKey = []\<rparr>)) (pw_service W))) = None"
    using C' g a f x(1) by (simp add: handleCredit_def base_def PayRequest.defs DeductRequest.defs GetOrCreate_def on_db_def s1_def Let_def case_prod_beta)
  then have W': "sv_db (pw_service W') = db'" and e: "e = Inr () \<longleftrightarrow> cl_transport env = Delivered"
    using r env(1) by (auto simp: Client_Credit_def at_botpay_def nats_request_def case_prod_beta Let_def split: transport.splits option.splits)
  show "e = Inr () \<longleftrightarrow> cl_transport env = Delivered" by (rule e)
  show "creditable c ?w W'" using C' d w W' AddCredit_cash(1) [OF a] by (simp add: creditable_def)
  show "tx_ids W' = insert (io_uuid ?io 5) (tx_ids W)" using AddCredit_row [OF a] by (simp add: tx_ids_def W')
  show "cash u (sv_db (pw_service W')) = cash u ?db + (if u = W_TelegramID w then ?a else 0)"
    using AddCredit_cash(2) [OF a, of u] C' by (auto simp: W')
qed

lemma settle_one_credit:
  assumes "creditable c w (ad_pay s)" "cl_transport env \<noteq> NotDelivered" "io_ok (ce_io (cl_call env))" "JR_TelegramID r = W_TelegramID w"
    and "validAmount (num_out (JR_AmountTON r))" "0 < TONToNano (num_out (JR_AmountTON r))"
    and "in_int64 (W_Credit w + TONToNano (num_out (JR_AmountTON r)))" "io_uuid (ce_io (cl_call env)) 5 \<notin> tx_ids (ad_pay s)"
  shows "creditable c (w\<lparr>W_Credit := W_Credit w + TONToNano (num_out (JR_AmountTON r))\<rparr>) (ad_pay (settle_one c env io r s))"
    "tx_ids (ad_pay (settle_one c env io r s)) = insert (io_uuid (ce_io (cl_call env)) 5) (tx_ids (ad_pay s))"
    "wallet_cash (W_TelegramID w) (settle_one c env io r s) = wallet_cash (W_TelegramID w) s + TONToNano (num_out (JR_AmountTON r))"
    "cl_transport env \<noteq> Delivered \<Longrightarrow> ad_db (settle_one c env io r s) = ad_db s"
proof -
  define ref where "ref = ''join_reward:'' @ JR_RentalID r @ '':'' @ JR_ID r"
  define meta where "meta = ''{'' @ fmt_q ''type'' @ '':'' @ fmt_q ''join_reward_settlement'' @ '','' @ fmt_q ''rental_id'' @ '':'' @
    fmt_q (JR_RentalID r) @ '','' @ fmt_q ''reward_id'' @ '':'' @ fmt_q (JR_ID r) @ ''}''"
  obtain e W' where c: "Client_Credit c env (W_TelegramID w) (num_out (JR_AmountTON r)) ref meta (ad_pay s) = (e, W')" by fastforce
  have o: "settle_one c env io r s = (case e of Inl _ \<Rightarrow> s\<lparr>ad_pay := W'\<rparr> | Inr _ \<Rightarrow> (case with_db (SettleReward io (JR_ID r)) (s\<lparr>ad_pay := W'\<rparr>) of
      (Inl _, s2) \<Rightarrow> s2 | (Inr _, s2) \<Rightarrow> tell (JR_TelegramID r) ''reward_paid'' s2))"
    unfolding settle_one_def Let_def ref_def [symmetric] meta_def [symmetric] assms(4) c by simp
  have p: "ad_pay (settle_one c env io r s) = W'" unfolding o by (simp add: case_prod_beta split: sum.splits)
  note run = credited_world [OF assms(1-3,5-8) c]
  show "creditable c (w\<lparr>W_Credit := W_Credit w + TONToNano (num_out (JR_AmountTON r))\<rparr>) (ad_pay (settle_one c env io r s))"
    "tx_ids (ad_pay (settle_one c env io r s)) = insert (io_uuid (ce_io (cl_call env)) 5) (tx_ids (ad_pay s))"
    "wallet_cash (W_TelegramID w) (settle_one c env io r s) = wallet_cash (W_TelegramID w) s + TONToNano (num_out (JR_AmountTON r))"
    using run by (simp_all add: p wallet_cash_def)
  show "ad_db (settle_one c env io r s) = ad_db s" if "cl_transport env \<noteq> Delivered"
    using run(3) that unfolding o by (cases e) simp_all
qed

section \<open>Where the payout goes wrong\<close>

text \<open>
  (C26) A lost answer pays a reward twice. The request that credits a reward carries no key by which botpay could know
  it again. When botpay has done the work but its answer is lost, the reward stays pending and the next round credits
  it once more: the user has got twice the reward.
\<close>

theorem lost_answer_pays_twice:
  assumes "creditable c w (ad_pay s)" "ac_pay cfg = Some c" "JR_TelegramID r = W_TelegramID w"
    and "FindDueRewards (ios 0) 200 (ad_db s) = Inr [r]" "FindDueRewards (ios' 0) 200 (ad_db s) = Inr [r]"
    and "cl_transport env = ReplyLost" "io_ok (ce_io (cl_call env))" "cl_transport env' = Delivered" "io_ok (ce_io (cl_call env'))"
    and "validAmount (num_out (JR_AmountTON r))" "0 < TONToNano (num_out (JR_AmountTON r))"
    and "in_int64 (W_Credit w + 2 * TONToNano (num_out (JR_AmountTON r)))" "in_int64 (W_Credit w + TONToNano (num_out (JR_AmountTON r)))"
    and "io_uuid (ce_io (cl_call env)) 5 \<notin> tx_ids (ad_pay s)" "io_uuid (ce_io (cl_call env')) 5 \<notin> tx_ids (ad_pay s)"
    and "io_uuid (ce_io (cl_call env')) 5 \<noteq> io_uuid (ce_io (cl_call env)) 5"
  shows "ad_db (settleDueRewards cfg (\<lambda>_. env) ios s) = ad_db s \<and>
    wallet_cash (W_TelegramID w) (settleDueRewards cfg (\<lambda>_. env') ios' (settleDueRewards cfg (\<lambda>_. env) ios s)) =
      wallet_cash (W_TelegramID w) s + 2 * TONToNano (num_out (JR_AmountTON r))"
proof -
  define s1 where "s1 = settle_one c env (ios 1) r s"
  have s1: "settleDueRewards cfg (\<lambda>_. env) ios s = s1" using assms(2,4) by (simp add: settleDueRewards_def s1_def)
  note one = settle_one_credit [OF assms(1) _ assms(7,3,10,11,13,14), where io = "ios 1", folded s1_def]
  have db: "ad_db s1 = ad_db s" and cr: "creditable c (w\<lparr>W_Credit := W_Credit w + TONToNano (num_out (JR_AmountTON r))\<rparr>) (ad_pay s1)"
    and tx: "io_uuid (ce_io (cl_call env')) 5 \<notin> tx_ids (ad_pay s1)"
    using one(1,2,4) assms(6,15,16) by simp_all
  have s2: "settleDueRewards cfg (\<lambda>_. env') ios' s1 = settle_one c env' (ios' 1) r s1"
    using assms(2,5) db by (simp add: settleDueRewards_def)
  have "wallet_cash (W_TelegramID w) (settle_one c env' (ios' 1) r s1) = wallet_cash (W_TelegramID w) s1 + TONToNano (num_out (JR_AmountTON r))"
  proof -
    let ?a = "TONToNano (num_out (JR_AmountTON r))" and ?w = "w\<lparr>W_Credit := W_Credit w + TONToNano (num_out (JR_AmountTON r))\<rparr>"
    have big: "in_int64 (W_Credit ?w + ?a)" using assms(12) by (simp add: algebra_simps)
    have "cl_transport env' \<noteq> NotDelivered" "JR_TelegramID r = W_TelegramID ?w" using assms(3,8) by simp_all
    from settle_one_credit(3) [OF cr this(1) assms(9) this(2) assms(10,11) big tx] show ?thesis by simp
  qed
  with one(3) assms(6) db show ?thesis unfolding s1 s2 by simp
qed

text \<open>
  (C25) Nothing holds a reward within the budget. A join is rewarded in full as long as anything is left of the budget,
  and the reward is never compared with it: where the reward of a join exceeds the whole budget that the buyer was charged, the
  first join already pays out more than the rental has brought in.
\<close>

theorem reward_exceeds_budget:
  assumes "creditable c w (ad_pay s)" "ac_pay cfg = Some c"
    and "FindActiveRentalByChannel None ch (ad_db s) = Inr (Some rental)" "LR_IsActive (io_now io 0) rental" "join_rewards (ad_db s) = []"
    and "\<forall>k. io_flt io k = None" "\<forall>j k. io_flt (ios j) k = None" "io_now io 1 + RewardSettlementDelay \<le> io_now (ios 0) 0"
    and "cl_transport env = Delivered" "io_ok (ce_io (cl_call env))" "io_uuid (ce_io (cl_call env)) 5 \<notin> tx_ids (ad_pay s)"
    and "amount = num_out (num_in (ac_dec cfg) (num_out (LR_RewardPerJoinTON rental)))"
    and "validAmount amount" "0 < TONToNano amount" "in_int64 (W_Credit w + TONToNano amount)" "TONToNano (num_out (LR_Budget rental)) < TONToNano amount"
  shows "wallet_cash (W_TelegramID w) (settleDueRewards cfg (\<lambda>_. env) ios (HandleMembershipJoined cfg io (W_TelegramID w) ch s)) =
      wallet_cash (W_TelegramID w) s + TONToNano amount \<and>
    wallet_cash (W_TelegramID w) (settleDueRewards cfg (\<lambda>_. env) ios (HandleMembershipJoined cfg io (W_TelegramID w) ch s)) >
      wallet_cash (W_TelegramID w) s + TONToNano (num_out (LR_Budget rental))"
proof -
  define r where "r = \<lparr>JR_ID = io_uuid (io_shift 1 io) 0, JR_RentalID = LR_ID rental, JR_TelegramID = W_TelegramID w,
    JR_AmountTON = num_in (ac_dec cfg) (num_out (LR_RewardPerJoinTON rental)), JR_Status = RewardPending,
    JR_SettleAt = io_now (io_shift 1 io) 0 + RewardSettlementDelay, JR_SettledAt = None\<rparr>"
  define s1 where "s1 = HandleMembershipJoined cfg io (W_TelegramID w) ch s"
  define rec where "rec = with_db (TryRecordJoinReward (ac_dec cfg) (io_shift 1 io) (LR_ID rental) (W_TelegramID w) (num_out (LR_RewardPerJoinTON rental))) s"
  have rec: "fst rec = Inr True" "join_rewards (ad_db (snd rec)) = [r]" "ad_pay (snd rec) = ad_pay s"
    using assms(5,6) by (simp_all add: rec_def TryRecordJoinReward_def r_def)
  define s0 where "s0 = tell (W_TelegramID w) ''reward_reserved'' (on_ads_db (AddRentalJoinCount (ac_dec cfg) (io_flt io 2) (LR_ID rental) 1
    (num_out (LR_RewardPerJoinTON rental))) (snd rec))"
  have "s1 = checkCampaignCompletion cfg (io_shift 3 io) (LR_ID rental) s0"
    using assms(3,4,6) rec(1) unfolding s1_def s0_def rec_def HandleMembershipJoined_def by (simp add: case_prod_beta Let_def)
  moreover have "same_money (snd rec) s0" by (simp add: s0_def same_money_def AddRentalJoinCount_def split: option.splits)
  ultimately have s1: "ad_pay s1 = ad_pay s" "join_rewards (ad_db s1) = [r]"
    using completion_money [of s0 cfg "io_shift 3 io" "LR_ID rental"] rec by (simp_all add: same_money_def)
  have "FindDueRewards (ios 0) 200 (ad_db s1) = Inr [r]" using assms(7,8) by (simp add: FindDueRewards_def s1(2) r_def)
  then have s2: "settleDueRewards cfg (\<lambda>_. env) ios s1 = settle_one c env (ios 1) r s1" using assms(2) by (simp add: settleDueRewards_def)
  have a: "num_out (JR_AmountTON r) = amount" by (simp add: r_def assms(12))
  have "creditable c w (ad_pay s1)" using assms(1) s1(1) by simp
  from settle_one_credit(3) [OF this, of env r "ios 1", unfolded a] assms(9-16) s1(1)
  have "wallet_cash (W_TelegramID w) (settle_one c env (ios 1) r s1) = wallet_cash (W_TelegramID w) s1 + TONToNano amount" by (simp add: r_def)
  then show ?thesis using assms(16) s1(1) unfolding s1_def [symmetric] s2 by (simp add: wallet_cash_def)
qed

text \<open>A reward of one TON that is due, and a rental of one TON that promises three for a join.\<close>

definition shop_reward :: RentalJoinReward where
  "shop_reward = \<lparr>JR_ID = ''w'', JR_RentalID = ''order-1'', JR_TelegramID = 42, JR_AmountTON = Fin 1, JR_Status = RewardPending, JR_SettleAt = 0,
     JR_SettledAt = None\<rparr>"

definition shop_due :: ads where
  "shop_due = shop\<lparr>ad_db := shop_db\<lparr>join_rewards := [shop_reward]\<rparr>\<rparr>"

definition shop_live :: ads where
  "shop_live = shop\<lparr>ad_db := shop_db\<lparr>lock_rentals := [shop_rental\<lparr>LR_Status := RentalActive\<rparr>]\<rparr>\<rparr>"

definition later_io :: io where
  "later_io = shop_io\<lparr>io_now := (\<lambda>_. RewardSettlementDelay)\<rparr>"

definition again_env :: client_env where
  "again_env = plan_env\<lparr>cl_call := demo_env\<lparr>ce_io := late_io\<lparr>io_uuid := (\<lambda>k. ''again-'' @ fmt_d (int k))\<rparr>\<rparr>\<rparr>"

lemma plan_creditable: "creditable plan_client plan_wallet plan_world"
  using plan_bought_one bought_authorized [OF plan_bought_one] by (simp add: creditable_def bought_def Let_def solvent_def ids_ok_def)

lemma plan_tx:
  "io_uuid (ce_io (cl_call plan_env)) 5 \<notin> tx_ids plan_world" "io_uuid (ce_io (cl_call again_env)) 5 \<notin> tx_ids plan_world"
  "io_uuid (ce_io (cl_call again_env)) 5 \<noteq> io_uuid (ce_io (cl_call plan_env)) 5"
  unfolding tx_ids_def by code_simp+

lemma plan_room: "W_TelegramID plan_wallet = 42" "in_int64 (W_Credit plan_wallet + 1000000000)" "in_int64 (W_Credit plan_wallet + 2000000000)"
  "in_int64 (W_Credit plan_wallet + 3000000000)"
  by code_simp+

lemma plan_envs: "cl_transport plan_env = Delivered" "io_ok (ce_io (cl_call plan_env))" "cl_transport again_env = Delivered" "io_ok (ce_io (cl_call again_env))"
  by (simp_all add: again_env_def plan_env_def demo_env_def late_io_def demo_io_def io_ok_def)

lemma valid_TON: "validAmount (Fin 1)" "validAmount (Fin 3)"
  by (simp_all add: validAmount_def IsNaN_def IsInf_def)

lemma three_TON: "TONToNano (Fin 3) = 3000000000"
  using TONToNano_of_int [of 3] by simp


theorem lost_answer_pays_twice_witness:
  "wallet_cash 42 (settleDueRewards shop_cfg (\<lambda>_. again_env) (\<lambda>_. shop_io)
     (settleDueRewards shop_cfg (\<lambda>_. plan_env\<lparr>cl_transport := ReplyLost\<rparr>) (\<lambda>_. shop_io) shop_due)) = wallet_cash 42 shop_due + 2000000000"
proof -
  have pay: "ad_pay shop_due = plan_world" by (simp add: shop_due_def shop_def)
  have due: "FindDueRewards shop_io 200 (ad_db shop_due) = Inr [shop_reward]"
    by (simp add: FindDueRewards_def shop_io_def shop_due_def shop_db_def shop_reward_def)
  have amount: "num_out (JR_AmountTON shop_reward) = Fin 1" by (simp add: shop_reward_def rnd_1)
  have "JR_TelegramID shop_reward = W_TelegramID plan_wallet" "ac_pay shop_cfg = Some plan_client"
    by (simp_all add: shop_reward_def plan_room shop_cfg_def)
  with lost_answer_pays_twice [of plan_client plan_wallet shop_due shop_cfg shop_reward "\<lambda>_. shop_io" "\<lambda>_. shop_io"
      "plan_env\<lparr>cl_transport := ReplyLost\<rparr>" again_env, unfolded pay amount one_TON]
  show ?thesis using plan_creditable due plan_tx plan_room plan_envs valid_TON(1) by simp
qed

theorem reward_exceeds_budget_witness:
  "wallet_cash 42 (settleDueRewards shop_cfg (\<lambda>_. plan_env) (\<lambda>_. later_io) (HandleMembershipJoined shop_cfg shop_io 42 7 shop_live)) =
     wallet_cash 42 shop_live + 3000000000"
proof -
  let ?r = "shop_rental\<lparr>LR_Status := RentalActive\<rparr>"
  have pay: "ad_pay shop_live = plan_world" "ac_pay shop_cfg = Some plan_client" by (simp_all add: shop_live_def shop_def shop_cfg_def)
  have r: "FindActiveRentalByChannel None 7 (ad_db shop_live) = Inr (Some ?r)" "join_rewards (ad_db shop_live) = []"
    by (simp_all add: FindActiveRentalByChannel_def First_or_nil_def First_row_def least_by_def shop_live_def shop_db_def shop_rental_def)
  have act: "LR_IsActive (io_now shop_io 0) ?r" by (simp add: LR_IsActive_def LR_RemainingBudget_def shop_rental_def rnd_1 rnd_0 f64_sub_def)
  have amount: "Fin 3 = num_out (num_in (ac_dec shop_cfg) (num_out (LR_RewardPerJoinTON ?r)))"
    by (simp add: shop_cfg_def shop_rental_def rnd_3)
  have budget: "TONToNano (num_out (LR_Budget ?r)) < TONToNano (Fin 3)" by (simp add: shop_rental_def rnd_1 one_TON three_TON)
  have io: "\<forall>k. io_flt shop_io k = None" "\<forall>j k. io_flt ((\<lambda>_. later_io) j) k = None"
    "io_now shop_io 1 + RewardSettlementDelay \<le> io_now ((\<lambda>_. later_io) 0) 0" by (simp_all add: shop_io_def later_io_def)
  have "0 < TONToNano (Fin 3)" "in_int64 (W_Credit plan_wallet + TONToNano (Fin 3))" by (simp_all add: three_TON plan_room)
  from reward_exceeds_budget [where w = plan_wallet, OF _ pay(2) r(1) act r(2) io plan_envs(1,2) _ amount valid_TON(2) this budget]
  show ?thesis using plan_creditable plan_tx(1) by (simp add: pay plan_room three_TON)
qed

section \<open>Publishers\<close>

lemma unique_First:
  assumes "distinct (map key rs)" "r \<in> set rs" "P r" "\<And>x. x \<in> set rs \<Longrightarrow> P x \<Longrightarrow> key x = key r"
  shows "First_or_nil None k P rs = Inr (Some r)"
  unfolding First_or_nil_def stmt_simps
  by (simp, rule First_row_unique) (use assms in \<open>auto dest: distinct_key_eq\<close>)

text \<open>The publisher with Telegram id \<open>uid\<close> and a campaign of his, at a database that works.\<close>

definition owns :: "ads_cfg \<Rightarrow> io \<Rightarrow> int64 \<Rightarrow> string \<Rightarrow> Publisher \<Rightarrow> Campaign \<Rightarrow> ads \<Rightarrow> bool" where
  "owns cfg io uid t p c s \<longleftrightarrow> (\<forall>k. io_flt io k = None) \<and> ac_ParseUUID cfg t = Some (CA_ID c) \<and> CA_ID c \<noteq> uuid_Nil \<and>
     distinct (map CA_ID (campaigns (ad_db s))) \<and> c \<in> set (campaigns (ad_db s)) \<and> distinct (map PB_TelegramID (publishers (ad_db s))) \<and>
     distinct (map PB_ID (publishers (ad_db s))) \<and> p \<in> set (publishers (ad_db s)) \<and> PB_TelegramID p = uid \<and> CA_PublisherID c = PB_ID p"

lemma owns_campaign:
  assumes "owns cfg io uid t p c s"
  shows "owned_campaign cfg io uid t s = Inr c"
proof -
  have "FindCampaign None (CA_ID c) (ad_db s) = Inr (Some c)" unfolding FindCampaign_def
    by (rule unique_First [where key = CA_ID]) (use assms in \<open>auto simp: owns_def\<close>)
  moreover have "FindPublisher None uid (ad_db s) = Inr (Some p)" unfolding FindPublisher_def
    by (rule unique_First [where key = PB_TelegramID]) (use assms in \<open>auto simp: owns_def\<close>)
  ultimately show ?thesis
    using assms by (simp add: owned_campaign_def owns_def campaign_of_def publisher_of_def parse_uuid_def ok_or_def)
qed

lemma button_steps:
  "ads_step cfg env (Button uid (''camp_pause:'' @ t)) s = pauseCampaign cfg (ae_ios env 0 0) uid t s"
  "ads_step cfg env (Button uid (''camp_del:'' @ t)) s = deleteCampaign cfg (ae_ios env 0 0) uid t s"
  by (simp_all add: ads_step_def ads_onCallback_def callback_parts_def split_colon_def Let_def)

text \<open>
  The pause button approves a campaign. Pressed by the publisher on a campaign that waits for review, or that the
  admin has rejected, it makes the campaign active: no admin takes part, and the review fields stay as they are.
\<close>

theorem pause_bypasses_review:
  assumes "owns cfg (ae_ios env 0 0) uid t p c s" "CA_Status c \<noteq> CampaignActive"
  shows "campaigns (ad_db (ads_step cfg env (Button uid (''camp_pause:'' @ t)) s)) =
    map (\<lambda>x. if CA_ID x = CA_ID c then c\<lparr>CA_Status := CampaignActive\<rparr> else x) (campaigns (ad_db s))"
proof -
  have "CA_ID c \<in> CA_ID ` set (campaigns (ad_db s))" "CA_ID c \<noteq> uuid_Nil" "\<And>k. io_flt (ae_ios env 0 0) k = None"
    using assms(1) by (auto simp: owns_def)
  then show ?thesis
    using owns_campaign [OF assms(1)] assms(2)
    unfolding button_steps by (simp add: pauseCampaign_def UpdateCampaign_def rows_set_def io_shift_def)
qed

lemma delete_once:
  assumes "owns cfg io uid t p c s" "PB_Balance p = Fin b" "num_in (ac_dec cfg) (Campaign_RemainingBudget c) = Fin m"
  shows "owns cfg io uid t (p\<lparr>PB_Balance := Fin (b + m)\<rparr>) (c\<lparr>CA_Status := CampaignDone\<rparr>) (deleteCampaign cfg io uid t s)"
proof -
  let ?p = "p\<lparr>PB_Balance := Fin (b + m)\<rparr>" and ?c = "c\<lparr>CA_Status := CampaignDone\<rparr>" and ?s = "deleteCampaign cfg io uid t s"
  note o = assms(1) [unfolded owns_def]
  have flt: "io_flt io k = None" for k using o by blast
  have pubs: "publishers (ad_db ?s) = rows_set (\<lambda>x. PB_ID x = PB_ID p) (\<lambda>x. x\<lparr>PB_Balance := num_add (PB_Balance x) (Fin m)\<rparr>) (publishers (ad_db s))"
    and camps: "campaigns (ad_db ?s) = rows_set (\<lambda>x. CA_ID x = CA_ID c) (\<lambda>_. ?c) (campaigns (ad_db s))"
    using owns_campaign [OF assms(1)] o
    by (auto simp: deleteCampaign_def UpdateBalance_def UpdateCampaign_def flt io_shift_def assms(3) image_iff)
  have "map PB_ID (publishers (ad_db ?s)) = map PB_ID (publishers (ad_db s))"
    "map PB_TelegramID (publishers (ad_db ?s)) = map PB_TelegramID (publishers (ad_db s))"
    "map CA_ID (campaigns (ad_db ?s)) = map CA_ID (campaigns (ad_db s))" by (simp_all add: pubs camps rows_set_def)
  moreover have "?p \<in> set (publishers (ad_db ?s))" unfolding pubs rows_set_def using o assms(2) by (force intro: image_eqI [where x = p])
  moreover have "?c \<in> set (campaigns (ad_db ?s))" unfolding camps rows_set_def using o by (force intro: image_eqI [where x = c])
  ultimately show ?thesis using o flt unfolding owns_def by (simp add: o)
qed

text \<open>
  Stopping a campaign mints money. The button that stops a campaign refunds what remains of its budget and looks at
  neither its status nor earlier refunds: pressed \<open>n\<close> times by its publisher it refunds the remaining budget \<open>n\<close> times.
\<close>

theorem delete_mints:
  assumes "owns cfg (ae_ios env 0 0) uid t p c s" "PB_Balance p = Fin b" "num_in (ac_dec cfg) (Campaign_RemainingBudget c) = Fin m"
  shows "p\<lparr>PB_Balance := Fin (b + of_nat n * m)\<rparr> \<in>
    set (publishers (ad_db (ads_run cfg (replicate n (env, Button uid (''camp_del:'' @ t))) s)))"
proof -
  have "\<exists>c'. owns cfg (ae_ios env 0 0) uid t (p\<lparr>PB_Balance := Fin (b + of_nat n * m)\<rparr>) c'
      (ads_run cfg (replicate n (env, Button uid (''camp_del:'' @ t))) s)"
    using assms
  proof (induction n arbitrary: s p c b)
    case 0
    then have "p\<lparr>PB_Balance := Fin (b + of_nat 0 * m)\<rparr> = p" by (cases p) simp
    then show ?case unfolding replicate_0 ads_run.simps using 0(1) by metis
  next
    case (Suc n)
    have "num_in (ac_dec cfg) (Campaign_RemainingBudget (c\<lparr>CA_Status := CampaignDone\<rparr>)) = Fin m"
      using Suc.prems(3) by (simp add: Campaign_RemainingBudget_def)
    from Suc.IH [OF delete_once [OF Suc.prems] _ this] show ?case
      unfolding replicate_Suc ads_run.simps button_steps by (simp add: algebra_simps)
  qed
  then show ?thesis by (auto simp: owns_def)
qed

lemma shop_owns: "owns shop_cfg (ae_ios shop_env 0 0) 5 ''c'' shop_publisher shop_campaign shop"
  by (simp add: owns_def shop_cfg_def shop_env_def shop_io_def shop_def shop_db_def shop_publisher_def shop_campaign_def uuid_Nil_def)

theorem pause_bypasses_review_witness:
  "ac_ownerID shop_cfg \<noteq> 5 \<and> CA_Status shop_campaign = CampaignPending \<and>
   map CA_Status (campaigns (ad_db (ads_step shop_cfg shop_env (Button 5 (''camp_pause:'' @ ''c'')) shop))) = [CampaignActive]"
proof -
  have st: "CA_Status shop_campaign = CampaignPending" "campaigns (ad_db shop) = [shop_campaign]" "ac_ownerID shop_cfg \<noteq> 5"
    by (simp_all add: shop_campaign_def shop_def shop_db_def shop_cfg_def)
  have "CA_Status shop_campaign \<noteq> CampaignActive" by (simp add: st)
  from pause_bypasses_review [OF shop_owns this] show ?thesis using st by simp
qed

theorem delete_mints_witness:
  "shop_publisher\<lparr>PB_Balance := Fin 32\<rparr> \<in> set (publishers (ad_db (ads_run shop_cfg (replicate 10 (shop_env, Button 5 (''camp_del:'' @ ''c''))) shop)))"
proof -
  have "PB_Balance shop_publisher = Fin 2" by (simp add: shop_publisher_def)
  moreover have "num_in (ac_dec shop_cfg) (Campaign_RemainingBudget shop_campaign) = Fin 3"
    by (simp add: Campaign_RemainingBudget_def shop_campaign_def zero_campaign_def shop_cfg_def rnd_3 rnd_0 f64_sub_def)
  ultimately show ?thesis using delete_mints [OF shop_owns, of 2 3 10] by simp
qed

end
