(* ===== verification/Community.thy ===== *)
theory Community
  imports AdsBot
begin

text \<open>
  \<open>community-service\<close>: the registered groups and channels, the participants of campaigns, and the distribution of a
  community's revenue (\<open>internal/store\<close>, \<open>internal/engine\<close>, \<open>internal/api\<close>). The tables are in PostgreSQL, the
  activity of members in MongoDB, which the process does not configure. Statements name their columns, as in
  \<open>AdsStore\<close>. A lookup returns the row it has read into, which is the zero row beside an error.
\<close>

section \<open>Rows (\<open>models.go\<close>)\<close>

abbreviation "CommunityGroup \<equiv> ''group''"
abbreviation "CommunityChannel \<equiv> ''channel''"
abbreviation "CommunityPending \<equiv> ''pending''"
abbreviation "CommunityActive \<equiv> ''active''"
abbreviation "CommunityRejected \<equiv> ''rejected''"

record Community =
  CM_ID :: uuid
  CM_OwnerID :: uuid
  CM_TelegramID :: int64
  CM_Type :: string
  CM_Name :: string
  CM_Username :: string
  CM_Status :: string
  CM_InviteLink :: string
  CM_InviteHash :: string
  CM_OwnerPercent :: numeric
  CM_MembersPercent :: numeric
  CM_PlatformPercent :: numeric
  CM_MemberCount :: int64
  CM_QualityScore :: int64
  CM_ValidationWindowSec :: int64
  CM_VerifiedAt :: "time option"

definition community_columns :: "string list" where
  "community_columns =
     [''id'', ''created_at'', ''updated_at'', ''deleted_at'', ''owner_id'', ''telegram_id'', ''type'', ''name'', ''username'', ''status'',
      ''invite_link'', ''invite_hash'', ''owner_percent'', ''members_percent'', ''platform_percent'', ''member_count'', ''quality_score'',
      ''validation_window_sec'', ''verified_at'']"

definition zero_community :: Community where
  "zero_community = \<lparr>CM_ID = uuid_Nil, CM_OwnerID = uuid_Nil, CM_TelegramID = 0, CM_Type = [], CM_Name = [], CM_Username = [], CM_Status = [],
     CM_InviteLink = [], CM_InviteHash = [], CM_OwnerPercent = Fin 0, CM_MembersPercent = Fin 0, CM_PlatformPercent = Fin 0, CM_MemberCount = 0,
     CM_QualityScore = 0, CM_ValidationWindowSec = 0, CM_VerifiedAt = None\<rparr>"

definition RevenuePercentages :: "Community \<Rightarrow> f64 \<times> f64 \<times> f64" where
  "RevenuePercentages c =
     (if f64_lt (Fin 0) (num_out (CM_OwnerPercent c))
      then (num_out (CM_OwnerPercent c), num_out (CM_MembersPercent c), num_out (CM_PlatformPercent c))
      else if CM_Type c = CommunityGroup then (Fin 50, Fin 40, Fin 10)
      else if CM_Type c = CommunityChannel then (Fin 90, Fin 0, Fin 10)
      else (Fin 80, Fin 0, Fin 20))"

record CampaignParticipant =
  CP_ID :: uuid
  CP_CampaignID :: uuid
  CP_CommunityID :: uuid
  CP_TelegramID :: int64
  CP_JoinedAt :: time
  CP_ValidatedAt :: "time option"
  CP_LeftAt :: "time option"
  CP_Status :: string

definition zero_participant :: CampaignParticipant where
  "zero_participant = \<lparr>CP_ID = uuid_Nil, CP_CampaignID = uuid_Nil, CP_CommunityID = uuid_Nil, CP_TelegramID = 0,
     CP_JoinedAt = -62135596800000000000, CP_ValidatedAt = None, CP_LeftAt = None, CP_Status = []\<rparr>"

definition IsValid :: "CampaignParticipant \<Rightarrow> bool" where "IsValid p \<longleftrightarrow> CP_Status p = ''validated''"

record CommunityRevenue =
  CR_ID :: uuid
  CR_CommunityID :: uuid
  CR_CampaignID :: uuid
  CR_TotalAmount :: numeric
  CR_ValidJoins :: int64
  CR_Status :: string
  CR_DistributedAt :: "time option"

definition zero_revenue :: CommunityRevenue where
  "zero_revenue = \<lparr>CR_ID = uuid_Nil, CR_CommunityID = uuid_Nil, CR_CampaignID = uuid_Nil, CR_TotalAmount = Fin 0, CR_ValidJoins = 0,
     CR_Status = [], CR_DistributedAt = None\<rparr>"

record CommunityDistribution =
  CD_ID :: uuid
  CD_RevenueID :: uuid
  CD_CommunityID :: uuid
  CD_TelegramID :: int64
  CD_Amount :: numeric
  CD_ActivityScore :: int64
  CD_Status :: string

record MemberActivity =
  AV_TelegramID :: int64
  AV_CommunityID :: int64
  AV_Messages :: int64
  AV_Replies :: int64
  AV_Reactions :: int64
  AV_ActiveDays :: int64
  AV_ActivityScore :: int64
  AV_UpdatedAt :: time

record cm_db =
  communities :: "Community list"
  participants :: "CampaignParticipant list"
  revenues :: "CommunityRevenue list"
  distributions :: "CommunityDistribution list"

section \<open>Communities (\<open>store.go\<close>)\<close>

text \<open>Columns with a default get it in place of a zero value.\<close>

definition CreateCommunity :: "io \<Rightarrow> Community \<Rightarrow> cm_db \<Rightarrow> (go_error + Community) \<times> cm_db" where
  "CreateCommunity io c db =
     (let c1 = c\<lparr>CM_ID := (if CM_ID c = uuid_Nil then io_uuid io 0 else CM_ID c),
                 CM_Status := (if CM_Status c = [] then CommunityPending else CM_Status c),
                 CM_QualityScore := (if CM_QualityScore c = 0 then 50 else CM_QualityScore c),
                 CM_ValidationWindowSec := (if CM_ValidationWindowSec c = 0 then 86400 else CM_ValidationWindowSec c)\<rparr>
      in case io_flt io 0 of
           Some m \<Rightarrow> (Inl (DBErr m), db)
         | None \<Rightarrow>
             (if CM_ID c1 \<in> CM_ID ` set (communities db) \<or> CM_TelegramID c1 \<in> CM_TelegramID ` set (communities db) \<or>
                 CM_InviteLink c1 \<in> CM_InviteLink ` set (communities db) \<or> CM_InviteHash c1 \<in> CM_InviteHash ` set (communities db)
              then (Inl unique_violation, db)
              else (Inr c1, db\<lparr>communities := communities db @ [c1]\<rparr>)))"

definition find_row :: "'r \<Rightarrow> go_error + 'r option \<Rightarrow> 'r option \<times> go_error option" where
  "find_row zero r = (case r of Inl e \<Rightarrow> (Some zero, Some e) | Inr x \<Rightarrow> (x, None))"

definition FindCommunityByChatID :: "string option \<Rightarrow> int64 \<Rightarrow> cm_db \<Rightarrow> Community option \<times> go_error option" where
  "FindCommunityByChatID flt telegramID db =
     find_row zero_community (sql flt community_columns [''chat_id'']
       (Inr (First_row CM_ID (\<lambda>c. CM_TelegramID c = telegramID) (communities db))))"

definition FindCommunityByInviteHash :: "string option \<Rightarrow> string \<Rightarrow> cm_db \<Rightarrow> Community option \<times> go_error option" where
  "FindCommunityByInviteHash flt hash db =
     find_row zero_community (First_or_nil flt CM_ID (\<lambda>c. CM_InviteHash c = hash \<and> CM_Status c = CommunityActive) (communities db))"

definition FindCommunityByID :: "string option \<Rightarrow> uuid \<Rightarrow> cm_db \<Rightarrow> Community option \<times> go_error option" where
  "FindCommunityByID flt i db = find_row zero_community (First_or_nil flt CM_ID (\<lambda>c. CM_ID c = i) (communities db))"

definition set_communities :: "string option \<Rightarrow> (Community \<Rightarrow> bool) \<Rightarrow> (Community \<Rightarrow> Community) \<Rightarrow> cm_db \<Rightarrow> cm_db" where
  "set_communities flt P f db =
     (case flt of Some _ \<Rightarrow> db | None \<Rightarrow> db\<lparr>communities := rows_set P f (communities db)\<rparr>)"

definition UpdateCommunity :: "io \<Rightarrow> Community \<Rightarrow> cm_db \<Rightarrow> cm_db" where  \<comment> \<open>\<open>Save\<close>\<close>
  "UpdateCommunity io c db =
     (if CM_ID c = uuid_Nil then snd (CreateCommunity io c db)
      else if io_flt io 0 \<noteq> None then db
      else if CM_ID c \<in> CM_ID ` set (communities db) then set_communities None (\<lambda>x. CM_ID x = CM_ID c) (\<lambda>_. c) db
      else snd (CreateCommunity (io_shift 1 io) c db))"

definition ActivateCommunity :: "io \<Rightarrow> uuid \<Rightarrow> cm_db \<Rightarrow> cm_db" where
  "ActivateCommunity io i = set_communities (io_flt io 0) (\<lambda>c. CM_ID c = i)
     (\<lambda>c. c\<lparr>CM_Status := CommunityActive, CM_VerifiedAt := Some (io_now io 0)\<rparr>)"

definition ListCommunities :: "string option \<Rightarrow> uuid \<Rightarrow> cm_db \<Rightarrow> go_error + Community list" where
  "ListCommunities flt ownerID db = stmt flt (Inr (filter (\<lambda>c. CM_OwnerID c = ownerID) (communities db)))"

definition UpdateQualityScore :: "string option \<Rightarrow> uuid \<Rightarrow> int64 \<Rightarrow> cm_db \<Rightarrow> cm_db" where
  "UpdateQualityScore flt i score = set_communities flt (\<lambda>c. CM_ID c = i) (\<lambda>c. c\<lparr>CM_QualityScore := score\<rparr>)"

definition cs_UpdateCommunityScore :: "string option \<Rightarrow> int64 \<Rightarrow> int64 \<Rightarrow> cm_db \<Rightarrow> (go_error + unit) \<times> cm_db" where
  "cs_UpdateCommunityScore flt chatID score db =
     (case sql flt community_columns [''chat_id'', ''quality_score'']
             (Inr (rows_set (\<lambda>c. CM_TelegramID c = chatID) (\<lambda>c. c\<lparr>CM_QualityScore := score\<rparr>) (communities db))) of
        Inl e \<Rightarrow> (Inl e, db)
      | Inr rows \<Rightarrow> (Inr (), db\<lparr>communities := rows\<rparr>))"

definition UpdateCommunityStatus :: "string option \<Rightarrow> uuid \<Rightarrow> string \<Rightarrow> cm_db \<Rightarrow> cm_db" where
  "UpdateCommunityStatus flt i status = set_communities flt (\<lambda>c. CM_ID c = i) (\<lambda>c. c\<lparr>CM_Status := status\<rparr>)"

definition ListCommunitiesByOwner :: "(Community \<Rightarrow> int64) \<Rightarrow> string option \<Rightarrow> int64 \<Rightarrow> cm_db \<Rightarrow> go_error + Community list" where
  \<comment> \<open>the first argument stands for the column \<open>owner_telegram_id\<close>, which there is not\<close>
  "ListCommunitiesByOwner owner_telegram_id flt ownerID db =
     sql flt community_columns [''owner_telegram_id''] (Inr (filter (\<lambda>c. owner_telegram_id c = ownerID) (communities db)))"

definition ListPendingCommunities :: "string option \<Rightarrow> cm_db \<Rightarrow> go_error + Community list" where
  "ListPendingCommunities flt db = stmt flt (Inr (filter (\<lambda>c. CM_Status c = CommunityPending) (communities db)))"

definition UpdateValidationWindow :: "string option \<Rightarrow> uuid \<Rightarrow> int64 \<Rightarrow> cm_db \<Rightarrow> cm_db" where
  "UpdateValidationWindow flt i windowSec = set_communities flt (\<lambda>c. CM_ID c = i) (\<lambda>c. c\<lparr>CM_ValidationWindowSec := windowSec\<rparr>)"

definition DecrementMemberCount :: "string option \<Rightarrow> uuid \<Rightarrow> cm_db \<Rightarrow> cm_db" where
  "DecrementMemberCount flt i = set_communities flt (\<lambda>c. CM_ID c = i) (\<lambda>c. c\<lparr>CM_MemberCount := max (CM_MemberCount c - 1) 0\<rparr>)"

definition IncrementMemberCount :: "string option \<Rightarrow> uuid \<Rightarrow> cm_db \<Rightarrow> cm_db" where
  "IncrementMemberCount flt i = set_communities flt (\<lambda>c. CM_ID c = i) (\<lambda>c. c\<lparr>CM_MemberCount := CM_MemberCount c + 1\<rparr>)"

section \<open>Participants, revenue and activity (\<open>store.go\<close>)\<close>

definition RecordParticipant :: "io \<Rightarrow> CampaignParticipant \<Rightarrow> cm_db \<Rightarrow> (go_error + CampaignParticipant) \<times> cm_db" where
  "RecordParticipant io p db =
     (let p1 = p\<lparr>CP_ID := io_uuid io 0\<rparr>
      in case io_flt io 0 of
           Some m \<Rightarrow> (Inl (DBErr m), db)
         | None \<Rightarrow>
             (if \<exists>x \<in> set (participants db). CP_ID x = CP_ID p1 \<or> CP_CampaignID x = CP_CampaignID p1 \<and> CP_TelegramID x = CP_TelegramID p1
              then (Inl unique_violation, db)
              else (Inr p1, db\<lparr>participants := participants db @ [p1]\<rparr>)))"

definition FindParticipant :: "string option \<Rightarrow> uuid \<Rightarrow> int64 \<Rightarrow> cm_db \<Rightarrow> CampaignParticipant option \<times> go_error option" where
  "FindParticipant flt campaignID telegramID db =
     find_row zero_participant (First_or_nil flt CP_ID (\<lambda>p. CP_CampaignID p = campaignID \<and> CP_TelegramID p = telegramID) (participants db))"

definition ValidateParticipant :: "io \<Rightarrow> uuid \<Rightarrow> cm_db \<Rightarrow> (go_error + unit) \<times> cm_db" where
  "ValidateParticipant io i db =
     (case io_flt io 0 of
        Some m \<Rightarrow> (Inl (DBErr m), db)
      | None \<Rightarrow> (Inr (), db\<lparr>participants := rows_set (\<lambda>p. CP_ID p = i)
          (\<lambda>p. p\<lparr>CP_Status := ''validated'', CP_ValidatedAt := Some (io_now io 0)\<rparr>) (participants db)\<rparr>))"

definition InvalidateParticipant :: "io \<Rightarrow> uuid \<Rightarrow> cm_db \<Rightarrow> (go_error + unit) \<times> cm_db" where
  "InvalidateParticipant io i db =
     (case io_flt io 0 of
        Some m \<Rightarrow> (Inl (DBErr m), db)
      | None \<Rightarrow> (Inr (), db\<lparr>participants := rows_set (\<lambda>p. CP_ID p = i)
          (\<lambda>p. p\<lparr>CP_Status := ''left'', CP_LeftAt := Some (io_now io 0)\<rparr>) (participants db)\<rparr>))"

definition FindPendingValidations :: "string option \<Rightarrow> time \<Rightarrow> cm_db \<Rightarrow> go_error + CampaignParticipant list" where
  "FindPendingValidations flt before db =
     stmt flt (Inr (filter (\<lambda>p. CP_Status p = ''pending'' \<and> CP_JoinedAt p \<le> before) (participants db)))"

definition CreateRevenue :: "io \<Rightarrow> CommunityRevenue \<Rightarrow> cm_db \<Rightarrow> (go_error + CommunityRevenue) \<times> cm_db" where
  "CreateRevenue io r db =
     (let r1 = r\<lparr>CR_ID := io_uuid io 0, CR_Status := (if CR_Status r = [] then ''pending'' else CR_Status r)\<rparr>
      in case io_flt io 0 of
           Some m \<Rightarrow> (Inl (DBErr m), db)
         | None \<Rightarrow> (if CR_ID r1 \<in> CR_ID ` set (revenues db) then (Inl unique_violation, db)
                   else (Inr r1, db\<lparr>revenues := revenues db @ [r1]\<rparr>)))"

definition FindRevenue :: "string option \<Rightarrow> uuid \<Rightarrow> cm_db \<Rightarrow> CommunityRevenue option \<times> go_error option" where
  "FindRevenue flt i db = find_row zero_revenue (First_or_nil flt CR_ID (\<lambda>r. CR_ID r = i) (revenues db))"

definition FindRevenueByCampaignCommunity :: "string option \<Rightarrow> uuid \<Rightarrow> uuid \<Rightarrow> cm_db \<Rightarrow> CommunityRevenue option \<times> go_error option" where
  "FindRevenueByCampaignCommunity flt campaignID communityID db =
     find_row zero_revenue (First_or_nil flt CR_ID (\<lambda>r. CR_CampaignID r = campaignID \<and> CR_CommunityID r = communityID) (revenues db))"

definition MarkRevenueDistributed :: "io \<Rightarrow> uuid \<Rightarrow> cm_db \<Rightarrow> cm_db" where
  "MarkRevenueDistributed io i db =
     (case io_flt io 0 of
        Some _ \<Rightarrow> db
      | None \<Rightarrow> db\<lparr>revenues := rows_set (\<lambda>r. CR_ID r = i)
          (\<lambda>r. r\<lparr>CR_Status := ''distributed'', CR_DistributedAt := Some (io_now io 0)\<rparr>) (revenues db)\<rparr>)"

definition CreateDistribution :: "io \<Rightarrow> CommunityDistribution \<Rightarrow> cm_db \<Rightarrow> cm_db" where
  "CreateDistribution io d db =
     (if io_flt io 0 \<noteq> None \<or> io_uuid io 0 \<in> CD_ID ` set (distributions db) then db
      else db\<lparr>distributions := distributions db @ [d\<lparr>CD_ID := io_uuid io 0\<rparr>]\<rparr>)"

text \<open>The collection is \<open>None\<close> when no database has been configured.\<close>

definition UpdateMemberActivity ::
  "io \<Rightarrow> int64 \<Rightarrow> int64 \<Rightarrow> int64 \<Rightarrow> int64 \<Rightarrow> int64 \<Rightarrow> MemberActivity list option \<Rightarrow> MemberActivity list option" where
  "UpdateMemberActivity io telegramID communityID msgs replies reactions docs =
     map_option (\<lambda>ds. snd (UpdateOne (io_flt io 0) [[''messages'', ''replies'', ''reactions''], [''updated_at'']]
       (Some \<lparr>AV_TelegramID = telegramID, AV_CommunityID = communityID, AV_Messages = msgs, AV_Replies = replies, AV_Reactions = reactions,
              AV_ActiveDays = 0, AV_ActivityScore = 0, AV_UpdatedAt = io_now io 0\<rparr>)
       (\<lambda>d. AV_TelegramID d = telegramID \<and> AV_CommunityID d = communityID)
       (\<lambda>d. Inr (d\<lparr>AV_Messages := AV_Messages d + msgs, AV_Replies := AV_Replies d + replies, AV_Reactions := AV_Reactions d + reactions,
                   AV_UpdatedAt := io_now io 0\<rparr>)) ds)) docs"

definition GetActiveMembers :: "io \<Rightarrow> int64 \<Rightarrow> time \<Rightarrow> MemberActivity list option \<Rightarrow> MemberActivity list" where
  "GetActiveMembers io communityID since docs =
     (case docs of
        None \<Rightarrow> []
      | Some ds \<Rightarrow> ok_or [] (Find_All io (sort_desc AV_ActivityScore (filter (\<lambda>d. AV_CommunityID d = communityID \<and> since \<le> AV_UpdatedAt d) ds))))"

definition CalcActivityScore :: "MemberActivity \<Rightarrow> int64" where
  "CalcActivityScore m =
     (let score = min (wrap64 (AV_Messages m * 2)) 40 + min (wrap64 (AV_Replies m * 3)) 30 + min (AV_Reactions m) 15
                + min (wrap64 (AV_ActiveDays m * 5)) 15
      in if 100 < score then 100 else score)"

section \<open>Engine (\<open>engine.go\<close>)\<close>

record cm_cfg =
  cc_dec :: "f64 \<Rightarrow> rat"
  cc_ParseUUID :: "string \<Rightarrow> uuid option"
  cc_sha16 :: "string \<Rightarrow> string"  \<comment> \<open>the first 16 bytes of the SHA-256, in hexadecimal\<close>
  cc_adminKey :: string

record community_svc =
  cs_db :: cm_db
  cs_mongo :: "MemberActivity list option"
  cs_bus :: bus
  cs_timers :: "(time \<times> json_obj) list"

text \<open>A payload with an infinity or NaN has no JSON: the message is not sent.\<close>

definition json_encodes :: "json_obj \<Rightarrow> bool" where
  "json_encodes payload = list_all (\<lambda>(_, v). case v of JFloat x \<Rightarrow> \<not> IsNaN x \<and> \<not> IsInf x | _ \<Rightarrow> True) payload"

definition cs_pub :: "string \<Rightarrow> json_obj \<Rightarrow> community_svc \<Rightarrow> community_svc" where
  "cs_pub subject payload s = (if json_encodes payload then s\<lparr>cs_bus := cs_bus s @ [(subject, payload)]\<rparr> else s)"

definition on_cs_db :: "(cm_db \<Rightarrow> cm_db) \<Rightarrow> community_svc \<Rightarrow> community_svc" where
  "on_cs_db f s = s\<lparr>cs_db := f (cs_db s)\<rparr>"

definition generateHash :: "cm_cfg \<Rightarrow> int64 \<Rightarrow> uuid \<Rightarrow> time \<Rightarrow> string" where
  "generateHash cfg telegramID ownerID now = cc_sha16 cfg (fmt_d telegramID @ '':'' @ ownerID @ '':'' @ fmt_d now)"

definition RegisterCommunity ::
  "cm_cfg \<Rightarrow> io \<Rightarrow> uuid \<Rightarrow> int64 \<Rightarrow> string \<Rightarrow> string \<Rightarrow> string \<Rightarrow> community_svc \<Rightarrow> (go_error + Community) \<times> community_svc" where
  "RegisterCommunity cfg io ownerID telegramID commType name username s =
     (if fst (FindCommunityByChatID (io_flt io 0) telegramID (cs_db s)) \<noteq> None then (Inl (Errorf ''community already registered'' []), s)
      else let hash = generateHash cfg telegramID ownerID (io_now io 0);
               (r, db) = CreateCommunity (io_shift 1 io) (zero_community\<lparr>CM_OwnerID := ownerID, CM_TelegramID := telegramID, CM_Type := commType,
                 CM_Name := name, CM_Username := username, CM_Status := CommunityPending, CM_InviteHash := hash,
                 CM_InviteLink := ''https://t.me/+'' @ take 16 hash, CM_ValidationWindowSec := 86400\<rparr>) (cs_db s)
           in (r, s\<lparr>cs_db := db\<rparr>))"

definition check_msg :: "uuid \<Rightarrow> uuid \<Rightarrow> string \<Rightarrow> json_obj" where
  "check_msg participantID communityID campaignID =
     [(''participant_id'', JStr participantID), (''community_id'', JStr communityID), (''campaign_id'', JStr campaignID)]"

text \<open>The goroutine that waits for the validation window is a timer.\<close>

definition HandleJoin :: "cm_cfg \<Rightarrow> io \<Rightarrow> int64 \<Rightarrow> uuid \<Rightarrow> string \<Rightarrow> community_svc \<Rightarrow> community_svc" where
  "HandleJoin cfg io telegramID communityID campaignID s =
     (case fst (FindCommunityByID (io_flt io 0) communityID (cs_db s)) of
        None \<Rightarrow> s
      | Some community \<Rightarrow>
          (if CM_Status community \<noteq> CommunityActive then s
           else case cc_ParseUUID cfg campaignID of
                  None \<Rightarrow> s
                | Some campID \<Rightarrow>
                    (if fst (FindParticipant (io_flt io 1) campID telegramID (cs_db s)) \<noteq> None then s
                     else case RecordParticipant (io_shift 2 io) (zero_participant\<lparr>CP_CampaignID := campID, CP_CommunityID := communityID,
                                 CP_TelegramID := telegramID, CP_JoinedAt := io_now io 0, CP_Status := ''pending''\<rparr>) (cs_db s) of
                            (Inl _, db) \<Rightarrow> s\<lparr>cs_db := db\<rparr>
                          | (Inr p, db) \<Rightarrow>
                              (let s1 = s\<lparr>cs_db := IncrementMemberCount (io_flt io 3) communityID db\<rparr>
                               in s1\<lparr>cs_timers := cs_timers s1 @
                                    [(io_now io 0 + wrap64 (CM_ValidationWindowSec community * 1000000000), check_msg (CP_ID p) communityID campaignID)]\<rparr>))))"

definition fire_timers :: "time \<Rightarrow> community_svc \<Rightarrow> community_svc" where
  "fire_timers now s =
     fold (\<lambda>(_, m). cs_pub ''membership.validate_check'' m) (filter (\<lambda>(t, _). t \<le> now) (cs_timers s))
       (s\<lparr>cs_timers := filter (\<lambda>(t, _). \<not> t \<le> now) (cs_timers s)\<rparr>)"

definition ConfirmValidation :: "cm_cfg \<Rightarrow> io \<Rightarrow> string \<Rightarrow> bool \<Rightarrow> community_svc \<Rightarrow> (go_error + unit) \<times> community_svc" where
  "ConfirmValidation cfg io participantIDStr isValid s =
     (case cc_ParseUUID cfg participantIDStr of
        None \<Rightarrow> (Inl (Sentinel ''invalid UUID''), s)
      | Some participantID \<Rightarrow>
          (if \<not> isValid then (let (r, db) = InvalidateParticipant io participantID (cs_db s) in (r, s\<lparr>cs_db := db\<rparr>))
           else (Inr (), cs_pub ''membership.validated'' [(''participant_id'', JStr participantIDStr), (''validated_at'', JInt (go_div (io_now io 1) 1000000000))]
                  (on_cs_db (\<lambda>db. snd (ValidateParticipant io participantID db)) s))))"

definition cs_revenueMultiplier :: "int64 \<Rightarrow> f64" where
  "cs_revenueMultiplier score =
     (if 80 \<le> score then Fin 1 else if 50 \<le> score then rnd (8 / 10) else if 30 \<le> score then rnd (1 / 2) else Fin 0)"

definition scored_members :: "MemberActivity list \<Rightarrow> (int64 \<times> int64) list" where
  "scored_members ms = filter (\<lambda>(_, s). 0 < s) (map (\<lambda>m. (AV_TelegramID m, CalcActivityScore m)) ms)"

fun pay_members :: "cm_cfg \<Rightarrow> (nat \<Rightarrow> io) \<Rightarrow> CommunityRevenue \<Rightarrow> uuid \<Rightarrow> int64 \<Rightarrow> f64 \<Rightarrow> (int64 \<times> int64) list \<Rightarrow> community_svc \<Rightarrow> community_svc" where
  "pay_members cfg ios rv communityID totalScore pool [] s = s"
| "pay_members cfg ios rv communityID totalScore pool ((uid, sc) # ms) s =
     (let share = f64_mul (f64_quot (f64_of_int sc) (f64_of_int totalScore)) pool
      in if f64_lt share (rnd (1 / 10000)) then pay_members cfg (\<lambda>k. ios (Suc k)) rv communityID totalScore pool ms s
         else pay_members cfg (\<lambda>k. ios (Suc k)) rv communityID totalScore pool ms
                (on_cs_db (CreateDistribution (ios 0) \<lparr>CD_ID = uuid_Nil, CD_RevenueID = CR_ID rv, CD_CommunityID = communityID, CD_TelegramID = uid,
                    CD_Amount = num_in (cc_dec cfg) share, CD_ActivityScore = sc, CD_Status = ''paid''\<rparr>)
                  (cs_pub ''earning.created'' [(''type'', JStr ''member_reward''), (''owner_telegram_id'', JInt uid),
                     (''total_nano'', JInt (f64_to_int (f64_mul share (Fin 1000000000)))), (''ref_id'', JStr (CR_ID rv @ ''_m_'' @ fmt_d uid)),
                     (''description'', JStr (utf8 [216, 179, 217, 135, 217, 133, 32, 216, 167, 216, 185, 216, 182, 216, 167, 32, 216, 167, 216, 178, 32, 216, 175, 216, 177, 216, 162, 217, 133, 216, 175, 32, 218, 169, 217, 133, 217, 190, 219, 140, 217, 134]))] s)))"

definition distributeMemberRewards :: "cm_cfg \<Rightarrow> (nat \<Rightarrow> io) \<Rightarrow> CommunityRevenue \<Rightarrow> Community \<Rightarrow> f64 \<Rightarrow> community_svc \<Rightarrow> community_svc" where
  "distributeMemberRewards cfg ios rv community pool s =
     (let members = GetActiveMembers (ios 0) (CM_TelegramID community) (AddDays (io_now (ios 0) 0) (-30)) (cs_mongo s);
          ms = scored_members members;
          totalScore = sum_list (map snd ms)
      in if members = [] then s
         else if totalScore = 0 then s
         else pay_members cfg (\<lambda>k. ios (Suc k)) rv (CM_ID community) totalScore pool ms s)"

definition share_of :: "f64 \<Rightarrow> f64 \<Rightarrow> f64 \<Rightarrow> f64" where
  "share_of amount pct factor = f64_mul (f64_mul amount (f64_div pct 100)) factor"

definition DistributeRevenue :: "cm_cfg \<Rightarrow> io \<Rightarrow> (nat \<Rightarrow> io) \<Rightarrow> uuid \<Rightarrow> community_svc \<Rightarrow> (go_error + unit) \<times> community_svc" where
  "DistributeRevenue cfg io ios revenueID s =
     (case fst (FindRevenue (io_flt io 0) revenueID (cs_db s)) of
        None \<Rightarrow> (Inl (Errorf ''revenue not found'' []), s)
      | Some rv \<Rightarrow>
          (if CR_Status rv \<noteq> ''pending'' then (Inr (), s)
           else case fst (FindCommunityByID (io_flt io 1) (CR_CommunityID rv) (cs_db s)) of
                  None \<Rightarrow> (Inl (Errorf ''community not found'' []), s)
                | Some community \<Rightarrow>
                    (let factor = cs_revenueMultiplier (CM_QualityScore community);
                         (ownerPct, membersPct, platformPct) = RevenuePercentages community;
                         amount = num_out (CR_TotalAmount rv);
                         ownerAmt = share_of amount ownerPct factor;
                         membersAmt = share_of amount membersPct factor;
                         platformAmt = share_of amount platformPct factor;
                         s1 = (if f64_lt (Fin 0) ownerAmt
                               then cs_pub ''earning.created'' [(''type'', JStr ''ad_income''), (''community_id'', JStr (CR_CommunityID rv)),
                                      (''amount_ton'', JFloat ownerAmt), (''description'', JStr (utf8 [216, 175, 216, 177, 216, 162, 217, 133, 216, 175, 32, 218, 169, 217, 133, 217, 190, 219, 140, 217, 134]))] s else s);
                         s2 = (if f64_lt (Fin 0) membersAmt \<and> CM_Type community = CommunityGroup
                               then distributeMemberRewards cfg ios rv community membersAmt s1 else s1);
                         s3 = (if f64_lt (Fin 0) platformAmt
                               then cs_pub ''earning.created'' [(''type'', JStr ''commission''), (''amount_ton'', JFloat platformAmt)] s2 else s2);
                         s4 = on_cs_db (MarkRevenueDistributed (io_shift 2 io) revenueID) s3
                     in (Inr (), cs_pub ''community.revenue.distributed'' [(''revenue_id'', JStr revenueID), (''community_id'', JStr (CR_CommunityID rv)),
                          (''owner_amount'', JFloat ownerAmt), (''members_amount'', JFloat membersAmt), (''platform_amount'', JFloat platformAmt)] s4))))"

definition ResolveInviteLink :: "string option \<Rightarrow> string \<Rightarrow> community_svc \<Rightarrow> Community option \<times> go_error option" where
  "ResolveInviteLink flt hash s = FindCommunityByInviteHash flt hash (cs_db s)"

text \<open>A tick of \<open>RunValidationWorker\<close>.\<close>

definition validation_tick :: "io \<Rightarrow> community_svc \<Rightarrow> community_svc" where
  "validation_tick io s =
     fold (\<lambda>p. cs_pub ''membership.validate_check'' (check_msg (CP_ID p) (CP_CommunityID p) (CP_CampaignID p)))
       (ok_or [] (FindPendingValidations (io_flt io 0) (io_now io 0 - 86400000000000) (cs_db s))) s"

definition HandleLeave :: "io \<Rightarrow> int64 \<Rightarrow> int64 \<Rightarrow> community_svc \<Rightarrow> community_svc" where
  "HandleLeave io telegramID chatID s =
     (case FindCommunityByChatID (io_flt io 0) chatID (cs_db s) of
        (Some comm, None) \<Rightarrow> on_cs_db (DecrementMemberCount (io_flt io 1) (CM_ID comm)) s
      | _ \<Rightarrow> s)"

section \<open>NATS (\<open>nats_handler.go\<close>)\<close>

definition cs_onJoined :: "cm_cfg \<Rightarrow> io \<Rightarrow> json_obj \<Rightarrow> community_svc \<Rightarrow> community_svc" where
  "cs_onJoined cfg io e s =
     (case (get_int ''telegram_id'' e, get_int ''community_id'' e, get_str ''campaign_id'' e, get_str ''invite_link'' e) of
        (Some uid, Some chat, Some camp, Some _) \<Rightarrow>
          (case fst (FindCommunityByChatID (io_flt io 0) chat (cs_db s)) of
             None \<Rightarrow> s
           | Some comm \<Rightarrow>
               (let campID = (case cc_ParseUUID cfg camp of Some i \<Rightarrow> (if camp = [] then uuid_Nil else i) | None \<Rightarrow> uuid_Nil)
                in HandleJoin cfg (io_shift 1 io) uid (CM_ID comm) (if campID \<noteq> uuid_Nil then campID else []) s))
      | _ \<Rightarrow> s)"

definition cs_onLeft :: "io \<Rightarrow> json_obj \<Rightarrow> community_svc \<Rightarrow> community_svc" where
  "cs_onLeft io e s =
     (case (get_int ''telegram_id'' e, get_int ''community_id'' e) of
        (Some uid, Some chat) \<Rightarrow>
          (case fst (FindCommunityByChatID (io_flt io 0) chat (cs_db s)) of
             None \<Rightarrow> s
           | Some comm \<Rightarrow> HandleLeave (io_shift 1 io) uid (CM_TelegramID comm) s)
      | _ \<Rightarrow> s)"

definition cs_onActivity :: "io \<Rightarrow> json_obj \<Rightarrow> community_svc \<Rightarrow> community_svc" where
  "cs_onActivity io e s =
     (case (get_int ''telegram_id'' e, get_int ''community_id'' e, get_int ''messages'' e, get_int ''replies'' e, get_int ''reactions'' e) of
        (Some uid, Some chat, Some m, Some r, Some x) \<Rightarrow>
          (case fst (FindCommunityByChatID (io_flt io 0) chat (cs_db s)) of
             None \<Rightarrow> s
           | Some comm \<Rightarrow>
               (if CM_Type comm \<noteq> CommunityGroup then s
                else s\<lparr>cs_mongo := UpdateMemberActivity (io_shift 1 io) uid chat m r x (cs_mongo s)\<rparr>))
      | _ \<Rightarrow> s)"

text \<open>The field may hold the key of the community or, as text, the number of its chat.\<close>

definition revenue_community :: "cm_cfg \<Rightarrow> string option \<Rightarrow> string \<Rightarrow> cm_db \<Rightarrow> Community option" where
  "revenue_community cfg flt communityID db =
     (case cc_ParseUUID cfg communityID of
        Some i \<Rightarrow> fst (FindCommunityByID flt i db)
      | None \<Rightarrow> (case ParseInt communityID of
                   Some chat \<Rightarrow> fst (FindCommunityByChatID flt chat db)
                 | None \<Rightarrow> None))"

definition record_revenue :: "cm_cfg \<Rightarrow> io \<Rightarrow> (nat \<Rightarrow> io) \<Rightarrow> Community \<Rightarrow> uuid \<Rightarrow> f64 \<Rightarrow> int64 \<Rightarrow> community_svc \<Rightarrow> community_svc" where
  "record_revenue cfg io ios c campUUID revenueTON validJoins s =
     (case FindRevenueByCampaignCommunity (io_flt io 1) campUUID (CM_ID c) (cs_db s) of
        (Some _, None) \<Rightarrow> s
      | _ \<Rightarrow>
          (case CreateRevenue (io_shift 2 io) (zero_revenue\<lparr>CR_CommunityID := CM_ID c, CR_CampaignID := campUUID,
                  CR_TotalAmount := num_in (cc_dec cfg) revenueTON, CR_ValidJoins := validJoins\<rparr>) (cs_db s) of
             (Inl _, db) \<Rightarrow> s\<lparr>cs_db := db\<rparr>
           | (Inr rv, db) \<Rightarrow> snd (DistributeRevenue cfg (io_shift 3 io) ios (CR_ID rv) (s\<lparr>cs_db := db\<rparr>))))"

definition cs_onRevenue :: "cm_cfg \<Rightarrow> io \<Rightarrow> (nat \<Rightarrow> io) \<Rightarrow> json_obj \<Rightarrow> community_svc \<Rightarrow> community_svc" where
  "cs_onRevenue cfg io ios e s =
     (case (get_str ''community_id'' e, get_str ''campaign_id'' e, get_f64 ''revenue_ton'' e, get_int ''valid_joins'' e) of
        (Some communityID, Some campaignID, Some revenueTON, Some validJoins) \<Rightarrow>
          (if f64_le revenueTON (Fin 0) \<or> IsNaN revenueTON \<or> IsInf revenueTON \<or> validJoins < 0 then s
           else case (revenue_community cfg (io_flt io 0) communityID (cs_db s), cc_ParseUUID cfg campaignID) of
                  (Some c, Some campUUID) \<Rightarrow> record_revenue cfg io ios c campUUID revenueTON validJoins s
                | _ \<Rightarrow> s)
      | _ \<Rightarrow> s)"

definition cs_onScore :: "io \<Rightarrow> json_obj \<Rightarrow> community_svc \<Rightarrow> community_svc" where
  "cs_onScore io e s =
     (case (get_int ''community_id'' e, get_int ''score'' e) of
        (Some chat, Some score) \<Rightarrow> on_cs_db (\<lambda>db. snd (cs_UpdateCommunityScore (io_flt io 0) chat score db)) s
      | _ \<Rightarrow> s)"

definition RegisterNATSListeners :: "cm_cfg \<Rightarrow> io \<Rightarrow> (nat \<Rightarrow> io) \<Rightarrow> string \<Rightarrow> json_obj option \<Rightarrow> community_svc \<Rightarrow> community_svc" where
  "RegisterNATSListeners cfg io ios subject msg s =
     (case msg of
        None \<Rightarrow> s
      | Some e \<Rightarrow>
          (if subject = ''membership.joined'' then cs_onJoined cfg io e s
           else if subject = ''membership.left'' then cs_onLeft io e s
           else if subject = ''community.activity.updated'' then cs_onActivity io e s
           else if subject = ''campaign.revenue.generated'' then cs_onRevenue cfg io ios e s
           else if subject = ''community.score.updated'' then cs_onScore io e s
           else s))"

section \<open>REST (\<open>api.go\<close>)\<close>

record register_req =
  RG_OwnerTelegramID :: int64
  RG_ChatID :: int64
  RG_Type :: string
  RG_Name :: string
  RG_Username :: string
  RG_InviteLink :: string

datatype cm_reply =
    CmFail int
  | CmConflict uuid
  | CmCommunity int Community
  | CmSplit Community f64 f64 f64
  | CmHours int64
  | CmList "Community list"
  | CmOk

definition registerCommunity :: "io \<Rightarrow> register_req option \<Rightarrow> community_svc \<Rightarrow> cm_reply \<times> community_svc" where
  "registerCommunity io body s =
     (case body of
        None \<Rightarrow> (CmFail 400, s)
      | Some req \<Rightarrow>
          (if RG_OwnerTelegramID req = 0 \<or> RG_ChatID req = 0 \<or> RG_Type req = [] \<or> RG_Name req = [] then (CmFail 400, s)
           else case fst (FindCommunityByChatID (io_flt io 0) (RG_ChatID req) (cs_db s)) of
                  Some existing \<Rightarrow> (CmConflict (CM_ID existing), s)
                | None \<Rightarrow>
                    (case CreateCommunity (io_shift 1 io) (zero_community\<lparr>CM_TelegramID := RG_ChatID req, CM_Type := RG_Type req, CM_Name := RG_Name req,
                             CM_Username := RG_Username req, CM_InviteLink := RG_InviteLink req, CM_Status := CommunityPending,
                             CM_QualityScore := 50\<rparr>) (cs_db s) of
                       (Inl _, db) \<Rightarrow> (CmFail 500, s\<lparr>cs_db := db\<rparr>)
                     | (Inr c, db) \<Rightarrow> (CmCommunity 201 c, s\<lparr>cs_db := db\<rparr>))))"

definition getCommunity :: "cm_cfg \<Rightarrow> io \<Rightarrow> string \<Rightarrow> community_svc \<Rightarrow> cm_reply" where
  "getCommunity cfg io param s =
     (case cc_ParseUUID cfg param of
        None \<Rightarrow> CmFail 400
      | Some i \<Rightarrow>
          (case fst (FindCommunityByID (io_flt io 0) i (cs_db s)) of
             None \<Rightarrow> CmFail 404
           | Some c \<Rightarrow> (if CM_Type c = CommunityGroup then CmSplit c (Fin 50) (Fin 40) (Fin 10) else CmSplit c (Fin 90) (Fin 0) (Fin 10))))"

definition getCommunityByChatID :: "io \<Rightarrow> string \<Rightarrow> community_svc \<Rightarrow> cm_reply" where
  "getCommunityByChatID io param s =
     (case fst (FindCommunityByChatID (io_flt io 0) (ParseInt_value param) (cs_db s)) of
        None \<Rightarrow> CmFail 404
      | Some c \<Rightarrow> CmCommunity 200 c)"

definition uuid_or_nil :: "cm_cfg \<Rightarrow> string \<Rightarrow> uuid" where
  "uuid_or_nil cfg t = (case cc_ParseUUID cfg t of None \<Rightarrow> uuid_Nil | Some i \<Rightarrow> i)"

definition setValidationWindow :: "cm_cfg \<Rightarrow> io \<Rightarrow> string \<Rightarrow> int64 option \<Rightarrow> community_svc \<Rightarrow> cm_reply \<times> community_svc" where
  "setValidationWindow cfg io param body s =
     (case body of
        None \<Rightarrow> (CmFail 400, s)
      | Some hours \<Rightarrow> (CmHours hours, on_cs_db (UpdateValidationWindow (io_flt io 0) (uuid_or_nil cfg param) (wrap64 (hours * 3600))) s))"

definition listOwnerCommunities :: "(Community \<Rightarrow> int64) \<Rightarrow> io \<Rightarrow> string \<Rightarrow> community_svc \<Rightarrow> cm_reply" where
  "listOwnerCommunities owner_telegram_id io param s =
     CmList (ok_or [] (ListCommunitiesByOwner owner_telegram_id (io_flt io 0) (ParseInt_value param) (cs_db s)))"

definition listPendingCommunities :: "io \<Rightarrow> community_svc \<Rightarrow> cm_reply" where
  "listPendingCommunities io s = CmList (ok_or [] (ListPendingCommunities (io_flt io 0) (cs_db s)))"

definition approveCommunity :: "cm_cfg \<Rightarrow> io \<Rightarrow> string \<Rightarrow> community_svc \<Rightarrow> cm_reply \<times> community_svc" where
  "approveCommunity cfg io param s = (CmOk, on_cs_db (UpdateCommunityStatus (io_flt io 0) (uuid_or_nil cfg param) CommunityActive) s)"

definition rejectCommunity :: "cm_cfg \<Rightarrow> io \<Rightarrow> string \<Rightarrow> community_svc \<Rightarrow> cm_reply \<times> community_svc" where
  "rejectCommunity cfg io param s = (CmOk, on_cs_db (UpdateCommunityStatus (io_flt io 0) (uuid_or_nil cfg param) CommunityRejected) s)"

text \<open>
  The goroutine works with the context of the request, which ends with the answer: its statements may
  fail at any point. It takes the id of the community for that of a revenue.
\<close>

definition triggerDistribute :: "cm_cfg \<Rightarrow> io \<Rightarrow> (nat \<Rightarrow> io) \<Rightarrow> string option \<Rightarrow> community_svc \<Rightarrow> cm_reply \<times> community_svc" where
  "triggerDistribute cfg io ios body s =
     (case body of
        None \<Rightarrow> (CmFail 400, s)
      | Some communityID \<Rightarrow> (CmOk, snd (DistributeRevenue cfg io ios (uuid_or_nil cfg communityID) s)))"

datatype cm_request =
    PostRegister "register_req option"
  | GetByID string
  | GetByChat string
  | PostWindow string "int64 option"
  | GetOwner string
  | GetPending
  | PostApprove string
  | PostReject string
  | PostDistribute "string option"

definition cs_authMiddleware :: "cm_cfg \<Rightarrow> string \<Rightarrow> (community_svc \<Rightarrow> cm_reply \<times> community_svc) \<Rightarrow> community_svc \<Rightarrow> cm_reply \<times> community_svc" where
  "cs_authMiddleware cfg adminKey next s = (if adminKey \<noteq> cc_adminKey cfg then (CmFail 401, s) else next s)"

definition cs_Register :: "cm_cfg \<Rightarrow> (Community \<Rightarrow> int64) \<Rightarrow> io \<Rightarrow> (nat \<Rightarrow> io) \<Rightarrow> string \<Rightarrow> cm_request \<Rightarrow> community_svc \<Rightarrow> cm_reply \<times> community_svc" where
  "cs_Register cfg owner_telegram_id io ios adminKey req s =
     (case req of
        PostRegister b \<Rightarrow> registerCommunity io b s
      | GetByID p \<Rightarrow> (getCommunity cfg io p s, s)
      | GetByChat p \<Rightarrow> (getCommunityByChatID io p s, s)
      | PostWindow p b \<Rightarrow> setValidationWindow cfg io p b s
      | GetOwner p \<Rightarrow> (listOwnerCommunities owner_telegram_id io p s, s)
      | GetPending \<Rightarrow> cs_authMiddleware cfg adminKey (\<lambda>s. (listPendingCommunities io s, s)) s
      | PostApprove p \<Rightarrow> cs_authMiddleware cfg adminKey (approveCommunity cfg io p) s
      | PostReject p \<Rightarrow> cs_authMiddleware cfg adminKey (rejectCommunity cfg io p) s
      | PostDistribute b \<Rightarrow> cs_authMiddleware cfg adminKey (triggerDistribute cfg io ios b) s)"

section \<open>Steps of the process (\<open>cmd/main.go\<close>)\<close>

datatype cm_event = CmHTTP string cm_request | CmNATS string "json_obj option" | CmTick | CmTimers

definition cm_step :: "cm_cfg \<Rightarrow> (Community \<Rightarrow> int64) \<Rightarrow> io \<Rightarrow> (nat \<Rightarrow> io) \<Rightarrow> cm_event \<Rightarrow> community_svc \<Rightarrow> community_svc" where
  "cm_step cfg owner_telegram_id io ios ev s =
     (case ev of
        CmHTTP k req \<Rightarrow> snd (cs_Register cfg owner_telegram_id io ios k req s)
      | CmNATS subject msg \<Rightarrow> RegisterNATSListeners cfg io ios subject msg s
      | CmTick \<Rightarrow> validation_tick io s
      | CmTimers \<Rightarrow> fire_timers (io_now io 0) s)"

end
