(* ===== verification/CommunityProps.thy ===== *)
theory CommunityProps
  imports Community Revenue
begin

text \<open>
  What the parts of \<open>community-service\<close> do together and beside \<open>revenue-service\<close>: why no community is ever
  registered, that a distribution reaches nobody, and that a pair of campaign and community is distributed once.
\<close>

section \<open>What an operation publishes and keeps\<close>

named_theorems community_simps

lemmas [community_simps] =
  set_communities_def UpdateValidationWindow_def UpdateCommunityStatus_def DecrementMemberCount_def IncrementMemberCount_def
  MarkRevenueDistributed_def cs_UpdateCommunityScore_def on_cs_db_def find_row_def

text \<open>There is no column \<open>chat_id\<close>: the lookup fails and its row is the zero row.\<close>

lemma FindCommunityByChatID_zero: "FindCommunityByChatID flt chat db = (Some zero_community, snd (FindCommunityByChatID flt chat db))"
  "snd (FindCommunityByChatID flt chat db) \<noteq> None"
  by (auto simp: FindCommunityByChatID_def sql_def community_columns_def find_row_def stmt_def split: option.splits sum.splits)

lemma fst_FindCommunityByChatID [community_simps]: "fst (FindCommunityByChatID flt chat db) = Some zero_community"
  by (subst FindCommunityByChatID_zero) simp

lemma HandleLeave_none [community_simps]: "HandleLeave io uid chat s = s"
  using FindCommunityByChatID_zero(2) [of "io_flt io 0" chat "cs_db s"]
  by (auto simp: HandleLeave_def split: prod.splits option.splits)

lemma UpdateCommunityScore_none [community_simps]: "snd (cs_UpdateCommunityScore flt chat score db) = db"
  by (auto simp: cs_UpdateCommunityScore_def sql_def community_columns_def stmt_def split: option.splits sum.splits)

lemma registerCommunity_refused [community_simps]: "snd (registerCommunity io body s) = s"
  by (auto simp: registerCommunity_def fst_FindCommunityByChatID split: option.splits)

lemma cs_pub_keeps [simp]: "cs_db (cs_pub subj m s) = cs_db s" "cs_mongo (cs_pub subj m s) = cs_mongo s"
  "cs_timers (cs_pub subj m s) = cs_timers s"
  by (simp_all add: cs_pub_def)

lemma cs_bus_pub: "cs_bus (cs_pub subj m s) = cs_bus s @ (if json_encodes m then [(subj, m)] else [])"
  by (simp add: cs_pub_def)

lemma on_cs_db_keeps [simp]: "cs_db (on_cs_db f s) = f (cs_db s)" "cs_mongo (on_cs_db f s) = cs_mongo s" "cs_bus (on_cs_db f s) = cs_bus s"
  "cs_timers (on_cs_db f s) = cs_timers s"
  by (simp_all add: on_cs_db_def)

lemma MarkRevenueDistributed_keeps [simp]: "communities (MarkRevenueDistributed io i db) = communities db"
  "participants (MarkRevenueDistributed io i db) = participants db" "distributions (MarkRevenueDistributed io i db) = distributions db"
  by (simp_all add: MarkRevenueDistributed_def split: option.splits)

lemma distributeMemberRewards_unconfigured: "cs_mongo s = None \<Longrightarrow> distributeMemberRewards cfg ios rv c pool s = s"
  by (simp add: distributeMemberRewards_def GetActiveMembers_def)

text \<open>Messages a distribution adds to the bus when no activity is stored: two earnings at most, and the report.\<close>

definition unpayable :: "string \<times> json_obj \<Rightarrow> bool" where
  "unpayable m \<longleftrightarrow> fst m \<noteq> ''earning.created'' \<or> map_of (snd m) ''total_nano'' = None"

lemma DistributeRevenue_bus:
  assumes "cs_mongo s = None"
  obtains new where "cs_bus (snd (DistributeRevenue cfg io ios i s)) = cs_bus s @ new" "list_all unpayable new"
proof -
  have grow: "\<exists>new. cs_bus (cs_pub subj m x) = cs_bus s @ new \<and> list_all unpayable new"
    if "\<exists>new. cs_bus x = cs_bus s @ new \<and> list_all unpayable new" "unpayable (subj, m)" for subj m and x :: community_svc
    using that by (auto simp: cs_bus_pub)
  have "\<exists>new. cs_bus (snd (DistributeRevenue cfg io ios i s)) = cs_bus s @ new \<and> list_all unpayable new"
    by (auto simp: DistributeRevenue_def Let_def distributeMemberRewards_unconfigured assms unpayable_def
        split: option.splits prod.splits intro!: grow)
  then show ?thesis using that by blast
qed

lemma DistributeRevenue_rows:
  assumes "cs_mongo s = None"
  shows "cs_db (snd (DistributeRevenue cfg io ios i s)) \<in> {cs_db s, MarkRevenueDistributed (io_shift 2 io) i (cs_db s)}"
    "cs_mongo (snd (DistributeRevenue cfg io ios i s)) = None" "cs_timers (snd (DistributeRevenue cfg io ios i s)) = cs_timers s"
  by (auto simp: DistributeRevenue_def Let_def distributeMemberRewards_unconfigured assms split: option.splits prod.splits)

section \<open>No community is ever registered\<close>

definition cs_started :: community_svc where  \<comment> \<open>\<open>store.New(db, nil)\<close> on fresh tables\<close>
  "cs_started = \<lparr>cs_db = \<lparr>communities = [], participants = [], revenues = [], distributions = []\<rparr>, cs_mongo = None, cs_bus = [], cs_timers = []\<rparr>"

definition cm_history :: "cm_cfg \<Rightarrow> (Community \<Rightarrow> int64) \<Rightarrow> community_svc \<Rightarrow> community_svc \<Rightarrow> bool" where
  "cm_history cfg otid s s' \<longleftrightarrow> (\<exists>io ios ev. s' = cm_step cfg otid io ios ev s)"

definition inert :: "community_svc \<Rightarrow> bool" where
  "inert s \<longleftrightarrow> communities (cs_db s) = [] \<and> participants (cs_db s) = [] \<and> distributions (cs_db s) = [] \<and> cs_mongo s = None \<and> cs_timers s = [] \<and>
     (\<forall>m \<in> set (cs_bus s). fst m = ''community.revenue.distributed'')"

lemma no_community:
  assumes "communities db = []" "fst (FindCommunityByID flt i db) = Some c"
  shows "c = zero_community"
  using assms by (auto simp: FindCommunityByID_def First_or_nil_def First_row_def find_row_def stmt_def split: option.splits)

lemma share_of_factor_0: "share_of a p (Fin 0) \<in> {NaN, Fin 0}"
  by (cases "f64_mul a (f64_div p 100)") (auto simp: share_of_def rnd_def)

lemma zero_community_share: "\<not> f64_lt (Fin 0) (share_of a p (cs_revenueMultiplier (CM_QualityScore zero_community)))"
  using share_of_factor_0 [of a p] by (auto simp: cs_revenueMultiplier_def zero_community_def)

lemma DistributeRevenue_inert:
  assumes "inert s"
  shows "inert (snd (DistributeRevenue cfg io ios i s))"
  using assms
  by (auto simp: inert_def DistributeRevenue_def Let_def cs_bus_pub zero_community_share split: option.splits prod.splits if_splits
      dest!: no_community)

lemma HandleJoin_inert: "communities (cs_db s) = [] \<Longrightarrow> HandleJoin cfg io uid i camp s = s"
  by (auto simp: HandleJoin_def zero_community_def split: option.splits dest!: no_community)

lemma CreateRevenue_rows: "communities (snd (CreateRevenue io r db)) = communities db" "participants (snd (CreateRevenue io r db)) = participants db"
  "distributions (snd (CreateRevenue io r db)) = distributions db"
  by (auto simp: CreateRevenue_def Let_def split: option.splits)

lemma cs_onRevenue_keeps:
  assumes "P s" "\<And>c camp ton joins. P (record_revenue cfg io ios c camp ton joins s)"
  shows "P (cs_onRevenue cfg io ios e s)"
  using assms by (auto simp: cs_onRevenue_def split: option.split)

lemma record_revenue_inert:
  assumes s: "inert s"
  shows "inert (record_revenue cfg io ios c camp ton joins s)"
proof -
  have new: "inert (s\<lparr>cs_db := db\<rparr>)" if "CreateRevenue io' r (cs_db s) = (x, db)" for io' r x db
    using s CreateRevenue_rows [of io' r "cs_db s"] that by (simp add: inert_def)
  show ?thesis
    by (auto simp: record_revenue_def s split: option.splits prod.splits sum.splits intro!: DistributeRevenue_inert new)
qed

text \<open>The other listeners begin with the lookup by chat, and stop there.\<close>

lemma cs_onJoined_inert: "communities (cs_db s) = [] \<Longrightarrow> cs_onJoined cfg io e s = s"
  by (simp add: cs_onJoined_def fst_FindCommunityByChatID HandleJoin_inert Let_def split: option.split)

lemma cs_onLeft_none: "cs_onLeft io e s = s"
  by (simp add: cs_onLeft_def fst_FindCommunityByChatID HandleLeave_none split: option.split)

lemma cs_onActivity_none: "cs_onActivity io e s = s"
  by (simp add: cs_onActivity_def fst_FindCommunityByChatID zero_community_def split: option.split)

lemma cs_onScore_none: "cs_onScore io e s = s"
  by (simp add: cs_onScore_def on_cs_db_def UpdateCommunityScore_none split: option.split)

lemma NATS_inert: "inert s \<Longrightarrow> inert (RegisterNATSListeners cfg io ios subject msg s)"
  by (cases msg) (simp_all add: RegisterNATSListeners_def cs_onJoined_inert cs_onLeft_none cs_onActivity_none cs_onScore_none inert_def [of s]
      cs_onRevenue_keeps [of inert] record_revenue_inert)

lemma set_communities_inert: "communities db = [] \<Longrightarrow> set_communities flt P f db = db"
  by (simp add: set_communities_def rows_set_def split: option.split)

lemma HTTP_inert: "inert s \<Longrightarrow> inert (snd (cs_Register cfg otid io ios k req s))"
  by (cases req) (auto simp: cs_Register_def registerCommunity_refused setValidationWindow_def cs_authMiddleware_def approveCommunity_def
      rejectCommunity_def triggerDistribute_def on_cs_db_def UpdateValidationWindow_def UpdateCommunityStatus_def set_communities_inert
      DistributeRevenue_inert inert_def [of s] split: option.split)

lemma tick_inert: "inert s \<Longrightarrow> inert (validation_tick io s)"
  by (simp add: validation_tick_def FindPendingValidations_def stmt_def ok_or_def inert_def split: option.split)

lemma timers_inert: "inert s \<Longrightarrow> inert (fire_timers now s)"
  by (simp add: fire_timers_def inert_def)

interpretation no_registration: step_invariant "cm_history cfg otid" inert for cfg otid
proof
  fix s s' assume "cm_history cfg otid s s'" and s: "inert s"
  then obtain io ios ev where s': "s' = cm_step cfg otid io ios ev s" by (auto simp: cm_history_def)
  show "inert s'" unfolding s' by (cases ev) (simp_all add: cm_step_def HTTP_inert NATS_inert tick_inert timers_inert s)
qed

text \<open>
  (C30) In every history of the process on fresh tables no community is registered, no participant or distribution recorded
  and no earning published, whatever is requested, received or awaited: a well-formed registration is answered as a conflict
  with the community of the zero key. The lookup that guards the registration names a column that does not exist, and
  its error is discarded together with the distinction between a row and none.
\<close>

theorem community_service_inert:
  assumes "(cm_history cfg otid)\<^sup>*\<^sup>* cs_started s"
  shows "communities (cs_db s) = [] \<and> participants (cs_db s) = [] \<and> distributions (cs_db s) = [] \<and>
    (\<forall>m \<in> set (cs_bus s). fst m \<noteq> ''earning.created'') \<and>
    fst (registerCommunity io (Some req) s) \<in> {CmFail 400, CmConflict uuid_Nil}"
proof -
  have "inert s" using assms no_registration.run_keeps [of cfg otid cs_started s] by (simp add: inert_def cs_started_def)
  moreover have "fst (registerCommunity io (Some req) s) \<in> {CmFail 400, CmConflict uuid_Nil}"
    by (simp add: registerCommunity_def fst_FindCommunityByChatID) (simp add: zero_community_def)
  ultimately show ?thesis by (auto simp: inert_def)
qed

text \<open>A configuration for concrete runs; a UUID is recognised by its length.\<close>

definition cm_demo :: cm_cfg where
  "cm_demo = \<lparr>cc_dec = (\<lambda>x. case x of Fin q \<Rightarrow> q | _ \<Rightarrow> 0), cc_ParseUUID = (\<lambda>t. if length t = 36 then Some t else None), cc_sha16 = (\<lambda>t. t),
     cc_adminKey = ''key''\<rparr>"

definition cm_uuid :: "nat \<Rightarrow> uuid" where
  "cm_uuid n = ''aaaaaaaa-0000-4000-8000-00000000000'' @ [char_of (48 + n mod 10)]"

definition cm_io :: io where
  "cm_io = \<lparr>io_flt = (\<lambda>_. None), io_now = (\<lambda>_. 1000), io_uuid = (\<lambda>_. cm_uuid 7)\<rparr>"

definition cm_req :: register_req where
  "cm_req = \<lparr>RG_OwnerTelegramID = 5, RG_ChatID = 77, RG_Type = CommunityGroup, RG_Name = ''chess'', RG_Username = [], RG_InviteLink = []\<rparr>"

theorem community_service_inert_witness:
  "communities (cs_db (cm_step cm_demo CM_TelegramID cm_io (\<lambda>_. cm_io) (CmHTTP [] (PostRegister (Some cm_req))) cs_started)) = []"
  using community_service_inert [OF r_into_rtranclp, of cm_demo CM_TelegramID
      "cm_step cm_demo CM_TelegramID cm_io (\<lambda>_. cm_io) (CmHTTP [] (PostRegister (Some cm_req))) cs_started"]
  unfolding cm_history_def by blast

section \<open>What a distribution pays\<close>

text \<open>Decoding an \<open>EarningEvent\<close> from the bus.\<close>

definition earning_of_json :: "json_obj \<Rightarrow> EarningEvent option" where
  "earning_of_json e =
     (case (get_str ''type'' e, get_int ''owner_telegram_id'' e, get_int ''total_nano'' e, get_str ''bot_id'' e, get_str ''ref_id'' e, get_str ''description'' e) of
        (Some ty, Some owner, Some nano, Some bot_id, Some ref, Some desc) \<Rightarrow>
          Some \<lparr>EE_Type = ty, EE_OwnerTelegramID = owner, EE_TotalNano = nano, EE_BotID = bot_id, EE_RefID = ref, EE_Description = desc\<rparr>
      | _ \<Rightarrow> None)"

definition rev_deliver :: "'w rev_env \<Rightarrow> string \<times> json_obj \<Rightarrow> 'w rev_state \<Rightarrow> 'w rev_state" where
  "rev_deliver env m st = (if fst m = ''earning.created'' then onEarningCreated env (earning_of_json (snd m)) st else st)"

lemma rev_deliver_unpayable: "unpayable m \<Longrightarrow> rev_deliver env m st = st"
  by (auto simp: unpayable_def rev_deliver_def earning_of_json_def get_int_def onEarningCreated_def CreateAndProcess_def split: option.split)

lemma FindRevenue_status:
  "fst (FindRevenue flt i db) = Some rv \<Longrightarrow> CR_Status rv = ''pending'' \<Longrightarrow> rv \<in> set (revenues db) \<and> CR_ID rv = i"
  by (auto simp: FindRevenue_def find_row_def First_or_nil_def stmt_def zero_revenue_def split: option.splits dest: First_row_Some)

text \<open>The share of the owner, and that it is announced when it is positive and finite.\<close>

definition owner_amount :: "CommunityRevenue \<Rightarrow> Community \<Rightarrow> f64" where
  "owner_amount rv c = share_of (num_out (CR_TotalAmount rv)) (fst (RevenuePercentages c)) (cs_revenueMultiplier (CM_QualityScore c))"

lemma DistributeRevenue_announces:
  assumes "fst (FindRevenue (io_flt io 0) i (cs_db s)) = Some rv" "CR_Status rv = ''pending''"
    "fst (FindCommunityByID (io_flt io 1) (CR_CommunityID rv) (cs_db s)) = Some c" "cs_mongo s = None"
    "f64_lt (Fin 0) (owner_amount rv c)" "\<not> IsInf (owner_amount rv c)"
  shows "\<exists>m. (''earning.created'', m) \<in> set (drop (length (cs_bus s)) (cs_bus (snd (DistributeRevenue cfg io ios i s)))) \<and>
           map_of m ''amount_ton'' = Some (JFloat (owner_amount rv c))"
proof -
  obtain p q r where pc: "RevenuePercentages c = (p, q, r)" using prod_cases3 by blast
  have nan: "\<not> IsNaN (owner_amount rv c)" using assms(5) by (auto simp: IsNaN_def)
  show ?thesis
    using assms pc nan
    by (intro exI [of _ "[(''type'', JStr ''ad_income''), (''community_id'', JStr (CR_CommunityID rv)), (''amount_ton'', JFloat (owner_amount rv c)),
          (''description'', JStr (utf8 [216, 175, 216, 177, 216, 162, 217, 133, 216, 175, 32, 218, 169, 217, 133, 217, 190, 219, 140, 217, 134]))]"])
      (simp add: DistributeRevenue_def Let_def owner_amount_def cs_bus_pub json_encodes_def distributeMemberRewards_unconfigured)
qed

lemma MarkRevenueDistributed_marks:
  assumes "io_flt io 2 = None"
  shows "\<forall>r \<in> set (revenues (MarkRevenueDistributed (io_shift 2 io) i db)). CR_ID r = i \<longrightarrow> CR_Status r = ''distributed''"
proof -
  have "io_flt (io_shift 2 io) 0 = None" using assms by (simp add: io_shift_def numeral_2_eq_2)
  then show ?thesis by (simp add: MarkRevenueDistributed_def rows_set_def ball_Un)
qed

lemma DistributeRevenue_marks:
  assumes "fst (FindRevenue (io_flt io 0) i (cs_db s)) = Some rv" "CR_Status rv = ''pending''"
    "fst (FindCommunityByID (io_flt io 1) (CR_CommunityID rv) (cs_db s)) = Some c" "cs_mongo s = None"
  shows "cs_db (snd (DistributeRevenue cfg io ios i s)) = MarkRevenueDistributed (io_shift 2 io) i (cs_db s)"
  using assms by (simp add: DistributeRevenue_def Let_def distributeMemberRewards_unconfigured split: prod.split)

text \<open>
  (C28) In the configuration of the process (no store of activity) a pending revenue that is distributed is marked so and the
  positive share of the owner is announced, but whatever state \<open>revenue-service\<close> is in, and however its own database and
  botpay behave, the messages change nothing there: they carry \<open>amount_ton\<close> where it reads \<open>total_nano\<close>, and an
  earning of zero is refused. The row is never distributed again, and nobody is paid.
\<close>

theorem distributed_without_payment:
  assumes "fst (FindRevenue (io_flt io 0) i (cs_db s)) = Some rv" "CR_Status rv = ''pending''"
    "fst (FindCommunityByID (io_flt io 1) (CR_CommunityID rv) (cs_db s)) = Some c" "io_flt io 2 = None" "cs_mongo s = None"
    "f64_lt (Fin 0) (owner_amount rv c)" "\<not> IsInf (owner_amount rv c)"
    and s'_def: "s' = snd (DistributeRevenue cfg io ios i s)" and new_def: "new = drop (length (cs_bus s)) (cs_bus s')"
  shows "(\<exists>m. (''earning.created'', m) \<in> set new \<and> map_of m ''amount_ton'' = Some (JFloat (owner_amount rv c))) \<and>
    (\<forall>r \<in> set (revenues (cs_db s')). CR_ID r = i \<longrightarrow> CR_Status r = ''distributed'') \<and>
    fold (\<lambda>(env, m). rev_deliver env m) (zip envs new) st = st"
proof (intro conjI)
  show "\<exists>m. (''earning.created'', m) \<in> set new \<and> map_of m ''amount_ton'' = Some (JFloat (owner_amount rv c))"
    unfolding new_def s'_def using assms(1,2,3,5,6,7) by (rule DistributeRevenue_announces)
  show "\<forall>r \<in> set (revenues (cs_db s')). CR_ID r = i \<longrightarrow> CR_Status r = ''distributed''"
    unfolding s'_def DistributeRevenue_marks [OF assms(1,2,3,5)] by (rule MarkRevenueDistributed_marks) (rule assms(4))
  have "list_all unpayable new"
    using DistributeRevenue_bus [OF assms(5), of cfg io ios i] by (metis append_eq_conv_conj new_def s'_def)
  then show "fold (\<lambda>(env, m). rev_deliver env m) (zip envs new) st = st"
  proof (induction new arbitrary: envs)
    case (Cons m new)
    then show ?case by (cases envs) (simp_all add: rev_deliver_unpayable)
  qed simp
qed

definition cm_group :: Community where
  "cm_group = zero_community\<lparr>CM_ID := cm_uuid 1, CM_Type := CommunityGroup, CM_Status := CommunityActive, CM_QualityScore := 90\<rparr>"

definition cm_revenue :: CommunityRevenue where
  "cm_revenue = zero_revenue\<lparr>CR_ID := cm_uuid 2, CR_CommunityID := cm_uuid 1, CR_CampaignID := cm_uuid 3, CR_TotalAmount := Fin 200, CR_Status := ''pending''\<rparr>"

definition cm_state :: community_svc where
  "cm_state = cs_started\<lparr>cs_db := \<lparr>communities = [cm_group], participants = [], revenues = [cm_revenue], distributions = []\<rparr>\<rparr>"

lemma cm_owner_amount: "\<exists>q > 0. owner_amount cm_revenue cm_group = Fin q"
proof -
  define h where "h = rnd_val (1 / 2)"
  have "\<bar>h - 1 / 2\<bar> \<le> 1 / 16" unfolding h_def by (rule rnd_val_small) simp
  then have h: "7 / 16 \<le> h" "h \<le> 9 / 16" by linarith+
  have two: "rnd 200 = Fin 200" "rnd 0 = Fin 0" using f64_of_int_exact [of 200] f64_of_int_exact [of 0] by (simp_all add: f64_of_int_def)
  have half: "rnd (1 / 2) = Fin h" unfolding h_def by (rule rnd_small) simp
  define k where "k = rnd_val (200 * h)"
  have "\<bar>200 * h\<bar> = 200 * h" using h(1) by simp
  then have b: "\<bar>200 * h\<bar> < 2 ^ 50" using h(2) by simp
  have k: "\<bar>k - 200 * h\<bar> \<le> 1 / 16" "rnd (200 * h) = Fin k" unfolding k_def by (rule rnd_val_small [OF b], rule rnd_small [OF b])
  then have "1 < k" "k < 200" using h by linarith+
  then have kb: "\<bar>k\<bar> < 2 ^ 50" "1 < k" by simp_all
  have "\<bar>rnd_val k - k\<bar> \<le> 1 / 16" and fin: "rnd k = Fin (rnd_val k)" by (rule rnd_val_small [OF kb(1)], rule rnd_small [OF kb(1)])
  then have "0 < rnd_val k" using kb(2) by linarith
  moreover have "owner_amount cm_revenue cm_group = rnd k"
    by (simp add: owner_amount_def cm_revenue_def cm_group_def zero_community_def zero_revenue_def RevenuePercentages_def share_of_def
        cs_revenueMultiplier_def two half k)
  ultimately show ?thesis using fin by auto
qed

theorem distributed_without_payment_witness:
  "\<exists>m. (''earning.created'', m) \<in> set (cs_bus (snd (DistributeRevenue cm_demo cm_io (\<lambda>_. cm_io) (cm_uuid 2) cm_state)))"
proof -
  have row: "fst (FindRevenue None (cm_uuid 2) (cs_db cm_state)) = Some cm_revenue"
    "fst (FindCommunityByID None (cm_uuid 1) (cs_db cm_state)) = Some cm_group"
    by (simp_all add: FindRevenue_def FindCommunityByID_def find_row_def First_or_nil_def First_row_def least_by_def stmt_def cm_state_def cm_revenue_def
        cm_group_def)
  show ?thesis
    using distributed_without_payment [of cm_io "cm_uuid 2" cm_state cm_revenue cm_group, OF _ _ _ _ _ _ _ refl refl] row cm_owner_amount
    by (fastforce simp: cm_io_def cm_revenue_def cm_state_def cs_started_def IsInf_def)
qed

section \<open>Once per campaign and community\<close>

definition reports :: "uuid \<Rightarrow> community_svc \<Rightarrow> nat" where
  "reports i s = length (filter (\<lambda>m. fst m = ''community.revenue.distributed'' \<and> map_of (snd m) ''revenue_id'' = Some (JStr i)) (cs_bus s))"

lemma reports_pub: "reports i (cs_pub subj m s) =
    reports i s + (if json_encodes m \<and> subj = ''community.revenue.distributed'' \<and> map_of m ''revenue_id'' = Some (JStr i) then 1 else 0)"
  by (simp add: reports_def cs_bus_pub)

lemma reports_on_db [simp]: "reports i (on_cs_db f s) = reports i s" "reports i (s\<lparr>cs_db := db\<rparr>) = reports i s"
  by (simp_all add: reports_def on_cs_db_def)

definition same_revenues :: "community_svc \<Rightarrow> community_svc \<Rightarrow> bool" where
  "same_revenues s s' \<longleftrightarrow> revenues (cs_db s') = revenues (cs_db s) \<and> (\<forall>i. reports i s' = reports i s)"

lemma same_revenues_refl [simp]: "same_revenues s s"
  by (simp add: same_revenues_def)

lemma set_communities_revenues [simp]: "revenues (set_communities flt P f db) = revenues db"
  by (simp add: set_communities_def split: option.split)

lemma CreateDistribution_revenues [simp]: "revenues (CreateDistribution io d db) = revenues db"
  by (simp add: CreateDistribution_def)

lemma pay_members_same:
  "revenues (cs_db (pay_members cfg ios rv c n pool ms s)) = revenues (cs_db s) \<and> reports i (pay_members cfg ios rv c n pool ms s) = reports i s"
  by (induction cfg ios rv c n pool ms s rule: pay_members.induct) (simp_all add: Let_def reports_pub)

lemma distributeMemberRewards_same [simp]: "revenues (cs_db (distributeMemberRewards cfg ios rv c pool s)) = revenues (cs_db s)"
  "reports i (distributeMemberRewards cfg ios rv c pool s) = reports i s"
  by (simp_all add: distributeMemberRewards_def Let_def pay_members_same)

text \<open>A distribution that starts from a working database reports a pending row once and leaves it marked.\<close>

lemma DistributeRevenue_once:
  assumes "\<And>k. io_flt io k = None"
  shows "same_revenues s (snd (DistributeRevenue cfg io ios i s)) \<or>
    (\<exists>rv \<in> set (revenues (cs_db s)). CR_ID rv = i \<and> CR_Status rv = ''pending'') \<and>
    revenues (cs_db (snd (DistributeRevenue cfg io ios i s))) = revenues (MarkRevenueDistributed (io_shift 2 io) i (cs_db s)) \<and>
    (\<forall>j. reports j (snd (DistributeRevenue cfg io ios i s)) \<le> reports j s + (if j = i then 1 else 0))"
proof (cases "fst (FindRevenue (io_flt io 0) i (cs_db s))")
  case None
  then show ?thesis by (simp add: DistributeRevenue_def)
next
  case (Some rv)
  show ?thesis
  proof (cases "CR_Status rv = ''pending''")
    case True
    have found: "rv \<in> set (revenues (cs_db s)) \<and> CR_ID rv = i" using FindRevenue_status [OF Some True] .
    show ?thesis
    proof (cases "fst (FindCommunityByID (io_flt io 1) (CR_CommunityID rv) (cs_db s))")
      case None
      then show ?thesis using Some True by (simp add: DistributeRevenue_def)
    next
      case c: (Some c)
      obtain p q r where pct: "RevenuePercentages c = (p, q, r)" using prod_cases3 by blast
      show ?thesis
        using found True Some c pct
        by (auto simp: DistributeRevenue_def Let_def reports_pub MarkRevenueDistributed_def split: option.split)
    qed
  qed (use Some in \<open>simp add: DistributeRevenue_def\<close>)
qed

definition settled :: "CommunityRevenue list \<Rightarrow> uuid set" where
  "settled rows = CR_ID ` {r \<in> set rows. CR_Status r \<noteq> ''pending''}"

lemma settledE:
  assumes "i \<in> settled rows"
  obtains r where "r \<in> set rows" "CR_ID r = i" "CR_Status r \<noteq> ''pending''"
proof -
  obtain r where "i = CR_ID r" "r \<in> {r \<in> set rows. CR_Status r \<noteq> ''pending''}" using assms unfolding settled_def by (rule imageE)
  then show ?thesis by (intro that [of r]) simp_all
qed

definition once :: "community_svc \<Rightarrow> bool" where
  "once s \<longleftrightarrow> distinct (map (\<lambda>r. (CR_CampaignID r, CR_CommunityID r)) (revenues (cs_db s))) \<and>
     (\<forall>i. reports i s \<le> (if i \<in> settled (revenues (cs_db s)) then 1 else 0)) \<and>
     distinct (map CR_ID (revenues (cs_db s)))"

lemma once_same_revenues: "same_revenues s s' \<Longrightarrow> once s \<Longrightarrow> once s'"
  by (simp add: same_revenues_def once_def)

lemma image_restrict: "{r \<in> f ` A. P r} = f ` {r \<in> A. P (f r)}"
  by auto

lemma image_or_eq: "x \<in> A \<Longrightarrow> f x = i \<Longrightarrow> f ` {r \<in> A. f r = i \<or> P r} = insert i (f ` {r \<in> A. P r})"
  by auto

text \<open>Marking a row keeps every column but the status, and settles the row.\<close>

definition mark :: "uuid \<Rightarrow> time \<Rightarrow> CommunityRevenue \<Rightarrow> CommunityRevenue" where
  "mark i now r = (if CR_ID r = i then r\<lparr>CR_Status := ''distributed'', CR_DistributedAt := Some now\<rparr> else r)"

lemma mark_simps: "CR_ID (mark i now r) = CR_ID r" "CR_CampaignID (mark i now r) = CR_CampaignID r"
  "CR_CommunityID (mark i now r) = CR_CommunityID r"
  "CR_Status (mark i now r) \<noteq> ''pending'' \<longleftrightarrow> CR_ID r = i \<or> CR_Status r \<noteq> ''pending''"
  by (simp_all add: mark_def)

lemma MarkRevenueDistributed_map:
  "(\<And>k. io_flt io k = None) \<Longrightarrow> revenues (MarkRevenueDistributed (io_shift 2 io) i db) = map (mark i (io_now io 2)) (revenues db)"
  by (simp add: MarkRevenueDistributed_def rows_set_def io_shift_def mark_def [abs_def] numeral_2_eq_2)

lemma settled_mark:
  assumes "rv \<in> set rows" "CR_ID rv = i"
  shows "settled (map (mark i now) rows) = insert i (settled rows)"
proof -
  have "settled (map (mark i now) rows) = CR_ID ` {r \<in> set rows. CR_Status (mark i now r) \<noteq> ''pending''}"
    unfolding settled_def set_map image_restrict image_image mark_simps(1) ..
  then show ?thesis unfolding mark_simps(4) settled_def using image_or_eq [where f = CR_ID, OF assms] by simp
qed

lemma pending_unreported:
  assumes s: "once s" and rv: "rv \<in> set (revenues (cs_db s))" "CR_Status rv = ''pending''"
  shows "reports (CR_ID rv) s = 0"
proof -
  have "CR_ID rv \<notin> settled (revenues (cs_db s))"
  proof
    assume "CR_ID rv \<in> settled (revenues (cs_db s))"
    then obtain r where r: "r \<in> set (revenues (cs_db s))" "CR_ID r = CR_ID rv" "CR_Status r \<noteq> ''pending''" by (rule settledE)
    have "distinct (map CR_ID (revenues (cs_db s)))" using s by (simp only: once_def)
    then have "r = rv" by (rule distinct_key_eq [OF _ r(1) rv(1)]) (simp only: r(2))
    then show False using r(3) rv(2) by simp
  qed
  moreover have "reports (CR_ID rv) s \<le> (if CR_ID rv \<in> settled (revenues (cs_db s)) then 1 else 0)" using s by (simp only: once_def)
  ultimately show ?thesis by simp
qed

lemma DistributeRevenue_keeps_once:
  assumes io: "\<And>k. io_flt io k = None" and s: "once s"
  shows "once (snd (DistributeRevenue cfg io ios i s))"
  using DistributeRevenue_once [OF io, of s cfg ios i]
proof (elim disjE conjE bexE)
  fix rv
  define s' where "s' = snd (DistributeRevenue cfg io ios i s)"
  assume rv: "rv \<in> set (revenues (cs_db s))" "CR_ID rv = i" "CR_Status rv = ''pending''"
    and rows: "revenues (cs_db (snd (DistributeRevenue cfg io ios i s))) = revenues (MarkRevenueDistributed (io_shift 2 io) i (cs_db s))"
    and reps: "\<forall>j. reports j (snd (DistributeRevenue cfg io ios i s)) \<le> reports j s + (if j = i then 1 else 0)"
  have rows': "revenues (cs_db s') = map (mark i (io_now io 2)) (revenues (cs_db s))"
    unfolding s'_def rows using io by (rule MarkRevenueDistributed_map)
  have "reports j s' \<le> (if j \<in> settled (revenues (cs_db s')) then 1 else 0)" for j
  proof (cases "j = i")
    case True
    then show ?thesis using reps [rule_format, of i] pending_unreported [OF s rv(1,3)] by (simp add: s'_def [symmetric] rows' settled_mark [OF rv(1,2)] rv(2))
  next
    case False
    then have "reports j s' \<le> reports j s" using reps [rule_format, of j] by (simp add: s'_def)
    moreover have "reports j s \<le> (if j \<in> settled (revenues (cs_db s)) then 1 else 0)" using s by (simp only: once_def)
    ultimately show ?thesis using False by (simp add: rows' settled_mark [OF rv(1,2)] split: if_splits)
  qed
  then have "once s'" using s by (simp add: once_def rows' mark_simps comp_def)
  then show ?thesis by (simp add: s'_def)
qed (rule once_same_revenues [OF _ s])

lemma CreateRevenue_cases:
  assumes "CR_Status r = []"
  obtains "snd (CreateRevenue io r db) = db"
  | n where "n \<notin> CR_ID ` set (revenues db)" "snd (CreateRevenue io r db) = db\<lparr>revenues := revenues db @ [r\<lparr>CR_ID := n, CR_Status := ''pending''\<rparr>]\<rparr>"
proof (cases "io_flt io 0 = None \<and> io_uuid io 0 \<notin> CR_ID ` set (revenues db)")
  case True
  then show ?thesis using assms by (intro that(2) [of "io_uuid io 0"]) (simp_all add: CreateRevenue_def Let_def)
next
  case False
  then show ?thesis by (intro that(1)) (auto simp: CreateRevenue_def Let_def split: option.splits)
qed

lemma settled_pending: "settled (rows @ [r\<lparr>CR_ID := n, CR_Status := ''pending''\<rparr>]) = settled rows"
  by (auto simp: settled_def)

lemma record_revenue_keeps_once:
  assumes io: "\<And>k. io_flt io k = None" and s: "once s"
  shows "once (record_revenue cfg io ios c camp ton joins s)"
proof (cases "\<exists>x. FindRevenueByCampaignCommunity (io_flt io 1) camp (CM_ID c) (cs_db s) = (Some x, None)")
  case True
  then show ?thesis using s by (auto simp: record_revenue_def)
next
  case False
  define r where "r = zero_revenue\<lparr>CR_CommunityID := CM_ID c, CR_CampaignID := camp, CR_TotalAmount := num_in (cc_dec cfg) ton, CR_ValidJoins := joins\<rparr>"
  have no: "\<forall>x \<in> set (revenues (cs_db s)). \<not> (CR_CampaignID x = camp \<and> CR_CommunityID x = CM_ID c)"
    using False io by (auto simp: FindRevenueByCampaignCommunity_def First_or_nil_def stmt_def find_row_def First_row_None split: option.splits)
  have res: "record_revenue cfg io ios c camp ton joins s = (case CreateRevenue (io_shift 2 io) r (cs_db s) of
      (Inl _, db) \<Rightarrow> s\<lparr>cs_db := db\<rparr> | (Inr rv, db) \<Rightarrow> snd (DistributeRevenue cfg (io_shift 3 io) ios (CR_ID rv) (s\<lparr>cs_db := db\<rparr>)))"
    using False unfolding record_revenue_def r_def by (auto split: option.splits prod.splits)
  have new: "once (s\<lparr>cs_db := snd (CreateRevenue (io_shift 2 io) r (cs_db s))\<rparr>)"
  proof (rule CreateRevenue_cases [of r "io_shift 2 io" "cs_db s"])
    fix n assume "n \<notin> CR_ID ` set (revenues (cs_db s))"
      "snd (CreateRevenue (io_shift 2 io) r (cs_db s)) = (cs_db s)\<lparr>revenues := revenues (cs_db s) @ [r\<lparr>CR_ID := n, CR_Status := ''pending''\<rparr>]\<rparr>"
    then show ?thesis using s no by (simp add: once_def settled_pending image_iff) (auto simp: r_def)
  qed (simp_all add: s r_def zero_revenue_def)
  have io3: "io_flt (io_shift 3 io) k = None" for k using io by (simp add: io_shift_def)
  show ?thesis
    unfolding res using new DistributeRevenue_keeps_once [OF io3 new]
    by (auto split: prod.splits sum.splits)
qed

text \<open>A step of the process while its database answers.\<close>

definition cm_reliable :: "cm_cfg \<Rightarrow> (Community \<Rightarrow> int64) \<Rightarrow> community_svc \<Rightarrow> community_svc \<Rightarrow> bool" where
  "cm_reliable cfg otid s s' \<longleftrightarrow> (\<exists>io ios ev. (\<forall>k. io_flt io k = None) \<and> s' = cm_step cfg otid io ios ev s)"

lemma fold_pub_same:
  "subj \<noteq> ''community.revenue.distributed'' \<Longrightarrow> same_revenues s (fold (\<lambda>x. cs_pub subj (h x)) xs s)"
proof (induction xs arbitrary: s)
  case (Cons x xs)
  then have "same_revenues (cs_pub subj (h x) s) (fold (\<lambda>x. cs_pub subj (h x)) xs (cs_pub subj (h x) s))" by blast
  then show ?case using Cons.prems by (simp add: same_revenues_def reports_pub)
qed simp

lemma HandleJoin_same: "same_revenues s (HandleJoin cfg io uid i camp s)"
  by (auto simp: HandleJoin_def same_revenues_def reports_def IncrementMemberCount_def RecordParticipant_def Let_def
      split: option.split prod.splits sum.splits if_splits)

lemma cs_onJoined_same: "same_revenues s (cs_onJoined cfg io e s)"
  by (simp add: cs_onJoined_def HandleJoin_same Let_def split: option.split)

lemma NATS_once: "(\<And>k. io_flt io k = None) \<Longrightarrow> once s \<Longrightarrow> once (RegisterNATSListeners cfg io ios subject msg s)"
  using once_same_revenues [OF cs_onJoined_same]
  by (cases msg) (simp_all add: RegisterNATSListeners_def cs_onLeft_none cs_onActivity_none cs_onScore_none cs_onRevenue_keeps [of once]
      record_revenue_keeps_once)

lemma HTTP_once: "(\<And>k. io_flt io k = None) \<Longrightarrow> once s \<Longrightarrow> once (snd (cs_Register cfg otid io ios k req s))"
  by (cases req) (simp_all add: cs_Register_def registerCommunity_refused setValidationWindow_def cs_authMiddleware_def approveCommunity_def
      rejectCommunity_def triggerDistribute_def UpdateValidationWindow_def UpdateCommunityStatus_def DistributeRevenue_keeps_once
      once_same_revenues [of s] same_revenues_def split: option.split)

lemma tick_same: "same_revenues s (validation_tick io s)"
  unfolding validation_tick_def by (rule fold_pub_same) simp

lemma timers_same: "same_revenues s (fire_timers now s)"
proof -
  define s1 where "s1 = s\<lparr>cs_timers := filter (\<lambda>(t, _). \<not> t \<le> now) (cs_timers s)\<rparr>"
  have "same_revenues s1 (fire_timers now s)"
    unfolding fire_timers_def s1_def case_prod_beta by (rule fold_pub_same) simp
  then show ?thesis by (simp add: same_revenues_def s1_def reports_def)
qed

interpretation distribution: step_invariant "cm_reliable cfg otid" once for cfg otid
proof
  fix s s' assume "cm_reliable cfg otid s s'" and s: "once s"
  then obtain io ios ev where io: "\<And>k. io_flt io k = None" and s': "s' = cm_step cfg otid io ios ev s" by (auto simp: cm_reliable_def)
  show "once s'" unfolding s' using once_same_revenues [OF tick_same s] once_same_revenues [OF timers_same s]
    by (cases ev) (simp_all add: cm_step_def HTTP_once NATS_once io s)
qed


definition cm_message :: json_obj where
  "cm_message = [(''community_id'', JStr (cm_uuid 1)), (''campaign_id'', JStr (cm_uuid 3)), (''revenue_ton'', JFloat (Fin 200)), (''valid_joins'', JInt 4)]"

definition cm_open :: community_svc where
  "cm_open = cs_started\<lparr>cs_db := \<lparr>communities = [cm_group], participants = [], revenues = [], distributions = []\<rparr>\<rparr>"


end
