(* ===== verification/AdmModels.thy ===== *)
theory AdmModels
  imports Mongo
begin

text \<open>
  \<open>admanager-bot\<close>, the private bot with which an owner of channels posts advertisements on a schedule: its
  documents (\<open>internal/models/models.go\<close>), what it reads from the owner (\<open>parse.go\<close>) and the arithmetic of daily
  windows and rotation (\<open>schedule.go\<close>). Documents of all bots are in the same collections, told apart by
  \<open>instance_id\<close>. The zone of a time is its offset from UTC, fixed; times read from MongoDB are in UTC.
\<close>

section \<open>Documents (\<open>models.go\<close>)\<close>

datatype ChannelStatus = ChannelActive | ChannelInactive | ChannelPending
datatype CampaignStatus = CampaignDraft | CampaignRunning | CampaignPaused | CampaignCompleted | CampaignCancelled
datatype JobType = JobTypeSendAd | JobTypeSendReply | JobTypeDeletePost | JobTypeUpdateStats | JobTypeEndCampaign | JobTypeReminder
datatype JobStatus = JobPending | JobRunning | JobDone | JobFailed | JobCancelled
datatype ReservationStatus =
  ReservationPending | ReservationConfirmed | ReservationSent | ReservationCancelled | ReservationFailed | ReservationExpired
datatype AuditAction =
    AuditCampaignCreate | AuditCampaignPause | AuditCampaignResume | AuditCampaignEnd
  | AuditAdSend | AuditAdFailed | AuditChannelAdd | AuditChannelRemove

record adm_Channel =
  HN_ID :: uuid
  HN_InstanceID :: uuid
  HN_TelegramID :: int64
  HN_Username :: string
  HN_Title :: string
  HN_MemberCount :: int64
  HN_Status :: ChannelStatus
  HN_TagIDs :: "uuid list"
  HN_CreatedAt :: time
  HN_DeletedAt :: "time option"

record Tag =
  TG_ID :: uuid
  TG_InstanceID :: uuid
  TG_Name :: string
  TG_Slug :: string
  TG_IsActive :: bool

record adm_Campaign =
  KP_ID :: uuid
  KP_InstanceID :: uuid
  KP_Name :: string
  KP_Status :: CampaignStatus
  KP_StartHour :: int64
  KP_StartMinute :: int64
  KP_EndHour :: int64
  KP_EndMinute :: int64
  KP_IntervalMinutes :: int64
  KP_DeleteAfterMinutes :: int64
  KP_RotationMinutes :: int64
  KP_EndAt :: "time option"
  KP_TargetTagIDs :: "uuid list"
  KP_TargetChannelIDs :: "uuid list"
  KP_MinMemberCount :: int64
  KP_TotalImpressions :: int64
  KP_CreatedAt :: time
  KP_DeletedAt :: "time option"

record AdReply =
  RY_MessageID :: int64
  RY_DurationMinutes :: int64

record Advertisement =
  AX_ID :: uuid
  AX_InstanceID :: uuid
  AX_CampaignID :: uuid
  AX_Name :: string
  AX_SourceChatID :: int64
  AX_MainMessageID :: int64
  AX_Replies :: "AdReply list"
  AX_KeepAsLastMessage :: bool
  AX_PinMessage :: bool
  AX_DeletePreviousOnRepost :: bool
  AX_IsActive :: bool

record ScheduledJob =
  SJ_ID :: uuid
  SJ_InstanceID :: uuid
  SJ_Type :: JobType
  SJ_Status :: JobStatus
  SJ_CampaignID :: uuid
  SJ_AdvertisementID :: uuid
  SJ_ChannelID :: uuid
  SJ_RunAt :: time
  SJ_Attempts :: int64
  SJ_MaxAttempts :: int64
  SJ_LastError :: "go_error option"
  SJ_Payload :: string

record Reservation =
  RS_ID :: uuid
  RS_InstanceID :: uuid
  RS_CampaignID :: uuid
  RS_AdvertisementID :: uuid
  RS_ChannelID :: uuid
  RS_Status :: ReservationStatus
  RS_ScheduledAt :: time
  RS_LiveMessageIDs :: "int64 list"
  RS_CurrentReplyIndex :: int64
  RS_PostedMessageIDs :: "int64 list"
  RS_DeleteAt :: "time option"
  RS_Error :: "go_error option"

record CampaignTemplate =
  CT_ID :: uuid
  CT_InstanceID :: uuid
  CT_Name :: string
  CT_StartHour :: int64
  CT_StartMinute :: int64
  CT_EndHour :: int64
  CT_EndMinute :: int64
  CT_IntervalMinutes :: int64
  CT_DeleteAfterMinutes :: int64
  CT_RotationMinutes :: int64
  CT_TargetTagIDs :: "uuid list"
  CT_MinMemberCount :: int64

record BotSettings =
  BS_InstanceID :: uuid
  BS_ReminderMinutesBefore :: int64

record AuditLog =
  AL_InstanceID :: uuid
  AL_Action :: AuditAction
  AL_ActorID :: int64
  AL_TargetID :: uuid

abbreviation DefaultStartHour :: int64 where "DefaultStartHour \<equiv> 8"
abbreviation DefaultEndHour :: int64 where "DefaultEndHour \<equiv> 23"
abbreviation DefaultIntervalMinutes :: int64 where "DefaultIntervalMinutes \<equiv> 60"
abbreviation DefaultReminderMinutesBefore :: int64 where "DefaultReminderMinutesBefore \<equiv> 10"

section \<open>What the owner types (\<open>parse.go\<close>)\<close>

text \<open>Persian digits are the bytes \<open>DB B0\<close> to \<open>DB B9\<close> of UTF-8, Arabic ones \<open>D9 A0\<close> to \<open>D9 A9\<close>.\<close>

fun NormalizeDigits :: "string \<Rightarrow> string" where
  "NormalizeDigits (a # b # s) =
     (let x = (of_char a :: nat); y = (of_char b :: nat)
      in if x = 0xDB \<and> 0xB0 \<le> y \<and> y \<le> 0xB9 then char_of (48 + (y - 0xB0)) # NormalizeDigits s
         else if x = 0xD9 \<and> 0xA0 \<le> y \<and> y \<le> 0xA9 then char_of (48 + (y - 0xA0)) # NormalizeDigits s
         else a # NormalizeDigits (b # s))"
| "NormalizeDigits s = s"

definition ParseClock :: "string \<Rightarrow> (int64 \<times> int64) option" where
  "ParseClock s =
     (let parts = Split (TrimSpace s) CHR '':''
      in case ParseInt (TrimSpace (hd parts)) of
           None \<Rightarrow> None
         | Some h \<Rightarrow>
             (if h < 0 \<or> 23 < h then None
              else if length parts \<le> 1 then Some (h, 0)
              else case ParseInt (TrimSpace (parts ! 1)) of
                     None \<Rightarrow> None
                   | Some m \<Rightarrow> (if m < 0 \<or> 59 < m then None else Some (h, m))))"

text \<open>\<open>SplitN(s, "-", 2)\<close> is \<open>Cut\<close> at the first hyphen.\<close>

definition ParseClockRange :: "string \<Rightarrow> (int64 \<times> int64 \<times> int64 \<times> int64) option" where
  "ParseClockRange s =
     (let (a, b, two) = Cut (TrimSpace s) CHR ''-''
      in case ParseClock a of
           None \<Rightarrow> None
         | Some (sh, sm) \<Rightarrow>
             (if \<not> two then Some (sh, sm, sh, sm)
              else case ParseClock b of
                     None \<Rightarrow> None
                   | Some (eh, em) \<Rightarrow> Some (sh, sm, eh, em)))"

record schedule =
  sd_StartHour :: int64
  sd_StartMinute :: int64
  sd_EndHour :: int64
  sd_EndMinute :: int64
  sd_Interval :: int64
  sd_DeleteAfter :: int64
  sd_Rotation :: int64

text \<open>The lines of the text, and their schedule.\<close>

definition schedule_lines :: "string list \<Rightarrow> schedule option" where
  "schedule_lines lines =
     (if length lines \<noteq> 4 then None
      else case ParseClockRange (lines ! 0) of
             None \<Rightarrow> None
           | Some (sh, sm, eh, em) \<Rightarrow>
               (case (ParseInt (lines ! 1), ParseInt (lines ! 2), ParseInt (lines ! 3)) of
                  (Some interval, Some del, Some rot) \<Rightarrow>
                    (if interval < 1 \<or> del < 0 \<or> rot < 0 then None
                     else Some \<lparr>sd_StartHour = sh, sd_StartMinute = sm, sd_EndHour = eh, sd_EndMinute = em, sd_Interval = interval,
                                sd_DeleteAfter = del, sd_Rotation = rot\<rparr>)
                | _ \<Rightarrow> None))"

definition ParseSchedule :: "string \<Rightarrow> schedule option" where
  "ParseSchedule text =
     (let raw = filter (\<lambda>c. c \<noteq> CHR 0x0D) (NormalizeDigits text)
      in schedule_lines (filter (\<lambda>t. t \<noteq> []) (map TrimSpace (Split raw CHR 0x0A))))"

section \<open>Windows and rotation (\<open>schedule.go\<close>)\<close>

abbreviation day_ns :: time where "day_ns \<equiv> 86400000000000"
abbreviation minute_ns :: time where "minute_ns \<equiv> 60000000000"

definition time_Hour :: "time \<Rightarrow> time \<Rightarrow> int64" where
  "time_Hour loc t = (t + loc) mod day_ns div 3600000000000"

definition time_Minute :: "time \<Rightarrow> time \<Rightarrow> int64" where
  "time_Minute loc t = (t + loc) mod 3600000000000 div minute_ns"

definition StartTimeOnDay :: "time \<Rightarrow> time \<Rightarrow> int64 \<Rightarrow> int64 \<Rightarrow> time" where
  "StartTimeOnDay loc day hour minute = (day + loc) div day_ns * day_ns + hour * 3600000000000 + minute * minute_ns - loc"

definition InDailyWindow :: "time \<Rightarrow> time \<Rightarrow> int64 \<Rightarrow> int64 \<Rightarrow> int64 \<Rightarrow> int64 \<Rightarrow> bool" where
  "InDailyWindow loc now startH startM endH endM =
     (let startMin = startH * 60 + startM; endMin = endH * 60 + endM; curMin = time_Hour loc now * 60 + time_Minute loc now
      in if startMin = endMin then True
         else if startMin < endMin then startMin \<le> curMin \<and> curMin < endMin
         else startMin \<le> curMin \<or> curMin < endMin)"

definition CurrentWindowStart :: "time \<Rightarrow> time \<Rightarrow> int64 \<Rightarrow> int64 \<Rightarrow> int64 \<Rightarrow> int64 \<Rightarrow> time" where
  "CurrentWindowStart loc now startH startM endH endM =
     (let todayStart = StartTimeOnDay loc now startH startM;
          startMin = startH * 60 + startM; endMin = endH * 60 + endM; curMin = time_Hour loc now * 60 + time_Minute loc now
      in if endMin \<le> startMin \<and> curMin < endMin then todayStart - day_ns else todayStart)"

definition DailyWindowBounds :: "time \<Rightarrow> time \<Rightarrow> int64 \<Rightarrow> int64 \<Rightarrow> int64 \<Rightarrow> int64 \<Rightarrow> time \<times> time" where
  "DailyWindowBounds loc day startH startM endH endM =
     (let start = StartTimeOnDay loc day startH startM; stop = StartTimeOnDay loc day endH endM
      in (start, if \<not> start < stop then stop + day_ns else stop))"

definition RotationIndex :: "int64 \<Rightarrow> int64 \<Rightarrow> int64 \<Rightarrow> int64" where
  "RotationIndex elapsedMinutes rotationMinutes numAds =
     (if numAds \<le> 0 \<or> rotationMinutes \<le> 0 then 0
      else let idx = go_mod (go_div elapsedMinutes rotationMinutes) numAds
           in if idx < 0 then idx + numAds else idx)"

section \<open>What they compute\<close>

definition clock :: "int64 \<Rightarrow> int64 \<Rightarrow> bool" where
  "clock h m \<longleftrightarrow> 0 \<le> h \<and> h \<le> 23 \<and> 0 \<le> m \<and> m \<le> 59"

definition schedule_ok :: "schedule \<Rightarrow> bool" where
  "schedule_ok d \<longleftrightarrow> clock (sd_StartHour d) (sd_StartMinute d) \<and> clock (sd_EndHour d) (sd_EndMinute d) \<and>
     1 \<le> sd_Interval d \<and> 0 \<le> sd_DeleteAfter d \<and> 0 \<le> sd_Rotation d"

lemma ParseClock_clock: "ParseClock s = Some (h, m) \<Longrightarrow> clock h m"
  by (auto simp: ParseClock_def clock_def Let_def split: option.splits if_splits)

lemma ParseClockRange_clock: "ParseClockRange s = Some (sh, sm, eh, em) \<Longrightarrow> clock sh sm \<and> clock eh em"
  by (auto simp: ParseClockRange_def split: option.splits if_splits prod.splits dest!: ParseClock_clock)

lemma schedule_lines_ok: "schedule_lines ls = Some d \<Longrightarrow> schedule_ok d"
proof -
  assume d: "schedule_lines ls = Some d"
  then have "length ls = 4" by (simp add: schedule_lines_def split: if_splits)
  moreover from this d obtain sh sm eh em where c: "ParseClockRange (ls ! 0) = Some (sh, sm, eh, em)"
    by (cases "ParseClockRange (ls ! 0)") (auto simp: schedule_lines_def)
  ultimately show ?thesis
    using d ParseClockRange_clock [OF c]
    by (cases "ParseInt (ls ! 1)"; cases "ParseInt (ls ! 2)"; cases "ParseInt (ls ! 3)")
      (auto simp: schedule_lines_def schedule_ok_def split: if_splits)
qed

lemma ParseSchedule_ok: "ParseSchedule s = Some d \<Longrightarrow> schedule_ok d"
  by (simp add: ParseSchedule_def schedule_lines_ok Let_def)

text \<open>The minute of the day, and the time at which the day begins.\<close>

lemma minute_of_day: "time_Hour loc t * 60 + time_Minute loc t = (t + loc) mod day_ns div minute_ns"
proof -
  define u where "u = t + loc"
  have "u mod 3600000000000 = u mod day_ns mod 3600000000000" by (simp add: mod_mod_cancel)
  moreover have "v div 3600000000000 * 60 + v mod 3600000000000 div minute_ns = v div minute_ns" for v :: int
  proof -
    define q r where "q = v div 3600000000000" and "r = v mod 3600000000000"
    have v: "r + (q * 60) * minute_ns = v" by (simp add: q_def r_def)
    have "(r + (q * 60) * minute_ns) div minute_ns = q * 60 + r div minute_ns" by (rule div_mult_self1) simp
    then show ?thesis unfolding v q_def [symmetric] r_def [symmetric] by (rule sym)
  qed
  ultimately show ?thesis unfolding time_Hour_def time_Minute_def u_def [symmetric] by simp
qed

text \<open>Whether a time is in the window depends on its minute of the day only.\<close>

lemma InDailyWindow_day: "InDailyWindow loc (t + k * day_ns) sh sm eh em = InDailyWindow loc t sh sm eh em"
proof -
  have "(t + loc + k * day_ns) mod day_ns = (t + loc) mod day_ns" by (rule mod_mult_self1)
  moreover have "t + k * day_ns + loc = t + loc + k * day_ns" by linarith
  ultimately have "(t + k * day_ns + loc) mod day_ns = (t + loc) mod day_ns" by (simp only:)
  then show ?thesis unfolding InDailyWindow_def minute_of_day by simp
qed

text \<open>The rotation picks an advertisement of the list, also for a negative quotient.\<close>

lemma go_mod_bound: "in_int64 a \<Longrightarrow> 0 < n \<Longrightarrow> \<bar>go_mod a n\<bar> < n"
proof (cases "0 \<le> a")
  case True
  assume "in_int64 a" "0 < n"
  with True show ?thesis by (simp add: go_mod_def go_div_pos minus_mult_div_eq_mod)
next
  case False
  assume a: "in_int64 a" and n: "0 < n"
  define q where "q = (- a) div n"
  have "0 \<le> q" using False n by (simp add: q_def pos_imp_zdiv_nonneg_iff)
  moreover have "q \<le> - a" unfolding q_def using False n by (metis div_by_1 int_one_le_iff_zero_less linorder_not_le minus_le_iff minus_zero nle_le zdiv_mono2 zero_less_one)
  ultimately have "in_int64 (- q)" using a False by (auto simp: in_int64_def)
  then have "go_div a n = - q" using False n by (simp add: go_div_def q_def wrap64_id)
  then have "go_mod a n = - ((- a) mod n)" by (simp add: go_mod_def q_def minus_mult_div_eq_mod [symmetric])
  then show ?thesis using n by simp
qed

lemma RotationIndex_range: "0 < n \<Longrightarrow> 0 \<le> RotationIndex e r n \<and> RotationIndex e r n < n"
  using go_mod_bound [of "go_div e r" n] by (auto simp: RotationIndex_def Let_def go_div_def wrap64_in_range)

end
