(* ===== verification/AdmStore.thy ===== *)
theory AdmStore
  imports AdmModels
begin

text \<open>
  The store of \<open>admanager-bot\<close> (\<open>internal/store\<close>) over the document store of \<open>shared\<close>: \<open>Find\<close> and \<open>FindOne\<close> fail as a
  whole, and \<open>FindOne\<close> fails when there is no document. Every statement filters by the instance of the bot.
\<close>

record adm_db =
  channels :: "adm_Channel list"
  tags :: "Tag list"
  adm_campaigns :: "adm_Campaign list"
  advertisements :: "Advertisement list"
  scheduled_jobs :: "ScheduledJob list"
  reservations :: "Reservation list"
  campaign_templates :: "CampaignTemplate list"
  settings :: "BotSettings list"
  audit_logs :: "AuditLog list"

section \<open>Statements (\<open>store.go\<close>, \<open>shared/pkg/adapters/mongodb\<close>)\<close>

definition col_FindOne :: "string option \<Rightarrow> ('d \<Rightarrow> bool) \<Rightarrow> 'd list \<Rightarrow> go_error + 'd" where
  "col_FindOne flt P docs = stmt flt (case filter P docs of [] \<Rightarrow> Inl (Sentinel ''mongo: no documents in result'') | d # _ \<Rightarrow> Inr d)"

definition col_Find :: "string option \<Rightarrow> 'd list \<Rightarrow> go_error + 'd list" where
  "col_Find flt docs = stmt flt (Inr docs)"

text \<open>An update of one document by \<open>$set\<close> and \<open>$inc\<close> of different chg.\<close>

definition col_UpdateOne :: "string option \<Rightarrow> ('d \<Rightarrow> bool) \<Rightarrow> ('d \<Rightarrow> 'd) \<Rightarrow> 'd list \<Rightarrow> (go_error + unit) \<times> 'd list" where
  "col_UpdateOne flt P f = UpdateOne flt [] None P (\<lambda>d. Inr (f d))"

text \<open>\<open>_id\<close> has a unique index.\<close>

definition col_InsertOne :: "string option \<Rightarrow> ('d \<Rightarrow> uuid) \<Rightarrow> 'd \<Rightarrow> 'd list \<Rightarrow> (go_error + unit) \<times> 'd list" where
  "col_InsertOne flt key d docs =
     (case flt of
        Some m \<Rightarrow> (Inl (DBErr m), docs)
      | None \<Rightarrow> (if key d \<in> key ` set docs then (Inl (DBErr ''E11000 duplicate key error''), docs) else (Inr (), docs @ [d])))"

definition col_page :: "int64 \<Rightarrow> int64 \<Rightarrow> 'd list \<Rightarrow> 'd list" where  \<comment> \<open>\<open>skip((pg-1)*ps)\<close>, \<open>limit(ps)\<close>\<close>
  "col_page pg ps docs = (let rest = drop (nat ((pg - 1) * ps)) docs in if 0 < ps then take (nat ps) rest else rest)"

section \<open>Channels and tags (\<open>channel.go\<close>)\<close>

definition adm_CreateChannel :: "uuid \<Rightarrow> io \<Rightarrow> adm_Channel \<Rightarrow> adm_db \<Rightarrow> (go_error + adm_Channel) \<times> adm_db" where
  "adm_CreateChannel inst io ch db =
     (let ch1 = ch\<lparr>HN_ID := io_uuid io 0, HN_InstanceID := inst, HN_CreatedAt := io_now io 0, HN_Status := ChannelPending\<rparr>
      in case col_InsertOne (io_flt io 0) HN_ID ch1 (channels db) of
           (Inl e, _) \<Rightarrow> (Inl e, db)
         | (Inr _, ds) \<Rightarrow> (Inr ch1, db\<lparr>channels := ds\<rparr>))"

definition adm_FindChannel :: "uuid \<Rightarrow> string option \<Rightarrow> uuid \<Rightarrow> adm_db \<Rightarrow> go_error + adm_Channel" where
  "adm_FindChannel inst flt i db = col_FindOne flt (\<lambda>c. HN_InstanceID c = inst \<and> HN_ID c = i) (channels db)"

definition adm_FindChannelByTelegramID :: "uuid \<Rightarrow> string option \<Rightarrow> int64 \<Rightarrow> adm_db \<Rightarrow> go_error + adm_Channel" where
  "adm_FindChannelByTelegramID inst flt t db = col_FindOne flt (\<lambda>c. HN_InstanceID c = inst \<and> HN_TelegramID c = t) (channels db)"

definition adm_ListChannels :: "uuid \<Rightarrow> string option \<Rightarrow> ChannelStatus option \<Rightarrow> int64 \<Rightarrow> int64 \<Rightarrow> adm_db \<Rightarrow> go_error + adm_Channel list" where
  "adm_ListChannels inst flt status pg ps db =
     col_Find flt (col_page pg ps (sort_desc HN_CreatedAt
       (filter (\<lambda>c. HN_InstanceID c = inst \<and> (status = None \<or> status = Some (HN_Status c))) (channels db))))"

definition UpdateChannel :: "uuid \<Rightarrow> string option \<Rightarrow> uuid \<Rightarrow> (adm_Channel \<Rightarrow> adm_Channel) \<Rightarrow> adm_db \<Rightarrow> (go_error + unit) \<times> adm_db" where
  "UpdateChannel inst flt i chg db =
     (let (r, ds) = col_UpdateOne flt (\<lambda>c. HN_InstanceID c = inst \<and> HN_ID c = i) chg (channels db) in (r, db\<lparr>channels := ds\<rparr>))"

definition UpdateChannelStatus :: "uuid \<Rightarrow> string option \<Rightarrow> uuid \<Rightarrow> ChannelStatus \<Rightarrow> adm_db \<Rightarrow> (go_error + unit) \<times> adm_db" where
  "UpdateChannelStatus inst flt i status = UpdateChannel inst flt i (\<lambda>c. c\<lparr>HN_Status := status\<rparr>)"

definition UpdateChannelStats :: "uuid \<Rightarrow> string option \<Rightarrow> uuid \<Rightarrow> int64 \<Rightarrow> adm_db \<Rightarrow> (go_error + unit) \<times> adm_db" where
  \<comment> \<open>the callers pass the other two numbers as they are\<close>
  "UpdateChannelStats inst flt i memberCount = UpdateChannel inst flt i (\<lambda>c. c\<lparr>HN_MemberCount := memberCount\<rparr>)"

definition DeleteChannel :: "uuid \<Rightarrow> io \<Rightarrow> uuid \<Rightarrow> adm_db \<Rightarrow> (go_error + unit) \<times> adm_db" where
  "DeleteChannel inst io i = UpdateChannel inst (io_flt io 0) i (\<lambda>c. c\<lparr>HN_DeletedAt := Some (io_now io 0)\<rparr>)"

definition CreateTag :: "uuid \<Rightarrow> io \<Rightarrow> Tag \<Rightarrow> adm_db \<Rightarrow> (go_error + unit) \<times> adm_db" where
  "CreateTag inst io tag db =
     (let (r, ds) = col_InsertOne (io_flt io 0) TG_ID (tag\<lparr>TG_ID := io_uuid io 0, TG_InstanceID := inst, TG_IsActive := True\<rparr>) (tags db)
      in (r, db\<lparr>tags := ds\<rparr>))"

definition ListTags :: "uuid \<Rightarrow> string option \<Rightarrow> adm_db \<Rightarrow> go_error + Tag list" where
  "ListTags inst flt db = col_Find flt (sort_key TG_Name (filter (\<lambda>t. TG_InstanceID t = inst \<and> TG_IsActive t) (tags db)))"

definition SetTagInactive :: "uuid \<Rightarrow> string option \<Rightarrow> uuid \<Rightarrow> adm_db \<Rightarrow> (go_error + unit) \<times> adm_db" where
  "SetTagInactive inst flt i db =
     (let (r, ds) = col_UpdateOne flt (\<lambda>t. TG_InstanceID t = inst \<and> TG_ID t = i) (\<lambda>t. t\<lparr>TG_IsActive := False\<rparr>) (tags db)
      in (r, db\<lparr>tags := ds\<rparr>))"

definition FindTagBySlug :: "uuid \<Rightarrow> string option \<Rightarrow> string \<Rightarrow> adm_db \<Rightarrow> go_error + Tag" where
  "FindTagBySlug inst flt slug db = col_FindOne flt (\<lambda>t. TG_InstanceID t = inst \<and> TG_Slug t = slug) (tags db)"

definition ListChannelsByTag :: "uuid \<Rightarrow> string option \<Rightarrow> uuid \<Rightarrow> int64 \<Rightarrow> adm_db \<Rightarrow> go_error + adm_Channel list" where
  "ListChannelsByTag inst flt tagID minMembers db =
     col_Find flt (sort_desc HN_MemberCount
       (filter (\<lambda>c. HN_InstanceID c = inst \<and> tagID \<in> set (HN_TagIDs c) \<and> HN_Status c = ChannelActive \<and> HN_DeletedAt c = None \<and>
                    (0 < minMembers \<longrightarrow> minMembers \<le> HN_MemberCount c)) (channels db)))"

section \<open>Campaigns and advertisements (\<open>campaign.go\<close>)\<close>

definition adm_CreateCampaign :: "uuid \<Rightarrow> io \<Rightarrow> adm_Campaign \<Rightarrow> adm_db \<Rightarrow> (go_error + adm_Campaign) \<times> adm_db" where
  "adm_CreateCampaign inst io c db =
     (let c1 = c\<lparr>KP_ID := io_uuid io 0, KP_InstanceID := inst, KP_CreatedAt := io_now io 0, KP_Status := CampaignDraft\<rparr>
      in case col_InsertOne (io_flt io 0) KP_ID c1 (adm_campaigns db) of
           (Inl e, _) \<Rightarrow> (Inl e, db)
         | (Inr _, ds) \<Rightarrow> (Inr c1, db\<lparr>adm_campaigns := ds\<rparr>))"

definition adm_FindCampaign :: "uuid \<Rightarrow> string option \<Rightarrow> uuid \<Rightarrow> adm_db \<Rightarrow> go_error + adm_Campaign" where
  "adm_FindCampaign inst flt i db =
     col_FindOne flt (\<lambda>c. KP_InstanceID c = inst \<and> KP_ID c = i \<and> KP_DeletedAt c = None) (adm_campaigns db)"

definition ListCampaigns :: "uuid \<Rightarrow> string option \<Rightarrow> CampaignStatus option \<Rightarrow> int64 \<Rightarrow> int64 \<Rightarrow> adm_db \<Rightarrow> go_error + adm_Campaign list" where
  "ListCampaigns inst flt status pg ps db =
     col_Find flt (col_page pg ps (sort_desc KP_CreatedAt
       (filter (\<lambda>c. KP_InstanceID c = inst \<and> KP_DeletedAt c = None \<and> (status = None \<or> status = Some (KP_Status c))) (adm_campaigns db))))"

definition ListActiveCampaigns :: "uuid \<Rightarrow> io \<Rightarrow> adm_db \<Rightarrow> go_error + adm_Campaign list" where
  "ListActiveCampaigns inst io db =
     col_Find (io_flt io 0)
       (filter (\<lambda>c. KP_InstanceID c = inst \<and> KP_Status c = CampaignRunning \<and> KP_DeletedAt c = None \<and>
                    (case KP_EndAt c of None \<Rightarrow> True | Some e \<Rightarrow> io_now io 0 < e)) (adm_campaigns db))"

definition adm_UpdateCampaign :: "uuid \<Rightarrow> string option \<Rightarrow> uuid \<Rightarrow> (adm_Campaign \<Rightarrow> adm_Campaign) \<Rightarrow> adm_db \<Rightarrow> (go_error + unit) \<times> adm_db" where
  "adm_UpdateCampaign inst flt i chg db =
     (let (r, ds) = col_UpdateOne flt (\<lambda>c. KP_InstanceID c = inst \<and> KP_ID c = i) chg (adm_campaigns db) in (r, db\<lparr>adm_campaigns := ds\<rparr>))"

definition UpdateCampaignStatus :: "uuid \<Rightarrow> string option \<Rightarrow> uuid \<Rightarrow> CampaignStatus \<Rightarrow> adm_db \<Rightarrow> (go_error + unit) \<times> adm_db" where
  "UpdateCampaignStatus inst flt i status = adm_UpdateCampaign inst flt i (\<lambda>c. c\<lparr>KP_Status := status\<rparr>)"

definition IncrCampaignImpressions :: "uuid \<Rightarrow> string option \<Rightarrow> uuid \<Rightarrow> adm_db \<Rightarrow> (go_error + unit) \<times> adm_db" where
  "IncrCampaignImpressions inst flt i = adm_UpdateCampaign inst flt i (\<lambda>c. c\<lparr>KP_TotalImpressions := KP_TotalImpressions c + 1\<rparr>)"

definition DeleteCampaign :: "uuid \<Rightarrow> io \<Rightarrow> uuid \<Rightarrow> adm_db \<Rightarrow> (go_error + unit) \<times> adm_db" where
  "DeleteCampaign inst io i = adm_UpdateCampaign inst (io_flt io 0) i (\<lambda>c. c\<lparr>KP_DeletedAt := Some (io_now io 0)\<rparr>)"

definition CreateAd :: "uuid \<Rightarrow> io \<Rightarrow> Advertisement \<Rightarrow> adm_db \<Rightarrow> (go_error + Advertisement) \<times> adm_db" where
  "CreateAd inst io ad db =
     (let ad1 = ad\<lparr>AX_ID := io_uuid io 0, AX_InstanceID := inst, AX_IsActive := True\<rparr>
      in case col_InsertOne (io_flt io 0) AX_ID ad1 (advertisements db) of
           (Inl e, _) \<Rightarrow> (Inl e, db)
         | (Inr _, ds) \<Rightarrow> (Inr ad1, db\<lparr>advertisements := ds\<rparr>))"

definition UpdateAd :: "uuid \<Rightarrow> string option \<Rightarrow> uuid \<Rightarrow> (Advertisement \<Rightarrow> Advertisement) \<Rightarrow> adm_db \<Rightarrow> (go_error + unit) \<times> adm_db" where
  "UpdateAd inst flt i chg db =
     (let (r, ds) = col_UpdateOne flt (\<lambda>a. AX_InstanceID a = inst \<and> AX_ID a = i) chg (advertisements db) in (r, db\<lparr>advertisements := ds\<rparr>))"

definition ReplaceAdMain :: "uuid \<Rightarrow> string option \<Rightarrow> uuid \<Rightarrow> int64 \<Rightarrow> adm_db \<Rightarrow> (go_error + unit) \<times> adm_db" where
  "ReplaceAdMain inst flt i mainMessageID = UpdateAd inst flt i (\<lambda>a. a\<lparr>AX_MainMessageID := mainMessageID\<rparr>)"

definition ReplaceAdReplies :: "uuid \<Rightarrow> string option \<Rightarrow> uuid \<Rightarrow> AdReply list \<Rightarrow> adm_db \<Rightarrow> (go_error + unit) \<times> adm_db" where
  "ReplaceAdReplies inst flt i replies = UpdateAd inst flt i (\<lambda>a. a\<lparr>AX_Replies := replies\<rparr>)"

definition FindAd :: "uuid \<Rightarrow> string option \<Rightarrow> uuid \<Rightarrow> adm_db \<Rightarrow> go_error + Advertisement" where
  "FindAd inst flt i db = col_FindOne flt (\<lambda>a. AX_InstanceID a = inst \<and> AX_ID a = i) (advertisements db)"

definition ListAdsByCampaign :: "uuid \<Rightarrow> string option \<Rightarrow> uuid \<Rightarrow> adm_db \<Rightarrow> go_error + Advertisement list" where
  "ListAdsByCampaign inst flt campaignID db =
     col_Find flt (filter (\<lambda>a. AX_InstanceID a = inst \<and> AX_CampaignID a = campaignID \<and> AX_IsActive a) (advertisements db))"

definition AppendAdReply :: "uuid \<Rightarrow> io \<Rightarrow> uuid \<Rightarrow> int64 \<Rightarrow> int64 \<Rightarrow> adm_db \<Rightarrow> (go_error + unit) \<times> adm_db" where
  "AppendAdReply inst io i messageID durationMinutes db =
     (case FindAd inst (io_flt io 0) i db of
        Inl e \<Rightarrow> (Inl e, db)
      | Inr ad \<Rightarrow> ReplaceAdReplies inst (io_flt io 1) i (AX_Replies ad @ [\<lparr>RY_MessageID = messageID, RY_DurationMinutes = durationMinutes\<rparr>]) db)"

definition DeleteAd :: "uuid \<Rightarrow> string option \<Rightarrow> uuid \<Rightarrow> adm_db \<Rightarrow> (go_error + unit) \<times> adm_db" where
  "DeleteAd inst flt i = UpdateAd inst flt i (\<lambda>a. a\<lparr>AX_IsActive := False\<rparr>)"

section \<open>Jobs (\<open>job.go\<close>)\<close>

definition zero_job :: ScheduledJob where
  "zero_job = \<lparr>SJ_ID = [], SJ_InstanceID = [], SJ_Type = JobTypeSendAd, SJ_Status = JobPending, SJ_CampaignID = [], SJ_AdvertisementID = [],
     SJ_ChannelID = [], SJ_RunAt = zero_time, SJ_Attempts = 0, SJ_MaxAttempts = 0, SJ_LastError = None, SJ_Payload = []\<rparr>"

definition CreateJob :: "uuid \<Rightarrow> io \<Rightarrow> ScheduledJob \<Rightarrow> adm_db \<Rightarrow> (go_error + unit) \<times> adm_db" where
  "CreateJob inst io job db =
     (let (r, ds) = col_InsertOne (io_flt io 0) SJ_ID
        (job\<lparr>SJ_ID := io_uuid io 0, SJ_InstanceID := inst, SJ_Status := JobPending, SJ_RunAt := bson_time (SJ_RunAt job), SJ_MaxAttempts := 3\<rparr>) (scheduled_jobs db)
      in (r, db\<lparr>scheduled_jobs := ds\<rparr>))"

definition FetchDueJobs :: "uuid \<Rightarrow> io \<Rightarrow> adm_db \<Rightarrow> go_error + ScheduledJob list" where
  "FetchDueJobs inst io db =
     col_Find (io_flt io 0) (take 50 (sort_key SJ_RunAt
       (filter (\<lambda>j. SJ_InstanceID j = inst \<and> SJ_Status j = JobPending \<and> SJ_RunAt j \<le> io_now io 0) (scheduled_jobs db))))"

definition set_job :: "uuid \<Rightarrow> string option \<Rightarrow> uuid \<Rightarrow> (ScheduledJob \<Rightarrow> ScheduledJob) \<Rightarrow> adm_db \<Rightarrow> (go_error + unit) \<times> adm_db" where
  "set_job inst flt i f db =
     (let (r, ds) = col_UpdateOne flt (\<lambda>j. SJ_InstanceID j = inst \<and> SJ_ID j = i) f (scheduled_jobs db) in (r, db\<lparr>scheduled_jobs := ds\<rparr>))"

definition MarkJobRunning :: "uuid \<Rightarrow> string option \<Rightarrow> uuid \<Rightarrow> adm_db \<Rightarrow> (go_error + unit) \<times> adm_db" where
  "MarkJobRunning inst flt i = set_job inst flt i (\<lambda>j. j\<lparr>SJ_Status := JobRunning, SJ_Attempts := SJ_Attempts j + 1\<rparr>)"

definition MarkJobDone :: "uuid \<Rightarrow> string option \<Rightarrow> uuid \<Rightarrow> adm_db \<Rightarrow> (go_error + unit) \<times> adm_db" where
  "MarkJobDone inst flt i = set_job inst flt i (\<lambda>j. j\<lparr>SJ_Status := JobDone\<rparr>)"

definition MarkJobFailed :: "uuid \<Rightarrow> string option \<Rightarrow> uuid \<Rightarrow> go_error \<Rightarrow> adm_db \<Rightarrow> (go_error + unit) \<times> adm_db" where
  "MarkJobFailed inst flt i errMsg = set_job inst flt i (\<lambda>j. j\<lparr>SJ_Status := JobFailed, SJ_LastError := Some errMsg\<rparr>)"

definition RetryJob :: "uuid \<Rightarrow> string option \<Rightarrow> uuid \<Rightarrow> time \<Rightarrow> adm_db \<Rightarrow> (go_error + unit) \<times> adm_db" where
  "RetryJob inst flt i nextRun = set_job inst flt i (\<lambda>j. j\<lparr>SJ_Status := JobPending, SJ_RunAt := bson_time nextRun\<rparr>)"

definition CancelJob :: "uuid \<Rightarrow> string option \<Rightarrow> uuid \<Rightarrow> adm_db \<Rightarrow> (go_error + unit) \<times> adm_db" where
  "CancelJob inst flt i = set_job inst flt i (\<lambda>j. j\<lparr>SJ_Status := JobCancelled\<rparr>)"

text \<open>The loops over what has been found stop at the first error.\<close>

fun each :: "(string option \<Rightarrow> 'd \<Rightarrow> adm_db \<Rightarrow> (go_error + unit) \<times> adm_db) \<Rightarrow> (nat \<Rightarrow> string option) \<Rightarrow> 'd list \<Rightarrow> adm_db \<Rightarrow> (go_error + unit) \<times> adm_db" where
  "each f flts [] db = (Inr (), db)"
| "each f flts (d # ds) db =
     (case f (flts 0) d db of
        (Inl e, db1) \<Rightarrow> (Inl e, db1)
      | (Inr _, db1) \<Rightarrow> each f (\<lambda>k. flts (Suc k)) ds db1)"

definition CancelCampaignJobs :: "uuid \<Rightarrow> io \<Rightarrow> uuid \<Rightarrow> adm_db \<Rightarrow> (go_error + unit) \<times> adm_db" where
  "CancelCampaignJobs inst io campaignID db =
     (case col_Find (io_flt io 0) (filter (\<lambda>j. SJ_InstanceID j = inst \<and> SJ_CampaignID j = campaignID \<and> SJ_Status j = JobPending) (scheduled_jobs db)) of
        Inl e \<Rightarrow> (Inl e, db)
      | Inr jobs \<Rightarrow> each (\<lambda>flt j. CancelJob inst flt (SJ_ID j)) (\<lambda>k. io_flt io (Suc k)) jobs db)"

definition CancelReservationJobs :: "uuid \<Rightarrow> io \<Rightarrow> uuid \<Rightarrow> adm_db \<Rightarrow> (go_error + unit) \<times> adm_db" where
  "CancelReservationJobs inst io reservationID db =
     (case col_Find (io_flt io 0) (filter (\<lambda>j. SJ_InstanceID j = inst \<and> SJ_Status j = JobPending) (scheduled_jobs db)) of
        Inl e \<Rightarrow> (Inl e, db)
      | Inr jobs \<Rightarrow>
          each (\<lambda>flt j. CancelJob inst flt (SJ_ID j)) (\<lambda>k. io_flt io (Suc k))
            (filter (\<lambda>j. SJ_Payload j = reservationID \<or> HasPrefix (SJ_Payload j) (reservationID @ ''|'')) jobs) db)"

section \<open>Reservations (\<open>reservation.go\<close>)\<close>

definition CreateReservation :: "uuid \<Rightarrow> io \<Rightarrow> Reservation \<Rightarrow> adm_db \<Rightarrow> (go_error + Reservation) \<times> adm_db" where
  "CreateReservation inst io r db =
     (let r1 = r\<lparr>RS_ID := io_uuid io 0, RS_InstanceID := inst, RS_Status := ReservationPending\<rparr>
      in case col_InsertOne (io_flt io 0) RS_ID (r1\<lparr>RS_ScheduledAt := bson_time (RS_ScheduledAt r)\<rparr>) (reservations db) of
           (Inl e, _) \<Rightarrow> (Inl e, db)
         | (Inr _, ds) \<Rightarrow> (Inr r1, db\<lparr>reservations := ds\<rparr>))"

definition FindReservation :: "uuid \<Rightarrow> string option \<Rightarrow> uuid \<Rightarrow> adm_db \<Rightarrow> go_error + Reservation" where
  "FindReservation inst flt i db = col_FindOne flt (\<lambda>r. RS_InstanceID r = inst \<and> RS_ID r = i) (reservations db)"

definition is_open :: "Reservation \<Rightarrow> bool" where
  "is_open r \<longleftrightarrow> RS_Status r \<in> {ReservationPending, ReservationConfirmed}"

definition ListReservationsByChannel :: "uuid \<Rightarrow> string option \<Rightarrow> uuid \<Rightarrow> time \<Rightarrow> time \<Rightarrow> adm_db \<Rightarrow> go_error + Reservation list" where
  "ListReservationsByChannel inst flt channelID since until db =
     col_Find flt (sort_key RS_ScheduledAt (filter (\<lambda>r. RS_InstanceID r = inst \<and> RS_ChannelID r = channelID \<and>
       since \<le> RS_ScheduledAt r \<and> RS_ScheduledAt r < until \<and> is_open r) (reservations db)))"

definition HasRecentReservation :: "uuid \<Rightarrow> string option \<Rightarrow> uuid \<Rightarrow> uuid \<Rightarrow> time \<Rightarrow> adm_db \<Rightarrow> go_error + bool" where
  "HasRecentReservation inst flt campaignID channelID since db =
     stmt flt (Inr (\<exists>r \<in> set (reservations db). RS_InstanceID r = inst \<and> RS_CampaignID r = campaignID \<and> RS_ChannelID r = channelID \<and>
       since \<le> RS_ScheduledAt r))"

definition CountReservations :: "uuid \<Rightarrow> string option \<Rightarrow> uuid \<Rightarrow> uuid \<Rightarrow> ReservationStatus list \<Rightarrow> adm_db \<Rightarrow> int64 \<times> go_error option" where
  "CountReservations inst flt campaignID channelID statuses db =
     CountDocuments flt (\<lambda>r. RS_InstanceID r = inst \<and> RS_CampaignID r = campaignID \<and> RS_ChannelID r = channelID \<and> RS_Status r \<in> set statuses)
       (reservations db)"

definition set_reservation :: "uuid \<Rightarrow> string option \<Rightarrow> uuid \<Rightarrow> (Reservation \<Rightarrow> Reservation) \<Rightarrow> adm_db \<Rightarrow> (go_error + unit) \<times> adm_db" where
  "set_reservation inst flt i f db =
     (let (r, ds) = col_UpdateOne flt (\<lambda>r. RS_InstanceID r = inst \<and> RS_ID r = i) f (reservations db) in (r, db\<lparr>reservations := ds\<rparr>))"

definition SetReservationMainPosted :: "uuid \<Rightarrow> string option \<Rightarrow> uuid \<Rightarrow> int64 \<Rightarrow> adm_db \<Rightarrow> (go_error + unit) \<times> adm_db" where
  "SetReservationMainPosted inst flt i mainMessageID = set_reservation inst flt i
     (\<lambda>r. r\<lparr>RS_Status := ReservationSent, RS_LiveMessageIDs := [mainMessageID], RS_CurrentReplyIndex := -1, RS_PostedMessageIDs := [mainMessageID]\<rparr>)"

definition SetReservationReplyPosted :: "uuid \<Rightarrow> io \<Rightarrow> uuid \<Rightarrow> int64 \<Rightarrow> int64 \<Rightarrow> adm_db \<Rightarrow> (go_error + unit) \<times> adm_db" where
  "SetReservationReplyPosted inst io i replyMessageID replyIndex db =
     (case FindReservation inst (io_flt io 0) i db of
        Inl e \<Rightarrow> (Inl e, db)
      | Inr res \<Rightarrow>
          (let main = (case RS_LiveMessageIDs res of [] \<Rightarrow> 0 | m # _ \<Rightarrow> m);
               live = (if main \<noteq> 0 then [main] else []) @ [replyMessageID]
           in set_reservation inst (io_flt io 1) i
                (\<lambda>r. r\<lparr>RS_LiveMessageIDs := live, RS_CurrentReplyIndex := replyIndex, RS_PostedMessageIDs := RS_PostedMessageIDs res @ [replyMessageID]\<rparr>) db))"

definition SetReservationDeleteAt :: "uuid \<Rightarrow> string option \<Rightarrow> uuid \<Rightarrow> time \<Rightarrow> adm_db \<Rightarrow> (go_error + unit) \<times> adm_db" where
  "SetReservationDeleteAt inst flt i deleteAt = set_reservation inst flt i (\<lambda>r. r\<lparr>RS_DeleteAt := Some (bson_time deleteAt)\<rparr>)"

definition MarkReservationExpired :: "uuid \<Rightarrow> string option \<Rightarrow> uuid \<Rightarrow> adm_db \<Rightarrow> (go_error + unit) \<times> adm_db" where
  "MarkReservationExpired inst flt i = set_reservation inst flt i (\<lambda>r. r\<lparr>RS_Status := ReservationExpired, RS_LiveMessageIDs := []\<rparr>)"

definition ListLiveReservationsByCampaign :: "uuid \<Rightarrow> string option \<Rightarrow> uuid \<Rightarrow> adm_db \<Rightarrow> go_error + Reservation list" where
  "ListLiveReservationsByCampaign inst flt campaignID db =
     col_Find flt (filter (\<lambda>r. RS_InstanceID r = inst \<and> RS_CampaignID r = campaignID \<and> RS_Status r = ReservationSent) (reservations db))"

definition ListLiveReservationsByChannel :: "uuid \<Rightarrow> string option \<Rightarrow> uuid \<Rightarrow> adm_db \<Rightarrow> go_error + Reservation list" where
  "ListLiveReservationsByChannel inst flt channelID db =
     col_Find flt (filter (\<lambda>r. RS_InstanceID r = inst \<and> RS_ChannelID r = channelID \<and> RS_Status r = ReservationSent) (reservations db))"

definition SetReservationLiveMessage :: "uuid \<Rightarrow> io \<Rightarrow> uuid \<Rightarrow> int64 list \<Rightarrow> adm_db \<Rightarrow> (go_error + unit) \<times> adm_db" where
  "SetReservationLiveMessage inst io i liveIDs db =
     (case FindReservation inst (io_flt io 0) i db of
        Inl e \<Rightarrow> (Inl e, db)
      | Inr res \<Rightarrow>
          set_reservation inst (io_flt io 1) i
            (\<lambda>r. r\<lparr>RS_LiveMessageIDs := liveIDs, RS_PostedMessageIDs := RS_PostedMessageIDs res @ liveIDs\<rparr>) db)"

definition LastReservationAt :: "uuid \<Rightarrow> string option \<Rightarrow> uuid \<Rightarrow> uuid \<Rightarrow> adm_db \<Rightarrow> time option" where
  "LastReservationAt inst flt campaignID channelID db =
     (case flt of
        Some _ \<Rightarrow> None
      | None \<Rightarrow>
          (case sort_desc RS_ScheduledAt (filter (\<lambda>r. RS_InstanceID r = inst \<and> RS_CampaignID r = campaignID \<and> RS_ChannelID r = channelID) (reservations db)) of
             [] \<Rightarrow> None
           | r # _ \<Rightarrow> Some (RS_ScheduledAt r)))"

definition MarkReservationFailed :: "uuid \<Rightarrow> string option \<Rightarrow> uuid \<Rightarrow> go_error \<Rightarrow> adm_db \<Rightarrow> (go_error + unit) \<times> adm_db" where
  "MarkReservationFailed inst flt i errMsg = set_reservation inst flt i (\<lambda>r. r\<lparr>RS_Status := ReservationFailed, RS_Error := Some errMsg\<rparr>)"

definition CancelCampaignReservations :: "uuid \<Rightarrow> io \<Rightarrow> uuid \<Rightarrow> adm_db \<Rightarrow> (go_error + unit) \<times> adm_db" where
  "CancelCampaignReservations inst io campaignID db =
     (case col_Find (io_flt io 0) (filter (\<lambda>r. RS_InstanceID r = inst \<and> RS_CampaignID r = campaignID \<and> is_open r) (reservations db)) of
        Inl e \<Rightarrow> (Inl e, db)
      | Inr rs \<Rightarrow> each (\<lambda>flt r. set_reservation inst flt (RS_ID r) (\<lambda>r. r\<lparr>RS_Status := ReservationCancelled\<rparr>)) (\<lambda>k. io_flt io (Suc k)) rs db)"

section \<open>Templates, settings, audit (\<open>template.go\<close>, \<open>setting.go\<close>, \<open>audit.go\<close>)\<close>

definition CreateTemplate :: "uuid \<Rightarrow> io \<Rightarrow> CampaignTemplate \<Rightarrow> adm_db \<Rightarrow> (go_error + unit) \<times> adm_db" where
  "CreateTemplate inst io t db =
     (let (r, ds) = col_InsertOne (io_flt io 0) CT_ID (t\<lparr>CT_ID := io_uuid io 0, CT_InstanceID := inst\<rparr>) (campaign_templates db)
      in (r, db\<lparr>campaign_templates := ds\<rparr>))"

definition FindTemplate :: "uuid \<Rightarrow> string option \<Rightarrow> uuid \<Rightarrow> adm_db \<Rightarrow> go_error + CampaignTemplate" where
  "FindTemplate inst flt i db = col_FindOne flt (\<lambda>t. CT_InstanceID t = inst \<and> CT_ID t = i) (campaign_templates db)"

definition ListTemplates :: "uuid \<Rightarrow> string option \<Rightarrow> adm_db \<Rightarrow> go_error + CampaignTemplate list" where
  "ListTemplates inst flt db = col_Find flt (sort_key CT_Name (filter (\<lambda>t. CT_InstanceID t = inst) (campaign_templates db)))"

fun remove_first :: "('d \<Rightarrow> bool) \<Rightarrow> 'd list \<Rightarrow> 'd list" where
  "remove_first P [] = []"
| "remove_first P (d # ds) = (if P d then ds else d # remove_first P ds)"

definition DeleteTemplate :: "uuid \<Rightarrow> string option \<Rightarrow> uuid \<Rightarrow> adm_db \<Rightarrow> adm_db" where
  "DeleteTemplate inst flt i db =
     (case flt of
        Some _ \<Rightarrow> db
      | None \<Rightarrow> db\<lparr>campaign_templates := remove_first (\<lambda>t. CT_InstanceID t = inst \<and> CT_ID t = i) (campaign_templates db)\<rparr>)"

text \<open>\<open>GetSettings\<close> writes the defaults when it cannot read them, whatever the reason.\<close>

definition GetSettings :: "uuid \<Rightarrow> io \<Rightarrow> adm_db \<Rightarrow> BotSettings \<times> adm_db" where
  "GetSettings inst io db =
     (case col_FindOne (io_flt io 0) (\<lambda>s. BS_InstanceID s = inst) (settings db) of
        Inr s \<Rightarrow> (s, db)
      | Inl _ \<Rightarrow>
          (let s = \<lparr>BS_InstanceID = inst, BS_ReminderMinutesBefore = DefaultReminderMinutesBefore\<rparr>
           in (s, db\<lparr>settings := snd (col_InsertOne (io_flt io 1) BS_InstanceID s (settings db))\<rparr>)))"

definition UpdateSettings :: "uuid \<Rightarrow> string option \<Rightarrow> (BotSettings \<Rightarrow> BotSettings) \<Rightarrow> adm_db \<Rightarrow> (go_error + unit) \<times> adm_db" where
  "UpdateSettings inst flt chg db =
     (let (r, ds) = col_UpdateOne flt (\<lambda>s. BS_InstanceID s = inst) chg (settings db) in (r, db\<lparr>settings := ds\<rparr>))"

definition LogAudit :: "uuid \<Rightarrow> io \<Rightarrow> AuditLog \<Rightarrow> adm_db \<Rightarrow> adm_db" where
  "LogAudit inst io entry db =
     (case io_flt io 0 of Some _ \<Rightarrow> db | None \<Rightarrow> db\<lparr>audit_logs := audit_logs db @ [entry\<lparr>AL_InstanceID := inst\<rparr>]\<rparr>)"

definition ListAuditLogs :: "uuid \<Rightarrow> string option \<Rightarrow> string \<Rightarrow> int64 \<Rightarrow> int64 \<Rightarrow> adm_db \<Rightarrow> go_error + AuditLog list" where
  \<comment> \<open>newest first, which is the reverse of the natural order\<close>
  "ListAuditLogs inst flt targetID pg ps db =
     col_Find flt (col_page pg ps (rev (filter (\<lambda>e. AL_InstanceID e = inst \<and> (targetID = [] \<or> AL_TargetID e = targetID)) (audit_logs db))))"

end
