(* ===== verification/AdmScheduler.thy ===== *)
theory AdmScheduler
  imports AdmStore
begin

text \<open>
  The scheduler of \<open>admanager-bot\<close> (\<open>internal/scheduler/scheduler.go\<close>). A tick marks due jobs as running and starts a
  goroutine for each; the goroutine is one later step, in any order with other jobs, ticks and the owner, or never
  when the process stops before. What the bot asks of Telegram is logged; the identity of a copy, or the error,
  is an answer of the environment.
\<close>

section \<open>State\<close>

datatype tg_call =
    TgCopy int64 int64 int64  \<comment> \<open>to a chat: the message of the source, and the message it became\<close>
  | TgDelete int64 int64
  | TgPin int64 int64
  | TgSend int64 string

record adm =
  am_db :: adm_db
  am_running :: "ScheduledJob list"
  am_calls :: "tg_call list"

text \<open>The environment: for each call of the store its driver, for each request to Telegram its answer.\<close>

record adm_env =
  ae_io :: "nat \<Rightarrow> io"
  ae_tg :: "nat \<Rightarrow> go_error + int64"

definition ae_shift :: "nat \<Rightarrow> adm_env \<Rightarrow> adm_env" where
  "ae_shift k env = \<lparr>ae_io = (\<lambda>i. ae_io env (i + k)), ae_tg = (\<lambda>i. ae_tg env (i + k))\<rparr>"

record adm_cfg =
  mc_instance :: uuid
  mc_ownerID :: int64
  mc_loc :: time

definition ae_flt :: "adm_env \<Rightarrow> nat \<Rightarrow> string option" where
  "ae_flt env k = io_flt (ae_io env k) 0"

definition with_adm :: "(adm_db \<Rightarrow> 'r \<times> adm_db) \<Rightarrow> adm \<Rightarrow> 'r \<times> adm" where
  "with_adm f s = (let (r, db) = f (am_db s) in (r, s\<lparr>am_db := db\<rparr>))"

definition on_adm :: "(adm_db \<Rightarrow> 'r \<times> adm_db) \<Rightarrow> adm \<Rightarrow> adm" where  \<comment> \<open>the result is not looked at\<close>
  "on_adm f s = snd (with_adm f s)"

definition call_tg :: "tg_call \<Rightarrow> adm \<Rightarrow> adm" where
  "call_tg c s = s\<lparr>am_calls := am_calls s @ [c]\<rparr>"

definition Copy :: "(go_error + int64) \<Rightarrow> int64 \<Rightarrow> int64 \<Rightarrow> adm \<Rightarrow> (go_error + int64) \<times> adm" where
  "Copy ans chat src s = (case ans of Inl e \<Rightarrow> (Inl e, s) | Inr m \<Rightarrow> (Inr m, call_tg (TgCopy chat src m) s))"

definition delete_all :: "int64 \<Rightarrow> int64 list \<Rightarrow> adm \<Rightarrow> adm" where
  "delete_all chat ms s = fold (\<lambda>m. call_tg (TgDelete chat m)) ms s"

section \<open>Planning\<close>

text \<open>\<open>resolveChannels\<close>: the channels of the tags, then the ones named, each once.\<close>

fun add_unseen :: "adm_Channel list \<Rightarrow> adm_Channel list \<Rightarrow> adm_Channel list" where
  "add_unseen out [] = out"
| "add_unseen out (c # cs) = add_unseen (if HN_ID c \<in> HN_ID ` set out then out else out @ [c]) cs"

fun tag_channels :: "uuid \<Rightarrow> adm_env \<Rightarrow> int64 \<Rightarrow> uuid list \<Rightarrow> adm_db \<Rightarrow> adm_Channel list \<Rightarrow> adm_Channel list" where
  "tag_channels inst env minMembers [] db out = out"
| "tag_channels inst env minMembers (t # ts) db out =
     tag_channels inst (ae_shift 1 env) minMembers ts db
       (add_unseen out (case ListChannelsByTag inst (ae_flt env 0) t minMembers db of Inl _ \<Rightarrow> [] | Inr cs \<Rightarrow> cs))"

fun named_channels :: "uuid \<Rightarrow> adm_env \<Rightarrow> uuid list \<Rightarrow> adm_db \<Rightarrow> adm_Channel list \<Rightarrow> adm_Channel list" where
  "named_channels inst env [] db out = out"
| "named_channels inst env (i # is) db out =
     named_channels inst (ae_shift 1 env) is db
       (case adm_FindChannel inst (ae_flt env 0) i db of
          Inl _ \<Rightarrow> out
        | Inr c \<Rightarrow> (if HN_Status c = ChannelActive then add_unseen out [c] else out))"

definition resolveChannels :: "uuid \<Rightarrow> adm_env \<Rightarrow> adm_Campaign \<Rightarrow> adm_db \<Rightarrow> adm_Channel list" where
  "resolveChannels inst env cm db =
     named_channels inst (ae_shift (length (KP_TargetTagIDs cm)) env) (KP_TargetChannelIDs cm) db
       (tag_channels inst env (KP_MinMemberCount cm) (KP_TargetTagIDs cm) db [])"

fun expire_all :: "uuid \<Rightarrow> adm_env \<Rightarrow> Reservation list \<Rightarrow> adm \<Rightarrow> adm" where
  "expire_all inst env [] s = s"
| "expire_all inst env (res # rs) s =
     (let s1 = (case adm_FindChannel inst (ae_flt env 0) (RS_ChannelID res) (am_db s) of
                  Inl _ \<Rightarrow> s
                | Inr ch \<Rightarrow> delete_all (HN_TelegramID ch) (RS_LiveMessageIDs res) s)
      in expire_all inst (ae_shift 2 env) rs (on_adm (MarkReservationExpired inst (ae_flt env 1) (RS_ID res)) s1))"

definition cutOffCampaign :: "uuid \<Rightarrow> adm_env \<Rightarrow> adm_Campaign \<Rightarrow> adm \<Rightarrow> adm" where
  "cutOffCampaign inst env cm s =
     (let live = (case ListLiveReservationsByCampaign inst (ae_flt env 0) (KP_ID cm) (am_db s) of Inl _ \<Rightarrow> [] | Inr rs \<Rightarrow> rs);
          s1 = expire_all inst (ae_shift 3 env) live s
      in on_adm (CancelCampaignJobs inst (ae_io env 2) (KP_ID cm)) (on_adm (CancelCampaignReservations inst (ae_io env 1) (KP_ID cm)) s1))"

text \<open>
  The next slot of a channel: the beginning of the window, or a cycle after the last reservation. The latter comes
  from MongoDB and is in UTC.
\<close>

definition next_slot :: "adm_cfg \<Rightarrow> time \<Rightarrow> time option \<Rightarrow> int64 \<Rightarrow> time \<times> time" where  \<comment> \<open>with the zone it is read in\<close>
  "next_slot cfg windowStart lastAt cycleGap = (case lastAt of None \<Rightarrow> (windowStart, mc_loc cfg) | Some l \<Rightarrow> (l + cycleGap, 0))"

definition zero_reservation :: Reservation where
  "zero_reservation = \<lparr>RS_ID = [], RS_InstanceID = [], RS_CampaignID = [], RS_AdvertisementID = [], RS_ChannelID = [], RS_Status = ReservationPending,
     RS_ScheduledAt = zero_time, RS_LiveMessageIDs = [], RS_CurrentReplyIndex = 0, RS_PostedMessageIDs = [], RS_DeleteAt = None, RS_Error = None\<rparr>"

definition reserve :: "uuid \<Rightarrow> adm_env \<Rightarrow> time \<Rightarrow> int64 \<Rightarrow> adm_Campaign \<Rightarrow> Advertisement \<Rightarrow> adm_Channel \<Rightarrow> time \<Rightarrow> adm_db \<Rightarrow> adm_db" where
  "reserve inst env now lead cm ad ch nextDue db =
     (case CreateReservation inst (ae_io env 0) (zero_reservation\<lparr>RS_CampaignID := KP_ID cm, RS_AdvertisementID := AX_ID ad, RS_ChannelID := HN_ID ch,
              RS_ScheduledAt := nextDue\<rparr>) db of
        (Inl _, db1) \<Rightarrow> db1
      | (Inr res, db1) \<Rightarrow>
          (let job = zero_job\<lparr>SJ_Type := JobTypeSendAd, SJ_CampaignID := KP_ID cm, SJ_AdvertisementID := AX_ID ad, SJ_ChannelID := HN_ID ch,
                       SJ_RunAt := nextDue, SJ_Payload := RS_ID res\<rparr>
           in case CreateJob inst (ae_io env 1) job db1 of
                (Inl _, db2) \<Rightarrow> db2
              | (Inr _, db2) \<Rightarrow>
                  (if 0 < lead
                   then snd (CreateJob inst (ae_io env 2)
                          (job\<lparr>SJ_Type := JobTypeReminder, SJ_RunAt := max (nextDue - wrap64 (lead * minute_ns)) now\<rparr>) db2)
                   else db2)))"

definition plan_channel :: "adm_cfg \<Rightarrow> adm_env \<Rightarrow> time \<Rightarrow> int64 \<Rightarrow> adm_Campaign \<Rightarrow> Advertisement \<Rightarrow> time \<Rightarrow> adm_Channel \<Rightarrow> adm_db \<Rightarrow> adm_db" where
  "plan_channel cfg env now lead cm ad windowStart ch db =
     (let inst = mc_instance cfg;
          cycleGap = wrap64 (wrap64 (KP_IntervalMinutes cm * (int (length (AX_Replies ad)) + 1)) * minute_ns);
          leadDur = wrap64 (lead * minute_ns)
      in if 0 < fst (CountReservations inst (ae_flt env 0) (KP_ID cm) (HN_ID ch) [ReservationPending, ReservationConfirmed] db) then db
         else let (nextDue, zone) = next_slot cfg windowStart (LastReservationAt inst (ae_flt env 1) (KP_ID cm) (HN_ID ch) db) cycleGap
              in if \<not> InDailyWindow zone nextDue (KP_StartHour cm) (KP_StartMinute cm) (KP_EndHour cm) (KP_EndMinute cm) then db
                 else if (if 0 < lead then now < nextDue - leadDur else now < nextDue) then db
                 else reserve inst (ae_shift 2 env) now lead cm ad ch nextDue db)"

fun plan_channels :: "adm_cfg \<Rightarrow> adm_env \<Rightarrow> time \<Rightarrow> int64 \<Rightarrow> adm_Campaign \<Rightarrow> Advertisement \<Rightarrow> time \<Rightarrow> adm_Channel list \<Rightarrow> adm_db \<Rightarrow> adm_db" where
  "plan_channels cfg env now lead cm ad windowStart [] db = db"
| "plan_channels cfg env now lead cm ad windowStart (ch # chs) db =
     plan_channels cfg (ae_shift 5 env) now lead cm ad windowStart chs (plan_channel cfg env now lead cm ad windowStart ch db)"

text \<open>The elapsed minutes are below a day, where the division in floating point is exact enough to truncate to the same number.\<close>

definition plan_campaign :: "adm_cfg \<Rightarrow> (nat \<Rightarrow> adm_env) \<Rightarrow> time \<Rightarrow> int64 \<Rightarrow> adm_Campaign \<Rightarrow> adm \<Rightarrow> adm" where
  "plan_campaign cfg envs now lead cm s =
     (let inst = mc_instance cfg
      in if (case KP_EndAt cm of None \<Rightarrow> False | Some e \<Rightarrow> e < now) then on_adm (UpdateCampaignStatus inst (ae_flt (envs 0) 0) (KP_ID cm) CampaignCompleted) s
         else if KP_IntervalMinutes cm < 1 then s
         else if \<not> InDailyWindow (mc_loc cfg) now (KP_StartHour cm) (KP_StartMinute cm) (KP_EndHour cm) (KP_EndMinute cm) then cutOffCampaign inst (envs 1) cm s
         else case ListAdsByCampaign inst (ae_flt (envs 0) 1) (KP_ID cm) (am_db s) of
                Inl _ \<Rightarrow> s
              | Inr [] \<Rightarrow> s
              | Inr (a # as) \<Rightarrow>
                  (case resolveChannels inst (envs 2) cm (am_db s) of
                     [] \<Rightarrow> s
                   | chs \<Rightarrow>
                       (let windowStart = CurrentWindowStart (mc_loc cfg) now (KP_StartHour cm) (KP_StartMinute cm) (KP_EndHour cm) (KP_EndMinute cm);
                            elapsed = go_div (time_Sub now windowStart) minute_ns;
                            ad = (a # as) ! nat (RotationIndex elapsed (KP_RotationMinutes cm) (int (length (a # as))))
                        in s\<lparr>am_db := plan_channels cfg (envs 3) now lead cm ad windowStart chs (am_db s)\<rparr>)))"

fun plan_all :: "adm_cfg \<Rightarrow> (nat \<Rightarrow> nat \<Rightarrow> adm_env) \<Rightarrow> time \<Rightarrow> int64 \<Rightarrow> adm_Campaign list \<Rightarrow> adm \<Rightarrow> adm" where
  "plan_all cfg envss now lead [] s = s"
| "plan_all cfg envss now lead (cm # cms) s = plan_all cfg (\<lambda>k. envss (Suc k)) now lead cms (plan_campaign cfg (envss 0) now lead cm s)"

definition planCampaigns :: "adm_cfg \<Rightarrow> adm_env \<Rightarrow> (nat \<Rightarrow> nat \<Rightarrow> adm_env) \<Rightarrow> adm \<Rightarrow> adm" where
  "planCampaigns cfg env envss s =
     (case ListActiveCampaigns (mc_instance cfg) (ae_io env 0) (am_db s) of
        Inl _ \<Rightarrow> s
      | Inr cms \<Rightarrow>
          (let (st, s1) = with_adm (GetSettings (mc_instance cfg) (ae_io env 1)) s
           in plan_all cfg envss (io_now (ae_io env 0) 1) (BS_ReminderMinutesBefore st) cms s1))"

text \<open>Starting the jobs that are due; the goroutine works on the job as it was read.\<close>

fun start_jobs :: "uuid \<Rightarrow> adm_env \<Rightarrow> ScheduledJob list \<Rightarrow> adm \<Rightarrow> adm" where
  "start_jobs inst env [] s = s"
| "start_jobs inst env (j # js) s =
     (case with_adm (MarkJobRunning inst (ae_flt env 0) (SJ_ID j)) s of
        (Inl _, s1) \<Rightarrow> start_jobs inst (ae_shift 1 env) js s1
      | (Inr _, s1) \<Rightarrow> start_jobs inst (ae_shift 1 env) js (s1\<lparr>am_running := am_running s1 @ [j]\<rparr>))"

definition sched_tick :: "adm_cfg \<Rightarrow> adm_env \<Rightarrow> (nat \<Rightarrow> nat \<Rightarrow> adm_env) \<Rightarrow> adm \<Rightarrow> adm" where
  "sched_tick cfg env envss s =
     planCampaigns cfg (ae_shift 1 env) envss
       (case FetchDueJobs (mc_instance cfg) (ae_io env 0) (am_db s) of
          Inl _ \<Rightarrow> s
        | Inr jobs \<Rightarrow> start_jobs (mc_instance cfg) (ae_shift 3 env) jobs s)"

section \<open>Jobs\<close>

text \<open>\<open>afterPost\<close>: advertisements that are to stay the last message are sent again.\<close>

fun repost_all :: "uuid \<Rightarrow> adm_env \<Rightarrow> adm_Channel \<Rightarrow> int64 \<Rightarrow> Reservation list \<Rightarrow> adm \<Rightarrow> adm" where
  "repost_all inst env ch justPosted [] s = s"
| "repost_all inst env ch justPosted (res # rs) s =
     repost_all inst (ae_shift 2 env) ch justPosted rs
       (if RS_LiveMessageIDs res = [] \<or> last (RS_LiveMessageIDs res) = justPosted then s
        else case FindAd inst (ae_flt env 0) (RS_AdvertisementID res) (am_db s) of
               Inl _ \<Rightarrow> s
             | Inr ad \<Rightarrow>
                 (if \<not> AX_KeepAsLastMessage ad then s
                  else let idx = RS_CurrentReplyIndex res;
                           src = (if 0 \<le> idx \<and> idx < int (length (AX_Replies ad)) then RY_MessageID (AX_Replies ad ! nat idx) else AX_MainMessageID ad)
                       in case Copy (ae_tg env 0) (HN_TelegramID ch) src s of
                            (Inl _, s1) \<Rightarrow> s1
                          | (Inr new, s1) \<Rightarrow>
                              (let s2 = (if AX_DeletePreviousOnRepost ad then delete_all (HN_TelegramID ch) (RS_LiveMessageIDs res) s1 else s1);
                                   s3 = (if AX_PinMessage ad then call_tg (TgPin (HN_TelegramID ch) new) s2 else s2)
                               in on_adm (SetReservationLiveMessage inst (ae_io env 1) (RS_ID res) [new]) s3)))"

definition afterPost :: "uuid \<Rightarrow> adm_env \<Rightarrow> adm_Channel \<Rightarrow> int64 \<Rightarrow> adm \<Rightarrow> adm" where
  "afterPost inst env ch justPosted s =
     (case ListLiveReservationsByChannel inst (ae_flt env 0) (HN_ID ch) (am_db s) of
        Inl _ \<Rightarrow> s
      | Inr live \<Rightarrow> repost_all inst (ae_shift 1 env) ch justPosted live s)"

definition sendAd :: "uuid \<Rightarrow> adm_env \<Rightarrow> ScheduledJob \<Rightarrow> adm \<Rightarrow> (go_error + unit) \<times> adm" where
  "sendAd inst env job s =
     (case FindAd inst (ae_flt env 0) (SJ_AdvertisementID job) (am_db s) of
        Inl e \<Rightarrow> (Inl e, s)
      | Inr ad \<Rightarrow>
          (case adm_FindChannel inst (ae_flt env 1) (SJ_ChannelID job) (am_db s) of
             Inl e \<Rightarrow> (Inl e, s)
           | Inr ch \<Rightarrow>
               (case adm_FindCampaign inst (ae_flt env 2) (SJ_CampaignID job) (am_db s) of
                  Inl _ \<Rightarrow> (Inr (), s)
                | Inr cm \<Rightarrow>
                    (case Copy (ae_tg env 0) (HN_TelegramID ch) (AX_MainMessageID ad) s of
                       (Inl e, s1) \<Rightarrow> (Inl e, s1)
                     | (Inr main, s1) \<Rightarrow>
                         (let resID = SJ_Payload job;
                              s2 = (if resID \<noteq> [] then on_adm (SetReservationMainPosted inst (ae_flt env 3) resID main) s1 else s1);
                              s3 = on_adm (IncrCampaignImpressions inst (ae_flt env 4) (SJ_CampaignID job)) s2;
                              s4 = afterPost inst (ae_shift 10 env) ch main s3;
                              now = io_now (ae_io env 5) 0;
                              deleteAt = now + wrap64 (KP_DeleteAfterMinutes cm * minute_ns);
                              s5 = (if 0 < KP_DeleteAfterMinutes cm \<and> resID \<noteq> []
                                    then on_adm (SetReservationDeleteAt inst (ae_flt env 7) resID deleteAt)
                                           (on_adm (CreateJob inst (ae_io env 6) (zero_job\<lparr>SJ_Type := JobTypeDeletePost, SJ_CampaignID := SJ_CampaignID job,
                                              SJ_ChannelID := SJ_ChannelID job, SJ_RunAt := deleteAt, SJ_Payload := resID\<rparr>)) s4)
                                    else s4);
                              s6 = (if AX_Replies ad \<noteq> []
                                    then on_adm (CreateJob inst (ae_io env 8) (zero_job\<lparr>SJ_Type := JobTypeSendReply, SJ_CampaignID := SJ_CampaignID job,
                                           SJ_AdvertisementID := AX_ID ad, SJ_ChannelID := SJ_ChannelID job,
                                           SJ_RunAt := now + wrap64 (KP_IntervalMinutes cm * minute_ns), SJ_Payload := resID @ ''|0''\<rparr>)) s5
                                    else s5)
                          in (Inr (), s6))))))"

fun last_bar :: "string \<Rightarrow> (string \<times> string) option" where  \<comment> \<open>\<open>LastIndex(p, "|")\<close> with what stands before and after it\<close>
  "last_bar [] = None"
| "last_bar (c # cs) =
     (case last_bar cs of
        Some (a, b) \<Rightarrow> Some (c # a, b)
      | None \<Rightarrow> (if c = CHR ''|'' then Some ([], cs) else None))"

definition splitReplyPayload :: "string \<Rightarrow> (uuid \<times> int64) option" where
  "splitReplyPayload p =
     (case last_bar p of
        None \<Rightarrow> None
      | Some (a, b) \<Rightarrow> (case ParseInt b of None \<Rightarrow> None | Some i \<Rightarrow> Some (a, i)))"

text \<open>
  A negative index would make the handler panic; payloads are written by the scheduler itself, with indices from 0.
\<close>

definition sendReply :: "uuid \<Rightarrow> adm_env \<Rightarrow> ScheduledJob \<Rightarrow> adm \<Rightarrow> (go_error + unit) \<times> adm" where
  "sendReply inst env job s =
     (case splitReplyPayload (SJ_Payload job) of
        None \<Rightarrow> (Inr (), s)
      | Some (resID, idx) \<Rightarrow>
          (case FindReservation inst (ae_flt env 0) resID (am_db s) of
             Inl _ \<Rightarrow> (Inr (), s)
           | Inr res \<Rightarrow>
               (case RS_LiveMessageIDs res of
                  [] \<Rightarrow> (Inr (), s)
                | mainID # others \<Rightarrow>
                    (case FindAd inst (ae_flt env 1) (SJ_AdvertisementID job) (am_db s) of
                       Inl _ \<Rightarrow> (Inr (), s)
                     | Inr ad \<Rightarrow>
                         (if int (length (AX_Replies ad)) \<le> idx then (Inr (), s)
                          else case adm_FindChannel inst (ae_flt env 2) (SJ_ChannelID job) (am_db s) of
                                 Inl e \<Rightarrow> (Inl e, s)
                               | Inr ch \<Rightarrow>
                                   (let chat = HN_TelegramID ch;
                                        s1 = (case others of [] \<Rightarrow> s | old # _ \<Rightarrow> call_tg (TgDelete chat old) s);
                                        reply = AX_Replies ad ! nat idx
                                    in case Copy (ae_tg env 0) chat (RY_MessageID reply) s1 of
                                         (Inl e, s2) \<Rightarrow> (Inl e, s2)
                                       | (Inr m, s2) \<Rightarrow>
                                           (let s3 = on_adm (SetReservationReplyPosted inst (ae_io env 3) resID m idx) s2;
                                                s4 = afterPost inst (ae_shift 10 env) ch m s3;
                                                runAt = io_now (ae_io env 5) 0 + wrap64 (RY_DurationMinutes reply * minute_ns);
                                                base = zero_job\<lparr>SJ_CampaignID := SJ_CampaignID job, SJ_ChannelID := SJ_ChannelID job, SJ_RunAt := runAt\<rparr>
                                            in (Inr (),
                                                if idx + 1 < int (length (AX_Replies ad))
                                                then on_adm (CreateJob inst (ae_io env 6) (base\<lparr>SJ_Type := JobTypeSendReply,
                                                       SJ_AdvertisementID := AX_ID ad, SJ_Payload := resID @ ''|'' @ fmt_d (idx + 1)\<rparr>)) s4
                                                else on_adm (SetReservationDeleteAt inst (ae_flt env 7) resID runAt)
                                                       (on_adm (CreateJob inst (ae_io env 6) (base\<lparr>SJ_Type := JobTypeDeletePost, SJ_Payload := resID\<rparr>)) s4)))))))))"

definition endCycle :: "uuid \<Rightarrow> adm_env \<Rightarrow> uuid \<Rightarrow> uuid \<Rightarrow> adm \<Rightarrow> adm" where
  "endCycle inst env resID channelID s =
     (case FindReservation inst (ae_flt env 0) resID (am_db s) of
        Inl _ \<Rightarrow> s
      | Inr res \<Rightarrow>
          (let s1 = (case adm_FindChannel inst (ae_flt env 1) channelID (am_db s) of
                       Inl _ \<Rightarrow> s
                     | Inr ch \<Rightarrow> delete_all (HN_TelegramID ch) (RS_LiveMessageIDs res) s)
           in on_adm (CancelReservationJobs inst (ae_io env 3) resID) (on_adm (MarkReservationExpired inst (ae_flt env 2) resID) s1)))"

definition deletePost :: "uuid \<Rightarrow> adm_env \<Rightarrow> ScheduledJob \<Rightarrow> adm \<Rightarrow> (go_error + unit) \<times> adm" where
  "deletePost inst env job s = (Inr (), if SJ_Payload job = [] then s else endCycle inst env (SJ_Payload job) (SJ_ChannelID job) s)"

fun refresh_members :: "uuid \<Rightarrow> adm_env \<Rightarrow> adm_Channel list \<Rightarrow> adm \<Rightarrow> adm" where
  "refresh_members inst env [] s = s"
| "refresh_members inst env (ch # chs) s =
     refresh_members inst (ae_shift 1 env) chs
       (case ae_tg env 0 of
          Inl _ \<Rightarrow> s
        | Inr n \<Rightarrow> on_adm (UpdateChannelStats inst (ae_flt env 0) (HN_ID ch) n) s)"

definition updateStats :: "uuid \<Rightarrow> adm_env \<Rightarrow> adm \<Rightarrow> (go_error + unit) \<times> adm" where
  "updateStats inst env s =
     (case adm_ListChannels inst (ae_flt env 0) (Some ChannelActive) 1 200 (am_db s) of
        Inl e \<Rightarrow> (Inl e, s)
      | Inr chs \<Rightarrow> (Inr (), refresh_members inst (ae_shift 1 env) chs s))"

definition endCampaign :: "uuid \<Rightarrow> adm_env \<Rightarrow> ScheduledJob \<Rightarrow> adm \<Rightarrow> (go_error + unit) \<times> adm" where
  "endCampaign inst env job s =
     (if SJ_CampaignID job = [] then (Inr (), s)
      else with_adm (UpdateCampaignStatus inst (ae_flt env 0) (SJ_CampaignID job) CampaignCompleted) s)"

definition sendReminder :: "adm_cfg \<Rightarrow> adm_env \<Rightarrow> ScheduledJob \<Rightarrow> adm \<Rightarrow> (go_error + unit) \<times> adm" where
  "sendReminder cfg env job s =
     (let inst = mc_instance cfg
      in if mc_ownerID cfg = 0 then (Inr (), s)
         else case (FindAd inst (ae_flt env 0) (SJ_AdvertisementID job) (am_db s), adm_FindChannel inst (ae_flt env 1) (SJ_ChannelID job) (am_db s),
                    FindReservation inst (ae_flt env 2) (SJ_Payload job) (am_db s)) of
                (Inr ad, Inr ch, Inr res) \<Rightarrow>
                  (case ae_tg env 0 of Inl e \<Rightarrow> (Inl e, s) | Inr _ \<Rightarrow> (Inr (), call_tg (TgSend (mc_ownerID cfg) ''reminder'') s))
              | _ \<Rightarrow> (Inr (), s))"

definition job_body :: "adm_cfg \<Rightarrow> adm_env \<Rightarrow> ScheduledJob \<Rightarrow> adm \<Rightarrow> (go_error + unit) \<times> adm" where
  "job_body cfg env job s =
     (let inst = mc_instance cfg
      in case SJ_Type job of
           JobTypeSendAd \<Rightarrow> sendAd inst env job s
         | JobTypeSendReply \<Rightarrow> sendReply inst env job s
         | JobTypeDeletePost \<Rightarrow> deletePost inst env job s
         | JobTypeUpdateStats \<Rightarrow> updateStats inst env s
         | JobTypeEndCampaign \<Rightarrow> endCampaign inst env job s
         | JobTypeReminder \<Rightarrow> sendReminder cfg env job s)"

definition runJob :: "adm_cfg \<Rightarrow> adm_env \<Rightarrow> adm_env \<Rightarrow> ScheduledJob \<Rightarrow> adm \<Rightarrow> adm" where
  "runJob cfg env env2 job s =
     (let inst = mc_instance cfg
      in case job_body cfg env job s of
           (Inr _, s1) \<Rightarrow> on_adm (MarkJobDone inst (ae_flt env2 0) (SJ_ID job)) s1
         | (Inl e, s1) \<Rightarrow>
             (if SJ_Attempts job < SJ_MaxAttempts job
              then on_adm (RetryJob inst (ae_flt env2 0) (SJ_ID job) (io_now (ae_io env2 0) 0 + (SJ_Attempts job + 1) * 5 * minute_ns)) s1
              else let s2 = on_adm (MarkJobFailed inst (ae_flt env2 0) (SJ_ID job) e) s1
                   in if SJ_Payload job \<noteq> [] then on_adm (MarkReservationFailed inst (ae_flt env2 1) (SJ_Payload job) e) s2 else s2))"

end
