(* ===== verification/AdmBot.thy ===== *)
theory AdmBot
  imports AdmScheduler
begin

text \<open>
  The owner's side of \<open>admanager-bot\<close> (\<open>internal/tgbot\<close>): conversations, channels, campaigns, advertisements,
  templates and settings, and the routing of text, media and buttons. A view is sent under a key for its text.
  Conversations and the object under edit are in the cache, from which they expire; a step of its own may lose them.
\<close>

section \<open>Conversations (\<open>state.go\<close>)\<close>

record userState =
  us_Step :: string
  us_Data :: "(string \<times> string) list"

definition idle :: userState where "idle = \<lparr>us_Step = [], us_Data = []\<rparr>"

record adm_bot =
  bt_adm :: adm
  bt_state :: "int64 \<Rightarrow> userState"
  bt_ctx :: "int64 \<Rightarrow> string \<Rightarrow> string"

definition data_get :: "string \<Rightarrow> userState \<Rightarrow> string" where
  "data_get k st = (case map_of (us_Data st) k of None \<Rightarrow> [] | Some v \<Rightarrow> v)"

definition data_set :: "string \<Rightarrow> string \<Rightarrow> (string \<times> string) list \<Rightarrow> (string \<times> string) list" where
  "data_set k v d = (k, v) # filter (\<lambda>(k', _). k' \<noteq> k) d"

definition data_del :: "string \<Rightarrow> (string \<times> string) list \<Rightarrow> (string \<times> string) list" where
  "data_del k d = filter (\<lambda>(k', _). k' \<noteq> k) d"

definition adm_setState :: "int64 \<Rightarrow> userState \<Rightarrow> adm_bot \<Rightarrow> adm_bot" where
  "adm_setState uid st b = b\<lparr>bt_state := (bt_state b)(uid := st)\<rparr>"

definition adm_setStep :: "int64 \<Rightarrow> string \<Rightarrow> (string \<times> string) list \<Rightarrow> adm_bot \<Rightarrow> adm_bot" where
  "adm_setStep uid stp d = adm_setState uid \<lparr>us_Step = stp, us_Data = d\<rparr>"

definition setStepData :: "int64 \<Rightarrow> string \<Rightarrow> string \<Rightarrow> string \<Rightarrow> adm_bot \<Rightarrow> adm_bot" where
  "setStepData uid stp k v b = adm_setStep uid stp (data_set k v (us_Data (bt_state b uid))) b"

definition adm_clearState :: "int64 \<Rightarrow> adm_bot \<Rightarrow> adm_bot" where
  "adm_clearState uid = adm_setState uid idle"

definition setCtx :: "int64 \<Rightarrow> string \<Rightarrow> string \<Rightarrow> adm_bot \<Rightarrow> adm_bot" where
  "setCtx uid kind v b = b\<lparr>bt_ctx := (bt_ctx b)(uid := (bt_ctx b uid)(kind := v))\<rparr>"

definition say :: "int64 \<Rightarrow> string \<Rightarrow> adm_bot \<Rightarrow> adm_bot" where
  "say uid key b = b\<lparr>bt_adm := call_tg (TgSend uid key) (bt_adm b)\<rparr>"

definition bt_db :: "adm_bot \<Rightarrow> adm_db" where "bt_db b = am_db (bt_adm b)"

definition do_db :: "(adm_db \<Rightarrow> 'r \<times> adm_db) \<Rightarrow> adm_bot \<Rightarrow> 'r \<times> adm_bot" where
  "do_db f b = (let (r, s) = with_adm f (bt_adm b) in (r, b\<lparr>bt_adm := s\<rparr>))"

definition run_db :: "(adm_db \<Rightarrow> 'r \<times> adm_db) \<Rightarrow> adm_bot \<Rightarrow> adm_bot" where
  "run_db f b = snd (do_db f b)"

section \<open>Messages\<close>

record adm_chat =
  tc_ID :: int64
  tc_Username :: string
  tc_Title :: string
  tc_IsChannel :: bool

text \<open>
  An update with the text and, for a forwarded message, the chat it came from. The last fields answer the questions
  to Telegram about a channel: who has this username, whether the bot is an admin there, how many members it has.
\<close>

record tg_msg =
  mg_ID :: int64
  mg_ChatID :: int64
  mg_Text :: string
  mg_OriginalChat :: "adm_chat option"
  mg_ByUsername :: "string \<Rightarrow> adm_chat option"
  mg_IsAdmin :: "adm_chat \<Rightarrow> bool"
  mg_Len :: "adm_chat \<Rightarrow> int64"

definition adm_btnChannels :: string where "adm_btnChannels = utf8 [240, 159, 147, 161, 32, 218, 169, 216, 167, 217, 134, 216, 167, 217, 132, 226, 128, 140, 217, 135, 216, 167]"
definition adm_btnCampaigns :: string where "adm_btnCampaigns = utf8 [240, 159, 147, 139, 32, 218, 169, 217, 133, 217, 190, 219, 140, 217, 134, 226, 128, 140, 217, 135, 216, 167]"
definition adm_btnNewCampaign :: string where "adm_btnNewCampaign = utf8 [226, 158, 149, 32, 218, 169, 217, 133, 217, 190, 219, 140, 217, 134, 32, 216, 172, 216, 175, 219, 140, 216, 175]"
definition adm_btnSchedule :: string where "adm_btnSchedule = utf8 [240, 159, 151, 147, 32, 216, 178, 217, 133, 216, 167, 217, 134, 226, 128, 140, 216, 168, 217, 134, 216, 175, 219, 140]"
definition adm_btnStats :: string where "adm_btnStats = utf8 [240, 159, 147, 136, 32, 216, 162, 217, 133, 216, 167, 216, 177]"
definition adm_btnTemplates :: string where "adm_btnTemplates = utf8 [240, 159, 167, 169, 32, 217, 130, 216, 167, 217, 132, 216, 168, 226, 128, 140, 217, 135, 216, 167]"
definition adm_btnSettings :: string where "adm_btnSettings = utf8 [226, 154, 153, 239, 184, 143, 32, 216, 170, 217, 134, 216, 184, 219, 140, 217, 133, 216, 167, 216, 170]"
definition adm_btnHelp :: string where "adm_btnHelp = utf8 [226, 157, 147, 32, 216, 177, 216, 167, 217, 135, 217, 134, 217, 133, 216, 167]"
definition adm_btnCancel :: string where "adm_btnCancel = utf8 [226, 157, 140, 32, 217, 132, 216, 186, 217, 136]"
definition adm_btnBack :: string where "adm_btnBack = utf8 [240, 159, 148, 153, 32, 216, 168, 216, 167, 216, 178, 218, 175, 216, 180, 216, 170]"

definition isMainMenuButton :: "string \<Rightarrow> bool" where
  "isMainMenuButton t \<longleftrightarrow> t \<in> {adm_btnChannels, adm_btnCampaigns, adm_btnNewCampaign, adm_btnSchedule, adm_btnStats, adm_btnTemplates, adm_btnSettings, adm_btnHelp}"

text \<open>\<open>ToLower\<close> is a parameter; the slug of a tag is stored and not used.\<close>

record bot_cfg =
  bc_cfg :: adm_cfg
  bc_ToLower :: "string \<Rightarrow> string"

abbreviation bc_inst :: "bot_cfg \<Rightarrow> uuid" where "bc_inst cfg \<equiv> mc_instance (bc_cfg cfg)"

definition audit :: "bot_cfg \<Rightarrow> io \<Rightarrow> int64 \<Rightarrow> AuditAction \<Rightarrow> uuid \<Rightarrow> adm_bot \<Rightarrow> adm_bot" where
  "audit cfg io uid action targetID =
     run_db (\<lambda>db. ((), LogAudit (bc_inst cfg) io \<lparr>AL_InstanceID = [], AL_Action = action, AL_ActorID = uid, AL_TargetID = targetID\<rparr> db))"

text \<open>Switching a member of a list: out when it is there, at the end when it is not.\<close>

definition toggle :: "string \<Rightarrow> string list \<Rightarrow> string list" where
  "toggle x xs = filter (\<lambda>y. y \<noteq> x) xs @ (if x \<in> set xs then [] else [x])"

section \<open>Channels and tags (\<open>handler_channel.go\<close>)\<close>

definition adminChannelTagToggle :: "bot_cfg \<Rightarrow> adm_env \<Rightarrow> int64 \<Rightarrow> uuid \<Rightarrow> adm_bot \<Rightarrow> adm_bot" where
  "adminChannelTagToggle cfg env uid tID b =
     (let chID = bt_ctx b uid ''ch''
      in case adm_FindChannel (bc_inst cfg) (ae_flt env 0) chID (bt_db b) of
           Inl _ \<Rightarrow> say uid ''channel_not_found'' b
         | Inr ch \<Rightarrow> say uid ''channel_tags'' (setCtx uid ''ch'' chID
             (run_db (UpdateChannel (bc_inst cfg) (ae_flt env 1) chID (\<lambda>c. c\<lparr>HN_TagIDs := toggle tID (HN_TagIDs ch)\<rparr>)) b)))"

definition adminChannelRefresh :: "bot_cfg \<Rightarrow> adm_env \<Rightarrow> int64 \<Rightarrow> uuid \<Rightarrow> adm_bot \<Rightarrow> adm_bot" where
  "adminChannelRefresh cfg env uid i b =
     (case adm_FindChannel (bc_inst cfg) (ae_flt env 0) i (bt_db b) of
        Inl _ \<Rightarrow> say uid ''channel_not_found'' b
      | Inr ch \<Rightarrow> say uid ''channel'' (case ae_tg env 0 of Inl _ \<Rightarrow> b | Inr n \<Rightarrow> run_db (UpdateChannelStats (bc_inst cfg) (ae_flt env 1) i n) b))"

definition adminChannelToggle :: "bot_cfg \<Rightarrow> adm_env \<Rightarrow> int64 \<Rightarrow> uuid \<Rightarrow> adm_bot \<Rightarrow> adm_bot" where
  "adminChannelToggle cfg env uid i b =
     (case adm_FindChannel (bc_inst cfg) (ae_flt env 0) i (bt_db b) of
        Inl _ \<Rightarrow> say uid ''channel_not_found'' b
      | Inr ch \<Rightarrow> say uid ''channel'' (run_db (UpdateChannelStatus (bc_inst cfg) (ae_flt env 1) i
            (if HN_Status ch = ChannelActive then ChannelInactive else ChannelActive)) b))"

definition adminChannelDelete :: "bot_cfg \<Rightarrow> adm_env \<Rightarrow> int64 \<Rightarrow> uuid \<Rightarrow> adm_bot \<Rightarrow> adm_bot" where
  "adminChannelDelete cfg env uid i b =
     say uid ''channels'' (audit cfg (ae_io env 1) uid AuditChannelRemove i (run_db (DeleteChannel (bc_inst cfg) (ae_io env 0) i) b))"

definition resolveChannelInput :: "tg_msg \<Rightarrow> string \<Rightarrow> string + adm_chat" where
  "resolveChannelInput msg text =
     (case mg_OriginalChat msg of
        Some c \<Rightarrow> (if tc_IsChannel c then Inr c else Inl ''not_a_channel'')
      | None \<Rightarrow>
          (let uname = TrimSpace text
           in if uname = [] then Inl ''channel_unknown''
              else case mg_ByUsername msg (if HasPrefix uname ''@'' then uname else ''@'' @ uname) of
                     None \<Rightarrow> Inl ''channel_unknown''
                   | Some c \<Rightarrow> (if tc_IsChannel c then Inr c else Inl ''not_a_channel'')))"

definition TrimPrefix_at :: "string \<Rightarrow> string" where  \<comment> \<open>\<open>TrimPrefix(s, "@")\<close>\<close>
  "TrimPrefix_at s = (if HasPrefix s ''@'' then tl s else s)"

definition handleChannelAdd :: "bot_cfg \<Rightarrow> adm_env \<Rightarrow> int64 \<Rightarrow> tg_msg \<Rightarrow> string \<Rightarrow> adm_bot \<Rightarrow> adm_bot" where
  "handleChannelAdd cfg env uid msg text b0 =
     (let b = adm_clearState uid b0
      in case resolveChannelInput msg text of
           Inl key \<Rightarrow> say uid key b
         | Inr chat \<Rightarrow>
             (if \<not> mg_IsAdmin msg chat then say uid ''bot_not_admin'' b
              else case adm_FindChannelByTelegramID (bc_inst cfg) (ae_flt env 0) (tc_ID chat) (bt_db b) of
                     Inr _ \<Rightarrow> say uid ''channel_exists'' b
                   | Inl _ \<Rightarrow>
                       (case do_db (adm_CreateChannel (bc_inst cfg) (ae_io env 1) \<lparr>HN_ID = [], HN_InstanceID = [], HN_TelegramID = tc_ID chat,
                               HN_Username = TrimPrefix_at (tc_Username chat), HN_Title = tc_Title chat, HN_MemberCount = mg_Len msg chat,
                               HN_Status = ChannelPending, HN_TagIDs = [], HN_CreatedAt = 0, HN_DeletedAt = None\<rparr>) b of
                          (Inl _, b1) \<Rightarrow> say uid ''channel_failed'' b1
                        | (Inr ch, b1) \<Rightarrow>
                            say uid ''channel_added'' (audit cfg (ae_io env 3) uid AuditChannelAdd (HN_ID ch)
                              (run_db (UpdateChannelStatus (bc_inst cfg) (ae_flt env 2) (HN_ID ch) ChannelActive) b1)))))"

definition slugify :: "bot_cfg \<Rightarrow> string \<Rightarrow> string" where
  "slugify cfg s = map (\<lambda>c. if c = CHR '' '' then CHR ''-'' else c) (bc_ToLower cfg (TrimSpace s))"

definition handleTagAdd :: "bot_cfg \<Rightarrow> adm_env \<Rightarrow> int64 \<Rightarrow> string \<Rightarrow> adm_bot \<Rightarrow> adm_bot" where
  "handleTagAdd cfg env uid text b0 =
     (let b = adm_clearState uid b0; name = TrimSpace text
      in if name = [] then say uid ''tag_empty'' b
         else case do_db (CreateTag (bc_inst cfg) (ae_io env 0)
                     \<lparr>TG_ID = [], TG_InstanceID = [], TG_Name = name, TG_Slug = slugify cfg name, TG_IsActive = False\<rparr>) b of
                (Inl _, b1) \<Rightarrow> say uid ''tag_failed'' b1
              | (Inr _, b1) \<Rightarrow> say uid ''tag_added'' b1)"

definition adminTagDelete :: "bot_cfg \<Rightarrow> adm_env \<Rightarrow> int64 \<Rightarrow> uuid \<Rightarrow> adm_bot \<Rightarrow> adm_bot" where
  "adminTagDelete cfg env uid i b = say uid ''tags'' (run_db (SetTagInactive (bc_inst cfg) (ae_flt env 0) i) b)"

section \<open>Campaigns (\<open>handler_campaign.go\<close>)\<close>

definition campaignSetStatus :: "bot_cfg \<Rightarrow> adm_env \<Rightarrow> int64 \<Rightarrow> uuid \<Rightarrow> string \<Rightarrow> adm_bot \<Rightarrow> adm_bot" where
  "campaignSetStatus cfg env uid i action b =
     (let inst = bc_inst cfg; set = (\<lambda>st. run_db (UpdateCampaignStatus inst (ae_flt env 2) i st)); log = (\<lambda>a. audit cfg (ae_io env 5) uid a i)
      in case adm_FindCampaign inst (ae_flt env 0) i (bt_db b) of
           Inl _ \<Rightarrow> say uid ''campaign_not_found'' b
         | Inr cm \<Rightarrow>
             (if action = ''start'' then
                (if (case ListAdsByCampaign inst (ae_flt env 1) i (bt_db b) of Inl _ \<Rightarrow> True | Inr ads \<Rightarrow> ads = []) then say uid ''no_ads'' b
                 else if KP_TargetTagIDs cm = [] \<and> KP_TargetChannelIDs cm = [] then say uid ''no_target'' b
                 else say uid ''campaign'' (log AuditCampaignCreate (set CampaignRunning b)))
              else if action = ''pause'' then say uid ''campaign'' (log AuditCampaignPause (set CampaignPaused b))
              else if action = ''resume'' then say uid ''campaign'' (log AuditCampaignResume (set CampaignRunning b))
              else if action = ''cancel'' then
                say uid ''campaign'' (log AuditCampaignEnd (run_db (CancelCampaignReservations inst (ae_io env 4) i)
                  (run_db (CancelCampaignJobs inst (ae_io env 3) i) (set CampaignCancelled b))))
              else say uid ''campaign'' b))"

definition campaignDelete :: "bot_cfg \<Rightarrow> adm_env \<Rightarrow> int64 \<Rightarrow> uuid \<Rightarrow> adm_bot \<Rightarrow> adm_bot" where
  "campaignDelete cfg env uid i b =
     say uid ''campaigns'' (run_db (DeleteCampaign (bc_inst cfg) (ae_io env 2) i)
       (run_db (CancelCampaignReservations (bc_inst cfg) (ae_io env 1) i) (run_db (CancelCampaignJobs (bc_inst cfg) (ae_io env 0) i) b)))"

definition campaignTagToggle :: "bot_cfg \<Rightarrow> adm_env \<Rightarrow> int64 \<Rightarrow> uuid \<Rightarrow> adm_bot \<Rightarrow> adm_bot" where
  "campaignTagToggle cfg env uid tid b =
     (let cid = bt_ctx b uid ''cmp''
      in case adm_FindCampaign (bc_inst cfg) (ae_flt env 0) cid (bt_db b) of
           Inl _ \<Rightarrow> say uid ''campaign_not_found'' b
         | Inr cm \<Rightarrow> say uid ''campaign_tags'' (setCtx uid ''cmp'' cid
             (run_db (adm_UpdateCampaign (bc_inst cfg) (ae_flt env 1) cid (\<lambda>c. c\<lparr>KP_TargetTagIDs := toggle tid (KP_TargetTagIDs cm)\<rparr>)) b)))"

definition campaignChannelToggle :: "bot_cfg \<Rightarrow> adm_env \<Rightarrow> int64 \<Rightarrow> uuid \<Rightarrow> adm_bot \<Rightarrow> adm_bot" where
  "campaignChannelToggle cfg env uid chID b =
     (let cid = bt_ctx b uid ''cmp''
      in case adm_FindCampaign (bc_inst cfg) (ae_flt env 0) cid (bt_db b) of
           Inl _ \<Rightarrow> say uid ''campaign_not_found'' b
         | Inr cm \<Rightarrow> say uid ''campaign_channels'' (setCtx uid ''cmp'' cid
             (run_db (adm_UpdateCampaign (bc_inst cfg) (ae_flt env 1) cid (\<lambda>c. c\<lparr>KP_TargetChannelIDs := toggle chID (KP_TargetChannelIDs cm)\<rparr>)) b)))"

definition handleCampaignEditName :: "bot_cfg \<Rightarrow> adm_env \<Rightarrow> int64 \<Rightarrow> userState \<Rightarrow> string \<Rightarrow> adm_bot \<Rightarrow> adm_bot" where
  "handleCampaignEditName cfg env uid st text b =
     (let name = TrimSpace text
      in if name = [] then say uid ''name_empty'' b
         else case do_db (adm_UpdateCampaign (bc_inst cfg) (ae_flt env 0) (data_get ''cid'' st) (\<lambda>c. c\<lparr>KP_Name := name\<rparr>)) (adm_clearState uid b) of
                (Inl _, b1) \<Rightarrow> say uid ''edit_failed'' b1
              | (Inr _, b1) \<Rightarrow> say uid ''campaign'' (say uid ''name_updated'' b1))"

definition put_schedule :: "schedule \<Rightarrow> adm_Campaign \<Rightarrow> adm_Campaign" where
  "put_schedule d c = c\<lparr>KP_StartHour := sd_StartHour d, KP_StartMinute := sd_StartMinute d, KP_EndHour := sd_EndHour d, KP_EndMinute := sd_EndMinute d,
     KP_IntervalMinutes := sd_Interval d, KP_DeleteAfterMinutes := sd_DeleteAfter d, KP_RotationMinutes := sd_Rotation d\<rparr>"

definition handleCampaignEditSchedule :: "bot_cfg \<Rightarrow> adm_env \<Rightarrow> int64 \<Rightarrow> userState \<Rightarrow> string \<Rightarrow> adm_bot \<Rightarrow> adm_bot" where
  "handleCampaignEditSchedule cfg env uid st text b =
     (case ParseSchedule text of
        None \<Rightarrow> say uid ''schedule_error'' b
      | Some d \<Rightarrow>
          (case do_db (adm_UpdateCampaign (bc_inst cfg) (ae_flt env 0) (data_get ''cid'' st) (put_schedule d)) (adm_clearState uid b) of
             (Inl _, b1) \<Rightarrow> say uid ''edit_failed'' b1
           | (Inr _, b1) \<Rightarrow> say uid ''campaign'' (say uid ''schedule_updated'' b1)))"

definition handleCampaignName :: "int64 \<Rightarrow> string \<Rightarrow> adm_bot \<Rightarrow> adm_bot" where
  "handleCampaignName uid text b =
     (let name = TrimSpace text
      in if name = [] then say uid ''name_empty'' b else say uid ''schedule_prompt'' (setStepData uid ''campaign:schedule'' ''name'' name b))"

definition adm_zero_campaign :: adm_Campaign where
  "adm_zero_campaign = \<lparr>KP_ID = [], KP_InstanceID = [], KP_Name = [], KP_Status = CampaignDraft, KP_StartHour = 0, KP_StartMinute = 0, KP_EndHour = 0,
     KP_EndMinute = 0, KP_IntervalMinutes = 0, KP_DeleteAfterMinutes = 0, KP_RotationMinutes = 0, KP_EndAt = None, KP_TargetTagIDs = [],
     KP_TargetChannelIDs = [], KP_MinMemberCount = 0, KP_TotalImpressions = 0, KP_CreatedAt = 0, KP_DeletedAt = None\<rparr>"

definition handleCampaignSchedule :: "bot_cfg \<Rightarrow> adm_env \<Rightarrow> int64 \<Rightarrow> userState \<Rightarrow> string \<Rightarrow> adm_bot \<Rightarrow> adm_bot" where
  "handleCampaignSchedule cfg env uid st text b =
     (case ParseSchedule text of
        None \<Rightarrow> say uid ''schedule_error'' b
      | Some d \<Rightarrow>
          (case do_db (adm_CreateCampaign (bc_inst cfg) (ae_io env 0) (put_schedule d (adm_zero_campaign\<lparr>KP_Name := data_get ''name'' st\<rparr>))) b of
             (Inl _, b1) \<Rightarrow> say uid ''campaign_failed'' (adm_clearState uid b1)
           | (Inr cm, b1) \<Rightarrow> say uid ''campaign_created'' (audit cfg (ae_io env 1) uid AuditCampaignCreate (KP_ID cm) (adm_clearState uid b1))))"

section \<open>Advertisements (\<open>handler_ad.go\<close>)\<close>

definition adNew :: "string \<Rightarrow> int64 \<Rightarrow> uuid \<Rightarrow> adm_bot \<Rightarrow> adm_bot" where  \<comment> \<open>\<open>adNewStandalone\<close> and \<open>adNewSimple\<close>\<close>
  "adNew mode uid campaignID b = say uid ''ad_name_prompt'' (adm_setStep uid ''ad:name'' [(''campaign_id'', campaignID), (''mode'', mode)] b)"

definition handleAdName :: "int64 \<Rightarrow> userState \<Rightarrow> string \<Rightarrow> adm_bot \<Rightarrow> adm_bot" where
  "handleAdName uid st text b =
     (let name = TrimSpace text
      in if name = [] then say uid ''name_empty'' b else say uid ''main_prompt'' (adm_setStep uid ''ad:main'' (data_set ''name'' name (us_Data st)) b))"

definition handleAdMain :: "bot_cfg \<Rightarrow> adm_env \<Rightarrow> int64 \<Rightarrow> tg_msg \<Rightarrow> userState \<Rightarrow> adm_bot \<Rightarrow> adm_bot" where
  "handleAdMain cfg env uid msg st b =
     (case do_db (CreateAd (bc_inst cfg) (ae_io env 0) \<lparr>AX_ID = [], AX_InstanceID = [], AX_CampaignID = data_get ''campaign_id'' st, AX_Name = data_get ''name'' st,
             AX_SourceChatID = mg_ChatID msg, AX_MainMessageID = mg_ID msg, AX_Replies = [], AX_KeepAsLastMessage = False, AX_PinMessage = False,
             AX_DeletePreviousOnRepost = False, AX_IsActive = False\<rparr>) b of
        (Inl _, b1) \<Rightarrow> say uid ''ad_failed'' (adm_clearState uid b1)
      | (Inr ad, b1) \<Rightarrow>
          (if data_get ''mode'' st = ''simple'' then say uid ''simple_saved'' (adm_clearState uid b1)
           else say uid ''replies_prompt'' (adm_setStep uid ''ad:replies'' (data_set ''ad_id'' (AX_ID ad) (us_Data st)) b1)))"

definition adAttachPick :: "bot_cfg \<Rightarrow> adm_env \<Rightarrow> int64 \<Rightarrow> uuid \<Rightarrow> adm_bot \<Rightarrow> adm_bot" where  \<comment> \<open>and \<open>adReplyAddStart\<close>\<close>
  "adAttachPick cfg env uid adID b =
     (case FindAd (bc_inst cfg) (ae_flt env 0) adID (bt_db b) of
        Inl _ \<Rightarrow> say uid ''ad_not_found'' b
      | Inr ad \<Rightarrow> say uid ''reply_prompt'' (adm_setStep uid ''ad:replies'' [(''ad_id'', adID), (''campaign_id'', AX_CampaignID ad)] b))"

definition adFinish :: "int64 \<Rightarrow> adm_bot \<Rightarrow> adm_bot" where
  "adFinish uid b = say uid ''ad_saved'' (adm_clearState uid b)"

definition handleAdReplies :: "int64 \<Rightarrow> tg_msg \<Rightarrow> userState \<Rightarrow> adm_bot \<Rightarrow> adm_bot" where
  "handleAdReplies uid msg st b =
     (if TrimSpace (mg_Text msg) \<in> {''/done'', utf8 [216, 170, 217, 133, 216, 167, 217, 133], utf8 [217, 190, 216, 167, 219, 140, 216, 167, 217, 134]}
      then adFinish uid b
      else say uid ''minutes_prompt'' (adm_setStep uid ''ad:reply_minutes'' (data_set ''pending_reply_msg_id'' (fmt_d (mg_ID msg)) (us_Data st)) b))"

definition handleAdReplyMinutes :: "bot_cfg \<Rightarrow> adm_env \<Rightarrow> int64 \<Rightarrow> userState \<Rightarrow> string \<Rightarrow> adm_bot \<Rightarrow> adm_bot" where
  "handleAdReplyMinutes cfg env uid st text b =
     (case ParseInt (TrimSpace (NormalizeDigits text)) of
        None \<Rightarrow> say uid ''minutes_error'' b
      | Some dur \<Rightarrow>
          (if dur < 1 then say uid ''minutes_error'' b
           else let msgID = (case ParseInt (data_get ''pending_reply_msg_id'' st) of None \<Rightarrow> 0 | Some i \<Rightarrow> i)
                in case do_db (AppendAdReply (bc_inst cfg) (ae_io env 0) (data_get ''ad_id'' st) msgID dur) b of
                     (Inl _, b1) \<Rightarrow> say uid ''reply_failed'' b1
                   | (Inr _, b1) \<Rightarrow> say uid ''reply_added'' (adm_setStep uid ''ad:replies'' (data_del ''pending_reply_msg_id'' (us_Data st)) b1)))"

definition adDone :: "int64 \<Rightarrow> adm_bot \<Rightarrow> adm_bot" where
  "adDone uid b = (if us_Step (bt_state b uid) \<noteq> ''ad:replies'' then b else adFinish uid b)"

definition handleAdEditName :: "bot_cfg \<Rightarrow> adm_env \<Rightarrow> int64 \<Rightarrow> userState \<Rightarrow> string \<Rightarrow> adm_bot \<Rightarrow> adm_bot" where
  "handleAdEditName cfg env uid st text b =
     (let name = TrimSpace text
      in if name = [] then say uid ''name_empty'' b
         else case do_db (UpdateAd (bc_inst cfg) (ae_flt env 0) (data_get ''ad_id'' st) (\<lambda>a. a\<lparr>AX_Name := name\<rparr>)) (adm_clearState uid b) of
                (Inl _, b1) \<Rightarrow> say uid ''edit_failed'' b1
              | (Inr _, b1) \<Rightarrow> say uid ''ad'' (say uid ''name_updated'' b1))"

definition handleAdEditMain :: "bot_cfg \<Rightarrow> adm_env \<Rightarrow> int64 \<Rightarrow> tg_msg \<Rightarrow> userState \<Rightarrow> adm_bot \<Rightarrow> adm_bot" where
  "handleAdEditMain cfg env uid msg st b =
     (case do_db (ReplaceAdMain (bc_inst cfg) (ae_flt env 0) (data_get ''ad_id'' st) (mg_ID msg)) (adm_clearState uid b) of
        (Inl _, b1) \<Rightarrow> say uid ''edit_failed'' b1
      | (Inr _, b1) \<Rightarrow> say uid ''ad'' (say uid ''main_updated'' b1))"

definition adReplyDelete :: "bot_cfg \<Rightarrow> adm_env \<Rightarrow> int64 \<Rightarrow> string \<Rightarrow> adm_bot \<Rightarrow> adm_bot" where
  "adReplyDelete cfg env uid idxStr b =
     (let i = bt_ctx b uid ''ad''
      in case FindAd (bc_inst cfg) (ae_flt env 0) i (bt_db b) of
           Inl _ \<Rightarrow> say uid ''ad_not_found'' b
         | Inr ad \<Rightarrow>
             (case ParseInt idxStr of
                None \<Rightarrow> b
              | Some idx \<Rightarrow>
                  (if idx < 0 \<or> int (length (AX_Replies ad)) \<le> idx then b
                   else say uid ''ad_replies'' (setCtx uid ''ad'' i (run_db (ReplaceAdReplies (bc_inst cfg) (ae_flt env 1) i
                          (take (nat idx) (AX_Replies ad) @ drop (nat idx + 1) (AX_Replies ad))) b)))))"

definition adReplyMove :: "bot_cfg \<Rightarrow> adm_env \<Rightarrow> int64 \<Rightarrow> string \<Rightarrow> int64 \<Rightarrow> adm_bot \<Rightarrow> adm_bot" where
  "adReplyMove cfg env uid idxStr dir b =
     (let i = bt_ctx b uid ''ad''
      in case FindAd (bc_inst cfg) (ae_flt env 0) i (bt_db b) of
           Inl _ \<Rightarrow> say uid ''ad_not_found'' b
         | Inr ad \<Rightarrow>
             (case ParseInt idxStr of
                None \<Rightarrow> b
              | Some idx \<Rightarrow>
                  (let target = idx + dir; rs = AX_Replies ad
                   in if idx < 0 \<or> int (length rs) \<le> idx \<or> target < 0 \<or> int (length rs) \<le> target then b
                      else say uid ''ad_replies'' (setCtx uid ''ad'' i (run_db (ReplaceAdReplies (bc_inst cfg) (ae_flt env 1) i
                             (rs[nat idx := rs ! nat target, nat target := rs ! nat idx])) b)))))"

definition adToggleField :: "bot_cfg \<Rightarrow> adm_env \<Rightarrow> int64 \<Rightarrow> string \<Rightarrow> adm_bot \<Rightarrow> adm_bot" where
  "adToggleField cfg env uid field b =
     (let i = bt_ctx b uid ''ad''
      in case FindAd (bc_inst cfg) (ae_flt env 0) i (bt_db b) of
           Inl _ \<Rightarrow> say uid ''ad_not_found'' b
         | Inr ad \<Rightarrow>
             (let upd = (\<lambda>f. say uid ''ad_settings'' (setCtx uid ''ad'' i (run_db (UpdateAd (bc_inst cfg) (ae_flt env 1) i f) b)))
              in if field = ''keep'' then upd (\<lambda>a. a\<lparr>AX_KeepAsLastMessage := \<not> AX_KeepAsLastMessage ad\<rparr>)
                 else if field = ''pin'' then upd (\<lambda>a. a\<lparr>AX_PinMessage := \<not> AX_PinMessage ad\<rparr>)
                 else if field = ''delprev'' then upd (\<lambda>a. a\<lparr>AX_DeletePreviousOnRepost := \<not> AX_DeletePreviousOnRepost ad\<rparr>)
                 else b))"

definition adDelete :: "bot_cfg \<Rightarrow> adm_env \<Rightarrow> int64 \<Rightarrow> uuid \<Rightarrow> adm_bot \<Rightarrow> adm_bot" where
  "adDelete cfg env uid i b = say uid ''ads'' (run_db (DeleteAd (bc_inst cfg) (ae_flt env 1) i) b)"

text \<open>The preview: the main post and all replies at once, to the owner.\<close>

fun copy_replies :: "(nat \<Rightarrow> go_error + int64) \<Rightarrow> int64 \<Rightarrow> AdReply list \<Rightarrow> adm \<Rightarrow> adm" where
  "copy_replies ans chat [] s = s"
| "copy_replies ans chat (r # rs) s = copy_replies (\<lambda>k. ans (Suc k)) chat rs (snd (Copy (ans 0) chat (RY_MessageID r) s))"

definition copyAd :: "adm_env \<Rightarrow> int64 \<Rightarrow> Advertisement \<Rightarrow> adm \<Rightarrow> (go_error + unit) \<times> adm" where
  "copyAd env chat ad s =
     (case Copy (ae_tg env 0) chat (AX_MainMessageID ad) s of
        (Inl e, s1) \<Rightarrow> (Inl e, s1)
      | (Inr _, s1) \<Rightarrow> (Inr (), copy_replies (\<lambda>k. ae_tg env (Suc k)) chat (AX_Replies ad) s1))"

definition adPreview :: "bot_cfg \<Rightarrow> adm_env \<Rightarrow> int64 \<Rightarrow> uuid \<Rightarrow> adm_bot \<Rightarrow> adm_bot" where
  "adPreview cfg env uid i b =
     (case FindAd (bc_inst cfg) (ae_flt env 0) i (bt_db b) of
        Inl _ \<Rightarrow> say uid ''ad_not_found'' b
      | Inr ad \<Rightarrow>
          (if AX_SourceChatID ad = 0 \<or> AX_MainMessageID ad = 0 then say uid ''ad_incomplete'' b
           else case copyAd env uid ad (bt_adm b) of
                  (Inl _, s1) \<Rightarrow> say uid ''preview_failed'' (b\<lparr>bt_adm := s1\<rparr>)
                | (Inr _, s1) \<Rightarrow> say uid ''preview_sent'' (b\<lparr>bt_adm := s1\<rparr>)))"

section \<open>Templates and settings (\<open>handler_template.go\<close>, \<open>handler_settings.go\<close>)\<close>

definition templateDelete :: "bot_cfg \<Rightarrow> adm_env \<Rightarrow> int64 \<Rightarrow> uuid \<Rightarrow> adm_bot \<Rightarrow> adm_bot" where
  "templateDelete cfg env uid i b = say uid ''templates'' (run_db (\<lambda>db. ((), DeleteTemplate (bc_inst cfg) (ae_flt env 0) i db)) b)"

definition templateUse :: "bot_cfg \<Rightarrow> adm_env \<Rightarrow> int64 \<Rightarrow> uuid \<Rightarrow> adm_bot \<Rightarrow> adm_bot" where
  "templateUse cfg env uid i b =
     (case FindTemplate (bc_inst cfg) (ae_flt env 0) i (bt_db b) of
        Inl _ \<Rightarrow> say uid ''template_not_found'' b
      | Inr t \<Rightarrow>
          (case do_db (adm_CreateCampaign (bc_inst cfg) (ae_io env 1) (adm_zero_campaign\<lparr>KP_Name := CT_Name t @ utf8 [32, 40, 218, 169, 217, 190, 219, 140, 41], KP_StartHour := CT_StartHour t,
                  KP_StartMinute := CT_StartMinute t, KP_EndHour := CT_EndHour t, KP_EndMinute := CT_EndMinute t, KP_IntervalMinutes := CT_IntervalMinutes t,
                  KP_DeleteAfterMinutes := CT_DeleteAfterMinutes t, KP_RotationMinutes := CT_RotationMinutes t, KP_TargetTagIDs := CT_TargetTagIDs t,
                  KP_MinMemberCount := CT_MinMemberCount t\<rparr>)) b of
             (Inl _, b1) \<Rightarrow> say uid ''error'' b1
           | (Inr cm, b1) \<Rightarrow> say uid ''campaign'' (audit cfg (ae_io env 2) uid AuditCampaignCreate (KP_ID cm) b1)))"

definition handleTemplateName :: "bot_cfg \<Rightarrow> adm_env \<Rightarrow> int64 \<Rightarrow> string \<Rightarrow> adm_bot \<Rightarrow> adm_bot" where
  "handleTemplateName cfg env uid text b0 =
     (let b = adm_clearState uid b0; name = TrimSpace text
      in if name = [] then say uid ''name_empty'' b
         else case do_db (CreateTemplate (bc_inst cfg) (ae_io env 0) \<lparr>CT_ID = [], CT_InstanceID = [], CT_Name = name, CT_StartHour = DefaultStartHour,
                     CT_StartMinute = 0, CT_EndHour = DefaultEndHour, CT_EndMinute = 0, CT_IntervalMinutes = DefaultIntervalMinutes,
                     CT_DeleteAfterMinutes = 0, CT_RotationMinutes = 0, CT_TargetTagIDs = [], CT_MinMemberCount = 0\<rparr>) b of
                (Inl _, b1) \<Rightarrow> say uid ''template_failed'' b1
              | (Inr _, b1) \<Rightarrow> say uid ''template_created'' b1)"

definition settingsHome :: "bot_cfg \<Rightarrow> io \<Rightarrow> int64 \<Rightarrow> adm_bot \<Rightarrow> adm_bot" where
  "settingsHome cfg io uid b = say uid ''settings'' (run_db (GetSettings (bc_inst cfg) io) b)"

definition handleSettingsReminder :: "bot_cfg \<Rightarrow> adm_env \<Rightarrow> int64 \<Rightarrow> string \<Rightarrow> adm_bot \<Rightarrow> adm_bot" where
  "handleSettingsReminder cfg env uid text b =
     (case ParseInt (TrimSpace (NormalizeDigits text)) of
        None \<Rightarrow> say uid ''number_error'' b
      | Some n \<Rightarrow>
          (if n < 0 then say uid ''number_error'' b
           else case do_db (UpdateSettings (bc_inst cfg) (ae_flt env 0) (\<lambda>s. s\<lparr>BS_ReminderMinutesBefore := n\<rparr>)) (adm_clearState uid b) of
                  (Inl _, b1) \<Rightarrow> say uid ''settings_failed'' b1
                | (Inr _, b1) \<Rightarrow> settingsHome cfg (ae_io env 1) uid (say uid ''saved'' b1)))"

section \<open>Routing (\<open>bot.go\<close>, \<open>router.go\<close>, \<open>state.go\<close>)\<close>

definition adm_handleStep :: "bot_cfg \<Rightarrow> adm_env \<Rightarrow> int64 \<Rightarrow> tg_msg \<Rightarrow> userState \<Rightarrow> string \<Rightarrow> adm_bot \<Rightarrow> adm_bot" where
  "adm_handleStep cfg env uid msg st text b =
     (let stp = us_Step st
      in if stp = ''channel:add'' then handleChannelAdd cfg env uid msg text b
         else if stp = ''tag:add'' then handleTagAdd cfg env uid text b
         else if stp = ''campaign:name'' then handleCampaignName uid text b
         else if stp = ''campaign:schedule'' then handleCampaignSchedule cfg env uid st text b
         else if stp = ''campaign:ename'' then handleCampaignEditName cfg env uid st text b
         else if stp = ''campaign:esched'' then handleCampaignEditSchedule cfg env uid st text b
         else if stp = ''ad:name'' then handleAdName uid st text b
         else if stp = ''ad:main'' then handleAdMain cfg env uid msg st b
         else if stp = ''ad:replies'' then handleAdReplies uid msg st b
         else if stp = ''ad:reply_minutes'' then handleAdReplyMinutes cfg env uid st text b
         else if stp = ''ad:edit_name'' then handleAdEditName cfg env uid st text b
         else if stp = ''ad:edit_main'' then handleAdEditMain cfg env uid msg st b
         else if stp = ''template:name'' then handleTemplateName cfg env uid text b
         else if stp = ''settings:reminder'' then handleSettingsReminder cfg env uid text b
         else say uid ''menu'' (adm_clearState uid b))"

definition adm_isAdmin :: "bot_cfg \<Rightarrow> int64 \<Rightarrow> bool" where "adm_isAdmin cfg uid \<longleftrightarrow> uid = mc_ownerID (bc_cfg cfg)"

definition adm_onStart :: "bot_cfg \<Rightarrow> adm_env \<Rightarrow> int64 \<Rightarrow> adm_bot \<Rightarrow> adm_bot" where
  "adm_onStart cfg env uid b =
     (if \<not> adm_isAdmin cfg uid then say uid ''deny'' b
      else say uid ''welcome'' (run_db (GetSettings (bc_inst cfg) (ae_io env 0)) (adm_clearState uid b)))"

definition adm_onHelp :: "bot_cfg \<Rightarrow> adm_env \<Rightarrow> int64 \<Rightarrow> adm_bot \<Rightarrow> adm_bot" where
  "adm_onHelp cfg env uid b = (if \<not> adm_isAdmin cfg uid then say uid ''deny'' b else say uid ''help'' (run_db (GetSettings (bc_inst cfg) (ae_io env 0)) b))"

definition adminOnText :: "bot_cfg \<Rightarrow> adm_env \<Rightarrow> int64 \<Rightarrow> string \<Rightarrow> adm_bot \<Rightarrow> adm_bot" where
  "adminOnText cfg env uid text b =
     (if text = adm_btnNewCampaign then say uid ''campaign_name_prompt'' (adm_setStep uid ''campaign:name'' [] b)
      else if text = adm_btnChannels then say uid ''channels'' b
      else if text = adm_btnCampaigns then say uid ''campaigns'' b
      else if text = adm_btnSchedule then say uid ''schedule'' b
      else if text = adm_btnStats then say uid ''stats'' b
      else if text = adm_btnTemplates then say uid ''templates'' b
      else if text = adm_btnSettings then settingsHome cfg (ae_io env 0) uid b
      else if text = adm_btnHelp then adm_onHelp cfg env uid b
      else say uid ''choose'' b)"

definition adm_onText :: "bot_cfg \<Rightarrow> adm_env \<Rightarrow> int64 \<Rightarrow> bool \<Rightarrow> tg_msg \<Rightarrow> adm_bot \<Rightarrow> adm_bot" where
  "adm_onText cfg env uid is_private msg b =
     (let text = TrimSpace (mg_Text msg)
      in if \<not> adm_isAdmin cfg uid then (if is_private then say uid ''deny'' b else b)
         else if text = adm_btnCancel \<or> text = adm_btnBack then say uid ''cancelled'' (adm_clearState uid b)
         else if isMainMenuButton text then adminOnText cfg env uid text (adm_clearState uid b)
         else if us_Step (bt_state b uid) \<noteq> [] then adm_handleStep cfg env uid msg (bt_state b uid) text b
         else adminOnText cfg env uid text b)"

definition adm_onMedia :: "bot_cfg \<Rightarrow> adm_env \<Rightarrow> int64 \<Rightarrow> tg_msg \<Rightarrow> adm_bot \<Rightarrow> adm_bot" where
  "adm_onMedia cfg env uid msg b =
     (let st = bt_state b uid
      in if \<not> adm_isAdmin cfg uid then b
         else if us_Step st = ''ad:main'' then handleAdMain cfg env uid msg st b
         else if us_Step st = ''ad:replies'' then handleAdReplies uid msg st b
         else if us_Step st = ''ad:edit_main'' then handleAdEditMain cfg env uid msg st b
         else if us_Step st = ''channel:add'' then handleChannelAdd cfg env uid msg [] b
         else b)"

text \<open>Buttons that only show something; the ones that remember the object under edit.\<close>

definition view_actions :: "string list" where
  "view_actions = [''home'', ''ch_list'', ''ch_view'', ''tag_list'', ''tag_noop'', ''cmp_list'', ''cmp_view'', ''ad_list'', ''ad_new'', ''ad_new_atc'', ''ad_view'',
     ''ad_reply_noop'', ''tpl_list'', ''tpl_view'', ''stats'', ''sch_day'']"

definition found :: "go_error + 'a \<Rightarrow> bool" where "found r \<longleftrightarrow> (case r of Inl _ \<Rightarrow> False | Inr _ \<Rightarrow> True)"

definition adm_onCallback :: "bot_cfg \<Rightarrow> adm_env \<Rightarrow> int64 \<Rightarrow> string \<Rightarrow> adm_bot \<Rightarrow> adm_bot" where
  "adm_onCallback cfg env uid raw b =
     (let (action, arg, _) = Cut (case raw of c # r \<Rightarrow> (if c = CHR 0x0C then r else raw) | [] \<Rightarrow> raw) CHR '':'';
          inst = bc_inst cfg;
          edit = (\<lambda>key kind ok. if ok then say uid key (setCtx uid kind arg b) else say uid ''not_found'' b);
          ask = (\<lambda>key stp d. say uid key (adm_setStep uid stp d b))
      in if \<not> adm_isAdmin cfg uid then say uid ''stop'' b
         else if action \<in> set view_actions then say uid action b
         else if action = ''ch_add'' then ask ''channel_prompt'' ''channel:add'' []
         else if action = ''ch_toggle'' then adminChannelToggle cfg env uid arg b
         else if action = ''ch_del'' then adminChannelDelete cfg env uid arg b
         else if action = ''ch_tags'' then edit ''channel_tags'' ''ch'' (found (adm_FindChannel inst (ae_flt env 0) arg (bt_db b)))
         else if action = ''ch_tagtoggle'' then adminChannelTagToggle cfg env uid arg b
         else if action = ''ch_refresh'' then adminChannelRefresh cfg env uid arg b
         else if action = ''tag_add'' then ask ''tag_prompt'' ''tag:add'' []
         else if action = ''tag_del'' then adminTagDelete cfg env uid arg b
         else if action = ''cmp_start'' then campaignSetStatus cfg env uid arg ''start'' b
         else if action = ''cmp_pause'' then campaignSetStatus cfg env uid arg ''pause'' b
         else if action = ''cmp_resume'' then campaignSetStatus cfg env uid arg ''resume'' b
         else if action = ''cmp_cancel'' then campaignSetStatus cfg env uid arg ''cancel'' b
         else if action = ''cmp_del'' then campaignDelete cfg env uid arg b
         else if action = ''cmp_ename'' then ask ''name_prompt'' ''campaign:ename'' [(''cid'', arg)]
         else if action = ''cmp_esched'' then ask ''schedule_prompt'' ''campaign:esched'' [(''cid'', arg)]
         else if action = ''cmp_tags'' then edit ''campaign_tags'' ''cmp'' (found (adm_FindCampaign inst (ae_flt env 0) arg (bt_db b)))
         else if action = ''cmp_tagtoggle'' then campaignTagToggle cfg env uid arg b
         else if action = ''cmp_chans'' then edit ''campaign_channels'' ''cmp'' (found (adm_FindCampaign inst (ae_flt env 0) arg (bt_db b)))
         else if action = ''cmp_chantoggle'' then campaignChannelToggle cfg env uid arg b
         else if action = ''ad_new_std'' then adNew ''standalone'' uid arg b
         else if action = ''ad_atc_pick'' then adAttachPick cfg env uid arg b
         else if action = ''ad_new_sim'' then adNew ''simple'' uid arg b
         else if action = ''ad_done'' then adDone uid b
         else if action = ''ad_del'' then adDelete cfg env uid arg b
         else if action = ''ad_preview'' then adPreview cfg env uid arg b
         else if action = ''ad_ename'' then ask ''name_prompt'' ''ad:edit_name'' [(''ad_id'', arg)]
         else if action = ''ad_emain'' then ask ''main_prompt'' ''ad:edit_main'' [(''ad_id'', arg)]
         else if action = ''ad_replies'' then edit ''ad_replies'' ''ad'' (found (FindAd inst (ae_flt env 0) arg (bt_db b)))
         else if action = ''ad_reply_add'' then adAttachPick cfg env uid arg b
         else if action = ''ad_reply_del'' then adReplyDelete cfg env uid arg b
         else if action = ''ad_reply_up'' then adReplyMove cfg env uid arg (-1) b
         else if action = ''ad_reply_down'' then adReplyMove cfg env uid arg 1 b
         else if action = ''ad_settings'' then edit ''ad_settings'' ''ad'' (found (FindAd inst (ae_flt env 0) arg (bt_db b)))
         else if action = ''ad_tg_keep'' then adToggleField cfg env uid ''keep'' b
         else if action = ''ad_tg_pin'' then adToggleField cfg env uid ''pin'' b
         else if action = ''ad_tg_delprev'' then adToggleField cfg env uid ''delprev'' b
         else if action = ''tpl_new'' then ask ''template_prompt'' ''template:name'' []
         else if action = ''tpl_del'' then templateDelete cfg env uid arg b
         else if action = ''tpl_use'' then templateUse cfg env uid arg b
         else if action = ''set_reminder'' then ask ''reminder_prompt'' ''settings:reminder'' []
         else say uid ''unknown'' b)"

section \<open>The schedule view (\<open>handler_schedule.go\<close>)\<close>

record scheduleSlot =
  sl_At :: time
  sl_Ad :: Advertisement
  sl_CampaignName :: string

text \<open>The loop gives up after 301 slots.\<close>

fun slots_from :: "nat \<Rightarrow> (time \<Rightarrow> scheduleSlot) \<Rightarrow> time \<Rightarrow> time \<Rightarrow> time \<Rightarrow> scheduleSlot list" where
  "slots_from 0 mk gap stop t = []"
| "slots_from (Suc n) mk gap stop t = (if t < stop then mk t # slots_from n mk gap stop (t + gap) else [])"

definition projectCampaignSlots :: "time \<Rightarrow> adm_Campaign \<Rightarrow> Advertisement list \<Rightarrow> time \<Rightarrow> scheduleSlot list" where
  "projectCampaignSlots loc cm ads day =
     (if KP_IntervalMinutes cm < 1 \<or> ads = [] then []
      else let (winStart, winEnd) = DailyWindowBounds loc day (KP_StartHour cm) (KP_StartMinute cm) (KP_EndHour cm) (KP_EndMinute cm);
               maxReplies = fold max (map (\<lambda>a. int (length (AX_Replies a))) ads) 0;
               cycleGap = wrap64 (wrap64 (KP_IntervalMinutes cm * (maxReplies + 1)) * minute_ns);
               mk = (\<lambda>t. \<lparr>sl_At = t, sl_Ad = ads ! nat (RotationIndex (go_div (time_Sub t winStart) minute_ns) (KP_RotationMinutes cm) (int (length ads))),
                          sl_CampaignName = KP_Name cm\<rparr>)
           in if cycleGap \<le> 0 then [] else slots_from 301 mk cycleGap winEnd winStart)"

section \<open>Steps of the process (\<open>cmd/bot/main.go\<close>)\<close>

datatype adm_event =
    EvTick adm_env "nat \<Rightarrow> nat \<Rightarrow> adm_env"
  | EvJob nat adm_env adm_env  \<comment> \<open>a goroutine that a tick has started\<close>
  | EvRestart  \<comment> \<open>the process ends, and with it the goroutines\<close>
  | EvStart int64 adm_env
  | EvHelp int64 adm_env
  | EvText int64 bool tg_msg adm_env
  | EvMedia int64 tg_msg adm_env
  | EvButton int64 string adm_env
  | EvExpire int64  \<comment> \<open>the cache drops what it has of a user\<close>

definition lift_adm :: "(adm \<Rightarrow> adm) \<Rightarrow> adm_bot \<Rightarrow> adm_bot" where
  "lift_adm f b = b\<lparr>bt_adm := f (bt_adm b)\<rparr>"

definition run_nth :: "adm_cfg \<Rightarrow> nat \<Rightarrow> adm_env \<Rightarrow> adm_env \<Rightarrow> adm \<Rightarrow> adm" where
  "run_nth cfg n env env2 s =
     (if n < length (am_running s)
      then runJob cfg env env2 (am_running s ! n) (s\<lparr>am_running := take n (am_running s) @ drop (Suc n) (am_running s)\<rparr>)
      else s)"

definition adm_step :: "bot_cfg \<Rightarrow> adm_event \<Rightarrow> adm_bot \<Rightarrow> adm_bot" where
  "adm_step cfg ev b =
     (case ev of
        EvTick env envss \<Rightarrow> lift_adm (sched_tick (bc_cfg cfg) env envss) b
      | EvJob n env env2 \<Rightarrow> lift_adm (run_nth (bc_cfg cfg) n env env2) b
      | EvRestart \<Rightarrow> lift_adm (\<lambda>s. s\<lparr>am_running := []\<rparr>) b
      | EvStart uid env \<Rightarrow> adm_onStart cfg env uid b
      | EvHelp uid env \<Rightarrow> adm_onHelp cfg env uid b
      | EvText uid p msg env \<Rightarrow> adm_onText cfg env uid p msg b
      | EvMedia uid msg env \<Rightarrow> adm_onMedia cfg env uid msg b
      | EvButton uid raw env \<Rightarrow> adm_onCallback cfg env uid raw b
      | EvExpire uid \<Rightarrow> b\<lparr>bt_state := (bt_state b)(uid := idle), bt_ctx := (bt_ctx b)(uid := (\<lambda>_. []))\<rparr>)"

end
