(* ===== verification/AdmFrame.thy ===== *)
theory AdmFrame
  imports AdmBot
begin

text \<open>
  What a step of \<open>admanager-bot\<close> does to its documents, stated once. The locale \<open>sched_contract\<close> asks of an invariant
  that the statements of the scheduler keep it, \<open>adm_contract\<close> the same for those of the owner's handlers; each
  handler and job is followed through the code once, for every such invariant.
\<close>

section \<open>Statements\<close>

lemma col_UpdateOne_all:
  assumes "\<forall>d \<in> set docs. Q d" "\<And>d. d \<in> set docs \<Longrightarrow> Q d \<Longrightarrow> P d \<Longrightarrow> Q (f d)"
  shows "\<forall>d \<in> set (snd (col_UpdateOne flt P f docs)). Q d"
proof -
  have "\<forall>d \<in> set (snd (UpdateOne flt [] None P (\<lambda>d. Inr (f d)) docs)). Q d"
    using assms by (auto simp: UpdateOne_def split: option.splits sum.splits dest!: update_first_Inr)
  then show ?thesis by (simp add: col_UpdateOne_def)
qed

lemma col_UpdateOne_filter:
  assumes "\<And>d. P d \<Longrightarrow> \<not> Q d \<and> \<not> Q (f d)"
  shows "filter Q (snd (col_UpdateOne flt P f docs)) = filter Q docs"
  using assms by (auto simp: col_UpdateOne_def UpdateOne_def split: option.splits sum.splits dest!: update_first_Inr)

lemma col_UpdateOne_map: "(\<And>d. g (f d) = g d) \<Longrightarrow> map g (snd (col_UpdateOne flt P f docs)) = map g docs"
  unfolding col_UpdateOne_def by (rule UpdateOne_map) auto

lemma col_InsertOne_all: "\<forall>d \<in> set docs. Q d \<Longrightarrow> Q d \<Longrightarrow> \<forall>d \<in> set (snd (col_InsertOne flt key d docs)). Q d"
  by (auto simp: col_InsertOne_def split: option.splits)

lemma col_InsertOne_filter: "\<not> Q d \<Longrightarrow> filter Q (snd (col_InsertOne flt key d docs)) = filter Q docs"
  by (auto simp: col_InsertOne_def split: option.splits)

lemma col_FindOne_in: "col_FindOne flt P docs = Inr d \<Longrightarrow> d \<in> set docs \<and> P d"
  by (auto simp: col_FindOne_def stmt_def split: option.splits list.splits dest: filter_eq_ConsD)

lemma col_Find_Inr: "col_Find flt docs = Inr ds \<Longrightarrow> ds = docs"
  by (simp add: col_Find_def stmt_def split: option.splits)

definition schedule_of :: "adm_Campaign \<Rightarrow> schedule" where
  "schedule_of c = \<lparr>sd_StartHour = KP_StartHour c, sd_StartMinute = KP_StartMinute c, sd_EndHour = KP_EndHour c, sd_EndMinute = KP_EndMinute c,
     sd_Interval = KP_IntervalMinutes c, sd_DeleteAfter = KP_DeleteAfterMinutes c, sd_Rotation = KP_RotationMinutes c\<rparr>"

definition template_schedule :: "CampaignTemplate \<Rightarrow> schedule" where
  "template_schedule t = \<lparr>sd_StartHour = CT_StartHour t, sd_StartMinute = CT_StartMinute t, sd_EndHour = CT_EndHour t, sd_EndMinute = CT_EndMinute t,
     sd_Interval = CT_IntervalMinutes t, sd_DeleteAfter = CT_DeleteAfterMinutes t, sd_Rotation = CT_RotationMinutes t\<rparr>"

lemma schedule_of_simps [simp]:
  "schedule_of (put_schedule d c) = d" "schedule_of (c\<lparr>KP_Name := n\<rparr>) = schedule_of c" "schedule_of (c\<lparr>KP_Status := st\<rparr>) = schedule_of c"
  "schedule_of (c\<lparr>KP_TargetTagIDs := ts\<rparr>) = schedule_of c" "schedule_of (c\<lparr>KP_TargetChannelIDs := hs\<rparr>) = schedule_of c"
  "schedule_of (c\<lparr>KP_TotalImpressions := k\<rparr>) = schedule_of c" "schedule_of (c\<lparr>KP_DeletedAt := del\<rparr>) = schedule_of c"
  by (simp_all add: schedule_of_def put_schedule_def)

section \<open>The scheduler\<close>

locale sched_contract =
  fixes cfg :: adm_cfg and inv :: "adm_db \<Rightarrow> bool" and okc :: "adm_Campaign \<Rightarrow> bool" and oka :: "Advertisement \<Rightarrow> bool"
    and ok :: "adm_env \<Rightarrow> bool"
  assumes ok_shift: "ok env \<Longrightarrow> ok (ae_shift k env)"
    and campaign_read: "inv db \<Longrightarrow> c \<in> set (adm_campaigns db) \<Longrightarrow> KP_InstanceID c = mc_instance cfg \<Longrightarrow> okc c"
    and ad_read: "inv db \<Longrightarrow> okc c \<Longrightarrow> a \<in> set (advertisements db) \<Longrightarrow> AX_InstanceID a = mc_instance cfg \<Longrightarrow> AX_CampaignID a = KP_ID c \<Longrightarrow> oka a"
    and keeps_plan: "inv db \<Longrightarrow> okc cm \<Longrightarrow> oka ad \<Longrightarrow> AX_CampaignID ad = KP_ID cm \<Longrightarrow> ok env \<Longrightarrow> inv (plan_channel cfg env now lead cm ad ws ch db)"
    and keeps_campaign: "inv db \<Longrightarrow> (\<And>c. schedule_of (fc c) = schedule_of c \<and> KP_ID (fc c) = KP_ID c \<and> KP_InstanceID (fc c) = KP_InstanceID c) \<Longrightarrow>
        inv (snd (adm_UpdateCampaign (mc_instance cfg) flt i fc db))"
    and keeps_channel: "inv db \<Longrightarrow> (\<And>h. HN_InstanceID (fh h) = HN_InstanceID h) \<Longrightarrow> inv (snd (UpdateChannel (mc_instance cfg) flt i fh db))"
    and keeps_settings: "inv db \<Longrightarrow> inv (snd (GetSettings (mc_instance cfg) io db))"
    and keeps_job: "inv db \<Longrightarrow> (\<And>j. SJ_InstanceID (fj j) = SJ_InstanceID j) \<Longrightarrow> inv (snd (set_job (mc_instance cfg) flt i fj db))"
    and keeps_new_job: "inv db \<Longrightarrow> inv (snd (CreateJob (mc_instance cfg) io job db))"
    and keeps_main: "inv db \<Longrightarrow> inv (snd (SetReservationMainPosted (mc_instance cfg) flt i m db))"
    and keeps_reply: "inv db \<Longrightarrow> inv (snd (SetReservationReplyPosted (mc_instance cfg) io i m idx db))"
    and keeps_live: "inv db \<Longrightarrow> inv (snd (SetReservationLiveMessage (mc_instance cfg) io i [m] db))"
    and keeps_reservation: "inv db \<Longrightarrow> (\<And>r. RS_InstanceID (f r) = RS_InstanceID r \<and> RS_CampaignID (f r) = RS_CampaignID r \<and> RS_ChannelID (f r) = RS_ChannelID r \<and>
          RS_ScheduledAt (f r) = RS_ScheduledAt r \<and> RS_LiveMessageIDs (f r) \<in> {RS_LiveMessageIDs r, []} \<and> RS_PostedMessageIDs (f r) = RS_PostedMessageIDs r \<and>
          (is_open (f r) \<longrightarrow> is_open r)) \<Longrightarrow>
        inv (snd (set_reservation (mc_instance cfg) flt i f db))"
begin

abbreviation inst :: uuid where "inst \<equiv> mc_instance cfg"

lemma am_db_calls [simp]: "am_db (call_tg c s) = am_db s" "am_db (s\<lparr>am_running := js\<rparr>) = am_db s" "am_db (s\<lparr>am_calls := cs\<rparr>) = am_db s"
  by (simp_all add: call_tg_def)

lemma am_db_delete_all [simp]: "am_db (delete_all chat ms s) = am_db s"
  unfolding delete_all_def by (induction ms arbitrary: s) simp_all

lemma am_db_Copy [simp]: "am_db (snd (Copy ans chat src s)) = am_db s"
  by (simp add: Copy_def split: sum.split)

lemma Copy_db: "Copy ans chat src s = (r, s1) \<Longrightarrow> am_db s1 = am_db s"
  using am_db_Copy [of ans chat src s] by simp

lemma on_adm_db: "am_db (on_adm f s) = snd (f (am_db s))"
  by (simp add: on_adm_def with_adm_def split: prod.split)

lemma snd_with_adm: "am_db (snd (with_adm f s)) = snd (f (am_db s))"
  by (simp add: with_adm_def split: prod.split)

lemma with_adm_db: "with_adm f s = (r, s1) \<Longrightarrow> am_db s1 = snd (f (am_db s))"
  by (auto simp: with_adm_def split: prod.splits)

lemma keeps_each: "(\<And>flt d db. inv db \<Longrightarrow> inv (snd (f flt d db))) \<Longrightarrow> inv db \<Longrightarrow> inv (snd (each f flts ds db))"
proof (induction ds arbitrary: flts db)
  case (Cons d ds)
  have "inv (snd (f (flts 0) d db))" using Cons.prems by blast
  then show ?case using Cons.IH [OF Cons.prems(1)] by (auto split: prod.splits sum.splits)
qed simp

lemma keeps_cancel_jobs: "inv db \<Longrightarrow> inv (snd (CancelCampaignJobs inst io c db))" "inv db \<Longrightarrow> inv (snd (CancelReservationJobs inst io r db))"
  by (auto simp: CancelCampaignJobs_def CancelReservationJobs_def CancelJob_def split: sum.split intro!: keeps_each keeps_job)

lemma keeps_cancel_reservations: "inv db \<Longrightarrow> inv (snd (CancelCampaignReservations inst io c db))"
  by (auto simp: CancelCampaignReservations_def is_open_def split: sum.split intro!: keeps_each keeps_reservation)

lemma keeps_marks:
  assumes "inv db"
  shows "inv (snd (MarkReservationExpired inst flt i db))" "inv (snd (MarkReservationFailed inst flt i e db))"
    "inv (snd (SetReservationDeleteAt inst flt i t db))" "inv (snd (MarkJobRunning inst flt i db))" "inv (snd (MarkJobDone inst flt i db))"
    "inv (snd (MarkJobFailed inst flt i e db))" "inv (snd (RetryJob inst flt i t db))"
    "inv (snd (UpdateCampaignStatus inst flt i st db))" "inv (snd (IncrCampaignImpressions inst flt i db))" "inv (snd (UpdateChannelStats inst flt i n db))"
  using assms
  by (auto simp: MarkReservationExpired_def MarkReservationFailed_def SetReservationDeleteAt_def MarkJobRunning_def MarkJobDone_def MarkJobFailed_def
      RetryJob_def UpdateCampaignStatus_def IncrCampaignImpressions_def UpdateChannelStats_def is_open_def
      intro!: keeps_reservation keeps_job keeps_campaign keeps_channel)

lemma keeps_expire_all: "inv (am_db s) \<Longrightarrow> inv (am_db (expire_all inst env rs s))"
proof (induction rs arbitrary: env s)
  case (Cons r rs)
  show ?case unfolding expire_all.simps Let_def
    by (rule Cons.IH) (use Cons.prems in \<open>auto simp: on_adm_db split: sum.split intro!: keeps_marks\<close>)
qed simp

lemma keeps_cutOff: "inv (am_db s) \<Longrightarrow> inv (am_db (cutOffCampaign inst env cm s))"
  by (simp add: cutOffCampaign_def Let_def on_adm_db keeps_cancel_jobs keeps_cancel_reservations keeps_expire_all)

lemma keeps_plan_channels:
  assumes "inv db" "okc cm" "oka ad" "AX_CampaignID ad = KP_ID cm" "ok env"
  shows "inv (plan_channels cfg env now lead cm ad ws chs db)"
  using assms by (induction chs arbitrary: env db) (simp_all add: keeps_plan ok_shift)

lemma ads_read:
  assumes "inv db" "okc cm" "ListAdsByCampaign inst flt (KP_ID cm) db = Inr ads" "a \<in> set ads"
  shows "oka a \<and> AX_CampaignID a = KP_ID cm"
  using assms ad_read [of db cm a] by (auto simp: ListAdsByCampaign_def dest!: col_Find_Inr)

lemma keeps_plan_campaign:
  assumes "inv (am_db s)" "okc cm" "\<And>k. ok (envs k)"
  shows "inv (am_db (plan_campaign cfg envs now lead cm s))"
proof -
  have ad: "oka ((a # as) ! nat (RotationIndex e r (int (length (a # as))))) \<and> AX_CampaignID ((a # as) ! nat (RotationIndex e r (int (length (a # as))))) = KP_ID cm"
    if "ListAdsByCampaign inst flt (KP_ID cm) (am_db s) = Inr (a # as)" for flt a as e r
  proof (rule ads_read [OF assms(1,2) that])
    show "(a # as) ! nat (RotationIndex e r (int (length (a # as)))) \<in> set (a # as)"
      by (rule nth_mem) (use RotationIndex_range [of "int (length (a # as))" e r] in \<open>simp add: nat_less_iff\<close>)
  qed
  show ?thesis
    using assms ad
    by (auto simp: plan_campaign_def Let_def on_adm_db keeps_marks keeps_cutOff split: sum.split list.split option.split
        intro!: keeps_plan_channels keeps_plan ok_shift)
qed

lemma keeps_plan_all:
  assumes "inv (am_db s)" "\<And>c. c \<in> set cms \<Longrightarrow> okc c" "\<And>n k. ok (envss n k)"
  shows "inv (am_db (plan_all cfg envss now lead cms s))"
  using assms by (induction cms arbitrary: envss s) (auto simp: keeps_plan_campaign)

lemma keeps_planCampaigns:
  assumes s: "inv (am_db s)" and ok: "\<And>n k. ok (envss n k)"
  shows "inv (am_db (planCampaigns cfg env envss s))"
proof (cases "ListActiveCampaigns inst (ae_io env 0) (am_db s)")
  case (Inr cms)
  then have "okc c" if "c \<in> set cms" for c
    using that campaign_read [OF s] by (auto simp: ListActiveCampaigns_def dest!: col_Find_Inr)
  moreover have "inv (am_db s1)" if "with_adm (GetSettings inst (ae_io env 1)) s = (st, s1)" for st s1
    using with_adm_db [OF that] keeps_settings [OF s] by simp
  ultimately show ?thesis using Inr ok by (auto simp: planCampaigns_def split: prod.split intro!: keeps_plan_all)
qed (simp add: planCampaigns_def s)

lemma keeps_start_jobs: "inv (am_db s) \<Longrightarrow> inv (am_db (start_jobs inst env js s))"
proof (induction js arbitrary: env s)
  case (Cons j js)
  have "inv (am_db s1)" if "with_adm (MarkJobRunning inst (ae_flt env 0) (SJ_ID j)) s = (r, s1)" for r s1
    using with_adm_db [OF that] keeps_marks(4) [OF Cons.prems] by simp
  then show ?case using Cons.IH by (auto split: prod.splits sum.splits)
qed simp

lemma keeps_tick:
  assumes "inv (am_db s)" "\<And>n k. ok (envss n k)"
  shows "inv (am_db (sched_tick cfg env envss s))"
  unfolding sched_tick_def by (rule keeps_planCampaigns) (use assms in \<open>auto simp: keeps_start_jobs split: sum.split\<close>)

lemma keeps_repost_all: "inv (am_db s) \<Longrightarrow> inv (am_db (repost_all inst env ch m rs s))"
proof (induction rs arbitrary: env s)
  case (Cons r rs)
  show ?case unfolding repost_all.simps Let_def
    by (rule Cons.IH) (use Cons.prems in \<open>auto simp: on_adm_db Copy_db split: sum.split prod.split intro!: keeps_live\<close>)
qed simp

lemma keeps_afterPost: "inv (am_db s) \<Longrightarrow> inv (am_db (afterPost inst env ch m s))"
  by (simp add: afterPost_def keeps_repost_all split: sum.split)

lemma keeps_sendAd: "inv (am_db s) \<Longrightarrow> inv (am_db (snd (sendAd inst env job s)))"
  by (auto simp: sendAd_def Let_def on_adm_db Copy_db split: sum.split prod.split intro!: keeps_new_job keeps_marks keeps_afterPost keeps_main)

lemma keeps_sendReply: "inv (am_db s) \<Longrightarrow> inv (am_db (snd (sendReply inst env job s)))"
  by (auto simp: sendReply_def Let_def on_adm_db Copy_db split: sum.split prod.split option.split list.split
      intro!: keeps_new_job keeps_marks keeps_afterPost keeps_reply)

lemma keeps_endCycle: "inv (am_db s) \<Longrightarrow> inv (am_db (endCycle inst env r c s))"
  by (auto simp: endCycle_def Let_def on_adm_db split: sum.split intro!: keeps_cancel_jobs keeps_marks)

lemma keeps_refresh: "inv (am_db s) \<Longrightarrow> inv (am_db (refresh_members inst env chs s))"
proof (induction chs arbitrary: env s)
  case (Cons c chs)
  show ?case unfolding refresh_members.simps by (rule Cons.IH) (use Cons.prems in \<open>auto simp: on_adm_db keeps_marks split: sum.split\<close>)
qed simp

lemma keeps_job_body: "inv (am_db s) \<Longrightarrow> inv (am_db (snd (job_body cfg env job s)))"
proof (cases "SJ_Type job")
  case JobTypeReminder
  assume "inv (am_db s)"
  moreover have "am_db (snd (sendReminder cfg env job s)) = am_db s"
    by (simp add: sendReminder_def Let_def split: sum.split)
  ultimately show ?thesis by (simp add: job_body_def JobTypeReminder)
qed (simp_all add: job_body_def Let_def keeps_sendAd keeps_sendReply deletePost_def keeps_endCycle updateStats_def keeps_refresh endCampaign_def
      snd_with_adm keeps_marks split: sum.split)

lemma keeps_runJob: "inv (am_db s) \<Longrightarrow> inv (am_db (runJob cfg env env2 job s))"
  using keeps_job_body [of s env job] by (auto simp: runJob_def Let_def on_adm_db split: prod.split sum.split intro!: keeps_marks)

lemma keeps_run_nth: "inv (am_db s) \<Longrightarrow> inv (am_db (run_nth cfg n env env2 s))"
  by (simp add: run_nth_def keeps_runJob)

end

section \<open>The owner\<close>

text \<open>An event in which the environment of a tick is acceptable.\<close>

definition tick_ok :: "(adm_env \<Rightarrow> bool) \<Rightarrow> adm_event \<Rightarrow> bool" where
  "tick_ok ok ev \<longleftrightarrow> (case ev of EvTick env envss \<Rightarrow> (\<forall>n k. ok (envss n k)) | _ \<Rightarrow> True)"

lemma tick_ok_all: "(\<And>env. ok env) \<Longrightarrow> tick_ok ok ev"
  by (simp add: tick_ok_def split: adm_event.split)

locale adm_contract = sched_contract "bc_cfg bcfg" inv okc oka ok
  for bcfg :: bot_cfg and inv :: "adm_db \<Rightarrow> bool" and okc :: "adm_Campaign \<Rightarrow> bool" and oka :: "Advertisement \<Rightarrow> bool" and ok :: "adm_env \<Rightarrow> bool" +
  fixes oks :: "schedule \<Rightarrow> bool"
  assumes schedule_good: "schedule_ok d \<Longrightarrow> oks d"
    and keeps_schedule: "inv db \<Longrightarrow> oks d \<Longrightarrow> inv (snd (adm_UpdateCampaign (bc_inst bcfg) flt i (put_schedule d) db))"
    and keeps_new_campaign: "inv db \<Longrightarrow> oks (schedule_of c) \<Longrightarrow> inv (snd (adm_CreateCampaign (bc_inst bcfg) io c db))"
    and template_read: "inv db \<Longrightarrow> t \<in> set (campaign_templates db) \<Longrightarrow> CT_InstanceID t = bc_inst bcfg \<Longrightarrow> oks (template_schedule t)"
    and keeps_new_channel: "inv db \<Longrightarrow> inv (snd (adm_CreateChannel (bc_inst bcfg) io h db))"
    and keeps_new_tag: "inv db \<Longrightarrow> inv (snd (CreateTag (bc_inst bcfg) io tg db))"
    and keeps_tag: "inv db \<Longrightarrow> inv (snd (SetTagInactive (bc_inst bcfg) flt i db))"
    and keeps_audit: "inv db \<Longrightarrow> inv (LogAudit (bc_inst bcfg) io e db)"
    and keeps_new_template: "inv db \<Longrightarrow> oks (template_schedule t) \<Longrightarrow> inv (snd (CreateTemplate (bc_inst bcfg) io t db))"
    and keeps_drop_template: "inv db \<Longrightarrow> inv (DeleteTemplate (bc_inst bcfg) flt i db)"
    and keeps_reminder: "inv db \<Longrightarrow> 0 \<le> n \<Longrightarrow> inv (snd (UpdateSettings (bc_inst bcfg) flt (\<lambda>b. b\<lparr>BS_ReminderMinutesBefore := n\<rparr>) db))"
    and keeps_new_ad: "inv db \<Longrightarrow> AX_Replies a = [] \<Longrightarrow> inv (snd (CreateAd (bc_inst bcfg) io a db))"
    and keeps_ad: "inv db \<Longrightarrow> (\<And>a. AX_Replies (fa a) = AX_Replies a \<and> AX_InstanceID (fa a) = AX_InstanceID a \<and> AX_CampaignID (fa a) = AX_CampaignID a) \<Longrightarrow>
        inv (snd (UpdateAd (bc_inst bcfg) flt i fa db))"
    and keeps_replies: "inv db \<Longrightarrow> a \<in> set (advertisements db) \<Longrightarrow> set rs \<subseteq> set (AX_Replies a) \<Longrightarrow> inv (snd (ReplaceAdReplies (bc_inst bcfg) flt i rs db))"
    and keeps_append: "inv db \<Longrightarrow> 1 \<le> dur \<Longrightarrow> inv (snd (AppendAdReply (bc_inst bcfg) io i m dur db))"
begin

definition binv :: "adm_bot \<Rightarrow> bool" where
  "binv b \<longleftrightarrow> inv (bt_db b)"

lemma binv_say [simp]: "binv (say uid k b) = binv b"
  by (simp add: binv_def bt_db_def say_def)

lemma binv_state [simp]: "binv (adm_setState uid st b) = binv b" "binv (adm_setStep uid stp d b) = binv b" "binv (adm_clearState uid b) = binv b"
  "binv (setStepData uid stp k v b) = binv b" "binv (setCtx uid kind v b) = binv b"
  by (simp_all add: binv_def bt_db_def adm_setState_def adm_setStep_def adm_clearState_def setStepData_def setCtx_def)

lemma bt_db_say [simp]: "bt_db (say uid k b) = bt_db b"
  by (simp add: bt_db_def say_def)

lemma bt_db_state [simp]: "bt_db (adm_clearState uid b) = bt_db b"
  by (simp add: bt_db_def adm_clearState_def adm_setState_def)

lemma bt_db_run [simp]: "bt_db (run_db f b) = snd (f (bt_db b))"
  by (simp add: bt_db_def run_db_def do_db_def with_adm_def split: prod.split)

lemma binv_run: "binv (run_db f b) = inv (snd (f (bt_db b)))"
  by (simp add: binv_def bt_db_def run_db_def do_db_def with_adm_def split: prod.split)

lemma bt_db_do: "do_db f b = (r, b1) \<Longrightarrow> bt_db b1 = snd (f (bt_db b))"
  by (auto simp: bt_db_def do_db_def with_adm_def split: prod.splits)

lemma binv_do: "do_db f b = (r, b1) \<Longrightarrow> binv b1 = inv (snd (f (bt_db b)))"
  by (auto simp: binv_def bt_db_def do_db_def with_adm_def split: prod.splits)

lemma binv_audit: "binv b \<Longrightarrow> binv (audit bcfg io uid a i b)"
  unfolding audit_def binv_run by (simp add: binv_def keeps_audit)

lemma binvI: "inv (bt_db b) \<Longrightarrow> binv b"
  by (simp add: binv_def)

lemma binvD: "binv b \<Longrightarrow> inv (bt_db b)"
  by (simp add: binv_def)

lemma keeps_ops:
  assumes "inv db"
  shows "inv (snd (UpdateChannelStatus inst flt i st db))" "inv (snd (DeleteChannel inst io i db))" "inv (snd (UpdateChannelStats inst flt i n db))"
    "inv (snd (DeleteCampaign inst io i db))" "inv (snd (ReplaceAdMain inst flt i m db))" "inv (snd (DeleteAd inst flt i db))"
  using assms
  by (auto simp: UpdateChannelStatus_def DeleteChannel_def UpdateChannelStats_def DeleteCampaign_def ReplaceAdMain_def DeleteAd_def
      intro!: keeps_channel keeps_campaign keeps_ad)

lemmas bot_intros = keeps_ops keeps_marks keeps_channel keeps_campaign keeps_ad keeps_cancel_jobs keeps_cancel_reservations keeps_settings keeps_schedule
  keeps_new_campaign keeps_new_channel keeps_new_tag keeps_tag keeps_new_template keeps_drop_template keeps_reminder keeps_new_ad keeps_append

lemma keeps_channels:
  assumes "binv b"
  shows "binv (adminChannelTagToggle bcfg env uid x b)" "binv (adminChannelRefresh bcfg env uid x b)" "binv (adminChannelToggle bcfg env uid x b)"
    "binv (adminChannelDelete bcfg env uid x b)" "binv (adminTagDelete bcfg env uid x b)"
  using assms
  by (auto simp: adminChannelTagToggle_def adminChannelRefresh_def adminChannelToggle_def adminChannelDelete_def adminTagDelete_def Let_def
      binv_run split: sum.split intro!: binv_audit bot_intros dest!: binvD)

lemma keeps_channel_add: "binv b \<Longrightarrow> binv (handleChannelAdd bcfg env uid msg text b)"
  by (auto simp: handleChannelAdd_def Let_def binv_run binv_do bt_db_do split: sum.split prod.split intro!: binv_audit bot_intros dest!: binvD)

lemma keeps_tag_add: "binv b \<Longrightarrow> binv (handleTagAdd bcfg env uid text b)"
  by (auto simp: handleTagAdd_def Let_def binv_do split: sum.split prod.split intro!: bot_intros dest!: binvD)

lemma keeps_set_status: "binv b \<Longrightarrow> binv (campaignSetStatus bcfg env uid x act b)"
  by (simp add: campaignSetStatus_def Let_def binv_run binv_audit bot_intros binvD split: sum.split)

lemma keeps_campaign_buttons:
  assumes "binv b"
  shows "binv (campaignDelete bcfg env uid x b)" "binv (campaignTagToggle bcfg env uid x b)" "binv (campaignChannelToggle bcfg env uid x b)"
  using assms
  by (auto simp: campaignDelete_def campaignTagToggle_def campaignChannelToggle_def Let_def binv_run
      split: sum.split intro!: bot_intros dest!: binvD)

lemma keeps_campaign_text:
  assumes "binv b"
  shows "binv (handleCampaignEditName bcfg env uid st text b)" "binv (handleCampaignEditSchedule bcfg env uid st text b)"
    "binv (handleCampaignName uid text b)" "binv (handleCampaignSchedule bcfg env uid st text b)"
  using assms
  by (auto simp: handleCampaignEditName_def handleCampaignEditSchedule_def handleCampaignName_def handleCampaignSchedule_def Let_def binv_do
      split: sum.split prod.split option.split intro!: binv_audit bot_intros dest!: binvD ParseSchedule_ok schedule_good)

lemma keeps_found_ad:
  assumes "inv db" "FindAd inst flt i db = Inr a" "set rs \<subseteq> set (AX_Replies a)"
  shows "inv (snd (ReplaceAdReplies inst flt' i rs db))"
  using assms keeps_replies [of db a rs] by (auto simp: FindAd_def dest!: col_FindOne_in)

lemma keeps_ad_buttons:
  assumes "binv b"
  shows "binv (adNew mode uid x b)" "binv (adAttachPick bcfg env uid x b)" "binv (adDone uid b)" "binv (adToggleField bcfg env uid f b)"
    "binv (adDelete bcfg env uid x b)" "binv (adFinish uid b)"
  using assms
  by (auto simp: adNew_def adAttachPick_def adDone_def adFinish_def adToggleField_def adDelete_def Let_def binv_run split: sum.split
      intro!: bot_intros dest!: binvD)

lemma keeps_reply_delete: "binv b \<Longrightarrow> binv (adReplyDelete bcfg env uid x b)"
  by (auto simp: adReplyDelete_def Let_def binv_run split: sum.split option.split dest!: binvD
      intro!: keeps_found_ad dest: in_set_takeD in_set_dropD)

lemma swap_subset: "i < length xs \<Longrightarrow> j < length xs \<Longrightarrow> set (xs[i := xs ! j, j := xs ! i]) \<subseteq> set xs"
  by (meson nth_mem set_update_subsetI subset_refl)

lemma keeps_reply_move: "binv b \<Longrightarrow> binv (adReplyMove bcfg env uid x dir b)"
  by (simp add: adReplyMove_def Let_def binv_run split: sum.split option.split)
    (auto dest!: binvD intro!: keeps_found_ad swap_subset)

lemma copy_replies_db [simp]: "am_db (copy_replies ans chat rs s) = am_db s"
  by (induction rs arbitrary: ans s) simp_all

lemma copyAd_db: "copyAd env chat ad s = (r, s1) \<Longrightarrow> am_db s1 = am_db s"
  by (auto simp: copyAd_def split: sum.splits prod.splits dest: Copy_db)

lemma keeps_preview: "binv b \<Longrightarrow> binv (adPreview bcfg env uid x b)"
  by (auto simp: adPreview_def binv_def bt_db_def say_def split: sum.split prod.split dest: copyAd_db)

lemma keeps_ad_text:
  assumes "binv b"
  shows "binv (handleAdName uid st text b)" "binv (handleAdMain bcfg env uid msg st b)" "binv (handleAdReplies uid msg st b)"
    "binv (handleAdReplyMinutes bcfg env uid st text b)" "binv (handleAdEditName bcfg env uid st text b)" "binv (handleAdEditMain bcfg env uid msg st b)"
  using assms
  by (auto simp: handleAdName_def handleAdMain_def handleAdReplies_def adFinish_def handleAdReplyMinutes_def handleAdEditName_def handleAdEditMain_def Let_def
      binv_do split: sum.split prod.split option.split intro!: bot_intros dest!: binvD)

lemma found_template: "inv db \<Longrightarrow> FindTemplate inst flt i db = Inr t \<Longrightarrow> oks (template_schedule t)"
  using template_read [of db t] by (auto simp: FindTemplate_def dest!: col_FindOne_in)

lemma keeps_template_use: "binv b \<Longrightarrow> binv (templateUse bcfg env uid x b)"
proof (cases "FindTemplate inst (ae_flt env 0) x (bt_db b)")
  case (Inr t)
  assume b: "binv b"
  have "oks (template_schedule t)" using found_template [OF binvD [OF b] Inr] .
  then show ?thesis
    using binvD [OF b]
    by (auto simp: templateUse_def Inr binv_do schedule_of_def template_schedule_def split: sum.split prod.split intro!: binv_audit keeps_new_campaign)
qed (simp add: templateUse_def)

lemma keeps_templates:
  assumes "binv b"
  shows "binv (templateDelete bcfg env uid x b)" "binv (handleTemplateName bcfg env uid text b)"
  using assms
  by (auto simp: templateDelete_def handleTemplateName_def Let_def binv_run binv_do template_schedule_def schedule_ok_def clock_def
      split: sum.split prod.split intro!: bot_intros schedule_good dest!: binvD)

lemma keeps_settings_bot:
  assumes "binv b"
  shows "binv (settingsHome bcfg io uid b)" "binv (handleSettingsReminder bcfg env uid text b)" "binv (adm_onStart bcfg env uid b)" "binv (adm_onHelp bcfg env uid b)"
  using assms
  by (auto simp: settingsHome_def handleSettingsReminder_def adm_onStart_def adm_onHelp_def binv_run binv_do bt_db_do
      split: sum.split prod.split option.split intro!: bot_intros dest!: binvD)

lemmas keeps_bot = keeps_channels keeps_channel_add keeps_tag_add keeps_set_status keeps_campaign_buttons keeps_campaign_text keeps_ad_buttons keeps_reply_delete keeps_reply_move
  keeps_preview keeps_ad_text keeps_template_use keeps_templates keeps_settings_bot

lemma keeps_handleStep: "binv b \<Longrightarrow> binv (adm_handleStep bcfg env uid msg st text b)"
  by (simp add: adm_handleStep_def Let_def keeps_bot)

lemma keeps_onText: "binv b \<Longrightarrow> binv (adm_onText bcfg env uid p msg b)"
  by (simp add: adm_onText_def adminOnText_def Let_def keeps_bot keeps_handleStep)

lemma keeps_onMedia: "binv b \<Longrightarrow> binv (adm_onMedia bcfg env uid msg b)"
  by (simp add: adm_onMedia_def Let_def keeps_bot)

lemma binv_if: "binv x \<Longrightarrow> binv y \<Longrightarrow> binv (if P then x else y)"
  by simp

lemma keeps_onCallback: "binv b \<Longrightarrow> binv (adm_onCallback bcfg env uid raw b)"
proof -
  assume b: "binv b"
  obtain action arg two where c: "Cut (case raw of [] \<Rightarrow> raw | c # r \<Rightarrow> if c = CHR 0x0C then r else raw) CHR '':'' = (action, arg, two)"
    by (metis prod_cases3)
  show ?thesis unfolding adm_onCallback_def c Let_def prod.case by (intro binv_if keeps_bot) (simp_all add: b)
qed

lemma binv_lift: "binv (lift_adm f b) = inv (am_db (f (bt_adm b)))"
  by (simp add: binv_def bt_db_def lift_adm_def)

lemma binv_expire: "binv (b\<lparr>bt_state := st, bt_ctx := cx\<rparr>) = binv b"
  by (simp add: binv_def bt_db_def)

lemma step_keeps_inv: "tick_ok ok ev \<Longrightarrow> binv b \<Longrightarrow> binv (adm_step bcfg ev b)"
  by (cases ev) (simp_all add: adm_step_def tick_ok_def keeps_bot keeps_onText keeps_onMedia keeps_onCallback binv_lift keeps_tick keeps_run_nth
      binv_expire binvD [unfolded bt_db_def])

text \<open>Every history keeps the invariant.\<close>

lemma run_keeps_inv: "\<forall>ev \<in> set evs. tick_ok ok ev \<Longrightarrow> inv (bt_db b) \<Longrightarrow> inv (bt_db (fold (adm_step bcfg) evs b))"
proof (induction evs arbitrary: b)
  case (Cons ev evs)
  then show ?case using step_keeps_inv [of ev b] by (simp add: binv_def)
qed simp

end

end
