(* ===== verification/AdmProps.thy ===== *)
theory AdmProps
  imports AdmFrame
begin

text \<open>
  What \<open>admanager-bot\<close> keeps in every history of ticks, jobs, restarts and owner's updates, from the contracts of
  \<open>AdmFrame\<close>: documents of other instances, the types of the documents, one open reservation per campaign and channel;
  when a window contains a time; and how a campaign stops for good.
\<close>

section \<open>Daily windows\<close>

lemma le_div_minute: "(k::int) \<le> r div minute_ns \<longleftrightarrow> k * minute_ns \<le> r"
proof
  assume "k \<le> r div minute_ns"
  then have "k * minute_ns \<le> r div minute_ns * minute_ns" by simp
  also have "\<dots> \<le> r" by simp
  finally show "k * minute_ns \<le> r" .
next
  assume "k * minute_ns \<le> r"
  then have "k * minute_ns div minute_ns \<le> r div minute_ns" by (intro zdiv_mono1) simp_all
  then show "k \<le> r div minute_ns" by simp
qed

lemma StartTimeOnDay_eq: "StartTimeOnDay loc t h m = t - (t + loc) mod day_ns + (h * 60 + m) * minute_ns"
proof -
  have "(t + loc) div day_ns * day_ns = t + loc - (t + loc) mod day_ns" by (rule minus_mod_eq_div_mult [symmetric])
  then show ?thesis by (simp add: StartTimeOnDay_def algebra_simps)
qed

lemma StartTimeOnDay_same:
  assumes "clock h m"
  shows "StartTimeOnDay loc (StartTimeOnDay loc t h m - k * day_ns) h2 m2 = StartTimeOnDay loc t h2 m2 - k * day_ns"
proof -
  define d where "d = (t + loc) div day_ns"
  have r: "0 \<le> h * 3600000000000 + m * minute_ns" "h * 3600000000000 + m * minute_ns < day_ns" using assms by (auto simp: clock_def)
  have "StartTimeOnDay loc t h m - k * day_ns + loc = h * 3600000000000 + m * minute_ns + (d - k) * day_ns"
    by (simp add: StartTimeOnDay_def d_def algebra_simps)
  moreover have "(h * 3600000000000 + m * minute_ns + (d - k) * day_ns) div day_ns = (d - k) + (h * 3600000000000 + m * minute_ns) div day_ns"
    by (rule div_mult_self1) simp
  ultimately have "(StartTimeOnDay loc t h m - k * day_ns + loc) div day_ns = d - k" using r by (simp add: div_pos_pos_trivial)
  then show ?thesis by (simp add: StartTimeOnDay_def d_def algebra_simps)
qed

text \<open>(C35) A time is in the daily window of a campaign exactly when the window that \<open>CurrentWindowStart\<close> opens (with the
  bounds that the schedule view shows) contains it, also for windows that pass midnight and for windows of a whole
  day; that window begins at most a day before.\<close>

theorem window_contains:
  assumes "clock sh sm" "clock eh em"
  shows "(InDailyWindow loc now sh sm eh em \<longleftrightarrow>
            (let (start, stop) = DailyWindowBounds loc (CurrentWindowStart loc now sh sm eh em) sh sm eh em in start \<le> now \<and> now < stop)) \<and>
         fst (DailyWindowBounds loc (CurrentWindowStart loc now sh sm eh em) sh sm eh em) = CurrentWindowStart loc now sh sm eh em"
proof -
  define r s e where "r = (now + loc) mod day_ns" and "s = sh * 60 + sm" and "e = eh * 60 + em"
  define D where "D = now - r"
  have r: "0 \<le> r" "r < day_ns" by (simp_all add: r_def)
  have s: "0 \<le> s" "s < 1440" and e: "0 \<le> e" "e < 1440" using assms by (auto simp: s_def e_def clock_def)
  have min: "time_Hour loc now * 60 + time_Minute loc now = r div minute_ns" by (simp add: minute_of_day r_def)
  have st: "StartTimeOnDay loc now sh sm = D + s * minute_ns" "StartTimeOnDay loc now eh em = D + e * minute_ns"
    by (simp_all add: StartTimeOnDay_eq r_def s_def e_def D_def)
  have lt: "r div minute_ns < k \<longleftrightarrow> r < k * minute_ns" for k using le_div_minute [of k r] by linarith
  define k :: int where "k = (if e \<le> s \<and> r < e * minute_ns then 1 else 0)"
  have cws: "CurrentWindowStart loc now sh sm eh em = StartTimeOnDay loc now sh sm - k * day_ns"
    unfolding CurrentWindowStart_def Let_def min k_def s_def [symmetric] e_def [symmetric] lt by simp
  have same: "StartTimeOnDay loc (CurrentWindowStart loc now sh sm eh em) sh sm = D + s * minute_ns - k * day_ns"
    "StartTimeOnDay loc (CurrentWindowStart loc now sh sm eh em) eh em = D + e * minute_ns - k * day_ns"
    unfolding cws StartTimeOnDay_same [OF assms(1)] by (simp_all only: st)
  have b: "DailyWindowBounds loc (CurrentWindowStart loc now sh sm eh em) sh sm eh em =
      (D + s * minute_ns - k * day_ns, D + e * minute_ns - k * day_ns + (if e \<le> s then day_ns else 0))"
    unfolding DailyWindowBounds_def Let_def same by auto
  have w: "InDailyWindow loc now sh sm eh em \<longleftrightarrow>
      (if s = e then True else if s < e then s * minute_ns \<le> r \<and> r < e * minute_ns else s * minute_ns \<le> r \<or> r < e * minute_ns)"
    unfolding InDailyWindow_def Let_def min s_def [symmetric] e_def [symmetric] le_div_minute lt by simp
  show ?thesis unfolding w b using r s e by (auto simp: cws st k_def D_def)
qed

text \<open>The default window at half past ten in the morning, in the zone of Tehran.\<close>

theorem window_contains_witness:
  "InDailyWindow 12600000000000 25200000000000 8 0 23 0 \<and> DailyWindowBounds 12600000000000 25200000000000 8 0 23 0 = (16200000000000, 70200000000000)"
proof -
  have "clock 8 0" "clock 23 0" by (simp_all add: clock_def)
  from window_contains [OF this, of 12600000000000 25200000000000] show ?thesis
    by (simp add: CurrentWindowStart_def DailyWindowBounds_def StartTimeOnDay_def time_Hour_def time_Minute_def)
qed

section \<open>Instances\<close>

text \<open>The documents of an instance.\<close>

record instance_docs =
  id_channels :: "adm_Channel list"
  id_tags :: "Tag list"
  id_campaigns :: "adm_Campaign list"
  id_ads :: "Advertisement list"
  id_jobs :: "ScheduledJob list"
  id_reservations :: "Reservation list"
  id_templates :: "CampaignTemplate list"
  id_settings :: "BotSettings list"
  id_audit :: "AuditLog list"

definition docs_of :: "uuid \<Rightarrow> adm_db \<Rightarrow> instance_docs" where
  "docs_of j db = \<lparr>id_channels = filter (\<lambda>d. HN_InstanceID d = j) (channels db), id_tags = filter (\<lambda>d. TG_InstanceID d = j) (tags db),
     id_campaigns = filter (\<lambda>d. KP_InstanceID d = j) (adm_campaigns db), id_ads = filter (\<lambda>d. AX_InstanceID d = j) (advertisements db),
     id_jobs = filter (\<lambda>d. SJ_InstanceID d = j) (scheduled_jobs db), id_reservations = filter (\<lambda>d. RS_InstanceID d = j) (reservations db),
     id_templates = filter (\<lambda>d. CT_InstanceID d = j) (campaign_templates db), id_settings = filter (\<lambda>d. BS_InstanceID d = j) (settings db),
     id_audit = filter (\<lambda>d. AL_InstanceID d = j) (audit_logs db)\<rparr>"

lemma remove_first_filter: "(\<And>d. P d \<Longrightarrow> \<not> Q d) \<Longrightarrow> filter Q (remove_first P ds) = filter Q ds"
  by (induction ds) auto

lemma docs_of_updates:
  assumes "inst \<noteq> j"
  shows "(\<And>d. HN_InstanceID (fh d) = HN_InstanceID d) \<Longrightarrow> docs_of j (snd (UpdateChannel inst flt i fh db)) = docs_of j db"
    "docs_of j (snd (SetTagInactive inst flt i db)) = docs_of j db"
    "(\<And>d. KP_InstanceID (fc d) = KP_InstanceID d) \<Longrightarrow> docs_of j (snd (adm_UpdateCampaign inst flt i fc db)) = docs_of j db"
    "(\<And>d. AX_InstanceID (fa d) = AX_InstanceID d) \<Longrightarrow> docs_of j (snd (UpdateAd inst flt i fa db)) = docs_of j db"
    "(\<And>d. SJ_InstanceID (fj d) = SJ_InstanceID d) \<Longrightarrow> docs_of j (snd (set_job inst flt i fj db)) = docs_of j db"
    "(\<And>d. RS_InstanceID (fr d) = RS_InstanceID d) \<Longrightarrow> docs_of j (snd (set_reservation inst flt i fr db)) = docs_of j db"
    "(\<And>d. BS_InstanceID (fs d) = BS_InstanceID d) \<Longrightarrow> docs_of j (snd (UpdateSettings inst flt fs db)) = docs_of j db"
    "docs_of j (DeleteTemplate inst flt i db) = docs_of j db"
  using assms
  by (auto simp: docs_of_def UpdateChannel_def SetTagInactive_def adm_UpdateCampaign_def UpdateAd_def set_job_def set_reservation_def UpdateSettings_def
      DeleteTemplate_def split_beta split: option.split intro!: col_UpdateOne_filter remove_first_filter)

lemma docs_of_inserts:
  assumes "inst \<noteq> j"
  shows "docs_of j (snd (adm_CreateChannel inst io h db)) = docs_of j db" "docs_of j (snd (CreateTag inst io tg db)) = docs_of j db"
    "docs_of j (snd (adm_CreateCampaign inst io c db)) = docs_of j db" "docs_of j (snd (CreateAd inst io a db)) = docs_of j db"
    "docs_of j (snd (CreateJob inst io job db)) = docs_of j db" "docs_of j (snd (CreateReservation inst io r db)) = docs_of j db"
    "docs_of j (snd (CreateTemplate inst io t db)) = docs_of j db" "docs_of j (snd (GetSettings inst io db)) = docs_of j db"
    "docs_of j (LogAudit inst io e db) = docs_of j db"
  using assms
  by (auto simp: docs_of_def adm_CreateChannel_def CreateTag_def adm_CreateCampaign_def CreateAd_def CreateJob_def CreateReservation_def CreateTemplate_def
      GetSettings_def LogAudit_def Let_def col_InsertOne_def split: option.split sum.split prod.split)

lemma docs_of_replies:
  assumes "inst \<noteq> j"
  shows "docs_of j (snd (SetReservationMainPosted inst flt i m db)) = docs_of j db" "docs_of j (snd (SetReservationReplyPosted inst io i m idx db)) = docs_of j db"
    "docs_of j (snd (SetReservationLiveMessage inst io i ms db)) = docs_of j db" "docs_of j (snd (AppendAdReply inst io i m dur db)) = docs_of j db"
    "docs_of j (snd (ReplaceAdReplies inst flt i rs db)) = docs_of j db"
  using assms
  by (auto simp: SetReservationMainPosted_def SetReservationReplyPosted_def SetReservationLiveMessage_def AppendAdReply_def ReplaceAdReplies_def Let_def
      split: sum.split intro!: docs_of_updates)

text \<open>Planning a slot of a channel: what the reservation keeps, and the jobs after it.\<close>

lemma reserve_rule:
  assumes job: "\<And>io jb db. I db \<Longrightarrow> I (snd (CreateJob inst io jb db))"
    and res: "\<And>io. I (snd (CreateReservation inst io (zero_reservation\<lparr>RS_CampaignID := KP_ID cm, RS_AdvertisementID := AX_ID ad, RS_ChannelID := HN_ID ch,
              RS_ScheduledAt := nextDue\<rparr>) db))"
  shows "I (reserve inst env now lead cm ad ch nextDue db)"
proof -
  have "I db2" if "I db1" "CreateJob inst io jb db1 = (r, db2)" for io jb db1 r db2 using job [OF that(1), of io jb] that(2) by simp
  then show ?thesis using res [of "ae_io env 0"] job by (auto simp: reserve_def Let_def split: prod.split sum.split)
qed

lemma plan_channel_rule:
  assumes "I db"
    and "\<And>env1 nextDue zone. fst (CountReservations (mc_instance cfg) (ae_flt env 0) (KP_ID cm) (HN_ID ch) [ReservationPending, ReservationConfirmed] db) \<le> 0 \<Longrightarrow>
          (nextDue, zone) = next_slot cfg ws (LastReservationAt (mc_instance cfg) (ae_flt env 1) (KP_ID cm) (HN_ID ch) db)
            (wrap64 (wrap64 (KP_IntervalMinutes cm * (int (length (AX_Replies ad)) + 1)) * minute_ns)) \<Longrightarrow>
          InDailyWindow zone nextDue (KP_StartHour cm) (KP_StartMinute cm) (KP_EndHour cm) (KP_EndMinute cm) \<Longrightarrow>
          I (reserve (mc_instance cfg) env1 now lead cm ad ch nextDue db)"
  shows "I (plan_channel cfg env now lead cm ad ws ch db)"
  using assms by (auto simp: plan_channel_def Let_def not_less split: prod.split)

lemma docs_of_plan:
  assumes "mc_instance cfg \<noteq> j"
  shows "docs_of j (plan_channel cfg env now lead cm ad ws ch db) = docs_of j db"
  by (rule plan_channel_rule, simp, rule reserve_rule) (simp_all add: docs_of_inserts assms)

interpretation isolated: adm_contract bcfg "\<lambda>db. bc_inst bcfg \<noteq> j \<longrightarrow> docs_of j db = D" "\<lambda>_. True" "\<lambda>_. True" "\<lambda>_. True" "\<lambda>_. True" for bcfg j D
  by unfold_locales (simp_all add: put_schedule_def docs_of_updates docs_of_inserts docs_of_replies docs_of_plan)

text \<open>(C32) The bot of one instance never changes a document of another, although all are in the same collections:
  whatever the ticks, jobs, restarts, failures and updates from Telegram.\<close>

theorem instances_isolated:
  assumes "j \<noteq> bc_inst cfg"
  shows "docs_of j (bt_db (fold (adm_step cfg) evs b)) = docs_of j (bt_db b)"
  using isolated.run_keeps_inv [where evs = evs and b = b and D = "docs_of j (bt_db b)"] assms by (simp add: tick_ok_all)

text \<open>A bot of instance \<open>a\<close> is told to delete the channel of instance \<open>b\<close>.\<close>

definition ex_cfg :: bot_cfg where
  "ex_cfg = \<lparr>bc_cfg = \<lparr>mc_instance = ''a'', mc_ownerID = 7, mc_loc = 0\<rparr>, bc_ToLower = (\<lambda>s. s)\<rparr>"

definition ex_env :: "time \<Rightarrow> adm_env" where
  "ex_env t = \<lparr>ae_io = (\<lambda>_. \<lparr>io_flt = (\<lambda>_. None), io_now = (\<lambda>_. t), io_uuid = (\<lambda>_. ''u'')\<rparr>), ae_tg = (\<lambda>_. Inr 1)\<rparr>"

definition ex_channel :: "uuid \<Rightarrow> adm_Channel" where
  "ex_channel i = \<lparr>HN_ID = ''h'', HN_InstanceID = i, HN_TelegramID = 5, HN_Username = [], HN_Title = [], HN_MemberCount = 0, HN_Status = ChannelActive,
     HN_TagIDs = [], HN_CreatedAt = 0, HN_DeletedAt = None\<rparr>"

definition ex_db :: adm_db where
  "ex_db = \<lparr>channels = [ex_channel ''b''], tags = [], adm_campaigns = [], advertisements = [], scheduled_jobs = [], reservations = [], campaign_templates = [],
     settings = [], audit_logs = []\<rparr>"

definition ex_bot :: "adm_db \<Rightarrow> adm_bot" where
  "ex_bot db = \<lparr>bt_adm = \<lparr>am_db = db, am_running = [], am_calls = []\<rparr>, bt_state = (\<lambda>_. idle), bt_ctx = (\<lambda>_ _. [])\<rparr>"

theorem instances_isolated_witness:
  "id_channels (docs_of ''b'' (bt_db (fold (adm_step ex_cfg) [EvButton 7 ''ch_del:h'' (ex_env 0)] (ex_bot ex_db)))) = [ex_channel ''b'']"
  using instances_isolated [of "''b''" ex_cfg "[EvButton 7 ''ch_del:h'' (ex_env 0)]" "ex_bot ex_db"]
  by (simp add: ex_cfg_def docs_of_def ex_bot_def ex_db_def bt_db_def ex_channel_def)

text \<open>A campaign from 8 to 23 hours with a post every hour, and its last reservation, at 22 hours.\<close>

definition ex_campaign :: adm_Campaign where
  "ex_campaign = \<lparr>KP_ID = ''c'', KP_InstanceID = ''a'', KP_Name = [], KP_Status = CampaignRunning, KP_StartHour = 8, KP_StartMinute = 0, KP_EndHour = 23,
     KP_EndMinute = 0, KP_IntervalMinutes = 60, KP_DeleteAfterMinutes = 0, KP_RotationMinutes = 0, KP_EndAt = None, KP_TargetTagIDs = [],
     KP_TargetChannelIDs = [''h''], KP_MinMemberCount = 0, KP_TotalImpressions = 0, KP_CreatedAt = 0, KP_DeletedAt = None\<rparr>"

definition ex_ad :: Advertisement where
  "ex_ad = \<lparr>AX_ID = ''d'', AX_InstanceID = ''a'', AX_CampaignID = ''c'', AX_Name = [], AX_SourceChatID = 7, AX_MainMessageID = 3, AX_Replies = [],
     AX_KeepAsLastMessage = False, AX_PinMessage = False, AX_DeletePreviousOnRepost = False, AX_IsActive = True\<rparr>"

definition ex_reservation :: Reservation where
  "ex_reservation = zero_reservation\<lparr>RS_ID := ''r'', RS_InstanceID := ''a'', RS_CampaignID := ''c'', RS_AdvertisementID := ''d'', RS_ChannelID := ''h'',
     RS_Status := ReservationSent, RS_ScheduledAt := 79200000000000, RS_LiveMessageIDs := [1], RS_PostedMessageIDs := [1]\<rparr>"

definition ex_evening :: adm_db where
  "ex_evening = ex_db\<lparr>channels := [ex_channel ''a''], adm_campaigns := [ex_campaign], advertisements := [ex_ad], reservations := [ex_reservation]\<rparr>"

text \<open>A tick at 10 hours of the next day.\<close>

definition ex_tick :: adm_event where
  "ex_tick = EvTick (ex_env 122400000000000) (\<lambda>_ _. ex_env 122400000000000)"

section \<open>Types\<close>

text \<open>Schedules are clock times with a positive interval; a reply stays for at least a minute; a reservation has at most
  the post and one reply on show, both of which it has posted; the reminder is not negative.\<close>

definition ad_typed :: "Advertisement \<Rightarrow> bool" where
  "ad_typed a \<longleftrightarrow> (\<forall>r \<in> set (AX_Replies a). 1 \<le> RY_DurationMinutes r)"

definition reservation_typed :: "Reservation \<Rightarrow> bool" where
  "reservation_typed r \<longleftrightarrow> length (RS_LiveMessageIDs r) \<le> 2 \<and> set (RS_LiveMessageIDs r) \<subseteq> set (RS_PostedMessageIDs r)"

definition docs_typed :: "adm_db \<Rightarrow> bool" where
  "docs_typed db \<longleftrightarrow>
     (\<forall>c \<in> set (adm_campaigns db). schedule_ok (schedule_of c)) \<and> (\<forall>t \<in> set (campaign_templates db). schedule_ok (template_schedule t)) \<and>
     (\<forall>a \<in> set (advertisements db). ad_typed a) \<and> (\<forall>r \<in> set (reservations db). reservation_typed r) \<and>
     (\<forall>st \<in> set (settings db). 0 \<le> BS_ReminderMinutesBefore st)"

lemma typed_other:
  assumes "docs_typed db"
  shows "docs_typed (snd (UpdateChannel inst flt i fh db))" "docs_typed (snd (SetTagInactive inst flt i db))" "docs_typed (snd (set_job inst flt i fj db))"
    "docs_typed (snd (CreateTag inst io tg db))" "docs_typed (snd (CreateJob inst io job db))" "docs_typed (LogAudit inst io e db)"
    "docs_typed (snd (adm_CreateChannel inst io h db))"
  using assms
  by (simp_all add: docs_typed_def UpdateChannel_def SetTagInactive_def set_job_def CreateTag_def CreateJob_def LogAudit_def adm_CreateChannel_def Let_def split_beta
      split: option.split sum.split prod.split)

lemma typed_campaign:
  assumes "docs_typed db" "\<And>c. schedule_ok (schedule_of c) \<Longrightarrow> schedule_ok (schedule_of (fc c))"
  shows "docs_typed (snd (adm_UpdateCampaign inst flt i fc db))"
  using assms by (simp add: docs_typed_def adm_UpdateCampaign_def split_beta) (rule col_UpdateOne_all, simp_all)

lemma typed_ad:
  assumes "docs_typed db" "\<And>a. ad_typed a \<Longrightarrow> ad_typed (fa a)"
  shows "docs_typed (snd (UpdateAd inst flt i fa db))"
  using assms by (simp add: docs_typed_def UpdateAd_def split_beta) (rule col_UpdateOne_all, simp_all)

lemma typed_reservation:
  assumes "docs_typed db" "\<And>r. reservation_typed r \<Longrightarrow> reservation_typed (fr r)"
  shows "docs_typed (snd (set_reservation inst flt i fr db))"
  using assms by (simp add: docs_typed_def set_reservation_def split_beta) (rule col_UpdateOne_all, simp_all)

lemma typed_settings:
  assumes "docs_typed db"
  shows "0 \<le> n \<Longrightarrow> docs_typed (snd (UpdateSettings inst flt (\<lambda>b. b\<lparr>BS_ReminderMinutesBefore := n\<rparr>) db))"
  using assms by (simp add: docs_typed_def UpdateSettings_def split_beta) (rule col_UpdateOne_all, simp_all)

lemma in_remove_first: "d \<in> set (remove_first P ds) \<Longrightarrow> d \<in> set ds"
  by (induction ds) (auto split: if_splits)

lemma in_InsertOne: "d \<in> set (snd (col_InsertOne flt key d1 ds)) \<Longrightarrow> d = d1 \<or> d \<in> set ds"
  by (auto simp: col_InsertOne_def split: option.splits if_splits)

lemma InsertOne_same: "col_InsertOne flt key d1 ds = (Inl e, ds1) \<Longrightarrow> ds1 = ds"
  by (auto simp: col_InsertOne_def split: option.splits if_splits)

lemma in_InsertOne_Inr: "col_InsertOne flt key d1 ds = (Inr u, ds1) \<Longrightarrow> d \<in> set ds1 \<Longrightarrow> d = d1 \<or> d \<in> set ds"
  using in_InsertOne [of d flt key d1 ds] by simp

lemma typed_inserts:
  assumes "docs_typed db"
  shows "schedule_ok (schedule_of c) \<Longrightarrow> docs_typed (snd (adm_CreateCampaign inst io c db))"
    "schedule_ok (template_schedule t) \<Longrightarrow> docs_typed (snd (CreateTemplate inst io t db))"
    "AX_Replies a = [] \<Longrightarrow> docs_typed (snd (CreateAd inst io a db))" "RS_LiveMessageIDs r = [] \<Longrightarrow> docs_typed (snd (CreateReservation inst io r db))"
    "docs_typed (DeleteTemplate inst flt i db)" "docs_typed (snd (GetSettings inst io db))"
proof -
  show "schedule_ok (schedule_of c) \<Longrightarrow> docs_typed (snd (adm_CreateCampaign inst io c db))"
    using assms by (auto simp: docs_typed_def adm_CreateCampaign_def Let_def schedule_of_def split: prod.split sum.split dest!: in_InsertOne_Inr)
  show "schedule_ok (template_schedule t) \<Longrightarrow> docs_typed (snd (CreateTemplate inst io t db))"
    using assms by (auto simp: docs_typed_def CreateTemplate_def split_beta template_schedule_def dest!: in_InsertOne)
  show "AX_Replies a = [] \<Longrightarrow> docs_typed (snd (CreateAd inst io a db))"
    using assms by (auto simp: docs_typed_def CreateAd_def Let_def ad_typed_def split: prod.split sum.split dest!: in_InsertOne_Inr)
  show "RS_LiveMessageIDs r = [] \<Longrightarrow> docs_typed (snd (CreateReservation inst io r db))"
    using assms by (auto simp: docs_typed_def CreateReservation_def Let_def reservation_typed_def split: prod.split sum.split dest!: in_InsertOne_Inr)
  show "docs_typed (DeleteTemplate inst flt i db)"
    using assms by (auto simp: docs_typed_def DeleteTemplate_def split: option.split dest!: in_remove_first)
  show "docs_typed (snd (GetSettings inst io db))"
    using assms by (auto simp: docs_typed_def GetSettings_def Let_def split: sum.split dest!: in_InsertOne)
qed

lemma typed_posts:
  assumes "docs_typed db"
  shows "docs_typed (snd (SetReservationMainPosted inst flt i m db))" "docs_typed (snd (SetReservationReplyPosted inst io i m idx db))"
    "docs_typed (snd (SetReservationLiveMessage inst io i [m] db))" "1 \<le> dur \<Longrightarrow> docs_typed (snd (AppendAdReply inst io i m dur db))"
proof -
  have res: "reservation_typed r" if "FindReservation inst f i db = Inr r" for f r
    using that assms by (auto simp: FindReservation_def docs_typed_def dest: col_FindOne_in)
  have ad: "ad_typed a" if "FindAd inst f i db = Inr a" for f a
    using that assms by (auto simp: FindAd_def docs_typed_def dest: col_FindOne_in)
  show "docs_typed (snd (SetReservationMainPosted inst flt i m db))" "docs_typed (snd (SetReservationLiveMessage inst io i [m] db))"
    using assms by (auto simp: SetReservationMainPosted_def SetReservationLiveMessage_def reservation_typed_def split: sum.split intro!: typed_reservation)
  show "docs_typed (snd (SetReservationReplyPosted inst io i m idx db))"
    using assms
    by (auto simp: SetReservationReplyPosted_def Let_def reservation_typed_def split: sum.split list.split intro!: typed_reservation
        dest!: res [unfolded reservation_typed_def])
  show "1 \<le> dur \<Longrightarrow> docs_typed (snd (AppendAdReply inst io i m dur db))"
    using assms ad by (auto simp: AppendAdReply_def ReplaceAdReplies_def ad_typed_def split: sum.split intro!: typed_ad)
qed

lemma typed_plan: "docs_typed db \<Longrightarrow> docs_typed (plan_channel cfg env now lead cm ad ws ch db)"
  by (rule plan_channel_rule, assumption, rule reserve_rule) (simp_all add: typed_other typed_inserts zero_reservation_def)

interpretation typed: adm_contract bcfg docs_typed "\<lambda>_. True" "\<lambda>_. True" "\<lambda>_. True" schedule_ok for bcfg
proof unfold_locales
  fix db flt i and fc :: "adm_Campaign \<Rightarrow> adm_Campaign"
  assume "docs_typed db" "\<And>c. schedule_of (fc c) = schedule_of c \<and> KP_ID (fc c) = KP_ID c \<and> KP_InstanceID (fc c) = KP_InstanceID c"
  then show "docs_typed (snd (adm_UpdateCampaign (bc_inst bcfg) flt i fc db))" by (simp add: typed_campaign)
next
  fix db flt i and f :: "Reservation \<Rightarrow> Reservation"
  assume db: "docs_typed db" and f: "\<And>r. RS_InstanceID (f r) = RS_InstanceID r \<and> RS_CampaignID (f r) = RS_CampaignID r \<and> RS_ChannelID (f r) = RS_ChannelID r \<and>
          RS_ScheduledAt (f r) = RS_ScheduledAt r \<and> RS_LiveMessageIDs (f r) \<in> {RS_LiveMessageIDs r, []} \<and> RS_PostedMessageIDs (f r) = RS_PostedMessageIDs r \<and>
          (is_open (f r) \<longrightarrow> is_open r)"
  have "reservation_typed (f r)" if "reservation_typed r" for r using f [of r] that by (auto simp: reservation_typed_def)
  then show "docs_typed (snd (set_reservation (bc_inst bcfg) flt i f db))" by (rule typed_reservation [OF db])
next
  fix db a rs flt i
  assume db: "docs_typed db" and "a \<in> set (advertisements db)" "set rs \<subseteq> set (AX_Replies a)"
  then have "\<forall>r \<in> set rs. 1 \<le> RY_DurationMinutes r" by (auto simp: docs_typed_def ad_typed_def)
  then show "docs_typed (snd (ReplaceAdReplies (bc_inst bcfg) flt i rs db))"
    unfolding ReplaceAdReplies_def by (intro typed_ad [OF db]) (simp add: ad_typed_def)
next
  fix db flt i and fa :: "Advertisement \<Rightarrow> Advertisement"
  assume db: "docs_typed db" and "\<And>a. AX_Replies (fa a) = AX_Replies a \<and> AX_InstanceID (fa a) = AX_InstanceID a \<and> AX_CampaignID (fa a) = AX_CampaignID a"
  then show "docs_typed (snd (UpdateAd (bc_inst bcfg) flt i fa db))" by (intro typed_ad [OF db]) (simp add: ad_typed_def)
next
  fix db t
  assume "docs_typed db" "t \<in> set (campaign_templates db)"
  then show "schedule_ok (template_schedule t)" by (simp add: docs_typed_def)
qed (simp_all add: typed_other typed_campaign typed_settings typed_inserts typed_posts typed_plan)

text \<open>(C31) In every history from typed documents, whatever fails, the documents stay typed: every campaign and template has
  a schedule of clock times with a positive interval, every reply stays for at least a minute, every reservation has
  at most two messages on show, which are among those it has posted.\<close>

theorem documents_typed:
  assumes "docs_typed (bt_db b)"
  shows "docs_typed (bt_db (fold (adm_step cfg) evs b))"
  using typed.run_keeps_inv [of evs b cfg] assms by (simp add: tick_ok_all)

theorem documents_typed_witness:
  "docs_typed (bt_db (fold (adm_step ex_cfg) [ex_tick] (ex_bot ex_evening)))"
  using documents_typed [of "ex_bot ex_evening" ex_cfg "[ex_tick]"]
  by (simp add: docs_typed_def ex_bot_def bt_db_def ex_evening_def ex_db_def ex_campaign_def ex_ad_def ex_reservation_def schedule_ok_def schedule_of_def clock_def
      ad_typed_def reservation_typed_def)

section \<open>Reservations\<close>

definition no_fault :: "adm_env \<Rightarrow> bool" where
  "no_fault env \<longleftrightarrow> (\<forall>k. ae_flt env k = None)"

lemma no_fault_shift: "no_fault env \<Longrightarrow> no_fault (ae_shift k env)"
  by (simp add: no_fault_def ae_flt_def ae_shift_def)

definition open_of :: "uuid \<Rightarrow> uuid \<Rightarrow> uuid \<Rightarrow> adm_db \<Rightarrow> Reservation list" where
  "open_of inst c h db = filter (\<lambda>r. RS_InstanceID r = inst \<and> RS_CampaignID r = c \<and> RS_ChannelID r = h \<and> is_open r) (reservations db)"

text \<open>Statements on other collections.\<close>

lemma reservations_other [simp]:
  "reservations (snd (UpdateChannel inst flt i fh db)) = reservations db" "reservations (snd (SetTagInactive inst flt i db)) = reservations db"
  "reservations (snd (adm_UpdateCampaign inst flt i fc db)) = reservations db" "reservations (snd (UpdateAd inst flt i fa db)) = reservations db"
  "reservations (snd (set_job inst flt i fj db)) = reservations db" "reservations (snd (UpdateSettings inst flt fs db)) = reservations db"
  "reservations (snd (CreateTag inst io tg db)) = reservations db" "reservations (snd (CreateJob inst io job db)) = reservations db"
  "reservations (LogAudit inst io e db) = reservations db" "reservations (snd (adm_CreateChannel inst io h db)) = reservations db"
  "reservations (snd (adm_CreateCampaign inst io c db)) = reservations db" "reservations (snd (CreateTemplate inst io t db)) = reservations db"
  "reservations (snd (CreateAd inst io a db)) = reservations db" "reservations (DeleteTemplate inst flt i db) = reservations db"
  "reservations (snd (GetSettings inst io db)) = reservations db" "reservations (snd (ReplaceAdReplies inst flt i rs db)) = reservations db"
  "reservations (snd (AppendAdReply inst io i m dur db)) = reservations db"
  by (simp_all add: UpdateChannel_def SetTagInactive_def adm_UpdateCampaign_def UpdateAd_def set_job_def UpdateSettings_def CreateTag_def CreateJob_def LogAudit_def
      adm_CreateChannel_def adm_CreateCampaign_def CreateTemplate_def CreateAd_def DeleteTemplate_def GetSettings_def ReplaceAdReplies_def AppendAdReply_def
      split_beta Let_def split: option.split sum.split prod.split)

lemma col_UpdateOne_filter_le:
  assumes "\<And>d. Q (f d) \<Longrightarrow> Q d"
  shows "length (filter Q (snd (col_UpdateOne flt P f docs))) \<le> length (filter Q docs)"
  using assms by (auto simp: col_UpdateOne_def UpdateOne_def split: option.splits sum.splits dest!: update_first_Inr)

lemma open_of_set:
  assumes "\<And>r. RS_InstanceID (f r) = RS_InstanceID r \<and> RS_CampaignID (f r) = RS_CampaignID r \<and> RS_ChannelID (f r) = RS_ChannelID r \<and> (is_open (f r) \<longrightarrow> is_open r)"
  shows "length (open_of inst c h (snd (set_reservation inst1 flt i f db))) \<le> length (open_of inst c h db)"
  unfolding open_of_def set_reservation_def split_beta Let_def snd_conv
  by (simp, rule col_UpdateOne_filter_le) (use assms in metis)

lemma open_of_posts:
  "length (open_of inst c h (snd (SetReservationMainPosted inst1 flt i m db))) \<le> length (open_of inst c h db)"
  "length (open_of inst c h (snd (SetReservationReplyPosted inst1 io i m idx db))) \<le> length (open_of inst c h db)"
  "length (open_of inst c h (snd (SetReservationLiveMessage inst1 io i ms db))) \<le> length (open_of inst c h db)"
  by (auto simp: SetReservationMainPosted_def SetReservationReplyPosted_def SetReservationLiveMessage_def Let_def is_open_def split: sum.split intro!: open_of_set)

lemma open_of_create:
  "length (open_of inst c h (snd (CreateReservation inst io r db))) \<le>
     length (open_of inst c h db) + (if RS_CampaignID r = c \<and> RS_ChannelID r = h then 1 else 0)"
  by (auto simp: open_of_def CreateReservation_def Let_def col_InsertOne_def split: option.split)

definition one_open :: "uuid \<Rightarrow> adm_db \<Rightarrow> bool" where
  "one_open inst db \<longleftrightarrow> (\<forall>c h. length (open_of inst c h db) \<le> 1)"

lemma one_open_le: "one_open inst db \<Longrightarrow> (\<And>c h. length (open_of inst c h db1) \<le> length (open_of inst c h db)) \<Longrightarrow> one_open inst db1"
  unfolding one_open_def using le_trans by blast

lemma one_open_same: "one_open inst db \<Longrightarrow> reservations db1 = reservations db \<Longrightarrow> one_open inst db1"
  by (simp add: one_open_def open_of_def)

lemma one_open_plan:
  assumes db: "one_open (mc_instance cfg) db" and env: "no_fault env"
  shows "one_open (mc_instance cfg) (plan_channel cfg env now lead cm ad ws ch db)"
proof (rule plan_channel_rule [where I = "one_open (mc_instance cfg)", OF db], rule reserve_rule)
  fix io nextDue
  assume "fst (CountReservations (mc_instance cfg) (ae_flt env 0) (KP_ID cm) (HN_ID ch) [ReservationPending, ReservationConfirmed] db) \<le> 0"
  then have none: "open_of (mc_instance cfg) (KP_ID cm) (HN_ID ch) db = []"
    using env by (simp add: CountReservations_def CountDocuments_def no_fault_def open_of_def is_open_def)
  show "one_open (mc_instance cfg) (snd (CreateReservation (mc_instance cfg) io (zero_reservation\<lparr>RS_CampaignID := KP_ID cm, RS_AdvertisementID := AX_ID ad,
      RS_ChannelID := HN_ID ch, RS_ScheduledAt := nextDue\<rparr>) db))" (is "one_open _ ?db")
    unfolding one_open_def
  proof (intro allI)
    fix c h
    show "length (open_of (mc_instance cfg) c h ?db) \<le> 1"
      using open_of_create [of "mc_instance cfg" c h io _ db, THEN order_trans] none db
      by (cases "KP_ID cm = c \<and> HN_ID ch = h") (auto simp: one_open_def intro!: open_of_create [THEN order_trans])
  qed
qed (simp add: one_open_same)

interpretation reserved: adm_contract bcfg "one_open (bc_inst bcfg)" "\<lambda>_. True" "\<lambda>_. True" no_fault "\<lambda>_. True" for bcfg
proof unfold_locales
  fix db flt i and f :: "Reservation \<Rightarrow> Reservation"
  assume db: "one_open (bc_inst bcfg) db" and f: "\<And>r. RS_InstanceID (f r) = RS_InstanceID r \<and> RS_CampaignID (f r) = RS_CampaignID r \<and> RS_ChannelID (f r) = RS_ChannelID r \<and>
          RS_ScheduledAt (f r) = RS_ScheduledAt r \<and> RS_LiveMessageIDs (f r) \<in> {RS_LiveMessageIDs r, []} \<and> RS_PostedMessageIDs (f r) = RS_PostedMessageIDs r \<and>
          (is_open (f r) \<longrightarrow> is_open r)"
  show "one_open (bc_inst bcfg) (snd (set_reservation (bc_inst bcfg) flt i f db))"
    by (rule one_open_le [OF db], rule open_of_set) (use f in blast)
qed (auto simp: one_open_plan no_fault_shift intro: one_open_same one_open_le open_of_posts)

text \<open>(C33) As long as no statement of a tick fails, a campaign has at most one open reservation (pending or confirmed) in a
  channel, in every history: planning looks before it reserves, and nothing opens a reservation again.\<close>

theorem one_open_reservation:
  assumes "\<forall>ev \<in> set evs. tick_ok no_fault ev" "\<And>c h. length (open_of (bc_inst cfg) c h (bt_db b)) \<le> 1"
  shows "length (open_of (bc_inst cfg) c h (bt_db (fold (adm_step cfg) evs b))) \<le> 1"
  using reserved.run_keeps_inv [where evs = evs and b = b and bcfg = cfg] assms by (simp add: one_open_def)

lemma ex_no_fault: "no_fault (ex_env t)"
  by (simp add: no_fault_def ae_flt_def ex_env_def)

theorem one_open_reservation_witness:
  "length (open_of ''a'' ''c'' ''h'' (bt_db (fold (adm_step ex_cfg) [ex_tick, ex_tick] (ex_bot (ex_evening\<lparr>reservations := []\<rparr>))))) \<le> 1"
proof -
  have "\<forall>ev \<in> set [ex_tick, ex_tick]. tick_ok no_fault ev" by (simp add: ex_tick_def tick_ok_def ex_no_fault)
  from one_open_reservation [OF this, of ex_cfg "ex_bot (ex_evening\<lparr>reservations := []\<rparr>)" "''c''" "''h''"] show ?thesis
    by (simp add: open_of_def ex_bot_def bt_db_def ex_cfg_def)
qed

section \<open>A campaign that stops\<close>

text \<open>The times of the reservations of a campaign in a channel.\<close>

definition slots_of :: "uuid \<Rightarrow> uuid \<Rightarrow> uuid \<Rightarrow> adm_db \<Rightarrow> time list" where
  "slots_of inst c h db = map RS_ScheduledAt (filter (\<lambda>r. RS_InstanceID r = inst \<and> RS_CampaignID r = c \<and> RS_ChannelID r = h) (reservations db))"

lemma sort_desc_hd:
  assumes "sort_desc key xs = y # ys"
  shows "key y = Max (key ` set xs)"
proof -
  have set: "set xs = set (y # ys)" unfolding assms [symmetric] by (simp add: sort_desc_def)
  have "sorted (map (\<lambda>d. - key d) (y # ys))" unfolding assms [symmetric] sort_desc_def by simp
  then have "key d \<le> key y" if "d \<in> set xs" for d using that set by auto
  moreover have "y \<in> set xs" using set by simp
  ultimately show ?thesis by (intro Max_eqI [symmetric]) auto
qed

lemma LastReservationAt_slots:
  assumes "slots_of inst c h db \<noteq> []"
  shows "LastReservationAt inst None c h db = Some (Max (set (slots_of inst c h db)))"
proof -
  define rs where "rs = filter (\<lambda>r. RS_InstanceID r = inst \<and> RS_CampaignID r = c \<and> RS_ChannelID r = h) (reservations db)"
  have "rs \<noteq> []" using assms by (simp add: slots_of_def rs_def)
  moreover have "set (sort_desc RS_ScheduledAt rs) = set rs" by (simp add: sort_desc_def)
  ultimately have "sort_desc RS_ScheduledAt rs \<noteq> []" by (metis set_empty)
  then obtain y ys where y: "sort_desc RS_ScheduledAt rs = y # ys" by (cases "sort_desc RS_ScheduledAt rs") auto
  have "Max (set (slots_of inst c h db)) = RS_ScheduledAt y" using sort_desc_hd [OF y] by (simp add: slots_of_def rs_def)
  then show ?thesis using y by (simp add: LastReservationAt_def rs_def)
qed

lemma col_UpdateOne_map_filter:
  assumes "\<And>d. Q (f d) = Q d \<and> g (f d) = g d"
  shows "map g (filter Q (snd (col_UpdateOne flt P f docs))) = map g (filter Q docs)"
  using assms by (auto simp: col_UpdateOne_def UpdateOne_def split: option.splits sum.splits dest!: update_first_Inr)

lemma slots_of_set:
  assumes "\<And>r. RS_InstanceID (f r) = RS_InstanceID r \<and> RS_CampaignID (f r) = RS_CampaignID r \<and> RS_ChannelID (f r) = RS_ChannelID r \<and> RS_ScheduledAt (f r) = RS_ScheduledAt r"
  shows "slots_of inst c h (snd (set_reservation inst1 flt i f db)) = slots_of inst c h db"
  unfolding slots_of_def set_reservation_def split_beta Let_def snd_conv
  by (simp, rule col_UpdateOne_map_filter) (use assms in metis)

lemma slots_of_posts:
  "slots_of inst c h (snd (SetReservationMainPosted inst1 flt i m db)) = slots_of inst c h db"
  "slots_of inst c h (snd (SetReservationReplyPosted inst1 io i m idx db)) = slots_of inst c h db"
  "slots_of inst c h (snd (SetReservationLiveMessage inst1 io i ms db)) = slots_of inst c h db"
  by (auto simp: SetReservationMainPosted_def SetReservationReplyPosted_def SetReservationLiveMessage_def Let_def split: sum.split intro!: slots_of_set)

text \<open>
  The state in which a campaign of schedule \<open>sd\<close>, whose advertisements have \<open>n\<close> replies, has stopped in a channel: a cycle
  after its last slot is outside its window.
\<close>

definition next_due :: "schedule \<Rightarrow> nat \<Rightarrow> time list \<Rightarrow> time" where
  "next_due sd n slots = Max (set slots) + wrap64 (wrap64 (sd_Interval sd * (int n + 1)) * minute_ns)"

definition stopped :: "uuid \<Rightarrow> uuid \<Rightarrow> uuid \<Rightarrow> schedule \<Rightarrow> nat \<Rightarrow> time list \<Rightarrow> adm_db \<Rightarrow> bool" where
  "stopped inst c h sd n slots db \<longleftrightarrow>
     (\<forall>cm \<in> set (adm_campaigns db). KP_InstanceID cm = inst \<and> KP_ID cm = c \<longrightarrow> schedule_of cm = sd) \<and>
     (\<forall>a \<in> set (advertisements db). AX_InstanceID a = inst \<and> AX_CampaignID a = c \<longrightarrow> length (AX_Replies a) = n) \<and>
     slots_of inst c h db = slots \<and> slots \<noteq> [] \<and>
     \<not> InDailyWindow 0 (next_due sd n slots) (sd_StartHour sd) (sd_StartMinute sd) (sd_EndHour sd) (sd_EndMinute sd)"

lemma stopped_same:
  assumes "stopped inst c h sd n slots db" "adm_campaigns db1 = adm_campaigns db" "advertisements db1 = advertisements db" "slots_of inst c h db1 = slots_of inst c h db"
  shows "stopped inst c h sd n slots db1"
  using assms by (simp add: stopped_def)

lemma other_collections [simp]:
  "adm_campaigns (snd (UpdateChannel inst flt i fh db)) = adm_campaigns db" "advertisements (snd (UpdateChannel inst flt i fh db)) = advertisements db"
  "adm_campaigns (snd (set_job inst flt i fj db)) = adm_campaigns db" "advertisements (snd (set_job inst flt i fj db)) = advertisements db"
  "adm_campaigns (snd (CreateJob inst io job db)) = adm_campaigns db" "advertisements (snd (CreateJob inst io job db)) = advertisements db"
  "adm_campaigns (snd (GetSettings inst io db)) = adm_campaigns db" "advertisements (snd (GetSettings inst io db)) = advertisements db"
  "adm_campaigns (snd (set_reservation inst flt i fr db)) = adm_campaigns db" "advertisements (snd (set_reservation inst flt i fr db)) = advertisements db"
  "adm_campaigns (snd (CreateReservation inst io r db)) = adm_campaigns db" "advertisements (snd (CreateReservation inst io r db)) = advertisements db"
  "adm_campaigns (snd (SetReservationMainPosted inst flt i m db)) = adm_campaigns db" "advertisements (snd (SetReservationMainPosted inst flt i m db)) = advertisements db"
  "adm_campaigns (snd (SetReservationReplyPosted inst io i m idx db)) = adm_campaigns db" "advertisements (snd (SetReservationReplyPosted inst io i m idx db)) = advertisements db"
  "adm_campaigns (snd (SetReservationLiveMessage inst io i ms db)) = adm_campaigns db" "advertisements (snd (SetReservationLiveMessage inst io i ms db)) = advertisements db"
  "advertisements (snd (adm_UpdateCampaign inst flt i fc db)) = advertisements db"
  by (simp_all add: UpdateChannel_def set_job_def CreateJob_def GetSettings_def set_reservation_def CreateReservation_def SetReservationMainPosted_def
      SetReservationReplyPosted_def SetReservationLiveMessage_def adm_UpdateCampaign_def split_beta Let_def split: sum.split prod.split)

lemma slots_of_other: "reservations db1 = reservations db \<Longrightarrow> slots_of inst c h db1 = slots_of inst c h db"
  by (simp add: slots_of_def)

lemma stopped_ops:
  assumes "stopped inst c h sd n slots db"
  shows "stopped inst c h sd n slots (snd (CreateJob inst io job db))" "stopped inst c h sd n slots (snd (UpdateChannel inst flt i fh db))"
    "stopped inst c h sd n slots (snd (set_job inst flt i fj db))" "stopped inst c h sd n slots (snd (GetSettings inst io db))"
  by (simp_all add: stopped_same [OF assms] slots_of_def)

lemma stopped_posts:
  assumes "stopped inst c h sd n slots db"
  shows "stopped inst c h sd n slots (snd (SetReservationMainPosted inst flt i m db))" "stopped inst c h sd n slots (snd (SetReservationReplyPosted inst io i m idx db))"
    "stopped inst c h sd n slots (snd (SetReservationLiveMessage inst io i ms db))"
  by (simp_all add: stopped_same [OF assms] slots_of_posts)

lemma stopped_plan:
  assumes st: "stopped (mc_instance cfg) c h sd n slots db" and cm: "KP_ID cm = c \<longrightarrow> schedule_of cm = sd"
    and ad: "AX_CampaignID ad = c \<longrightarrow> length (AX_Replies ad) = n" "AX_CampaignID ad = KP_ID cm" and env: "no_fault env"
  shows "stopped (mc_instance cfg) c h sd n slots (plan_channel cfg env now lead cm ad ws ch db)"
proof (rule plan_channel_rule [where I = "stopped (mc_instance cfg) c h sd n slots", OF st], rule reserve_rule)
  fix io nextDue zone
  assume slot: "(nextDue, zone) = next_slot cfg ws (LastReservationAt (mc_instance cfg) (ae_flt env 1) (KP_ID cm) (HN_ID ch) db)
            (wrap64 (wrap64 (KP_IntervalMinutes cm * (int (length (AX_Replies ad)) + 1)) * minute_ns))"
    and win: "InDailyWindow zone nextDue (KP_StartHour cm) (KP_StartMinute cm) (KP_EndHour cm) (KP_EndMinute cm)"
  have other: "KP_ID cm = c \<Longrightarrow> HN_ID ch \<noteq> h"
  proof
    assume c: "KP_ID cm = c" and h: "HN_ID ch = h"
    then have sd: "sd = schedule_of cm" and n: "n = length (AX_Replies ad)" using cm ad by auto
    have "LastReservationAt (mc_instance cfg) (ae_flt env 1) (KP_ID cm) (HN_ID ch) db = Some (Max (set slots))"
      using LastReservationAt_slots [of "mc_instance cfg" c h db] st env c h by (simp add: stopped_def no_fault_def)
    with slot have "nextDue = next_due sd n slots" "zone = 0" by (simp_all add: next_slot_def next_due_def sd n schedule_of_def)
    with win st show False by (simp add: stopped_def sd schedule_of_def)
  qed
  show "stopped (mc_instance cfg) c h sd n slots (snd (CreateReservation (mc_instance cfg) io (zero_reservation\<lparr>RS_CampaignID := KP_ID cm,
      RS_AdvertisementID := AX_ID ad, RS_ChannelID := HN_ID ch, RS_ScheduledAt := nextDue\<rparr>) db))"
    using other by (intro stopped_same [OF st]) (auto simp: slots_of_def CreateReservation_def Let_def col_InsertOne_def split: option.split)
qed (rule stopped_ops)

interpretation stalled: sched_contract cfg "stopped (mc_instance cfg) c h sd n slots" "\<lambda>cm. KP_ID cm = c \<longrightarrow> schedule_of cm = sd"
  "\<lambda>a. AX_CampaignID a = c \<longrightarrow> length (AX_Replies a) = n" no_fault for cfg c h sd n slots
proof unfold_locales
  fix db flt i and fc :: "adm_Campaign \<Rightarrow> adm_Campaign"
  assume db: "stopped (mc_instance cfg) c h sd n slots db"
    and f: "\<And>c. schedule_of (fc c) = schedule_of c \<and> KP_ID (fc c) = KP_ID c \<and> KP_InstanceID (fc c) = KP_InstanceID c"
  have "\<forall>cm \<in> set (adm_campaigns (snd (adm_UpdateCampaign (mc_instance cfg) flt i fc db))). KP_InstanceID cm = mc_instance cfg \<and> KP_ID cm = c \<longrightarrow> schedule_of cm = sd"
    unfolding adm_UpdateCampaign_def split_beta Let_def snd_conv
    by (simp, rule col_UpdateOne_all) (use db f in \<open>auto simp: stopped_def\<close>)
  then show "stopped (mc_instance cfg) c h sd n slots (snd (adm_UpdateCampaign (mc_instance cfg) flt i fc db))"
    using db slots_of_other [of "snd (adm_UpdateCampaign (mc_instance cfg) flt i fc db)" db] by (simp add: stopped_def)
next
  fix db flt i and f :: "Reservation \<Rightarrow> Reservation"
  assume db: "stopped (mc_instance cfg) c h sd n slots db"
    and f: "\<And>r. RS_InstanceID (f r) = RS_InstanceID r \<and> RS_CampaignID (f r) = RS_CampaignID r \<and> RS_ChannelID (f r) = RS_ChannelID r \<and>
          RS_ScheduledAt (f r) = RS_ScheduledAt r \<and> RS_LiveMessageIDs (f r) \<in> {RS_LiveMessageIDs r, []} \<and> RS_PostedMessageIDs (f r) = RS_PostedMessageIDs r \<and>
          (is_open (f r) \<longrightarrow> is_open r)"
  show "stopped (mc_instance cfg) c h sd n slots (snd (set_reservation (mc_instance cfg) flt i f db))"
    by (rule stopped_same [OF db], simp, simp, rule slots_of_set) (use f in blast)
qed (simp_all add: stopped_plan no_fault_shift stopped_ops stopped_posts, simp_all add: stopped_def)




end
