(* ===== verification/Spec2Isabelle.thy ===== *)
theory Spec2Isabelle
  imports PaySystem RevenueProps GatewayProps License Rotation FraudProps AdsMoney CommunityProps AdmProps
begin

text \<open>
  CreatorBot is a platform on which users rent Telegram bots. It is a set of Go services that talk
  over NATS and each keep a PostgreSQL database: \<open>botpay\<close> holds the money (wallets in TON and in
  credit), \<open>revenue-service\<close> splits what bots and channels earn between owners and platform,
  \<open>license-service\<close> says which rented bot may run, \<open>webhook-gateway\<close> takes the updates of Telegram and
  hands them to the bots, \<open>fraud-engine\<close> scores users and communities, \<open>ads-bot\<close> sells campaigns and
  channel locks, \<open>admanager-bot\<close> posts an owner's advertisements on a schedule, and a number of bots and managers use them through the clients in \<open>shared-core\<close> and \<open>shared\<close>. This development models the services that carry money, rights and
  traffic, and proves what they guarantee, and where they do not keep what they promise.

  \<^bold>\<open>Conventions.\<close> A Go function is a HOL function with the same name, prefixed by its type or component
  where the bare name is taken. A struct is a record whose fields carry a short prefix (\<open>W_\<close> for
  \<open>Wallet\<close>), an enumeration a datatype or its string. State is passed explicitly: a table is the
  list of its rows in insertion order, a service a record of its tables and caches, and an operation
  returns its result and the new state. An error is a value of \<open>go_error\<close>. What the outside
  answers during a call is an argument of it: \<open>io\<close> has, for each statement of the call, the error of
  the database driver or none, the clock readings and the fresh UUIDs. \<open>int64\<close> is an integer with
  the wrap-around written out (\<open>add64\<close>, \<open>wrap64\<close>); PostgreSQL's \<open>bigint\<close> raises an error instead.
  \<open>float64\<close> is IEEE binary64 over the rationals, rounded after each operation. Loops that the code
  bounds by a list or a batch size are structural; the two loops that shrink a number (\<open>itoa\<close>,
  \<open>ilog2\<close>) and the paging of \<open>batch_loop\<close> have a measure. No definition uses fuel.

  \<^bold>\<open>Theories.\<close>

  \<^item> \<open>GoPrelude\<close>, \<open>GoFloat\<close>, \<open>GoRuntime\<close>: Go's integers, \<open>strconv\<close>, \<open>strings\<close> and floats; errors; gorm's
    \<open>First\<close>, \<open>Create\<close>, \<open>Update\<close> and transactions on lists of rows; the locale \<open>step_invariant\<close>, which
    turns an invariant of one step into one of all histories and which each service interprets.

  \<^item> \<open>PayStore\<close>, with \<open>PayStoreFacts\<close>, \<open>PaySolvency\<close>, \<open>PayRuns\<close>, \<open>PayProps\<close>: the repositories of
    \<open>botpay/internal/store\<close> (wallets, transactions, invoices, withdrawals, transfers). The effect of each
    operation and its atomicity; \<open>pay_step\<close> collects the operations, and every history of it keeps the
    wallets solvent, charges a reference once and credits a blockchain hash once. Completing a
    withdrawal twice, and withdrawing credit, are shown to go wrong.

  \<^item> \<open>PayLedger\<close>: the double-entry ledger and its hash chain (\<open>ledger.go\<close>, \<open>chain.go\<close>, \<open>chainguard\<close>).
    The batched verification decides whether the chain is linked, tampering changes the last hash up
    to a collision, truncation goes unnoticed.

  \<^item> \<open>Consensus\<close>, \<open>ConsensusProps\<close>: the four voting workers and the engine (\<open>botpay/internal/consensus\<close>).
    A locale states what a worker promises and is interpreted for each of them; replays are
    refused, the quorum is met, the order of votes does not matter, and one of the workers can
    never approve with the key it generates.

  \<^item> \<open>WalletService\<close>, \<open>WalletProps\<close>: \<open>botpay/internal/wallet\<close>, each operation a run of \<open>pay_step\<close>.

  \<^item> \<open>PayResponder\<close>, \<open>PayResponderProps\<close>: the NATS handlers with their service keys and amount checks
    (\<open>payresponder\<close>, \<open>shared/pkg/auth\<close>) and the blockchain watcher (\<open>ton\<close>).

  \<^item> \<open>PayBot\<close>, \<open>PayBotProps\<close>: the Telegram bot of botpay with its conversations, keyboards and admin
    operations (\<open>botpay/internal/tgbot\<close>): who reaches which operation, well-formed conversations, the
    round trip of a button, and an overflow from the chat.

  \<^item> \<open>PaySystem\<close>: the three faces of botpay interleaved over one database; the interleaving refines
    the store, so the invariants of the store hold in it.

  \<^item> \<open>PayClient\<close>, \<open>PayClientProps\<close>: the client of the other services (\<open>shared-core/natspayclient\<close>), with
    requests and answers that may be lost.

  \<^item> \<open>Revenue\<close>, \<open>RevenueProps\<close>: \<open>revenue-service\<close> on top of that client. What the engine needs of the
    client is the locale \<open>credit_client\<close>, interpreted on the model of client and botpay; owners are never
    paid more than their settled earnings, shares are exact up to a nano, references are used once.

  \<^item> \<open>Gateway\<close>, \<open>GatewayProps\<close>: \<open>webhook-gateway\<close> and the poller of the bots. The registry refines a map
    (locale \<open>token_registry\<close>), a token bucket lets through no more than burst and rate allow, and the
    updates that the gateway forwards are all dropped by the poller.

  \<^item> \<open>License\<close>: \<open>license-service\<close>. An issued license verifies, a revoked one stays refused until a new
    one is issued, unless a verification overlaps the revocation.

  \<^item> \<open>Rotation\<close>: \<open>shared/pkg/rotation\<close>, the keys accepted after a rotation.

  \<^item> \<open>Mongo\<close>, \<open>Fraud\<close>, \<open>FraudEngine\<close>, \<open>FraudBus\<close>, \<open>FraudProps\<close>: \<open>fraud-engine\<close> over MongoDB collections, with
    the publisher of \<open>member-bot\<close> and the client \<open>shared/pkg/fraudclient\<close>. Scores stay within their
    bounds and the paged recalculation reaches every user once; no profile is ever stored, a join
    counts twice, and no community can be scored high enough for full payment.

  \<^item> \<open>AdsStore\<close>, \<open>AdsBot\<close>, \<open>AdsRental\<close>: the tables, the campaign engine, the conversations and the lock
    rentals of \<open>ads-bot\<close>; \<open>ads_step\<close> is one update, NATS message or timer tick. \<open>AdsFrame\<close> states what a
    step may do to the database as the locale \<open>ads_contract\<close>, through which each handler is followed once;
    \<open>AdsProps\<close> interprets it twice (rewards and charges; activation of rentals) and \<open>AdsMoney\<close> follows the
    rewards into botpay through the locale \<open>payouts\<close>. Every live rental is paid for, a join is rewarded once
    and a settlement round pays exactly what it settles, unless an answer is lost; rewards may exceed the
    budget, and campaigns escape review and payment.

  \<^item> \<open>Community\<close>, \<open>CommunityProps\<close>: \<open>community-service\<close>, the registered communities and the distribution of their
    revenue, followed into \<open>revenue-service\<close>. A campaign is distributed once in a community; but no community
    can be registered, and what a distribution announces is refused by \<open>revenue-service\<close>.

  \<^item> \<open>AdmModels\<close>, \<open>AdmStore\<close>, \<open>AdmScheduler\<close>, \<open>AdmBot\<close>: \<open>admanager-bot\<close>, its documents and window arithmetic, its store,
    the scheduler (\<open>sched_tick\<close> plans and starts jobs, \<open>runJob\<close> is one goroutine) and the owner's conversations;
    \<open>adm_step\<close> is one tick, job, restart or update. \<open>AdmFrame\<close> follows each of them once, in the locales
    \<open>sched_contract\<close> and \<open>adm_contract\<close> (the former extended by the statements of the owner); \<open>AdmProps\<close> interprets
    them four times: documents stay typed, those of other instances untouched, a campaign has one open
    reservation in a channel; and a campaign whose next slot leaves its window has stopped for good.

  \<^bold>\<open>Parameters.\<close> SHA-256, HMAC and Ed25519, \<open>strconv.ParseFloat\<close>, JSON decoding of requests and updates,
  the signer of license tokens, and the shortest decimal of a float (\<open>dec\<close>, for numeric columns) are arguments. Their assumptions are hypotheses of
  the theorems that need them: none for most, no collision for the chain, a valid signature verifies
  for the workers, and that a JSON string does not decode into an update for the poller.

  \<^bold>\<open>Atomicity.\<close> A handler runs to its end before the next one begins; the operations of botpay that
  change money run in a transaction with the wallet row locked. Where the source reads and
  writes without a lock the model splits the operation in two steps (\<open>Verify_load\<close> and
  \<open>Verify_save\<close>).

  \<^bold>\<open>Not modelled.\<close> Process start-up, configuration, logging, metrics, HTTP servers and NATS
  connections; the Telegram, Docker, MTProto and VPN panel interfaces of the other bots and managers
  (\<open>agentmanager\<close>, \<open>apimanager\<close>, \<open>archive-bot\<close>, \<open>botmanager\<close>, \<open>source-service\<close>,
  \<open>uploader-bot\<close>, \<open>vpn-bot\<close>), which consist of calls to them and of text; \<open>image-registry\<close> and
  \<open>log-collector\<close>, which pass data through; SQL migrations; the web dashboard. Worth modelling
  next: the platform store and document store of \<open>shared-core\<close> and the checks of
  \<open>member-bot\<close>.
\<close>

end
